(* ===== verification/Prelude.thy ===== *)
theory Prelude
  imports Complex_Main "HOL-Library.Word" "HOL-Library.Log_Nat" "HOL-Library.Char_ord"
    "HOL-Library.List_Lexorder"
begin

text \<open>
  What the components share: the names of Go's basic types, results that are an error or
  a value, and the functions of the packages \<^verbatim>\<open>strings\<close>, \<^verbatim>\<open>strconv\<close>,
  \<^verbatim>\<open>encoding/hex\<close> and \<^verbatim>\<open>encoding/binary\<close> the program calls. A Go string is the
  list of its bytes, so \<^typ>\<open>string\<close> holds bytes and not code points; the functions
  below read UTF-8 where Go's do.
\<close>

unbundle bit_operations_syntax

type_synonym byte = "8 word"
type_synonym bytes = "8 word list"
type_synonym uint32 = "32 word"

named_theorems go_defs \<open>definitions of the modelled standard library functions\<close>

section \<open>Results\<close>

text \<open>A Go function that returns \<^verbatim>\<open>(value, error)\<close> returns \<open>Inl\<close> of the error or \<open>Inr\<close> of the value.\<close>

definition bindR :: "'e + 'a \<Rightarrow> ('a \<Rightarrow> 'e + 'b) \<Rightarrow> 'e + 'b" where
  "bindR r f = (case r of Inl e \<Rightarrow> Inl e | Inr a \<Rightarrow> f a)"

lemma bindR_simps [simp]:
  "bindR (Inl e) f = Inl e"
  "bindR (Inr a) f = f a"
  by (simp_all add: bindR_def)

lemma bindR_eq_Inr [simp]: "bindR r f = Inr b \<longleftrightarrow> (\<exists>a. r = Inr a \<and> f a = Inr b)"
  by (cases r) auto

lemma bindR_eq_Inl: "bindR r f = Inl e \<longleftrightarrow> r = Inl e \<or> (\<exists>a. r = Inr a \<and> f a = Inl e)"
  by (cases r) auto

lemma bindR_cong [fundef_cong]:
  "r = r' \<Longrightarrow> (\<And>a. r' = Inr a \<Longrightarrow> f a = f' a) \<Longrightarrow> bindR r f = bindR r' f'"
  by (cases r') auto

text \<open>A loop that stops at the first error and collects the values.\<close>

fun mapR :: "('a \<Rightarrow> 'e + 'b) \<Rightarrow> 'a list \<Rightarrow> 'e + 'b list" where
  "mapR f [] = Inr []"
| "mapR f (x # xs) = bindR (f x) (\<lambda>y. bindR (mapR f xs) (\<lambda>ys. Inr (y # ys)))"

lemma mapR_eq_Inr: "mapR f xs = Inr ys \<longleftrightarrow> list_all2 (\<lambda>x y. f x = Inr y) xs ys"
  by (induction xs arbitrary: ys) (auto simp: list_all2_Cons1)

lemma mapR_length: "mapR f xs = Inr ys \<Longrightarrow> length ys = length xs"
  by (simp add: mapR_eq_Inr list_all2_lengthD)

section \<open>Slices that may be nil\<close>

text \<open>
  A nil slice and an empty one differ in a few places (JSON \<^verbatim>\<open>null\<close> against
  \<^verbatim>\<open>[]\<close>, the allowlist); there a slice is an option, with None for nil.
\<close>

type_synonym 'a slice = "'a list option"

definition elems :: "'a slice \<Rightarrow> 'a list" where
  "elems s = (case s of None \<Rightarrow> [] | Some xs \<Rightarrow> xs)"

lemma elems_simps [simp]: "elems None = []" "elems (Some xs) = xs"
  by (simp_all add: elems_def)

section \<open>Bytes and big-endian words\<close>

definition bytes_of_string :: "string \<Rightarrow> bytes" where
  "bytes_of_string s = map of_char s"

lemma length_bytes_of_string [simp]: "length (bytes_of_string s) = length s"
  by (simp add: bytes_of_string_def)

text \<open>\<^verbatim>\<open>binary.BigEndian.Uint32\<close> and \<^verbatim>\<open>PutUint32\<close> on four bytes.\<close>

fun be32 :: "bytes \<Rightarrow> uint32" where
  "be32 (a # b # c # d # _) =
     (push_bit 24 (ucast a) OR push_bit 16 (ucast b) OR push_bit 8 (ucast c) OR ucast d)"
| "be32 _ = 0"

definition put_be32 :: "uint32 \<Rightarrow> bytes" where
  "put_be32 w = [ucast (drop_bit 24 w), ucast (drop_bit 16 w), ucast (drop_bit 8 w), ucast w]"

text \<open>\<^verbatim>\<open>binary.LittleEndian.PutUint64\<close> and \<^verbatim>\<open>Uint64\<close>, with the 64-bit value as an integer.\<close>

definition put_le64 :: "int \<Rightarrow> bytes" where
  "put_le64 n = map (\<lambda>i. word_of_int (n div 2 ^ (8 * i))) [0..<8]"

definition le64 :: "bytes \<Rightarrow> int" where
  "le64 bs = (\<Sum>i<8. uint ((bs @ replicate 8 0) ! i) * 2 ^ (8 * i))"

lemma length_put_be32 [simp]: "length (put_be32 w) = 4"
  by (simp add: put_be32_def)

lemma be32_put_be32 [simp]: "be32 (put_be32 w @ xs) = w"
proof (rule bit_word_eqI)
  fix n :: nat
  assume "n < LENGTH(32)"
  then consider "n < 8" | "8 \<le> n" "n < 16" | "16 \<le> n" "n < 24" | "24 \<le> n" "n < 32"
    by fastforce
  then show "bit (be32 (put_be32 w @ xs)) n = bit w n"
    by cases (auto simp: put_be32_def bit_simps)
qed

lemma be32_put_be32_Nil [simp]: "be32 (put_be32 w) = w"
  using be32_put_be32 [of w "[]"] by simp

lemma put_be32_be32: "put_be32 (be32 (a # b # c # d # xs)) = [a, b, c, d]"
  unfolding put_be32_def
  by (simp, intro conjI; rule bit_word_eqI) (auto simp: bit_simps dest: bit_imp_le_length)

lemma length4E:
  assumes "length bs = 4"
  obtains a b c d where "bs = [a, b, c, d]"
  using assms by (auto simp: numeral_eq_Suc length_Suc_conv)

lemma put_be32_be32' [simp]:
  assumes "length bs = 4"
  shows "put_be32 (be32 bs) = bs"
proof -
  from assms obtain a b c d where "bs = [a, b, c, d]" by (rule length4E)
  then show ?thesis using put_be32_be32 [of a b c d "[]"] by simp
qed

section \<open>strings\<close>

definition has_prefix :: "string \<Rightarrow> string \<Rightarrow> bool" where
  "has_prefix s p = (take (length p) s = p)"

definition has_suffix :: "string \<Rightarrow> string \<Rightarrow> bool" where
  "has_suffix s p = (length p \<le> length s \<and> drop (length s - length p) s = p)"

text \<open>
  The number of bytes of the white space rune (\<^verbatim>\<open>unicode.IsSpace\<close>) a string
  starts with, 0 if it starts with none; and the same for the end, on the reversed string.
\<close>

definition ascii_space :: "char \<Rightarrow> bool" where
  "ascii_space c = (c \<in> {CHR 0x09, CHR 0x0A, CHR 0x0B, CHR 0x0C, CHR 0x0D, CHR '' ''})"

definition space2 :: "char \<Rightarrow> char \<Rightarrow> bool" where
  "space2 a b = (a = CHR 0xC2 \<and> (b = CHR 0x85 \<or> b = CHR 0xA0))"

definition space3 :: "char \<Rightarrow> char \<Rightarrow> char \<Rightarrow> bool" where
  "space3 a b c =
     ((a = CHR 0xE1 \<and> b = CHR 0x9A \<and> c = CHR 0x80)
    \<or> (a = CHR 0xE2 \<and> b = CHR 0x80
        \<and> (of_char c \<in> {0x80..(0x8A::nat)} \<or> c = CHR 0xA8 \<or> c = CHR 0xA9 \<or> c = CHR 0xAF))
    \<or> (a = CHR 0xE2 \<and> b = CHR 0x81 \<and> c = CHR 0x9F)
    \<or> (a = CHR 0xE3 \<and> b = CHR 0x80 \<and> c = CHR 0x80))"

fun lspace :: "string \<Rightarrow> nat" where
  "lspace (a # b # c # _) =
     (if ascii_space a then 1 else if space2 a b then 2 else if space3 a b c then 3 else 0)"
| "lspace [a, b] = (if ascii_space a then 1 else if space2 a b then 2 else 0)"
| "lspace [a] = (if ascii_space a then 1 else 0)"
| "lspace [] = 0"

fun rspace :: "string \<Rightarrow> nat" where
  "rspace (c # b # a # _) =
     (if ascii_space c then 1 else if space2 b c then 2 else if space3 a b c then 3 else 0)"
| "rspace [c, b] = (if ascii_space c then 1 else if space2 b c then 2 else 0)"
| "rspace [c] = (if ascii_space c then 1 else 0)"
| "rspace [] = 0"

lemma lspace_shrinks: "0 < lspace s \<Longrightarrow> length s - lspace s < length s"
  by (cases s rule: lspace.cases) (auto split: if_splits)

lemma rspace_shrinks: "0 < rspace s \<Longrightarrow> length s - rspace s < length s"
  by (cases s rule: rspace.cases) (auto split: if_splits)

function trim_left :: "string \<Rightarrow> string" where
  "trim_left s = (if 0 < lspace s then trim_left (drop (lspace s) s) else s)"
  by pat_completeness auto
termination
  by (relation "measure length") (auto dest: lspace_shrinks)

function trim_right_rev :: "string \<Rightarrow> string" where
  "trim_right_rev s = (if 0 < rspace s then trim_right_rev (drop (rspace s) s) else s)"
  by pat_completeness auto
termination
  by (relation "measure length") (auto dest: rspace_shrinks)

declare trim_left.simps [simp del] trim_right_rev.simps [simp del]

text \<open>\<^verbatim>\<open>strings.TrimSpace\<close>.\<close>

definition trim_space :: "string \<Rightarrow> string" where
  "trim_space s = rev (trim_right_rev (rev (trim_left s)))"

definition blank :: "string \<Rightarrow> bool" where
  "blank s = (trim_space s = [])"

lemma trim_space_Nil [simp]: "trim_space [] = []"
  by (simp add: trim_space_def trim_left.simps trim_right_rev.simps)

lemma blank_Nil [simp]: "blank []"
  by (simp add: blank_def)

text \<open>
  \<^verbatim>\<open>strings.ToUpper\<close> and \<^verbatim>\<open>strings.ToLower\<close>, exact wherever the result is
  pure ASCII (the program only compares the result with ASCII constants): beside the ASCII
  letters, dotless i and long s have an ASCII upper case, dotted I and the Kelvin sign an
  ASCII lower case. Other non-ASCII bytes are kept.
\<close>

definition upper1 :: "char \<Rightarrow> char" where
  "upper1 c = (if CHR ''a'' \<le> c \<and> c \<le> CHR ''z'' then char_of (of_char c - (32::nat)) else c)"

definition lower1 :: "char \<Rightarrow> char" where
  "lower1 c = (if CHR ''A'' \<le> c \<and> c \<le> CHR ''Z'' then char_of (of_char c + (32::nat)) else c)"

fun to_upper :: "string \<Rightarrow> string" where
  "to_upper [] = []"
| "to_upper [c] = [upper1 c]"
| "to_upper (c # d # s) =
     (if c = CHR 0xC4 \<and> d = CHR 0xB1 then CHR ''I'' # to_upper s
      else if c = CHR 0xC5 \<and> d = CHR 0xBF then CHR ''S'' # to_upper s
      else upper1 c # to_upper (d # s))"

fun to_lower :: "string \<Rightarrow> string" where
  "to_lower [] = []"
| "to_lower [c] = [lower1 c]"
| "to_lower [c, d] =
     (if c = CHR 0xC4 \<and> d = CHR 0xB0 then ''i'' else lower1 c # to_lower [d])"
| "to_lower (c # d # e # s) =
     (if c = CHR 0xC4 \<and> d = CHR 0xB0 then CHR ''i'' # to_lower (e # s)
      else if c = CHR 0xE2 \<and> d = CHR 0x84 \<and> e = CHR 0xAA then CHR ''k'' # to_lower s
      else lower1 c # to_lower (d # e # s))"

text \<open>\<^verbatim>\<open>strings.Split(s, sep)\<close> for a one-byte separator: never empty.\<close>

fun split_on :: "char \<Rightarrow> string \<Rightarrow> string list" where
  "split_on sep [] = [[]]"
| "split_on sep (c # s) =
     (case split_on sep s of
        [] \<Rightarrow> [[c]]
      | w # ws \<Rightarrow> if c = sep then [] # w # ws else (c # w) # ws)"

lemma split_on_not_Nil [simp]: "split_on sep s \<noteq> []"
  by (induction s) (auto split: list.splits)

text \<open>\<^verbatim>\<open>strings.Cut(s, sep)\<close>: None when the separator is missing.\<close>

fun cut_at :: "char \<Rightarrow> string \<Rightarrow> (string \<times> string) option" where
  "cut_at sep [] = None"
| "cut_at sep (c # s) =
     (if c = sep then Some ([], s)
      else map_option (\<lambda>(a, b). (c # a, b)) (cut_at sep s))"

lemma cut_at_Some: "cut_at sep s = Some (a, b) \<Longrightarrow> s = a @ sep # b \<and> sep \<notin> set a"
  by (induction s arbitrary: a) (auto split: if_splits)

lemma cut_at_append [simp]: "sep \<notin> set a \<Longrightarrow> cut_at sep (a @ sep # b) = Some (a, b)"
  by (induction a) auto

text \<open>\<^verbatim>\<open>strings.Fields\<close>: the maximal runs without white space.\<close>

function fields_acc :: "string \<Rightarrow> string \<Rightarrow> string list" where
  "fields_acc cur [] = (if cur = [] then [] else [cur])"
| "fields_acc cur (c # s) =
     (if 0 < lspace (c # s)
      then (if cur = [] then [] else [cur]) @ fields_acc [] (drop (lspace (c # s)) (c # s))
      else fields_acc (cur @ [c]) s)"
  by pat_completeness auto
termination
  by (relation "measure (\<lambda>(cur, s). length s)") (auto simp del: lspace.simps dest: lspace_shrinks)

definition str_fields :: "string \<Rightarrow> string list" where
  "str_fields s = fields_acc [] s"

definition str_contains :: "string \<Rightarrow> string \<Rightarrow> bool" where
  "str_contains s p = (\<exists>i \<in> set [0..<Suc (length s)]. take (length p) (drop i s) = p)"

section \<open>strconv\<close>

definition is_digit :: "char \<Rightarrow> bool" where
  "is_digit c = (CHR ''0'' \<le> c \<and> c \<le> CHR ''9'')"

definition digit_val :: "char \<Rightarrow> int" where
  "digit_val c = int (of_char c) - 48"

definition digit_char :: "int \<Rightarrow> char" where
  "digit_char d = char_of (nat (48 + d))"

function dec_str :: "int \<Rightarrow> string" where
  "dec_str n = (if n < 10 then [digit_char n] else dec_str (n div 10) @ [digit_char (n mod 10)])"
  by pat_completeness auto
termination
  by (relation "measure nat") auto

declare dec_str.simps [simp del]

text \<open>\<^verbatim>\<open>strconv.Itoa\<close>, \<^verbatim>\<open>FormatInt(i, 10)\<close>.\<close>

definition int_str :: "int \<Rightarrow> string" where
  "int_str i = (if i < 0 then ''-'' @ dec_str (- i) else dec_str i)"

definition nat_str :: "nat \<Rightarrow> string" where
  "nat_str n = dec_str (int n)"

definition digits_val :: "string \<Rightarrow> int" where
  "digits_val s = foldl (\<lambda>v c. 10 * v + digit_val c) 0 s"

text \<open>\<^verbatim>\<open>ParseUint(s, 10, bits)\<close>: digits only, and the value has to fit.\<close>

definition parse_uint :: "nat \<Rightarrow> string \<Rightarrow> int option" where
  "parse_uint bits s =
     (if s \<noteq> [] \<and> list_all is_digit s \<and> digits_val s < 2 ^ bits then Some (digits_val s) else None)"

text \<open>\<^verbatim>\<open>Atoi\<close> and \<^verbatim>\<open>ParseInt(s, 10, 64)\<close>: an optional sign, digits, and a 64-bit value.\<close>

definition atoi :: "string \<Rightarrow> int option" where
  "atoi s =
     (let (neg, ds) = (case s of c # r \<Rightarrow> if c = CHR ''-'' then (True, r)
                                          else if c = CHR ''+'' then (False, r) else (False, s)
                       | [] \<Rightarrow> (False, [])) in
      if ds = [] \<or> \<not> list_all is_digit ds then None
      else let v = digits_val ds in
        if neg then (if v \<le> 2 ^ 63 then Some (- v) else None)
        else (if v < 2 ^ 63 then Some v else None))"

lemma digit_char_inv:
  assumes "0 \<le> d" "d < 10"
  shows "is_digit (digit_char d)" "digit_val (digit_char d) = d"
proof -
  have n: "nat (48 + d) < 256" "48 \<le> nat (48 + d)" "nat (48 + d) \<le> 57" using assms by linarith+
  then have "(of_char (digit_char d) :: nat) = nat (48 + d)"
    by (simp add: digit_char_def)
  with n(2,3) show "is_digit (digit_char d)" "digit_val (digit_char d) = d"
    using assms by (simp_all add: is_digit_def digit_val_def less_eq_char_def)
qed

lemma digit_val_range: "is_digit c \<Longrightarrow> 0 \<le> digit_val c \<and> digit_val c < 10"
  by (auto simp: is_digit_def digit_val_def less_eq_char_def)

lemma digits_val_snoc: "digits_val (s @ [c]) = 10 * digits_val s + digit_val c"
  by (simp add: digits_val_def)

lemma digits_val_nonneg: "list_all is_digit s \<Longrightarrow> 0 \<le> digits_val s"
proof (induction s rule: rev_induct)
  case Nil
  then show ?case by (simp add: digits_val_def)
next
  case (snoc c s)
  then show ?case using digit_val_range [of c] by (simp add: digits_val_snoc)
qed

lemma dec_str_not_Nil [simp]: "dec_str n \<noteq> []"
  by (subst dec_str.simps) simp

lemma dec_str_digits: "0 \<le> n \<Longrightarrow> list_all is_digit (dec_str n)"
proof (induction n rule: dec_str.induct)
  case (1 n)
  then show ?case by (subst dec_str.simps) (auto simp: digit_char_inv)
qed

lemma digits_val_dec_str [simp]: "0 \<le> n \<Longrightarrow> digits_val (dec_str n) = n"
proof (induction n rule: dec_str.induct)
  case (1 n)
  show ?case
  proof (cases "n < 10")
    case True
    then show ?thesis using 1(2) by (subst dec_str.simps) (simp add: digits_val_def digit_char_inv)
  next
    case False
    with 1 have "digits_val (dec_str (n div 10)) = n div 10" by simp
    with False show ?thesis
      by (subst dec_str.simps) (simp add: digits_val_snoc digit_char_inv)
  qed
qed

lemma nat_str_inject [simp]: "nat_str m = nat_str n \<longleftrightarrow> m = n"
  by (metis digits_val_dec_str nat_str_def of_nat_0_le_iff of_nat_eq_iff)

section \<open>encoding/hex\<close>

definition hex_val :: "char \<Rightarrow> nat option" where
  "hex_val c =
     (if CHR ''0'' \<le> c \<and> c \<le> CHR ''9'' then Some (of_char c - 48)
      else if CHR ''a'' \<le> c \<and> c \<le> CHR ''f'' then Some (of_char c - 87)
      else if CHR ''A'' \<le> c \<and> c \<le> CHR ''F'' then Some (of_char c - 55)
      else None)"

text \<open>\<^verbatim>\<open>hex.DecodeString\<close>; an odd length is an error.\<close>

fun hex_decode :: "string \<Rightarrow> bytes option" where
  "hex_decode [] = Some []"
| "hex_decode [_] = None"
| "hex_decode (a # b # s) =
     (case (hex_val a, hex_val b) of
        (Some x, Some y) \<Rightarrow> map_option ((#) (of_nat (16 * x + y))) (hex_decode s)
      | _ \<Rightarrow> None)"

definition hex_char :: "nat \<Rightarrow> char" where
  "hex_char d = (if d < 10 then char_of (48 + d) else char_of (87 + d))"

text \<open>\<^verbatim>\<open>hex.EncodeToString\<close>: lower case.\<close>

definition hex_encode :: "bytes \<Rightarrow> string" where
  "hex_encode bs = concat (map (\<lambda>b. [hex_char (unat b div 16), hex_char (unat b mod 16)]) bs)"

lemma hex_char_inv: "d < 16 \<Longrightarrow> hex_val (hex_char d) = Some d"
proof -
  assume "d < 16"
  then have "(of_char (hex_char d) :: nat) = (if d < 10 then 48 + d else 87 + d)"
    by (auto simp: hex_char_def)
  with \<open>d < 16\<close> show ?thesis
    by (auto simp: hex_val_def less_eq_char_def)
qed

lemma hex_decode_encode: "hex_decode (hex_encode bs) = Some bs"
proof (induction bs)
  case Nil
  then show ?case by (simp add: hex_encode_def)
next
  case (Cons b bs)
  have "unat b < 256" using unsigned_less [of b] by simp
  then have "unat b div 16 < 16" "unat b mod 16 < 16"
    by (simp_all add: div_less_iff_less_mult)
  then show ?case
    using Cons by (simp add: hex_encode_def hex_char_inv)
qed

section \<open>fmt\<close>

text \<open>
  The verb \<^verbatim>\<open>%q\<close> on a string, exact on ASCII; bytes above 127 are kept as they are.
  It only occurs in messages.
\<close>

definition quote_char :: "char \<Rightarrow> string" where
  "quote_char c =
     (if c = CHR 0x22 then [CHR 0x5C, CHR 0x22]
      else if c = CHR 0x5C then [CHR 0x5C, CHR 0x5C]
      else if c = CHR 0x07 then CHR 0x5C # ''a''
      else if c = CHR 0x08 then CHR 0x5C # ''b''
      else if c = CHR 0x0C then CHR 0x5C # ''f''
      else if c = CHR 0x0A then CHR 0x5C # ''n''
      else if c = CHR 0x0D then CHR 0x5C # ''r''
      else if c = CHR 0x09 then CHR 0x5C # ''t''
      else if c = CHR 0x0B then CHR 0x5C # ''v''
      else if c < CHR 0x20 \<or> c = CHR 0x7F
      then CHR 0x5C # CHR ''x'' # hex_encode [of_nat (of_char c)]
      else [c])"

definition quote :: "string \<Rightarrow> string" where
  "quote s = CHR 0x22 # concat (map quote_char s) @ [CHR 0x22]"

section \<open>Lists updated by key\<close>

text \<open>
  A Go map that the program also iterates over is an association list with distinct keys;
  its order stands for Go's iteration order, which the language leaves open, so a lemma
  for every list covers every order.
\<close>

fun del_key :: "'k \<Rightarrow> ('k \<times> 'v) list \<Rightarrow> ('k \<times> 'v) list" where
  "del_key k [] = []"
| "del_key k ((k', v) # m) = (if k = k' then del_key k m else (k', v) # del_key k m)"

fun put_key :: "'k \<Rightarrow> 'v \<Rightarrow> ('k \<times> 'v) list \<Rightarrow> ('k \<times> 'v) list" where
  "put_key k v [] = [(k, v)]"
| "put_key k v ((k', v') # m) = (if k = k' then (k, v) # m else (k', v') # put_key k v m)"

abbreviation keys_distinct :: "('k \<times> 'v) list \<Rightarrow> bool" where
  "keys_distinct m \<equiv> distinct (map fst m)"

lemma map_of_del_key [simp]: "map_of (del_key k m) k' = (if k' = k then None else map_of m k')"
  by (induction k m rule: del_key.induct) auto

lemma set_del_key: "p \<in> set (del_key k m) \<longleftrightarrow> p \<in> set m \<and> fst p \<noteq> k"
  by (induction k m rule: del_key.induct) auto

lemma dom_del_key: "fst ` set (del_key k m) = fst ` set m - {k}"
  by (induction k m rule: del_key.induct) auto

lemma del_key_distinct [simp]: "keys_distinct m \<Longrightarrow> keys_distinct (del_key k m)"
proof (induction k m rule: del_key.induct)
  case (1 k)
  then show ?case by simp
next
  case (2 k k' v m)
  then show ?case using dom_del_key [of k m] by auto
qed

lemma del_key_absent [simp]: "k \<notin> fst ` set m \<Longrightarrow> del_key k m = m"
  by (induction k m rule: del_key.induct) auto

lemma length_del_key_le: "length (del_key k m) \<le> length m"
  by (induction k m rule: del_key.induct) auto

lemma length_del_key:
  "keys_distinct m \<Longrightarrow> k \<in> fst ` set m \<Longrightarrow> Suc (length (del_key k m)) = length m"
proof (induction k m rule: del_key.induct)
  case (1 k)
  then show ?case by simp
next
  case (2 k k' v m)
  then show ?case by (cases "k = k'") auto
qed

lemma map_of_put_key [simp]: "map_of (put_key k v m) k' = (if k' = k then Some v else map_of m k')"
  by (induction k v m rule: put_key.induct) auto

lemma dom_put_key: "fst ` set (put_key k v m) = insert k (fst ` set m)"
  by (induction k v m rule: put_key.induct) auto

lemma put_key_distinct [simp]: "keys_distinct m \<Longrightarrow> keys_distinct (put_key k v m)"
proof (induction k v m rule: put_key.induct)
  case (1 k v)
  then show ?case by simp
next
  case (2 k v k' v' m)
  then show ?case using dom_put_key [of k v m] by auto
qed

lemma set_put_key_subset: "set (put_key k v m) \<subseteq> insert (k, v) (set m)"
  by (induction k v m rule: put_key.induct) auto

lemma length_put_key:
  "length (put_key k v m) = (if k \<in> fst ` set m then length m else Suc (length m))"
  by (induction k v m rule: put_key.induct) auto

end
