(* ===== verification/Go_Float.thy ===== *)
theory Go_Float
  imports Prelude
begin

text \<open>
  Go's \<^verbatim>\<open>float64\<close>: IEEE 754 binary64 with round-to-nearest-even. A finite value is the
  rational it denotes, and every operation is the exact result rounded by \<open>round64\<close>. The
  two zeros are one value here; the program never divides by a zero it did not test and
  never looks at the sign of a zero. The locale \<open>fp_rounding\<close> states what proofs about
  float code need of the rounding (it is monotone, odd and exact on small integers) and
  is interpreted on the executable rounding.
\<close>

section \<open>Rounding a rational to 53 significant bits\<close>

definition flog2 :: "rat \<Rightarrow> int" where
  "flog2 x = (let (a, b) = quotient_of x; n = bitlen a - bitlen b in if 2 powi n \<le> x then n else n - 1)"

definition round_even :: "rat \<Rightarrow> int" where
  "round_even x =
     (let f = \<lfloor>x\<rfloor>; r = x - of_int f in
      if r < 1 / 2 then f else if 1 / 2 < r then f + 1 else if even f then f else f + 1)"

text \<open>The exponent of the last place; subnormals share the least one.\<close>

definition rexp :: "rat \<Rightarrow> int" where
  "rexp x = max (flog2 \<bar>x\<bar> - 52) (- 1074)"

definition rnd :: "rat \<Rightarrow> rat" where
  "rnd x = (if x = 0 then 0 else of_int (round_even (x / 2 powi rexp x)) * 2 powi rexp x)"

lemma powi2_pos [simp]: "(0::rat) < 2 powi e"
  by (simp add: zero_less_power_int)

lemma powi2_nonzero [simp]: "(2::rat) powi e \<noteq> 0"
  using powi2_pos [of e] by linarith

lemma powi2_add: "(2::rat) powi (a + b) = 2 powi a * 2 powi b"
  by (simp add: power_int_add)

lemma powi2_le_iff [simp]: "(2::rat) powi a \<le> 2 powi b \<longleftrightarrow> a \<le> b"
  using power_int_strict_increasing [of b a "2::rat"] power_int_increasing [of a b "2::rat"]
  by (meson leD leI one_le_numeral one_less_numeral_iff semiring_norm(76))

lemma powi2_less_iff [simp]: "(2::rat) powi a < 2 powi b \<longleftrightarrow> a < b"
  by (simp flip: not_le)

lemma bitlen_powi:
  assumes "0 < a"
  shows "2 powi (bitlen a - 1) \<le> (of_int a :: rat)" "(of_int a :: rat) < 2 powi bitlen a"
proof -
  have l: "1 \<le> bitlen a"
    using assms bitlen_nonneg [of a] bitlen_eq_zero_iff [of a] by linarith
  have b: "2 ^ nat (bitlen a - 1) \<le> a" "a < 2 ^ nat (bitlen a)"
    using bitlen_bounds [OF assms] by simp_all
  have "of_int (2 ^ nat (bitlen a - 1)) \<le> (of_int a :: rat)"
    using b(1) by (simp only: of_int_le_iff)
  moreover have "(of_int a :: rat) < of_int (2 ^ nat (bitlen a))"
    using b(2) by (simp only: of_int_less_iff)
  ultimately show "2 powi (bitlen a - 1) \<le> (of_int a :: rat)" "(of_int a :: rat) < 2 powi bitlen a"
    using l by (simp_all add: power_int_def)
qed

lemma flog2_bounds:
  assumes "0 < x"
  shows "2 powi flog2 x \<le> x" "x < 2 powi (flog2 x + 1)"
proof -
  obtain a b where q: "quotient_of x = (a, b)" by (cases "quotient_of x")
  then have b: "0 < b" and x: "x = of_int a / of_int b"
    by (auto dest: quotient_of_denom_pos quotient_of_div)
  then have a: "0 < a" using assms by (simp add: zero_less_divide_iff)
  let ?n = "bitlen a - bitlen b"
  have up: "x < 2 powi (?n + 1)"
  proof -
    have "x < 2 powi bitlen a / of_int b"
      using bitlen_powi(2) [OF a] b by (simp add: x divide_strict_right_mono)
    also have "\<dots> \<le> 2 powi bitlen a / 2 powi (bitlen b - 1)"
      using bitlen_powi(1) [OF b] by (intro divide_left_mono) (auto intro: mult_pos_pos simp: b)
    also have "\<dots> = 2 powi (?n + 1)"
      by (simp add: power_int_diff power_int_add)
    finally show ?thesis .
  qed
  have lo: "2 powi (?n - 1) \<le> x"
  proof -
    have "2 powi (?n - 1) = 2 powi (bitlen a - 1) / (2::rat) powi bitlen b"
      by (simp add: power_int_diff)
    also have "\<dots> \<le> 2 powi (bitlen a - 1) / of_int b"
      using bitlen_powi(2) [OF b] b by (intro divide_left_mono) (auto intro: mult_pos_pos)
    also have "\<dots> \<le> x"
      using bitlen_powi(1) [OF a] b by (simp add: x divide_right_mono)
    finally show ?thesis .
  qed
  show "2 powi flog2 x \<le> x" "x < 2 powi (flog2 x + 1)"
    using up lo by (auto simp: flog2_def q Let_def)
qed

lemma flog2_mono:
  assumes "0 < x" "x \<le> y"
  shows "flog2 x \<le> flog2 y"
proof -
  have "2 powi flog2 x \<le> x" "y < 2 powi (flog2 y + 1)"
    using flog2_bounds assms by auto
  with assms have "(2::rat) powi flog2 x < 2 powi (flog2 y + 1)" by linarith
  then show ?thesis by simp
qed

lemma rexp_mono: "0 < x \<Longrightarrow> x \<le> y \<Longrightarrow> rexp x \<le> rexp y"
  using flog2_mono [of x y] by (auto simp: rexp_def)

subsection \<open>Rounding to an integer\<close>

lemma round_even_bounds: "\<lfloor>x\<rfloor> \<le> round_even x" "round_even x \<le> \<lfloor>x\<rfloor> + 1"
  by (auto simp: round_even_def Let_def)

lemma round_even_error: "\<bar>of_int (round_even x) - x\<bar> \<le> 1 / 2"
proof -
  have "of_int \<lfloor>x\<rfloor> \<le> x" "x < of_int \<lfloor>x\<rfloor> + 1" by linarith+
  then show ?thesis by (auto simp: round_even_def Let_def)
qed

lemma round_even_mono:
  assumes "x \<le> y"
  shows "round_even x \<le> round_even y"
proof (cases "\<lfloor>x\<rfloor> = \<lfloor>y\<rfloor>")
  case True
  with assms show ?thesis by (auto simp: round_even_def Let_def)
next
  case False
  with assms have "\<lfloor>x\<rfloor> + 1 \<le> \<lfloor>y\<rfloor>" using floor_mono [OF assms] by linarith
  then show ?thesis using round_even_bounds [of x] round_even_bounds [of y] by linarith
qed

lemma round_even_of_int [simp]: "round_even (of_int n) = n"
  by (simp add: round_even_def)

lemma round_even_minus: "round_even (- x) = - round_even x"
proof (cases "x = of_int \<lfloor>x\<rfloor>")
  case True
  then obtain n where "x = of_int n" by blast
  then show ?thesis
    by (metis of_int_minus round_even_of_int)
next
  case False
  then have "\<lfloor>- x\<rfloor> = - \<lfloor>x\<rfloor> - 1"
    by (intro floor_unique) (linarith | auto)+
  then show ?thesis by (auto simp: round_even_def Let_def)
qed

lemma round_even_ge: "of_int n \<le> x \<Longrightarrow> n \<le> round_even x"
  using round_even_mono [of "of_int n" x] by simp

lemma round_even_le: "x \<le> of_int n \<Longrightarrow> round_even x \<le> n"
  using round_even_mono [of x "of_int n"] by simp

subsection \<open>Rounding to a double\<close>

lemma rnd_zero [simp]: "rnd 0 = 0"
  by (simp add: rnd_def)

lemma rnd_minus: "rnd (- x) = - rnd x"
  by (simp add: rnd_def rexp_def round_even_minus)

lemma rnd_pos_below:
  assumes "0 < x"
  shows "rnd x \<le> 2 powi (rexp x + 53)"
proof -
  have "x < 2 powi (flog2 x + 1)" using assms by (rule flog2_bounds)
  also have "\<dots> \<le> 2 powi (rexp x + 53)" using assms by (simp add: rexp_def)
  finally have "x / 2 powi rexp x \<le> of_int (2 ^ 53)"
    by (simp add: powi2_add divide_le_eq)
  then have "round_even (x / 2 powi rexp x) \<le> 2 ^ 53" by (rule round_even_le)
  then have "of_int (round_even (x / 2 powi rexp x)) \<le> (of_int (2 ^ 53) :: rat)"
    by (simp only: of_int_le_iff)
  then show ?thesis using assms by (simp add: rnd_def powi2_add)
qed

lemma rnd_pos_above:
  assumes "0 < x" "- 1074 < rexp x"
  shows "2 powi (rexp x + 52) \<le> rnd x"
proof -
  have e: "rexp x = flog2 x - 52" using assms by (auto simp: rexp_def max_def split: if_splits)
  have "2 powi (rexp x + 52) \<le> x" using flog2_bounds(1) [OF assms(1)] by (simp add: e)
  then have "of_int (2 ^ 52) \<le> x / 2 powi rexp x"
    by (simp add: powi2_add le_divide_eq)
  then have "2 ^ 52 \<le> round_even (x / 2 powi rexp x)" by (rule round_even_ge)
  then have "(of_int (2 ^ 52) :: rat) \<le> of_int (round_even (x / 2 powi rexp x))"
    by (simp only: of_int_le_iff)
  then show ?thesis using assms by (simp add: rnd_def powi2_add)
qed

lemma rnd_nonneg: "0 \<le> x \<Longrightarrow> 0 \<le> rnd x"
  using round_even_ge [of 0 "x / 2 powi rexp x"] by (auto simp: rnd_def)

lemma rnd_mono_pos:
  assumes "0 < x" "x \<le> y"
  shows "rnd x \<le> rnd y"
proof (cases "rexp x = rexp y")
  case True
  have "round_even (x / 2 powi rexp x) \<le> round_even (y / 2 powi rexp x)"
    using assms by (intro round_even_mono divide_right_mono) auto
  with True assms show ?thesis by (auto simp: rnd_def mult_right_mono)
next
  case False
  then have less: "rexp x < rexp y" using rexp_mono [OF assms] by simp
  then have "- 1074 < rexp y" by (auto simp: rexp_def)
  have "rnd x \<le> 2 powi (rexp x + 53)" using assms by (simp add: rnd_pos_below)
  also have "\<dots> \<le> 2 powi (rexp y + 52)" using less by simp
  also have "\<dots> \<le> rnd y" using assms \<open>- 1074 < rexp y\<close> by (intro rnd_pos_above) auto
  finally show ?thesis .
qed

lemma rnd_mono:
  assumes "x \<le> y"
  shows "rnd x \<le> rnd y"
proof -
  consider "0 < x" | "x \<le> 0" "0 \<le> y" | "y < 0" by linarith
  then show ?thesis
  proof cases
    case 1
    then show ?thesis using assms by (rule rnd_mono_pos)
  next
    case 2
    then have "rnd x \<le> 0" using rnd_nonneg [of "- x"] by (simp add: rnd_minus)
    also have "0 \<le> rnd y" using 2 by (intro rnd_nonneg)
    finally show ?thesis .
  next
    case 3
    then show ?thesis using rnd_mono_pos [of "- y" "- x"] assms by (simp add: rnd_minus)
  qed
qed

lemma rnd_of_int_pos:
  assumes "0 < n" "n \<le> 2 ^ 53"
  shows "rnd (of_int n) = of_int n"
proof -
  let ?x = "of_int n :: rat"
  have pos: "0 < ?x" using assms by simp
  have "?x \<le> of_int (2 ^ 53)" using assms(2) by (simp only: of_int_le_iff)
  then have le: "?x \<le> 2 powi 53" by (simp add: power_int_def)
  have "2 powi flog2 ?x \<le> ?x" using pos by (rule flog2_bounds)
  with le have "(2::rat) powi flog2 ?x \<le> 2 powi 53" by linarith
  then have "flog2 ?x \<le> 53" by (simp only: powi2_le_iff)
  then have e: "rexp ?x \<le> 1" using pos by (simp add: rexp_def)
  have "\<exists>m. ?x / 2 powi rexp ?x = of_int m"
  proof (cases "rexp ?x \<le> 0")
    case True
    then have "?x / 2 powi rexp ?x = of_int (n * 2 ^ nat (- rexp ?x))"
      by (simp add: power_int_def field_simps power_inverse)
    then show ?thesis by blast
  next
    case False
    with e have e1: "rexp ?x = 1" by simp
    then have "flog2 ?x = 53" using pos by (auto simp: rexp_def max_def split: if_splits)
    then have "2 powi 53 \<le> ?x" using flog2_bounds(1) [OF pos] by simp
    with le have "?x = 2 powi 53" by linarith
    then have "?x / 2 = of_int (2 ^ 52)" by simp
    then have "?x / 2 powi rexp ?x = of_int (2 ^ 52)" by (simp only: e1 power_int_1_right)
    then show ?thesis by blast
  qed
  then obtain m where "?x / 2 powi rexp ?x = of_int m" by blast
  moreover from this have "?x = of_int m * 2 powi rexp ?x"
    by (simp add: divide_eq_eq)
  ultimately show ?thesis using pos by (simp add: rnd_def)
qed

text \<open>Integers up to \<open>2 ^ 53\<close> in absolute value are doubles.\<close>

lemma rnd_of_int:
  assumes "\<bar>n\<bar> \<le> 2 ^ 53"
  shows "rnd (of_int n) = of_int n"
proof -
  consider "0 < n" | "n = 0" | "n < 0" by linarith
  then show ?thesis
  proof cases
    case 1
    then show ?thesis using assms by (intro rnd_of_int_pos) auto
  next
    case 2
    then show ?thesis by simp
  next
    case 3
    then show ?thesis using assms rnd_of_int_pos [of "- n"] by (simp add: rnd_minus)
  qed
qed

lemma rnd_error: "\<bar>rnd x - x\<bar> \<le> 2 powi rexp x / 2"
proof (cases "x = 0")
  case False
  let ?u = "2 powi rexp x :: rat"
  have "rnd x - x = (of_int (round_even (x / ?u)) - x / ?u) * ?u"
    using False by (simp add: rnd_def algebra_simps)
  then have "\<bar>rnd x - x\<bar> = \<bar>of_int (round_even (x / ?u)) - x / ?u\<bar> * ?u"
    by (simp add: abs_mult)
  also have "\<dots> \<le> 1 / 2 * ?u"
    by (intro mult_right_mono round_even_error) simp
  finally show ?thesis by simp
qed simp

text \<open>Rounding at a known exponent, for concrete numbers.\<close>

lemma rnd_eqI:
  assumes "2 powi (e + 52) \<le> x" "x < 2 powi (e + 53)" "- 1074 \<le> e"
  shows "rnd x = of_int (round_even (x / 2 powi e)) * 2 powi e"
proof -
  have pos: "0 < x" using assms(1) powi2_pos [of "e + 52"] by linarith
  have "(2::rat) powi flog2 x < 2 powi (e + 53)" "(2::rat) powi (e + 52) < 2 powi (flog2 x + 1)"
    using assms(1,2) flog2_bounds [OF pos] by linarith+
  then have "flog2 x = e + 52" by simp
  then have "rexp x = e" using pos assms(3) by (simp add: rexp_def)
  then show ?thesis using pos by (simp add: rnd_def)
qed

lemma round_even_eqI:
  assumes "\<bar>x - of_int n\<bar> < 1 / 2"
  shows "round_even x = n"
proof -
  have "\<bar>of_int (round_even x) - of_int n :: rat\<bar> < 1"
    using round_even_error [of x] assms by linarith
  then have "\<bar>of_int (round_even x - n) :: rat\<bar> < of_int 1" by simp
  then have "\<bar>round_even x - n\<bar> < 1" by (simp only: of_int_abs [symmetric] of_int_less_iff)
  then show ?thesis by simp
qed

lemma rnd_value:
  assumes "2 powi (e + 52) \<le> x" "x < 2 powi (e + 53)" "- 1074 \<le> e"
    and "\<bar>x / 2 powi e - of_int n\<bar> < 1 / 2"
  shows "rnd x = of_int n * 2 powi e"
  using rnd_eqI [OF assms(1-3)] round_even_eqI [OF assms(4)] by simp

section \<open>The contract of a rounding\<close>

locale fp_rounding =
  fixes r :: "rat \<Rightarrow> rat"
  assumes mono: "x \<le> y \<Longrightarrow> r x \<le> r y"
    and odd: "r (- x) = - r x"
    and exact: "\<bar>n\<bar> \<le> 2 ^ 53 \<Longrightarrow> r (of_int n) = of_int n"
begin

lemma zero: "r 0 = 0"
  using exact [of 0] by simp

lemma between:
  assumes "\<bar>m\<bar> \<le> 2 ^ 53" "\<bar>n\<bar> \<le> 2 ^ 53" "of_int m \<le> x" "x \<le> of_int n"
  shows "of_int m \<le> r x" "r x \<le> of_int n"
  using mono [OF assms(3)] mono [OF assms(4)] assms(1,2) by (simp_all add: exact)

lemma abs_mono:
  assumes "\<bar>x\<bar> \<le> y"
  shows "\<bar>r x\<bar> \<le> r y"
proof -
  have "r x \<le> r y" "r (- x) \<le> r y" using assms by (auto intro!: mono)
  then show ?thesis by (simp add: odd)
qed

text \<open>
  An integer plus a rounded fraction of the same sign, rounded: never decreasing in the
  integer and the fraction, read lexicographically.
\<close>

lemma sum_frac_mono:
  assumes s: "s < s'" and f: "r f \<le> r f' + 1"
  shows "r (of_int s + r f) \<le> r (of_int s' + r f')"
proof -
  have "of_int s + (1::rat) \<le> of_int s'" using s by linarith
  with f have "of_int s + r f \<le> of_int s' + r f'" by linarith
  then show ?thesis by (rule mono)
qed

end

interpretation fr: fp_rounding rnd
  by unfold_locales (simp_all add: rnd_mono rnd_minus rnd_of_int)

section \<open>The type and its operations\<close>

datatype float64 = NaN | PInf | NInf | Fin rat

definition max_finite_bound :: rat where
  "max_finite_bound = 2 ^ 1024"

definition round64 :: "rat \<Rightarrow> float64" where
  "round64 x =
     (let y = rnd x in
      if max_finite_bound \<le> y then PInf else if y \<le> - max_finite_bound then NInf else Fin y)"

text \<open>A signed infinity; \<open>NaN\<close> for sign zero.\<close>

definition finf :: "rat \<Rightarrow> float64" where
  "finf s = (if 0 < s then PInf else if s < 0 then NInf else NaN)"

fun fneg :: "float64 \<Rightarrow> float64" where
  "fneg NaN = NaN"
| "fneg PInf = NInf"
| "fneg NInf = PInf"
| "fneg (Fin a) = Fin (- a)"

fun fadd :: "float64 \<Rightarrow> float64 \<Rightarrow> float64" where
  "fadd (Fin a) (Fin b) = round64 (a + b)"
| "fadd NaN _ = NaN"
| "fadd _ NaN = NaN"
| "fadd PInf NInf = NaN"
| "fadd NInf PInf = NaN"
| "fadd PInf _ = PInf"
| "fadd NInf _ = NInf"
| "fadd (Fin _) y = y"

definition fsub :: "float64 \<Rightarrow> float64 \<Rightarrow> float64" where
  "fsub x y = fadd x (fneg y)"

fun fmul :: "float64 \<Rightarrow> float64 \<Rightarrow> float64" where
  "fmul (Fin a) (Fin b) = round64 (a * b)"
| "fmul NaN _ = NaN"
| "fmul _ NaN = NaN"
| "fmul PInf (Fin b) = finf b"
| "fmul NInf (Fin b) = finf (- b)"
| "fmul (Fin a) PInf = finf a"
| "fmul (Fin a) NInf = finf (- a)"
| "fmul PInf PInf = PInf"
| "fmul PInf NInf = NInf"
| "fmul NInf PInf = NInf"
| "fmul NInf NInf = PInf"

fun fdiv :: "float64 \<Rightarrow> float64 \<Rightarrow> float64" where
  "fdiv (Fin a) (Fin b) = (if b = 0 then finf a else round64 (a / b))"
| "fdiv NaN _ = NaN"
| "fdiv _ NaN = NaN"
| "fdiv PInf (Fin b) = (if b < 0 then NInf else PInf)"
| "fdiv NInf (Fin b) = (if b < 0 then PInf else NInf)"
| "fdiv (Fin _) _ = Fin 0"
| "fdiv _ _ = NaN"

fun flt :: "float64 \<Rightarrow> float64 \<Rightarrow> bool" where
  "flt (Fin a) (Fin b) = (a < b)"
| "flt NInf (Fin _) = True"
| "flt NInf PInf = True"
| "flt (Fin _) PInf = True"
| "flt _ _ = False"

fun feq :: "float64 \<Rightarrow> float64 \<Rightarrow> bool" where
  "feq NaN _ = False"
| "feq x y = (x = y)"

definition fle :: "float64 \<Rightarrow> float64 \<Rightarrow> bool" where
  "fle x y = (flt x y \<or> feq x y)"

definition f_of_int :: "int \<Rightarrow> float64" where
  "f_of_int n = round64 (of_int n)"

text \<open>Truncation toward zero, what a Go conversion to an integer type does.\<close>

definition trunc :: "rat \<Rightarrow> int" where
  "trunc x = (if 0 \<le> x then \<lfloor>x\<rfloor> else \<lceil>x\<rceil>)"

text \<open>
  Conversion to a 64-bit integer. Out of range the language leaves the value to the
  implementation; this is amd64's, the least integer.
\<close>

fun f_to_i64 :: "float64 \<Rightarrow> int" where
  "f_to_i64 (Fin a) =
     (if - (2 ^ 63) \<le> trunc a \<and> trunc a < 2 ^ 63 then trunc a else - (2 ^ 63))"
| "f_to_i64 _ = - (2 ^ 63)"

subsection \<open>Facts\<close>

lemma trunc_mono:
  assumes "x \<le> y"
  shows "trunc x \<le> trunc y"
proof -
  have "\<lfloor>x\<rfloor> \<le> \<lfloor>y\<rfloor>" "\<lceil>x\<rceil> \<le> \<lceil>y\<rceil>" using assms by (auto intro: floor_mono ceiling_mono)
  moreover have "\<lceil>x\<rceil> \<le> \<lfloor>y\<rfloor>" if "x \<le> 0" "0 \<le> y"
    using that by (meson ceiling_le_zero order_trans zero_le_floor)
  ultimately show ?thesis using assms by (auto simp: trunc_def)
qed

lemma trunc_of_int [simp]: "trunc (of_int n) = n"
  by (simp add: trunc_def)

lemma trunc_abs: "\<bar>of_int (trunc x)\<bar> \<le> \<bar>x\<bar>"
proof (cases "0 \<le> x")
  case True
  then have "0 \<le> \<lfloor>x\<rfloor>" "of_int \<lfloor>x\<rfloor> \<le> x" by simp_all
  with True show ?thesis by (simp add: trunc_def)
next
  case False
  then have "\<lceil>x\<rceil> \<le> 0" "x \<le> of_int \<lceil>x\<rceil>" by simp_all
  moreover from this have "of_int \<lceil>x\<rceil> \<le> (0::rat)" by (simp only: of_int_le_0_iff)
  ultimately show ?thesis using False by (simp add: trunc_def)
qed

lemma rnd_numeral:
  "numeral k \<le> (2 ^ 53 :: int) \<Longrightarrow> rnd (numeral k) = numeral k"
  using rnd_of_int [of "numeral k"] by simp

lemma rnd_one [simp]: "rnd 1 = 1"
  using rnd_of_int [of 1] by simp

lemma max_finite_bound_ge: "2 ^ 64 \<le> max_finite_bound"
  unfolding max_finite_bound_def by (rule power_increasing) simp_all

lemma max_finite_bound_gt1: "1 < max_finite_bound"
  using max_finite_bound_ge by simp

lemma round64_small:
  assumes "\<bar>rnd x\<bar> < max_finite_bound"
  shows "round64 x = Fin (rnd x)"
  using assms by (auto simp: round64_def Let_def abs_less_iff)

lemma round64_of_int:
  assumes "\<bar>n\<bar> \<le> 2 ^ 53"
  shows "round64 (of_int n) = Fin (of_int n)"
proof -
  have "of_int \<bar>n\<bar> \<le> (of_int (2 ^ 53) :: rat)" using assms by (simp only: of_int_le_iff)
  then have "\<bar>of_int n :: rat\<bar> < max_finite_bound" using max_finite_bound_ge by simp
  then show ?thesis using assms by (simp add: round64_small rnd_of_int)
qed

lemma flt_not_fle: "x \<noteq> NaN \<Longrightarrow> y \<noteq> NaN \<Longrightarrow> flt x y \<longleftrightarrow> \<not> fle y x"
  by (cases x; cases y) (auto simp: fle_def)

lemma fle_refl: "x \<noteq> NaN \<Longrightarrow> fle x x"
  by (cases x) (auto simp: fle_def)

lemma fle_Fin [simp]: "fle (Fin a) (Fin b) \<longleftrightarrow> a \<le> b"
  by (auto simp: fle_def)

lemma fle_trans: "fle x y \<Longrightarrow> fle y z \<Longrightarrow> fle x z"
  by (cases x; cases y; cases z) (auto simp: fle_def)

lemma round64_not_NaN [simp]: "round64 x \<noteq> NaN"
  by (auto simp: round64_def Let_def)

lemma round64_mono:
  assumes "x \<le> y"
  shows "fle (round64 x) (round64 y)"
proof -
  have "rnd x \<le> rnd y" using assms by (rule rnd_mono)
  moreover have "0 < max_finite_bound" by (simp add: max_finite_bound_def)
  ultimately show ?thesis by (auto simp: round64_def Let_def fle_def)
qed

end
