(* ===== verification/Go_Time.thy ===== *)
theory Go_Time
  imports Go_Float
begin

text \<open>
  The package \<^verbatim>\<open>time\<close>: instants with an optional monotonic reading, durations, civil
  dates. An instant is the number of nanoseconds since the Unix epoch, as an unbounded
  integer (Go's wraps 292 billion years away; the program's instants come from the
  clock or from RFC 3339 text, years 0 to 9999, and move by at most 292 years), and a
  duration is a 64-bit count of nanoseconds, here an integer with \<open>wrap64\<close> and
  \<open>sat64\<close> written where Go wraps or saturates.
\<close>

section \<open>64-bit integers\<close>

definition wrap64 :: "int \<Rightarrow> int" where
  "wrap64 n = (n + 2 ^ 63) mod 2 ^ 64 - 2 ^ 63"

definition min_i64 :: int where "min_i64 = - (2 ^ 63)"
definition max_i64 :: int where "max_i64 = 2 ^ 63 - 1"

definition sat64 :: "int \<Rightarrow> int" where
  "sat64 n = max min_i64 (min max_i64 n)"

definition i64 :: "int \<Rightarrow> bool" where
  "i64 n = (min_i64 \<le> n \<and> n \<le> max_i64)"

lemma i64_def': "i64 n \<longleftrightarrow> - (2 ^ 63) \<le> n \<and> n < 2 ^ 63"
  by (auto simp: i64_def min_i64_def max_i64_def)

lemma wrap64_id [simp]: "i64 n \<Longrightarrow> wrap64 n = n"
  by (simp add: wrap64_def i64_def')

lemma wrap64_range [simp]: "i64 (wrap64 n)"
  using pos_mod_bound [of "2 ^ 64" "n + 2 ^ 63"] pos_mod_sign [of "2 ^ 64" "n + 2 ^ 63"]
  by (simp add: wrap64_def i64_def')

lemma sat64_range [simp]: "i64 (sat64 n)"
  by (auto simp: sat64_def i64_def min_i64_def max_i64_def)

lemma sat64_id [simp]: "i64 n \<Longrightarrow> sat64 n = n"
  by (auto simp: sat64_def i64_def)

lemma sat64_mono: "m \<le> n \<Longrightarrow> sat64 m \<le> sat64 n"
  by (auto simp: sat64_def)

text \<open>Go's quotient and remainder truncate toward zero.\<close>

definition quot :: "int \<Rightarrow> int \<Rightarrow> int" where
  "quot a b = sgn a * sgn b * (\<bar>a\<bar> div \<bar>b\<bar>)"

definition rem_int :: "int \<Rightarrow> int \<Rightarrow> int" where
  "rem_int a b = a - quot a b * b"

lemma quot_pos: "0 < b \<Longrightarrow> quot a b = (if 0 \<le> a then a div b else - (- a div b))"
  by (auto simp: quot_def sgn_if)

lemma rem_int_pos: "0 < b \<Longrightarrow> rem_int a b = (if 0 \<le> a then a mod b else - (- a mod b))"
  using minus_div_mult_eq_mod [of a b] minus_div_mult_eq_mod [of "- a" b]
  by (simp add: rem_int_def quot_pos)

lemma quot_rem: "quot a b * b + rem_int a b = a"
  by (simp add: rem_int_def)

lemma quot_mono: "0 < b \<Longrightarrow> a \<le> a' \<Longrightarrow> quot a b \<le> quot a' b"
proof -
  assume b: "0 < b" and le: "a \<le> a'"
  consider "0 \<le> a" | "a < 0" "0 \<le> a'" | "a' < 0" using le by linarith
  then show ?thesis
  proof cases
    case 1
    then show ?thesis using b le by (simp add: quot_pos zdiv_mono1)
  next
    case 2
    then have "0 \<le> - a div b" "0 \<le> a' div b" using b by (simp_all add: pos_imp_zdiv_nonneg_iff)
    with 2 b show ?thesis by (simp add: quot_pos)
  next
    case 3
    then show ?thesis using b le by (simp add: quot_pos zdiv_mono1)
  qed
qed

section \<open>Durations\<close>

type_synonym duration = int

definition nanosecond :: int where "nanosecond = 1"
definition microsecond :: int where "microsecond = 1000"
definition millisecond :: int where "millisecond = 1000000"
definition second :: int where "second = 1000000000"
definition minute :: int where "minute = 60 * second"
definition hour :: int where "hour = 60 * minute"

lemmas time_units = nanosecond_def microsecond_def millisecond_def second_def minute_def hour_def

text \<open>\<^verbatim>\<open>Duration.Seconds\<close>: the whole seconds and the fraction become doubles and are added.\<close>

definition dur_seconds :: "duration \<Rightarrow> float64" where
  "dur_seconds d =
     fadd (f_of_int (quot d second)) (fdiv (f_of_int (rem_int d second)) (f_of_int second))"

section \<open>Instants\<close>

record gotime =
  wall :: int
  mono :: "int option"

definition wall_time :: "int \<Rightarrow> gotime" where
  "wall_time w = \<lparr>wall = w, mono = None\<rparr>"

text \<open>The zero \<^verbatim>\<open>Time\<close> is the first of January of year 1.\<close>

definition zero_time :: gotime where
  "zero_time = wall_time (- 62135596800 * 1000000000)"

definition t_is_zero :: "gotime \<Rightarrow> bool" where
  "t_is_zero t = (wall t = wall zero_time)"

text \<open>\<^verbatim>\<open>UTC\<close> drops the monotonic reading.\<close>

definition t_utc :: "gotime \<Rightarrow> gotime" where
  "t_utc t = t\<lparr>mono := None\<rparr>"

text \<open>
  An instant with a monotonic reading packs its seconds in 33 bits from 1885; outside of
  them, or when the reading overflows, \<^verbatim>\<open>Add\<close> degrades to a wall-only instant.
\<close>

definition packed_wall :: "int \<Rightarrow> bool" where
  "packed_wall w = (let s = w div second + 2682288000 in 0 \<le> s \<and> s < 2 ^ 33)"

definition t_add :: "gotime \<Rightarrow> duration \<Rightarrow> gotime" where
  "t_add t d =
     \<lparr>wall = wall t + d,
      mono = (case mono t of
                None \<Rightarrow> None
              | Some m \<Rightarrow> if packed_wall (wall t + d) \<and> i64 (m + d) then Some (m + d) else None)\<rparr>"

definition t_sub :: "gotime \<Rightarrow> gotime \<Rightarrow> duration" where
  "t_sub t u =
     (case (mono t, mono u) of
        (Some a, Some b) \<Rightarrow> sat64 (a - b)
      | _ \<Rightarrow> sat64 (wall t - wall u))"

definition t_before :: "gotime \<Rightarrow> gotime \<Rightarrow> bool" where
  "t_before t u =
     (case (mono t, mono u) of
        (Some a, Some b) \<Rightarrow> a < b
      | _ \<Rightarrow> wall t < wall u)"

definition t_after :: "gotime \<Rightarrow> gotime \<Rightarrow> bool" where
  "t_after t u = t_before u t"

definition t_equal :: "gotime \<Rightarrow> gotime \<Rightarrow> bool" where
  "t_equal t u =
     (case (mono t, mono u) of
        (Some a, Some b) \<Rightarrow> a = b
      | _ \<Rightarrow> wall t = wall u)"

definition unix_sec :: "gotime \<Rightarrow> int" where
  "unix_sec t = wall t div second"

definition t_nsec :: "gotime \<Rightarrow> int" where
  "t_nsec t = wall t mod second"

text \<open>\<^verbatim>\<open>time.Unix(sec, nsec)\<close>.\<close>

definition of_unix :: "int \<Rightarrow> int \<Rightarrow> gotime" where
  "of_unix s n = wall_time (s * second + n)"

text \<open>\<^verbatim>\<open>time.Date\<close> in UTC, for a month in 1..12: days since the epoch of a civil date.\<close>

definition days_from_civil :: "int \<Rightarrow> int \<Rightarrow> int \<Rightarrow> int" where
  "days_from_civil y m d =
     (let y' = (if m \<le> 2 then y - 1 else y);
          era = y' div 400;
          yoe = y' mod 400;
          doy = (153 * (m + (if m > 2 then - 3 else 9)) + 2) div 5 + d - 1;
          doe = yoe * 365 + yoe div 4 - yoe div 100 + doy
      in era * 146097 + doe - 719468)"

definition go_date :: "int \<Rightarrow> int \<Rightarrow> int \<Rightarrow> int \<Rightarrow> int \<Rightarrow> int \<Rightarrow> int \<Rightarrow> gotime" where
  "go_date y mo d h mi s n =
     wall_time ((((days_from_civil y mo d * 24 + h) * 60 + mi) * 60 + s) * second + n)"

section \<open>Facts\<close>

lemma gotime_eqI: "wall t = wall u \<Longrightarrow> mono t = mono u \<Longrightarrow> t = u" for t u :: gotime
  by simp

lemma wall_time_simps [simp]: "wall (wall_time w) = w" "mono (wall_time w) = None"
  by (simp_all add: wall_time_def)

lemma t_utc_simps [simp]: "wall (t_utc t) = wall t" "mono (t_utc t) = None"
  by (simp_all add: t_utc_def)

lemma t_utc_idem [simp]: "t_utc (t_utc t) = t_utc t"
  by (simp add: t_utc_def)

lemma t_utc_wall_time [simp]: "t_utc (wall_time w) = wall_time w"
  by (simp add: t_utc_def wall_time_def)

lemma t_before_wall [simp]: "mono u = None \<Longrightarrow> t_before t u \<longleftrightarrow> wall t < wall u"
  "mono t = None \<Longrightarrow> t_before t u \<longleftrightarrow> wall t < wall u"
  by (auto simp: t_before_def split: option.splits)

lemma wall_t_add [simp]: "wall (t_add t d) = wall t + d"
  by (simp add: t_add_def)

lemma mono_t_add_None [simp]: "mono t = None \<Longrightarrow> mono (t_add t d) = None"
  by (simp add: t_add_def)

lemma t_sub_range [simp]: "i64 (t_sub t u)"
  by (auto simp: t_sub_def split: option.splits)

lemma t_sub_self [simp]: "t_sub t t = 0"
  by (auto simp: t_sub_def i64_def' split: option.splits)

lemma t_sub_add_self: "i64 d \<Longrightarrow> t_sub (t_add t d) t = d"
  by (auto simp: t_sub_def t_add_def split: option.splits)

text \<open>Two readings of one clock, in the order they were taken.\<close>

definition later :: "gotime \<Rightarrow> gotime \<Rightarrow> bool" where
  "later t t' = (\<exists>d. 0 \<le> d \<and> wall t' - wall t = d
     \<and> (case (mono t, mono t') of (Some a, Some b) \<Rightarrow> b - a = d | (None, None) \<Rightarrow> True | _ \<Rightarrow> False))"

lemma t_sub_mono: "later t t' \<Longrightarrow> t_sub t u \<le> t_sub t' u"
  by (auto simp: later_def t_sub_def split: option.splits intro!: sat64_mono)

lemma unix_split: "wall t = unix_sec t * second + t_nsec t"
  by (simp add: unix_sec_def t_nsec_def)

lemma t_nsec_range: "0 \<le> t_nsec t" "t_nsec t < 1000000000"
  by (simp_all add: t_nsec_def second_def)

subsection \<open>Seconds as a double\<close>

lemma quot_second_small: "i64 d \<Longrightarrow> \<bar>quot d second\<bar> \<le> 2 ^ 53"
  by (auto simp: quot_pos second_def i64_def' abs_le_iff)

lemma rem_second_small: "\<bar>rem_int d second\<bar> < second"
  by (auto simp: rem_int_pos second_def)

lemma dur_seconds_eq:
  assumes "i64 d"
  shows "dur_seconds d = Fin (rnd (of_int (quot d second) + rnd (of_int (rem_int d second) / of_int second)))"
proof -
  let ?q = "quot d second" and ?m = "rem_int d second"
  have m: "\<bar>?m\<bar> < second" by (rule rem_second_small)
  have s0: "(of_int second = (0::rat)) = False" by (simp add: second_def)
  have f: "f_of_int ?q = Fin (of_int ?q)" "f_of_int ?m = Fin (of_int ?m)" "f_of_int second = Fin (of_int second)"
    using quot_second_small [OF assms] m round64_of_int [of second]
    by (auto simp: f_of_int_def second_def intro!: round64_of_int)
  have "\<bar>of_int ?m :: rat\<bar> \<le> of_int second" using m by linarith
  then have "\<bar>of_int ?m / of_int second :: rat\<bar> \<le> 1" by (simp add: second_def)
  then have r: "\<bar>rnd (of_int ?m / of_int second)\<bar> \<le> 1"
    using fr.abs_mono [of "of_int ?m / of_int second" 1] by simp
  then have r64: "round64 (of_int ?m / of_int second) = Fin (rnd (of_int ?m / of_int second))"
    by (intro round64_small order.strict_trans1 [OF _ max_finite_bound_gt1])
  have "\<bar>?q\<bar> \<le> 2 ^ 34" using assms by (auto simp: quot_pos second_def i64_def' abs_le_iff)
  then have "of_int \<bar>?q\<bar> \<le> (of_int (2 ^ 34) :: rat)" by (simp only: of_int_le_iff)
  with r have "\<bar>of_int ?q + rnd (of_int ?m / of_int second)\<bar> \<le> of_int (2 ^ 35)" by simp
  then have "\<bar>rnd (of_int ?q + rnd (of_int ?m / of_int second))\<bar> \<le> rnd (of_int (2 ^ 35))"
    by (rule fr.abs_mono)
  also have "\<dots> = 2 ^ 35" using rnd_of_int [of "2 ^ 35"] by simp
  finally have "\<bar>rnd (of_int ?q + rnd (of_int ?m / of_int second))\<bar> < max_finite_bound"
    using max_finite_bound_ge by simp
  then show ?thesis
    using s0 by (simp only: dur_seconds_def f fadd.simps fdiv.simps r64 round64_small if_False)
qed

lemma dur_seconds_mono:
  assumes "i64 d" "i64 d'" "d \<le> d'"
  shows "fle (dur_seconds d) (dur_seconds d')"
proof -
  let ?q = "\<lambda>d. quot d second" and ?f = "\<lambda>d. of_int (rem_int d second) / of_int second :: rat"
  have q: "?q d \<le> ?q d'" using assms(3) by (simp add: quot_mono second_def)
  have "rnd (of_int (?q d) + rnd (?f d)) \<le> rnd (of_int (?q d') + rnd (?f d'))"
  proof (cases "?q d = ?q d'")
    case True
    have "rem_int d second \<le> rem_int d' second" using assms(3) True by (simp add: rem_int_def)
    then have "?f d \<le> ?f d'" by (simp add: second_def divide_right_mono)
    with True show ?thesis by (auto intro!: rnd_mono add_left_mono)
  next
    case False
    with q have less: "?q d < ?q d'" by simp
    have "rnd (?f d) \<le> rnd (?f d') + 1"
    proof (cases "0 \<le> d")
      case True
      with assms(3) have "0 \<le> ?f d'" by (simp add: rem_int_pos second_def)
      then have "0 \<le> rnd (?f d')" by (rule rnd_nonneg)
      moreover have "?f d \<le> 1" using rem_second_small [of d] by (simp add: second_def abs_less_iff)
      then have "rnd (?f d) \<le> 1" using rnd_mono [of "?f d" 1] by simp
      ultimately show ?thesis by simp
    next
      case neg: False
      then have "?f d \<le> 0" by (simp add: rem_int_pos second_def)
      then have "rnd (?f d) \<le> 0" using rnd_mono [of "?f d" 0] by simp
      moreover have "- 1 \<le> ?f d'" using rem_second_small [of d'] by (simp add: second_def abs_less_iff field_simps)
      then have "- 1 \<le> rnd (?f d')" using rnd_mono [of "- 1" "?f d'"] rnd_minus [of 1] by simp
      ultimately show ?thesis by simp
    qed
    with less show ?thesis by (rule fr.sum_frac_mono)
  qed
  then show ?thesis using assms by (simp add: dur_seconds_eq)
qed

lemma dur_seconds_zero [simp]: "dur_seconds 0 = Fin 0"
  by (simp add: dur_seconds_eq i64_def' quot_def rem_int_def)

end
