(* ===== verification/Go_Parse.thy ===== *)
theory Go_Parse
  imports Go_Time
begin

text \<open>
  The text parsers of the package \<^verbatim>\<open>time\<close> the configuration uses: RFC 3339 instants
  and Go durations. Offsets are dropped at once, since every caller goes to UTC.
\<close>

section \<open>time.Parse with an RFC 3339 layout\<close>

definition opt_bind :: "'a option \<Rightarrow> ('a \<Rightarrow> 'b option) \<Rightarrow> 'b option" where
  "opt_bind x f = (case x of None \<Rightarrow> None | Some a \<Rightarrow> f a)"

lemma opt_bind_simps [simp]: "opt_bind None f = None" "opt_bind (Some a) f = f a"
  by (simp_all add: opt_bind_def)

lemma opt_bind_eq_Some: "opt_bind x f = Some y \<longleftrightarrow> (\<exists>a. x = Some a \<and> f a = Some y)"
  by (cases x) auto

text \<open>Exactly \<open>n\<close> digits (\<^verbatim>\<open>getnum\<close> with fixed width, the year).\<close>

definition take_digits :: "nat \<Rightarrow> string \<Rightarrow> (int \<times> string) option" where
  "take_digits n s =
     (if n \<le> length s \<and> list_all is_digit (take n s)
      then Some (digits_val (take n s), drop n s) else None)"

text \<open>One or two digits.\<close>

definition take_digits12 :: "string \<Rightarrow> (int \<times> string) option" where
  "take_digits12 s =
     (case take_digits 2 s of Some r \<Rightarrow> Some r | None \<Rightarrow> take_digits 1 s)"

definition expect :: "char \<Rightarrow> string \<Rightarrow> string option" where
  "expect c s = (case s of [] \<Rightarrow> None | d # r \<Rightarrow> if d = c then Some r else None)"

definition leap_year :: "int \<Rightarrow> bool" where
  "leap_year y = (y mod 4 = 0 \<and> (y mod 100 \<noteq> 0 \<or> y mod 400 = 0))"

definition days_in :: "int \<Rightarrow> int \<Rightarrow> int" where
  "days_in m y =
     (if m = 2 then (if leap_year y then 29 else 28) else if m \<in> {4, 6, 9, 11} then 30 else 31)"

text \<open>The optional fraction after the seconds: nine digits count, the rest are skipped.\<close>

definition take_fraction :: "string \<Rightarrow> int \<times> string" where
  "take_fraction s =
     (case s of
        c # r \<Rightarrow>
          let ds = takeWhile is_digit r in
          if (c = CHR ''.'' \<or> c = CHR '','') \<and> ds \<noteq> []
          then (digits_val (take 9 (ds @ replicate 9 CHR ''0'')), drop (length ds) r)
          else (0, s)
      | [] \<Rightarrow> (0, s))"

text \<open>The offset in seconds and what follows.\<close>

definition take_offset :: "string \<Rightarrow> (int \<times> string) option" where
  "take_offset s =
     (case s of
        [] \<Rightarrow> None
      | c # r \<Rightarrow>
          if c = CHR ''Z'' then Some (0, r)
          else if c \<noteq> CHR ''+'' \<and> c \<noteq> CHR ''-'' then None
          else opt_bind (take_digits 2 r) (\<lambda>(hh, r1).
               opt_bind (expect CHR '':'' r1) (\<lambda>r2.
               opt_bind (take_digits 2 r2) (\<lambda>(mm, r3).
                 if 24 < hh \<or> 60 < mm then None
                 else let off = (hh * 60 + mm) * 60 in
                   Some (if c = CHR ''-'' then - off else off, r3)))))"

definition go_parse_rfc3339 :: "string \<Rightarrow> gotime option" where
  "go_parse_rfc3339 s =
     opt_bind (take_digits 4 s) (\<lambda>(y, s).
     opt_bind (expect CHR ''-'' s) (\<lambda>s.
     opt_bind (take_digits 2 s) (\<lambda>(mo, s).
     opt_bind (expect CHR ''-'' s) (\<lambda>s.
     opt_bind (take_digits 2 s) (\<lambda>(d, s).
     opt_bind (expect CHR ''T'' s) (\<lambda>s.
     opt_bind (take_digits12 s) (\<lambda>(h, s).
     opt_bind (expect CHR '':'' s) (\<lambda>s.
     opt_bind (take_digits 2 s) (\<lambda>(mi, s).
     opt_bind (expect CHR '':'' s) (\<lambda>s.
     opt_bind (take_digits 2 s) (\<lambda>(sec, s).
       let (ns, s) = take_fraction s in
     opt_bind (take_offset s) (\<lambda>(off, s).
       if s \<noteq> [] \<or> mo < 1 \<or> 12 < mo \<or> d < 1 \<or> days_in mo y < d \<or> 24 \<le> h \<or> 60 \<le> mi \<or> 60 \<le> sec
       then None
       else Some (t_add (go_date y mo d h mi sec ns) (- off * second))))))))))))))"

section \<open>time.ParseDuration\<close>

text \<open>The nanoseconds of a unit; the two micro signs are two bytes each.\<close>

definition unit_ns :: "string \<Rightarrow> int option" where
  "unit_ns u =
     (if u = ''ns'' then Some nanosecond
      else if u = ''us'' \<or> u = [CHR 0xC2, CHR 0xB5, CHR ''s''] \<or> u = [CHR 0xCE, CHR 0xBC, CHR ''s'']
      then Some microsecond
      else if u = ''ms'' then Some millisecond
      else if u = ''s'' then Some second
      else if u = ''m'' then Some minute
      else if u = ''h'' then Some hour
      else None)"

text \<open>\<^verbatim>\<open>leadingInt\<close> on the run of digits.\<close>

definition leading_int :: "string \<Rightarrow> int option" where
  "leading_int ds = (let v = digits_val ds in if v \<le> 2 ^ 63 then Some v else None)"

text \<open>\<^verbatim>\<open>leadingFraction\<close>: once a digit would overflow the rest is ignored.\<close>

fun leading_fraction :: "int \<Rightarrow> int \<Rightarrow> string \<Rightarrow> int \<times> int" where
  "leading_fraction x sc [] = (x, sc)"
| "leading_fraction x sc (c # ds) =
     (if (2 ^ 63 - 1) div 10 < x then (x, sc)
      else let y = 10 * x + digit_val c in
        if 2 ^ 63 < y then (x, sc) else leading_fraction y (10 * sc) ds)"

definition num_char :: "char \<Rightarrow> bool" where
  "num_char c = (c = CHR ''.'' \<or> is_digit c)"

text \<open>One number with its unit, in nanoseconds, and the rest.\<close>

definition duration_item :: "string \<Rightarrow> (int \<times> string) option" where
  "duration_item s =
     (if s = [] \<or> \<not> num_char (hd s) then None
      else let ds = takeWhile is_digit s; s1 = drop (length ds) s;
               (fs, s2) = (if s1 \<noteq> [] \<and> hd s1 = CHR ''.''
                           then (takeWhile is_digit (tl s1), drop (length (takeWhile is_digit (tl s1))) (tl s1))
                           else ([], s1));
               u = takeWhile (\<lambda>c. \<not> num_char c) s2; s3 = drop (length u) s2
      in if ds = [] \<and> fs = [] then None
      else if u = [] then None
      else opt_bind (leading_int ds) (\<lambda>v.
           opt_bind (unit_ns u) (\<lambda>un.
             if 2 ^ 63 div un < v then None
             else let (f, sc) = leading_fraction 0 1 fs;
                      w = v * un + (if 0 < f then f_to_i64 (fmul (f_of_int f) (fdiv (f_of_int un) (f_of_int sc))) else 0)
               in if 2 ^ 63 < w then None else Some (w, s3))))"

lemma duration_item_shrinks: "duration_item s = Some (w, s') \<Longrightarrow> length s' < length s"
proof -
  assume a: "duration_item s = Some (w, s')"
  define ds where "ds = takeWhile is_digit s"
  define s1 where "s1 = drop (length ds) s"
  define fs where "fs = (if s1 \<noteq> [] \<and> hd s1 = CHR ''.'' then takeWhile is_digit (tl s1) else [])"
  define s2 where "s2 = (if s1 \<noteq> [] \<and> hd s1 = CHR ''.''
    then drop (length (takeWhile is_digit (tl s1))) (tl s1) else s1)"
  define u where "u = takeWhile (\<lambda>c. \<not> num_char c) s2"
  have "u \<noteq> [] \<and> s' = drop (length u) s2"
    using a unfolding duration_item_def Let_def ds_def [symmetric] s1_def [symmetric]
    by (auto simp: u_def s2_def opt_bind_eq_Some split: if_splits prod.splits)
  moreover have "length s2 \<le> length s" by (auto simp: s2_def s1_def)
  moreover have "length u \<le> length s2" by (simp add: u_def length_takeWhile_le)
  ultimately show ?thesis by (cases u) auto
qed

function duration_loop :: "int \<Rightarrow> string \<Rightarrow> int option" where
  "duration_loop d s =
     (if s = [] then Some d
      else case duration_item s of
        None \<Rightarrow> None
      | Some (w, s') \<Rightarrow> if 2 ^ 63 < d + w then None else duration_loop (d + w) s')"
  by pat_completeness auto
termination
  by (relation "measure (\<lambda>(d, s). length s)") (auto dest: duration_item_shrinks)

declare duration_loop.simps [simp del]

definition parse_duration :: "string \<Rightarrow> duration option" where
  "parse_duration orig =
     (let (neg, s) = (case orig of
        c # r \<Rightarrow> if c = CHR ''-'' then (True, r) else if c = CHR ''+'' then (False, r) else (False, orig)
      | [] \<Rightarrow> (False, [])) in
      if s = ''0'' then Some 0
      else if s = [] then None
      else opt_bind (duration_loop 0 s) (\<lambda>d.
        if neg then Some (- d)
        else if 2 ^ 63 - 1 < d then None else Some d))"

lemma digits_then:
  assumes "list_all is_digit ds" "u \<noteq> []" "\<not> is_digit (hd u)"
  shows "takeWhile is_digit (ds @ u) = ds" "drop (length ds) (ds @ u) = u"
  using assms by (auto simp: takeWhile_append list_all_iff) (cases u; auto)+

text \<open>A whole number of units parses to its nanoseconds.\<close>

lemma duration_loop_units:
  assumes "unit_ns u = Some un" "u \<noteq> []" "list_all (\<lambda>c. \<not> num_char c) u" "0 < un"
    and "0 \<le> v" "v * un \<le> 2 ^ 63"
  shows "duration_loop 0 (dec_str v @ u) = Some (v * un)"
proof -
  have u: "\<not> num_char (hd u)" "\<not> is_digit (hd u)" "hd u \<noteq> CHR ''.''"
    using assms(2,3) by (cases u; simp add: num_char_def)+
  have d: "takeWhile is_digit (dec_str v @ u) = dec_str v" "drop (length (dec_str v)) (dec_str v @ u) = u"
    using assms(2) u dec_str_digits [OF assms(5)] by (auto intro!: digits_then)
  have tw: "takeWhile (\<lambda>c. \<not> num_char c) u = u"
    unfolding takeWhile_eq_all_conv using assms(3) by (simp add: list_all_iff)
  have le: "v \<le> 2 ^ 63 div un" using zdiv_mono1 [OF assms(6,4)] assms(4) by simp
  have v: "v \<le> 2 ^ 63"
    using assms(4-6) mult_left_mono [of 1 un v] by simp
  have hd: "num_char (hd (dec_str v @ u))"
    using dec_str_digits [OF assms(5)] dec_str_not_Nil [of v] by (cases "dec_str v") (auto simp: num_char_def)
  have "leading_int (dec_str v) = Some v" using v assms(5) by (simp add: leading_int_def)
  then have "duration_item (dec_str v @ u) = Some (v * un, [])"
    using u(3) le assms(1,2,6) hd
    unfolding duration_item_def Let_def d by (simp add: tw)
  then show ?thesis using assms by (simp add: duration_loop.simps)
qed

end
