(* ===== verification/Model.thy ===== *)
theory Model
  imports Go_Parse
begin

text \<open>
  The package \<^verbatim>\<open>internal/model\<close>: the desired-state document (state.go, spec.go), the
  plan and apply operations (operation.go) and their names. A field is the Go field with a
  prefix that names its struct; one-field structs are the field. A slice the program tells
  nil from empty is a \<open>slice\<close>, a pointer is an option, a map is an association list.
  Go's \<^verbatim>\<open>int\<close> and \<^verbatim>\<open>int64\<close> are integers.
\<close>

section \<open>spec.go\<close>

definition MgmtAuthBearer :: string where "MgmtAuthBearer = ''bearer''"
definition MgmtAuthDevLoopbackUnauth :: string where "MgmtAuthDevLoopbackUnauth = ''dev-loopback-unauth''"

definition RoleViewer :: string where "RoleViewer = ''viewer''"
definition RoleOperator :: string where "RoleOperator = ''operator''"
definition RoleAdministrator :: string where "RoleAdministrator = ''administrator''"

definition ScopeNTPRead :: string where "ScopeNTPRead = ''ntp.read''"
definition ScopeNTPWrite :: string where "ScopeNTPWrite = ''ntp.write''"
definition ScopeNTPAdmin :: string where "ScopeNTPAdmin = ''ntp.admin''"
definition ScopeNTPAuditRead :: string where "ScopeNTPAuditRead = ''ntp.audit.read''"

definition LogLevelInfo :: string where "LogLevelInfo = ''info''"

definition ModeFollowReal :: string where "ModeFollowReal = ''follow-real''"
definition ModeOffset :: string where "ModeOffset = ''offset''"
definition ModeAbsolute :: string where "ModeAbsolute = ''absolute''"
definition ModeFreeze :: string where "ModeFreeze = ''freeze''"
definition ModeRate :: string where "ModeRate = ''rate''"

definition LeapNone :: string where "LeapNone = ''none''"
definition LeapInsert :: string where "LeapInsert = ''insert''"
definition LeapDelete :: string where "LeapDelete = ''delete''"
definition LeapUnsync :: string where "LeapUnsync = ''unsync''"

definition RestrictServe :: string where "RestrictServe = ''serve''"
definition RestrictLimited :: string where "RestrictLimited = ''limited''"
definition RestrictIgnore :: string where "RestrictIgnore = ''ignore''"

definition ServeModeUnicast :: string where "ServeModeUnicast = ''unicast''"

lemmas mode_names = ModeFollowReal_def ModeOffset_def ModeAbsolute_def ModeFreeze_def ModeRate_def
lemmas leap_names = LeapNone_def LeapInsert_def LeapDelete_def LeapUnsync_def
lemmas restrict_names = RestrictServe_def RestrictLimited_def RestrictIgnore_def
lemmas role_names = RoleViewer_def RoleOperator_def RoleAdministrator_def
lemmas scope_names = ScopeNTPRead_def ScopeNTPWrite_def ScopeNTPAdmin_def ScopeNTPAuditRead_def

definition KnownRole :: "string \<Rightarrow> bool" where
  "KnownRole role = (role = RoleViewer \<or> role = RoleOperator \<or> role = RoleAdministrator)"

record MgmtListenerSpec =
  ml_address :: string
  ml_restPath :: string
  ml_mcpPath :: string

record ListenersSpec =
  l_ntpAddress :: string
  l_management :: MgmtListenerSpec

record TokenSpec =
  tok_id :: string
  tok_role :: string
  tok_secretFile :: string
  tok_scopes :: "string list"

record AuthSpec =
  au_mode :: string
  au_tokens :: "TokenSpec slice"

record ManagementSpec =
  mg_allowedOrigins :: "string slice"
  mg_allowLegacyClients :: bool
  mg_bodyLimit :: int
  mg_requestsPerSecond :: int
  mg_burst :: int
  mg_maxConcurrent :: int

record RestrictSpec =
  rs_default :: string
  rs_kod :: bool

record NTPAdmissionSpec =
  ad_maxPacketsPerSec :: int
  ad_maxPacketsPerIP :: int

record NTPSpec =
  n_versions :: "int slice"
  n_serveMode :: string
  n_ntsEnabled :: bool
  n_keysFile :: string
  n_restrict :: RestrictSpec
  n_allowClientCidrs :: "string slice"
  n_admission :: NTPAdmissionSpec
  n_queryLogSize :: int

record ViewSpec =
  vs_mode :: string
  vs_offset :: duration
  vs_absolute :: string
  vs_freezeAt :: string
  vs_rate :: "float64 option"
  vs_epoch :: string
  vs_leap :: string
  vs_stratum :: int
  vs_refid :: string
  vs_precision :: int
  vs_rootDelay :: duration
  vs_rootDispersion :: duration
  vs_jitter :: duration
  vs_minpoll :: "int option"
  vs_maxpoll :: "int option"

record FilterSpec =
  fs_name :: string
  fs_enabled :: bool
  fs_cidrs :: "string slice"
  fs_view :: ViewSpec

record ObservabilitySpec =
  ob_logLevel :: string
  ob_metricsListen :: string
  ob_publicPath :: bool
  ob_auditRing :: int

section \<open>state.go\<close>

definition APIVersionV1Alpha1 :: string where "APIVersionV1Alpha1 = ''labntp.dev/v1alpha1''"
definition KindLabNTP :: string where "KindLabNTP = ''LabNTP''"

record Spec =
  sp_listeners :: ListenersSpec
  sp_auth :: AuthSpec
  sp_ntp :: NTPSpec
  sp_filters :: "FilterSpec slice"
  sp_management :: ManagementSpec
  sp_uiEnabled :: bool
  sp_observability :: ObservabilitySpec

record State =
  st_apiVersion :: string
  st_kind :: string
  st_name :: string
  st_labels :: "(string \<times> string) list"
  st_spec :: Spec

section \<open>ids.go\<close>

type_synonym revision = string
type_synonym generation = int

definition RevisionPrefix :: string where "RevisionPrefix = ''sha256:''"

section \<open>operation.go\<close>

definition OpReplaceFilters :: string where "OpReplaceFilters = ''replaceFilters''"
definition OpUpsertFilter :: string where "OpUpsertFilter = ''upsertFilter''"
definition OpRemoveFilter :: string where "OpRemoveFilter = ''removeFilter''"
definition OpReplaceRestrict :: string where "OpReplaceRestrict = ''replaceRestrict''"
definition OpReplaceAdmission :: string where "OpReplaceAdmission = ''replaceAdmission''"
definition OpReplaceAllowClientCidrs :: string where "OpReplaceAllowClientCidrs = ''replaceAllowClientCidrs''"
definition OpReplaceQueryLog :: string where "OpReplaceQueryLog = ''replaceQueryLog''"
definition OpReplaceManagementHTTP :: string where "OpReplaceManagementHTTP = ''replaceManagementHTTP''"

lemmas op_names = OpReplaceFilters_def OpUpsertFilter_def OpRemoveFilter_def OpReplaceRestrict_def
  OpReplaceAdmission_def OpReplaceAllowClientCidrs_def OpReplaceQueryLog_def OpReplaceManagementHTTP_def

record ManagementHTTP =
  mh_bodyLimit :: int
  mh_requestsPerSecond :: int
  mh_burst :: int
  mh_maxConcurrent :: int

record Operation =
  op_op :: string
  op_filters :: "FilterSpec slice"
  op_filter :: "FilterSpec option"
  op_name :: string
  op_restrict :: "RestrictSpec option"
  op_admission :: "NTPAdmissionSpec option"
  op_allowClientCidrs :: "string slice"
  op_queryLogSize :: "int option"
  op_managementHTTP :: "ManagementHTTP option"

record ChangeSet =
  cs_expectedRevision :: string
  cs_idempotencyKey :: string
  cs_reason :: string
  cs_force :: bool
  cs_operations :: "Operation list"

definition KnownOp :: "string \<Rightarrow> bool" where
  "KnownOp op = (op \<in> {OpReplaceFilters, OpUpsertFilter, OpRemoveFilter,
     OpReplaceRestrict, OpReplaceAdmission, OpReplaceAllowClientCidrs,
     OpReplaceQueryLog, OpReplaceManagementHTTP})"

end
