(* ===== verification/Go_Hash.thy ===== *)
theory Go_Hash
  imports Prelude
begin

text \<open>
  The packages \<^verbatim>\<open>crypto/md5\<close>, \<^verbatim>\<open>crypto/sha1\<close> and
  \<^verbatim>\<open>crypto/sha256\<close>: one-shot digests of a byte list (RFC 1321, FIPS 180-4). The program
  relies on them for packet MACs, for token digests, for config revisions and for the
  jitter of a view.
\<close>

section \<open>Padding and blocks\<close>

definition pad_zeros :: "bytes \<Rightarrow> bytes" where
  "pad_zeros m = m @ 0x80 # replicate ((119 - length m mod 64) mod 64) 0"

definition bit_count :: "bytes \<Rightarrow> bytes" where
  "bit_count m = put_le64 (8 * int (length m))"

definition pad_be :: "bytes \<Rightarrow> bytes" where
  "pad_be m = pad_zeros m @ rev (bit_count m)"

definition pad_le :: "bytes \<Rightarrow> bytes" where
  "pad_le m = pad_zeros m @ bit_count m"

definition blocks :: "bytes \<Rightarrow> bytes list" where
  "blocks m = map (\<lambda>i. take 64 (drop (64 * i) m)) [0..<length m div 64]"

definition words_be :: "bytes \<Rightarrow> uint32 list" where
  "words_be b = map (\<lambda>i. be32 (take 4 (drop (4 * i) b))) [0..<16]"

definition words_le :: "bytes \<Rightarrow> uint32 list" where
  "words_le b = map (\<lambda>i. be32 (rev (take 4 (drop (4 * i) b)))) [0..<16]"

lemma pad_be_whole: "64 dvd length (pad_be m)"
proof -
  define q r where "q = length m div 64" and "r = length m mod 64"
  then have m: "length m = 64 * q + r" and r: "r < 64" by simp_all
  have "length (pad_be m) = 64 * q + r + 9 + (119 - r) mod 64"
    unfolding r_def by (simp add: pad_be_def pad_zeros_def bit_count_def put_le64_def m [symmetric] q_def)
  moreover have "r + 9 + (119 - r) mod 64 = (if r \<le> 55 then 64 else 128)"
  proof (cases "r \<le> 55")
    case True
    then have "(119 - r) mod 64 = 55 - r" by (simp add: mod_if)
    with True show ?thesis by simp
  next
    case False
    then show ?thesis using r by simp
  qed
  ultimately show ?thesis by (simp add: add.assoc)
qed

section \<open>SHA-256\<close>

type_synonym sha256_state = "uint32 \<times> uint32 \<times> uint32 \<times> uint32 \<times> uint32 \<times> uint32 \<times> uint32 \<times> uint32"

definition sha256_k :: "uint32 list" where
  "sha256_k =
    [1116352408, 1899447441, 3049323471, 3921009573, 961987163, 1508970993,
     2453635748, 2870763221, 3624381080, 310598401, 607225278, 1426881987,
     1925078388, 2162078206, 2614888103, 3248222580, 3835390401, 4022224774,
     264347078, 604807628, 770255983, 1249150122, 1555081692, 1996064986,
     2554220882, 2821834349, 2952996808, 3210313671, 3336571891, 3584528711,
     113926993, 338241895, 666307205, 773529912, 1294757372, 1396182291,
     1695183700, 1986661051, 2177026350, 2456956037, 2730485921, 2820302411,
     3259730800, 3345764771, 3516065817, 3600352804, 4094571909, 275423344,
     430227734, 506948616, 659060556, 883997877, 958139571, 1322822218,
     1537002063, 1747873779, 1955562222, 2024104815, 2227730452, 2361852424,
     2428436474, 2756734187, 3204031479, 3329325298]"

definition sha256_schedule :: "uint32 list \<Rightarrow> uint32 list" where
  "sha256_schedule w0 =
     foldl (\<lambda>w t.
       let a = w ! (t - 15); b = w ! (t - 2);
           s0 = word_rotr 7 a XOR word_rotr 18 a XOR drop_bit 3 a;
           s1 = word_rotr 17 b XOR word_rotr 19 b XOR drop_bit 10 b
       in w @ [w ! (t - 16) + s0 + w ! (t - 7) + s1]) w0 [16..<64]"

fun sha256_round :: "sha256_state \<Rightarrow> uint32 \<times> uint32 \<Rightarrow> sha256_state" where
  "sha256_round (a, b, c, d, e, f, g, h) (k, w) =
     (let s1 = word_rotr 6 e XOR word_rotr 11 e XOR word_rotr 25 e;
          ch = (e AND f) XOR (NOT e AND g);
          t1 = h + s1 + ch + k + w;
          s0 = word_rotr 2 a XOR word_rotr 13 a XOR word_rotr 22 a;
          maj = (a AND b) XOR (a AND c) XOR (b AND c)
      in (t1 + s0 + maj, a, b, c, d + t1, e, f, g))"

fun sha256_block :: "sha256_state \<Rightarrow> bytes \<Rightarrow> sha256_state" where
  "sha256_block (a, b, c, d, e, f, g, h) blk =
     (let (a', b', c', d', e', f', g', h') =
        foldl sha256_round (a, b, c, d, e, f, g, h) (zip sha256_k (sha256_schedule (words_be blk)))
      in (a + a', b + b', c + c', d + d', e + e', f + f', g + g', h + h'))"

fun sha256_digest :: "sha256_state \<Rightarrow> bytes" where
  "sha256_digest (a, b, c, d, e, f, g, h) =
     put_be32 a @ put_be32 b @ put_be32 c @ put_be32 d @ put_be32 e @ put_be32 f @ put_be32 g @ put_be32 h"

definition sha256_init :: sha256_state where
  "sha256_init = (1779033703, 3144134277, 1013904242, 2773480762,
       1359893119, 2600822924, 528734635, 1541459225)"

definition sha256 :: "bytes \<Rightarrow> bytes" where
  "sha256 m = sha256_digest (foldl sha256_block sha256_init (blocks (pad_be m)))"

lemma length_sha256_digest [simp]: "length (sha256_digest s) = 32"
  by (cases s rule: sha256_digest.cases) simp

lemma length_sha256 [simp]: "length (sha256 m) = 32"
  by (simp add: sha256_def)

section \<open>SHA-1\<close>

type_synonym sha1_state = "uint32 \<times> uint32 \<times> uint32 \<times> uint32 \<times> uint32"

definition sha1_schedule :: "uint32 list \<Rightarrow> uint32 list" where
  "sha1_schedule w0 =
     foldl (\<lambda>w t. w @ [word_rotl 1 (w ! (t - 3) XOR w ! (t - 8) XOR w ! (t - 14) XOR w ! (t - 16))])
       w0 [16..<80]"

fun sha1_round :: "sha1_state \<Rightarrow> nat \<times> uint32 \<Rightarrow> sha1_state" where
  "sha1_round (a, b, c, d, e) (t, w) =
     (let (f, k) =
        (if t < 20 then ((b AND c) OR (NOT b AND d), 1518500249)
         else if t < 40 then (b XOR c XOR d, 1859775393)
         else if t < 60 then ((b AND c) OR (b AND d) OR (c AND d), 2400959708)
         else (b XOR c XOR d, 3395469782))
      in (word_rotl 5 a + f + e + k + w, a, word_rotl 30 b, c, d))"

fun sha1_block :: "sha1_state \<Rightarrow> bytes \<Rightarrow> sha1_state" where
  "sha1_block (a, b, c, d, e) blk =
     (let (a', b', c', d', e') =
        foldl sha1_round (a, b, c, d, e) (zip [0..<80] (sha1_schedule (words_be blk)))
      in (a + a', b + b', c + c', d + d', e + e'))"

fun sha1_digest :: "sha1_state \<Rightarrow> bytes" where
  "sha1_digest (a, b, c, d, e) = put_be32 a @ put_be32 b @ put_be32 c @ put_be32 d @ put_be32 e"

definition sha1_init :: sha1_state where
  "sha1_init = (1732584193, 4023233417, 2562383102, 271733878, 3285377520)"

definition sha1 :: "bytes \<Rightarrow> bytes" where
  "sha1 m = sha1_digest (foldl sha1_block sha1_init (blocks (pad_be m)))"

lemma length_sha1 [simp]: "length (sha1 m) = 20"
  by (cases "foldl sha1_block sha1_init (blocks (pad_be m))") (simp add: sha1_def)

section \<open>MD5\<close>

type_synonym md5_state = "uint32 \<times> uint32 \<times> uint32 \<times> uint32"

definition md5_k :: "uint32 list" where
  "md5_k =
    [3614090360, 3905402710, 606105819, 3250441966, 4118548399, 1200080426,
     2821735955, 4249261313, 1770035416, 2336552879, 4294925233, 2304563134,
     1804603682, 4254626195, 2792965006, 1236535329, 4129170786, 3225465664,
     643717713, 3921069994, 3593408605, 38016083, 3634488961, 3889429448,
     568446438, 3275163606, 4107603335, 1163531501, 2850285829, 4243563512,
     1735328473, 2368359562, 4294588738, 2272392833, 1839030562, 4259657740,
     2763975236, 1272893353, 4139469664, 3200236656, 681279174, 3936430074,
     3572445317, 76029189, 3654602809, 3873151461, 530742520, 3299628645,
     4096336452, 1126891415, 2878612391, 4237533241, 1700485571, 2399980690,
     4293915773, 2240044497, 1873313359, 4264355552, 2734768916, 1309151649,
     4149444226, 3174756917, 718787259, 3951481745]"

definition md5_shift :: "nat \<Rightarrow> nat" where
  "md5_shift i =
     (if i < 16 then [7, 12, 17, 22] else if i < 32 then [5, 9, 14, 20]
      else if i < 48 then [4, 11, 16, 23] else [6, 10, 15, 21]) ! (i mod 4)"

fun md5_round :: "uint32 list \<Rightarrow> md5_state \<Rightarrow> nat \<times> uint32 \<Rightarrow> md5_state" where
  "md5_round m (a, b, c, d) (i, k) =
     (let (f, g) =
        (if i < 16 then ((b AND c) OR (NOT b AND d), i)
         else if i < 32 then ((d AND b) OR (NOT d AND c), (5 * i + 1) mod 16)
         else if i < 48 then (b XOR c XOR d, (3 * i + 5) mod 16)
         else (c XOR (b OR NOT d), (7 * i) mod 16))
      in (d, b + word_rotl (md5_shift i) (f + a + k + m ! g), b, c))"

fun md5_block :: "md5_state \<Rightarrow> bytes \<Rightarrow> md5_state" where
  "md5_block (a, b, c, d) blk =
     (let (a', b', c', d') = foldl (md5_round (words_le blk)) (a, b, c, d) (zip [0..<64] md5_k)
      in (a + a', b + b', c + c', d + d'))"

fun md5_digest :: "md5_state \<Rightarrow> bytes" where
  "md5_digest (a, b, c, d) =
     rev (put_be32 a) @ rev (put_be32 b) @ rev (put_be32 c) @ rev (put_be32 d)"

definition md5_init :: md5_state where
  "md5_init = (1732584193, 4023233417, 2562383102, 271733878)"

definition md5 :: "bytes \<Rightarrow> bytes" where
  "md5 m = md5_digest (foldl md5_block md5_init (blocks (pad_le m)))"

lemma length_md5 [simp]: "length (md5 m) = 16"
  by (cases "foldl md5_block md5_init (blocks (pad_le m))") (simp add: md5_def)

end
