(* ===== verification/NtpWire.thy ===== *)
theory NtpWire
  imports Go_Hash Go_Time
begin

text \<open>
  The package \<^verbatim>\<open>internal/ntpwire\<close>: the 48-byte NTP header and its codec
  (types.go, codec.go), the MAC trailer (mac.go), and the conversion of instants and
  durations to wire formats (time.go). Signed fields are words read with \<open>sint\<close>.
\<close>

section \<open>types.go\<close>

definition PacketSize :: nat where "PacketSize = 48"
definition MaxUDPSize :: nat where "MaxUDPSize = 576"

definition LINone :: byte where "LINone = 0"
definition LIInsert :: byte where "LIInsert = 1"
definition LIDelete :: byte where "LIDelete = 2"
definition LIUnsync :: byte where "LIUnsync = 3"

definition ModeClient :: byte where "ModeClient = 3"
definition ModeServer :: byte where "ModeServer = 4"

definition ntpUnixDelta :: int where "ntpUnixDelta = 2208988800"

record Timestamp =
  Seconds :: uint32
  Fraction :: uint32

type_synonym refid = "byte \<times> byte \<times> byte \<times> byte"

record Packet =
  LI :: byte
  VN :: byte
  Mode :: byte
  Stratum :: byte
  Poll :: byte
  Precision :: byte
  RootDelay :: uint32
  RootDisp :: uint32
  RefID :: refid
  RefTime :: Timestamp
  OrgTime :: Timestamp
  RecTime :: Timestamp
  XmtTime :: Timestamp

definition zero_ts :: Timestamp where
  "zero_ts = \<lparr>Seconds = 0, Fraction = 0\<rparr>"

definition Zero :: "Timestamp \<Rightarrow> bool" where
  "Zero ts = (Seconds ts = 0 \<and> Fraction ts = 0)"

definition ntpEra0Start :: gotime where "ntpEra0Start = go_date 1900 1 1 0 0 0 0"
definition ntpEra0End :: gotime where "ntpEra0End = go_date 2036 2 7 6 28 16 0"
definition ntpEra1End :: gotime where "ntpEra1End = go_date 2172 3 15 12 56 32 0"

text \<open>The kiss code \<^verbatim>\<open>RATE\<close>.\<close>

definition KissRATE :: refid where
  "KissRATE = (0x52, 0x41, 0x54, 0x45)"

lemma era_walls [simp]:
  "wall ntpEra0Start = - (2208988800 * second)"
  "wall ntpEra0End = 2085978496 * second"
  "wall ntpEra1End = 6380945792 * second"
  "mono ntpEra0Start = None" "mono ntpEra0End = None" "mono ntpEra1End = None"
  by (simp_all add: ntpEra0Start_def ntpEra0End_def ntpEra1End_def go_date_def
      days_from_civil_def Let_def second_def)

section \<open>codec.go\<close>

definition parseTS :: "bytes \<Rightarrow> Timestamp" where
  "parseTS b = \<lparr>Seconds = be32 (take 4 b), Fraction = be32 (take 4 (drop 4 b))\<rparr>"

text \<open>\<open>sub_span i j b\<close> is \<^verbatim>\<open>b[i:j]\<close>.\<close>

definition sub_span :: "nat \<Rightarrow> nat \<Rightarrow> 'a list \<Rightarrow> 'a list" where
  "sub_span i j b = take (j - i) (drop i b)"

datatype wire_error = ShortPacket nat | UnknownAlgorithm string | HeaderShort

definition Parse :: "bytes \<Rightarrow> wire_error + Packet" where
  "Parse b =
     (if length b < PacketSize then Inl (ShortPacket (length b))
      else let b0 = b ! 0 in
        Inr \<lparr>LI = drop_bit 6 b0,
             VN = drop_bit 3 b0 AND 0x7,
             Mode = b0 AND 0x7,
             Stratum = b ! 1,
             Poll = b ! 2,
             Precision = b ! 3,
             RootDelay = be32 (sub_span 4 8 b),
             RootDisp = be32 (sub_span 8 12 b),
             RefID = (b ! 12, b ! 13, b ! 14, b ! 15),
             RefTime = parseTS (sub_span 16 24 b),
             OrgTime = parseTS (sub_span 24 32 b),
             RecTime = parseTS (sub_span 32 40 b),
             XmtTime = parseTS (sub_span 40 48 b)\<rparr>)"

definition putTS :: "Timestamp \<Rightarrow> bytes" where
  "putTS ts = put_be32 (Seconds ts) @ put_be32 (Fraction ts)"

fun refid_bytes :: "refid \<Rightarrow> bytes" where
  "refid_bytes (a, b, c, d) = [a, b, c, d]"

definition Append :: "bytes \<Rightarrow> Packet \<Rightarrow> bytes" where
  "Append dst p =
     dst @ [push_bit 6 (LI p) OR push_bit 3 (VN p) OR Mode p, Stratum p, Poll p, Precision p]
         @ put_be32 (RootDelay p) @ put_be32 (RootDisp p) @ refid_bytes (RefID p)
         @ putTS (RefTime p) @ putTS (OrgTime p) @ putTS (RecTime p) @ putTS (XmtTime p)"

definition Encode :: "Packet \<Rightarrow> bytes" where
  "Encode p = Append [] p"

definition KoD :: "Packet \<Rightarrow> refid \<Rightarrow> Packet" where
  "KoD req code =
     \<lparr>LI = LIUnsync, VN = VN req, Mode = ModeServer, Stratum = 0, Poll = 0, Precision = 0,
      RootDelay = 0, RootDisp = 0, RefID = code, RefTime = zero_ts, OrgTime = XmtTime req,
      RecTime = zero_ts, XmtTime = zero_ts\<rparr>"

section \<open>mac.go\<close>

text \<open>The digest functions a name selects; the name is compared without regard to case.\<close>

definition newHash :: "string \<Rightarrow> (bytes \<Rightarrow> bytes) option" where
  "newHash alg =
     (let a = to_upper alg in
      if a = ''MD5'' then Some md5
      else if a = ''SHA1'' then Some sha1
      else if a = ''SHA256'' then Some sha256
      else None)"

definition DigestLen :: "string \<Rightarrow> wire_error + nat" where
  "DigestLen alg =
     (let a = to_upper alg in
      if a = ''MD5'' then Inr 16
      else if a = ''SHA1'' then Inr 20
      else if a = ''SHA256'' then Inr 32
      else Inl (UnknownAlgorithm alg))"

definition MAC :: "string \<Rightarrow> bytes \<Rightarrow> bytes \<Rightarrow> wire_error + bytes" where
  "MAC alg key header =
     (if length header < PacketSize then Inl HeaderShort
      else case newHash alg of
             None \<Rightarrow> Inl (UnknownAlgorithm alg)
           | Some h \<Rightarrow> Inr (h (key @ take PacketSize header)))"

definition TrailerSize :: "nat \<Rightarrow> nat" where
  "TrailerSize digestLen = 4 + digestLen"

definition AppendMAC :: "bytes \<Rightarrow> uint32 \<Rightarrow> bytes \<Rightarrow> bytes" where
  "AppendMAC pkt keyID digest = (pkt @ put_be32 keyID) @ digest"

text \<open>The header, key id and digest, and whether the length is one of the allowed ones.\<close>

definition SplitMAC :: "bytes \<Rightarrow> bytes \<times> uint32 \<times> bytes \<times> bool" where
  "SplitMAC pkt =
     (if length pkt < PacketSize then ([], 0, [], False)
      else if length pkt = PacketSize then (take PacketSize pkt, 0, [], True)
      else let rest = drop PacketSize pkt in
        if length rest < 4 then (take PacketSize pkt, 0, [], False)
        else let dlen = length rest - 4 in
          if dlen \<noteq> 16 \<and> dlen \<noteq> 20 \<and> dlen \<noteq> 32 then (take PacketSize pkt, 0, [], False)
          else (take PacketSize pkt, be32 (take 4 rest), drop 4 rest, True))"

text \<open>The constant-time comparison: every byte difference is accumulated.\<close>

definition ct_diff :: "bytes \<Rightarrow> bytes \<Rightarrow> byte" where
  "ct_diff want got = foldl (\<lambda>d (a, b). d OR (a XOR b)) 0 (zip want got)"

definition VerifyMAC :: "string \<Rightarrow> bytes \<Rightarrow> bytes \<Rightarrow> bool" where
  "VerifyMAC alg key pkt =
     (case SplitMAC pkt of (header, _, digest, ok) \<Rightarrow>
        if \<not> ok \<or> length digest = 0 then False
        else case MAC alg key header of
               Inl _ \<Rightarrow> False
             | Inr want \<Rightarrow> if length want \<noteq> length digest then False else ct_diff want digest = 0)"

section \<open>time.go\<close>

definition ClampServed :: "gotime \<Rightarrow> gotime" where
  "ClampServed t =
     (let u = t_utc t in
      if t_before u ntpEra0Start then ntpEra0Start
      else if \<not> t_before u ntpEra1End then t_add ntpEra1End (- nanosecond)
      else u)"

definition Clamped :: "gotime \<Rightarrow> bool" where
  "Clamped t = (let u = t_utc t in t_before u ntpEra0Start \<or> \<not> t_before u ntpEra1End)"

definition Era :: "gotime \<Rightarrow> int" where
  "Era t = (if t_before (ClampServed t) ntpEra0End then 0 else 1)"

definition FromTime :: "gotime \<Rightarrow> Timestamp" where
  "FromTime t0 =
     (let t = ClampServed t0;
          sec = unix_sec t + ntpUnixDelta;
          frac = t_nsec t * 2 ^ 32 div 1000000000
      in \<lparr>Seconds = word_of_int sec, Fraction = word_of_int frac\<rparr>)"

text \<open>\<^verbatim>\<open>Timestamp.Time(era)\<close>.\<close>

definition ts_time :: "Timestamp \<Rightarrow> int \<Rightarrow> gotime" where
  "ts_time ts era =
     (let sec = wrap64 (wrap64 (era * 2 ^ 32) + uint (Seconds ts) - ntpUnixDelta);
          nsec = uint (Fraction ts) * 1000000000 div 2 ^ 32
      in t_utc (of_unix sec nsec))"

text \<open>A finite double to a 32-bit integer, inside its range.\<close>

definition ShortFromDuration :: "duration \<Rightarrow> uint32" where
  "ShortFromDuration d =
     (let sec = fmul (dur_seconds d) (Fin 65536) in
      if flt (Fin 2147483647) sec then word_of_int 2147483647
      else if flt sec (Fin (- 2147483648)) then word_of_int (- 2147483648)
      else word_of_int (f_to_i64 sec))"

definition UShortFromDuration :: "duration \<Rightarrow> uint32" where
  "UShortFromDuration d =
     (if d \<le> 0 then 0
      else let sec = fmul (dur_seconds d) (Fin 65536) in
        if flt (Fin 4294967295) sec then 0xFFFFFFFF
        else word_of_int (f_to_i64 sec))"

section \<open>Round trips of the codec\<close>

definition wf_packet :: "Packet \<Rightarrow> bool" where
  "wf_packet p = (LI p < 4 \<and> VN p < 8 \<and> Mode p < 8)"

lemma length_putTS [simp]: "length (putTS ts) = 8"
  by (simp add: putTS_def)

lemma length_refid_bytes [simp]: "length (refid_bytes r) = 4"
  by (cases r rule: refid_bytes.cases) simp

lemma length_Append [simp]: "length (Append dst p) = length dst + PacketSize"
  by (simp add: Append_def PacketSize_def)

lemma length_Encode [simp]: "length (Encode p) = PacketSize"
  by (simp add: Encode_def)

lemma parseTS_putTS [simp]: "parseTS (putTS ts) = ts"
  by (cases ts) (simp add: parseTS_def putTS_def)

lemma putTS_parseTS: "length b = 8 \<Longrightarrow> putTS (parseTS b) = b"
  by (simp add: parseTS_def putTS_def)

lemma length_sub_span [simp]: "j \<le> length b \<Longrightarrow> length (sub_span i j b) = j - i"
  by (simp add: sub_span_def)

lemma sub_span_append_left: "j \<le> length xs \<Longrightarrow> sub_span i j (xs @ ys) = sub_span i j xs"
  by (simp add: sub_span_def)

lemma sub_span_append_right: "length xs \<le> i \<Longrightarrow> sub_span i j (xs @ ys) = sub_span (i - length xs) (j - length xs) ys"
  by (cases "i \<le> j") (auto simp: sub_span_def)

lemma sub_span_all [simp]: "sub_span 0 (length xs) (xs @ ys) = xs"
  by (simp add: sub_span_def)

lemma sub_span_glue: "i \<le> j \<Longrightarrow> j \<le> k \<Longrightarrow> sub_span i j b @ sub_span j k b = sub_span i k b"
proof -
  assume "i \<le> j" "j \<le> k"
  then have "take (k - i) (drop i b) = take (j - i) (drop i b) @ take (k - j) (drop (j - i) (drop i b))"
    by (subst take_add [symmetric]) simp
  then show ?thesis using \<open>i \<le> j\<close> by (simp add: sub_span_def)
qed

text \<open>The three fields of the first byte.\<close>

lemma byte_take_bit:
  fixes w :: byte
  assumes "unat w < 2 ^ k"
  shows "take_bit k w = w"
proof -
  have "unat (take_bit k w) = unat w"
    using assms by (simp add: unsigned_take_bit_eq take_bit_nat_eq_self)
  then show ?thesis by (rule unsigned_word_eqI)
qed

lemma and_7: "(w :: byte) AND 7 = take_bit 3 w"
  by (simp add: take_bit_eq_mask mask_eq_exp_minus_1)

lemma first_byte_fields:
  fixes li vn md :: byte
  assumes "li < 4" "vn < 8" "md < 8"
  defines "b \<equiv> push_bit 6 li OR push_bit 3 vn OR md"
  shows "drop_bit 6 b = li" "drop_bit 3 b AND 7 = vn" "b AND 7 = md"
proof -
  have li: "li = take_bit 2 li" and vn: "vn = take_bit 3 vn" and md: "md = take_bit 3 md"
    using assms(1-3) byte_take_bit [of li 2] byte_take_bit [of vn 3] byte_take_bit [of md 3]
    by (simp_all add: word_less_nat_alt)
  have "drop_bit 6 (push_bit 6 (take_bit 2 li) OR push_bit 3 (take_bit 3 vn) OR take_bit 3 md) = take_bit 2 li"
    by (rule bit_word_eqI) (auto simp: bit_simps)
  then show "drop_bit 6 b = li" using li vn md by (simp add: b_def)
  have "take_bit 3 (drop_bit 3 (push_bit 6 (take_bit 2 li) OR push_bit 3 (take_bit 3 vn) OR take_bit 3 md))
      = take_bit 3 vn"
    by (rule bit_word_eqI) (auto simp: bit_simps)
  then show "drop_bit 3 b AND 7 = vn" using li vn md by (simp add: b_def and_7)
  have "take_bit 3 (push_bit 6 (take_bit 2 li) OR push_bit 3 (take_bit 3 vn) OR take_bit 3 md) = take_bit 3 md"
    by (rule bit_word_eqI) (auto simp: bit_simps)
  then show "b AND 7 = md" using li vn md by (simp add: b_def and_7)
qed

lemma first_byte_join:
  "push_bit 6 (drop_bit 6 b) OR push_bit 3 (drop_bit 3 b AND 7) OR (b AND 7) = (b :: byte)"
  unfolding and_7
proof (rule bit_word_eqI)
  fix n :: nat
  assume "n < LENGTH(8)"
  then consider "n < 3" | "3 \<le> n" "n < 6" | "6 \<le> n" "n < 8" by fastforce
  then show "bit (push_bit 6 (drop_bit 6 b) OR push_bit 3 (take_bit 3 (drop_bit 3 b)) OR take_bit 3 b) n = bit b n"
    by cases (auto simp: bit_simps)
qed

lemma encode_layout:
  "Encode p = [push_bit 6 (LI p) OR push_bit 3 (VN p) OR Mode p, Stratum p, Poll p, Precision p]
     @ put_be32 (RootDelay p) @ put_be32 (RootDisp p) @ refid_bytes (RefID p)
     @ putTS (RefTime p) @ putTS (OrgTime p) @ putTS (RecTime p) @ putTS (XmtTime p)"
  by (simp add: Encode_def Append_def)

lemma parse_encode:
  assumes "wf_packet p"
  shows "Parse (Encode p @ rest) = Inr p"
proof -
  note f = first_byte_fields [of "LI p" "VN p" "Mode p"]
  show ?thesis
  proof (cases p)
    case (fields li vn md st po pr rd rdi ri rt ot rct xt)
    obtain a b c d where "ri = (a, b, c, d)" by (cases ri) auto
    with fields show ?thesis
      using assms f
      by (simp add: wf_packet_def Parse_def PacketSize_def encode_layout sub_span_def Let_def nth_append)
  qed
qed

text \<open>C35: parsing what was encoded gives the packet back, whatever follows the header, for a
  packet whose leap, version and mode fit their bit fields.\<close>

theorem Parse_Encode:
  assumes "wf_packet p"
  shows "Parse (Encode p @ rest) = Inr p"
  using assms by (rule parse_encode)

lemma sub_span_one: "i < length xs \<Longrightarrow> sub_span i (Suc i) xs = [xs ! i]"
  by (simp add: sub_span_def Cons_nth_drop_Suc [symmetric])

lemma sub_span_nths4:
  "i + 3 < length xs \<Longrightarrow> sub_span i (i + 4) xs = [xs ! i, xs ! (i + 1), xs ! (i + 2), xs ! (i + 3)]"
  by (simp add: sub_span_def numeral_eq_Suc flip: Cons_nth_drop_Suc)

lemma encode_parse:
  assumes "Parse b = Inr p"
  shows "Encode p = take PacketSize b"
proof -
  have l: "48 \<le> length b" using assms by (auto simp: Parse_def PacketSize_def split: if_splits)
  have p: "p = \<lparr>LI = drop_bit 6 (b ! 0), VN = drop_bit 3 (b ! 0) AND 7, Mode = b ! 0 AND 7,
      Stratum = b ! 1, Poll = b ! 2, Precision = b ! 3, RootDelay = be32 (sub_span 4 8 b),
      RootDisp = be32 (sub_span 8 12 b), RefID = (b ! 12, b ! 13, b ! 14, b ! 15),
      RefTime = parseTS (sub_span 16 24 b), OrgTime = parseTS (sub_span 24 32 b),
      RecTime = parseTS (sub_span 32 40 b), XmtTime = parseTS (sub_span 40 48 b)\<rparr>"
    using assms l by (simp add: Parse_def PacketSize_def Let_def)
  have "sub_span 0 4 b = [b ! 0, b ! 1, b ! 2, b ! 3]" "sub_span 12 16 b = [b ! 12, b ! 13, b ! 14, b ! 15]"
    using sub_span_nths4 [of 0 b] sub_span_nths4 [of 12 b] l by (simp_all add: numeral_2_eq_2)
  then have "Encode p = sub_span 0 4 b @ sub_span 4 8 b @ sub_span 8 12 b @ sub_span 12 16 b @ sub_span 16 24 b
      @ sub_span 24 32 b @ sub_span 32 40 b @ sub_span 40 48 b"
    using l first_byte_join [of "b ! 0"] by (simp add: encode_layout p putTS_parseTS)
  also have "\<dots> = sub_span 0 48 b" by (simp add: sub_span_glue)
  finally show ?thesis by (simp add: sub_span_def PacketSize_def)
qed

text \<open>Encoding what was parsed gives the 48 header bytes back, for every input long enough
  to hold a header.\<close>

theorem Encode_Parse:
  assumes "Parse b = Inr p"
  shows "Encode p = take PacketSize b"
  using assms by (rule encode_parse)

lemma Parse_error_iff: "(\<exists>e. Parse b = Inl e) \<longleftrightarrow> length b < PacketSize"
  by (simp add: Parse_def Let_def)

lemma Parse_wf: "Parse b = Inr p \<Longrightarrow> wf_packet p"
proof -
  assume a: "Parse b = Inr p"
  have "unat (take_bit 3 w) < 8" for w :: byte
    using take_bit_nat_less_exp [of 3 "unat w"] by (simp add: unsigned_take_bit_eq)
  moreover have "unat (drop_bit 6 w) < 4" for w :: byte
    using unsigned_less [of w, where 'a = nat] by (simp add: unat_div div_less_iff_less_mult drop_bit_eq_div)
  ultimately show ?thesis
    using a by (auto simp: Parse_def Let_def wf_packet_def and_7 word_less_nat_alt split: if_splits)
qed

theorem Parse_Encode_witness:
  "Parse (Encode (KoD \<lparr>LI = 0, VN = 4, Mode = 3, Stratum = 0, Poll = 6, Precision = 0, RootDelay = 0,
      RootDisp = 0, RefID = KissRATE, RefTime = zero_ts, OrgTime = zero_ts, RecTime = zero_ts,
      XmtTime = \<lparr>Seconds = 5, Fraction = 7\<rparr>\<rparr> KissRATE) @ [1, 2])
   = Inr (KoD \<lparr>LI = 0, VN = 4, Mode = 3, Stratum = 0, Poll = 6, Precision = 0, RootDelay = 0,
      RootDisp = 0, RefID = KissRATE, RefTime = zero_ts, OrgTime = zero_ts, RecTime = zero_ts,
      XmtTime = \<lparr>Seconds = 5, Fraction = 7\<rparr>\<rparr> KissRATE)"
  by (rule Parse_Encode) (simp add: wf_packet_def KoD_def LIUnsync_def ModeServer_def)

theorem Encode_Parse_witness:
  "Encode (projr (Parse (replicate 50 7))) = take PacketSize (replicate 50 7)"
  by (rule Encode_Parse) (simp add: Parse_def PacketSize_def Let_def)

section \<open>The MAC trailer\<close>

lemma newHash_length:
  assumes "newHash alg = Some h"
  shows "DigestLen alg = Inr (length (h m))" "length (h m) \<in> {16, 20, 32}"
  using assms by (auto simp: newHash_def DigestLen_def Let_def split: if_splits)

lemma newHash_None: "newHash alg = None \<longleftrightarrow> DigestLen alg = Inl (UnknownAlgorithm alg)"
  by (auto simp: newHash_def DigestLen_def Let_def)

lemma MAC_length:
  assumes "MAC alg key hdr = Inr d"
  shows "DigestLen alg = Inr (length d)" "length d \<in> {16, 20, 32}"
proof -
  obtain h where h: "newHash alg = Some h" "d = h (key @ take PacketSize hdr)"
    using assms by (auto simp: MAC_def split: if_splits option.splits)
  show "DigestLen alg = Inr (length d)" "length d \<in> {16, 20, 32}"
    using newHash_length [OF h(1)] unfolding h(2) by blast+
qed

lemma length_AppendMAC [simp]: "length (AppendMAC pkt k d) = length pkt + TrailerSize (length d)"
  by (simp add: AppendMAC_def TrailerSize_def)

lemma SplitMAC_AppendMAC:
  assumes "length hdr = PacketSize" "length d \<in> {16, 20, 32}"
  shows "SplitMAC (AppendMAC hdr k d) = (hdr, k, d, True)"
  using assms by (auto simp: SplitMAC_def AppendMAC_def Let_def PacketSize_def)

lemma SplitMAC_cases:
  assumes "SplitMAC pkt = (hdr, k, d, True)"
  obtains "d = []" "pkt = hdr" "length hdr = PacketSize"
  | "length d \<in> {16, 20, 32}" "pkt = AppendMAC hdr k d" "length hdr = PacketSize"
proof (cases "length pkt = PacketSize")
  case True
  then show thesis using assms that(1) by (simp add: SplitMAC_def)
next
  case False
  define rest where "rest = drop PacketSize pkt"
  have f: "PacketSize < length pkt" "4 \<le> length rest" "length rest - 4 \<in> {16, 20, 32}"
    "hdr = take PacketSize pkt" "k = be32 (take 4 rest)" "d = drop 4 rest"
    using assms False by (auto simp: SplitMAC_def rest_def Let_def split: if_splits)
  have "AppendMAC hdr k d = hdr @ take 4 rest @ drop 4 rest"
    using f by (simp add: AppendMAC_def)
  also have "\<dots> = hdr @ rest" by (simp only: append_take_drop_id)
  also have "\<dots> = pkt" by (simp add: f(4) rest_def)
  finally show thesis using f that(2) by simp
qed

lemma SplitMAC_header:
  "SplitMAC pkt = (hdr, k, d, ok) \<Longrightarrow> PacketSize \<le> length pkt \<Longrightarrow> hdr = take PacketSize pkt"
  by (auto simp: SplitMAC_def Let_def split: if_splits)

lemma foldl_or_zero:
  "foldl (\<lambda>d (a, b). d OR (a XOR b)) (x :: byte) ps = 0 \<longleftrightarrow> x = 0 \<and> list_all (\<lambda>(a, b). a = b) ps"
proof (induction ps arbitrary: x)
  case (Cons p ps)
  have "x OR (fst p XOR snd p) = 0 \<longleftrightarrow> x = 0 \<and> fst p = snd p"
    by (auto simp: or_eq_0_iff bit_eq_iff bit_simps)
  then show ?case using Cons by (cases p) simp
qed simp

lemma ct_diff_zero: "length a = length b \<Longrightarrow> ct_diff a b = 0 \<longleftrightarrow> a = b"
  by (simp add: ct_diff_def foldl_or_zero list_all_length list_eq_iff_nth_eq)

lemma VerifyMAC_char:
  "VerifyMAC alg key pkt \<longleftrightarrow>
     (\<exists>hdr k d. length hdr = PacketSize \<and> MAC alg key hdr = Inr d \<and> pkt = AppendMAC hdr k d)"
proof
  assume v: "VerifyMAC alg key pkt"
  obtain hdr k d ok where s: "SplitMAC pkt = (hdr, k, d, ok)" by (cases "SplitMAC pkt") auto
  with v obtain want where w: "ok" "d \<noteq> []" "MAC alg key hdr = Inr want" "length want = length d"
    "ct_diff want d = 0"
    by (auto simp: VerifyMAC_def split: if_splits sum.splits)
  then have "want = d" by (simp add: ct_diff_zero)
  moreover have "SplitMAC pkt = (hdr, k, d, True)" using s w(1) by simp
  then have "length hdr = PacketSize \<and> pkt = AppendMAC hdr k d"
    using w(2) by (auto elim: SplitMAC_cases)
  ultimately show "\<exists>hdr k d. length hdr = PacketSize \<and> MAC alg key hdr = Inr d \<and> pkt = AppendMAC hdr k d"
    using w(3) by blast
next
  assume "\<exists>hdr k d. length hdr = PacketSize \<and> MAC alg key hdr = Inr d \<and> pkt = AppendMAC hdr k d"
  then obtain hdr k d where p: "length hdr = PacketSize" "MAC alg key hdr = Inr d" "pkt = AppendMAC hdr k d"
    by blast
  then have "SplitMAC pkt = (hdr, k, d, True)" using MAC_length(2) [OF p(2)] by (simp add: SplitMAC_AppendMAC)
  then show "VerifyMAC alg key pkt"
    using p MAC_length(2) [OF p(2)] by (auto simp: VerifyMAC_def ct_diff_zero)
qed

text \<open>The packets a key verifies are exactly the ones made by appending, under any key id,
  the MAC of a 48-byte header under that key: nothing shorter, longer or altered verifies, and
  every signed packet does.\<close>

theorem VerifyMAC_iff:
  "VerifyMAC alg key pkt \<longleftrightarrow>
     (\<exists>hdr k d. length hdr = PacketSize \<and> MAC alg key hdr = Inr d \<and> pkt = AppendMAC hdr k d)"
  by (rule VerifyMAC_char)

section \<open>Conversion of instants\<close>

lemma ClampServed_wall:
  "wall (ClampServed t) =
     (if wall t < - (2208988800 * second) then - (2208988800 * second)
      else if 6380945792 * second \<le> wall t then 6380945792 * second - 1 else wall t)"
  by (simp add: ClampServed_def Let_def nanosecond_def)

lemma ClampServed_mono_reading [simp]: "mono (ClampServed t) = None"
  by (simp add: ClampServed_def Let_def)

lemma ClampServed_range:
  "- (2208988800 * second) \<le> wall (ClampServed t)" "wall (ClampServed t) < 6380945792 * second"
  by (auto simp: ClampServed_wall second_def)

lemma ClampServed_le: "wall t \<le> wall t' \<Longrightarrow> wall (ClampServed t) \<le> wall (ClampServed t')"
  by (auto simp: ClampServed_wall second_def)

lemma Clamped_iff: "Clamped t \<longleftrightarrow> wall (ClampServed t) \<noteq> wall t"
  by (auto simp: Clamped_def ClampServed_wall Let_def second_def)

lemma ClampServed_idem [simp]: "ClampServed (ClampServed t) = ClampServed t"
  using ClampServed_range [of t] by (intro gotime_eqI) (auto simp: ClampServed_wall)

lemma frac_bounds:
  assumes "0 \<le> n" "n < (1000000000 :: int)"
  defines "f \<equiv> n * 2 ^ 32 div 1000000000"
  shows "0 \<le> f" "f < 2 ^ 32" "n - 1 \<le> f * 1000000000 div 2 ^ 32" "f * 1000000000 div 2 ^ 32 \<le> n"
  using assms(1,2) unfolding f_def by simp_all

text \<open>An instant inside the NTP range survives encoding and decoding in its own era up to one
  nanosecond, and never moves forward.\<close>

theorem FromTime_Time:
  assumes "\<not> Clamped t"
  shows "wall (ts_time (FromTime t) (Era t)) \<in> {wall t - 1, wall t}"
proof -
  let ?s = "unix_sec t" and ?n = "t_nsec t"
  have c: "wall (ClampServed t) = wall t" using assms by (simp add: Clamped_iff)
  have sn: "unix_sec (ClampServed t) = ?s" "t_nsec (ClampServed t) = ?n"
    by (simp_all add: unix_sec_def t_nsec_def c)
  have w: "wall t = ?s * second + ?n" "0 \<le> ?n" "?n < 1000000000"
    using unix_split [of t] t_nsec_range [of t] by simp_all
  have r: "- 2208988800 \<le> ?s" "?s < 6380945792"
    using ClampServed_range [of t] unfolding c by (simp_all add: unix_sec_def second_def)
  have e: "Era t = (if ?s < 2085978496 then 0 else 1)"
    using w by (auto simp: Era_def c second_def)
  let ?f = "?n * 2 ^ 32 div 1000000000"
  note f = frac_bounds [OF w(2,3)]
  have u: "uint (Fraction (FromTime t)) = ?f"
    using f by (simp add: FromTime_def sn Let_def uint_word_of_int_eq take_bit_int_eq_self)
  have "uint (Seconds (FromTime t)) = (?s + ntpUnixDelta) mod 2 ^ 32"
    by (simp add: FromTime_def sn Let_def uint_word_of_int del: of_int_add)
  also have "\<dots> = ?s + ntpUnixDelta - Era t * 2 ^ 32"
  proof (cases "?s < 2085978496")
    case False
    then have "(?s + 2208988800) mod 2 ^ 32 = (?s + 2208988800 - 2 ^ 32) mod 2 ^ 32"
      by (simp only: minus_mod_self2)
    with False r show ?thesis by (simp add: e ntpUnixDelta_def)
  qed (use r in \<open>simp add: e ntpUnixDelta_def\<close>)
  finally have s: "uint (Seconds (FromTime t)) = ?s + ntpUnixDelta - Era t * 2 ^ 32" .
  have "wall (ts_time (FromTime t) (Era t)) = ?s * second + ?f * 1000000000 div 2 ^ 32"
    using r by (auto simp: ts_time_def Let_def of_unix_def s u e i64_def')
  then show ?thesis using f w(1) by auto
qed

theorem FromTime_Time_witness:
  "wall (ts_time (FromTime (wall_time 123456789)) (Era (wall_time 123456789))) \<in> {123456788, 123456789}"
  using FromTime_Time [of "wall_time 123456789"] by (simp add: Clamped_def Let_def second_def)

end
