(* ===== verification/Go_Net.thy ===== *)
theory Go_Net
  imports Prelude
begin

text \<open>
  The packages \<^verbatim>\<open>net/netip\<close> and \<^verbatim>\<open>net\<close> as far as the program uses them:
  addresses, prefixes, their text forms, and the split of \<^verbatim>\<open>host:port\<close>. The locale
  \<open>region\<close> states when two sets of addresses given by descriptions meet; CIDR prefixes
  interpret it.
\<close>

section \<open>Addresses\<close>

text \<open>\<open>InvalidAddr\<close> is the zero \<^verbatim>\<open>netip.Addr\<close>; a 4-in-6 address is a \<open>V6\<close>.\<close>

datatype addr = InvalidAddr | V4 "32 word" | V6 "128 word" string

fun is4 :: "addr \<Rightarrow> bool" where
  "is4 (V4 _) = True"
| "is4 _ = False"

fun is6 :: "addr \<Rightarrow> bool" where
  "is6 (V6 _ _) = True"
| "is6 _ = False"

fun addr_valid :: "addr \<Rightarrow> bool" where
  "addr_valid InvalidAddr = False"
| "addr_valid _ = True"

fun zone :: "addr \<Rightarrow> string" where
  "zone (V6 _ z) = z"
| "zone _ = []"

fun is4in6 :: "addr \<Rightarrow> bool" where
  "is4in6 (V6 w _) = (drop_bit 32 w = 0xFFFF)"
| "is4in6 _ = False"

fun unmap :: "addr \<Rightarrow> addr" where
  "unmap (V6 w z) = (if drop_bit 32 w = 0xFFFF then V4 (ucast w) else V6 w z)"
| "unmap a = a"

fun is_loopback0 :: "addr \<Rightarrow> bool" where
  "is_loopback0 (V4 w) = (drop_bit 24 w = 127)"
| "is_loopback0 (V6 w _) = (w = 1)"
| "is_loopback0 InvalidAddr = False"

definition is_loopback :: "addr \<Rightarrow> bool" where
  "is_loopback a = is_loopback0 (unmap a)"

lemma unmap_not_4in6: "\<not> is4in6 (unmap a)"
  by (cases a) auto

lemma unmap_unmap [simp]: "unmap (unmap a) = unmap a"
  by (cases a) auto

lemma unmap_valid [simp]: "addr_valid (unmap a) = addr_valid a"
  by (cases a) auto

section \<open>Prefixes\<close>

datatype prefix = Prefix (p_addr: addr) (p_bits: nat)

definition top_bits :: "nat \<Rightarrow> 'a::len word \<Rightarrow> 'a word" where
  "top_bits n w = drop_bit (LENGTH('a) - n) w"

fun prefix_valid :: "prefix \<Rightarrow> bool" where
  "prefix_valid (Prefix (V4 _) n) = (n \<le> 32)"
| "prefix_valid (Prefix (V6 _ z) n) = (z = [] \<and> n \<le> 128)"
| "prefix_valid (Prefix InvalidAddr _) = False"

fun contains :: "prefix \<Rightarrow> addr \<Rightarrow> bool" where
  "contains (Prefix (V4 p) n) (V4 a) = (n \<le> 32 \<and> top_bits n (a XOR p) = 0)"
| "contains (Prefix (V6 p _) n) (V6 a z) = (n \<le> 128 \<and> z = [] \<and> top_bits n (a XOR p) = 0)"
| "contains _ _ = False"

definition masked :: "nat \<Rightarrow> 'a::len word \<Rightarrow> 'a word" where
  "masked n w = push_bit (LENGTH('a) - n) (drop_bit (LENGTH('a) - n) w)"

fun overlaps :: "prefix \<Rightarrow> prefix \<Rightarrow> bool" where
  "overlaps p q =
     (if \<not> prefix_valid p \<or> \<not> prefix_valid q then False
      else if p = q then True
      else case (p_addr p, p_addr q) of
        (V4 a, V4 b) \<Rightarrow> let n = min (p_bits p) (p_bits q) in n = 0 \<or> masked n a = masked n b
      | (V6 a _, V6 b _) \<Rightarrow> let n = min (p_bits p) (p_bits q) in n = 0 \<or> masked n a = masked n b
      | _ \<Rightarrow> False)"

declare overlaps.simps [simp del]

lemma word_xor_zero_iff: "(a :: 'a::len word) XOR b = 0 \<longleftrightarrow> a = b"
  by (auto simp: bit_eq_iff bit_simps)

lemma drop_masked: "drop_bit k (push_bit k (drop_bit k (w :: 'a::len word))) = drop_bit k w"
  by (rule bit_word_eqI) (auto simp: bit_simps dest: bit_imp_le_length)

lemma top_bits_xor: "top_bits n (a XOR b) = 0 \<longleftrightarrow> top_bits n a = top_bits n b"
  by (simp only: top_bits_def drop_bit_xor word_xor_zero_iff)

lemma masked_eq_iff: "masked n a = masked n b \<longleftrightarrow> top_bits n a = top_bits n b"
proof
  assume "masked n a = masked n b"
  then have "drop_bit (LENGTH('a) - n) (masked n a) = drop_bit (LENGTH('a) - n) (masked n b)" by simp
  then show "top_bits n a = top_bits n b"
    by (simp only: masked_def top_bits_def drop_masked)
next
  assume "top_bits n a = top_bits n b"
  then show "masked n a = masked n b" by (simp add: masked_def top_bits_def)
qed

lemma top_bits_zero [simp]: "top_bits 0 w = 0"
  by (auto simp: top_bits_def bit_eq_iff bit_simps dest: bit_imp_le_length)

lemma top_bits_le:
  assumes "m \<le> n" "top_bits n (a :: 'a::len word) = top_bits n b"
  shows "top_bits m a = top_bits m b"
proof -
  have "drop_bit (n - m) (top_bits n w) = top_bits m w" if "n \<le> LENGTH('a)" for w :: "'a word"
    using assms(1) that by (simp add: top_bits_def)
  moreover have "a = b" if "LENGTH('a) \<le> n"
    using assms(2) that by (simp add: top_bits_def)
  ultimately show ?thesis using assms(2) by (metis nat_le_linear)
qed

text \<open>
  What descriptions of regions have to offer so that two of them meet exactly when their
  common level agrees: a level up to which a point and a description are compared.
\<close>

locale region =
  fixes agree :: "nat \<Rightarrow> 'p \<Rightarrow> 'p \<Rightarrow> bool"
  assumes refl: "agree n p p"
    and sym: "agree n p q \<Longrightarrow> agree n q p"
    and trans: "agree n p q \<Longrightarrow> agree n q r \<Longrightarrow> agree n p r"
    and weaken: "m \<le> n \<Longrightarrow> agree n p q \<Longrightarrow> agree m p q"
begin

lemma meet_iff: "(\<exists>x. agree m x p \<and> agree n x q) \<longleftrightarrow> agree (min m n) p q"
proof
  assume "\<exists>x. agree m x p \<and> agree n x q"
  then obtain x where "agree m x p" "agree n x q" by blast
  then have "agree (min m n) x p" "agree (min m n) x q"
    using weaken [of "min m n" m x p] weaken [of "min m n" n x q] by auto
  from sym [OF this(1)] this(2)
  show "agree (min m n) p q" by (rule trans)
next
  assume a: "agree (min m n) p q"
  show "\<exists>x. agree m x p \<and> agree n x q"
  proof (cases "m \<le> n")
    case True
    with a have "agree m q p" by (auto intro: sym simp: min_def)
    then show ?thesis using refl by blast
  next
    case False
    with a have "agree n p q" by (auto simp: min_def)
    then show ?thesis using refl by blast
  qed
qed

end

interpretation w4: region "\<lambda>n (a :: 32 word) b. top_bits n a = top_bits n b"
  by unfold_locales (auto intro: top_bits_le)

interpretation w6: region "\<lambda>n (a :: 128 word) b. top_bits n a = top_bits n b"
  by unfold_locales (auto intro: top_bits_le)

text \<open>Two prefixes overlap exactly when some address lies in both.\<close>

lemma overlaps_iff:
  assumes "prefix_valid p" "prefix_valid q"
  shows "overlaps p q \<longleftrightarrow> (\<exists>a. contains p a \<and> contains q a)"
proof -
  obtain pa m where p: "p = Prefix pa m" by (cases p)
  obtain qa n where q: "q = Prefix qa n" by (cases q)
  consider a b where "pa = V4 a" "qa = V4 b" | a b where "pa = V6 a []" "qa = V6 b []"
    | a b where "pa = V4 a" "qa = V6 b []" | a b where "pa = V6 a []" "qa = V4 b"
    using assms by (cases pa; cases qa) (auto simp: p q)
  then show ?thesis
  proof cases
    case 1
    have "overlaps p q \<longleftrightarrow> top_bits (min m n) a = top_bits (min m n) b"
      using assms by (auto simp: overlaps.simps p q 1 masked_eq_iff Let_def)
    also have "\<dots> \<longleftrightarrow> (\<exists>x. top_bits m x = top_bits m a \<and> top_bits n x = top_bits n b)"
      by (rule w4.meet_iff [symmetric])
    also have "\<dots> \<longleftrightarrow> (\<exists>x. contains p (V4 x) \<and> contains q (V4 x))"
      using assms by (simp add: p q 1 top_bits_xor)
    also have "\<dots> \<longleftrightarrow> (\<exists>x. contains p x \<and> contains q x)"
    proof -
      have "contains p x \<Longrightarrow> \<exists>w. x = V4 w" for x by (cases x) (auto simp: p 1)
      then show ?thesis by metis
    qed
    finally show ?thesis .
  next
    case 2
    have "overlaps p q \<longleftrightarrow> top_bits (min m n) a = top_bits (min m n) b"
      using assms by (auto simp: overlaps.simps p q 2 masked_eq_iff Let_def)
    also have "\<dots> \<longleftrightarrow> (\<exists>x. top_bits m x = top_bits m a \<and> top_bits n x = top_bits n b)"
      by (rule w6.meet_iff [symmetric])
    also have "\<dots> \<longleftrightarrow> (\<exists>x. contains p (V6 x []) \<and> contains q (V6 x []))"
      using assms by (simp add: p q 2 top_bits_xor)
    also have "\<dots> \<longleftrightarrow> (\<exists>x. contains p x \<and> contains q x)"
    proof -
      have "contains p x \<Longrightarrow> \<exists>w. x = V6 w []" for x by (cases x) (auto simp: p 2)
      then show ?thesis by metis
    qed
    finally show ?thesis .
  next
    case 3
    have "\<not> (contains p x \<and> contains q x)" for x by (cases x) (auto simp: p q 3)
    then show ?thesis by (simp add: overlaps.simps p q 3)
  next
    case 4
    have "\<not> (contains p x \<and> contains q x)" for x by (cases x) (auto simp: p q 4)
    then show ?thesis by (simp add: overlaps.simps p q 4)
  qed
qed

lemma contains_zero4: "contains (Prefix (V4 p) 0) (V4 a)"
  by simp

lemma contains_zero6: "contains (Prefix (V6 p z) 0) (V6 a [])"
  by simp

section \<open>Text forms\<close>

text \<open>\<^verbatim>\<open>parseIPv4Fields\<close>: four decimal octets without leading zeros.\<close>

definition octet :: "string \<Rightarrow> int option" where
  "octet s =
     (if s = [] \<or> \<not> list_all is_digit s \<or> (1 < length s \<and> hd s = CHR ''0'') \<or> 255 < digits_val s
      then None else Some (digits_val s))"

definition parse_v4 :: "string \<Rightarrow> 32 word option" where
  "parse_v4 s =
     (case map octet (split_on CHR ''.'' s) of
        [Some a, Some b, Some c, Some d] \<Rightarrow>
          Some (word_of_int (((a * 256 + b) * 256 + c) * 256 + d))
      | _ \<Rightarrow> None)"

text \<open>The leading hex digits of a string, and the rest.\<close>

fun hex_run :: "string \<Rightarrow> nat list \<times> string" where
  "hex_run [] = ([], [])"
| "hex_run (c # s) =
     (case hex_val c of
        None \<Rightarrow> ([], c # s)
      | Some d \<Rightarrow> let (ds, r) = hex_run s in (d # ds, r))"

text \<open>
  The loop of \<^verbatim>\<open>parseIPv6\<close>: \<open>k\<close> groups of 16 bits are left to fill, \<open>gs\<close> are the
  groups read so far and \<open>ell\<close> is the index of the group that follows the ellipsis. The result
  is the groups and the ellipsis once the whole text is used.
\<close>

fun v6_loop :: "nat \<Rightarrow> nat list \<Rightarrow> nat option \<Rightarrow> string \<Rightarrow> (nat list \<times> nat option) option" where
  "v6_loop 0 gs ell s = (if s = [] then Some (gs, ell) else None)"
| "v6_loop (Suc k) gs ell s =
     (let (ds, r) = hex_run s in
      if 4 < length ds \<or> ds = [] then None
      else case r of
        [] \<Rightarrow> Some (gs @ [foldl (\<lambda>a d. 16 * a + d) 0 ds], ell)
      | c # r' \<Rightarrow>
          if c = CHR ''.'' then
            (if (ell = None \<and> length gs \<noteq> 6) \<or> k = 0 then None
             else map_option (\<lambda>w. (gs @ [unat (drop_bit 16 w), unat (w AND 0xFFFF)], ell)) (parse_v4 s))
          else if c \<noteq> CHR '':'' \<or> r' = [] then None
          else let gs' = gs @ [foldl (\<lambda>a d. 16 * a + d) 0 ds] in
            if hd r' = CHR '':'' then
              (if ell \<noteq> None then None
               else if tl r' = [] then Some (gs', Some (length gs'))
               else v6_loop k gs' (Some (length gs')) (tl r'))
            else v6_loop k gs' ell r')"

definition groups_word :: "nat list \<Rightarrow> 128 word" where
  "groups_word gs = foldl (\<lambda>w g. push_bit 16 w OR of_nat g) 0 gs"

definition parse_v6 :: "string \<Rightarrow> addr option" where
  "parse_v6 inp =
     (let (s, z, zone_ok) =
        (case cut_at CHR ''%'' inp of None \<Rightarrow> (inp, [], True) | Some (s, z) \<Rightarrow> (s, z, z \<noteq> [])) in
      if \<not> zone_ok then None
      else let (ell, s') = (if take 2 s = ''::'' then (Some 0, drop 2 s) else (None, s)) in
      if ell = Some 0 \<and> s' = [] then Some (V6 0 z)
      else case v6_loop 8 [] ell s' of
        None \<Rightarrow> None
      | Some (gs, e) \<Rightarrow>
          if length gs < 8 then
            (case e of
               None \<Rightarrow> None
             | Some i \<Rightarrow> Some (V6 (groups_word (take i gs @ replicate (8 - length gs) 0 @ drop i gs)) z))
          else if e \<noteq> None then None
          else Some (V6 (groups_word gs) z))"

text \<open>\<^verbatim>\<open>netip.ParseAddr\<close>: the first of dot, colon and percent decides.\<close>

definition parse_addr :: "string \<Rightarrow> addr option" where
  "parse_addr s =
     (case filter (\<lambda>c. c \<in> {CHR ''.'', CHR '':'', CHR ''%''}) s of
        [] \<Rightarrow> None
      | c # _ \<Rightarrow> if c = CHR ''.'' then map_option V4 (parse_v4 s)
                 else if c = CHR '':'' then parse_v6 s
                 else None)"

text \<open>\<^verbatim>\<open>netip.ParsePrefix\<close>; no address has a slash, so the first and the last one agree.\<close>

definition parse_prefix :: "string \<Rightarrow> prefix option" where
  "parse_prefix s =
     (case cut_at CHR ''/'' s of
        None \<Rightarrow> None
      | Some (a, b) \<Rightarrow>
          case parse_addr a of
            None \<Rightarrow> None
          | Some ip \<Rightarrow>
              if zone ip \<noteq> [] then None
              else if 1 < length b \<and> (hd b < CHR ''1'' \<or> CHR ''9'' < hd b) then None
              else case atoi b of
                None \<Rightarrow> None
              | Some n \<Rightarrow>
                  if n < 0 \<or> (if is6 ip then 128 else 32) < n then None
                  else Some (Prefix ip (nat n)))"

text \<open>\<^verbatim>\<open>net.ParseIP\<close>: no zone; the 16-byte result shows as 4-in-6 when it holds an IPv4.\<close>

definition parse_ip :: "string \<Rightarrow> addr option" where
  "parse_ip s =
     (case parse_addr s of
        None \<Rightarrow> None
      | Some a \<Rightarrow> if zone a \<noteq> [] then None else Some (unmap a))"

lemma parse_addr_valid: "parse_addr s = Some a \<Longrightarrow> addr_valid a"
  by (auto simp: parse_addr_def parse_v6_def Let_def split: list.splits if_splits option.splits prod.splits)

lemma parse_prefix_valid:
  assumes "parse_prefix s = Some p"
  shows "prefix_valid p"
proof -
  obtain a b ip n where s: "cut_at CHR ''/'' s = Some (a, b)" "parse_addr a = Some ip" "zone ip = []"
    "atoi b = Some n" "0 \<le> n" "n \<le> (if is6 ip then 128 else 32)" "p = Prefix ip (nat n)"
    using assms by (auto simp: parse_prefix_def split: option.splits if_splits)
  then show ?thesis using parse_addr_valid [OF s(2)] by (cases ip) auto
qed

subsection \<open>Formatting\<close>

definition v4_string :: "32 word \<Rightarrow> string" where
  "v4_string w =
     nat_str (unat (drop_bit 24 w)) @ ''.'' @ nat_str (unat (drop_bit 16 w AND 255)) @ ''.''
     @ nat_str (unat (drop_bit 8 w AND 255)) @ ''.'' @ nat_str (unat (w AND 255))"

fun hex_nat :: "nat \<Rightarrow> string" where
  "hex_nat n = (if n < 16 then [hex_char n] else hex_nat (n div 16) @ [hex_char (n mod 16)])"

declare hex_nat.simps [simp del]

definition word_groups :: "128 word \<Rightarrow> nat list" where
  "word_groups w = map (\<lambda>i. unat (drop_bit (112 - 16 * i) w AND 0xFFFF)) [0..<8]"

text \<open>The first longest run of at least two zero groups, as start and end (255, 255: none).\<close>

definition zero_run :: "nat list \<Rightarrow> nat \<times> nat" where
  "zero_run gs =
     foldl (\<lambda>(zs, ze) i.
        let j = i + length (takeWhile (\<lambda>g. g = 0) (drop i gs)) in
        if 2 \<le> j - i \<and> ze - zs < j - i then (i, j) else (zs, ze)) (255, 255) [0..<8]"

fun v6_groups_string :: "nat \<Rightarrow> nat \<times> nat \<Rightarrow> nat \<Rightarrow> nat list \<Rightarrow> string" where
  "v6_groups_string 0 z i gs = []"
| "v6_groups_string (Suc k) (zs, ze) i gs =
     (if i \<ge> 8 then []
      else if i = zs then ''::'' @ (if ze \<ge> 8 then [] else hex_nat (gs ! ze) @ v6_groups_string k (zs, ze) (ze + 1) gs)
      else (if 0 < i then '':'' else []) @ hex_nat (gs ! i) @ v6_groups_string k (zs, ze) (i + 1) gs)"

definition v6_string :: "128 word \<Rightarrow> string" where
  "v6_string w = (let gs = word_groups w in v6_groups_string 9 (zero_run gs) 0 gs)"

text \<open>\<^verbatim>\<open>Addr.String\<close>.\<close>

fun addr_string :: "addr \<Rightarrow> string" where
  "addr_string InvalidAddr = ''invalid IP''"
| "addr_string (V4 w) = v4_string w"
| "addr_string (V6 w z) =
     (if drop_bit 32 w = 0xFFFF then ''::ffff:'' @ v4_string (ucast w) else v6_string w)
     @ (if z = [] then [] else CHR ''%'' # z)"

section \<open>net.SplitHostPort\<close>

definition last_index :: "char \<Rightarrow> string \<Rightarrow> nat option" where
  "last_index c s = (case filter (\<lambda>i. s ! i = c) [0..<length s] of [] \<Rightarrow> None | is \<Rightarrow> Some (last is))"

definition first_index :: "char \<Rightarrow> string \<Rightarrow> nat option" where
  "first_index c s = (case filter (\<lambda>i. s ! i = c) [0..<length s] of [] \<Rightarrow> None | i # _ \<Rightarrow> Some i)"

definition split_host_port :: "string \<Rightarrow> (string \<times> string) option" where
  "split_host_port hp =
     (case last_index CHR '':'' hp of
        None \<Rightarrow> None
      | Some i \<Rightarrow>
          if hd hp = CHR ''['' then
            (case first_index CHR '']'' hp of
               None \<Rightarrow> None
             | Some e \<Rightarrow>
                 if e + 1 \<noteq> i \<or> CHR ''['' \<in> set (drop 1 hp) \<or> CHR '']'' \<in> set (drop (e + 1) hp) then None
                 else Some (take (e - 1) (drop 1 hp), drop (i + 1) hp))
          else let h = take i hp in
            if CHR '':'' \<in> set h \<or> CHR ''['' \<in> set hp \<or> CHR '']'' \<in> set hp then None
            else Some (h, drop (i + 1) hp))"

end
