(* ===== verification/NtpView.thy ===== *)
theory NtpView
  imports NtpWire Model Go_Net
begin

text \<open>
  The package \<^verbatim>\<open>internal/ntpview\<close> (view.go): a compiled virtual clock, the time it
  serves at a real instant, its jitter, its reference time, and the small encodings of a
  reply (poll, leap, reference id).
\<close>

record View =
  v_name :: string
  v_generation :: int
  v_mode :: string
  v_offset :: duration
  v_absolute :: gotime
  v_freezeAt :: gotime
  v_rate :: float64
  v_hasRate :: bool
  v_epochVirtual :: gotime
  v_epochMono :: gotime
  v_epochWall :: gotime
  v_leap :: string
  v_stratum :: int
  v_refid :: string
  v_precision :: int
  v_rootDelay :: duration
  v_rootDispersion :: duration
  v_jitter :: duration
  v_minpoll :: "int option"
  v_maxpoll :: "int option"

definition zero_view :: View where
  "zero_view = \<lparr>v_name = [], v_generation = 0, v_mode = [], v_offset = 0, v_absolute = zero_time,
     v_freezeAt = zero_time, v_rate = Fin 0, v_hasRate = False, v_epochVirtual = zero_time,
     v_epochMono = zero_time, v_epochWall = zero_time, v_leap = [], v_stratum = 0, v_refid = [],
     v_precision = 0, v_rootDelay = 0, v_rootDispersion = 0, v_jitter = 0, v_minpoll = None,
     v_maxpoll = None\<rparr>"

section \<open>The served time\<close>

definition max_sec :: float64 where
  "max_sec = fdiv (f_of_int max_i64) (f_of_int second)"

definition min_sec :: float64 where
  "min_sec = fdiv (f_of_int min_i64) (f_of_int second)"

definition saturatingDuration :: "float64 \<Rightarrow> duration" where
  "saturatingDuration seconds =
     (if seconds = NaN then 0
      else if fle max_sec seconds then max_i64
      else if fle seconds min_sec then min_i64
      else f_to_i64 (fmul seconds (f_of_int second)))"

definition servedUnclamped :: "View \<Rightarrow> gotime \<Rightarrow> gotime" where
  "servedUnclamped v t =
     (if v_mode v = ModeFollowReal then t_utc t
      else if v_mode v = ModeOffset then t_add (t_utc t) (v_offset v)
      else if v_mode v = ModeAbsolute then t_add (v_absolute v) (t_sub t (v_epochMono v))
      else if v_mode v = ModeFreeze then v_freezeAt v
      else if v_mode v = ModeRate then
        let elapsed = t_sub t (v_epochMono v);
            delta = saturatingDuration (fmul (dur_seconds elapsed) (v_rate v))
        in t_add (v_epochVirtual v) delta
      else t_utc t)"

definition Served :: "View \<Rightarrow> gotime \<Rightarrow> gotime" where
  "Served v t = ClampServed (servedUnclamped v t)"

definition ServedClamped :: "View \<Rightarrow> gotime \<Rightarrow> bool" where
  "ServedClamped v t = Clamped (servedUnclamped v t)"

section \<open>Jitter\<close>

text \<open>
  The first eight bytes of a SHA-256 over name, generation and second, read as a number in
  the unit interval and spread over plus and minus the jitter.
\<close>

definition jitter_unit :: "View \<Rightarrow> int \<Rightarrow> float64" where
  "jitter_unit v sec =
     (let sum = sha256 (bytes_of_string (v_name v) @ [0] @ put_le64 (v_generation v) @ put_le64 sec);
          n = le64 (take 8 sum)
      in fdiv (f_of_int n) (Fin (2 ^ 64)))"

definition JitterDelta :: "View \<Rightarrow> int \<Rightarrow> duration" where
  "JitterDelta v hostUnixSecond =
     (if v_jitter v = 0 then 0
      else let u = jitter_unit v hostUnixSecond in
        f_to_i64 (fmul (fsub (fmul (Fin 2) u) (Fin 1)) (f_of_int (v_jitter v))))"

section \<open>The fields of a reply\<close>

text \<open>Named after the method \<^verbatim>\<open>RefTime\<close>; the packet field has that name here.\<close>

definition view_RefTime :: "View \<Rightarrow> gotime \<Rightarrow> gotime" where
  "view_RefTime v tXmitVirt =
     (if v_mode v = ModeFreeze then v_freezeAt v
      else if v_mode v = ModeRate then v_epochVirtual v
      else tXmitVirt)"

definition ClampPoll :: "View \<Rightarrow> byte \<Rightarrow> byte" where
  "ClampPoll v client =
     (let p0 = sint client;
          p1 = (case v_minpoll v of Some m \<Rightarrow> if p0 < m then m else p0 | None \<Rightarrow> p0);
          p2 = (case v_maxpoll v of Some m \<Rightarrow> if m < p1 then m else p1 | None \<Rightarrow> p1);
          p3 = (if p2 < - 128 then - 128 else p2);
          p4 = (if 127 < p3 then 127 else p3)
      in word_of_int p4)"

definition LeapLI :: "string \<Rightarrow> byte" where
  "LeapLI leap =
     (if leap = LeapInsert then LIInsert
      else if leap = LeapDelete then LIDelete
      else if leap = LeapUnsync then LIUnsync
      else LINone)"

fun pad4 :: "bytes \<Rightarrow> refid" where
  "pad4 (a # b # c # d # _) = (a, b, c, d)"
| "pad4 [a, b, c] = (a, b, c, 0)"
| "pad4 [a, b] = (a, b, 0, 0)"
| "pad4 [a] = (a, 0, 0, 0)"
| "pad4 [] = (0, 0, 0, 0)"

definition EncodeRefID :: "string \<Rightarrow> refid" where
  "EncodeRefID s =
     (if s = [] then pad4 (bytes_of_string ''LOCL'')
      else case parse_ip s of
        Some (V4 w) \<Rightarrow> pad4 (put_be32 w)
      | _ \<Rightarrow> pad4 (bytes_of_string (take 4 s)))"

section \<open>Facts about the conversions\<close>

lemma rnd_two63: "rnd (9223372036854775807) = 9223372036854775808"
  using rnd_value [of 10 9223372036854775807 9007199254740992] by simp

lemma rnd_bound_sec: "rnd (9223372036854775808 / 1000000000) = 4835703278458517 / 524288"
  using rnd_value [of "- 19" "9223372036854775808 / 1000000000" 4835703278458517]
  by (simp add: power_int_minus)

lemma f_second: "f_of_int second = Fin 1000000000"
  using round64_of_int [of second] by (simp add: f_of_int_def second_def)

lemma below_max_finite: "\<bar>x\<bar> \<le> 2 ^ 64 \<Longrightarrow> x \<noteq> 2 ^ 64 \<Longrightarrow> x \<noteq> - (2 ^ 64) \<Longrightarrow> \<bar>x\<bar> < max_finite_bound"
  using max_finite_bound_ge by (simp add: abs_if split: if_splits)

lemma max_sec_eq: "max_sec = Fin (4835703278458517 / 524288)"
proof -
  have "f_of_int max_i64 = Fin 9223372036854775808"
    using round64_small [of 9223372036854775807] below_max_finite [of 9223372036854775808]
    by (simp add: f_of_int_def max_i64_def rnd_two63)
  then show ?thesis
    using rnd_bound_sec round64_small [of "9223372036854775808 / 1000000000"]
      below_max_finite [of "4835703278458517 / 524288"]
    by (simp add: max_sec_def f_second)
qed

lemma min_sec_eq: "min_sec = Fin (- 4835703278458517 / 524288)"
proof -
  have n: "rnd (- 9223372036854775808) = - 9223372036854775808"
    using rnd_eqI [of 11 9223372036854775808] rnd_minus [of 9223372036854775808]
    by (simp add: round_even_def Let_def)
  have "f_of_int min_i64 = Fin (- 9223372036854775808)"
    using round64_small [of "- 9223372036854775808"] below_max_finite [of 9223372036854775808]
    by (simp add: f_of_int_def min_i64_def n)
  moreover have "rnd (- 9223372036854775808 / 1000000000) = - 4835703278458517 / 524288"
    using rnd_bound_sec rnd_minus [of "9223372036854775808 / 1000000000"] by simp
  ultimately show ?thesis
    using round64_small [of "- 9223372036854775808 / 1000000000"]
      below_max_finite [of "4835703278458517 / 524288"]
    by (simp add: min_sec_def f_second)
qed

text \<open>A double below the bound is a whole step of the last place below it.\<close>

lemma double_below_max_sec:
  assumes "rnd q < 4835703278458517 / 524288"
  shows "rnd q \<le> 4835703278458516 / 524288"
proof (cases "0 < q \<and> - 19 \<le> rexp q")
  case True
  define k where "k = nat (rexp q + 19)"
  have k: "rexp q = - 19 + int k" using True by (simp add: k_def)
  define m where "m = round_even (q / 2 powi rexp q) * 2 ^ k"
  have "2 powi rexp q = (2 ^ k / 524288 :: rat)"
    unfolding k powi2_add by (simp add: power_int_minus)
  then have q: "rnd q = of_int m / 524288" using True by (simp add: rnd_def m_def)
  have "of_int m < (of_int 4835703278458517 :: rat)"
    using assms unfolding q by (simp add: divide_less_cancel)
  then have "m < 4835703278458517" by (simp only: of_int_less_iff)
  then have "of_int m \<le> (of_int 4835703278458516 :: rat)" by (simp only: of_int_le_iff)
  then show ?thesis unfolding q by (simp add: divide_right_mono)
next
  case False
  show ?thesis
  proof (cases "0 < q")
    case True
    with False have "rexp q + 53 \<le> 33" by simp
    then have "rnd q \<le> 2 powi 33" using rnd_pos_below [OF True] by (meson order_trans powi2_le_iff)
    also have "(2::rat) powi 33 \<le> 4835703278458516 / 524288" by simp
    finally show ?thesis .
  next
    case False
    then have "rnd q \<le> 0" using rnd_nonneg [of "- q"] by (simp add: rnd_minus)
    then show ?thesis by (simp add: order_trans)
  qed
qed

lemma rnd_product_bound:
  assumes "x \<le> 4835703278458516 / 524288"
  shows "rnd (x * 1000000000) < 2 ^ 63"
proof -
  have "rnd (x * 1000000000) \<le> rnd (4835703278458516 / 524288 * 1000000000)"
    using assms by (intro rnd_mono mult_right_mono) auto
  also have "rnd (4835703278458516 / 524288 * 1000000000) < 2 ^ 63"
    using rnd_value [of 10 "4835703278458516 / 524288 * 1000000000" 9007199254740991] by simp
  finally show ?thesis .
qed

lemma fmul_second_range:
  assumes "- (4835703278458516 / 524288) \<le> x" "x \<le> 4835703278458516 / 524288"
  shows "fmul (Fin x) (f_of_int second) = Fin (rnd (x * 1000000000))"
    and "f_to_i64 (Fin (rnd (x * 1000000000))) = trunc (rnd (x * 1000000000))"
proof -
  have up: "rnd (x * 1000000000) < 2 ^ 63" using assms(2) by (rule rnd_product_bound)
  have "rnd (- x * 1000000000) < 2 ^ 63" using assms(1) by (intro rnd_product_bound) simp
  then have lo: "- (2 ^ 63) < rnd (x * 1000000000)" using rnd_minus [of "x * 1000000000"] by simp
  have "\<bar>rnd (x * 1000000000)\<bar> < max_finite_bound"
    using up lo max_finite_bound_ge by (simp add: abs_less_iff)
  then show "fmul (Fin x) (f_of_int second) = Fin (rnd (x * 1000000000))"
    by (simp add: f_second round64_small)
  have "\<bar>rat_of_int (trunc (rnd (x * 1000000000)))\<bar> < of_int (2 ^ 63)"
    using trunc_abs [of "rnd (x * 1000000000)"] up lo by (simp add: abs_if split: if_splits)
  then have "\<bar>trunc (rnd (x * 1000000000))\<bar> < 2 ^ 63" by (simp only: of_int_abs [symmetric] of_int_less_iff)
  then have "trunc (rnd (x * 1000000000)) < 2 ^ 63" "- (2 ^ 63) \<le> trunc (rnd (x * 1000000000))"
    by linarith+
  then show "f_to_i64 (Fin (rnd (x * 1000000000))) = trunc (rnd (x * 1000000000))" by simp
qed

lemma saturatingDuration_range [simp]: "i64 (saturatingDuration x)"
proof -
  have "i64 (f_to_i64 y)" for y by (cases y) (auto simp: i64_def')
  then show ?thesis by (auto simp: saturatingDuration_def i64_def max_i64_def min_i64_def)
qed

lemma saturatingDuration_mono:
  assumes "x = round64 a" "y = round64 b" "fle x y"
  shows "saturatingDuration x \<le> saturatingDuration y"
proof -
  have nan: "x \<noteq> NaN" "y \<noteq> NaN" using assms(1,2) by simp_all
  have r: "min_i64 \<le> saturatingDuration z" "saturatingDuration z \<le> max_i64" for z
    using saturatingDuration_range [of z] by (simp_all add: i64_def)
  consider "fle max_sec y" | "fle x min_sec" | "\<not> fle max_sec y" "\<not> fle x min_sec" by blast
  then show ?thesis
  proof cases
    case 1
    then have "saturatingDuration y = max_i64" using nan by (simp add: saturatingDuration_def)
    then show ?thesis using r by simp
  next
    case 2
    then have "\<not> fle max_sec x" by (cases x) (auto simp: max_sec_eq min_sec_eq fle_def)
    then have "saturatingDuration x = min_i64" using 2 nan by (simp add: saturatingDuration_def)
    then show ?thesis using r by simp
  next
    case 3
    with assms(3) nan obtain p q where pq: "x = Fin p" "y = Fin q" "p \<le> q"
      by (cases x; cases y) (auto simp: max_sec_eq min_sec_eq fle_def)
    have pr: "p = rnd a" "q = rnd b"
      using assms(1,2) pq by (auto simp: round64_def Let_def split: if_splits)
    have q: "q \<le> 4835703278458516 / 524288"
      using 3(1) double_below_max_sec [of b] by (simp add: pq pr max_sec_eq)
    have "- p < 4835703278458517 / 524288" using 3(2) by (simp add: pq min_sec_eq)
    then have p: "- p \<le> 4835703278458516 / 524288"
      using double_below_max_sec [of "- a"] by (simp add: pr rnd_minus)
    have s: "saturatingDuration (Fin z) = trunc (rnd (z * 1000000000))"
      if "p \<le> z" "z \<le> q" for z
      using that p q fmul_second_range [of z]
      by (simp add: saturatingDuration_def max_sec_eq min_sec_eq)
    have "trunc (rnd (p * 1000000000)) \<le> trunc (rnd (q * 1000000000))"
      using pq(3) by (intro trunc_mono rnd_mono mult_right_mono) auto
    then show ?thesis using s pq by simp
  qed
qed

section \<open>Properties of the served time\<close>

lemma Served_range:
  "- (2208988800 * second) \<le> wall (Served v t)" "wall (Served v t) < 6380945792 * second"
  unfolding Served_def by (rule ClampServed_range)+

lemma ServedClamped_iff: "ServedClamped v t \<longleftrightarrow> wall (Served v t) \<noteq> wall (servedUnclamped v t)"
  by (simp add: ServedClamped_def Served_def Clamped_iff)

definition forward_rate :: "View \<Rightarrow> bool" where
  "forward_rate v = (v_mode v = ModeRate \<longrightarrow> (case v_rate v of Fin r \<Rightarrow> 0 \<le> r | _ \<Rightarrow> False))"

lemma rate_delta_mono:
  assumes "i64 d" "i64 d'" "d \<le> d'" "0 \<le> r"
  shows "saturatingDuration (fmul (dur_seconds d) (Fin r)) \<le> saturatingDuration (fmul (dur_seconds d') (Fin r))"
proof -
  let ?s = "\<lambda>d. rnd (of_int (quot d second) + rnd (of_int (rem_int d second) / of_int second))"
  have "?s d \<le> ?s d'"
    using dur_seconds_mono [OF assms(1-3)] assms(1,2) by (simp add: dur_seconds_eq)
  then have "?s d * r \<le> ?s d' * r" using assms(4) by (intro mult_right_mono) auto
  then have "saturatingDuration (round64 (?s d * r)) \<le> saturatingDuration (round64 (?s d' * r))"
    by (intro saturatingDuration_mono [OF refl refl] round64_mono)
  then show ?thesis using assms(1,2) by (simp add: dur_seconds_eq)
qed



text \<open>At its epoch a rate view serves the epoch's virtual time.\<close>

lemma saturatingDuration_zero [simp]: "saturatingDuration (round64 0) = 0"
proof -
  have z: "round64 0 = Fin 0" using round64_of_int [of 0] by simp
  have "fmul (Fin 0) (f_of_int second) = Fin (rnd (0 * 1000000000))" by (rule fmul_second_range) simp_all
  then show ?thesis by (simp add: saturatingDuration_def z max_sec_eq min_sec_eq trunc_def)
qed

lemma servedUnclamped_at_epoch:
  assumes "v_mode v = ModeRate" "v_rate v = Fin r" "mono (v_epochVirtual v) = None"
  shows "servedUnclamped v (v_epochMono v) = v_epochVirtual v"
  using assms by (intro gotime_eqI) (simp_all add: servedUnclamped_def mode_names)

section \<open>Bounds of the jitter and of the poll\<close>

lemma le64_range: "0 \<le> le64 bs" "le64 bs < 2 ^ 64"
proof -
  have s: "(\<Sum>i<n. uint (f i) * 2 ^ (8 * i)) < 2 ^ (8 * n)" for f :: "nat \<Rightarrow> byte" and n
  proof (induction n)
    case (Suc n)
    have "uint (f n) \<le> 255" using uint_bounded [of "f n"] by simp
    then have "uint (f n) * 2 ^ (8 * n) \<le> 255 * 2 ^ (8 * n)" by (intro mult_right_mono) auto
    with Suc have "(\<Sum>i<n. uint (f i) * 2 ^ (8 * i)) + uint (f n) * 2 ^ (8 * n) < 2 ^ (8 * n) + 255 * 2 ^ (8 * n)"
      by linarith
    then show ?case by (simp add: power_add)
  qed simp
  show "0 \<le> le64 bs" by (auto simp: le64_def intro!: sum_nonneg)
  show "le64 bs < 2 ^ 64" using s [of "\<lambda>i. (bs @ replicate 8 0) ! i" 8] by (simp add: le64_def)
qed

lemma jitter_unit_range: "\<exists>u. jitter_unit v s = Fin u \<and> 0 \<le> u \<and> u \<le> 1"
proof -
  obtain n where n: "jitter_unit v s = fdiv (f_of_int n) (Fin (2 ^ 64))" "0 \<le> n" "n < 2 ^ 64"
    unfolding jitter_unit_def Let_def using le64_range by blast
  have p64: "rnd (2 ^ 64) = 2 ^ 64" using rnd_value [of 12 "2 ^ 64" "2 ^ 52"] by simp
  have "of_int n \<le> (of_int (2 ^ 64) :: rat)" using n(3) by (simp only: of_int_le_iff)
  then have m: "0 \<le> rnd (of_int n)" "rnd (of_int n) \<le> 2 ^ 64"
    using n(2) rnd_nonneg [of "of_int n"] rnd_mono [of "of_int n" "2 ^ 64"] p64 by simp_all
  have "\<bar>rnd (of_int n)\<bar> < max_finite_bound"
  proof -
    have "(2::rat) ^ 64 < max_finite_bound"
      unfolding max_finite_bound_def by (rule power_strict_increasing) simp_all
    then show ?thesis using m by simp
  qed
  then have f: "f_of_int n = Fin (rnd (of_int n))" by (simp add: f_of_int_def round64_small)
  have q: "0 \<le> rnd (of_int n) / 2 ^ 64" "rnd (of_int n) / 2 ^ 64 \<le> 1" using m by simp_all
  have r: "0 \<le> rnd (rnd (of_int n) / 2 ^ 64)" "rnd (rnd (of_int n) / 2 ^ 64) \<le> 1"
    using rnd_nonneg [OF q(1)] rnd_mono [OF q(2)] by simp_all
  then have "round64 (rnd (of_int n) / 2 ^ 64) = Fin (rnd (rnd (of_int n) / 2 ^ 64))"
    using max_finite_bound_gt1 by (intro round64_small) simp
  then show ?thesis using n(1) f r by simp
qed

text \<open>Jitter stays within plus and minus the configured amplitude (amplitudes up to 104 days,
  which a double holds exactly).\<close>

theorem JitterDelta_bound:
  assumes "0 \<le> v_jitter v" "v_jitter v \<le> 2 ^ 53"
  shows "\<bar>JitterDelta v s\<bar> \<le> v_jitter v"
proof (cases "v_jitter v = 0")
  case False
  let ?J = "v_jitter v"
  obtain u where u: "jitter_unit v s = Fin u" "0 \<le> u" "u \<le> 1" using jitter_unit_range by blast
  have small: "round64 x = Fin (rnd x)" if "\<bar>x\<bar> \<le> of_int n" "\<bar>n\<bar> \<le> 2 ^ 53" for x n
  proof -
    have "\<bar>rnd x\<bar> \<le> of_int n" using fr.abs_mono [OF that(1)] that(2) by (simp add: rnd_of_int)
    also have "of_int n \<le> (of_int (2 ^ 53) :: rat)" using that(2) by (simp only: of_int_le_iff)
    also have "\<dots> < max_finite_bound" using max_finite_bound_ge by simp
    finally show ?thesis by (rule round64_small)
  qed
  have a: "0 \<le> rnd (2 * u)" "rnd (2 * u) \<le> 2"
    using u fr.between [of 0 2 "2 * u"] by simp_all
  have b: "- 1 \<le> rnd (rnd (2 * u) - 1)" "rnd (rnd (2 * u) - 1) \<le> 1"
    using a fr.between [of "- 1" 1 "rnd (2 * u) - 1"] by simp_all
  let ?w = "rnd (rnd (2 * u) - 1)"
  have "\<bar>?w * of_int ?J\<bar> \<le> 1 * of_int ?J"
    unfolding abs_mult using b assms(1) by (intro mult_mono) auto
  then have c: "\<bar>?w * of_int ?J\<bar> \<le> of_int ?J" by simp
  have "fmul (fsub (fmul (Fin 2) (Fin u)) (Fin 1)) (f_of_int ?J) = Fin (rnd (?w * of_int ?J))"
    using u a b c assms small [of "2 * u" 2] small [of "rnd (2 * u) - 1" 1] small [of "?w * of_int ?J" ?J]
    by (simp add: fsub_def f_of_int_def round64_of_int)
  moreover have r: "\<bar>rnd (?w * of_int ?J)\<bar> \<le> of_int ?J"
    using fr.abs_mono [OF c] assms by (simp add: rnd_of_int)
  ultimately have "JitterDelta v s = f_to_i64 (Fin (rnd (?w * of_int ?J)))"
    using False by (simp add: JitterDelta_def u)
  moreover have t: "\<bar>trunc (rnd (?w * of_int ?J))\<bar> \<le> ?J"
  proof -
    have "of_int \<bar>trunc (rnd (?w * of_int ?J))\<bar> \<le> (of_int ?J :: rat)"
      using trunc_abs [of "rnd (?w * of_int ?J)"] r by simp
    then show ?thesis by (simp only: of_int_le_iff)
  qed
  ultimately show ?thesis using assms by auto
qed (simp add: JitterDelta_def)

theorem JitterDelta_bound_witness:
  "\<bar>JitterDelta (zero_view\<lparr>v_name := ''lab'', v_jitter := 5 * millisecond\<rparr>) 1700000000\<bar> \<le> 5 * millisecond"
  using JitterDelta_bound [of "zero_view\<lparr>v_name := ''lab'', v_jitter := 5 * millisecond\<rparr>" 1700000000]
  by (simp add: millisecond_def)

text \<open>The poll of a reply is the client's, moved into the configured interval.\<close>

theorem ClampPoll_range:
  assumes "v_minpoll v = Some lo" "v_maxpoll v = Some hi" "- 128 \<le> lo" "lo \<le> hi" "hi \<le> 127"
  shows "sint (ClampPoll v p) = max lo (min hi (sint p))"
proof -
  have "sint (word_of_int k :: byte) = k" if "- 128 \<le> k" "k \<le> 127" for k
    using that by (simp add: sint_sbintrunc' signed_take_bit_int_eq_self)
  moreover have "- 128 \<le> sint p" "sint p \<le> 127"
    using sint_greater_eq [of p] sint_less [of p] by simp_all
  ultimately show ?thesis
    using assms by (auto simp: ClampPoll_def Let_def max_def min_def)
qed

theorem ClampPoll_range_witness:
  "sint (ClampPoll (zero_view\<lparr>v_minpoll := Some 4, v_maxpoll := Some 10\<rparr>) 17) = 10"
proof -
  have "sint (17 :: byte) = 17" by code_simp
  then show ?thesis
    using ClampPoll_range [of "zero_view\<lparr>v_minpoll := Some 4, v_maxpoll := Some 10\<rparr>" 4 10 17] by simp
qed

end
