(* ===== verification/NtpKeys.thy ===== *)
theory NtpKeys
  imports Prelude
begin

text \<open>
  The package \<^verbatim>\<open>internal/ntpkeys\<close> (parse.go): the parser of the symmetric key file.
  Reading the file is an effect of the caller; the parser works on its bytes.
\<close>

record Key =
  k_id :: uint32
  k_alg :: string
  k_secret :: bytes

type_synonym Table = "(uint32 \<times> Key) list"

datatype line_error = WantThreeFields | BadKeyId | KeyIdRange | BadAlgorithm string
  | NoEncoding | BadHex | BadEncoding string | EmptyKey

datatype keys_error = AtLine nat line_error | DuplicateKeyId uint32

definition line_error_string :: "line_error \<Rightarrow> string" where
  "line_error_string e =
     (case e of
        WantThreeFields \<Rightarrow> ''want 'keyid algorithm encoding:material'' @ [CHR 0x27]
      | BadKeyId \<Rightarrow> ''keyid''
      | KeyIdRange \<Rightarrow> ''keyid must be 1..65535''
      | BadAlgorithm a \<Rightarrow> ''algorithm '' @ quote a
      | NoEncoding \<Rightarrow> ''material must use hex or ascii encoding''
      | BadHex \<Rightarrow> ''hex material''
      | BadEncoding e \<Rightarrow> ''encoding '' @ quote e
      | EmptyKey \<Rightarrow> ''empty key'')"

definition keys_error_string :: "keys_error \<Rightarrow> string" where
  "keys_error_string e =
     (case e of
        AtLine n l \<Rightarrow> ''ntpkeys: line '' @ nat_str n @ '': '' @ line_error_string l
      | DuplicateKeyId k \<Rightarrow> ''ntpkeys: duplicate key id '' @ int_str (uint k))"

definition parseLine :: "string \<Rightarrow> line_error + Key" where
  "parseLine line =
     (case str_fields line of
        [f0, f1, f2] \<Rightarrow>
          (case parse_uint 32 f0 of
             None \<Rightarrow> Inl BadKeyId
           | Some n \<Rightarrow>
               if n < 1 \<or> 65535 < n then Inl KeyIdRange
               else let alg = to_upper f1 in
                 if alg \<notin> {''MD5'', ''SHA1'', ''SHA256''} then Inl (BadAlgorithm f1)
                 else case cut_at CHR '':'' f2 of
                   None \<Rightarrow> Inl NoEncoding
                 | Some (enc, mat) \<Rightarrow>
                     let e = to_lower enc in
                     bindR (if e = ''hex'' then (case hex_decode mat of None \<Rightarrow> Inl BadHex | Some b \<Rightarrow> Inr b)
                            else if e = ''ascii'' then Inr (bytes_of_string mat)
                            else Inl (BadEncoding enc))
                       (\<lambda>secret. if secret = [] then Inl EmptyKey
                                 else Inr \<lparr>k_id = word_of_int n, k_alg = alg, k_secret = secret\<rparr>))
      | _ \<Rightarrow> Inl WantThreeFields)"

text \<open>The loop over the lines; \<open>i\<close> is the number of the line, from 1.\<close>

fun parseLines :: "nat \<Rightarrow> string list \<Rightarrow> Table \<Rightarrow> keys_error + Table" where
  "parseLines i [] t = Inr t"
| "parseLines i (l # ls) t =
     (let line = trim_space l in
      if line = [] \<or> has_prefix line ''#'' then parseLines (i + 1) ls t
      else case parseLine line of
        Inl e \<Rightarrow> Inl (AtLine i e)
      | Inr k \<Rightarrow>
          if map_of t (k_id k) \<noteq> None then Inl (DuplicateKeyId (k_id k))
          else parseLines (i + 1) ls (put_key (k_id k) k t))"

definition keys_Parse :: "string \<Rightarrow> keys_error + Table" where
  "keys_Parse data = parseLines 1 (split_on CHR 0x0A data) []"

text \<open>\<^verbatim>\<open>Zero\<close> overwrites a buffer.\<close>

definition keys_Zero :: "bytes \<Rightarrow> bytes" where
  "keys_Zero b = map (\<lambda>_. 0) b"

section \<open>What a parsed table holds\<close>

definition key_ok :: "Key \<Rightarrow> bool" where
  "key_ok k = (k_id k \<noteq> 0 \<and> uint (k_id k) \<le> 65535 \<and> k_alg k \<in> {''MD5'', ''SHA1'', ''SHA256''}
     \<and> k_secret k \<noteq> [])"

definition table_ok :: "Table \<Rightarrow> bool" where
  "table_ok t = (keys_distinct t \<and> (\<forall>(i, k) \<in> set t. k_id k = i \<and> key_ok k))"

lemma parseLine_ok: "parseLine l = Inr k \<Longrightarrow> key_ok k"
proof -
  assume a: "parseLine l = Inr k"
  then obtain n where n: "1 \<le> n" "n \<le> 65535" "k_id k = word_of_int n"
    "k_alg k \<in> {''MD5'', ''SHA1'', ''SHA256''}" "k_secret k \<noteq> []"
    by (auto simp: parseLine_def Let_def not_less split: list.splits option.splits if_splits prod.splits)
  have "uint (k_id k) = n"
    using n by (simp add: uint_word_of_int_eq take_bit_int_eq_self)
  then show ?thesis using n by (auto simp: key_ok_def)
qed

lemma parseLines_ok:
  assumes "parseLines i ls t = Inr t'" "table_ok t"
  shows "table_ok t'"
  using assms
proof (induction i ls t rule: parseLines.induct)
  case (1 i t)
  then show ?case by simp
next
  case (2 i l ls t)
  show ?case
  proof (cases "trim_space l = [] \<or> has_prefix (trim_space l) ''#''")
    case True
    then show ?thesis using 2 by (simp add: Let_def)
  next
    case False
    then obtain k where k: "parseLine (trim_space l) = Inr k" "map_of t (k_id k) = None"
      "parseLines (i + 1) ls (put_key (k_id k) k t) = Inr t'"
      using 2(3) by (auto simp: Let_def split: sum.splits if_splits)
    have "table_ok (put_key (k_id k) k t)"
      using 2(4) parseLine_ok [OF k(1)] set_put_key_subset [of "k_id k" k t]
      by (auto simp: table_ok_def)
    then show ?thesis using 2(2) False k by simp
  qed
qed

text \<open>A key table that parses has distinct ids between 1 and 65535, a known digest for every key,
  and no empty secret.\<close>

theorem keys_Parse_ok:
  assumes "keys_Parse data = Inr t"
  shows "table_ok t"
  using assms unfolding keys_Parse_def by (rule parseLines_ok) (simp add: table_ok_def)

theorem keys_Parse_ok_witness:
  "table_ok [(7, \<lparr>k_id = 7, k_alg = ''SHA1'', k_secret = [0xAB]\<rparr>)]"
proof (rule keys_Parse_ok)
  show "keys_Parse ''7 sha1 hex:ab'' = Inr [(7, \<lparr>k_id = 7, k_alg = ''SHA1'', k_secret = [0xAB]\<rparr>)]"
    by code_simp
qed

end
