(* ===== verification/Snapshot.thy ===== *)
theory Snapshot
  imports Model NtpView NtpKeys
begin

text \<open>
  The package \<^verbatim>\<open>internal/snapshot\<close>: the immutable compiled configuration and the
  questions the data plane asks it (snapshot.go), and the store that holds the active, the
  previous and the bootstrap snapshot behind atomic pointers (store.go). The warnings of
  \<^verbatim>\<open>internal/config/warning.go\<close> are here, since a snapshot carries them.
\<close>

section \<open>warning.go\<close>

record Warning =
  w_path :: string
  w_code :: string
  w_message :: string

section \<open>snapshot.go\<close>

record SnapFilter =
  sf_name :: string
  sf_enabled :: bool
  sf_prefixes :: "prefix list"
  sf_view :: View

text \<open>The set of versions is the list of the keys of Go's map, all mapped to true.\<close>

record Snapshot =
  sn_canonical :: "State option"
  sn_revision :: revision
  sn_bootstrapRevision :: revision
  sn_generation :: generation
  sn_compiledAt :: gotime
  sn_warnings :: "Warning list"
  sn_ntpAddress :: string
  sn_managementAddress :: string
  sn_restPath :: string
  sn_mcpPath :: string
  sn_versions :: "byte list"
  sn_serveMode :: string
  sn_allow :: "prefix list"
  sn_allowDenyAll :: bool
  sn_restrictDefault :: string
  sn_kod :: bool
  sn_maxPacketsPerSec :: int
  sn_maxPacketsPerIP :: int
  sn_queryLogSize :: int
  sn_filters :: "SnapFilter list"
  sn_keys :: "Table option"

text \<open>A prefix holds an address as it came or as an IPv4 when it is a mapped one.\<close>

definition prefix_hits :: "addr \<Rightarrow> prefix \<Rightarrow> bool" where
  "prefix_hits ip p = (contains p (unmap ip) \<or> contains p ip)"

fun match_filters :: "addr \<Rightarrow> SnapFilter list \<Rightarrow> SnapFilter option" where
  "match_filters ip [] = None"
| "match_filters ip (f # fs) =
     (if \<not> sf_enabled f then match_filters ip fs
      else if list_ex (prefix_hits ip) (sf_prefixes f) then Some f
      else match_filters ip fs)"

definition Match :: "Snapshot \<Rightarrow> addr \<Rightarrow> SnapFilter option" where
  "Match s ip = match_filters ip (sn_filters s)"

definition Allowed :: "Snapshot \<Rightarrow> addr \<Rightarrow> bool" where
  "Allowed s ip =
     (if sn_allowDenyAll s then False
      else if sn_allow s = [] then True
      else list_ex (prefix_hits ip) (sn_allow s))"

definition Drifted :: "Snapshot \<Rightarrow> bool" where
  "Drifted s = (sn_revision s \<noteq> [] \<and> sn_bootstrapRevision s \<noteq> [] \<and> sn_revision s \<noteq> sn_bootstrapRevision s)"

definition VersionOK :: "Snapshot \<Rightarrow> byte \<Rightarrow> bool" where
  "VersionOK s vn = (if sn_versions s = [] then vn = 3 \<or> vn = 4 else vn \<in> set (sn_versions s))"

section \<open>store.go\<close>

record Store =
  store_active :: "Snapshot option"
  store_previous :: "Snapshot option"
  store_bootstrap :: "Snapshot option"

definition NewStore :: Store where
  "NewStore = \<lparr>store_active = None, store_previous = None, store_bootstrap = None\<rparr>"

definition Load :: "Store \<Rightarrow> Snapshot option" where
  "Load s = store_active s"

definition Swap :: "Store \<Rightarrow> Snapshot \<Rightarrow> Store \<times> Snapshot option" where
  "Swap s next =
     (let prev = store_active s;
          s' = s\<lparr>store_active := Some next\<rparr>
      in (case prev of None \<Rightarrow> s' | Some p \<Rightarrow> s'\<lparr>store_previous := Some p\<rparr>, prev))"

definition SetBootstrap :: "Store \<Rightarrow> Snapshot \<Rightarrow> Store" where
  "SetBootstrap s next = s\<lparr>store_bootstrap := Some next\<rparr>"

definition InstallBootstrap :: "Store \<Rightarrow> Snapshot option \<Rightarrow> Store \<times> Snapshot option" where
  "InstallBootstrap s next =
     (case next of None \<Rightarrow> (s, None) | Some n \<Rightarrow> Swap (SetBootstrap s n) n)"

section \<open>Properties\<close>

definition answers :: "addr \<Rightarrow> SnapFilter \<Rightarrow> bool" where
  "answers ip f = (sf_enabled f \<and> list_ex (prefix_hits ip) (sf_prefixes f))"

lemma match_filters_cons:
  "match_filters ip (f # fs) = (if answers ip f then Some f else match_filters ip fs)"
  by (simp add: answers_def)

lemma match_filters_Some:
  "match_filters ip fs = Some f \<longleftrightarrow>
     (\<exists>pre post. fs = pre @ f # post \<and> answers ip f \<and> list_all (\<lambda>g. \<not> answers ip g) pre)"
proof
  assume "match_filters ip fs = Some f"
  then show "\<exists>pre post. fs = pre @ f # post \<and> answers ip f \<and> list_all (\<lambda>g. \<not> answers ip g) pre"
  proof (induction fs)
    case (Cons g fs)
    show ?case
    proof (cases "answers ip g")
      case True
      then have "g # fs = [] @ f # fs \<and> answers ip f \<and> list_all (\<lambda>g. \<not> answers ip g) []"
        using Cons.prems by (simp only: match_filters_cons if_True) simp
      then show ?thesis by blast
    next
      case False
      then obtain pre post where "fs = pre @ f # post \<and> answers ip f \<and> list_all (\<lambda>g. \<not> answers ip g) pre"
        using Cons by (auto simp only: match_filters_cons if_False)
      then have "g # fs = (g # pre) @ f # post \<and> answers ip f \<and> list_all (\<lambda>g. \<not> answers ip g) (g # pre)"
        using False by simp
      then show ?thesis by blast
    qed
  qed simp
next
  assume "\<exists>pre post. fs = pre @ f # post \<and> answers ip f \<and> list_all (\<lambda>g. \<not> answers ip g) pre"
  then obtain pre post where "fs = pre @ f # post" "answers ip f" "list_all (\<lambda>g. \<not> answers ip g) pre"
    by blast
  moreover have "match_filters ip (pre @ f # post) = Some f"
    using calculation(2,3) by (induction pre) (simp_all add: match_filters_cons del: match_filters.simps(2))
  ultimately show "match_filters ip fs = Some f" by simp
qed

lemma match_filters_None: "match_filters ip fs = None \<longleftrightarrow> list_all (\<lambda>g. \<not> answers ip g) fs"
  by (induction fs) (simp_all add: match_filters_cons del: match_filters.simps(2))

text \<open>The filter that answers a client is the first enabled one in the order of the document that
  holds its address, and there is none exactly when no enabled filter holds it.\<close>

theorem Match_first:
  "(Match s ip = Some f \<longleftrightarrow>
     (\<exists>pre post. sn_filters s = pre @ f # post \<and> answers ip f \<and> list_all (\<lambda>g. \<not> answers ip g) pre))
   \<and> (Match s ip = None \<longleftrightarrow> list_all (\<lambda>g. \<not> answers ip g) (sn_filters s))"
  by (simp add: Match_def match_filters_Some match_filters_None)

text \<open>With the two catch-all prefixes in an enabled filter, every address without a zone is matched.\<close>

lemma catch_all_match:
  assumes "f \<in> set (sn_filters s)" "sf_enabled f" "Prefix (V4 0) 0 \<in> set (sf_prefixes f)"
    and "g \<in> set (sn_filters s)" "sf_enabled g" "Prefix (V6 0 []) 0 \<in> set (sf_prefixes g)"
    and "addr_valid ip" "zone ip = []"
  shows "Match s ip \<noteq> None"
proof -
  have "list_ex (prefix_hits ip) (sf_prefixes f) \<or> list_ex (prefix_hits ip) (sf_prefixes g)"
  proof (cases ip)
    case (V4 w)
    then show ?thesis using assms(3) by (auto simp: list_ex_iff prefix_hits_def intro!: bexI)
  next
    case (V6 w z)
    then show ?thesis using assms(6,8) by (auto simp: list_ex_iff prefix_hits_def intro!: bexI)
  qed (use assms(7) in simp)
  then have "answers ip f \<or> answers ip g" using assms by (simp add: answers_def)
  then show ?thesis using assms by (auto simp: Match_def match_filters_None list_all_iff)
qed

lemma Swap_load: "Load (fst (Swap s n)) = Some n" "snd (Swap s n) = Load s"
  by (auto simp: Swap_def Load_def Let_def split: option.splits)

lemma Swap_bootstrap [simp]: "store_bootstrap (fst (Swap s n)) = store_bootstrap s"
  by (auto simp: Swap_def Let_def split: option.splits)

lemma Swap_previous:
  "store_previous (fst (Swap s n)) = (case store_active s of None \<Rightarrow> store_previous s | Some p \<Rightarrow> Some p)"
  by (auto simp: Swap_def Let_def split: option.splits)

end
