(* ===== verification/Bounded_Log.thy ===== *)
theory Bounded_Log
  imports Prelude
begin

text \<open>
  The contract the two in-memory logs of the program share, the query ring and the audit
  ring: what a listing returns after an insertion, and that a listing never exceeds the
  capacity. \<open>stamp\<close> is what the log writes into an entry as it stores it.
\<close>

locale bounded_log =
  fixes good :: "'s \<Rightarrow> bool"
    and put :: "'s \<Rightarrow> 'e \<Rightarrow> 's"
    and stamp :: "'s \<Rightarrow> 'e \<Rightarrow> 'e"
    and recent :: "'s \<Rightarrow> 'e list"
    and cap :: "'s \<Rightarrow> nat"
  assumes good_put: "good s \<Longrightarrow> good (put s e)"
    and cap_put: "good s \<Longrightarrow> cap (put s e) = cap s"
    and cap_pos: "good s \<Longrightarrow> 0 < cap s"
    and bounded: "good s \<Longrightarrow> length (recent s) \<le> cap s"
    and recent_put: "good s \<Longrightarrow> recent (put s e) = take (cap s) (stamp s e # recent s)"
begin

definition puts :: "'s \<Rightarrow> 'e list \<Rightarrow> 's" where
  "puts s es = foldl put s es"

lemma puts_simps [simp]: "puts s [] = s" "puts s (e # es) = puts (put s e) es"
  by (simp_all add: puts_def)

lemma good_puts: "good s \<Longrightarrow> good (puts s es)"
  by (induction es arbitrary: s) (auto intro: good_put)

lemma cap_puts: "good s \<Longrightarrow> cap (puts s es) = cap s"
  by (induction es arbitrary: s) (auto simp: good_put cap_put)

lemma hd_recent_put: "good s \<Longrightarrow> hd (recent (put s e)) = stamp s e"
  using cap_pos [of s] by (cases "cap s") (auto simp: recent_put)

lemma length_recent_puts:
  "good s \<Longrightarrow> length (recent (puts s es)) = min (cap s) (length (recent s) + length es)"
proof (induction es arbitrary: s)
  case Nil
  then show ?case using bounded [of s] by simp
next
  case (Cons e es)
  then show ?case using cap_pos [of s] by (simp add: good_put cap_put recent_put)
qed

text \<open>When entries are stored as they are, a listing is the newest of all entries put.\<close>

lemma recent_puts:
  assumes "\<And>s e. stamp s e = e" "good s"
  shows "recent (puts s es) = take (cap s) (rev es @ recent s)"
  using assms(2)
proof (induction es arbitrary: s)
  case Nil
  then show ?case using bounded [of s] by simp
next
  case (Cons e es)
  have "recent (puts s (e # es)) = take (cap s) (rev es @ take (cap s) (e # recent s))"
    using Cons by (simp add: good_put cap_put recent_put assms(1))
  also have "\<dots> = take (cap s) (rev (e # es) @ recent s)"
    by (simp add: take_append min_def)
  finally show ?case .
qed

end

end
