(* ===== verification/QueryLog.thy ===== *)
theory QueryLog
  imports Bounded_Log Go_Time
begin

text \<open>
  The package \<^verbatim>\<open>internal/querylog\<close> (ring.go): a circular buffer of the last queries,
  written at \<open>next\<close> modulo its length. The lock of the ring is the atomicity of an
  operation; \<^verbatim>\<open>TryInsert\<close> may fail to take it within 100 microseconds, which is the
  argument \<open>lock\<close> here. The interpretation of \<open>bounded_log\<close> shows that the buffer is the
  list of the newest entries.
\<close>

record Entry =
  e_clientIP :: string
  e_filter :: string
  e_servedTime :: gotime
  e_leap :: string
  e_mode :: string
  e_vn :: byte
  e_whenHost :: gotime

definition zero_entry :: Entry where
  "zero_entry = \<lparr>e_clientIP = [], e_filter = [], e_servedTime = zero_time, e_leap = [], e_mode = [],
     e_vn = 0, e_whenHost = zero_time\<rparr>"

record Ring =
  items :: "Entry list"
  ring_next :: nat
  ring_size :: nat
  ring_dropped :: nat

definition clamp_cap :: "int \<Rightarrow> nat" where
  "clamp_cap n = nat (if n < 1 then 1 else if n > 4096 then 4096 else n)"

definition New :: "int \<Rightarrow> Ring" where
  "New n = \<lparr>items = replicate (clamp_cap n) zero_entry, ring_next = 0, ring_size = 0, ring_dropped = 0\<rparr>"

text \<open>The body of the insertion, under the lock.\<close>

definition ring_put :: "Ring \<Rightarrow> Entry \<Rightarrow> Ring" where
  "ring_put r e =
     r\<lparr>items := (items r)[ring_next r mod length (items r) := e],
       ring_next := ring_next r + 1,
       ring_size := (if ring_size r < length (items r) then ring_size r + 1 else ring_size r)\<rparr>"

text \<open>The lock was taken in time, or it was not, with or without a last chance to count the drop.\<close>

datatype lock = Acquired | TimedOut bool

definition TryInsert :: "lock \<Rightarrow> Ring \<Rightarrow> Entry \<Rightarrow> Ring \<times> bool" where
  "TryInsert lock r e =
     (case lock of
        Acquired \<Rightarrow> (ring_put r e, True)
      | TimedOut counted \<Rightarrow>
          (if counted then r\<lparr>ring_dropped := ring_dropped r + 1\<rparr> else r, False))"

definition Dropped :: "Ring \<Rightarrow> nat" where
  "Dropped r = ring_dropped r"

definition List :: "Ring \<Rightarrow> Entry list" where
  "List r = map (\<lambda>i. items r ! nat ((int (ring_next r) - 1 - int i) mod int (length (items r)))) [0..<ring_size r]"

definition Reset :: "Ring \<Rightarrow> Ring" where
  "Reset r = r\<lparr>ring_next := 0, ring_size := 0, items := replicate (length (items r)) zero_entry\<rparr>"

definition Cap :: "Ring \<Rightarrow> nat" where
  "Cap r = length (items r)"

definition Resize :: "Ring \<Rightarrow> int \<Rightarrow> Ring" where
  "Resize r n0 =
     (let n = clamp_cap n0;
          keep = take n (List r);
          r' = r\<lparr>items := replicate n zero_entry, ring_next := 0, ring_size := 0\<rparr>
      in foldl ring_put r' (rev keep))"

section \<open>The invariant\<close>

definition ring_ok :: "Ring \<Rightarrow> bool" where
  "ring_ok r = (0 < length (items r) \<and> ring_size r = min (ring_next r) (length (items r)))"

lemma clamp_cap_range: "1 \<le> clamp_cap n" "clamp_cap n \<le> 4096"
  by (auto simp: clamp_cap_def)

lemma ring_ok_New: "ring_ok (New n)"
  using clamp_cap_range(1) [of n] by (simp add: ring_ok_def New_def)

lemma ring_ok_put: "ring_ok r \<Longrightarrow> ring_ok (ring_put r e)"
  by (auto simp: ring_ok_def ring_put_def min_def)

lemma ring_ok_Reset: "ring_ok r \<Longrightarrow> ring_ok (Reset r)"
  by (simp add: ring_ok_def Reset_def)

lemma Cap_put [simp]: "Cap (ring_put r e) = Cap r"
  by (simp add: Cap_def ring_put_def)

lemma length_List: "length (List r) = ring_size r"
  by (simp add: List_def)

lemma List_idx:
  assumes "i < n" "i < m" "0 < n"
  shows "nat ((int m - 1 - int i) mod int n) = (m - 1 - i) mod n"
proof -
  have "int m - 1 - int i = int (m - 1 - i)" using assms by simp
  then show ?thesis by (simp only: of_nat_mod [symmetric] nat_int)
qed

lemma List_nth:
  assumes "ring_ok r" "i < ring_size r"
  shows "List r ! i = items r ! ((ring_next r - 1 - i) mod length (items r))"
  using assms List_idx [of i "length (items r)" "ring_next r"]
  by (simp add: List_def ring_ok_def)

lemma mod_back_neq:
  assumes "0 < i" "i < n" "i \<le> (m::nat)"
  shows "(m - i) mod n \<noteq> m mod n"
proof
  assume "(m - i) mod n = m mod n"
  then have "n dvd m - (m - i)" by (metis diff_le_self mod_eq_dvd_iff_nat)
  then show False using assms by (auto dest: dvd_imp_le)
qed

lemma List_put:
  assumes "ring_ok r"
  shows "List (ring_put r e) = take (Cap r) (e # List r)"
proof (rule nth_equalityI)
  let ?n = "length (items r)" and ?m = "ring_next r"
  have n: "0 < ?n" and sz: "ring_size r = min ?m ?n" using assms by (simp_all add: ring_ok_def)
  have ok: "ring_ok (ring_put r e)" using assms by (rule ring_ok_put)
  have sz': "ring_size (ring_put r e) = min (?m + 1) ?n" using ok by (simp add: ring_ok_def ring_put_def)
  show "length (List (ring_put r e)) = length (take (Cap r) (e # List r))"
    using sz' by (simp add: length_List sz Cap_def)
  fix i
  assume "i < length (List (ring_put r e))"
  then have i: "i < ring_size (ring_put r e)" "i < ?n" "i \<le> ?m" using sz' by (simp_all add: length_List)
  have l: "List (ring_put r e) ! i = ((items r)[?m mod ?n := e]) ! ((?m - i) mod ?n)"
    using List_nth [OF ok i(1)] by (simp add: ring_put_def)
  show "List (ring_put r e) ! i = take (Cap r) (e # List r) ! i"
  proof (cases i)
    case 0
    then show ?thesis using l n by (simp add: Cap_def)
  next
    case (Suc j)
    then have "(?m - i) mod ?n \<noteq> ?m mod ?n" using i by (intro mod_back_neq) auto
    then have "List (ring_put r e) ! i = items r ! ((?m - 1 - j) mod ?n)"
      using l Suc by simp
    also have "\<dots> = List r ! j" using List_nth [OF assms, of j] i Suc sz by simp
    finally show ?thesis using Suc i by (simp add: Cap_def)
  qed
qed

interpretation qr: bounded_log ring_ok ring_put "\<lambda>_ e. e" List Cap
proof (unfold_locales, goal_cases)
  case (4 s)
  then show ?case by (simp add: length_List Cap_def ring_ok_def)
next
  case (5 s e)
  then show ?case by (rule List_put)
qed (simp_all add: ring_ok_put, simp add: Cap_def ring_ok_def)

lemma New_simps [simp]: "List (New n) = []" "Cap (New n) = clamp_cap n"
  by (simp_all add: New_def List_def Cap_def)

lemma Resize_puts: "Resize r n = qr.puts (r\<lparr>items := replicate (clamp_cap n) zero_entry,
    ring_next := 0, ring_size := 0\<rparr>) (rev (take (clamp_cap n) (List r)))"
  by (simp add: Resize_def Let_def qr.puts_def)

section \<open>Properties\<close>

text \<open>A ring lists the newest entries first, never more than its capacity: after any inserts it
  is the newest of them followed by what it listed before, cut to the capacity.\<close>

theorem List_inserts:
  assumes "ring_ok r"
  shows "List (foldl (\<lambda>r e. fst (TryInsert Acquired r e)) r es) = take (Cap r) (rev es @ List r)"
  using qr.recent_puts [OF refl assms, of es] by (simp add: qr.puts_def TryInsert_def)

theorem List_inserts_witness:
  "List (foldl (\<lambda>r e. fst (TryInsert Acquired r e)) (New 2)
     (map (\<lambda>s. zero_entry\<lparr>e_filter := s\<rparr>) [''a'', ''b'', ''c'']))
   = map (\<lambda>s. zero_entry\<lparr>e_filter := s\<rparr>) [''c'', ''b'']"
  by (subst List_inserts [OF ring_ok_New]) (simp add: clamp_cap_def)

lemma Resize_refill:
  "ring_ok (r\<lparr>items := replicate (clamp_cap n) zero_entry, ring_next := 0, ring_size := 0\<rparr>)"
  "List (r\<lparr>items := replicate (clamp_cap n) zero_entry, ring_next := 0, ring_size := 0\<rparr>) = []"
  "Cap (r\<lparr>items := replicate (clamp_cap n) zero_entry, ring_next := 0, ring_size := 0\<rparr>) = clamp_cap n"
  using clamp_cap_range(1) [of n] by (simp_all add: ring_ok_def List_def Cap_def)

lemma ring_ok_Resize: "ring_ok (Resize r n)"
  using qr.good_puts [OF Resize_refill(1)] by (simp add: Resize_puts)

text \<open>Changing the capacity keeps exactly the newest entries that fit, in their order, and the
  new capacity is the requested one moved into 1..4096.\<close>

theorem Resize_keeps_newest:
  assumes "ring_ok r"
  shows "List (Resize r n) = take (clamp_cap n) (List r) \<and> Cap (Resize r n) = clamp_cap n
    \<and> ring_ok (Resize r n)"
proof -
  let ?r = "r\<lparr>items := replicate (clamp_cap n) zero_entry, ring_next := 0, ring_size := 0\<rparr>"
  note ok = Resize_refill(1) [where r = r and n = n]
  note e = Resize_refill(2,3) [where r = r and n = n]
  show ?thesis
    using qr.recent_puts [OF refl ok, of "rev (take (clamp_cap n) (List r))"] qr.good_puts [OF ok]
      qr.cap_puts [OF ok] e
    by (simp add: Resize_puts)
qed

theorem Resize_keeps_newest_witness:
  "List (Resize (New 3) 2) = [] \<and> Cap (Resize (New 3) 2) = 2"
  using Resize_keeps_newest [OF ring_ok_New, of 3 2] by (simp add: clamp_cap_def)

end
