(* ===== verification/DomainErr.thy ===== *)
theory DomainErr
  imports Prelude
begin

text \<open>
  The package \<^verbatim>\<open>internal/domainerr\<close>: the error codes with their retry flag (code.go)
  and the error value every layer returns (error.go). A nil error is absent from the type;
  functions that accept nil in Go take an option.
\<close>

section \<open>code.go\<close>

type_synonym code = string

definition CodeValidationFailed :: code where "CodeValidationFailed = ''validation_failed''"
definition CodeUnauthenticated :: code where "CodeUnauthenticated = ''unauthenticated''"
definition CodeForbidden :: code where "CodeForbidden = ''forbidden''"
definition CodeNotFound :: code where "CodeNotFound = ''not_found''"
definition CodeMethodNotAllowed :: code where "CodeMethodNotAllowed = ''method_not_allowed''"
definition CodeRevisionConflict :: code where "CodeRevisionConflict = ''revision_conflict''"
definition CodeIdempotencyConflict :: code where "CodeIdempotencyConflict = ''idempotency_conflict''"
definition CodeRateLimited :: code where "CodeRateLimited = ''rate_limited''"
definition CodeTimeout :: code where "CodeTimeout = ''timeout''"
definition CodeInternalError :: code where "CodeInternalError = ''internal_error''"

lemmas code_names = CodeValidationFailed_def CodeUnauthenticated_def CodeForbidden_def
  CodeNotFound_def CodeMethodNotAllowed_def CodeRevisionConflict_def CodeIdempotencyConflict_def
  CodeRateLimited_def CodeTimeout_def CodeInternalError_def

definition code_catalog :: "(code \<times> bool) list" where
  "code_catalog =
     [(CodeValidationFailed, False), (CodeUnauthenticated, False), (CodeForbidden, False),
      (CodeNotFound, False), (CodeMethodNotAllowed, False), (CodeRevisionConflict, True),
      (CodeIdempotencyConflict, False), (CodeRateLimited, True), (CodeTimeout, True),
      (CodeInternalError, True)]"

definition Codes :: "code list" where
  "Codes = map fst code_catalog"

definition Retryable :: "code \<Rightarrow> bool" where
  "Retryable c = (case filter (\<lambda>e. fst e = c) code_catalog of [] \<Rightarrow> False | e # _ \<Rightarrow> snd e)"

section \<open>error.go\<close>

record FieldViolation =
  fv_path :: string
  fv_code :: string
  fv_message :: string

record Error =
  err_code :: code
  err_message :: string
  err_retryable :: bool
  err_violations :: "FieldViolation list"
  err_currentRevision :: string
  err_remediation :: string

definition err_string :: "Error \<Rightarrow> string" where
  "err_string e = (if err_message e = [] then err_code e else err_code e @ '': '' @ err_message e)"

definition err_is :: "Error \<Rightarrow> Error \<Rightarrow> bool" where
  "err_is e t = (err_code e = err_code t)"

definition newError :: "code \<Rightarrow> string \<Rightarrow> Error" where
  "newError c m = \<lparr>err_code = c, err_message = m, err_retryable = Retryable c, err_violations = [],
     err_currentRevision = [], err_remediation = []\<rparr>"

definition WithRemediation :: "Error \<Rightarrow> string \<Rightarrow> Error" where
  "WithRemediation e s = e\<lparr>err_remediation := s\<rparr>"

definition WithRevision :: "Error \<Rightarrow> string \<Rightarrow> Error" where
  "WithRevision e rv = e\<lparr>err_currentRevision := rv\<rparr>"

definition WithViolations :: "Error \<Rightarrow> FieldViolation list \<Rightarrow> Error" where
  "WithViolations e v = (if v = [] then e else e\<lparr>err_violations := err_violations e @ v\<rparr>)"

definition ValidationFailed :: "string \<Rightarrow> FieldViolation list \<Rightarrow> Error" where
  "ValidationFailed m vs = WithViolations (newError CodeValidationFailed m) vs"

definition RevisionConflict :: "string \<Rightarrow> string \<Rightarrow> Error" where
  "RevisionConflict m rv = WithRevision (newError CodeRevisionConflict m) rv"

definition IdempotencyConflict :: "string \<Rightarrow> Error" where
  "IdempotencyConflict m = newError CodeIdempotencyConflict m"

definition NotFound :: "string \<Rightarrow> Error" where
  "NotFound m = newError CodeNotFound m"

definition MethodNotAllowed :: "string \<Rightarrow> Error" where
  "MethodNotAllowed m = newError CodeMethodNotAllowed m"

definition Forbidden :: "string \<Rightarrow> Error" where
  "Forbidden m = newError CodeForbidden m"

definition Unauthenticated :: "string \<Rightarrow> Error" where
  "Unauthenticated m = newError CodeUnauthenticated m"

definition RateLimited :: "string \<Rightarrow> Error" where
  "RateLimited m = newError CodeRateLimited m"

definition Timeout :: "string \<Rightarrow> Error" where
  "Timeout m = newError CodeTimeout m"

definition Internal :: "string \<Rightarrow> Error" where
  "Internal m = newError CodeInternalError m"

lemma err_code_simps [simp]:
  "err_code (newError c m) = c"
  "err_code (WithRemediation e s) = err_code e"
  "err_code (WithRevision e s) = err_code e"
  "err_code (WithViolations e v) = err_code e"
  by (simp_all add: newError_def WithRemediation_def WithRevision_def WithViolations_def)

lemmas err_ctor_defs = ValidationFailed_def RevisionConflict_def IdempotencyConflict_def NotFound_def
  MethodNotAllowed_def Forbidden_def Unauthenticated_def RateLimited_def Timeout_def Internal_def

lemma err_code_ctors [simp]:
  "err_code (ValidationFailed m vs) = CodeValidationFailed"
  "err_code (RevisionConflict m r) = CodeRevisionConflict"
  "err_code (IdempotencyConflict m) = CodeIdempotencyConflict"
  "err_code (NotFound m) = CodeNotFound"
  "err_code (MethodNotAllowed m) = CodeMethodNotAllowed"
  "err_code (Forbidden m) = CodeForbidden"
  "err_code (Unauthenticated m) = CodeUnauthenticated"
  "err_code (RateLimited m) = CodeRateLimited"
  "err_code (Timeout m) = CodeTimeout"
  "err_code (Internal m) = CodeInternalError"
  by (simp_all add: err_ctor_defs)

lemma codes_distinct: "distinct Codes"
  by (simp add: Codes_def code_catalog_def code_names)

end
