(* ===== verification/RateLimit.thy ===== *)
theory RateLimit
  imports DomainErr Go_Time Go_Net
begin

text \<open>
  The token buckets: the query limiter of \<^verbatim>\<open>internal/ntpserver/ratelimit.go\<close> and the
  management limiters of \<^verbatim>\<open>internal/control/rest/auth.go\<close> and
  \<^verbatim>\<open>internal/control/mcp/auth.go\<close>. The map of buckets is an association list whose
  order is Go's iteration order. The clock reading of a call is an argument.
\<close>

record bucket =
  tokens :: float64
  last :: gotime

type_synonym buckets = "(string \<times> bucket) list"

section \<open>What the limiters share\<close>

text \<open>How long a bucket may be idle: 30 seconds, or four times its refill time if that is longer.\<close>

definition idle_for :: "float64 \<Rightarrow> float64 \<Rightarrow> duration" where
  "idle_for rate burst =
     (let base = 30 * second in
      if flt (Fin 0) rate then
        let refill = f_to_i64 (fmul (fmul (f_of_int second) (fdiv burst rate)) (Fin 4)) in
        if base < refill then refill else base
      else base)"

definition evict_idle :: "float64 \<Rightarrow> float64 \<Rightarrow> gotime \<Rightarrow> buckets \<Rightarrow> buckets" where
  "evict_idle rate burst now bs =
     (if bs = [] then bs
      else filter (\<lambda>(k, b). \<not> idle_for rate burst < t_sub now (last b)) bs)"

text \<open>The key of the first bucket in iteration order whose last use no other one precedes.\<close>

definition oldest_key :: "buckets \<Rightarrow> string option" where
  "oldest_key bs =
     map_option fst
       (foldl (\<lambda>acc (k, b). case acc of
                 None \<Rightarrow> Some (k, last b)
               | Some (k', t) \<Rightarrow> if t_before (last b) t then Some (k, last b) else acc) None bs)"

definition max_buckets :: nat where
  "max_buckets = 1024"

section \<open>The query limiter\<close>

record queryLimiter =
  ql_rate :: float64
  ql_burst :: float64
  ql_buckets :: buckets

text \<open>The defaults of \<^verbatim>\<open>newQueryLimiter\<close> and \<^verbatim>\<open>setRate\<close>.\<close>

definition fix_rate :: "float64 \<Rightarrow> float64" where
  "fix_rate rate = (if fle rate (Fin 0) then Fin 1 else rate)"

definition fix_burst :: "float64 \<Rightarrow> float64 \<Rightarrow> float64" where
  "fix_burst rate burst = (if fle burst (Fin 0) then fmul rate (Fin 2) else burst)"

definition newQueryLimiter :: "float64 \<Rightarrow> float64 \<Rightarrow> queryLimiter" where
  "newQueryLimiter rate burst =
     \<lparr>ql_rate = fix_rate rate, ql_burst = fix_burst (fix_rate rate) burst, ql_buckets = []\<rparr>"

definition ql_setRate :: "queryLimiter \<Rightarrow> float64 \<Rightarrow> float64 \<Rightarrow> queryLimiter" where
  "ql_setRate l rate burst =
     l\<lparr>ql_rate := fix_rate rate, ql_burst := fix_burst (fix_rate rate) burst\<rparr>"

definition ql_evictIdleLocked :: "queryLimiter \<Rightarrow> gotime \<Rightarrow> queryLimiter" where
  "ql_evictIdleLocked l now = l\<lparr>ql_buckets := evict_idle (ql_rate l) (ql_burst l) now (ql_buckets l)\<rparr>"

definition ql_evictOldestLocked :: "queryLimiter \<Rightarrow> queryLimiter" where
  "ql_evictOldestLocked l =
     (case oldest_key (ql_buckets l) of
        Some k \<Rightarrow> if k \<noteq> [] then l\<lparr>ql_buckets := del_key k (ql_buckets l)\<rparr> else l
      | None \<Rightarrow> l)"

text \<open>The refill: only when time went forward.\<close>

definition ql_refill :: "queryLimiter \<Rightarrow> gotime \<Rightarrow> bucket \<Rightarrow> bucket" where
  "ql_refill l now b =
     (let elapsed = dur_seconds (t_sub now (last b)) in
      if flt (Fin 0) elapsed then
        let t = fadd (tokens b) (fmul elapsed (ql_rate l)) in
        \<lparr>tokens = (if flt (ql_burst l) t then ql_burst l else t), last = now\<rparr>
      else b)"

definition ql_allow :: "queryLimiter \<Rightarrow> gotime \<Rightarrow> string \<Rightarrow> queryLimiter \<times> bool" where
  "ql_allow l0 now key0 =
     (let key = (if key0 = [] then ''unknown'' else key0);
          l1 = ql_evictIdleLocked l0 now;
          (l2, b0) = (case map_of (ql_buckets l1) key of
             Some b \<Rightarrow> (l1, b)
           | None \<Rightarrow>
               ((if max_buckets \<le> length (ql_buckets l1) then ql_evictOldestLocked l1 else l1),
                \<lparr>tokens = ql_burst l1, last = now\<rparr>));
          b = ql_refill l2 now b0
      in if flt (tokens b) (Fin 1)
         then (l2\<lparr>ql_buckets := put_key key b (ql_buckets l2)\<rparr>, False)
         else (l2\<lparr>ql_buckets := put_key key (b\<lparr>tokens := fsub (tokens b) (Fin 1)\<rparr>) (ql_buckets l2)\<rparr>, True))"

section \<open>The management limiters\<close>

record mgmtLimiter =
  ml_disabled :: bool
  ml_rate :: float64
  ml_burst :: float64
  ml_buckets :: buckets

definition DefaultRequestsPerSecond :: int where "DefaultRequestsPerSecond = 32"
definition DefaultBurst :: int where "DefaultBurst = 64"

definition newLimiter :: "float64 \<Rightarrow> float64 \<Rightarrow> mgmtLimiter" where
  "newLimiter rate burst =
     (if flt rate (Fin 0) then \<lparr>ml_disabled = True, ml_rate = Fin 0, ml_burst = Fin 0, ml_buckets = []\<rparr>
      else \<lparr>ml_disabled = False,
            ml_rate = (if feq rate (Fin 0) then f_of_int DefaultRequestsPerSecond else rate),
            ml_burst = (if feq burst (Fin 0) then f_of_int DefaultBurst else burst),
            ml_buckets = []\<rparr>)"

definition ml_setRate :: "mgmtLimiter \<Rightarrow> float64 \<Rightarrow> float64 \<Rightarrow> mgmtLimiter" where
  "ml_setRate l rate burst =
     (if ml_disabled l then l
      else l\<lparr>ml_rate := (if fle rate (Fin 0) then f_of_int DefaultRequestsPerSecond else rate),
             ml_burst := (if fle burst (Fin 0) then f_of_int DefaultBurst else burst)\<rparr>)"

definition remote_key :: "string \<Rightarrow> string" where
  "remote_key remote = (case split_host_port remote of Some (h, _) \<Rightarrow> h | None \<Rightarrow> remote)"

definition mgmt_refill :: "mgmtLimiter \<Rightarrow> gotime \<Rightarrow> bucket \<Rightarrow> bucket" where
  "mgmt_refill l now b =
     (let t = fadd (tokens b) (fmul (dur_seconds (t_sub now (last b))) (ml_rate l)) in
      \<lparr>tokens = (if flt (ml_burst l) t then ml_burst l else t), last = now\<rparr>)"

text \<open>The tail of both: charge the bucket or refuse.\<close>

definition mgmt_charge :: "mgmtLimiter \<Rightarrow> gotime \<Rightarrow> string \<Rightarrow> bucket \<Rightarrow> mgmtLimiter \<times> Error option" where
  "mgmt_charge l now key b0 =
     (let b = mgmt_refill l now b0 in
      if flt (tokens b) (Fin 1)
      then (l\<lparr>ml_buckets := put_key key b (ml_buckets l)\<rparr>, Some (RateLimited ''too many management requests''))
      else (l\<lparr>ml_buckets := put_key key (b\<lparr>tokens := fsub (tokens b) (Fin 1)\<rparr>) (ml_buckets l)\<rparr>, None))"

definition rest_allow :: "mgmtLimiter \<Rightarrow> gotime \<Rightarrow> string \<Rightarrow> mgmtLimiter \<times> Error option" where
  "rest_allow l0 now remote =
     (if ml_disabled l0 then (l0, None)
      else let key = remote_key remote;
               l1 = l0\<lparr>ml_buckets := evict_idle (ml_rate l0) (ml_burst l0) now (ml_buckets l0)\<rparr>;
               b = (case map_of (ml_buckets l1) key of Some b \<Rightarrow> b | None \<Rightarrow> \<lparr>tokens = ml_burst l1, last = now\<rparr>)
           in mgmt_charge l1 now key b)"

definition mcp_evictOldestLocked :: "mgmtLimiter \<Rightarrow> mgmtLimiter" where
  "mcp_evictOldestLocked l =
     (case oldest_key (ml_buckets l) of
        Some k \<Rightarrow> l\<lparr>ml_buckets := del_key k (ml_buckets l)\<rparr>
      | None \<Rightarrow> l)"

definition mcp_allow :: "mgmtLimiter \<Rightarrow> gotime \<Rightarrow> string \<Rightarrow> mgmtLimiter \<times> Error option" where
  "mcp_allow l0 now remote =
     (if ml_disabled l0 then (l0, None)
      else let key = remote_key remote;
               l1 = l0\<lparr>ml_buckets := evict_idle (ml_rate l0) (ml_burst l0) now (ml_buckets l0)\<rparr> in
           case map_of (ml_buckets l1) key of
             Some b \<Rightarrow> mgmt_charge l1 now key b
           | None \<Rightarrow>
               mgmt_charge (if max_buckets \<le> length (ml_buckets l1) then mcp_evictOldestLocked l1 else l1)
                 now key \<lparr>tokens = ml_burst l1, last = now\<rparr>)"

section \<open>Buckets stay bounded\<close>

definition buckets_ok :: "buckets \<Rightarrow> bool" where
  "buckets_ok bs = (keys_distinct bs \<and> length bs \<le> max_buckets)"

lemma keys_distinct_filter [simp]: "keys_distinct bs \<Longrightarrow> keys_distinct (filter P bs)"
  by (induction bs) auto

lemma evict_idle_subset: "set (evict_idle r b now bs) \<subseteq> set bs"
  by (auto simp: evict_idle_def)

lemma evict_idle_ok: "buckets_ok bs \<Longrightarrow> buckets_ok (evict_idle r b now bs)"
  by (auto simp: evict_idle_def buckets_ok_def intro: order_trans [OF length_filter_le])

lemma oldest_key_foldl:
  "map_option fst (foldl (\<lambda>acc (k, b). case acc of None \<Rightarrow> Some (k, last b)
      | Some (k', t) \<Rightarrow> if t_before (last b) t then Some (k, last b) else acc) (Some (k0, t0)) bs)
   \<in> Some ` insert k0 (fst ` set bs)"
proof (induction bs arbitrary: k0 t0)
  case (Cons p bs)
  obtain k b where p: "p = (k, b)" by (cases p)
  show ?case
  proof (cases "t_before (last b) t0")
    case True
    then show ?thesis using Cons [of k "last b"] by (auto simp: p)
  next
    case False
    then show ?thesis using Cons [of k0 t0] by (auto simp: p)
  qed
qed simp

lemma oldest_key_in: "bs \<noteq> [] \<Longrightarrow> \<exists>k. oldest_key bs = Some k \<and> k \<in> fst ` set bs"
proof (cases bs)
  case (Cons p bs')
  obtain k b where "p = (k, b)" by (cases p)
  then have "oldest_key bs \<in> Some ` insert k (fst ` set bs')"
    using oldest_key_foldl [of k "last b" bs'] by (simp add: oldest_key_def Cons)
  then show ?thesis using \<open>p = (k, b)\<close> by (force simp: Cons)
qed simp

lemma evict_oldest_room:
  assumes "buckets_ok bs" "oldest_key bs = Some k" "bs \<noteq> []"
  shows "buckets_ok (del_key k bs)" "length (del_key k bs) < max_buckets"
proof -
  have "k \<in> fst ` set bs" using oldest_key_in [OF assms(3)] assms(2) by auto
  then have "Suc (length (del_key k bs)) = length bs"
    using assms(1) by (intro length_del_key) (simp_all add: buckets_ok_def)
  then show "buckets_ok (del_key k bs)" "length (del_key k bs) < max_buckets"
    using assms(1) by (simp_all add: buckets_ok_def)
qed

lemma put_key_ok_present:
  assumes "buckets_ok bs" "map_of bs k = Some x"
  shows "buckets_ok (put_key k b bs)"
proof -
  have "k \<in> fst ` set bs" using assms(2) by (metis domI dom_map_of_conv_image_fst)
  then show ?thesis using assms(1) by (simp add: buckets_ok_def length_put_key)
qed

lemma put_key_ok_room: "buckets_ok bs \<Longrightarrow> length bs < max_buckets \<Longrightarrow> buckets_ok (put_key k b bs)"
  by (simp add: buckets_ok_def length_put_key)

definition ql_ok :: "queryLimiter \<Rightarrow> bool" where
  "ql_ok l = (buckets_ok (ql_buckets l) \<and> [] \<notin> fst ` set (ql_buckets l))"

lemma ql_ok_allow:
  assumes "ql_ok l"
  shows "ql_ok (fst (ql_allow l now key))"
proof -
  define k where "k = (if key = [] then ''unknown'' else key)"
  define l1 where "l1 = ql_evictIdleLocked l now"
  have e: "ql_buckets l1 = evict_idle (ql_rate l) (ql_burst l) now (ql_buckets l)"
    by (simp add: l1_def ql_evictIdleLocked_def)
  have "fst ` set (ql_buckets l1) \<subseteq> fst ` set (ql_buckets l)"
    unfolding e by (intro image_mono evict_idle_subset)
  then have l1: "ql_ok l1"
    using assms evict_idle_ok [of "ql_buckets l"] unfolding ql_ok_def e by blast
  have k: "k \<noteq> []" by (simp add: k_def)
  have put: "ql_ok (m\<lparr>ql_buckets := put_key k b (ql_buckets m)\<rparr>)"
    if "ql_ok m" "map_of (ql_buckets m) k \<noteq> None \<or> length (ql_buckets m) < max_buckets" for m b
    using that k by (auto simp: ql_ok_def dom_put_key intro: put_key_ok_present put_key_ok_room)
  have ev: "ql_ok (ql_evictOldestLocked l1)" "length (ql_buckets (ql_evictOldestLocked l1)) < max_buckets"
    if "max_buckets \<le> length (ql_buckets l1)"
  proof -
    have ne: "ql_buckets l1 \<noteq> []" using that by (auto simp: max_buckets_def)
    then obtain ok where ok: "oldest_key (ql_buckets l1) = Some ok" "ok \<in> fst ` set (ql_buckets l1)"
      using oldest_key_in by blast
    then have "ok \<noteq> []" using l1 unfolding ql_ok_def by blast
    then show "ql_ok (ql_evictOldestLocked l1)" "length (ql_buckets (ql_evictOldestLocked l1)) < max_buckets"
      using l1 ok evict_oldest_room [OF _ ok(1) ne]
      by (auto simp: ql_ok_def ql_evictOldestLocked_def set_del_key)
  qed
  show ?thesis
  proof (cases "map_of (ql_buckets l1) k")
    case None
    then show ?thesis
      using put ev l1 by (simp add: ql_allow_def Let_def flip: k_def l1_def)
  next
    case (Some b)
    then show ?thesis
      using put l1 by (simp add: ql_allow_def Let_def flip: k_def l1_def)
  qed
qed

text \<open>The query limiter never tracks more than 1024 clients, whatever the keys, the clock and
  the order in which Go iterates its map.\<close>

theorem ql_allow_ok:
  assumes "ql_ok l"
  shows "ql_ok (fst (ql_allow l now key))"
  using assms by (rule ql_ok_allow)

theorem ql_allow_ok_witness:
  "ql_ok (fst (ql_allow (newQueryLimiter (Fin 1) (Fin 2)) (wall_time 0) ''a''))"
  by (rule ql_allow_ok) (simp add: newQueryLimiter_def ql_ok_def buckets_ok_def)

section \<open>The burst\<close>

text \<open>The decisions of a sequence of calls at one instant.\<close>

fun ql_calls :: "queryLimiter \<Rightarrow> gotime \<Rightarrow> string \<Rightarrow> nat \<Rightarrow> bool list" where
  "ql_calls l now key 0 = []"
| "ql_calls l now key (Suc n) = (let (l', ok) = ql_allow l now key in ok # ql_calls l' now key n)"

lemma idle_for_ge: "30 * second \<le> idle_for rate burst"
  by (auto simp: idle_for_def Let_def)

lemma map_of_evict_idle_now:
  assumes "map_of bs k = Some b" "last b = now" "keys_distinct bs"
  shows "map_of (evict_idle r u now bs) k = Some b"
proof -
  have m: "(k, b) \<in> set bs" using assms(1) by (rule map_of_SomeD)
  have "0 \<le> idle_for r u" using idle_for_ge [of r u] by (simp add: second_def)
  then have "(k, b) \<in> set (evict_idle r u now bs)"
    using m assms(2) by (auto simp: evict_idle_def)
  moreover have "keys_distinct (evict_idle r u now bs)"
    using assms(3) by (simp add: evict_idle_def)
  ultimately show ?thesis by (simp add: map_of_eq_Some_iff)
qed

lemma fsub_one:
  assumes "1 \<le> k" "k \<le> 2 ^ 53"
  shows "fsub (Fin (of_int k)) (Fin 1) = Fin (of_int (k - 1))"
  using assms round64_of_int [of "k - 1"] by (simp add: fsub_def)

lemma ql_allow_step:
  assumes "key \<noteq> []" "keys_distinct (ql_buckets l)"
    and "map_of (ql_buckets l) key = Some \<lparr>tokens = Fin (of_int k), last = now\<rparr>"
    and "0 \<le> k" "k \<le> 2 ^ 53"
  obtains l' where "ql_allow l now key = (l', 1 \<le> k)" "keys_distinct (ql_buckets l')"
    "map_of (ql_buckets l') key = Some \<lparr>tokens = Fin (of_int (if 1 \<le> k then k - 1 else k)), last = now\<rparr>"
proof -
  let ?b = "\<lparr>tokens = Fin (of_int k), last = now\<rparr>" and ?l1 = "ql_evictIdleLocked l now"
  have m: "map_of (ql_buckets ?l1) key = Some ?b" and d: "keys_distinct (ql_buckets ?l1)"
    using assms map_of_evict_idle_now [OF assms(3) _ assms(2)]
    by (simp_all add: ql_evictIdleLocked_def) (simp add: evict_idle_def)
  have r: "ql_refill l' now ?b = ?b" for l' by (simp add: ql_refill_def Let_def)
  show thesis
  proof (cases "1 \<le> k")
    case True
    then have a: "ql_allow l now key =
      (?l1\<lparr>ql_buckets := put_key key (?b\<lparr>tokens := Fin (of_int (k - 1))\<rparr>) (ql_buckets ?l1)\<rparr>, True)"
      using assms m r fsub_one [of k] by (simp add: ql_allow_def Let_def)
    show thesis by (rule that [of "?l1\<lparr>ql_buckets := put_key key (?b\<lparr>tokens := Fin (of_int (k - 1))\<rparr>) (ql_buckets ?l1)\<rparr>"]) (use a True d in simp_all)
  next
    case False
    then have a: "ql_allow l now key = (?l1\<lparr>ql_buckets := put_key key ?b (ql_buckets ?l1)\<rparr>, False)"
      using assms m r by (simp add: ql_allow_def Let_def)
    show thesis by (rule that [of "?l1\<lparr>ql_buckets := put_key key ?b (ql_buckets ?l1)\<rparr>"]) (use a False d in simp_all)
  qed
qed

lemma ql_calls_burst:
  assumes "key \<noteq> []" "keys_distinct (ql_buckets l)"
    and "map_of (ql_buckets l) key = Some \<lparr>tokens = Fin (of_int k), last = now\<rparr>"
    and "0 \<le> k" "k \<le> 2 ^ 53"
  shows "ql_calls l now key n = replicate (min n (nat k)) True @ replicate (n - nat k) False"
  using assms(2-5)
proof (induction n arbitrary: l k)
  case (Suc n)
  obtain l' where l': "ql_allow l now key = (l', 1 \<le> k)" "keys_distinct (ql_buckets l')"
    "map_of (ql_buckets l') key = Some \<lparr>tokens = Fin (of_int (if 1 \<le> k then k - 1 else k)), last = now\<rparr>"
    using ql_allow_step [OF assms(1) Suc.prems] by blast
  have IH: "ql_calls l' now key n = replicate (min n (nat k')) True @ replicate (n - nat k') False"
    if "k' = (if 1 \<le> k then k - 1 else k)" for k'
    using Suc.IH [OF l'(2), of k'] l'(3) Suc.prems that by auto
  show ?case
  proof (cases "1 \<le> k")
    case True
    then obtain j where "nat k = Suc j" "nat (k - 1) = j" by (metis Suc_nat_eq_nat_zadd1 add.commute diff_add_cancel diff_ge_0_iff_ge)
    then show ?thesis using l'(1) IH True by simp
  next
    case False
    then have "k = 0" using Suc.prems by simp
    then show ?thesis using l'(1) IH by simp
  qed
qed simp

text \<open>At one instant a client the limiter does not know yet is granted exactly the burst: of any
  number of calls the first \<open>burst\<close> are allowed and all later ones refused.\<close>

theorem ql_burst_exact:
  assumes "key \<noteq> []" "keys_distinct (ql_buckets l)" "key \<notin> fst ` set (ql_buckets l)"
    and "ql_burst l = Fin (of_int m)" "1 \<le> m" "m \<le> 2 ^ 53"
  shows "ql_calls l now key n = replicate (min n (nat m)) True @ replicate (n - nat m) False"
proof (cases n)
  case (Suc n')
  let ?l1 = "ql_evictIdleLocked l now"
  define l2 where "l2 = (if max_buckets \<le> length (ql_buckets ?l1) then ql_evictOldestLocked ?l1 else ?l1)"
  have d1: "keys_distinct (ql_buckets ?l1)" and n1: "map_of (ql_buckets ?l1) key = None"
    using assms(2,3) evict_idle_subset
    by (fastforce simp: ql_evictIdleLocked_def evict_idle_def map_of_eq_None_iff)+
  have d2: "keys_distinct (ql_buckets l2)" using d1
    by (auto simp: l2_def ql_evictOldestLocked_def split: option.splits)
  let ?b = "\<lparr>tokens = Fin (of_int m), last = now\<rparr>"
  have b: "ql_burst ?l1 = Fin (of_int m)" using assms(4) by (simp add: ql_evictIdleLocked_def)
  let ?l' = "l2\<lparr>ql_buckets := put_key key (?b\<lparr>tokens := Fin (of_int (m - 1))\<rparr>) (ql_buckets l2)\<rparr>"
  have "ql_refill l2 now ?b = ?b" by (simp add: ql_refill_def Let_def)
  then have "ql_allow l now key = (?l', True)"
    using assms n1 b fsub_one [of m] by (simp add: ql_allow_def Let_def flip: l2_def)
  moreover have "ql_calls ?l' now key n' = replicate (min n' (nat (m - 1))) True @ replicate (n' - nat (m - 1)) False"
    using assms d2 by (intro ql_calls_burst) auto
  moreover obtain j where "nat m = Suc j" "nat (m - 1) = j" using assms(5)
    by (metis Suc_nat_eq_nat_zadd1 add.commute diff_add_cancel diff_ge_0_iff_ge)
  ultimately show ?thesis by (simp add: Suc)
qed simp

theorem ql_burst_exact_witness:
  "ql_calls (newQueryLimiter (Fin (1 / 2)) (Fin 1)) (wall_time 0) ''10.0.0.1'' 3 = [True, False, False]"
  using ql_burst_exact [of "''10.0.0.1''" "newQueryLimiter (Fin (1 / 2)) (Fin 1)" 1 "wall_time 0" 3]
  by (simp add: newQueryLimiter_def fix_rate_def fix_burst_def numeral_2_eq_2)

section \<open>Idle buckets\<close>

lemma round64_ge:
  assumes "rnd a = a" "\<bar>a\<bar> < max_finite_bound" "a \<le> x"
  shows "fle (Fin a) (round64 x)"
  using round64_mono [OF assms(3)] round64_small [of a] assms(1,2) by simp

lemma dur_seconds_thirty: "dur_seconds (30 * second) = Fin 30"
proof -
  have "quot (30 * second) second = 30" "rem_int (30 * second) second = 0"
    by (simp_all add: second_def quot_pos rem_int_pos)
  moreover have "rnd 30 = 30" using rnd_of_int [of 30] by simp
  ultimately show ?thesis by (simp add: dur_seconds_eq i64_def' second_def)
qed

text \<open>Dropping a bucket for idleness loses nothing: with a burst of twice the rate (what the
  server sets for every limiter), a bucket idle for longer than the limit would have been refilled to
  the burst, which is what a fresh bucket starts with.\<close>

theorem idle_bucket_is_full:
  assumes "ql_rate l = Fin r" "ql_burst l = Fin (2 * r)" "0 < r" "rnd (2 * r) = 2 * r" "2 * r < max_finite_bound"
    and "tokens b = Fin x" "0 \<le> x"
    and "idle_for (ql_rate l) (ql_burst l) < t_sub now (last b)"
  shows "tokens (ql_refill l now b) = ql_burst l"
proof -
  let ?d = "t_sub now (last b)"
  have d: "30 * second < ?d" using assms(8) idle_for_ge by (rule order_le_less_trans [rotated])
  obtain e where e: "dur_seconds ?d = Fin e" by (simp add: dur_seconds_eq)
  have "fle (dur_seconds (30 * second)) (dur_seconds ?d)"
    using d by (intro dur_seconds_mono t_sub_range) (simp_all add: i64_def' second_def)
  then have e30: "30 \<le> e" by (simp add: dur_seconds_thirty e)
  have "2 * r \<le> e * r" using e30 assms(3) by (intro mult_right_mono) auto
  then have "fle (Fin (2 * r)) (round64 (e * r))" using assms by (intro round64_ge) auto
  then have "fle (Fin (2 * r)) (fadd (Fin x) (round64 (e * r)))"
  proof (cases "round64 (e * r)")
    case (Fin y)
    then have "2 * r \<le> x + y" using \<open>fle (Fin (2 * r)) (round64 (e * r))\<close> assms(7) by simp
    then show ?thesis using assms Fin round64_ge [of "2 * r" "x + y"] by simp
  qed (auto simp: fle_def)
  then have "(if flt (Fin (2 * r)) (fadd (Fin x) (round64 (e * r))) then Fin (2 * r)
      else fadd (Fin x) (round64 (e * r))) = Fin (2 * r)"
    by (cases "fadd (Fin x) (round64 (e * r))") (auto simp: fle_def)
  then show ?thesis using e30 assms by (simp add: ql_refill_def Let_def e split: if_split_asm)
qed

theorem idle_bucket_is_full_witness:
  "tokens (ql_refill (newQueryLimiter (Fin 32) (Fin 64)) (wall_time (100 * second))
     \<lparr>tokens = Fin 3, last = wall_time 0\<rparr>) = Fin 64"
proof -
  let ?l = "newQueryLimiter (Fin 32) (Fin 64)"
  have l: "ql_rate ?l = Fin 32" "ql_burst ?l = Fin (2 * 32)"
    by (simp_all add: newQueryLimiter_def fix_rate_def fix_burst_def)
  have r: "rnd (2 * 32) = 2 * 32" using rnd_of_int [of 64] by simp
  have "round64 2 = Fin 2" "round64 2000000000 = Fin 2000000000" "round64 8000000000 = Fin 8000000000"
    using round64_of_int [of 2] round64_of_int [of 2000000000] round64_of_int [of 8000000000] by simp_all
  moreover have "f_of_int second = Fin 1000000000"
    using round64_of_int [of second] by (simp add: f_of_int_def second_def)
  ultimately have i: "idle_for (Fin 32) (Fin (2 * 32)) < t_sub (wall_time (100 * second)) (wall_time 0)"
    by (simp add: idle_for_def Let_def t_sub_def second_def i64_def' trunc_def)
  have "tokens (ql_refill ?l (wall_time (100 * second)) \<lparr>tokens = Fin 3, last = wall_time 0\<rparr>) = ql_burst ?l"
    by (rule idle_bucket_is_full [OF l _ r, where x = 3]) (use max_finite_bound_ge i l in simp_all)
  then show ?thesis by (simp add: l)
qed

section \<open>The management limiters\<close>

definition ml_ok :: "mgmtLimiter \<Rightarrow> bool" where
  "ml_ok l = buckets_ok (ml_buckets l)"

lemma mgmt_charge_buckets:
  "\<exists>b. ml_buckets (fst (mgmt_charge l now k b0)) = put_key k b (ml_buckets l)"
  by (auto simp: mgmt_charge_def Let_def)

lemma mcp_allow_ok:
  assumes "ml_ok l"
  shows "ml_ok (fst (mcp_allow l now remote))"
proof (cases "ml_disabled l")
  case False
  let ?k = "remote_key remote"
  define l1 where "l1 = l\<lparr>ml_buckets := evict_idle (ml_rate l) (ml_burst l) now (ml_buckets l)\<rparr>"
  have l1: "buckets_ok (ml_buckets l1)" using assms by (simp add: l1_def ml_ok_def evict_idle_ok)
  show ?thesis
  proof (cases "map_of (ml_buckets l1) ?k")
    case None
    define l2 where "l2 = (if max_buckets \<le> length (ml_buckets l1) then mcp_evictOldestLocked l1 else l1)"
    have "buckets_ok (ml_buckets l2) \<and> length (ml_buckets l2) < max_buckets"
    proof (cases "max_buckets \<le> length (ml_buckets l1)")
      case True
      then have ne: "ml_buckets l1 \<noteq> []" by (auto simp: max_buckets_def)
      then obtain ok where "oldest_key (ml_buckets l1) = Some ok" using oldest_key_in by blast
      then show ?thesis
        using evict_oldest_room [OF l1 _ ne] True by (simp add: l2_def mcp_evictOldestLocked_def)
    qed (use l1 in \<open>simp add: l2_def\<close>)
    moreover obtain b where "ml_buckets (fst (mgmt_charge l2 now ?k \<lparr>tokens = ml_burst l1, last = now\<rparr>))
        = put_key ?k b (ml_buckets l2)"
      using mgmt_charge_buckets by blast
    ultimately show ?thesis
      using False None by (simp add: mcp_allow_def Let_def ml_ok_def put_key_ok_room flip: l1_def l2_def)
  next
    case (Some b)
    moreover obtain b' where "ml_buckets (fst (mgmt_charge l1 now ?k b)) = put_key ?k b' (ml_buckets l1)"
      using mgmt_charge_buckets by blast
    ultimately show ?thesis
      using False l1 by (simp add: mcp_allow_def Let_def ml_ok_def put_key_ok_present flip: l1_def)
  qed
qed (use assms in \<open>simp add: mcp_allow_def\<close>)

text \<open>The REST limiter has no such bound: every remote it has not seen adds a bucket.\<close>

lemma rest_allow_grows:
  assumes "\<not> ml_disabled l" "remote_key remote \<notin> fst ` set (ml_buckets l)"
    and "\<forall>(k, b) \<in> set (ml_buckets l). last b = now"
  shows "length (ml_buckets (fst (rest_allow l now remote))) = Suc (length (ml_buckets l))"
proof -
  have keep: "evict_idle (ml_rate l) (ml_burst l) now (ml_buckets l) = ml_buckets l"
    using assms(3) idle_for_ge [of "ml_rate l" "ml_burst l"]
    by (auto simp: evict_idle_def filter_id_conv second_def)
  have "map_of (ml_buckets l) (remote_key remote) = None"
    using assms(2) by (simp add: map_of_eq_None_iff)
  moreover obtain b where "ml_buckets (fst (mgmt_charge l now (remote_key remote) \<lparr>tokens = ml_burst l, last = now\<rparr>))
      = put_key (remote_key remote) b (ml_buckets l)"
    using mgmt_charge_buckets by blast
  ultimately show ?thesis
    using assms(1,2) by (simp add: rest_allow_def Let_def keep length_put_key)
qed

end
