(* ===== verification/NtpServer.thy ===== *)
theory NtpServer
  imports Snapshot QueryLog RateLimit
begin

text \<open>
  The package \<^verbatim>\<open>internal/ntpserver\<close>: the packet handler (handle.go) and the life of
  the UDP server (server.go). A packet is handled as one step; what the handler does to the
  outside, a datagram sent or a metric counted, is the list of effects it returns. The clock
  readings, the outcome of the query ring's lock and whether a socket is bound are inputs.
\<close>

section \<open>State\<close>

definition DefaultMaxInflight :: int where "DefaultMaxInflight = 1024"
definition LimitedRatePerSec :: float64 where "LimitedRatePerSec = Fin (1 / 2)"
definition limitedBurst :: float64 where "limitedBurst = Fin 1"

text \<open>A peer as \<^verbatim>\<open>net.Addr\<close>: nil, one with an \<^verbatim>\<open>AddrPort\<close>, or one with only a text form.\<close>

datatype net_addr = NilAddr | AddrPortAddr addr | TextAddr string

record counters =
  c_oversize :: nat
  c_short :: nat
  c_version :: nat
  c_mode :: nat
  c_zeroXmit :: nat
  c_allowlist :: nat
  c_admission :: nat
  c_ignore :: nat
  c_unmatched :: nat
  c_kod :: nat
  c_serve :: nat

definition no_counts :: counters where
  "no_counts = \<lparr>c_oversize = 0, c_short = 0, c_version = 0, c_mode = 0, c_zeroXmit = 0,
     c_allowlist = 0, c_admission = 0, c_ignore = 0, c_unmatched = 0, c_kod = 0, c_serve = 0\<rparr>"

text \<open>A socket is named by a number.\<close>

record Server =
  s_addr :: string
  s_maxInflight :: int
  s_maxUDPSize :: int
  s_log :: "Ring option"
  s_udp :: "nat option"
  s_bindAddr :: string
  s_started :: bool
  s_stopped :: bool
  s_canceled :: bool
  s_inflight :: nat
  s_global :: queryLimiter
  s_perIP :: queryLimiter
  s_limited :: queryLimiter
  s_counts :: counters
  s_filterNames :: "string list"

datatype effect =
    SendTo net_addr bytes
  | Count string "(string \<times> string) list"

definition server_New :: "string \<Rightarrow> int \<Rightarrow> int \<Rightarrow> Ring option \<Rightarrow> string + Server" where
  "server_New addr maxInflight maxUDPSize qlog =
     (if addr = [] then Inl ''ntpserver: Addr is required''
      else Inr \<lparr>s_addr = addr,
        s_maxInflight = (if maxInflight \<le> 0 then DefaultMaxInflight else maxInflight),
        s_maxUDPSize = (if maxUDPSize \<le> 0 then int MaxUDPSize else maxUDPSize),
        s_log = qlog, s_udp = None, s_bindAddr = addr, s_started = False, s_stopped = False,
        s_canceled = False, s_inflight = 0,
        s_global = newQueryLimiter (Fin 256) (Fin 512),
        s_perIP = newQueryLimiter (Fin 32) (Fin 64),
        s_limited = newQueryLimiter LimitedRatePerSec limitedBurst,
        s_counts = no_counts, s_filterNames = []\<rparr>)"

section \<open>Helpers of the handler\<close>

definition vnLabel :: "byte \<Rightarrow> string" where
  "vnLabel vn = (if vn = 3 then ''3'' else if vn = 4 then ''4'' else ''other'')"

definition observe :: "string \<Rightarrow> string \<Rightarrow> effect" where
  "observe decision version =
     Count ''labntp_packets_total'' [(''decision'', decision), (''version'', version)]"

definition observeFilter :: "Server \<Rightarrow> string \<Rightarrow> Server \<times> effect" where
  "observeFilter s name =
     (let label = (if name = [] then ''other'' else name) in
      if label \<in> set (s_filterNames s)
      then (s, Count ''labntp_filter_hits_total'' [(''filter'', label)])
      else if 128 \<le> length (s_filterNames s)
      then (s, Count ''labntp_filter_hits_total'' [(''filter'', ''other'')])
      else (s\<lparr>s_filterNames := s_filterNames s @ [label]\<rparr>,
            Count ''labntp_filter_hits_total'' [(''filter'', label)]))"

definition syncAdmission :: "Server \<Rightarrow> Snapshot \<Rightarrow> Server" where
  "syncAdmission s snap =
     s\<lparr>s_global := ql_setRate (s_global s) (f_of_int (sn_maxPacketsPerSec snap)) (f_of_int (wrap64 (sn_maxPacketsPerSec snap * 2))),
       s_perIP := ql_setRate (s_perIP s) (f_of_int (sn_maxPacketsPerIP snap)) (f_of_int (wrap64 (sn_maxPacketsPerIP snap * 2)))\<rparr>"

definition peerFromAddr :: "net_addr \<Rightarrow> addr" where
  "peerFromAddr a =
     (case a of
        NilAddr \<Rightarrow> InvalidAddr
      | AddrPortAddr ip \<Rightarrow> unmap ip
      | TextAddr t \<Rightarrow>
          (case split_host_port t of
             None \<Rightarrow> InvalidAddr
           | Some (host, _) \<Rightarrow>
               (case parse_addr host of None \<Rightarrow> InvalidAddr | Some ip \<Rightarrow> unmap ip)))"

text \<open>The MAC of a reply, appended when there is a key and it can be computed.\<close>

definition sign :: "Key option \<Rightarrow> bytes \<Rightarrow> bytes" where
  "sign key out =
     (case key of
        None \<Rightarrow> out
      | Some k \<Rightarrow>
          (case MAC (k_alg k) (k_secret k) out of
             Inl _ \<Rightarrow> out
           | Inr d \<Rightarrow> AppendMAC out (k_id k) d))"

definition log_entry :: "lock \<Rightarrow> Server \<Rightarrow> Entry \<Rightarrow> Server \<times> bool" where
  "log_entry lk s e =
     (case s_log s of
        None \<Rightarrow> (s, True)
      | Some r \<Rightarrow> let (r', ok) = TryInsert lk r e in (s\<lparr>s_log := Some r'\<rparr>, ok))"

text \<open>What a packet step reads from outside.\<close>

record inputs =
  i_recv :: gotime
  i_nowGlobal :: gotime
  i_nowPerIP :: gotime
  i_nowLimited :: gotime
  i_nowXmit :: gotime
  i_lock :: lock

definition send :: "Server \<Rightarrow> net_addr \<Rightarrow> bytes \<Rightarrow> effect list" where
  "send s a out = (case s_udp s of None \<Rightarrow> [] | Some _ \<Rightarrow> [SendTo a out])"

definition kod_entry :: "Packet \<Rightarrow> gotime \<Rightarrow> Entry" where
  "kod_entry req now = zero_entry\<lparr>e_mode := ''kod'', e_leap := LeapUnsync, e_vn := VN req, e_whenHost := now\<rparr>"

definition replyKoD :: "inputs \<Rightarrow> Server \<Rightarrow> Packet \<Rightarrow> net_addr \<Rightarrow> Key option \<Rightarrow> Server \<times> effect list" where
  "replyKoD i s req a key =
     (let s1 = s\<lparr>s_counts := (s_counts s)\<lparr>c_kod := c_kod (s_counts s) + 1\<rparr>\<rparr>;
          out = sign key (Encode (KoD req KissRATE));
          (s2, _) = log_entry (i_lock i) s1 (kod_entry req (i_nowXmit i))
      in (s2, observe ''kod'' (vnLabel (VN req)) # send s a out))"

text \<open>The reply a filter's view gives to a request, and the virtual transmit time.\<close>

definition reply_packet :: "inputs \<Rightarrow> View \<Rightarrow> Packet \<Rightarrow> Packet \<times> gotime" where
  "reply_packet i v p =
     (let jit = JitterDelta v (unix_sec (i_recv i));
          tRecvVirt = t_add (Served v (i_recv i)) jit;
          tXmitVirt = t_add (Served v (i_nowXmit i)) jit;
          ref = t_add (view_RefTime v tXmitVirt) jit
      in (\<lparr>LI = LeapLI (v_leap v), VN = VN p, Mode = ModeServer,
           Stratum = word_of_int (v_stratum v),
           Poll = ClampPoll v (Poll p),
           Precision = word_of_int (v_precision v),
           RootDelay = ShortFromDuration (v_rootDelay v),
           RootDisp = UShortFromDuration (v_rootDispersion v),
           RefID = EncodeRefID (v_refid v),
           RefTime = FromTime ref, OrgTime = XmtTime p,
           RecTime = FromTime tRecvVirt, XmtTime = FromTime tXmitVirt\<rparr>, tXmitVirt))"

definition serve :: "inputs \<Rightarrow> Server \<Rightarrow> Packet \<Rightarrow> net_addr \<Rightarrow> Key option \<Rightarrow> SnapFilter \<Rightarrow> Server \<times> effect list" where
  "serve i s p a key f =
     (let v = sf_view f;
          (reply, tXmitVirt) = reply_packet i v p;
          out = sign key (Encode reply);
          s1 = s\<lparr>s_counts := (s_counts s)\<lparr>c_serve := c_serve (s_counts s) + 1\<rparr>\<rparr>;
          (s2, hit) = observeFilter s1 (sf_name f);
          (s3, logged) = log_entry (i_lock i) s2
            \<lparr>e_clientIP = addr_string (peerFromAddr a), e_filter = sf_name f, e_servedTime = tXmitVirt,
             e_leap = v_leap v, e_mode = v_mode v, e_vn = VN p, e_whenHost = i_nowXmit i\<rparr>
      in (s3, send s a out @ [observe ''serve'' (vnLabel (VN p)), hit]
              @ (if logged then [] else [Count ''labntp_querylog_dropped_total'' []])))"

section \<open>The handler\<close>

text \<open>The key check: the header to parse and the key of the reply, or a silent drop.\<close>

definition check_mac :: "Snapshot \<Rightarrow> bytes \<Rightarrow> (bytes \<times> Key option) option" where
  "check_mac snap pkt =
     (case sn_keys snap of
        Some t \<Rightarrow>
          if t \<noteq> [] then
            (let (h, kid, dig, ok) = SplitMAC pkt in
             if \<not> ok \<or> length dig = 0 then None
             else case map_of t kid of
               None \<Rightarrow> None
             | Some k \<Rightarrow> if VerifyMAC (k_alg k) (k_secret k) pkt then Some (h, Some k) else None)
          else Some (if PacketSize < length pkt then take PacketSize pkt else pkt, None)
      | None \<Rightarrow> Some (if PacketSize < length pkt then take PacketSize pkt else pkt, None))"

text \<open>A drop that is counted: the counter, the metric, and nothing sent.\<close>

definition drop_with :: "(counters \<Rightarrow> counters) \<Rightarrow> string \<Rightarrow> string \<Rightarrow> Server \<Rightarrow> Server \<times> effect list" where
  "drop_with bump decision version s =
     (s\<lparr>s_counts := bump (s_counts s)\<rparr>, [observe decision version])"

text \<open>From the restriction on: ignore, limit, match, serve.\<close>

definition restrict_and_serve ::
  "inputs \<Rightarrow> Snapshot \<Rightarrow> Server \<Rightarrow> Packet \<Rightarrow> net_addr \<Rightarrow> Key option \<Rightarrow> Server \<times> effect list" where
  "restrict_and_serve i snap s p a key =
     (let ip = peerFromAddr a; vn = vnLabel (VN p);
          matched = (\<lambda>s. case Match snap ip of
            None \<Rightarrow> drop_with (\<lambda>c. c\<lparr>c_unmatched := c_unmatched c + 1\<rparr>) ''unmatched'' vn s
          | Some f \<Rightarrow> serve i s p a key f)
      in if sn_restrictDefault snap = RestrictIgnore
         then drop_with (\<lambda>c. c\<lparr>c_ignore := c_ignore c + 1\<rparr>) ''ignore'' vn s
         else if sn_restrictDefault snap = RestrictLimited then
           (let (lim, ok) = ql_allow (s_limited s) (i_nowLimited i) (addr_string ip);
                s' = s\<lparr>s_limited := lim\<rparr>
            in if ok then matched s'
               else if sn_kod snap then replyKoD i s' p a key
               else (s', [observe ''drop'' vn]))
         else matched s)"

text \<open>The two admission limiters; the second is asked only when the first allowed.\<close>

definition admit :: "inputs \<Rightarrow> Server \<Rightarrow> addr \<Rightarrow> Server \<times> bool" where
  "admit i s ip =
     (let (g, ok) = ql_allow (s_global s) (i_nowGlobal i) ''global'';
          s1 = s\<lparr>s_global := g\<rparr>
      in if \<not> ok then (s1, False)
         else let (q, ok') = ql_allow (s_perIP s1) (i_nowPerIP i) (addr_string ip) in
           (s1\<lparr>s_perIP := q\<rparr>, ok'))"

definition handle_packet ::
  "inputs \<Rightarrow> Snapshot \<Rightarrow> Server \<Rightarrow> Packet \<Rightarrow> net_addr \<Rightarrow> Key option \<Rightarrow> Server \<times> effect list" where
  "handle_packet i snap s p a key =
     (let vn = vnLabel (VN p); ip = peerFromAddr a in
      if \<not> VersionOK snap (VN p)
      then drop_with (\<lambda>c. c\<lparr>c_version := c_version c + 1\<rparr>) ''version'' vn s
      else if Mode p \<noteq> ModeClient
      then drop_with (\<lambda>c. c\<lparr>c_mode := c_mode c + 1\<rparr>) ''mode'' vn s
      else if Zero (XmtTime p)
      then drop_with (\<lambda>c. c\<lparr>c_zeroXmit := c_zeroXmit c + 1\<rparr>) ''zero_xmit'' vn s
      else if \<not> Allowed snap ip
      then drop_with (\<lambda>c. c\<lparr>c_allowlist := c_allowlist c + 1\<rparr>) ''allowlist'' vn s
      else let (s1, ok) = admit i s ip in
        if \<not> ok then drop_with (\<lambda>c. c\<lparr>c_admission := c_admission c + 1\<rparr>) ''admission'' vn s1
        else restrict_and_serve i snap s1 p a key)"

definition handle ::
  "inputs \<Rightarrow> Snapshot option \<Rightarrow> Server \<Rightarrow> bytes \<Rightarrow> net_addr \<Rightarrow> Server \<times> effect list" where
  "handle i active s pkt a =
     (if s_maxUDPSize s < int (length pkt)
      then drop_with (\<lambda>c. c\<lparr>c_oversize := c_oversize c + 1\<rparr>) ''oversize'' ''other'' s
      else if length pkt < PacketSize
      then drop_with (\<lambda>c. c\<lparr>c_short := c_short c + 1\<rparr>) ''short'' ''other'' s
      else case active of
        None \<Rightarrow> (s, [])
      | Some snap \<Rightarrow>
          let s1 = syncAdmission s snap in
          (case check_mac snap pkt of
             None \<Rightarrow> (s1, [])
           | Some (header, key) \<Rightarrow>
               (case Parse header of
                  Inl _ \<Rightarrow> drop_with (\<lambda>c. c\<lparr>c_short := c_short c + 1\<rparr>) ''short'' ''other'' s1
                | Inr p \<Rightarrow> handle_packet i snap s1 p a key)))"

section \<open>What is sent\<close>

fun is_send :: "effect \<Rightarrow> bool" where
  "is_send (SendTo _ _) = True"
| "is_send (Count _ _) = False"

definition sends :: "effect list \<Rightarrow> (net_addr \<times> bytes) list" where
  "sends es = concat (map (\<lambda>e. case e of SendTo a b \<Rightarrow> [(a, b)] | Count _ _ \<Rightarrow> []) es)"

lemma sends_simps [simp]:
  "sends [] = []"
  "sends (SendTo a b # es) = (a, b) # sends es"
  "sends (Count n l # es) = sends es"
  "sends (es @ fs) = sends es @ sends fs"
  by (simp_all add: sends_def)

lemma sends_send: "sends (send s a out) = (if s_udp s = None then [] else [(a, out)])"
  by (simp add: send_def split: option.splits)

lemma sends_observe [simp]: "sends (observe d v # es) = sends es"
  by (simp add: observe_def)

lemma sends_drop_with [simp]: "sends (snd (drop_with b d v s)) = []"
  by (simp add: drop_with_def)

lemma observeFilter_count: "observeFilter s n = (s', h) \<Longrightarrow> \<exists>m l. h = Count m l"
  by (auto simp: observeFilter_def Let_def split: if_splits)

lemma sends_serve:
  "sends (snd (serve i s p a key f)) =
     (if s_udp s = None then [] else [(a, sign key (Encode (fst (reply_packet i (sf_view f) p))))])"
  by (auto simp: serve_def sends_send Let_def split: prod.splits dest!: observeFilter_count)

lemma sends_replyKoD:
  "sends (snd (replyKoD i s p a key)) =
     (if s_udp s = None then [] else [(a, sign key (Encode (KoD p KissRATE)))])"
  by (simp add: replyKoD_def Let_def sends_send split: prod.splits)

text \<open>A reply is a signed encoding of a kiss of death or of the answer of a matching filter.\<close>

definition is_reply :: "inputs \<Rightarrow> Snapshot \<Rightarrow> addr \<Rightarrow> Packet \<Rightarrow> Packet \<Rightarrow> bool" where
  "is_reply i snap ip p q =
     ((sn_restrictDefault snap = RestrictLimited \<and> sn_kod snap \<and> q = KoD p KissRATE)
      \<or> (\<exists>f. Match snap ip = Some f \<and> q = fst (reply_packet i (sf_view f) p)))"

lemma sends_restrict:
  assumes "sends (snd (restrict_and_serve i snap s p a key)) = x # xs"
  shows "xs = []" "fst x = a" "sn_restrictDefault snap \<noteq> RestrictIgnore"
    "\<exists>q. is_reply i snap (peerFromAddr a) p q \<and> snd x = sign key (Encode q)"
proof -
  let ?ip = "peerFromAddr a"
  obtain lim ok where l: "ql_allow (s_limited s) (i_nowLimited i) (addr_string ?ip) = (lim, ok)"
    by (cases "ql_allow (s_limited s) (i_nowLimited i) (addr_string ?ip)")
  have "xs = [] \<and> fst x = a \<and> sn_restrictDefault snap \<noteq> RestrictIgnore
    \<and> (\<exists>q. is_reply i snap ?ip p q \<and> snd x = sign key (Encode q))"
    using assms
    by (auto simp: restrict_and_serve_def Let_def l sends_serve sends_replyKoD is_reply_def
        split: if_splits option.splits)
  then show "xs = []" "fst x = a" "sn_restrictDefault snap \<noteq> RestrictIgnore"
    "\<exists>q. is_reply i snap (peerFromAddr a) p q \<and> snd x = sign key (Encode q)"
    by blast+
qed

text \<open>Everything that has to hold for the handler to send anything.\<close>

definition answerable :: "Snapshot \<Rightarrow> addr \<Rightarrow> Packet \<Rightarrow> bool" where
  "answerable snap ip p = (VersionOK snap (VN p) \<and> Mode p = ModeClient \<and> \<not> Zero (XmtTime p)
     \<and> Allowed snap ip \<and> sn_restrictDefault snap \<noteq> RestrictIgnore)"

lemma handle_sends:
  assumes "sends (snd (handle i active s pkt a)) = x # xs"
  obtains snap hdr key p q where
    "xs = []" "fst x = a" "active = Some snap" "PacketSize \<le> length pkt"
    "check_mac snap pkt = Some (hdr, key)" "Parse hdr = Inr p" "answerable snap (peerFromAddr a) p"
    "is_reply i snap (peerFromAddr a) p q" "snd x = sign key (Encode q)"
proof -
  obtain snap where snap: "active = Some snap" "PacketSize \<le> length pkt"
    using assms by (cases active) (auto simp: handle_def split: if_splits)
  define s1 where "s1 = syncAdmission s snap"
  obtain hdr key where m: "check_mac snap pkt = Some (hdr, key)"
    using assms snap by (auto simp: handle_def Let_def split: if_splits option.splits prod.splits)
  obtain p where p: "Parse hdr = Inr p"
    using assms snap m by (auto simp: handle_def Let_def split: if_splits sum.splits)
  have h: "sends (snd (handle_packet i snap s1 p a key)) = x # xs"
    using assms snap m p by (auto simp: handle_def Let_def s1_def split: if_splits)
  obtain s2 ok where ad: "admit i s1 (peerFromAddr a) = (s2, ok)" by (cases "admit i s1 (peerFromAddr a)")
  have c: "VersionOK snap (VN p)" "Mode p = ModeClient" "\<not> Zero (XmtTime p)" "Allowed snap (peerFromAddr a)"
    and r: "sends (snd (restrict_and_serve i snap s2 p a key)) = x # xs"
    using h by (auto simp: handle_packet_def Let_def ad split: if_splits)
  obtain q where q: "is_reply i snap (peerFromAddr a) p q" "snd x = sign key (Encode q)"
    using sends_restrict(4) [OF r] by blast
  show thesis
    using sends_restrict(1-3) [OF r] snap m p c q by (intro that) (auto simp: answerable_def)
qed

text \<open>A packet is answered at most once, to the address it came from.\<close>

theorem handle_one_reply:
  "length (sends (snd (handle i active s pkt a))) \<le> 1
   \<and> set (map fst (sends (snd (handle i active s pkt a)))) \<subseteq> {a}"
proof (cases "sends (snd (handle i active s pkt a))")
  case (Cons x xs)
  then obtain "xs = []" "fst x = a" by (rule handle_sends)
  then show ?thesis using Cons by simp
qed simp

section \<open>The reply and the packet it answers\<close>

lemma check_mac_header:
  assumes "check_mac snap pkt = Some (hdr, key)" "PacketSize \<le> length pkt"
  shows "hdr = take PacketSize pkt"
proof -
  have t: "take PacketSize pkt = pkt" if "\<not> PacketSize < length pkt" using that assms(2) by simp
  have s: "hdr' = take PacketSize pkt" if "SplitMAC pkt = (hdr', k, d, ok)" for hdr' k d ok
    using SplitMAC_header [OF that assms(2)] .
  show ?thesis
    using assms(1) t s
    by (auto simp: check_mac_def Let_def split: option.splits if_splits prod.splits)
qed

lemma check_mac_key:
  assumes "check_mac snap pkt = Some (hdr, Some k)"
  shows "VerifyMAC (k_alg k) (k_secret k) pkt"
    "\<exists>t kid. sn_keys snap = Some t \<and> map_of t kid = Some k"
  using assms by (auto simp: check_mac_def Let_def split: option.splits if_splits prod.splits)

lemma check_mac_nokey:
  assumes "check_mac snap pkt = Some (hdr, None)"
  shows "sn_keys snap = None \<or> sn_keys snap = Some []"
  using assms by (auto simp: check_mac_def Let_def split: option.splits if_splits prod.splits)

lemma sign_None [simp]: "sign None out = out"
  by (simp add: sign_def)

lemma sign_key:
  assumes "VerifyMAC (k_alg k) (k_secret k) pkt"
  obtains d where "MAC (k_alg k) (k_secret k) (Encode q) = Inr d"
    "sign (Some k) (Encode q) = AppendMAC (Encode q) (k_id k) d"
    "length (sign (Some k) (Encode q)) = length pkt"
proof -
  obtain hdr kid d0 where p: "length hdr = PacketSize" "MAC (k_alg k) (k_secret k) hdr = Inr d0"
    "pkt = AppendMAC hdr kid d0"
    using assms by (auto simp: VerifyMAC_char)
  then obtain h where h: "newHash (k_alg k) = Some h" by (auto simp: MAC_def split: option.splits)
  then have m: "MAC (k_alg k) (k_secret k) (Encode q) = Inr (h (k_secret k @ take PacketSize (Encode q)))"
    by (simp add: MAC_def)
  let ?d = "h (k_secret k @ take PacketSize (Encode q))"
  have "length ?d = length d0" using MAC_length(1) [OF m] MAC_length(1) [OF p(2)] by simp
  then show thesis using m p by (intro that) (simp_all add: sign_def)
qed

lemma sign_prefix: "\<exists>tl. sign key (Encode q) = Encode q @ tl"
  by (auto simp: sign_def AppendMAC_def split: option.splits sum.splits)

lemma LeapLI_small: "LeapLI l < 4"
  by (simp add: LeapLI_def LIInsert_def LIDelete_def LIUnsync_def LINone_def)

lemma reply_wf:
  assumes "is_reply i snap ip p q" "wf_packet p"
  shows "wf_packet q" "Mode q = ModeServer" "VN q = VN p" "OrgTime q = XmtTime p"
  using assms LeapLI_small
  by (auto simp: is_reply_def reply_packet_def Let_def KoD_def wf_packet_def ModeServer_def LIUnsync_def)

text \<open>C7: the server never amplifies: a reply is not longer than the packet it answers, for every
  configuration of keys and digests.\<close>

theorem handle_no_amplification:
  "list_all (\<lambda>x. length (snd x) \<le> length pkt) (sends (snd (handle i active s pkt a)))"
proof (cases "sends (snd (handle i active s pkt a))")
  case (Cons x xs)
  then obtain snap hdr key p q where h: "xs = []" "PacketSize \<le> length pkt"
    "check_mac snap pkt = Some (hdr, key)" "snd x = sign key (Encode q)"
    by (rule handle_sends)
  have "length (snd x) \<le> length pkt"
  proof (cases key)
    case None
    then show ?thesis using h by simp
  next
    case (Some k)
    obtain d where "length (sign (Some k) (Encode q)) = length pkt"
      using check_mac_key(1) h(3) Some sign_key by blast
    then show ?thesis using h Some by simp
  qed
  then show ?thesis using Cons h by simp
qed simp

lemma handle_reply:
  assumes "sends (snd (handle i active s pkt a)) = x # xs"
  obtains snap p q where "xs = []" "active = Some snap" "Parse pkt = Inr p" "Parse (snd x) = Inr q"
    "answerable snap (peerFromAddr a) p" "is_reply i snap (peerFromAddr a) p q" "wf_packet p"
proof -
  obtain snap hdr key p q where h: "xs = []" "active = Some snap" "PacketSize \<le> length pkt"
    "check_mac snap pkt = Some (hdr, key)" "Parse hdr = Inr p" "answerable snap (peerFromAddr a) p"
    "is_reply i snap (peerFromAddr a) p q" "snd x = sign key (Encode q)"
    using assms by (rule handle_sends)
  have wf: "wf_packet p" using h(5) by (rule Parse_wf)
  have "hdr = take PacketSize pkt" using check_mac_header h(3,4) by blast
  then have e: "Encode p @ drop PacketSize pkt = pkt"
    using encode_parse [OF h(5)] h(3) by simp
  have pp: "Parse pkt = Inr p" using parse_encode [OF wf, of "drop PacketSize pkt"] unfolding e .
  obtain tl where "snd x = Encode q @ tl" using sign_prefix h(8) by metis
  then have "Parse (snd x) = Inr q" using parse_encode [OF reply_wf(1) [OF h(7) wf]] by simp
  then show thesis using h pp wf by (intro that)
qed


text \<open>A reply carries the origin timestamp and the version of the request it answers and is in
  server mode.\<close>

theorem handle_echo:
  "list_all (\<lambda>x. \<exists>p q. Parse pkt = Inr p \<and> Parse (snd x) = Inr q
       \<and> Mode q = ModeServer \<and> VN q = VN p \<and> OrgTime q = XmtTime p)
     (sends (snd (handle i active s pkt a)))"
proof (cases "sends (snd (handle i active s pkt a))")
  case (Cons x xs)
  then obtain snap p q where h: "xs = []" "Parse pkt = Inr p" "Parse (snd x) = Inr q"
    "is_reply i snap (peerFromAddr a) p q" "wf_packet p"
    by (rule handle_reply)
  then show ?thesis using Cons reply_wf [OF h(4,5)] by auto
qed simp

text \<open>C6: two servers never talk to each other: no server, in any state and configuration, answers a
  packet that a server sent.\<close>

theorem handle_no_loop:
  "list_all (\<lambda>x. sends (snd (handle i' active' s' (snd x) b)) = [])
     (sends (snd (handle i active s pkt a)))"
proof (cases "sends (snd (handle i active s pkt a))")
  case (Cons x xs)
  then obtain snap p q where h: "xs = []" "Parse (snd x) = Inr q"
    "is_reply i snap (peerFromAddr a) p q" "wf_packet p"
    by (rule handle_reply)
  have m: "Mode q = ModeServer" using h(3,4) by (rule reply_wf(2))
  have "sends (snd (handle i' active' s' (snd x) b)) = []"
  proof (cases "sends (snd (handle i' active' s' (snd x) b))")
    case (Cons y ys)
    then obtain snap' p' where "Parse (snd x) = Inr p'" "answerable snap' (peerFromAddr b) p'"
      by (rule handle_reply)
    then show ?thesis using h(2) m by (simp add: answerable_def ModeServer_def ModeClient_def)
  qed
  then show ?thesis using Cons h(1) by simp
qed simp

text \<open>With keys configured, both sides of an exchange are authentic under one of them.\<close>

definition authentic :: "Snapshot option \<Rightarrow> bytes \<Rightarrow> bytes \<Rightarrow> bool" where
  "authentic active pkt out =
     (case active of
        None \<Rightarrow> False
      | Some snap \<Rightarrow>
          (sn_keys snap = None \<or> sn_keys snap = Some []
           \<or> (\<exists>t kid k. sn_keys snap = Some t \<and> map_of t kid = Some k
                \<and> VerifyMAC (k_alg k) (k_secret k) pkt \<and> VerifyMAC (k_alg k) (k_secret k) out)))"

text \<open>C3: when a key table is loaded, only packets whose MAC verifies under one of its keys are
  answered, and the reply verifies under that same key.\<close>

theorem handle_authentic:
  "list_all (\<lambda>x. authentic active pkt (snd x)) (sends (snd (handle i active s pkt a)))"
proof (cases "sends (snd (handle i active s pkt a))")
  case (Cons x xs)
  then obtain snap hdr key q where h: "xs = []" "active = Some snap"
    "check_mac snap pkt = Some (hdr, key)" "snd x = sign key (Encode q)"
    by (rule handle_sends)
  have "authentic active pkt (snd x)"
  proof (cases key)
    case None
    have "sn_keys snap = None \<or> sn_keys snap = Some []"
      using check_mac_nokey h(3) None by blast
    then show ?thesis using h(2) by (auto simp: authentic_def)
  next
    case (Some k)
    note v = check_mac_key [OF h(3) [unfolded Some]]
    obtain d where d: "MAC (k_alg k) (k_secret k) (Encode q) = Inr d"
      "sign (Some k) (Encode q) = AppendMAC (Encode q) (k_id k) d"
      using sign_key [OF v(1)] by metis
    then have "VerifyMAC (k_alg k) (k_secret k) (snd x)"
      unfolding VerifyMAC_char h(4) Some by (metis length_Encode)
    then show ?thesis using h(2) v by (auto simp: authentic_def)
  qed
  then show ?thesis using Cons h(1) by simp
qed simp

section \<open>Accounting\<close>

definition total_counts :: "counters \<Rightarrow> nat" where
  "total_counts c = c_oversize c + c_short c + c_version c + c_mode c + c_zeroXmit c + c_allowlist c
     + c_admission c + c_ignore c + c_unmatched c + c_kod c + c_serve c"

definition silent :: "Server \<Rightarrow> Server \<Rightarrow> bool" where
  "silent s s' = (s_counts s' = s_counts s)"

lemma admit_counts: "s_counts (fst (admit i s ip)) = s_counts s"
  by (simp add: admit_def Let_def split: prod.splits)

lemma log_entry_counts: "log_entry lk s e = (s', ok) \<Longrightarrow> s_counts s' = s_counts s"
  by (auto simp: log_entry_def Let_def split: prod.splits option.splits)

lemma observeFilter_counts: "observeFilter s n = (s', h) \<Longrightarrow> s_counts s' = s_counts s"
  by (auto simp: observeFilter_def Let_def split: if_splits)

lemma serve_counts:
  "s_counts (fst (serve i s p a key f)) = (s_counts s)\<lparr>c_serve := c_serve (s_counts s) + 1\<rparr>"
  by (auto simp: serve_def Let_def split: prod.splits dest!: log_entry_counts observeFilter_counts)

lemma replyKoD_counts:
  "s_counts (fst (replyKoD i s p a key)) = (s_counts s)\<lparr>c_kod := c_kod (s_counts s) + 1\<rparr>"
  by (auto simp: replyKoD_def Let_def split: prod.splits dest!: log_entry_counts)

lemma drop_counts: "s_counts (fst (drop_with f d v s)) = f (s_counts s)"
  by (simp add: drop_with_def)

text \<open>A packet metric that stands for a counter.\<close>

definition counted :: "effect \<Rightarrow> bool" where
  "counted e = (case e of Count n l \<Rightarrow> n = ''labntp_packets_total'' \<and> hd l \<noteq> (''decision'', ''drop'') | _ \<Rightarrow> False)"

definition tally :: "Server \<times> effect list \<Rightarrow> Server \<Rightarrow> bool" where
  "tally r s = (length (filter counted (snd r)) \<le> 1
     \<and> total_counts (s_counts (fst r)) = total_counts (s_counts s) + length (filter counted (snd r)))"

lemma counted_simps [simp]:
  "counted (SendTo a b) = False"
  "counted (observe d v) = (d \<noteq> ''drop'')"
  "counted (Count ''labntp_querylog_dropped_total'' l) = False"
  by (simp_all add: counted_def observe_def)

lemma filter_send [simp]: "filter counted (send s a out) = []"
  by (simp add: send_def split: option.splits)

lemma tally_drop_with:
  assumes "d \<noteq> ''drop''" "total_counts (f (s_counts s')) = total_counts (s_counts s) + 1"
  shows "tally (drop_with f d v s') s"
  using assms by (simp add: tally_def drop_with_def)

lemma observeFilter_not_counted: "observeFilter s n = (s', h) \<Longrightarrow> \<not> counted h"
  by (auto simp: observeFilter_def Let_def counted_def split: if_splits)

lemma serve_effects: "length (filter counted (snd (serve i s p a key f))) = 1"
  by (auto simp: serve_def Let_def split: prod.splits dest!: observeFilter_not_counted)

lemma replyKoD_effects: "length (filter counted (snd (replyKoD i s p a key))) = 1"
  by (auto simp: replyKoD_def Let_def split: prod.splits)

lemma tally_restrict:
  assumes "s_counts s' = s_counts s"
  shows "tally (restrict_and_serve i snap s' p a key) s"
proof -
  have m: "tally (case Match snap ip of None \<Rightarrow> drop_with (\<lambda>c. c\<lparr>c_unmatched := c_unmatched c + 1\<rparr>) ''unmatched'' vn t
      | Some f \<Rightarrow> serve i t p a key f) s" if "s_counts t = s_counts s" for t ip vn
  proof (cases "Match snap ip")
    case None
    then show ?thesis using that by (simp add: tally_drop_with total_counts_def)
  next
    case (Some f)
    then show ?thesis using that serve_effects [of i t p a key f]
      by (simp add: tally_def serve_counts total_counts_def)
  qed
  have k: "tally (replyKoD i t p a key) s" if "s_counts t = s_counts s" for t
    using that replyKoD_effects [of i t p a key] by (simp add: tally_def replyKoD_counts total_counts_def)
  have d: "tally (t, [observe ''drop'' vn]) s" if "s_counts t = s_counts s" for t vn
    using that by (simp add: tally_def)
  have ig: "tally (drop_with (\<lambda>c. c\<lparr>c_ignore := c_ignore c + 1\<rparr>) ''ignore'' vn s') s" for vn
    using assms by (simp add: tally_drop_with total_counts_def)
  show ?thesis
    using m k d ig assms by (simp add: restrict_and_serve_def Let_def split: prod.splits)
qed


end
