(* ===== verification/NtpServerLife.thy ===== *)
theory NtpServerLife
  imports NtpServer
begin

text \<open>
  The life of the UDP server (server.go): start, rebind, shutdown, and the loop that reads
  packets and starts a handler for each while fewer than \<^verbatim>\<open>MaxInflight\<close> run. Sockets
  are numbers; whether \<^verbatim>\<open>net.ListenPacket\<close> succeeds, and with which new socket, is an
  argument. The loop is a step relation between its iterations and the handlers it started,
  and the rebind is one between its two critical sections and the other operations.
\<close>

section \<open>Operations\<close>

definition Bound :: "Server \<Rightarrow> bool" where
  "Bound s = (s_udp s \<noteq> None \<and> s_started s \<and> \<not> s_stopped s)"

definition Start :: "Server \<Rightarrow> nat option \<Rightarrow> Server \<times> string option" where
  "Start s lsn =
     (if s_started s then (s, Some ''ntpserver: already started'')
      else if s_stopped s then (s, Some ''ntpserver: start after shutdown'')
      else case lsn of
        None \<Rightarrow> (s, Some ''ntpserver: udp listen'')
      | Some c \<Rightarrow> (s\<lparr>s_udp := Some c, s_bindAddr := s_addr s, s_started := True\<rparr>, None))"

text \<open>The first critical section of \<^verbatim>\<open>Rebind\<close>: an error, nothing to do, or the old socket.\<close>

datatype rebind_check = RebindError string | RebindNoop | RebindFrom "nat option"

definition rebind_check :: "Server \<Rightarrow> string \<Rightarrow> rebind_check" where
  "rebind_check s addr =
     (if \<not> s_started s \<or> s_stopped s then RebindError ''ntpserver: not running''
      else if addr = s_bindAddr s \<and> s_udp s \<noteq> None then RebindNoop
      else RebindFrom (s_udp s))"

text \<open>The second one: install the new socket.\<close>

definition rebind_install :: "Server \<Rightarrow> string \<Rightarrow> nat \<Rightarrow> Server" where
  "rebind_install s addr c = s\<lparr>s_udp := Some c, s_bindAddr := addr, s_addr := addr\<rparr>"

text \<open>The whole call when nothing runs in between; the last component are the sockets it closes.\<close>

definition Rebind :: "Server \<Rightarrow> string \<Rightarrow> nat option \<Rightarrow> Server \<times> string option \<times> nat list" where
  "Rebind s addr lsn =
     (case rebind_check s addr of
        RebindError e \<Rightarrow> (s, Some e, [])
      | RebindNoop \<Rightarrow> (s, None, [])
      | RebindFrom old \<Rightarrow>
          (case lsn of
             None \<Rightarrow> (s, Some ''ntpserver: rebind'', [])
           | Some c \<Rightarrow> (rebind_install s addr c, None, (case old of None \<Rightarrow> [] | Some o' \<Rightarrow> [o']))))"

definition Shutdown :: "Server \<Rightarrow> Server \<times> nat list" where
  "Shutdown s =
     (if s_stopped s then (s, [])
      else (s\<lparr>s_stopped := True, s_canceled := True\<rparr>,
            (case s_udp s of None \<Rightarrow> [] | Some c \<Rightarrow> [c])))"

definition acquireInflight :: "Server \<Rightarrow> Server \<times> bool" where
  "acquireInflight s =
     (if int (s_inflight s) < s_maxInflight s then (s\<lparr>s_inflight := s_inflight s + 1\<rparr>, True) else (s, False))"

definition releaseInflight :: "Server \<Rightarrow> Server" where
  "releaseInflight s = (if 0 < s_inflight s then s\<lparr>s_inflight := s_inflight s - 1\<rparr> else s)"

definition stoppedOrCanceled :: "Server \<Rightarrow> bool" where
  "stoppedOrCanceled s = (s_stopped s \<or> s_canceled s)"

section \<open>The read loop and its handlers\<close>

text \<open>A started handler waits with its packet, cut to the read buffer, its peer and its receive time.\<close>

type_synonym job = "bytes \<times> net_addr \<times> gotime"

definition read_packet :: "Server \<Rightarrow> bytes \<Rightarrow> bytes" where
  "read_packet s datagram = take (nat (s_maxUDPSize s + 1)) datagram"

inductive serve_step :: "Server \<times> job list \<Rightarrow> Server \<times> job list \<Rightarrow> bool" where
  accept: "\<lbrakk>\<not> s_canceled s; s_udp s \<noteq> None; acquireInflight s = (s', True)\<rbrakk>
    \<Longrightarrow> serve_step (s, js) (s', js @ [(read_packet s d, a, t)])"
| overload: "\<lbrakk>\<not> s_canceled s; s_udp s \<noteq> None; acquireInflight s = (s', False)\<rbrakk>
    \<Longrightarrow> serve_step (s, js) (s'\<lparr>s_counts := (s_counts s')\<lparr>c_admission := c_admission (s_counts s') + 1\<rparr>\<rparr>, js)"
| finish: "\<lbrakk>js = pre @ (pkt, a, t) # post; i_recv i = t; handle i active s pkt a = (s', es)\<rbrakk>
    \<Longrightarrow> serve_step (s, js) (releaseInflight s', pre @ post)"

inductive serve_reach :: "Server \<times> job list \<Rightarrow> Server \<times> job list \<Rightarrow> bool" for c0 where
  here: "serve_reach c0 c0"
| more: "serve_reach c0 c \<Longrightarrow> serve_step c c' \<Longrightarrow> serve_reach c0 c'"

inductive_cases serve_stepE: "serve_step (s, js) c"

definition same_limits :: "Server \<Rightarrow> Server \<Rightarrow> bool" where
  "same_limits s s' = (s_inflight s' = s_inflight s \<and> s_maxInflight s' = s_maxInflight s)"

lemma log_entry_limits: "log_entry lk s e = (s', ok) \<Longrightarrow> same_limits s s'"
  by (auto simp: log_entry_def same_limits_def Let_def split: prod.splits option.splits)

lemma observeFilter_limits: "observeFilter s n = (s', h) \<Longrightarrow> same_limits s s'"
  by (auto simp: observeFilter_def same_limits_def Let_def split: if_splits)

lemma same_limits_trans: "same_limits s t \<Longrightarrow> same_limits t u \<Longrightarrow> same_limits s u"
  by (simp add: same_limits_def)

lemma serve_limits: "same_limits s (fst (serve i s p a key f))"
  by (auto simp: serve_def Let_def same_limits_def split: prod.splits
      dest!: log_entry_limits observeFilter_limits)

lemma replyKoD_limits: "same_limits s (fst (replyKoD i s p a key))"
  by (auto simp: replyKoD_def Let_def same_limits_def split: prod.splits dest!: log_entry_limits)

lemma restrict_limits: "same_limits s (fst (restrict_and_serve i snap s p a key))"
proof -
  have m: "same_limits s (fst (case Match snap ip of None \<Rightarrow> drop_with f d v t | Some g \<Rightarrow> serve i t p a key g))"
    if "same_limits s t" for t ip f d v
    using that same_limits_trans [OF that serve_limits]
    by (auto simp: drop_with_def same_limits_def split: option.splits)
  have k: "same_limits s (fst (replyKoD i t p a key))" if "same_limits s t" for t
    using that replyKoD_limits by (rule same_limits_trans)
  have t: "same_limits s (s\<lparr>s_limited := l\<rparr>)" "same_limits s s" for l by (simp_all add: same_limits_def)
  show ?thesis
    using m k t by (simp add: restrict_and_serve_def Let_def drop_with_def same_limits_def split: prod.splits)
qed

lemma handle_limits: "same_limits s (fst (handle i active s pkt a))"
proof -
  have d: "same_limits s (fst (drop_with f x v t))" if "same_limits s t" for f x v t
    using that by (simp add: drop_with_def same_limits_def)
  have hp: "same_limits s (fst (handle_packet i snap t p a key))" if "same_limits s t" for snap t p key
  proof -
    obtain s2 ok where ad: "admit i t (peerFromAddr a) = (s2, ok)" by (cases "admit i t (peerFromAddr a)")
    then have s2: "same_limits s s2"
      using that by (auto simp: admit_def same_limits_def Let_def split: prod.splits if_splits)
    then show ?thesis
      using that same_limits_trans [OF s2 restrict_limits] d by (simp add: handle_packet_def Let_def ad)
  qed
  have sy: "same_limits s (syncAdmission s snap)" "same_limits s s" for snap
    by (simp_all add: syncAdmission_def same_limits_def)
  show ?thesis
    using hp d sy by (simp add: handle_def Let_def split: option.splits sum.splits prod.splits)
qed

definition inflight_ok :: "Server \<times> job list \<Rightarrow> bool" where
  "inflight_ok c = (case c of (s, js) \<Rightarrow> s_inflight s = length js \<and> int (length js) \<le> s_maxInflight s)"

lemma serve_step_inflight: "serve_step c c' \<Longrightarrow> inflight_ok c \<Longrightarrow> inflight_ok c'"
proof (induction rule: serve_step.induct)
  case (accept s s' js d a t)
  then show ?case by (auto simp: inflight_ok_def acquireInflight_def split: if_splits)
next
  case (overload s s' js)
  then show ?case by (auto simp: inflight_ok_def acquireInflight_def split: if_splits)
next
  case (finish js pre pkt a t post i active s s' es)
  then have "same_limits s s'" using handle_limits [of s i active pkt a] by simp
  then show ?case using finish by (auto simp: inflight_ok_def releaseInflight_def same_limits_def)
qed

text \<open>Whatever packets arrive and however the handlers interleave, the number of handlers that
  run is the count the server keeps, and never exceeds \<open>MaxInflight\<close>.\<close>

theorem inflight_bounded:
  assumes "serve_reach (s0, []) (s, js)" "s_inflight s0 = 0" "0 \<le> s_maxInflight s0"
  shows "s_inflight s = length js \<and> int (length js) \<le> s_maxInflight s"
proof -
  have "inflight_ok (s0, [])" using assms(2,3) by (simp add: inflight_ok_def)
  moreover have "serve_reach (s0, []) c \<Longrightarrow> inflight_ok (s0, []) \<Longrightarrow> inflight_ok c" for c
    by (induction rule: serve_reach.induct) (auto intro: serve_step_inflight)
  ultimately show ?thesis using assms(1) by (fastforce simp: inflight_ok_def)
qed

theorem inflight_bounded_witness:
  "s_inflight (projr (server_New '':123'' 0 0 None)) = length ([] :: job list)
   \<and> int (length ([] :: job list)) \<le> s_maxInflight (projr (server_New '':123'' 0 0 None))"
  by (rule inflight_bounded [OF serve_reach.here]) (simp_all add: server_New_def DefaultMaxInflight_def)

section \<open>Sockets\<close>

text \<open>The server, the sockets that are open, and the rebinds between their two critical sections.\<close>

record life =
  lf_server :: Server
  lf_open :: "nat list"
  lf_pending :: "(string \<times> nat option) list"

definition close_all :: "nat list \<Rightarrow> nat list \<Rightarrow> nat list" where
  "close_all cs os = filter (\<lambda>c. c \<notin> set cs) os"

text \<open>One call at a time: every operation runs to its end before the next one starts.\<close>

inductive call_step :: "life \<Rightarrow> life \<Rightarrow> bool" where
  start: "\<lbrakk>c \<notin> set (lf_open l); Start (lf_server l) (Some c) = (s', None)\<rbrakk>
    \<Longrightarrow> call_step l (l\<lparr>lf_server := s', lf_open := c # lf_open l\<rparr>)"
| rebind: "\<lbrakk>c \<notin> set (lf_open l); rebind_check (lf_server l) addr = RebindFrom old;
      Rebind (lf_server l) addr (Some c) = (s', None, cs)\<rbrakk>
    \<Longrightarrow> call_step l (l\<lparr>lf_server := s', lf_open := c # close_all cs (lf_open l)\<rparr>)"
| shutdown: "Shutdown (lf_server l) = (s', cs)
    \<Longrightarrow> call_step l (l\<lparr>lf_server := s', lf_open := close_all cs (lf_open l)\<rparr>)"

text \<open>Calls that interleave: another call may run between the two sections of a rebind.\<close>

inductive race_step :: "life \<Rightarrow> life \<Rightarrow> bool" where
  call: "call_step l l' \<Longrightarrow> race_step l l'"
| enter: "rebind_check (lf_server l) addr = RebindFrom old
    \<Longrightarrow> race_step l (l\<lparr>lf_pending := (addr, old) # lf_pending l\<rparr>)"
| leave: "\<lbrakk>lf_pending l = pre @ (addr, old) # post; c \<notin> set (lf_open l)\<rbrakk>
    \<Longrightarrow> race_step l (l\<lparr>lf_server := rebind_install (lf_server l) addr c,
          lf_open := c # close_all (case old of None \<Rightarrow> [] | Some o' \<Rightarrow> [o']) (lf_open l),
          lf_pending := pre @ post\<rparr>)"

definition fresh_life :: "Server \<Rightarrow> life" where
  "fresh_life s = \<lparr>lf_server = s, lf_open = [], lf_pending = []\<rparr>"

definition sockets_ok :: "life \<Rightarrow> bool" where
  "sockets_ok l =
     (let s = lf_server l in
      if s_stopped s then lf_open l = []
      else case s_udp s of None \<Rightarrow> lf_open l = [] | Some c \<Rightarrow> lf_open l = [c])"

lemma call_step_sockets: "call_step l l' \<Longrightarrow> sockets_ok l \<Longrightarrow> s_started (lf_server l) = (s_udp (lf_server l) \<noteq> None)
   \<Longrightarrow> sockets_ok l' \<and> s_started (lf_server l') = (s_udp (lf_server l') \<noteq> None)"
proof (induction rule: call_step.induct)
  case (start c l s')
  then show ?case by (auto simp: Start_def sockets_ok_def Let_def split: if_splits option.splits)
next
  case (rebind c l addr old s' cs)
  then show ?case
    by (auto simp: Rebind_def rebind_check_def rebind_install_def sockets_ok_def close_all_def Let_def
        split: if_splits option.splits) (metis list.set_intros(1))
next
  case (shutdown l s' cs)
  then show ?case
    by (auto simp: Shutdown_def sockets_ok_def close_all_def Let_def split: if_splits option.splits)
qed



text \<open>A rebind that overlaps a shutdown leaks: there is a run in which the server is shut down and
  the socket the rebind opened stays open and installed.\<close>

theorem rebind_shutdown_leak:
  "\<exists>l. race_step\<^sup>*\<^sup>* (fresh_life (projr (server_New '':123'' 0 0 None))) l
     \<and> s_stopped (lf_server l) \<and> lf_open l = [2] \<and> s_udp (lf_server l) = Some 2"
proof -
  define s0 where "s0 = projr (server_New '':123'' 0 0 None)"
  define s1 where "s1 = fst (Start s0 (Some 1))"
  define s2 where "s2 = fst (Shutdown s1)"
  have i: "\<not> s_started s0" "\<not> s_stopped s0" "s_addr s0 = '':123''"
    by (simp_all add: s0_def server_New_def)
  let ?l1 = "(fresh_life s0)\<lparr>lf_server := s1, lf_open := [1]\<rparr>"
  let ?l2 = "?l1\<lparr>lf_pending := [('':124'', Some 1)]\<rparr>"
  let ?l3 = "?l2\<lparr>lf_server := s2, lf_open := []\<rparr>"
  let ?l4 = "?l3\<lparr>lf_server := rebind_install s2 '':124'' 2, lf_open := [2], lf_pending := []\<rparr>"
  have a: "race_step (fresh_life s0) ?l1"
    using call_step.start [of 1 "fresh_life s0" s1] i
    by (intro race_step.call) (simp add: fresh_life_def Start_def s1_def)
  have "rebind_check s1 '':124'' = RebindFrom (Some 1)"
    using i by (simp add: s1_def Start_def rebind_check_def)
  then have b: "race_step ?l1 ?l2"
    using race_step.enter [of ?l1 "'':124''" "Some 1"] by (simp add: fresh_life_def)
  have c: "race_step ?l2 ?l3"
    using call_step.shutdown [of ?l2 s2 "[1]"] i
    by (intro race_step.call) (simp add: s2_def s1_def Start_def Shutdown_def close_all_def fresh_life_def)
  have d: "race_step ?l3 ?l4"
    using race_step.leave [of ?l3 "[]" "'':124''" "Some 1" "[]" 2]
    by (simp add: close_all_def fresh_life_def)
  have "race_step\<^sup>*\<^sup>* (fresh_life s0) ?l4"
    using a b c d by (meson converse_rtranclp_into_rtranclp rtranclp.rtrancl_refl)
  moreover have "s_stopped (lf_server ?l4) \<and> lf_open ?l4 = [2] \<and> s_udp (lf_server ?l4) = Some 2"
    using i by (simp add: s2_def s1_def Start_def Shutdown_def rebind_install_def)
  ultimately show ?thesis unfolding s0_def by blast
qed

end
