(* ===== verification/Json.thy ===== *)
theory Json
  imports Model "HOL-Library.List_Lexorder"
begin

text \<open>
  The part of encoding/json the program uses: the tree a document decodes to with
  \<^verbatim>\<open>UseNumber\<close>, the text json.Marshal writes for it (map keys sorted, HTML characters
  escaped, invalid UTF-8 replaced), the parser of the decoder, and the conversions between
  number literals and integers or doubles. A string is its bytes. An object is an association
  list with one entry per key; its order stands for the order in which Go's range visits the map.
\<close>

section \<open>Trees\<close>

text \<open>
  \<open>JNum\<close> is a json.Number; \<open>JInt\<close> and \<open>JFloat\<close> are the ints and float64s the program or the
  YAML library puts into a tree; \<open>JText\<close> is any other Go value, by the string json.Marshal
  writes for it (a YAML timestamp); \<open>JAny\<close> is a map whose keys need not be strings, each key
  by its text.
\<close>

datatype json =
    JNull
  | JBool bool
  | JNum string
  | JInt int
  | JFloat float64
  | JStr string
  | JText string
  | JArr "json list"
  | JObj "(string \<times> json) list"
  | JAny "(string \<times> json) list"

section \<open>UTF-8\<close>

definition in_byte :: "nat \<Rightarrow> nat \<Rightarrow> char \<Rightarrow> bool" where
  "in_byte lo hi c = (lo \<le> of_char c \<and> of_char c \<le> hi)"

text \<open>The well-formed sequences of three and of four bytes.\<close>

definition seq3 :: "char \<Rightarrow> char \<Rightarrow> char \<Rightarrow> bool" where
  "seq3 c d e = (in_byte 0xE0 0xEF c
     \<and> in_byte (if c = CHR 0xE0 then 0xA0 else 0x80) (if c = CHR 0xED then 0x9F else 0xBF) d
     \<and> in_byte 0x80 0xBF e)"

definition seq4 :: "char \<Rightarrow> char \<Rightarrow> char \<Rightarrow> char \<Rightarrow> bool" where
  "seq4 c d e f = (in_byte 0xF0 0xF4 c
     \<and> in_byte (if c = CHR 0xF0 then 0x90 else 0x80) (if c = CHR 0xF4 then 0x8F else 0xBF) d
     \<and> in_byte 0x80 0xBF e \<and> in_byte 0x80 0xBF f)"

text \<open>The length of the rune a string starts with, 0 when the bytes are not valid UTF-8.\<close>

fun utf8_len :: "string \<Rightarrow> nat" where
  "utf8_len [] = 0"
| "utf8_len [c] = (if in_byte 0 0x7F c then 1 else 0)"
| "utf8_len [c, d] =
     (if in_byte 0 0x7F c then 1 else if in_byte 0xC2 0xDF c \<and> in_byte 0x80 0xBF d then 2 else 0)"
| "utf8_len [c, d, e] =
     (if in_byte 0 0x7F c then 1 else if in_byte 0xC2 0xDF c \<and> in_byte 0x80 0xBF d then 2
      else if seq3 c d e then 3 else 0)"
| "utf8_len (c # d # e # f # _) =
     (if in_byte 0 0x7F c then 1 else if in_byte 0xC2 0xDF c \<and> in_byte 0x80 0xBF d then 2
      else if seq3 c d e then 3 else if seq4 c d e f then 4 else 0)"

definition rune_error :: string where
  "rune_error = [CHR 0xEF, CHR 0xBF, CHR 0xBD]"

text \<open>The runes of a string, as their bytes; an invalid byte is None.\<close>

function runes :: "string \<Rightarrow> string option list" where
  "runes [] = []"
| "runes (c # s) =
     (let n = utf8_len (c # s) in
      if n = 0 then None # runes s
      else Some (take n (c # s)) # runes (drop (n - 1) s))"
  by pat_completeness auto
termination
  by (relation "measure length") auto

definition utf8_valid :: "string \<Rightarrow> bool" where
  "utf8_valid s = (None \<notin> set (runes s))"

text \<open>What survives a marshal and an unmarshal: each invalid byte is the replacement rune.\<close>

definition utf8_fix :: "string \<Rightarrow> string" where
  "utf8_fix s = concat (map (\<lambda>r. case r of None \<Rightarrow> rune_error | Some b \<Rightarrow> b) (runes s))"

lemma utf8_len_le: "utf8_len s \<le> length s"
  by (induction s rule: utf8_len.induct) simp_all

lemma utf8_fix_valid [simp]: "utf8_valid s \<Longrightarrow> utf8_fix s = s"
proof (induction s rule: runes.induct)
  case (2 c s)
  then show ?case
    by (cases "utf8_len (c # s)") (auto simp: utf8_valid_def utf8_fix_def Let_def)
qed (simp add: utf8_fix_def)

text \<open>A valid rune is read back whatever follows it.\<close>

lemma utf8_len_ascii [simp]: "in_byte 0 0x7F c \<Longrightarrow> utf8_len (c # s) = 1"
  by (cases "c # s" rule: utf8_len.cases) simp_all

lemma utf8_len_two [simp]:
  "\<not> in_byte 0 0x7F c \<Longrightarrow> in_byte 0xC2 0xDF c \<Longrightarrow> in_byte 0x80 0xBF d \<Longrightarrow> utf8_len (c # d # s) = 2"
  by (cases "c # d # s" rule: utf8_len.cases) simp_all

lemma utf8_len_three [simp]:
  "\<not> in_byte 0 0x7F c \<Longrightarrow> \<not> (in_byte 0xC2 0xDF c \<and> in_byte 0x80 0xBF d) \<Longrightarrow> seq3 c d e
   \<Longrightarrow> utf8_len (c # d # e # s) = 3"
  by (cases "c # d # e # s" rule: utf8_len.cases) simp_all

lemma utf8_len_take:
  "utf8_len s \<noteq> 0 \<Longrightarrow> utf8_len (take (utf8_len s) s @ t) = utf8_len s"
  by (cases s rule: utf8_len.cases) (simp_all split: if_split_asm)

lemma runes_ascii: "in_byte 0 0x7F c \<Longrightarrow> runes (c # s) = Some [c] # runes s"
  by (simp add: Let_def)

lemma runes_error: "runes (rune_error @ s) = Some rune_error # runes s"
  by (cases s) (simp_all add: rune_error_def seq3_def in_byte_def Let_def)

lemma runes_fix: "runes (utf8_fix s) = map (\<lambda>r. Some (case r of None \<Rightarrow> rune_error | Some b \<Rightarrow> b)) (runes s)"
proof (induction s rule: runes.induct)
  case (2 c s)
  define n where "n = utf8_len (c # s)"
  show ?case
  proof (cases "n = 0")
    case True
    then show ?thesis using 2(1) runes_error [of "utf8_fix s"]
      by (simp add: utf8_fix_def n_def)
  next
    case False
    let ?rest = "utf8_fix (drop (n - 1) s)"
    have f: "utf8_fix (c # s) = take n (c # s) @ ?rest"
      using False by (simp add: utf8_fix_def n_def Let_def)
    obtain m where m: "n = Suc m" using False by (cases n) auto
    have l: "utf8_len (c # take m s @ ?rest) = n"
      using utf8_len_take [of "c # s" ?rest] False m by (simp add: n_def)
    have "length (take m s) = m" using utf8_len_le [of "c # s"] m by (simp add: n_def)
    then have "runes (c # take m s @ ?rest) = Some (take n (c # s)) # runes ?rest"
      using l m by (simp add: Let_def)
    then show ?thesis using 2(2) False f m by (simp add: n_def [symmetric] Let_def)
  qed
qed (simp add: utf8_fix_def)

lemma utf8_valid_fix [simp]: "utf8_valid (utf8_fix s)"
  by (auto simp: utf8_valid_def runes_fix)

lemma utf8_fix_Nil [simp]: "utf8_fix [] = []"
  by (simp add: utf8_fix_def)

lemma utf8_fix_eq_Nil [simp]: "utf8_fix s = [] \<longleftrightarrow> s = []"
proof (cases s)
  case (Cons c r)
  then show ?thesis by (auto simp: utf8_fix_def Let_def rune_error_def)
qed simp

declare runes.simps(2) [simp del]

section \<open>Floats as text\<close>

text \<open>The decimal exponent: the least \<open>e\<close> with \<open>x < 10 ^ e\<close>, for a positive double.\<close>

definition dec_exp :: "rat \<Rightarrow> int" where
  "dec_exp x = (case filter (\<lambda>e. x < 10 powi e) [-330..310] of [] \<Rightarrow> 310 | e # _ \<Rightarrow> e)"

text \<open>
  The shortest decimal that reads back as the double, as digits and the exponent of the point
  before them: with \<open>n\<close> digits the two neighbours of \<open>x\<close> are tried, the nearer one first.
\<close>

definition short_cands :: "rat \<Rightarrow> int \<Rightarrow> nat \<Rightarrow> int list" where
  "short_cands x e n =
     (let y = x * 10 powi (int n - e); lo = \<lfloor>y\<rfloor> in
      filter (\<lambda>m. 0 < m \<and> rnd (of_int m * 10 powi (e - int n)) = x)
        (if y - of_int lo \<le> 1 / 2 then [lo, lo + 1] else [lo + 1, lo]))"

definition shortest :: "rat \<Rightarrow> int \<times> int" where
  "shortest x =
     (let e = dec_exp x in
      case concat (map (\<lambda>n. map (\<lambda>m. (m, e - int n)) (short_cands x e n)) [1..<18]) of
        [] \<Rightarrow> (0, 0) | p # _ \<Rightarrow> p)"

text \<open>
  The text encoding/json writes: plain notation, or an exponent when the number is below
  one millionth or not below ten to the twenty-first.
\<close>

definition strip_zeros :: "string \<Rightarrow> string" where
  "strip_zeros s = rev (dropWhile (\<lambda>c. c = CHR ''0'') (rev s))"

definition plain_text :: "string \<Rightarrow> int \<Rightarrow> string" where
  "plain_text ds p =
     (if p \<le> 0 then ''0.'' @ replicate (nat (- p)) (CHR ''0'') @ ds
      else if int (length ds) \<le> p then ds @ replicate (nat p - length ds) (CHR ''0'')
      else take (nat p) ds @ ''.'' @ drop (nat p) ds)"

definition exp_text :: "string \<Rightarrow> int \<Rightarrow> string" where
  "exp_text ds p =
     (take 1 ds @ (if length ds = 1 then [] else ''.'' @ drop 1 ds) @ ''e''
      @ (if p - 1 < 0 then ''-'' else ''+'') @ dec_str \<bar>p - 1\<bar>)"

definition float_text :: "rat \<Rightarrow> string" where
  "float_text q =
     (if q = 0 then ''0''
      else let x = \<bar>q\<bar>; (m, e) = shortest x; all = dec_str m; ds = strip_zeros all;
               p = int (length all) + e;
               body = (if x < 1 / 1000000 \<or> 10 ^ 21 \<le> x then exp_text ds p else plain_text ds p)
      in (if q < 0 then ''-'' else []) @ body)"

section \<open>Numbers from text\<close>

text \<open>A JSON number literal as a rational: sign, integer part, fraction, exponent.\<close>

definition num_parts :: "string \<Rightarrow> bool \<times> string \<times> string \<times> int" where
  "num_parts t =
     (let (neg, s) = (case t of c # r \<Rightarrow> if c = CHR ''-'' then (True, r) else (False, t) | [] \<Rightarrow> (False, []));
          ip = takeWhile is_digit s; s1 = drop (length ip) s;
          (fp, s2) = (case s1 of c # r \<Rightarrow>
              if c = CHR ''.'' then (takeWhile is_digit r, drop (length (takeWhile is_digit r)) r) else ([], s1)
            | [] \<Rightarrow> ([], []));
          ex = (case s2 of c # r \<Rightarrow> if c = CHR ''e'' \<or> c = CHR ''E'' then
                  (case r of d # r' \<Rightarrow> if d = CHR ''-'' then - digits_val r'
                                        else if d = CHR ''+'' then digits_val r' else digits_val r
                   | [] \<Rightarrow> 0) else 0 | [] \<Rightarrow> 0)
      in (neg, ip, fp, ex))"

text \<open>ParseFloat: None on overflow. Exponents beyond the doubles are cut before the power is taken.\<close>

definition num_float :: "string \<Rightarrow> float64 option" where
  "num_float t =
     (let (neg, ip, fp, ex) = num_parts t;
          m = digits_val (ip @ fp); e = ex - int (length fp);
          size = int (length (ip @ fp))
      in if m = 0 then Some (Fin 0)
         else if e < - 400 - size then Some (Fin 0)
         else if 400 < e then None
         else (case round64 (of_int m * 10 powi e) of
             Fin x \<Rightarrow> Some (Fin (if neg then - x else x))
           | _ \<Rightarrow> None))"

text \<open>An integer field takes a literal without fraction or exponent that fits 64 bits.\<close>

definition num_int :: "string \<Rightarrow> int option" where
  "num_int t = (if t \<noteq> [] \<and> hd t = CHR ''+'' then None else atoi t)"

section \<open>Encoding\<close>

definition u_escape :: "nat \<Rightarrow> string" where
  "u_escape n = CHR 0x5C # CHR ''u'' # map (\<lambda>i. hex_char (n div 16 ^ i mod 16)) [3, 2, 1, 0]"

definition esc_rune :: "string option \<Rightarrow> string" where
  "esc_rune r =
     (case r of
        None \<Rightarrow> CHR 0x5C # ''ufffd''
      | Some b \<Rightarrow>
          if b = [CHR 0x22] then [CHR 0x5C, CHR 0x22]
          else if b = [CHR 0x5C] then [CHR 0x5C, CHR 0x5C]
          else if b = [CHR 0x08] then [CHR 0x5C, CHR ''b'']
          else if b = [CHR 0x0C] then [CHR 0x5C, CHR ''f'']
          else if b = [CHR 0x0A] then [CHR 0x5C, CHR ''n'']
          else if b = [CHR 0x0D] then [CHR 0x5C, CHR ''r'']
          else if b = [CHR 0x09] then [CHR 0x5C, CHR ''t'']
          else if b = ''<'' \<or> b = ''>'' \<or> b = ''&'' then u_escape (of_char (hd b))
          else if length b = 1 \<and> of_char (hd b) < (0x20 :: nat) then u_escape (of_char (hd b))
          else if b = [CHR 0xE2, CHR 0x80, CHR 0xA8] then u_escape 0x2028
          else if b = [CHR 0xE2, CHR 0x80, CHR 0xA9] then u_escape 0x2029
          else b)"

definition json_str :: "string \<Rightarrow> string" where
  "json_str s = [CHR 0x22] @ concat (map esc_rune (runes s)) @ [CHR 0x22]"

fun sep_by :: "string \<Rightarrow> string list \<Rightarrow> string" where
  "sep_by d [] = []"
| "sep_by d [x] = x"
| "sep_by d (x # xs) = x @ d @ sep_by d xs"

fun json_text :: "json \<Rightarrow> string" where
  "json_text JNull = ''null''"
| "json_text (JBool b) = (if b then ''true'' else ''false'')"
| "json_text (JNum t) = t"
| "json_text (JInt n) = int_str n"
| "json_text (JFloat f) = (case f of Fin q \<Rightarrow> float_text q | _ \<Rightarrow> [])"
| "json_text (JStr s) = json_str s"
| "json_text (JText s) = json_str s"
| "json_text (JArr xs) = ''['' @ sep_by '','' (map json_text xs) @ '']''"
| "json_text (JObj kvs) = ''{'' @ sep_by '',''
     (map (\<lambda>(k, t). json_str k @ '':'' @ t)
        (sort_key fst (map (\<lambda>(k, v). (k, json_text v)) kvs))) @ ''}''"
| "json_text (JAny kvs) = []"

text \<open>json.Marshal fails on a float that is not finite and on a map with other keys than strings.\<close>

fun marshals :: "json \<Rightarrow> bool" where
  "marshals (JFloat f) = (case f of Fin _ \<Rightarrow> True | _ \<Rightarrow> False)"
| "marshals (JArr xs) = list_all marshals xs"
| "marshals (JObj kvs) = list_all (\<lambda>(k, v). marshals v) kvs"
| "marshals (JAny kvs) = False"
| "marshals _ = True"

section \<open>Parsing\<close>

definition json_ws :: "char \<Rightarrow> bool" where
  "json_ws c = (c = CHR '' '' \<or> c = CHR 0x09 \<or> c = CHR 0x0A \<or> c = CHR 0x0D)"

definition skip_ws :: "string \<Rightarrow> string" where
  "skip_ws s = dropWhile json_ws s"

definition code_point :: "nat \<Rightarrow> string" where
  "code_point n =
     map char_of
       (if n < 0x80 then [n]
        else if n < 0x800 then [0xC0 + n div 64, 0x80 + n mod 64]
        else if n < 0x10000 then [0xE0 + n div 4096, 0x80 + n div 64 mod 64, 0x80 + n mod 64]
        else [0xF0 + n div 262144, 0x80 + n div 4096 mod 64, 0x80 + n div 64 mod 64, 0x80 + n mod 64])"

definition hex4 :: "string \<Rightarrow> nat option" where
  "hex4 s =
     (case s of a # b # c # d # _ \<Rightarrow>
        opt_bind (hex_val a) (\<lambda>w. opt_bind (hex_val b) (\<lambda>x. opt_bind (hex_val c) (\<lambda>y.
        opt_bind (hex_val d) (\<lambda>z. Some (w * 4096 + x * 256 + y * 16 + z)))))
      | _ \<Rightarrow> None)"

text \<open>
  The four digits after a backslash and a u: a surrogate pair is one rune, a lone surrogate the
  replacement rune. The result is the bytes and the rest.
\<close>

definition unescape_u :: "string \<Rightarrow> (string \<times> string) option" where
  "unescape_u s =
     opt_bind (hex4 s) (\<lambda>n. let r = drop 4 s in
       if n < 0xD800 \<or> 0xE000 \<le> n then Some (code_point n, r)
       else case r of
         b # u # r' \<Rightarrow>
           if n < 0xDC00 \<and> b = CHR 0x5C \<and> u = CHR ''u'' then
             (case hex4 r' of
                Some m \<Rightarrow> if 0xDC00 \<le> m \<and> m < 0xE000
                          then Some (code_point (0x10000 + (n - 0xD800) * 1024 + (m - 0xDC00)), drop 4 r')
                          else Some (rune_error, r)
              | None \<Rightarrow> Some (rune_error, r))
           else Some (rune_error, r)
       | _ \<Rightarrow> Some (rune_error, r))"

definition simple_escape :: "char \<Rightarrow> string option" where
  "simple_escape c =
     (if c = CHR 0x22 \<or> c = CHR 0x5C \<or> c = CHR ''/'' then Some [c]
      else if c = CHR ''b'' then Some [CHR 0x08] else if c = CHR ''f'' then Some [CHR 0x0C]
      else if c = CHR ''n'' then Some [CHR 0x0A] else if c = CHR ''r'' then Some [CHR 0x0D]
      else if c = CHR ''t'' then Some [CHR 0x09] else None)"

text \<open>A string literal after its opening quote. The fuel is the length of the input.\<close>

fun parse_chars :: "nat \<Rightarrow> string \<Rightarrow> (string \<times> string) option" where
  "parse_chars 0 s = None"
| "parse_chars (Suc k) [] = None"
| "parse_chars (Suc k) (c # s) =
     (if c = CHR 0x22 then Some ([], s)
      else if of_char c < (0x20 :: nat) then None
      else if c = CHR 0x5C then
        (case s of
           [] \<Rightarrow> None
         | e # r \<Rightarrow>
             if e = CHR ''u'' then
               opt_bind (unescape_u r) (\<lambda>(b, r'). opt_bind (parse_chars k r') (\<lambda>(t, z). Some (b @ t, z)))
             else opt_bind (simple_escape e) (\<lambda>b. opt_bind (parse_chars k r) (\<lambda>(t, z). Some (b @ t, z))))
      else opt_bind (parse_chars k s) (\<lambda>(t, z). Some (c # t, z)))"

definition parse_string :: "string \<Rightarrow> (string \<times> string) option" where
  "parse_string s = map_option (\<lambda>(t, z). (utf8_fix t, z)) (parse_chars (Suc (length s)) s)"

definition parse_number :: "string \<Rightarrow> (string \<times> string) option" where
  "parse_number t =
     (let (sg, s) = (case t of c # r \<Rightarrow> if c = CHR ''-'' then (''-'', r) else ([], t) | [] \<Rightarrow> ([], []));
          ds = (case s of c # r \<Rightarrow> if c = CHR ''0'' then ''0'' else takeWhile is_digit s | [] \<Rightarrow> []);
          s1 = drop (length ds) s;
          (fp, s2, fok) = (case s1 of c # r \<Rightarrow>
              if c = CHR ''.'' then (''.'' @ takeWhile is_digit r, drop (length (takeWhile is_digit r)) r,
                                  takeWhile is_digit r \<noteq> [])
              else ([], s1, True) | [] \<Rightarrow> ([], [], True));
          (ep, s3, eok) = (case s2 of c # r \<Rightarrow>
              if c = CHR ''e'' \<or> c = CHR ''E'' then
                (let (g, r') = (case r of d # r' \<Rightarrow> if d = CHR ''-'' \<or> d = CHR ''+'' then ([d], r') else ([], r)
                                 | [] \<Rightarrow> ([], [])); es = takeWhile is_digit r'
                 in (c # g @ es, drop (length es) r', es \<noteq> []))
              else ([], s2, True) | [] \<Rightarrow> ([], [], True))
      in if ds = [] \<or> \<not> fok \<or> \<not> eok then None else Some (sg @ ds @ fp @ ep, s3))"

definition max_depth :: nat where "max_depth = 10000"

text \<open>
  Values, the items of an array, the members of an object. The first number is fuel: twice the
  length of the text and a little more is never used up, since every two calls read a character.
\<close>

fun parse_value :: "nat \<Rightarrow> nat \<Rightarrow> string \<Rightarrow> (json \<times> string) option"
and parse_items :: "nat \<Rightarrow> nat \<Rightarrow> string \<Rightarrow> (json list \<times> string) option"
and parse_members :: "nat \<Rightarrow> nat \<Rightarrow> (string \<times> json) list \<Rightarrow> string \<Rightarrow> ((string \<times> json) list \<times> string) option"
where
  "parse_value 0 d s = None"
| "parse_value (Suc k) d s =
     (case skip_ws s of
        [] \<Rightarrow> None
      | c # r \<Rightarrow>
          if c = CHR ''{'' then
            (if max_depth \<le> d then None
             else if skip_ws r \<noteq> [] \<and> hd (skip_ws r) = CHR ''}'' then Some (JObj [], tl (skip_ws r))
             else opt_bind (parse_members k (Suc d) [] r) (\<lambda>(m, z). Some (JObj m, z)))
          else if c = CHR ''['' then
            (if max_depth \<le> d then None
             else if skip_ws r \<noteq> [] \<and> hd (skip_ws r) = CHR '']'' then Some (JArr [], tl (skip_ws r))
             else opt_bind (parse_items k (Suc d) r) (\<lambda>(xs, z). Some (JArr xs, z)))
          else if c = CHR 0x22 then opt_bind (parse_string r) (\<lambda>(t, z). Some (JStr t, z))
          else if has_prefix (c # r) ''null'' then Some (JNull, drop 4 (c # r))
          else if has_prefix (c # r) ''true'' then Some (JBool True, drop 4 (c # r))
          else if has_prefix (c # r) ''false'' then Some (JBool False, drop 5 (c # r))
          else opt_bind (parse_number (c # r)) (\<lambda>(t, z). Some (JNum t, z)))"
| "parse_items 0 d s = None"
| "parse_items (Suc k) d s =
     opt_bind (parse_value k d s) (\<lambda>(v, z).
       case skip_ws z of
         [] \<Rightarrow> None
       | c # r \<Rightarrow> if c = CHR '','' then opt_bind (parse_items k d r) (\<lambda>(vs, y). Some (v # vs, y))
                  else if c = CHR '']'' then Some ([v], r) else None)"
| "parse_members 0 d acc s = None"
| "parse_members (Suc k) d acc s =
     (case skip_ws s of
        [] \<Rightarrow> None
      | q # r \<Rightarrow>
          if q \<noteq> CHR 0x22 then None
          else opt_bind (parse_string r) (\<lambda>(key, z).
            case skip_ws z of
              [] \<Rightarrow> None
            | c # r1 \<Rightarrow>
                if c \<noteq> CHR '':'' then None
                else opt_bind (parse_value k d r1) (\<lambda>(v, y).
                  case skip_ws y of
                    [] \<Rightarrow> None
                  | e # r2 \<Rightarrow>
                      if e = CHR '','' then parse_members k d (put_key key v acc) r2
                      else if e = CHR ''}'' then Some (put_key key v acc, r2) else None)))"

text \<open>One value from the front of the input, with the rest.\<close>

definition json_decode :: "string \<Rightarrow> (json \<times> string) option" where
  "json_decode s = parse_value (2 * length s + 2) 0 s"

text \<open>\<^verbatim>\<open>Decoder.More\<close>: another value seems to follow; a closing bracket does not count.\<close>

definition dec_more :: "string \<Rightarrow> bool" where
  "dec_more z = (case skip_ws z of [] \<Rightarrow> False | c # _ \<Rightarrow> c \<noteq> CHR '']'' \<and> c \<noteq> CHR ''}'')"

end
