(* ===== verification/Config_Units.thy ===== *)
theory Config_Units
  imports Json DomainErr
begin

text \<open>
  The constants of \<^verbatim>\<open>internal/config\<close> (defaults.go) and the two kinds of value a
  document writes with a unit: durations (duration.go) and byte sizes (bytesize.go). Each has a
  parser, a canonical spelling, the pass over a decoded tree that replaces spellings by numbers,
  and the pass that does the reverse. The maps of a tree are visited in the order of the list.
\<close>

section \<open>defaults.go\<close>

definition DefaultNTPAddress :: string where "DefaultNTPAddress = '':123''"
definition DefaultMgmtAddress :: string where "DefaultMgmtAddress = '':8088''"
definition DefaultRESTPath :: string where "DefaultRESTPath = ''/v1''"
definition DefaultMCPPath :: string where "DefaultMCPPath = ''/mcp''"
definition DefaultMetricsListen :: string where "DefaultMetricsListen = ''127.0.0.1:9090''"
definition DefaultMaxConcurrent :: int where "DefaultMaxConcurrent = 256"
definition DefaultAuditRing :: int where "DefaultAuditRing = 128"
definition DefaultMaxPacketsPerSec :: int where "DefaultMaxPacketsPerSec = 256"
definition DefaultMaxPacketsPerIP :: int where "DefaultMaxPacketsPerIP = 32"
definition DefaultQueryLogSize :: int where "DefaultQueryLogSize = 256"
definition DefaultPrecision :: int where "DefaultPrecision = - 20"
definition DefaultStratum :: int where "DefaultStratum = 2"
definition cfgRequestsPerSecond :: int where "cfgRequestsPerSecond = 32"
definition cfgBurst :: int where "cfgBurst = 64"
definition MaxDocumentBytes :: nat where "MaxDocumentBytes = 1048576"
definition MaxQueryLogSize :: int where "MaxQueryLogSize = 4096"
definition MinPoll :: int where "MinPoll = - 6"
definition MaxPoll :: int where "MaxPoll = 17"
definition MaxAbsRate :: float64 where "MaxAbsRate = Fin 100"

definition violationUnknownField :: string where "violationUnknownField = ''unknown_field''"
definition violationRequired :: string where "violationRequired = ''required''"
definition violationInvalidValue :: string where "violationInvalidValue = ''invalid_value''"
definition violationReservedName :: string where "violationReservedName = ''reserved_name''"
definition violationDuplicateKey :: string where "violationDuplicateKey = ''duplicate_key''"
definition violationTooLarge :: string where "violationTooLarge = ''document_too_large''"
definition violationUnsupportedVersion :: string where "violationUnsupportedVersion = ''unsupported_version''"
definition violationDuplicateID :: string where "violationDuplicateID = ''duplicate_id''"
definition violationEmptyID :: string where "violationEmptyID = ''empty_id''"

definition warningUniversalAllowlist :: string where "warningUniversalAllowlist = ''universal_allowlist''"
definition warningOverlap :: string where "warningOverlap = ''overlap''"
definition warningServedTimeClamped :: string where "warningServedTimeClamped = ''servedTimeClamped''"
definition warningUnsyncStratum :: string where "warningUnsyncStratum = ''unsync_stratum''"

section \<open>Paths and violations\<close>

abbreviation violation :: "string \<Rightarrow> string \<Rightarrow> string \<Rightarrow> FieldViolation" where
  "violation p c m \<equiv> \<lparr>fv_path = p, fv_code = c, fv_message = m\<rparr>"

abbreviation invalid :: "string \<Rightarrow> string \<Rightarrow> FieldViolation" where
  "invalid p m \<equiv> violation p violationInvalidValue m"

definition joinPath :: "string \<Rightarrow> string \<Rightarrow> string" where
  "joinPath base key = (if base = [] then key else base @ ''.'' @ key)"

definition indexPath :: "string \<Rightarrow> nat \<Rightarrow> string" where
  "indexPath base i = base @ ''['' @ nat_str i @ '']''"

text \<open>The positions of a list, as \<^verbatim>\<open>for i, x := range\<close> gives them.\<close>

definition indexed :: "'a list \<Rightarrow> (nat \<times> 'a) list" where
  "indexed xs = zip [0..<length xs] xs"

section \<open>duration.go\<close>

definition durationFields :: "string list" where
  "durationFields = [''offset'', ''rootDelay'', ''rootDispersion'', ''jitter'']"

text \<open>The cascade of units; the magnitude of the least duration only fits a uint64.\<close>

definition formatUintDuration :: "int \<Rightarrow> string" where
  "formatUintDuration n =
     (if n = 0 then ''0s''
      else if n mod hour = 0 then dec_str (n div hour) @ ''h''
      else if n mod minute = 0 then dec_str (n div minute) @ ''m''
      else if n mod second = 0 then dec_str (n div second) @ ''s''
      else if n mod millisecond = 0 then dec_str (n div millisecond) @ ''ms''
      else if n mod microsecond = 0 then dec_str (n div microsecond) @ ''us''
      else dec_str n @ ''ns'')"

function FormatDuration :: "duration \<Rightarrow> string" where
  "FormatDuration d =
     (if d = 0 then ''0s''
      else if d = min_i64 then ''-'' @ formatUintDuration (2 ^ 63)
      else if d < 0 then ''-'' @ FormatDuration (- d)
      else if rem_int d hour = 0 then int_str (quot d hour) @ ''h''
      else if rem_int d minute = 0 then int_str (quot d minute) @ ''m''
      else if rem_int d second = 0 then int_str (quot d second) @ ''s''
      else if rem_int d millisecond = 0 then int_str (quot d millisecond) @ ''ms''
      else if rem_int d microsecond = 0 then int_str (quot d microsecond) @ ''us''
      else int_str d @ ''ns'')"
  by pat_completeness auto
termination
  by (relation "measure (\<lambda>d. if d < 0 then 1 else 0)") auto

declare FormatDuration.simps [simp del]

text \<open>A duration field: null is kept, a string is parsed, anything else is refused.\<close>

definition coerceDurationField :: "json \<Rightarrow> string \<Rightarrow> FieldViolation + json" where
  "coerceDurationField child path =
     (case child of
        JNull \<Rightarrow> Inr JNull
      | JStr s \<Rightarrow>
          (case parse_duration s of
             None \<Rightarrow> Inl (invalid path ''duration must use Go time.ParseDuration syntax (for example -6m)'')
           | Some d \<Rightarrow> Inr (JInt d))
      | _ \<Rightarrow> Inl (invalid path ''duration must be a string such as 5s, not a bare number''))"

text \<open>
  A pass that rewrites the fields of a given set of names and descends into all others; a
  field that cannot be rewritten is left as it is and reported.
\<close>

fun convert_fields ::
  "string list \<Rightarrow> (json \<Rightarrow> string \<Rightarrow> FieldViolation + json) \<Rightarrow> json \<Rightarrow> string \<Rightarrow> json \<times> FieldViolation list"
and convert_members ::
  "string list \<Rightarrow> (json \<Rightarrow> string \<Rightarrow> FieldViolation + json) \<Rightarrow> (string \<times> json) list \<Rightarrow> string
     \<Rightarrow> (string \<times> json) list \<times> FieldViolation list"
and convert_items ::
  "string list \<Rightarrow> (json \<Rightarrow> string \<Rightarrow> FieldViolation + json) \<Rightarrow> json list \<Rightarrow> nat \<Rightarrow> string
     \<Rightarrow> json list \<times> FieldViolation list"
where
  "convert_fields names f (JObj m) path =
     (let (m', vs) = convert_members names f m path in (JObj m', vs))"
| "convert_fields names f (JArr xs) path =
     (let (xs', vs) = convert_items names f xs 0 path in (JArr xs', vs))"
| "convert_fields names f v path = (v, [])"
| "convert_members names f [] path = ([], [])"
| "convert_members names f ((k, child) # m) path =
     (let p = joinPath path k;
          (child', vs) =
            (if k \<in> set names then
               (case f child p of Inl viol \<Rightarrow> (child, [viol]) | Inr v \<Rightarrow> (v, []))
             else convert_fields names f child p);
          (m', vs') = convert_members names f m path
      in ((k, child') # m', vs @ vs'))"
| "convert_items names f [] i path = ([], [])"
| "convert_items names f (x # xs) i path =
     (let (x', vs) = convert_fields names f x (indexPath path i);
          (xs', vs') = convert_items names f xs (i + 1) path
      in (x' # xs', vs @ vs'))"

definition convertDurations :: "json \<Rightarrow> string \<Rightarrow> json \<times> FieldViolation list" where
  "convertDurations = convert_fields durationFields coerceDurationField"

definition jsonNumberInt :: "json \<Rightarrow> int option" where
  "jsonNumberInt v =
     (case v of
        JNum t \<Rightarrow> atoi t
      | JInt n \<Rightarrow> Some n
      | JFloat f \<Rightarrow> Some (f_to_i64 f)
      | _ \<Rightarrow> None)"

definition jsonNumberDuration :: "json \<Rightarrow> duration option" where
  "jsonNumberDuration v = jsonNumberInt v"

text \<open>The pass back: a number under one of the names becomes its spelling.\<close>

fun spell_fields :: "string list \<Rightarrow> (int \<Rightarrow> string) \<Rightarrow> json \<Rightarrow> json" where
  "spell_fields names f (JObj m) =
     JObj (map (\<lambda>(k, child).
       (k, case (if k \<in> set names then jsonNumberInt child else None) of
             Some n \<Rightarrow> JStr (f n)
           | None \<Rightarrow> spell_fields names f child)) m)"
| "spell_fields names f (JArr xs) = JArr (map (spell_fields names f) xs)"
| "spell_fields names f v = v"

definition convertDurationNumbersToStrings :: "json \<Rightarrow> json" where
  "convertDurationNumbersToStrings = spell_fields durationFields FormatDuration"

section \<open>bytesize.go\<close>

definition sizeFields :: "string list" where
  "sizeFields = [''bodyLimit'']"

definition size_unit :: "string \<Rightarrow> int option" where
  "size_unit u =
     (let l = to_lower u in
      if l = ''b'' then Some 1
      else if l = ''kib'' then Some (2 ^ 10)
      else if l = ''mib'' then Some (2 ^ 20)
      else if l = ''gib'' then Some (2 ^ 30)
      else if l = ''tib'' then Some (2 ^ 40)
      else None)"

definition ParseByteSize :: "string \<Rightarrow> string + int" where
  "ParseByteSize orig =
     (let s = trim_space orig; ds = takeWhile is_digit s; u = drop (length ds) s in
      if s = [] then Inl ''empty byte size''
      else if ds = [] \<or> u = [] then Inl ''byte size must use an IEC unit (for example 1MiB)''
      else case atoi ds of
        None \<Rightarrow> Inl ''byte size integer overflow''
      | Some n \<Rightarrow>
          (case size_unit u of
             None \<Rightarrow> Inl ''byte size must use an IEC unit (B, KiB, MiB, GiB, TiB)''
           | Some mul \<Rightarrow>
               if n < 0 then Inl ''byte size must be >= 0''
               else if 1 < mul \<and> quot (2 ^ 63 - 1) mul < n then Inl ''byte size integer overflow''
               else Inr (n * mul)))"

text \<open>Negation wraps: the magnitude of the least int64 is itself.\<close>

definition size_text :: "int \<Rightarrow> string" where
  "size_text n =
     (if rem_int n (2 ^ 40) = 0 then int_str (quot n (2 ^ 40)) @ ''TiB''
      else if rem_int n (2 ^ 30) = 0 then int_str (quot n (2 ^ 30)) @ ''GiB''
      else if rem_int n (2 ^ 20) = 0 then int_str (quot n (2 ^ 20)) @ ''MiB''
      else if rem_int n (2 ^ 10) = 0 then int_str (quot n (2 ^ 10)) @ ''KiB''
      else int_str n @ ''B'')"

definition FormatByteSize :: "int \<Rightarrow> string" where
  "FormatByteSize n =
     (if n = 0 then ''0B''
      else if n < 0 then ''-'' @ size_text (wrap64 (- n))
      else size_text n)"

text \<open>\<^verbatim>\<open>unicode.IsDigit\<close> on a rune, by its code point (Unicode 15, as in the Go release).\<close>

definition rune_val :: "string \<Rightarrow> nat" where
  "rune_val b =
     (case map of_char b of
        [c] \<Rightarrow> c
      | [c, d] \<Rightarrow> (c - 0xC0) * 64 + (d - 0x80)
      | [c, d, e] \<Rightarrow> (c - 0xE0) * 4096 + (d - 0x80) * 64 + (e - 0x80)
      | [c, d, e, f] \<Rightarrow> (c - 0xF0) * 262144 + (d - 0x80) * 4096 + (e - 0x80) * 64 + (f - 0x80)
      | _ \<Rightarrow> 0xFFFD)"

definition digit_starts :: "nat list" where
  "digit_starts =
    [0x30, 0x660, 0x6F0, 0x7C0, 0x966, 0x9E6, 0xA66, 0xAE6, 0xB66, 0xBE6, 0xC66, 0xCE6, 0xD66,
     0xDE6, 0xE50, 0xED0, 0xF20, 0x1040, 0x1090, 0x17E0, 0x1810, 0x1946, 0x19D0, 0x1A80, 0x1A90,
     0x1B50, 0x1BB0, 0x1C40, 0x1C50, 0xA620, 0xA8D0, 0xA900, 0xA9D0, 0xA9F0, 0xAA50, 0xABF0,
     0xFF10, 0x104A0, 0x10D30, 0x11066, 0x110F0, 0x11136, 0x111D0, 0x112F0, 0x11450, 0x114D0,
     0x11650, 0x116C0, 0x11730, 0x118E0, 0x11950, 0x11C50, 0x11D50, 0x11DA0, 0x11F50, 0x16A60,
     0x16AC0, 0x16B50, 0x1D7CE, 0x1D7D8, 0x1D7E2, 0x1D7EC, 0x1D7F6, 0x1E140, 0x1E2F0, 0x1E4F0,
     0x1E950, 0x1FBF0]"

definition rune_is_digit :: "string option \<Rightarrow> bool" where
  "rune_is_digit r =
     (case r of None \<Rightarrow> False
      | Some b \<Rightarrow> list_ex (\<lambda>lo. lo \<le> rune_val b \<and> rune_val b < lo + 10) digit_starts)"

definition looksLikeBareNumber :: "string \<Rightarrow> bool" where
  "looksLikeBareNumber s = (s \<noteq> [] \<and> list_all rune_is_digit (runes s))"

definition coerceByteSizeField :: "json \<Rightarrow> string \<Rightarrow> FieldViolation + json" where
  "coerceByteSizeField child path =
     (case child of
        JNull \<Rightarrow> Inr JNull
      | JStr s \<Rightarrow>
          if looksLikeBareNumber s then
            (case atoi s of
               None \<Rightarrow> Inl (invalid path ''byte size must be >= 0'')
             | Some i \<Rightarrow> if i < 0 then Inl (invalid path ''byte size must be >= 0'') else Inr (JInt i))
          else (case ParseByteSize s of Inl msg \<Rightarrow> Inl (invalid path msg) | Inr sz \<Rightarrow> Inr (JInt sz))
      | v \<Rightarrow>
          (case jsonNumberInt v of
             None \<Rightarrow> Inl (invalid path
               ''byte size must be an IEC string such as 1MiB or a non-negative integer'')
           | Some i \<Rightarrow> if i < 0 then Inl (invalid path ''byte size must be >= 0'') else Inr (JInt i)))"

definition convertByteSizes :: "json \<Rightarrow> string \<Rightarrow> json \<times> FieldViolation list" where
  "convertByteSizes = convert_fields sizeFields coerceByteSizeField"

definition convertByteSizeNumbersToStrings :: "json \<Rightarrow> json" where
  "convertByteSizeNumbersToStrings = spell_fields sizeFields FormatByteSize"

text \<open>The two passes together, on the trees of the wire (export.go).\<close>

definition FormatWireTree :: "json \<Rightarrow> json" where
  "FormatWireTree v = convertByteSizeNumbersToStrings (convertDurationNumbersToStrings v)"

definition CoerceWireTree :: "json \<Rightarrow> json \<times> FieldViolation list" where
  "CoerceWireTree v =
     (let (v1, vs) = convertDurations v []; (v2, vs') = convertByteSizes v1 [] in (v2, vs @ vs'))"

section \<open>Spellings are read back\<close>

lemma units_no_num:
  "list_all (\<lambda>c. \<not> num_char c) ''h'' \<and> list_all (\<lambda>c. \<not> num_char c) ''m'' \<and> list_all (\<lambda>c. \<not> num_char c) ''s''
   \<and> list_all (\<lambda>c. \<not> num_char c) ''ms'' \<and> list_all (\<lambda>c. \<not> num_char c) ''us'' \<and> list_all (\<lambda>c. \<not> num_char c) ''ns''"
  by (simp add: num_char_def is_digit_def)

lemma formatUintDuration_loop:
  assumes "0 < n" "n \<le> 2 ^ 63"
  shows "duration_loop 0 (formatUintDuration n) = Some n"
proof -
  have u: "duration_loop 0 (dec_str (n div un) @ u) = Some n"
    if "unit_ns u = Some un" "u \<noteq> []" "list_all (\<lambda>c. \<not> num_char c) u" "0 < un" "n mod un = 0" for u un
    using duration_loop_units [OF that(1-4), of "n div un"] assms that(4,5)
    by (simp add: pos_imp_zdiv_nonneg_iff dvd_eq_mod_eq_0 [symmetric])
  have ns: "duration_loop 0 (dec_str n @ ''ns'') = Some n"
    using u [of "''ns''" nanosecond] units_no_num by (simp add: unit_ns_def nanosecond_def)
  show ?thesis
    using assms ns u [of "''h''" hour] u [of "''m''" minute] u [of "''s''" second] u [of "''ms''" millisecond]
      u [of "''us''" microsecond] units_no_num
    by (auto simp: formatUintDuration_def unit_ns_def hour_def minute_def second_def millisecond_def microsecond_def)
qed

lemma formatUintDuration_shape: "0 < n \<Longrightarrow> \<exists>c d r. formatUintDuration n = c # d # r \<and> is_digit c"
proof -
  assume "0 < n"
  then have ex: "\<exists>v u. dec_str (n div k) @ w = dec_str v @ u \<and> u \<noteq> [] \<and> 0 \<le> v" if "0 < k" "w \<noteq> []" for k w
    using that by (metis order_less_imp_le pos_imp_zdiv_nonneg_iff)
  have "\<exists>v u. formatUintDuration n = dec_str v @ u \<and> u \<noteq> [] \<and> 0 \<le> v"
    unfolding formatUintDuration_def
    using \<open>0 < n\<close> ex [of 1 "''ns''"] ex [of hour "''h''"] ex [of minute "''m''"] ex [of second "''s''"]
      ex [of millisecond "''ms''"] ex [of microsecond "''us''"]
    by (simp add: hour_def minute_def second_def millisecond_def microsecond_def)
  then obtain v u where v: "formatUintDuration n = dec_str v @ u" "u \<noteq> []" "0 \<le> v" by blast
  then show ?thesis
    using dec_str_digits [OF v(3)] dec_str_not_Nil [of v]
    by (cases "dec_str v"; cases "tl (dec_str v)"; cases u) auto
qed

lemma FormatDuration_pos:
  assumes "0 < d"
  shows "FormatDuration d = formatUintDuration d"
proof -
  have "quot d k = d div k" "rem_int d k = d mod k" if "0 < k" for k
    using assms that by (simp_all add: quot_def rem_int_def minus_div_mult_eq_mod)
  moreover have "int_str (d div k) = dec_str (d div k)" if "0 < k" for k
    using assms that by (simp add: int_str_def pos_imp_zdiv_neg_iff)
  ultimately show ?thesis
    using assms by (simp add: FormatDuration.simps formatUintDuration_def min_i64_def int_str_def
        hour_def minute_def second_def millisecond_def microsecond_def)
qed

lemma parse_uint_text:
  assumes "0 < n" "n \<le> 2 ^ 63"
  shows "parse_duration (''-'' @ formatUintDuration n) = Some (- n)"
    and "n < 2 ^ 63 \<Longrightarrow> parse_duration (formatUintDuration n) = Some n"
proof -
  obtain c d r where f: "formatUintDuration n = c # d # r" "is_digit c"
    using formatUintDuration_shape assms by blast
  then have "c \<noteq> CHR ''-''" "c \<noteq> CHR ''+''" by (auto simp: is_digit_def)
  then show "parse_duration (''-'' @ formatUintDuration n) = Some (- n)"
    and "n < 2 ^ 63 \<Longrightarrow> parse_duration (formatUintDuration n) = Some n"
    using formatUintDuration_loop [OF assms] f by (simp_all add: parse_duration_def)
qed

lemma parse_FormatDuration:
  assumes "i64 d"
  shows "parse_duration (FormatDuration d) = Some d"
proof -
  consider "d = 0" | "0 < d" | "d = min_i64" | "d < 0" "d \<noteq> min_i64" by linarith
  then show ?thesis
  proof cases
    case 1
    have "parse_duration ''0s'' = Some 0" by code_simp
    then show ?thesis using 1 by (simp add: FormatDuration.simps)
  next
    case 2
    then show ?thesis using assms parse_uint_text(2) [of d] by (simp add: FormatDuration_pos i64_def max_i64_def)
  next
    case 3
    then show ?thesis using parse_uint_text(1) [of "2 ^ 63"] by (simp add: FormatDuration.simps min_i64_def)
  next
    case 4
    then have "FormatDuration d = ''-'' @ formatUintDuration (- d)"
      by (subst FormatDuration.simps) (simp add: FormatDuration_pos)
    then show ?thesis using 4 assms parse_uint_text(1) [of "- d"] by (simp add: i64_def min_i64_def)
  qed
qed

text \<open>Every duration a program can hold, the least int64 included, is written so that
  time.ParseDuration reads the same duration back.\<close>

theorem FormatDuration_roundtrip: "i64 d \<Longrightarrow> parse_duration (FormatDuration d) = Some d"
  by (rule parse_FormatDuration)

theorem FormatDuration_roundtrip_witness: "parse_duration (FormatDuration min_i64) = Some min_i64"
  by (rule FormatDuration_roundtrip) (simp add: i64_def min_i64_def max_i64_def)

lemma lspace_digit: "is_digit c \<Longrightarrow> lspace (c # r) = 0"
proof -
  assume d: "is_digit c"
  have "c \<notin> {CHR 0x09, CHR 0x0A, CHR 0x0B, CHR 0x0C, CHR 0x0D, CHR '' '', CHR 0xC2, CHR 0xE1, CHR 0xE2, CHR 0xE3}"
    using d unfolding is_digit_def by (elim conjE) (rule notI, elim insertE; simp)
  then have n: "\<not> ascii_space c" "\<not> space2 c b" "\<not> space3 c b e" for b e
    unfolding ascii_space_def space2_def space3_def by simp_all
  then show ?thesis by (cases "c # r" rule: lspace.cases) simp_all
qed

lemma no_trim:
  assumes "is_digit c"
  shows "trim_space (c # s @ ''B'') = c # s @ ''B''"
proof -
  have l: "lspace (c # s @ ''B'') = 0" using assms by (rule lspace_digit)
  have n: "\<not> ascii_space CHR ''B''" "\<not> space2 b CHR ''B''" "\<not> space3 a b CHR ''B''" for a b
    unfolding ascii_space_def space2_def space3_def by simp_all
  have r: "rspace (CHR ''B'' # r) = 0" for r
    using n by (cases "CHR ''B'' # r" rule: rspace.cases) simp_all
  show ?thesis
    unfolding trim_space_def by (subst trim_left.simps, simp add: l, subst trim_right_rev.simps, simp add: r)
qed

lemma atoi_dec_str: "0 \<le> v \<Longrightarrow> v < 2 ^ 63 \<Longrightarrow> atoi (dec_str v) = Some v"
proof -
  assume v: "0 \<le> v" "v < 2 ^ 63"
  obtain c r where c: "dec_str v = c # r" using dec_str_not_Nil [of v] by (cases "dec_str v") auto
  have d: "list_all is_digit (c # r)" using dec_str_digits [OF v(1)] c by simp
  then have "c \<noteq> CHR ''-''" "c \<noteq> CHR ''+''" by (auto simp: is_digit_def)
  moreover have "digits_val (c # r) = v" using digits_val_dec_str [OF v(1)] c by simp
  ultimately show ?thesis using d v by (simp add: atoi_def c)
qed

lemma ParseByteSize_text:
  assumes "0 \<le> v" "0 < k" "v * k < 2 ^ 63" "size_unit (u @ ''B'') = Some k" "\<not> is_digit (hd (u @ ''B''))"
  shows "ParseByteSize (dec_str v @ u @ ''B'') = Inr (v * k)"
proof -
  let ?t = "u @ ''B''"
  obtain c r where c: "dec_str v = c # r" using dec_str_not_Nil [of v] by (cases "dec_str v") auto
  have "is_digit c" using dec_str_digits [OF assms(1)] c by simp
  then have t: "trim_space (dec_str v @ ?t) = dec_str v @ ?t" using no_trim [of c "r @ u"] c by simp
  have d: "takeWhile is_digit (dec_str v @ ?t) = dec_str v" "drop (length (dec_str v)) (dec_str v @ ?t) = ?t"
    using dec_str_digits [OF assms(1)] assms(5) by (intro digits_then; simp)+
  have "v \<le> v * k" using assms(1,2) mult_left_mono [of 1 k v] by simp
  then have v: "atoi (dec_str v) = Some v" using assms(1,3) by (intro atoi_dec_str) auto
  have "v \<le> (2 ^ 63 - 1) div k" using assms(2,3) zdiv_mono1 [of "v * k" "2 ^ 63 - 1" k] by simp
  then have "\<not> quot (2 ^ 63 - 1) k < v" using assms(2) by (simp add: quot_def)
  then show ?thesis using assms(1,4) by (simp add: ParseByteSize_def Let_def t d v)
qed

lemma ParseByteSize_unit:
  assumes "0 < n" "n < 2 ^ 63" "rem_int n k = 0" "0 < k" "size_unit (u @ ''B'') = Some k"
    "\<not> is_digit (hd (u @ ''B''))"
  shows "ParseByteSize (int_str (quot n k) @ u @ ''B'') = Inr n"
proof -
  have q: "quot n k = n div k" "n div k * k = n"
    using assms(1,3,4) by (simp_all add: quot_def rem_int_def)
  then have "int_str (quot n k) = dec_str (n div k)"
    using assms(1,4) by (simp add: int_str_def pos_imp_zdiv_neg_iff)
  then show ?thesis
    using ParseByteSize_text [of "n div k" k u] assms q by (simp add: pos_imp_zdiv_nonneg_iff)
qed

lemma Parse_FormatByteSize:
  assumes "0 \<le> n" "n < 2 ^ 63"
  shows "ParseByteSize (FormatByteSize n) = Inr n"
proof (cases "n = 0")
  case True
  have "ParseByteSize ''0B'' = Inr 0" by code_simp
  then show ?thesis using True by (simp add: FormatByteSize_def)
next
  case False
  then have n: "0 < n" using assms by simp
  have s: "size_unit ''TiB'' = Some (2 ^ 40)" "size_unit ''GiB'' = Some (2 ^ 30)"
    "size_unit ''MiB'' = Some (2 ^ 20)" "size_unit ''KiB'' = Some (2 ^ 10)" "size_unit ''B'' = Some 1"
    by code_simp+
  show ?thesis
    using n assms s ParseByteSize_unit [of n "2 ^ 40" "''Ti''"] ParseByteSize_unit [of n "2 ^ 30" "''Gi''"]
      ParseByteSize_unit [of n "2 ^ 20" "''Mi''"] ParseByteSize_unit [of n "2 ^ 10" "''Ki''"]
      ParseByteSize_text [of n 1 "[]"]
    by (simp add: FormatByteSize_def size_text_def is_digit_def int_str_def)
qed

text \<open>Every byte size an int64 can hold without a sign is written so that ParseByteSize reads it back.\<close>

theorem FormatByteSize_roundtrip: "0 \<le> n \<Longrightarrow> n < 2 ^ 63 \<Longrightarrow> ParseByteSize (FormatByteSize n) = Inr n"
  by (rule Parse_FormatByteSize)

theorem FormatByteSize_roundtrip_witness: "ParseByteSize (FormatByteSize 1048576) = Inr 1048576"
  by (rule FormatByteSize_roundtrip) simp_all

text \<open>The least int64 is its own negation and gets two signs.\<close>

lemma FormatByteSize_min: "FormatByteSize min_i64 = ''--8388608TiB''"
  by code_simp

end
