(* ===== verification/Config_Decode.thy ===== *)
theory Config_Decode
  imports Config_Units
begin

text \<open>
  How a document becomes a state (decode.go, reserved.go): a YAML or JSON text is decoded to a
  tree, reserved keys are refused, defaults filled in, units converted, unknown keys refused, and
  the tree read into the structs of \<^verbatim>\<open>internal/model\<close>. The YAML library and the texts
  of the errors of encoding/json are the parameter \<open>libs\<close>.
\<close>

section \<open>What the code calls and does not contain\<close>

datatype ykind = YDocument | YMapping | YSequence | YScalar | YAlias

datatype ynode = YNode (y_kind: ykind) (y_anchor: string) (y_tag: string) (y_value: string) (y_content: "ynode list")

text \<open>
  What yaml.v3 makes of a text: the node of the first document or why there is none, whether
  the text ends after it, the error of decoding it into the struct with the four top-level
  fields, and the Go value it decodes to.
\<close>

datatype yfail = YEOF | YError string

record ydoc =
  yd_first :: "yfail + ynode"
  yd_ends :: bool
  yd_top :: "string option"
  yd_raw :: "string + json"

text \<open>What os.Stat says of a file.\<close>

datatype stat = StatOk | StatMissing | StatError string

record libs =
  lib_yaml :: "string \<Rightarrow> ydoc"
  lib_yaml_encode :: "ynode \<Rightarrow> string + string"
  lib_syntax_text :: "string \<Rightarrow> string"
  lib_marshal_text :: "json \<Rightarrow> string"
  lib_type_text :: "json \<Rightarrow> string"
  lib_resolves_udp :: "string \<Rightarrow> bool"
  lib_resolves_tcp :: "string \<Rightarrow> bool"
  lib_stat :: "string \<Rightarrow> stat"
  lib_read_file :: "string \<Rightarrow> string + string"
  lib_prefix_text :: "string \<Rightarrow> string"
  lib_time_text :: "string \<Rightarrow> string"

section \<open>reserved.go\<close>

definition reservedExact :: "(string \<times> string) list" where
  "reservedExact =
     [(''chrony'', ''implies wrapping chrony''),
      (''ntpd'', ''implies wrapping ntpd''),
      (''timesyncd'', ''implies wrapping systemd-timesyncd''),
      (''ptp'', ''implies IEEE 1588 / PTP''),
      (''broadcast'', ''implies NTP broadcast mode''),
      (''multicast'', ''implies NTP multicast mode''),
      (''pool'', ''implies NTP pool / anycast'')]"

definition reservedPrefixes :: "(string \<times> string) list" where
  "reservedPrefixes =
     [(''chrony'', ''implies wrapping chrony''),
      (''ntpd'', ''implies wrapping ntpd''),
      (''timesyncd'', ''implies wrapping systemd-timesyncd'')]"

definition normalizeKey :: "string \<Rightarrow> string" where
  "normalizeKey k =
     to_lower (filter (\<lambda>c. c \<noteq> CHR ''-'' \<and> c \<noteq> CHR ''_'') (dropWhile (\<lambda>c. c = CHR ''-'') k))"

definition reservedReason :: "string \<Rightarrow> string" where
  "reservedReason n =
     (case map_of reservedExact n of
        Some why \<Rightarrow> why
      | None \<Rightarrow> (case find (\<lambda>p. has_prefix n (fst p)) reservedPrefixes of Some p \<Rightarrow> snd p | None \<Rightarrow> []))"

definition isFreeFormStringMap :: "string \<Rightarrow> bool" where
  "isFreeFormStringMap path = (path = ''metadata.labels'' \<or> has_suffix path ''.labels'')"

definition em_dash :: string where
  "em_dash = [CHR 0xE2, CHR 0x80, CHR 0x94]"

definition reserved_violation :: "string \<Rightarrow> string \<Rightarrow> string \<Rightarrow> FieldViolation" where
  "reserved_violation p k why = violation p violationReservedName
     (''reserved key '' @ quote k @ '' '' @ why @ '' '' @ em_dash @ '' not a LabNTP surface'')"

fun reservedFields :: "json \<Rightarrow> string \<Rightarrow> FieldViolation list"
and reserved_members :: "(string \<times> json) list \<Rightarrow> string \<Rightarrow> FieldViolation list"
and reserved_items :: "json list \<Rightarrow> nat \<Rightarrow> string \<Rightarrow> FieldViolation list"
where
  "reservedFields (JObj m) path = (if isFreeFormStringMap path then [] else reserved_members m path)"
| "reservedFields (JArr xs) path = reserved_items xs 0 path"
| "reservedFields v path = []"
| "reserved_members [] path = []"
| "reserved_members ((k, child) # m) path =
     (let p = joinPath path k; why = reservedReason (normalizeKey k) in
      (if why \<noteq> [] then [reserved_violation p k why] else reservedFields child p)
      @ reserved_members m path)"
| "reserved_items [] i path = []"
| "reserved_items (x # xs) i path = reservedFields x (indexPath path i) @ reserved_items xs (i + 1) path"

section \<open>Defaults of a decoded tree\<close>

type_synonym obj = "(string \<times> json) list"

definition setDefault :: "string \<Rightarrow> json \<Rightarrow> obj \<Rightarrow> obj" where
  "setDefault key v m = (if map_of m key = None then put_key key v m else m)"

definition setDefaultAddress :: "string \<Rightarrow> obj \<Rightarrow> obj" where
  "setDefaultAddress def m =
     (case map_of m ''address'' of
        Some (JStr v) \<Rightarrow> if \<not> blank v then m else put_key ''address'' (JStr def) m
      | Some _ \<Rightarrow> m
      | None \<Rightarrow> put_key ''address'' (JStr def) m)"

text \<open>
  \<^verbatim>\<open>ensureMap\<close> and what is then done to the map it returns, which is the one in the
  parent. When it returns nil, setDefault and ensureMap do nothing on it.
\<close>

definition ensureMap :: "string \<Rightarrow> (obj \<Rightarrow> obj) \<Rightarrow> obj \<Rightarrow> obj" where
  "ensureMap key f m =
     (case map_of m key of
        Some (JObj c) \<Rightarrow> put_key key (JObj (f c)) m
      | Some JNull \<Rightarrow> put_key key (JObj (f [])) m
      | None \<Rightarrow> put_key key (JObj (f [])) m
      | Some _ \<Rightarrow> m)"

definition in_turn :: "('a \<Rightarrow> 'a) list \<Rightarrow> 'a \<Rightarrow> 'a" where
  "in_turn fs x = fold (\<lambda>f. f) fs x"

definition default_filter :: "json \<Rightarrow> json" where
  "default_filter item =
     (case item of
        JObj m \<Rightarrow> JObj (in_turn
          [setDefault ''enabled'' (JBool True),
           ensureMap ''view'' (in_turn
             [setDefault ''leap'' (JStr LeapNone),
              setDefault ''stratum'' (JInt DefaultStratum),
              setDefault ''precision'' (JInt DefaultPrecision)])] m)
      | _ \<Rightarrow> item)"

definition default_filters :: "obj \<Rightarrow> obj" where
  "default_filters spec =
     (case map_of spec ''filters'' of
        Some (JArr xs) \<Rightarrow> put_key ''filters'' (JArr (map default_filter xs)) spec
      | _ \<Rightarrow> spec)"

definition default_ntp :: "obj \<Rightarrow> obj" where
  "default_ntp = in_turn
     [setDefault ''versions'' (JArr [JInt 3, JInt 4]),
      setDefault ''serveMode'' (JStr ServeModeUnicast),
      ensureMap ''nts'' (setDefault ''enabled'' (JBool False)),
      ensureMap ''symmetricKeys'' (setDefault ''file'' (JStr [])),
      ensureMap ''restrict'' (in_turn [setDefault ''default'' (JStr RestrictServe), setDefault ''kod'' (JBool True)]),
      ensureMap ''admission'' (in_turn [setDefault ''maxPacketsPerSec'' (JInt DefaultMaxPacketsPerSec),
        setDefault ''maxPacketsPerIP'' (JInt DefaultMaxPacketsPerIP)]),
      ensureMap ''queryLog'' (setDefault ''size'' (JInt DefaultQueryLogSize))]"

definition default_spec :: "obj \<Rightarrow> obj" where
  "default_spec = in_turn
     [ensureMap ''listeners'' (in_turn
        [ensureMap ''ntp'' (setDefaultAddress DefaultNTPAddress),
         ensureMap ''management'' (in_turn
           [setDefaultAddress DefaultMgmtAddress,
            setDefault ''restPath'' (JStr DefaultRESTPath),
            setDefault ''mcpPath'' (JStr DefaultMCPPath)])]),
      ensureMap ''auth'' (in_turn
        [setDefault ''mode'' (JStr MgmtAuthBearer), setDefault ''tokens'' (JArr [])]),
      ensureMap ''ui'' (setDefault ''enabled'' (JBool True)),
      ensureMap ''management'' (in_turn
        [setDefault ''allowedOrigins'' (JArr []),
         ensureMap ''mcp'' (setDefault ''allowLegacyClients'' (JBool False)),
         setDefault ''bodyLimit'' (JStr ''1MiB''),
         setDefault ''requestsPerSecond'' (JInt cfgRequestsPerSecond),
         setDefault ''burst'' (JInt cfgBurst),
         setDefault ''maxConcurrent'' (JInt DefaultMaxConcurrent)]),
      ensureMap ''ntp'' default_ntp,
      default_filters,
      ensureMap ''observability'' (in_turn
        [setDefault ''logLevel'' (JStr LogLevelInfo),
         ensureMap ''metrics'' (in_turn
           [setDefault ''listen'' (JStr DefaultMetricsListen), setDefault ''publicPath'' (JBool False)]),
         ensureMap ''audit'' (setDefault ''ring'' (JInt DefaultAuditRing))])]"

text \<open>
  None is a panic: the default versions are written to the map of \<^verbatim>\<open>spec.ntp\<close> without
  a check, and that map is nil when the document has another value there.
\<close>

definition ntp_is_nil :: "obj \<Rightarrow> bool" where
  "ntp_is_nil spec =
     (case map_of spec ''ntp'' of None \<Rightarrow> False | Some JNull \<Rightarrow> False | Some (JObj _) \<Rightarrow> False | Some _ \<Rightarrow> True)"

definition applyDecodeDefaults :: "json \<Rightarrow> json option" where
  "applyDecodeDefaults v =
     (case v of
        JObj doc \<Rightarrow>
          (case map_of doc ''spec'' of
             Some (JObj spec) \<Rightarrow>
               if ntp_is_nil spec then None else Some (JObj (ensureMap ''spec'' default_spec doc))
           | _ \<Rightarrow> Some (JObj (ensureMap ''spec'' default_spec doc)))
      | _ \<Rightarrow> Some v)"

section \<open>Unknown keys\<close>

text \<open>The json names of a struct type, and the types below them; any other type is a leaf.\<close>

datatype gotype = TLeaf | TStruct "(string \<times> gotype) list" | TSlice gotype

definition view_type :: gotype where
  "view_type = TStruct
     [(''mode'', TLeaf), (''offset'', TLeaf), (''absolute'', TLeaf), (''freezeAt'', TLeaf), (''rate'', TLeaf),
      (''epoch'', TLeaf), (''leap'', TLeaf), (''stratum'', TLeaf), (''refid'', TLeaf), (''precision'', TLeaf),
      (''rootDelay'', TLeaf), (''rootDispersion'', TLeaf), (''jitter'', TLeaf), (''minpoll'', TLeaf), (''maxpoll'', TLeaf)]"

definition filter_type :: gotype where
  "filter_type = TStruct
     [(''name'', TLeaf), (''enabled'', TLeaf), (''match'', TStruct [(''cidrs'', TSlice TLeaf)]), (''view'', view_type)]"

definition ntp_type :: gotype where
  "ntp_type = TStruct
     [(''versions'', TSlice TLeaf), (''serveMode'', TLeaf), (''nts'', TStruct [(''enabled'', TLeaf)]),
      (''symmetricKeys'', TStruct [(''file'', TLeaf)]),
      (''restrict'', TStruct [(''default'', TLeaf), (''kod'', TLeaf)]),
      (''allowClientCidrs'', TSlice TLeaf),
      (''admission'', TStruct [(''maxPacketsPerSec'', TLeaf), (''maxPacketsPerIP'', TLeaf)]),
      (''queryLog'', TStruct [(''size'', TLeaf)])]"

definition spec_type :: gotype where
  "spec_type = TStruct
     [(''listeners'', TStruct [(''ntp'', TStruct [(''address'', TLeaf)]),
        (''management'', TStruct [(''address'', TLeaf), (''restPath'', TLeaf), (''mcpPath'', TLeaf)])]),
      (''auth'', TStruct [(''mode'', TLeaf), (''tokens'', TSlice (TStruct
        [(''id'', TLeaf), (''role'', TLeaf), (''secretFile'', TLeaf), (''scopes'', TSlice TLeaf)]))]),
      (''ntp'', ntp_type),
      (''filters'', TSlice filter_type),
      (''management'', TStruct [(''allowedOrigins'', TSlice TLeaf), (''mcp'', TStruct [(''allowLegacyClients'', TLeaf)]),
        (''bodyLimit'', TLeaf), (''requestsPerSecond'', TLeaf), (''burst'', TLeaf), (''maxConcurrent'', TLeaf)]),
      (''ui'', TStruct [(''enabled'', TLeaf)]),
      (''observability'', TStruct [(''logLevel'', TLeaf),
        (''metrics'', TStruct [(''listen'', TLeaf), (''publicPath'', TLeaf)]), (''audit'', TStruct [(''ring'', TLeaf)])])]"

definition state_type :: gotype where
  "state_type = TStruct
     [(''apiVersion'', TLeaf), (''kind'', TLeaf), (''metadata'', TStruct [(''name'', TLeaf), (''labels'', TLeaf)]),
      (''spec'', spec_type)]"

definition jsonFieldMap :: "gotype \<Rightarrow> string \<Rightarrow> gotype option" where
  "jsonFieldMap t k = (case t of TStruct fs \<Rightarrow> map_of fs k | _ \<Rightarrow> None)"

fun unknownFields :: "json \<Rightarrow> gotype \<Rightarrow> string \<Rightarrow> FieldViolation list"
and unknown_members :: "(string \<times> json) list \<Rightarrow> gotype \<Rightarrow> string \<Rightarrow> FieldViolation list"
and unknown_items :: "json list \<Rightarrow> gotype \<Rightarrow> nat \<Rightarrow> string \<Rightarrow> FieldViolation list"
where
  "unknownFields (JObj m) t path = (case t of TStruct _ \<Rightarrow> unknown_members m t path | _ \<Rightarrow> [])"
| "unknownFields (JArr xs) t path = (case t of TSlice e \<Rightarrow> unknown_items xs e 0 path | _ \<Rightarrow> [])"
| "unknownFields v t path = []"
| "unknown_members [] t path = []"
| "unknown_members ((k, child) # m) t path =
     (case jsonFieldMap t k of
        None \<Rightarrow> [violation (joinPath path k) violationUnknownField (''unknown field '' @ quote k)]
      | Some ft \<Rightarrow> unknownFields child ft (joinPath path k))
     @ unknown_members m t path"
| "unknown_items [] e i path = []"
| "unknown_items (x # xs) e i path =
     unknownFields x e (indexPath path i) @ unknown_items xs e (i + 1) path"

section \<open>YAML nodes\<close>

text \<open>A node is refused for aliases and anchors, merge keys, repeated keys and reserved keys.\<close>

fun inspectYAMLNode :: "ynode \<Rightarrow> string \<Rightarrow> FieldViolation list"
and inspect_pairs :: "ynode list \<Rightarrow> string list \<Rightarrow> string \<Rightarrow> FieldViolation list"
and inspect_all :: "ynode list \<Rightarrow> string \<Rightarrow> FieldViolation list"
and inspect_items :: "ynode list \<Rightarrow> nat \<Rightarrow> string \<Rightarrow> FieldViolation list"
where
  "inspectYAMLNode (YNode kind anchor tag value content) path =
     (if kind = YAlias \<or> anchor \<noteq> [] then [invalid path ''YAML aliases and anchors are not allowed'']
      else case kind of
        YDocument \<Rightarrow> inspect_all content path
      | YMapping \<Rightarrow> inspect_pairs content [] path
      | YSequence \<Rightarrow> inspect_items content 0 path
      | _ \<Rightarrow> [])"
| "inspect_pairs (k # v # rest) seen path =
     (let name = y_value k; p = joinPath path name in
      if name = ''<<'' then invalid p ''YAML merge keys are not allowed'' # inspect_pairs rest seen path
      else (if name \<in> set seen then [violation p violationDuplicateKey (''duplicate key '' @ quote name)] else [])
        @ (if \<not> isFreeFormStringMap path \<and> reservedReason (normalizeKey name) \<noteq> []
           then [reserved_violation p name (reservedReason (normalizeKey name))] else [])
        @ inspectYAMLNode k p @ inspectYAMLNode v p @ inspect_pairs rest (name # seen) path)"
| "inspect_pairs _ seen path = []"
| "inspect_all [] path = []"
| "inspect_all (c # cs) path = inspectYAMLNode c path @ inspect_all cs path"
| "inspect_items [] i path = []"
| "inspect_items (c # cs) i path = inspectYAMLNode c (indexPath path i) @ inspect_items cs (i + 1) path"

text \<open>Maps with any keys become maps with the texts of their keys; equal texts overwrite.\<close>

fun stringifyKeys :: "json \<Rightarrow> json" where
  "stringifyKeys (JObj m) = JObj (map (\<lambda>(k, v). (k, stringifyKeys v)) m)"
| "stringifyKeys (JAny m) = JObj (fold (\<lambda>(k, v). put_key k v) (map (\<lambda>(k, v). (k, stringifyKeys v)) m) [])"
| "stringifyKeys (JArr xs) = JArr (map stringifyKeys xs)"
| "stringifyKeys v = v"

end
