(* ===== verification/Config_State.thy ===== *)
theory Config_State
  imports Config_Decode Go_Net
begin

text \<open>
  The structs of \<^verbatim>\<open>internal/model\<close> as JSON, by their tags, in both directions, and on top
  of them the second half of decode.go: decodeRaw, decodeJSON, decodeYAML and Decode. A panic
  is None, an error \<open>Some (Inl e)\<close>.
\<close>

section \<open>Writing a struct\<close>

definition jstrs :: "string list \<Rightarrow> json" where
  "jstrs xs = JArr (map JStr xs)"

definition jslice :: "('a \<Rightarrow> json) \<Rightarrow> 'a slice \<Rightarrow> json" where
  "jslice f s = (case s of None \<Rightarrow> JNull | Some xs \<Rightarrow> JArr (map f xs))"

text \<open>A field with omitempty.\<close>

definition omit :: "bool \<Rightarrow> string \<Rightarrow> json \<Rightarrow> (string \<times> json) list" where
  "omit none k v = (if none then [] else [(k, v)])"

definition omit_nil :: "string \<Rightarrow> ('a \<Rightarrow> json) \<Rightarrow> 'a option \<Rightarrow> (string \<times> json) list" where
  "omit_nil k f p = (case p of None \<Rightarrow> [] | Some x \<Rightarrow> [(k, f x)])"

definition token_json :: "TokenSpec \<Rightarrow> json" where
  "token_json t = JObj ([(''id'', JStr (tok_id t)), (''role'', JStr (tok_role t)), (''secretFile'', JStr (tok_secretFile t))]
     @ omit (tok_scopes t = []) ''scopes'' (jstrs (tok_scopes t)))"

definition view_json :: "ViewSpec \<Rightarrow> json" where
  "view_json v = JObj
     ([(''mode'', JStr (vs_mode v)), (''offset'', JInt (vs_offset v))]
      @ omit (vs_absolute v = []) ''absolute'' (JStr (vs_absolute v))
      @ omit (vs_freezeAt v = []) ''freezeAt'' (JStr (vs_freezeAt v))
      @ omit_nil ''rate'' JFloat (vs_rate v)
      @ omit (vs_epoch v = []) ''epoch'' (JStr (vs_epoch v))
      @ [(''leap'', JStr (vs_leap v)), (''stratum'', JInt (vs_stratum v)), (''refid'', JStr (vs_refid v)),
         (''precision'', JInt (vs_precision v)), (''rootDelay'', JInt (vs_rootDelay v)),
         (''rootDispersion'', JInt (vs_rootDispersion v)), (''jitter'', JInt (vs_jitter v))]
      @ omit_nil ''minpoll'' JInt (vs_minpoll v)
      @ omit_nil ''maxpoll'' JInt (vs_maxpoll v))"

definition filter_json :: "FilterSpec \<Rightarrow> json" where
  "filter_json f = JObj [(''name'', JStr (fs_name f)), (''enabled'', JBool (fs_enabled f)),
     (''match'', JObj [(''cidrs'', jslice JStr (fs_cidrs f))]), (''view'', view_json (fs_view f))]"

definition restrict_json :: "RestrictSpec \<Rightarrow> json" where
  "restrict_json r = JObj [(''default'', JStr (rs_default r)), (''kod'', JBool (rs_kod r))]"

definition admission_json :: "NTPAdmissionSpec \<Rightarrow> json" where
  "admission_json a = JObj [(''maxPacketsPerSec'', JInt (ad_maxPacketsPerSec a)),
     (''maxPacketsPerIP'', JInt (ad_maxPacketsPerIP a))]"

definition ntp_json :: "NTPSpec \<Rightarrow> json" where
  "ntp_json n = JObj
     [(''versions'', jslice JInt (n_versions n)), (''serveMode'', JStr (n_serveMode n)),
      (''nts'', JObj [(''enabled'', JBool (n_ntsEnabled n))]),
      (''symmetricKeys'', JObj [(''file'', JStr (n_keysFile n))]),
      (''restrict'', restrict_json (n_restrict n)),
      (''allowClientCidrs'', jslice JStr (n_allowClientCidrs n)),
      (''admission'', admission_json (n_admission n)),
      (''queryLog'', JObj [(''size'', JInt (n_queryLogSize n))])]"

definition listeners_json :: "ListenersSpec \<Rightarrow> json" where
  "listeners_json l = JObj
     [(''ntp'', JObj [(''address'', JStr (l_ntpAddress l))]),
      (''management'', JObj [(''address'', JStr (ml_address (l_management l))),
        (''restPath'', JStr (ml_restPath (l_management l))), (''mcpPath'', JStr (ml_mcpPath (l_management l)))])]"

definition auth_json :: "AuthSpec \<Rightarrow> json" where
  "auth_json a = JObj [(''mode'', JStr (au_mode a)), (''tokens'', jslice token_json (au_tokens a))]"

definition management_json :: "ManagementSpec \<Rightarrow> json" where
  "management_json m = JObj
     [(''allowedOrigins'', jslice JStr (mg_allowedOrigins m)),
      (''mcp'', JObj [(''allowLegacyClients'', JBool (mg_allowLegacyClients m))]),
      (''bodyLimit'', JInt (mg_bodyLimit m)), (''requestsPerSecond'', JInt (mg_requestsPerSecond m)),
      (''burst'', JInt (mg_burst m)), (''maxConcurrent'', JInt (mg_maxConcurrent m))]"

definition observability_json :: "ObservabilitySpec \<Rightarrow> json" where
  "observability_json b = JObj
     [(''logLevel'', JStr (ob_logLevel b)),
      (''metrics'', JObj [(''listen'', JStr (ob_metricsListen b)), (''publicPath'', JBool (ob_publicPath b))]),
      (''audit'', JObj [(''ring'', JInt (ob_auditRing b))])]"

definition spec_json :: "Spec \<Rightarrow> json" where
  "spec_json s = JObj
     [(''listeners'', listeners_json (sp_listeners s)), (''auth'', auth_json (sp_auth s)),
      (''ntp'', ntp_json (sp_ntp s)), (''filters'', jslice filter_json (sp_filters s)),
      (''management'', management_json (sp_management s)),
      (''ui'', JObj [(''enabled'', JBool (sp_uiEnabled s))]),
      (''observability'', observability_json (sp_observability s))]"

definition state_json :: "State \<Rightarrow> json" where
  "state_json st = JObj
     [(''apiVersion'', JStr (st_apiVersion st)), (''kind'', JStr (st_kind st)),
      (''metadata'', JObj ([(''name'', JStr (st_name st))]
        @ omit (st_labels st = []) ''labels'' (JObj (map (\<lambda>(k, v). (k, JStr v)) (st_labels st))))),
      (''spec'', spec_json (st_spec st))]"

section \<open>Reading a struct\<close>

text \<open>
  What json.Unmarshal stores from the marshalled tree; None when some value does not fit its
  field. A missing key and null leave the zero value. A string went through the marshaller; a
  double was written in its shortest form, which reads back as the same double.
\<close>

definition dfield :: "(string \<times> json) list \<Rightarrow> string \<Rightarrow> 'a \<Rightarrow> (json \<Rightarrow> 'a option) \<Rightarrow> 'a option" where
  "dfield m k z d =
     (case map_of m k of None \<Rightarrow> Some z | Some v \<Rightarrow> if v = JNull then Some z else d v)"

definition as_obj :: "((string \<times> json) list \<Rightarrow> 'a option) \<Rightarrow> json \<Rightarrow> 'a option" where
  "as_obj f v = (case v of JObj m \<Rightarrow> f m | _ \<Rightarrow> None)"

definition as_str :: "json \<Rightarrow> string option" where
  "as_str v = (case v of JStr s \<Rightarrow> Some (utf8_fix s) | JText s \<Rightarrow> Some (utf8_fix s) | _ \<Rightarrow> None)"

definition as_bool :: "json \<Rightarrow> bool option" where
  "as_bool v = (case v of JBool b \<Rightarrow> Some b | _ \<Rightarrow> None)"

definition as_int :: "json \<Rightarrow> int option" where
  "as_int v =
     (case v of
        JNum t \<Rightarrow> num_int t
      | JInt n \<Rightarrow> if i64 n then Some n else None
      | JFloat (Fin q) \<Rightarrow> num_int (float_text q)
      | _ \<Rightarrow> None)"

definition as_float :: "json \<Rightarrow> float64 option" where
  "as_float v =
     (case v of JNum t \<Rightarrow> num_float t | JInt n \<Rightarrow> num_float (int_str n) | JFloat f \<Rightarrow> Some f | _ \<Rightarrow> None)"

fun all_some :: "'a option list \<Rightarrow> 'a list option" where
  "all_some [] = Some []"
| "all_some (x # xs) = opt_bind x (\<lambda>a. opt_bind (all_some xs) (\<lambda>as. Some (a # as)))"

definition as_list :: "'a \<Rightarrow> (json \<Rightarrow> 'a option) \<Rightarrow> json \<Rightarrow> 'a list option" where
  "as_list z d v =
     (case v of
        JArr xs \<Rightarrow> all_some (map (\<lambda>x. if x = JNull then Some z else d x) xs)
      | _ \<Rightarrow> None)"

definition as_slice :: "'a \<Rightarrow> (json \<Rightarrow> 'a option) \<Rightarrow> json \<Rightarrow> 'a slice option" where
  "as_slice z d v = map_option Some (as_list z d v)"

definition as_ptr :: "(json \<Rightarrow> 'a option) \<Rightarrow> json \<Rightarrow> 'a option option" where
  "as_ptr d v = map_option Some (d v)"

text \<open>
  The keys of a map are written in order; after the replacement of bad bytes a later one wins.
  Labels are kept in the order of their keys, which stands for a map without order.
\<close>

definition as_labels :: "json \<Rightarrow> (string \<times> string) list option" where
  "as_labels v =
     (case v of
        JObj m \<Rightarrow> map_option (\<lambda>kvs. sort_key fst (fold (\<lambda>(k, s). put_key k s) kvs []))
          (all_some (map (\<lambda>(k, x). map_option (Pair (utf8_fix k)) (if x = JNull then Some [] else as_str x))
             (sort_key fst m)))
      | _ \<Rightarrow> None)"

definition zero_token :: TokenSpec where
  "zero_token = \<lparr>tok_id = [], tok_role = [], tok_secretFile = [], tok_scopes = []\<rparr>"

definition as_token :: "json \<Rightarrow> TokenSpec option" where
  "as_token = as_obj (\<lambda>m.
     opt_bind (dfield m ''id'' [] as_str) (\<lambda>a. opt_bind (dfield m ''role'' [] as_str) (\<lambda>b.
     opt_bind (dfield m ''secretFile'' [] as_str) (\<lambda>c.
     opt_bind (dfield m ''scopes'' [] (as_list [] as_str)) (\<lambda>d.
       Some \<lparr>tok_id = a, tok_role = b, tok_secretFile = c, tok_scopes = d\<rparr>)))))"

definition zero_viewspec :: ViewSpec where
  "zero_viewspec = \<lparr>vs_mode = [], vs_offset = 0, vs_absolute = [], vs_freezeAt = [], vs_rate = None, vs_epoch = [],
     vs_leap = [], vs_stratum = 0, vs_refid = [], vs_precision = 0, vs_rootDelay = 0, vs_rootDispersion = 0,
     vs_jitter = 0, vs_minpoll = None, vs_maxpoll = None\<rparr>"

definition as_view :: "json \<Rightarrow> ViewSpec option" where
  "as_view = as_obj (\<lambda>m.
     opt_bind (dfield m ''mode'' [] as_str) (\<lambda>mode. opt_bind (dfield m ''offset'' 0 as_int) (\<lambda>off.
     opt_bind (dfield m ''absolute'' [] as_str) (\<lambda>ab. opt_bind (dfield m ''freezeAt'' [] as_str) (\<lambda>fr.
     opt_bind (dfield m ''rate'' None (as_ptr as_float)) (\<lambda>ra. opt_bind (dfield m ''epoch'' [] as_str) (\<lambda>ep.
     opt_bind (dfield m ''leap'' [] as_str) (\<lambda>le. opt_bind (dfield m ''stratum'' 0 as_int) (\<lambda>sm.
     opt_bind (dfield m ''refid'' [] as_str) (\<lambda>ri. opt_bind (dfield m ''precision'' 0 as_int) (\<lambda>pr.
     opt_bind (dfield m ''rootDelay'' 0 as_int) (\<lambda>rd. opt_bind (dfield m ''rootDispersion'' 0 as_int) (\<lambda>rp.
     opt_bind (dfield m ''jitter'' 0 as_int) (\<lambda>ji. opt_bind (dfield m ''minpoll'' None (as_ptr as_int)) (\<lambda>mi.
     opt_bind (dfield m ''maxpoll'' None (as_ptr as_int)) (\<lambda>ma.
       Some \<lparr>vs_mode = mode, vs_offset = off, vs_absolute = ab, vs_freezeAt = fr, vs_rate = ra, vs_epoch = ep,
         vs_leap = le, vs_stratum = sm, vs_refid = ri, vs_precision = pr, vs_rootDelay = rd, vs_rootDispersion = rp,
         vs_jitter = ji, vs_minpoll = mi, vs_maxpoll = ma\<rparr>))))))))))))))))"

definition zero_filter :: FilterSpec where
  "zero_filter = \<lparr>fs_name = [], fs_enabled = False, fs_cidrs = None, fs_view = zero_viewspec\<rparr>"

definition as_filter :: "json \<Rightarrow> FilterSpec option" where
  "as_filter = as_obj (\<lambda>m.
     opt_bind (dfield m ''name'' [] as_str) (\<lambda>n. opt_bind (dfield m ''enabled'' False as_bool) (\<lambda>e.
     opt_bind (dfield m ''match'' None (as_obj (\<lambda>q. dfield q ''cidrs'' None (as_slice [] as_str)))) (\<lambda>c.
     opt_bind (dfield m ''view'' zero_viewspec as_view) (\<lambda>v.
       Some \<lparr>fs_name = n, fs_enabled = e, fs_cidrs = c, fs_view = v\<rparr>)))))"

definition zero_mgmtListener :: MgmtListenerSpec where
  "zero_mgmtListener = \<lparr>ml_address = [], ml_restPath = [], ml_mcpPath = []\<rparr>"

definition as_mgmtListener :: "json \<Rightarrow> MgmtListenerSpec option" where
  "as_mgmtListener = as_obj (\<lambda>m.
     opt_bind (dfield m ''address'' [] as_str) (\<lambda>a. opt_bind (dfield m ''restPath'' [] as_str) (\<lambda>r.
     opt_bind (dfield m ''mcpPath'' [] as_str) (\<lambda>p. Some \<lparr>ml_address = a, ml_restPath = r, ml_mcpPath = p\<rparr>))))"

definition zero_listeners :: ListenersSpec where
  "zero_listeners = \<lparr>l_ntpAddress = [], l_management = zero_mgmtListener\<rparr>"

definition as_listeners :: "json \<Rightarrow> ListenersSpec option" where
  "as_listeners = as_obj (\<lambda>m.
     opt_bind (dfield m ''ntp'' [] (as_obj (\<lambda>q. dfield q ''address'' [] as_str))) (\<lambda>n.
     opt_bind (dfield m ''management'' zero_mgmtListener as_mgmtListener) (\<lambda>g.
       Some \<lparr>l_ntpAddress = n, l_management = g\<rparr>)))"

definition zero_auth :: AuthSpec where
  "zero_auth = \<lparr>au_mode = [], au_tokens = None\<rparr>"

definition as_auth :: "json \<Rightarrow> AuthSpec option" where
  "as_auth = as_obj (\<lambda>m.
     opt_bind (dfield m ''mode'' [] as_str) (\<lambda>a.
     opt_bind (dfield m ''tokens'' None (as_slice zero_token as_token)) (\<lambda>t.
       Some \<lparr>au_mode = a, au_tokens = t\<rparr>)))"

definition zero_restrict :: RestrictSpec where
  "zero_restrict = \<lparr>rs_default = [], rs_kod = False\<rparr>"

definition as_restrict :: "json \<Rightarrow> RestrictSpec option" where
  "as_restrict = as_obj (\<lambda>m.
     opt_bind (dfield m ''default'' [] as_str) (\<lambda>d. opt_bind (dfield m ''kod'' False as_bool) (\<lambda>k.
       Some \<lparr>rs_default = d, rs_kod = k\<rparr>)))"

definition zero_admission :: NTPAdmissionSpec where
  "zero_admission = \<lparr>ad_maxPacketsPerSec = 0, ad_maxPacketsPerIP = 0\<rparr>"

definition as_admission :: "json \<Rightarrow> NTPAdmissionSpec option" where
  "as_admission = as_obj (\<lambda>m.
     opt_bind (dfield m ''maxPacketsPerSec'' 0 as_int) (\<lambda>a. opt_bind (dfield m ''maxPacketsPerIP'' 0 as_int) (\<lambda>b.
       Some \<lparr>ad_maxPacketsPerSec = a, ad_maxPacketsPerIP = b\<rparr>)))"

definition zero_ntp :: NTPSpec where
  "zero_ntp = \<lparr>n_versions = None, n_serveMode = [], n_ntsEnabled = False, n_keysFile = [], n_restrict = zero_restrict,
     n_allowClientCidrs = None, n_admission = zero_admission, n_queryLogSize = 0\<rparr>"

definition as_ntp :: "json \<Rightarrow> NTPSpec option" where
  "as_ntp = as_obj (\<lambda>m.
     opt_bind (dfield m ''versions'' None (as_slice 0 as_int)) (\<lambda>v.
     opt_bind (dfield m ''serveMode'' [] as_str) (\<lambda>s.
     opt_bind (dfield m ''nts'' False (as_obj (\<lambda>q. dfield q ''enabled'' False as_bool))) (\<lambda>t.
     opt_bind (dfield m ''symmetricKeys'' [] (as_obj (\<lambda>q. dfield q ''file'' [] as_str))) (\<lambda>k.
     opt_bind (dfield m ''restrict'' zero_restrict as_restrict) (\<lambda>r.
     opt_bind (dfield m ''allowClientCidrs'' None (as_slice [] as_str)) (\<lambda>c.
     opt_bind (dfield m ''admission'' zero_admission as_admission) (\<lambda>a.
     opt_bind (dfield m ''queryLog'' 0 (as_obj (\<lambda>q. dfield q ''size'' 0 as_int))) (\<lambda>l.
       Some \<lparr>n_versions = v, n_serveMode = s, n_ntsEnabled = t, n_keysFile = k, n_restrict = r,
         n_allowClientCidrs = c, n_admission = a, n_queryLogSize = l\<rparr>)))))))))"

definition zero_management :: ManagementSpec where
  "zero_management = \<lparr>mg_allowedOrigins = None, mg_allowLegacyClients = False, mg_bodyLimit = 0,
     mg_requestsPerSecond = 0, mg_burst = 0, mg_maxConcurrent = 0\<rparr>"

definition as_management :: "json \<Rightarrow> ManagementSpec option" where
  "as_management = as_obj (\<lambda>m.
     opt_bind (dfield m ''allowedOrigins'' None (as_slice [] as_str)) (\<lambda>o'.
     opt_bind (dfield m ''mcp'' False (as_obj (\<lambda>q. dfield q ''allowLegacyClients'' False as_bool))) (\<lambda>l.
     opt_bind (dfield m ''bodyLimit'' 0 as_int) (\<lambda>b. opt_bind (dfield m ''requestsPerSecond'' 0 as_int) (\<lambda>r.
     opt_bind (dfield m ''burst'' 0 as_int) (\<lambda>u. opt_bind (dfield m ''maxConcurrent'' 0 as_int) (\<lambda>c.
       Some \<lparr>mg_allowedOrigins = o', mg_allowLegacyClients = l, mg_bodyLimit = b, mg_requestsPerSecond = r,
         mg_burst = u, mg_maxConcurrent = c\<rparr>)))))))"

definition zero_observability :: ObservabilitySpec where
  "zero_observability = \<lparr>ob_logLevel = [], ob_metricsListen = [], ob_publicPath = False, ob_auditRing = 0\<rparr>"

definition as_metrics :: "json \<Rightarrow> (string \<times> bool) option" where
  "as_metrics = as_obj (\<lambda>m.
     opt_bind (dfield m ''listen'' [] as_str) (\<lambda>a. opt_bind (dfield m ''publicPath'' False as_bool) (\<lambda>b. Some (a, b))))"

definition as_observability :: "json \<Rightarrow> ObservabilitySpec option" where
  "as_observability = as_obj (\<lambda>m.
     opt_bind (dfield m ''logLevel'' [] as_str) (\<lambda>a.
     opt_bind (dfield m ''metrics'' ([], False) as_metrics) (\<lambda>t.
     opt_bind (dfield m ''audit'' 0 (as_obj (\<lambda>q. dfield q ''ring'' 0 as_int))) (\<lambda>r.
       Some \<lparr>ob_logLevel = a, ob_metricsListen = fst t, ob_publicPath = snd t, ob_auditRing = r\<rparr>))))"

definition zero_spec :: Spec where
  "zero_spec = \<lparr>sp_listeners = zero_listeners, sp_auth = zero_auth, sp_ntp = zero_ntp, sp_filters = None,
     sp_management = zero_management, sp_uiEnabled = False, sp_observability = zero_observability\<rparr>"

definition as_spec :: "json \<Rightarrow> Spec option" where
  "as_spec = as_obj (\<lambda>m.
     opt_bind (dfield m ''listeners'' zero_listeners as_listeners) (\<lambda>l.
     opt_bind (dfield m ''auth'' zero_auth as_auth) (\<lambda>a.
     opt_bind (dfield m ''ntp'' zero_ntp as_ntp) (\<lambda>n.
     opt_bind (dfield m ''filters'' None (as_slice zero_filter as_filter)) (\<lambda>f.
     opt_bind (dfield m ''management'' zero_management as_management) (\<lambda>g.
     opt_bind (dfield m ''ui'' False (as_obj (\<lambda>q. dfield q ''enabled'' False as_bool))) (\<lambda>u.
     opt_bind (dfield m ''observability'' zero_observability as_observability) (\<lambda>b.
       Some \<lparr>sp_listeners = l, sp_auth = a, sp_ntp = n, sp_filters = f, sp_management = g, sp_uiEnabled = u,
         sp_observability = b\<rparr>))))))))"

definition as_metadata :: "json \<Rightarrow> (string \<times> (string \<times> string) list) option" where
  "as_metadata = as_obj (\<lambda>m.
     opt_bind (dfield m ''name'' [] as_str) (\<lambda>n. opt_bind (dfield m ''labels'' [] as_labels) (\<lambda>l. Some (n, l))))"

definition zero_state :: State where
  "zero_state = \<lparr>st_apiVersion = [], st_kind = [], st_name = [], st_labels = [], st_spec = zero_spec\<rparr>"

definition as_state :: "json \<Rightarrow> State option" where
  "as_state v = (if v = JNull then Some zero_state else as_obj (\<lambda>m.
     opt_bind (dfield m ''apiVersion'' [] as_str) (\<lambda>a. opt_bind (dfield m ''kind'' [] as_str) (\<lambda>k.
     opt_bind (dfield m ''metadata'' ([], []) as_metadata) (\<lambda>d.
     opt_bind (dfield m ''spec'' zero_spec as_spec) (\<lambda>s.
       Some \<lparr>st_apiVersion = a, st_kind = k, st_name = fst d, st_labels = snd d, st_spec = s\<rparr>))))) v)"

section \<open>Decoding a document\<close>

definition mapJSONDecodeError :: "string \<Rightarrow> Error" where
  "mapJSONDecodeError msg =
     (if str_contains msg ''unknown field'' then
        (let field = (case (first_index CHR 0x22 msg, last_index CHR 0x22 msg) of
                        (Some i, Some j) \<Rightarrow> if i < j then take (j - (i + 1)) (drop (i + 1) msg) else msg
                      | _ \<Rightarrow> msg)
         in ValidationFailed ''unknown fields'' [violation field violationUnknownField ''unknown field''])
      else ValidationFailed ''JSON decode failed'' [invalid [] msg])"

definition mapYAMLKnownFieldsError :: "string \<Rightarrow> Error" where
  "mapYAMLKnownFieldsError msg =
     (if str_contains msg ''not found'' \<or> str_contains msg ''unknown field'' then
        (let field = (case first_index CHR 0x22 msg of
                        None \<Rightarrow> msg
                      | Some i \<Rightarrow> (case first_index CHR 0x22 (drop (i + 1) msg) of
                            None \<Rightarrow> msg | Some j \<Rightarrow> take j (drop (i + 1) msg)))
         in ValidationFailed ''unknown fields'' [violation field violationUnknownField (''unknown field '' @ quote field)])
      else ValidationFailed ''YAML decode failed'' [invalid [] msg])"

text \<open>The steps after the defaults are in: units, unknown keys, and the structs.\<close>

definition decode_filled :: "libs \<Rightarrow> json \<Rightarrow> Error + State" where
  "decode_filled L t0 =
     (let t1 = fst (convertDurations t0 []); ds = snd (convertDurations t0 []);
          t2 = fst (convertByteSizes t1 []); bs = snd (convertByteSizes t1 []);
          us = unknownFields t2 state_type []
      in if ds \<noteq> [] then Inl (ValidationFailed ''invalid durations'' ds)
         else if bs \<noteq> [] then Inl (ValidationFailed ''invalid byte sizes'' bs)
         else if us \<noteq> [] then Inl (ValidationFailed ''unknown fields'' us)
         else if \<not> marshals t2
         then Inl (ValidationFailed ''re-encode failed'' [invalid [] (lib_marshal_text L t2)])
         else (case as_state t2 of
             None \<Rightarrow> Inl (mapJSONDecodeError (lib_type_text L t2))
           | Some st \<Rightarrow> Inr st))"

definition decodeRaw :: "libs \<Rightarrow> json \<Rightarrow> (Error + State) option" where
  "decodeRaw L raw =
     (let rs = reservedFields raw [] in
      if rs \<noteq> [] then Some (Inl (ValidationFailed ''reserved fields'' rs))
      else map_option (decode_filled L) (applyDecodeDefaults raw))"

definition decodeJSON :: "libs \<Rightarrow> string \<Rightarrow> (Error + State) option" where
  "decodeJSON L data =
     (case json_decode data of
        None \<Rightarrow> Some (Inl (ValidationFailed ''JSON decode failed'' [invalid [] (lib_syntax_text L data)]))
      | Some (raw, rest) \<Rightarrow>
          if dec_more rest
          then Some (Inl (ValidationFailed ''trailing JSON value''
            [invalid [] ''document contains more than one JSON value'']))
          else decodeRaw L raw)"

definition empty_document :: Error where
  "empty_document = ValidationFailed ''empty document'' [violation [] violationRequired ''document is empty'']"

definition decodeYAML :: "libs \<Rightarrow> string \<Rightarrow> (Error + State) option" where
  "decodeYAML L data =
     (let d = lib_yaml L data in
      case yd_first d of
        Inl YEOF \<Rightarrow> Some (Inl empty_document)
      | Inl (YError msg) \<Rightarrow> Some (Inl (mapYAMLKnownFieldsError msg))
      | Inr node \<Rightarrow>
          if \<not> yd_ends d
          then Some (Inl (ValidationFailed ''trailing YAML document''
            [invalid [] ''document contains more than one YAML value'']))
          else let vs = inspectYAMLNode node [] in
          if vs \<noteq> [] then Some (Inl (ValidationFailed ''invalid YAML document'' vs))
          else (case yd_top d of
              Some msg \<Rightarrow> Some (Inl (mapYAMLKnownFieldsError msg))
            | None \<Rightarrow>
                (case yd_raw d of
                   Inl msg \<Rightarrow> Some (Inl (ValidationFailed ''YAML decode failed'' [invalid [] msg]))
                 | Inr raw \<Rightarrow> decodeRaw L (stringifyKeys raw))))"

definition stripBOM :: "string \<Rightarrow> string" where
  "stripBOM data =
     (if has_prefix data [CHR 0xEF, CHR 0xBB, CHR 0xBF] then drop 3 data else data)"

definition looksLikeJSON :: "string \<Rightarrow> bool" where
  "looksLikeJSON data =
     (let d = trim_space data in d \<noteq> [] \<and> (hd d = CHR ''{'' \<or> hd d = CHR ''[''))"

definition Decode :: "libs \<Rightarrow> string \<Rightarrow> (Error + State) option" where
  "Decode L data0 =
     (if MaxDocumentBytes < length data0
      then Some (Inl (ValidationFailed ''document exceeds size limit''
        [violation [] violationTooLarge
          (''document is '' @ nat_str (length data0) @ '' bytes; max is '' @ nat_str MaxDocumentBytes)]))
      else let data = stripBOM (trim_space data0) in
      if data = [] then Some (Inl empty_document)
      else if \<not> utf8_valid data
      then Some (Inl (ValidationFailed ''document is not UTF-8'' [invalid [] ''document must be UTF-8'']))
      else if looksLikeJSON data then decodeJSON L data
      else decodeYAML L data)"

end
