(* ===== verification/Config_Roundtrip.thy ===== *)
theory Config_Roundtrip
  imports Config_State
begin

text \<open>
  A state that a program can hold (every string valid UTF-8, every number an int64, labels in
  the order of their keys) is what comes back when it is written as JSON and read again; and what
  a document decodes to is such a state.
\<close>

section \<open>States a program can hold\<close>

definition strs_ok :: "string slice \<Rightarrow> bool" where
  "strs_ok s = list_all utf8_valid (elems s)"

definition token_ok :: "TokenSpec \<Rightarrow> bool" where
  "token_ok t = (utf8_valid (tok_id t) \<and> utf8_valid (tok_role t) \<and> utf8_valid (tok_secretFile t)
     \<and> list_all utf8_valid (tok_scopes t))"

definition viewspec_ok :: "ViewSpec \<Rightarrow> bool" where
  "viewspec_ok v = (utf8_valid (vs_mode v) \<and> i64 (vs_offset v) \<and> utf8_valid (vs_absolute v)
     \<and> utf8_valid (vs_freezeAt v) \<and> utf8_valid (vs_epoch v) \<and> utf8_valid (vs_leap v) \<and> i64 (vs_stratum v)
     \<and> utf8_valid (vs_refid v) \<and> i64 (vs_precision v) \<and> i64 (vs_rootDelay v) \<and> i64 (vs_rootDispersion v)
     \<and> i64 (vs_jitter v) \<and> pred_option i64 (vs_minpoll v) \<and> pred_option i64 (vs_maxpoll v))"

definition filter_ok :: "FilterSpec \<Rightarrow> bool" where
  "filter_ok f = (utf8_valid (fs_name f) \<and> strs_ok (fs_cidrs f) \<and> viewspec_ok (fs_view f))"

definition ntp_ok :: "NTPSpec \<Rightarrow> bool" where
  "ntp_ok n = (list_all i64 (elems (n_versions n)) \<and> utf8_valid (n_serveMode n) \<and> utf8_valid (n_keysFile n)
     \<and> utf8_valid (rs_default (n_restrict n)) \<and> strs_ok (n_allowClientCidrs n)
     \<and> i64 (ad_maxPacketsPerSec (n_admission n)) \<and> i64 (ad_maxPacketsPerIP (n_admission n)) \<and> i64 (n_queryLogSize n))"

definition spec_ok :: "Spec \<Rightarrow> bool" where
  "spec_ok s = (utf8_valid (l_ntpAddress (sp_listeners s)) \<and> utf8_valid (ml_address (l_management (sp_listeners s)))
     \<and> utf8_valid (ml_restPath (l_management (sp_listeners s))) \<and> utf8_valid (ml_mcpPath (l_management (sp_listeners s)))
     \<and> utf8_valid (au_mode (sp_auth s)) \<and> list_all token_ok (elems (au_tokens (sp_auth s)))
     \<and> ntp_ok (sp_ntp s) \<and> list_all filter_ok (elems (sp_filters s))
     \<and> strs_ok (mg_allowedOrigins (sp_management s)) \<and> i64 (mg_bodyLimit (sp_management s))
     \<and> i64 (mg_requestsPerSecond (sp_management s)) \<and> i64 (mg_burst (sp_management s))
     \<and> i64 (mg_maxConcurrent (sp_management s)) \<and> utf8_valid (ob_logLevel (sp_observability s))
     \<and> utf8_valid (ob_metricsListen (sp_observability s)) \<and> i64 (ob_auditRing (sp_observability s)))"

definition labels_ok :: "(string \<times> string) list \<Rightarrow> bool" where
  "labels_ok l = (sorted (map fst l) \<and> distinct (map fst l) \<and> list_all (\<lambda>(k, v). utf8_valid k \<and> utf8_valid v) l)"

definition state_ok :: "State \<Rightarrow> bool" where
  "state_ok st = (utf8_valid (st_apiVersion st) \<and> utf8_valid (st_kind st) \<and> utf8_valid (st_name st)
     \<and> labels_ok (st_labels st) \<and> spec_ok (st_spec st))"

section \<open>Reading what was written\<close>

declare map_of_append [simp del]

lemma map_of_omit [simp]:
  "map_of (omit e k v @ m) k' = (if k' = k then if e then map_of m k' else Some v else map_of m k')"
  by (simp add: omit_def)

lemma map_of_omit_last [simp]: "map_of (omit e k v) k' = (if k' = k then if e then None else Some v else None)"
  by (simp add: omit_def)

lemma map_of_omit_nil [simp]:
  "map_of (omit_nil k f p @ m) k' =
     (if k' = k then (case p of None \<Rightarrow> map_of m k' | Some x \<Rightarrow> Some (f x)) else map_of m k')"
  by (simp add: omit_nil_def split: option.splits)

lemma map_of_omit_nil_last [simp]:
  "map_of (omit_nil k f p) k' = (if k' = k then map_option f p else None)"
  by (simp add: omit_nil_def split: option.splits)

lemma as_prims [simp]:
  "utf8_valid s \<Longrightarrow> as_str (JStr s) = Some s"
  "as_bool (JBool b) = Some b"
  "i64 n \<Longrightarrow> as_int (JInt n) = Some n"
  "as_float (JFloat x) = Some x"
  "as_obj f (JObj m) = f m"
  by (simp_all add: as_str_def as_bool_def as_int_def as_float_def as_obj_def)

lemma dfield_present: "map_of m k = Some v \<Longrightarrow> v \<noteq> JNull \<Longrightarrow> dfield m k z d = d v"
  by (simp add: dfield_def)

lemma dfield_str' [simp]: "map_of m k = Some (JStr s) \<Longrightarrow> utf8_valid s \<Longrightarrow> dfield m k z as_str = Some s"
  by (simp add: dfield_def)

lemma dfield_int [simp]: "map_of m k = Some (JInt n) \<Longrightarrow> i64 n \<Longrightarrow> dfield m k z as_int = Some n"
  by (simp add: dfield_def)

lemma dfield_bool [simp]: "map_of m k = Some (JBool b) \<Longrightarrow> dfield m k z as_bool = Some b"
  by (simp add: dfield_def)

lemma dfield_obj [simp]: "map_of m k = Some (JObj q) \<Longrightarrow> dfield m k z d = d (JObj q)"
  by (simp add: dfield_def)

lemma dfield_ptr:
  assumes "map_of m k = map_option f p" "\<And>x. p = Some x \<Longrightarrow> f x \<noteq> JNull \<and> d (f x) = Some x"
  shows "dfield m k None (as_ptr d) = Some p"
  using assms by (cases p) (auto simp: dfield_def as_ptr_def)

lemma all_some_map: "list_all (\<lambda>x. f x = Some x) xs \<Longrightarrow> all_some (map f xs) = Some xs"
  by (induction xs) auto

lemma as_list_map:
  "list_all (\<lambda>x. w x \<noteq> JNull \<and> d (w x) = Some x) xs \<Longrightarrow> as_list z d (JArr (map w xs)) = Some xs"
  by (induction xs) (auto simp: as_list_def comp_def)

lemma dfield_slice:
  assumes "map_of m k = Some (jslice w s)" "list_all (\<lambda>x. w x \<noteq> JNull \<and> d (w x) = Some x) (elems s)"
  shows "dfield m k None (as_slice z d) = Some s"
  using assms by (cases s) (auto simp: dfield_def jslice_def as_slice_def as_list_map)

lemma dfield_strs [simp]:
  "map_of m k = Some (jslice JStr s) \<Longrightarrow> strs_ok s \<Longrightarrow> dfield m k None (as_slice [] as_str) = Some s"
  by (rule dfield_slice) (auto simp: strs_ok_def list_all_iff)

lemma dfield_ints [simp]:
  "map_of m k = Some (jslice JInt s) \<Longrightarrow> list_all i64 (elems s) \<Longrightarrow> dfield m k None (as_slice 0 as_int) = Some s"
  by (rule dfield_slice) (auto simp: list_all_iff)

lemma as_token_json [simp]: "token_ok t \<Longrightarrow> as_token (token_json t) = Some t"
proof -
  assume t: "token_ok t"
  have "as_list [] as_str (jstrs (tok_scopes t)) = Some (tok_scopes t)"
    unfolding jstrs_def using t by (intro as_list_map) (auto simp: token_ok_def list_all_iff)
  then have "dfield m ''scopes'' [] (as_list [] as_str) = Some (tok_scopes t)"
    if "map_of m ''scopes'' = (if tok_scopes t = [] then None else Some (jstrs (tok_scopes t)))" for m
    using that by (auto simp: dfield_def jstrs_def)
  then show ?thesis using t by (simp add: as_token_def token_json_def token_ok_def)
qed

lemma as_view_json [simp]:
  assumes v: "viewspec_ok v"
  shows "as_view (view_json v) = Some v"
proof -
  obtain m where m: "view_json v = JObj m" by (simp add: view_json_def)
  have strs: "dfield m ''absolute'' [] as_str = Some (vs_absolute v)" "dfield m ''freezeAt'' [] as_str = Some (vs_freezeAt v)"
    "dfield m ''epoch'' [] as_str = Some (vs_epoch v)" "dfield m ''mode'' [] as_str = Some (vs_mode v)"
    "dfield m ''leap'' [] as_str = Some (vs_leap v)" "dfield m ''refid'' [] as_str = Some (vs_refid v)"
    using m v by (auto simp: view_json_def viewspec_ok_def dfield_def)
  have ints: "dfield m ''offset'' 0 as_int = Some (vs_offset v)" "dfield m ''stratum'' 0 as_int = Some (vs_stratum v)"
    "dfield m ''precision'' 0 as_int = Some (vs_precision v)" "dfield m ''rootDelay'' 0 as_int = Some (vs_rootDelay v)"
    "dfield m ''rootDispersion'' 0 as_int = Some (vs_rootDispersion v)" "dfield m ''jitter'' 0 as_int = Some (vs_jitter v)"
    using m v by (auto simp: view_json_def viewspec_ok_def dfield_def)
  have "map_of m ''rate'' = map_option JFloat (vs_rate v)" "map_of m ''minpoll'' = map_option JInt (vs_minpoll v)"
    "map_of m ''maxpoll'' = map_option JInt (vs_maxpoll v)"
    using m by (auto simp: view_json_def map_option_case split: option.splits)
  then have "dfield m ''rate'' None (as_ptr as_float) = Some (vs_rate v)"
    "dfield m ''minpoll'' None (as_ptr as_int) = Some (vs_minpoll v)"
    "dfield m ''maxpoll'' None (as_ptr as_int) = Some (vs_maxpoll v)"
    using v by (auto intro!: dfield_ptr simp: viewspec_ok_def)
  then show ?thesis by (simp add: as_view_def m strs ints)
qed

lemma json_not_null [simp]:
  "token_json t \<noteq> JNull" "filter_json f \<noteq> JNull" "view_json v \<noteq> JNull"
  by (simp_all add: token_json_def filter_json_def view_json_def)

lemma dfield_view [simp]: "map_of m k = Some (view_json v) \<Longrightarrow> viewspec_ok v \<Longrightarrow> dfield m k z as_view = Some v"
  by (simp add: dfield_def)

lemma as_filter_json [simp]: "filter_ok f \<Longrightarrow> as_filter (filter_json f) = Some f"
  by (simp add: as_filter_def filter_json_def filter_ok_def)

lemma as_ntp_json [simp]: "ntp_ok n \<Longrightarrow> as_ntp (ntp_json n) = Some n"
  by (simp add: as_ntp_def ntp_json_def ntp_ok_def restrict_json_def admission_json_def as_restrict_def
      as_admission_def)

lemma as_listeners_json [simp]:
  "utf8_valid (l_ntpAddress l) \<Longrightarrow> utf8_valid (ml_address (l_management l)) \<Longrightarrow> utf8_valid (ml_restPath (l_management l))
   \<Longrightarrow> utf8_valid (ml_mcpPath (l_management l)) \<Longrightarrow> as_listeners (listeners_json l) = Some l"
  by (simp add: as_listeners_def listeners_json_def as_mgmtListener_def)

lemma as_spec_json [simp]:
  assumes "spec_ok s"
  shows "as_spec (spec_json s) = Some s"
proof -
  have f: "dfield m ''filters'' None (as_slice zero_filter as_filter) = Some (sp_filters s)"
    if "map_of m ''filters'' = Some (jslice filter_json (sp_filters s))" for m
    using that assms by (intro dfield_slice) (auto simp: spec_ok_def list_all_iff)
  have "dfield m ''tokens'' None (as_slice zero_token as_token) = Some (au_tokens (sp_auth s))"
    if "map_of m ''tokens'' = Some (jslice token_json (au_tokens (sp_auth s)))" for m
    using that assms by (intro dfield_slice) (auto simp: spec_ok_def list_all_iff)
  then have a: "as_auth (auth_json (sp_auth s)) = Some (sp_auth s)"
    using assms by (simp add: as_auth_def auth_json_def spec_ok_def)
  have g: "as_management (management_json (sp_management s)) = Some (sp_management s)"
    using assms by (simp add: as_management_def management_json_def spec_ok_def)
  have b: "as_observability (observability_json (sp_observability s)) = Some (sp_observability s)"
    using assms by (simp add: as_observability_def observability_json_def as_metrics_def spec_ok_def)
  have n: "listeners_json l \<noteq> JNull" "auth_json c \<noteq> JNull" "ntp_json d \<noteq> JNull" "management_json e \<noteq> JNull"
    "observability_json h \<noteq> JNull" for l c d e h
    by (simp_all add: listeners_json_def auth_json_def ntp_json_def management_json_def observability_json_def)
  show ?thesis
    using assms f a g b n by (simp add: as_spec_def spec_json_def spec_ok_def dfield_present)
qed

lemma fold_put_new:
  "distinct (map fst kvs) \<Longrightarrow> fst ` set kvs \<inter> fst ` set acc = {} \<Longrightarrow>
   fold (\<lambda>(k, s). put_key k s) kvs acc = acc @ kvs"
proof (induction kvs arbitrary: acc)
  case (Cons p kvs)
  obtain k v where p: "p = (k, v)" by (cases p)
  have "put_key k v acc = acc @ [(k, v)]" if "k \<notin> fst ` set acc" using that
    by (induction acc) auto
  then show ?case using Cons.prems Cons.IH [of "acc @ [(k, v)]"] p by auto
qed simp

lemma as_labels_json:
  assumes "labels_ok l"
  shows "as_labels (JObj (map (\<lambda>(k, v). (k, JStr v)) l)) = Some l"
proof -
  have "sorted (map fst (map (\<lambda>(k, v). (k, JStr v)) l))"
    using assms by (simp add: labels_ok_def comp_def case_prod_beta)
  then have "sort_key fst (map (\<lambda>(k, v). (k, JStr v)) l) = map (\<lambda>(k, v). (k, JStr v)) l"
    by (rule sort_key_id_if_sorted)
  moreover have "all_some (map (\<lambda>x. map_option (Pair (utf8_fix (fst x))) (as_str (JStr (snd x)))) l) = Some l"
    using assms by (intro all_some_map) (auto simp: labels_ok_def list_all_iff)
  moreover have "fold (\<lambda>(k, s). put_key k s) l [] = l"
    using assms by (subst fold_put_new) (auto simp: labels_ok_def)
  ultimately show ?thesis
    using assms by (simp add: as_labels_def comp_def case_prod_beta labels_ok_def sort_key_id_if_sorted)
qed

lemma as_state_json:
  assumes "state_ok st"
  shows "as_state (state_json st) = Some st"
proof -
  have l: "dfield m ''labels'' [] as_labels = Some (st_labels st)"
    if "map_of m ''labels'' = (if st_labels st = [] then None
          else Some (JObj (map (\<lambda>(k, v). (k, JStr v)) (st_labels st))))" for m
    using that as_labels_json [of "st_labels st"] assms by (auto simp: dfield_def state_ok_def)
  have s: "dfield m ''spec'' zero_spec as_spec = Some (st_spec st)" if "map_of m ''spec'' = Some (spec_json (st_spec st))" for m
    using that assms as_spec_json [of "st_spec st"] by (simp add: dfield_def spec_json_def state_ok_def)
  show ?thesis
    using assms by (simp add: as_state_def state_json_def as_metadata_def state_ok_def l s)
qed

section \<open>What was read is a state\<close>

lemma dfield_P: "dfield m k z d = Some x \<Longrightarrow> P z \<Longrightarrow> (\<And>v y. d v = Some y \<Longrightarrow> P y) \<Longrightarrow> P x"
  by (auto simp: dfield_def split: option.splits if_splits)

lemma as_str_ok: "as_str v = Some s \<Longrightarrow> utf8_valid s"
  by (auto simp: as_str_def split: json.splits)

lemma utf8_valid_Nil [simp]: "utf8_valid []"
  by (simp add: utf8_valid_def)

lemma atoi_range: "atoi s = Some n \<Longrightarrow> i64 n"
proof -
  assume a: "atoi s = Some n"
  obtain neg ds where e: "(case s of c # r \<Rightarrow> if c = CHR ''-'' then (True, r)
     else if c = CHR ''+'' then (False, r) else (False, s) | [] \<Rightarrow> (False, [])) = (neg, ds)"
    by (cases "case s of c # r \<Rightarrow> if c = CHR ''-'' then (True, r)
     else if c = CHR ''+'' then (False, r) else (False, s) | [] \<Rightarrow> (False, [])")
  have "list_all is_digit ds" using a by (auto simp: atoi_def e split: if_splits)
  then have "0 \<le> digits_val ds" by (rule digits_val_nonneg)
  then show ?thesis using a by (auto simp: atoi_def e i64_def' Let_def split: if_splits)
qed

lemma as_int_ok: "as_int v = Some n \<Longrightarrow> i64 n"
  by (auto simp: as_int_def num_int_def split: json.splits float64.splits if_splits dest: atoi_range)

lemma dfield_str_ok: "dfield m k [] as_str = Some s \<Longrightarrow> utf8_valid s"
  by (erule dfield_P) (auto dest: as_str_ok)

lemma dfield_int_ok: "dfield m k 0 as_int = Some n \<Longrightarrow> i64 n"
  by (erule dfield_P) (auto dest: as_int_ok simp: i64_def')

lemma dfield_int_ptr_ok: "dfield m k None (as_ptr as_int) = Some p \<Longrightarrow> pred_option i64 p"
  by (erule dfield_P) (auto simp: as_ptr_def dest: as_int_ok)

lemma all_some_P: "all_some ys = Some xs \<Longrightarrow> (\<And>x. Some x \<in> set ys \<Longrightarrow> P x) \<Longrightarrow> list_all P xs"
  by (induction ys arbitrary: xs) (auto simp: opt_bind_eq_Some)

lemma as_list_P: "as_list z d v = Some xs \<Longrightarrow> P z \<Longrightarrow> (\<And>v y. d v = Some y \<Longrightarrow> P y) \<Longrightarrow> list_all P xs"
  by (auto simp: as_list_def split: json.splits if_splits intro!: all_some_P)

lemma dfield_slice_P:
  "dfield m k None (as_slice z d) = Some s \<Longrightarrow> P z \<Longrightarrow> (\<And>v y. d v = Some y \<Longrightarrow> P y) \<Longrightarrow> list_all P (elems s)"
  by (erule dfield_P) (auto simp: as_slice_def dest: as_list_P)

lemma dfield_strs_ok: "dfield m k None (as_slice [] as_str) = Some s \<Longrightarrow> strs_ok s"
  unfolding strs_ok_def by (erule dfield_slice_P) (auto dest: as_str_ok)

lemma dfield_ints_ok: "dfield m k None (as_slice 0 as_int) = Some s \<Longrightarrow> list_all i64 (elems s)"
  by (erule dfield_slice_P) (auto dest: as_int_ok simp: i64_def')

lemma dfield_list_strs_ok: "dfield m k [] (as_list [] as_str) = Some s \<Longrightarrow> list_all utf8_valid s"
  by (erule dfield_P) (auto dest: as_str_ok elim: as_list_P)

lemmas prim_ok = dfield_str_ok dfield_int_ok dfield_int_ptr_ok dfield_strs_ok dfield_ints_ok dfield_list_strs_ok

lemma as_objE: "as_obj f v = Some x \<Longrightarrow> (\<And>m. v = JObj m \<Longrightarrow> f m = Some x \<Longrightarrow> thesis) \<Longrightarrow> thesis"
  by (auto simp: as_obj_def split: json.splits)

lemma as_token_ok: "as_token v = Some t \<Longrightarrow> token_ok t"
  unfolding as_token_def by (erule as_objE) (auto simp: opt_bind_eq_Some token_ok_def dest: prim_ok)

lemma as_view_ok: "as_view v = Some t \<Longrightarrow> viewspec_ok t"
  unfolding as_view_def by (erule as_objE) (auto simp: opt_bind_eq_Some viewspec_ok_def dest: prim_ok)

lemma zero_ok [simp]: "viewspec_ok zero_viewspec" "token_ok zero_token" "filter_ok zero_filter"
  by (simp_all add: viewspec_ok_def zero_viewspec_def i64_def' token_ok_def zero_token_def filter_ok_def
      zero_filter_def strs_ok_def)

lemma dfield_obj_strs_ok:
  "dfield m k None (as_obj (\<lambda>q. dfield q k' None (as_slice [] as_str))) = Some s \<Longrightarrow> strs_ok s"
  by (erule dfield_P) (auto simp: strs_ok_def [of None] elim!: as_objE dest: prim_ok)

lemma dfield_obj_str_ok: "dfield m k [] (as_obj (\<lambda>q. dfield q k' [] as_str)) = Some s \<Longrightarrow> utf8_valid s"
  by (erule dfield_P) (auto elim!: as_objE dest: prim_ok)

lemma dfield_obj_int_ok: "dfield m k 0 (as_obj (\<lambda>q. dfield q k' 0 as_int)) = Some s \<Longrightarrow> i64 s"
  by (erule dfield_P) (auto simp: i64_def' [of 0] elim!: as_objE dest: prim_ok)

lemma dfield_view_ok: "dfield m k zero_viewspec as_view = Some t \<Longrightarrow> viewspec_ok t"
  by (erule dfield_P) (auto dest: as_view_ok)

lemma as_filter_ok: "as_filter v = Some t \<Longrightarrow> filter_ok t"
  unfolding as_filter_def
  by (erule as_objE) (auto simp: opt_bind_eq_Some filter_ok_def dest: prim_ok dfield_obj_strs_ok dfield_view_ok)

lemma as_restrict_ok: "as_restrict v = Some r \<Longrightarrow> utf8_valid (rs_default r)"
  unfolding as_restrict_def by (erule as_objE) (auto simp: opt_bind_eq_Some dest: prim_ok)

lemma as_admission_ok: "as_admission v = Some r \<Longrightarrow> i64 (ad_maxPacketsPerSec r) \<and> i64 (ad_maxPacketsPerIP r)"
  unfolding as_admission_def by (erule as_objE) (auto simp: opt_bind_eq_Some dest: prim_ok)

lemma dfield_restrict_ok: "dfield m k zero_restrict as_restrict = Some r \<Longrightarrow> utf8_valid (rs_default r)"
  by (erule dfield_P) (auto simp: zero_restrict_def dest: as_restrict_ok)

lemma dfield_admission_ok:
  "dfield m k zero_admission as_admission = Some r \<Longrightarrow> i64 (ad_maxPacketsPerSec r) \<and> i64 (ad_maxPacketsPerIP r)"
  by (erule dfield_P) (auto simp: zero_admission_def i64_def' [of 0] dest: as_admission_ok)

lemma as_ntp_ok: "as_ntp v = Some n \<Longrightarrow> ntp_ok n"
  unfolding as_ntp_def
  by (erule as_objE)
    (auto simp: opt_bind_eq_Some ntp_ok_def dest: prim_ok dfield_obj_str_ok dfield_obj_int_ok dfield_restrict_ok
      dfield_admission_ok)

definition listeners_ok :: "ListenersSpec \<Rightarrow> bool" where
  "listeners_ok l = (utf8_valid (l_ntpAddress l) \<and> utf8_valid (ml_address (l_management l))
     \<and> utf8_valid (ml_restPath (l_management l)) \<and> utf8_valid (ml_mcpPath (l_management l)))"

definition auth_ok :: "AuthSpec \<Rightarrow> bool" where
  "auth_ok a = (utf8_valid (au_mode a) \<and> list_all token_ok (elems (au_tokens a)))"

definition management_ok :: "ManagementSpec \<Rightarrow> bool" where
  "management_ok m = (strs_ok (mg_allowedOrigins m) \<and> i64 (mg_bodyLimit m) \<and> i64 (mg_requestsPerSecond m)
     \<and> i64 (mg_burst m) \<and> i64 (mg_maxConcurrent m))"

definition observability_ok :: "ObservabilitySpec \<Rightarrow> bool" where
  "observability_ok b = (utf8_valid (ob_logLevel b) \<and> utf8_valid (ob_metricsListen b) \<and> i64 (ob_auditRing b))"

lemma spec_ok_parts:
  "spec_ok s \<longleftrightarrow> listeners_ok (sp_listeners s) \<and> auth_ok (sp_auth s) \<and> ntp_ok (sp_ntp s)
     \<and> list_all filter_ok (elems (sp_filters s)) \<and> management_ok (sp_management s)
     \<and> observability_ok (sp_observability s)"
  by (auto simp: spec_ok_def listeners_ok_def auth_ok_def management_ok_def observability_ok_def)

lemma as_mgmtListener_ok:
  "as_mgmtListener v = Some l \<Longrightarrow> utf8_valid (ml_address l) \<and> utf8_valid (ml_restPath l) \<and> utf8_valid (ml_mcpPath l)"
  unfolding as_mgmtListener_def by (erule as_objE) (auto simp: opt_bind_eq_Some dest: prim_ok)

lemma dfield_mgmtListener_ok:
  "dfield m k zero_mgmtListener as_mgmtListener = Some l
   \<Longrightarrow> utf8_valid (ml_address l) \<and> utf8_valid (ml_restPath l) \<and> utf8_valid (ml_mcpPath l)"
  by (erule dfield_P) (auto simp: zero_mgmtListener_def dest: as_mgmtListener_ok)

lemma as_listeners_ok: "as_listeners v = Some l \<Longrightarrow> listeners_ok l"
  unfolding as_listeners_def
  by (erule as_objE) (auto simp: opt_bind_eq_Some listeners_ok_def dest: dfield_obj_str_ok dfield_mgmtListener_ok)

lemma as_auth_ok: "as_auth v = Some a \<Longrightarrow> auth_ok a"
  unfolding as_auth_def
  by (erule as_objE) (auto simp: opt_bind_eq_Some auth_ok_def dest: prim_ok
      intro: as_token_ok elim!: dfield_slice_P)

lemma as_management_ok: "as_management v = Some a \<Longrightarrow> management_ok a"
  unfolding as_management_def
  by (erule as_objE) (auto simp: opt_bind_eq_Some management_ok_def dest: prim_ok)

lemma as_observability_ok: "as_observability v = Some a \<Longrightarrow> observability_ok a"
proof -
  have "as_metrics v = Some p \<Longrightarrow> utf8_valid (fst p)" for v p
    unfolding as_metrics_def by (erule as_objE) (auto simp: opt_bind_eq_Some dest: prim_ok)
  then have m: "dfield m k ([], False) as_metrics = Some (a, b) \<Longrightarrow> utf8_valid a" for m k a b
    using dfield_P [of m k "([], False)" as_metrics "(a, b)" "\<lambda>p. utf8_valid (fst p)"] by simp
  assume "as_observability v = Some a"
  then show ?thesis
    unfolding as_observability_def
    by - (erule as_objE, auto simp: opt_bind_eq_Some observability_ok_def dest: prim_ok dfield_obj_int_ok m)
qed

lemma zero_parts_ok [simp]: "listeners_ok zero_listeners" "auth_ok zero_auth" "ntp_ok zero_ntp"
  "management_ok zero_management" "observability_ok zero_observability"
  by (simp_all add: listeners_ok_def zero_listeners_def zero_mgmtListener_def auth_ok_def zero_auth_def ntp_ok_def
      zero_ntp_def zero_restrict_def zero_admission_def strs_ok_def i64_def' management_ok_def zero_management_def
      observability_ok_def zero_observability_def)

lemma as_spec_ok: "as_spec v = Some s \<Longrightarrow> spec_ok s"
proof -
  have d: "dfield m k zero_listeners as_listeners = Some l \<Longrightarrow> listeners_ok l"
    "dfield m k zero_auth as_auth = Some a \<Longrightarrow> auth_ok a" "dfield m k zero_ntp as_ntp = Some n \<Longrightarrow> ntp_ok n"
    "dfield m k zero_management as_management = Some g \<Longrightarrow> management_ok g"
    "dfield m k zero_observability as_observability = Some b \<Longrightarrow> observability_ok b"
    "dfield m k None (as_slice zero_filter as_filter) = Some fs \<Longrightarrow> list_all filter_ok (elems fs)" for m k l a n g b fs
    by (erule dfield_P dfield_slice_P;
        simp add: as_listeners_ok as_auth_ok as_ntp_ok as_management_ok as_observability_ok as_filter_ok)+
  assume "as_spec v = Some s"
  then show ?thesis
    unfolding as_spec_def by - (erule as_objE, auto simp: opt_bind_eq_Some spec_ok_parts dest: d)
qed

lemma put_key_all: "list_all P m \<Longrightarrow> P (k, v) \<Longrightarrow> list_all P (put_key k v m)"
  using set_put_key_subset [of k v m] by (auto simp: list_all_iff)

lemma as_labels_ok: "as_labels v = Some l \<Longrightarrow> labels_ok l"
proof -
  let ?P = "\<lambda>(k, v). utf8_valid k \<and> utf8_valid v"
  have f: "keys_distinct acc \<Longrightarrow> list_all ?P acc \<Longrightarrow> list_all ?P kvs \<Longrightarrow>
    keys_distinct (fold (\<lambda>(k, s). put_key k s) kvs acc) \<and> list_all ?P (fold (\<lambda>(k, s). put_key k s) kvs acc)" for kvs acc
  proof (induction kvs arbitrary: acc)
    case (Cons kv kvs)
    obtain k v where kv: "kv = (k, v)" by fastforce
    show ?case using Cons.IH [of "put_key k v acc"] Cons.prems put_key_all [of ?P acc k v] by (simp add: kv)
  qed simp
  assume "as_labels v = Some l"
  then obtain m kvs where k: "all_some (map (\<lambda>(k, x). map_option (Pair (utf8_fix k))
      (if x = JNull then Some [] else as_str x)) (sort_key fst m)) = Some kvs"
    "l = sort_key fst (fold (\<lambda>(k, s). put_key k s) kvs [])"
    by (auto simp: as_labels_def split: json.splits)
  have "list_all ?P kvs"
    by (rule all_some_P [OF k(1)])
      (auto split: if_splits dest: as_str_ok simp: eq_commute [of "Some _" "map_option _ _"])
  then have "keys_distinct (fold (\<lambda>(k, s). put_key k s) kvs []) \<and> list_all ?P (fold (\<lambda>(k, s). put_key k s) kvs [])"
    by (intro f) auto
  moreover have "distinct (map fst (sort_key fst xs)) = distinct (map fst xs)" for xs :: "(string \<times> string) list"
    by (simp add: distinct_map)
  ultimately show ?thesis by (auto simp: labels_ok_def k(2) list_all_iff)
qed

lemma as_metadata_ok: "as_metadata v = Some d \<Longrightarrow> utf8_valid (fst d) \<and> labels_ok (snd d)"
proof -
  have l: "dfield m k [] as_labels = Some l \<Longrightarrow> labels_ok l" for m k l
    by (erule dfield_P) (auto simp: labels_ok_def [of "[]"] dest: as_labels_ok)
  assume "as_metadata v = Some d"
  then show ?thesis
    unfolding as_metadata_def by - (erule as_objE, auto simp: opt_bind_eq_Some dest: prim_ok l)
qed

lemma zero_spec_ok [simp]: "spec_ok zero_spec"
  by (simp add: spec_ok_parts zero_spec_def)

lemma as_state_ok: "as_state v = Some st \<Longrightarrow> state_ok st"
proof -
  have d: "dfield m k ([], []) as_metadata = Some d \<Longrightarrow> utf8_valid (fst d) \<and> labels_ok (snd d)"
    "dfield m k zero_spec as_spec = Some s \<Longrightarrow> spec_ok s" for m k d s
    by (erule dfield_P; simp add: as_metadata_ok as_spec_ok labels_ok_def [of "[]"])+
  assume a: "as_state v = Some st"
  show ?thesis
  proof (cases "v = JNull")
    case True
    then show ?thesis using a by (auto simp: as_state_def zero_state_def state_ok_def labels_ok_def)
  next
    case False
    then show ?thesis
      using a unfolding as_state_def
      by - (simp, erule as_objE, auto simp: opt_bind_eq_Some state_ok_def dest: prim_ok d)
  qed
qed

end
