(* ===== verification/Config.thy ===== *)
theory Config
  imports Config_Roundtrip Snapshot
begin

text \<open>
  The rest of \<^verbatim>\<open>internal/config\<close>: defaults of a decoded state (normalize.go), the checks
  of a state (validate.go), its canonical JSON and YAML and its revision (export.go), and
  loading a document (load.go).
\<close>

section \<open>normalize.go\<close>

definition cloneState :: "libs \<Rightarrow> State \<Rightarrow> Error + State" where
  "cloneState L st =
     (let t = state_json st in
      if \<not> marshals t then Inl (Internal (''clone marshal: '' @ lib_marshal_text L t))
      else case as_state t of
        None \<Rightarrow> Inl (Internal (''clone unmarshal: '' @ lib_type_text L t))
      | Some st' \<Rightarrow> Inr st')"

definition if_blank :: "string \<Rightarrow> string \<Rightarrow> string" where
  "if_blank s d = (if blank s then d else s)"

definition or_empty :: "'a slice \<Rightarrow> 'a slice" where
  "or_empty s = Some (elems s)"

definition materializeView :: "ViewSpec \<Rightarrow> ViewSpec" where
  "materializeView v =
     (let v1 = v\<lparr>vs_leap := if_blank (vs_leap v) LeapNone\<rparr> in
      v1\<lparr>vs_refid := if_blank (vs_refid v1)
          (if vs_stratum v1 = 1 then ''GPS'' else if vs_stratum v1 = 16 then ''INIT'' else ''LOCL'')\<rparr>)"

definition universal_warning :: Warning where
  "universal_warning = \<lparr>w_path = ''spec.ntp.allowClientCidrs'', w_code = warningUniversalAllowlist,
     w_message = ''omitted or null allowClientCidrs materializes 0.0.0.0/0 and ::/0''\<rparr>"

definition materialize_listeners :: "ListenersSpec \<Rightarrow> ListenersSpec" where
  "materialize_listeners l = l\<lparr>l_ntpAddress := if_blank (l_ntpAddress l) DefaultNTPAddress,
     l_management := (l_management l)\<lparr>
       ml_address := if_blank (ml_address (l_management l)) DefaultMgmtAddress,
       ml_restPath := if_blank (ml_restPath (l_management l)) DefaultRESTPath,
       ml_mcpPath := if_blank (ml_mcpPath (l_management l)) DefaultMCPPath\<rparr>\<rparr>"

definition materialize_ntp :: "NTPSpec \<Rightarrow> NTPSpec" where
  "materialize_ntp n = n\<lparr>
     n_versions := (if elems (n_versions n) = [] then Some [3, 4] else n_versions n),
     n_serveMode := if_blank (n_serveMode n) ServeModeUnicast,
     n_restrict := (n_restrict n)\<lparr>rs_default := if_blank (rs_default (n_restrict n)) RestrictServe\<rparr>,
     n_allowClientCidrs := (if n_allowClientCidrs n = None then Some [''0.0.0.0/0'', ''::/0'']
                            else n_allowClientCidrs n)\<rparr>"

definition materializeDefaults :: "Spec \<Rightarrow> Spec \<times> Warning list" where
  "materializeDefaults sp =
     (sp\<lparr>sp_listeners := materialize_listeners (sp_listeners sp),
        sp_auth := (sp_auth sp)\<lparr>au_mode := if_blank (au_mode (sp_auth sp)) MgmtAuthBearer,
                                 au_tokens := or_empty (au_tokens (sp_auth sp))\<rparr>,
        sp_management := (sp_management sp)\<lparr>mg_allowedOrigins := or_empty (mg_allowedOrigins (sp_management sp))\<rparr>,
        sp_ntp := materialize_ntp (sp_ntp sp),
        sp_filters := Some (map (\<lambda>f. f\<lparr>fs_view := materializeView (fs_view f)\<rparr>) (elems (sp_filters sp))),
        sp_observability := (sp_observability sp)\<lparr>
          ob_logLevel := if_blank (ob_logLevel (sp_observability sp)) LogLevelInfo,
          ob_metricsListen := if_blank (ob_metricsListen (sp_observability sp)) DefaultMetricsListen,
          ob_auditRing := (if ob_auditRing (sp_observability sp) = 0 then DefaultAuditRing
                           else ob_auditRing (sp_observability sp))\<rparr>\<rparr>,
      if n_allowClientCidrs (sp_ntp sp) = None then [universal_warning] else [])"

definition nil_state :: Error where
  "nil_state = ValidationFailed ''nil state'' [violation [] violationRequired ''state is nil'']"

definition Normalize :: "libs \<Rightarrow> State option \<Rightarrow> Error + State \<times> Warning list" where
  "Normalize L st =
     (case st of
        None \<Rightarrow> Inl nil_state
      | Some s \<Rightarrow> bindR (cloneState L s) (\<lambda>out.
          let (sp, warns) = materializeDefaults (st_spec out) in Inr (out\<lparr>st_spec := sp\<rparr>, warns)))"

section \<open>validate.go\<close>

text \<open>A check reports at most one violation.\<close>

abbreviation unless :: "bool \<Rightarrow> FieldViolation \<Rightarrow> FieldViolation list" where
  "unless ok v \<equiv> (if ok then [] else [v])"

definition filterName_ok :: "string \<Rightarrow> bool" where
  "filterName_ok s =
     (let lower_digit = (\<lambda>c. is_digit c \<or> (CHR ''a'' \<le> c \<and> c \<le> CHR ''z'')) in
      s \<noteq> [] \<and> lower_digit (hd s) \<and> length s \<le> 63
      \<and> list_all (\<lambda>c. lower_digit c \<or> c = CHR ''.'' \<or> c = CHR ''_'' \<or> c = CHR ''-'') (tl s))"

definition validateDocument :: "State \<Rightarrow> FieldViolation list" where
  "validateDocument st =
     (if st_apiVersion st \<noteq> APIVersionV1Alpha1 then
        [if blank (st_apiVersion st) then violation ''apiVersion'' violationRequired ''apiVersion is required''
         else violation ''apiVersion'' violationUnsupportedVersion (''apiVersion must be '' @ quote APIVersionV1Alpha1)]
      else [])
     @ (if st_kind st \<noteq> KindLabNTP then
        [if blank (st_kind st) then violation ''kind'' violationRequired ''kind is required''
         else invalid ''kind'' (''kind must be '' @ quote KindLabNTP)]
      else [])
     @ unless (\<not> blank (st_name st)) (violation ''metadata.name'' violationRequired ''metadata.name is required'')"

definition validateUDPAddr :: "libs \<Rightarrow> string \<Rightarrow> string \<Rightarrow> FieldViolation list" where
  "validateUDPAddr L path addr =
     (if blank addr then [violation path violationRequired ''address is required'']
      else unless (lib_resolves_udp L addr) (invalid path ''invalid UDP host:port''))"

definition validateTCPAddr :: "libs \<Rightarrow> string \<Rightarrow> string \<Rightarrow> FieldViolation list" where
  "validateTCPAddr L path addr =
     (if blank addr then [violation path violationRequired ''address is required'']
      else unless (lib_resolves_tcp L addr) (invalid path ''invalid TCP host:port''))"

definition validateListeners :: "libs \<Rightarrow> ListenersSpec \<Rightarrow> FieldViolation list" where
  "validateListeners L l =
     (let g = l_management l in
      validateUDPAddr L ''spec.listeners.ntp.address'' (l_ntpAddress l)
      @ validateTCPAddr L ''spec.listeners.management.address'' (ml_address g)
      @ unless (ml_restPath g = [] \<or> has_prefix (ml_restPath g) ''/'')
          (invalid ''spec.listeners.management.restPath'' ''restPath must start with /'')
      @ unless (ml_mcpPath g = [] \<or> has_prefix (ml_mcpPath g) ''/'')
          (invalid ''spec.listeners.management.mcpPath'' ''mcpPath must start with /''))"

text \<open>The loop over the tokens, with the map from an id to where it was first seen.\<close>

fun validate_tokens :: "nat \<Rightarrow> (string \<times> nat) list \<Rightarrow> TokenSpec list \<Rightarrow> FieldViolation list" where
  "validate_tokens i ids [] = []"
| "validate_tokens i ids (tok # toks) =
     (let p = indexPath ''spec.auth.tokens'' i in
      (if blank (tok_id tok) then [violation (p @ ''.id'') violationEmptyID ''token id is required'']
       else case map_of ids (tok_id tok) of
         Some prev \<Rightarrow> [violation (p @ ''.id'') violationDuplicateID
           (''duplicate token id '' @ quote (tok_id tok) @ '' (also tokens['' @ nat_str prev @ ''])'')]
       | None \<Rightarrow> [])
      @ unless (tok_role tok = [] \<or> KnownRole (tok_role tok))
          (invalid (p @ ''.role'') ''role must be viewer, operator, or administrator'')
      @ unless (\<not> blank (tok_secretFile tok))
          (violation (p @ ''.secretFile'') violationRequired ''secretFile is required (file ref, never inline)'')
      @ validate_tokens (i + 1)
          (if blank (tok_id tok) \<or> map_of ids (tok_id tok) \<noteq> None then ids else (tok_id tok, i) # ids) toks)"

definition validateAuth :: "AuthSpec \<Rightarrow> FieldViolation list" where
  "validateAuth a =
     unless (au_mode a = [] \<or> au_mode a = MgmtAuthBearer \<or> au_mode a = MgmtAuthDevLoopbackUnauth)
       (invalid ''spec.auth.mode'' ''mode must be bearer or dev-loopback-unauth'')
     @ validate_tokens 0 [] (elems (au_tokens a))"

definition validateManagement :: "ManagementSpec \<Rightarrow> FieldViolation list" where
  "validateManagement m =
     unless (0 \<le> mg_bodyLimit m) (invalid ''spec.management.bodyLimit'' ''bodyLimit must be >= 0'')
     @ unless (0 \<le> mg_requestsPerSecond m) (invalid ''spec.management.requestsPerSecond'' ''requestsPerSecond must be >= 0'')
     @ unless (0 \<le> mg_burst m) (invalid ''spec.management.burst'' ''burst must be >= 0'')
     @ unless (0 \<le> mg_maxConcurrent m) (invalid ''spec.management.maxConcurrent'' ''maxConcurrent must be >= 0'')
     @ concat (map (\<lambda>(i, u). unless (u \<noteq> ''*'') (invalid (indexPath ''spec.management.allowedOrigins'' i)
          (quote ''*'' @ '' is not allowed in allowedOrigins''))) (indexed (elems (mg_allowedOrigins m))))"

fun validate_versions :: "nat \<Rightarrow> int list \<Rightarrow> int list \<Rightarrow> FieldViolation list" where
  "validate_versions i seen [] = []"
| "validate_versions i seen (v # vs) =
     unless (v = 3 \<or> v = 4) (invalid (indexPath ''spec.ntp.versions'' i) ''versions must be a subset of {3,4}'')
     @ unless (v \<notin> set seen) (violation (indexPath ''spec.ntp.versions'' i) violationDuplicateID ''duplicate version'')
     @ validate_versions (i + 1) (v # seen) vs"

definition bad_cidr :: "string \<Rightarrow> string \<Rightarrow> FieldViolation" where
  "bad_cidr p c = invalid p (''invalid CIDR '' @ quote c)"

definition validateNTP :: "NTPSpec \<Rightarrow> FieldViolation list" where
  "validateNTP n =
     unless (n_serveMode n = [] \<or> n_serveMode n = ServeModeUnicast) (invalid ''spec.ntp.serveMode'' ''serveMode must be unicast'')
     @ unless (\<not> n_ntsEnabled n) (invalid ''spec.ntp.nts.enabled'' ''nts.enabled must be false in v1'')
     @ unless (rs_default (n_restrict n) \<in> {[], RestrictServe, RestrictLimited, RestrictIgnore})
         (invalid ''spec.ntp.restrict.default'' ''restrict.default must be serve, limited, or ignore'')
     @ validate_versions 0 [] (elems (n_versions n))
     @ unless (1 \<le> ad_maxPacketsPerSec (n_admission n))
         (invalid ''spec.ntp.admission.maxPacketsPerSec'' ''maxPacketsPerSec must be >= 1'')
     @ unless (1 \<le> ad_maxPacketsPerIP (n_admission n))
         (invalid ''spec.ntp.admission.maxPacketsPerIP'' ''maxPacketsPerIP must be >= 1'')
     @ unless (1 \<le> n_queryLogSize n \<and> n_queryLogSize n \<le> MaxQueryLogSize)
         (invalid ''spec.ntp.queryLog.size'' (''queryLog.size must be in [1, '' @ int_str MaxQueryLogSize @ '']''))
     @ concat (map (\<lambda>(i, c). unless (parse_prefix c \<noteq> None) (bad_cidr (indexPath ''spec.ntp.allowClientCidrs'' i) c))
         (indexed (elems (n_allowClientCidrs n))))"

definition validRFC3339 :: "string \<Rightarrow> bool" where
  "validRFC3339 s = (go_parse_rfc3339 s \<noteq> None)"

definition ParseRFC3339 :: "string \<Rightarrow> gotime option" where
  "ParseRFC3339 s = map_option t_utc (go_parse_rfc3339 s)"

definition en_dash :: string where
  "en_dash = [CHR 0xE2, CHR 0x80, CHR 0x93]"

text \<open>The checks of a view by its mode: what the mode needs and what it forbids.\<close>

definition validate_mode :: "string \<Rightarrow> ViewSpec \<Rightarrow> FieldViolation list" where
  "validate_mode path v =
     (let m = vs_mode v;
          forbid = (\<lambda>present field. unless (\<not> present)
            (invalid (path @ ''.'' @ field) (field @ '' is forbidden on '' @ m)));
          off = forbid (vs_offset v \<noteq> 0) ''offset'';
          ab = forbid (\<not> blank (vs_absolute v)) ''absolute'';
          fr = forbid (\<not> blank (vs_freezeAt v)) ''freezeAt'';
          ra = forbid (vs_rate v \<noteq> None) ''rate'';
          ep = forbid (\<not> blank (vs_epoch v)) ''epoch''
      in if m = ModeFollowReal then off @ ab @ fr @ ra @ ep
         else if m = ModeOffset then ab @ fr @ ra @ ep
         else if m = ModeAbsolute then
           (if blank (vs_absolute v)
            then [violation (path @ ''.absolute'') violationRequired ''absolute RFC3339 is required on mode absolute'']
            else unless (validRFC3339 (vs_absolute v)) (invalid (path @ ''.absolute'') ''absolute must be RFC3339''))
           @ off @ fr @ ra @ ep
         else if m = ModeFreeze then
           (if blank (vs_freezeAt v)
            then [violation (path @ ''.freezeAt'') violationRequired ''freezeAt RFC3339 is required on mode freeze'']
            else unless (validRFC3339 (vs_freezeAt v)) (invalid (path @ ''.freezeAt'') ''freezeAt must be RFC3339''))
           @ off @ ab @ ra @ ep
         else
           (case vs_rate v of
              None \<Rightarrow> [violation (path @ ''.rate'') violationRequired ''rate key is required on mode rate'']
            | Some (Fin r) \<Rightarrow> unless (\<not> flt MaxAbsRate (Fin \<bar>r\<bar>)) (invalid (path @ ''.rate'') ''rate |rate| must be <= 100'')
            | Some _ \<Rightarrow> [invalid (path @ ''.rate'') ''rate must be finite''])
           @ off @ ab @ fr
           @ unless (blank (vs_epoch v) \<or> validRFC3339 (vs_epoch v)) (invalid (path @ ''.epoch'') ''epoch must be RFC3339''))"

definition poll_ok :: "int option \<Rightarrow> bool" where
  "poll_ok p = (case p of None \<Rightarrow> True | Some n \<Rightarrow> MinPoll \<le> n \<and> n \<le> MaxPoll)"

definition validate_rest :: "string \<Rightarrow> ViewSpec \<Rightarrow> FieldViolation list" where
  "validate_rest path v =
     unless (vs_leap v \<in> {[], LeapNone, LeapInsert, LeapDelete, LeapUnsync})
       (invalid (path @ ''.leap'') ''leap must be none, insert, delete, or unsync'')
     @ unless (1 \<le> vs_stratum v \<and> vs_stratum v \<le> 16)
       (invalid (path @ ''.stratum'') (''stratum must be 1'' @ en_dash @ ''16 (0 is reserved for KoD)''))
     @ unless (0 \<le> vs_rootDelay v) (invalid (path @ ''.rootDelay'') ''rootDelay must be >= 0'')
     @ unless (0 \<le> vs_rootDispersion v) (invalid (path @ ''.rootDispersion'') ''rootDispersion must be >= 0'')
     @ unless (0 \<le> vs_jitter v) (invalid (path @ ''.jitter'') ''jitter must be >= 0'')
     @ unless (poll_ok (vs_minpoll v)) (invalid (path @ ''.minpoll'') ''minpoll must be in [-6, 17]'')
     @ unless (poll_ok (vs_maxpoll v)) (invalid (path @ ''.maxpoll'') ''maxpoll must be in [-6, 17]'')
     @ (case (vs_minpoll v, vs_maxpoll v) of
          (Some lo, Some hi) \<Rightarrow> unless (lo \<le> hi) (invalid (path @ ''.minpoll'') ''minpoll must be <= maxpoll'')
        | _ \<Rightarrow> [])
     @ unless (length (vs_refid v) \<le> 4 \<or> parse_ip (vs_refid v) \<noteq> None)
       (invalid (path @ ''.refid'') (''refid must be 1'' @ en_dash @ ''4 ASCII or an IPv4 dotted-quad''))"

definition KnownMode :: "string \<Rightarrow> bool" where
  "KnownMode m = (m \<in> {ModeFollowReal, ModeOffset, ModeAbsolute, ModeFreeze, ModeRate})"

definition validateView :: "string \<Rightarrow> ViewSpec \<Rightarrow> FieldViolation list" where
  "validateView path v =
     unless (vs_offset v \<noteq> min_i64)
       (invalid (path @ ''.offset'') ''duration is outside the range time.ParseDuration can represent'')
     @ (if KnownMode (vs_mode v) then validate_mode path v @ validate_rest path v
        else if vs_mode v = [] then [violation (path @ ''.mode'') violationRequired ''mode is required'']
        else [invalid (path @ ''.mode'') ''mode must be follow-real, offset, absolute, freeze, or rate''])"

definition v4Default :: prefix where "v4Default = Prefix (V4 0) 0"
definition v6Default :: prefix where "v6Default = Prefix (V6 0 []) 0"

text \<open>The loop over the filters: names seen so far; the catch-alls are looked for separately.\<close>

fun validate_filter_list :: "nat \<Rightarrow> (string \<times> nat) list \<Rightarrow> FilterSpec list \<Rightarrow> FieldViolation list" where
  "validate_filter_list i names [] = []"
| "validate_filter_list i names (f # fs) =
     (let p = indexPath ''spec.filters'' i in
      (if blank (fs_name f) then [violation (p @ ''.name'') violationEmptyID ''filter name is required'']
       else if \<not> filterName_ok (fs_name f)
       then [invalid (p @ ''.name'') ''filter name must match [a-z0-9][a-z0-9._-]{0,62}'']
       else case map_of names (fs_name f) of
         Some prev \<Rightarrow> [violation (p @ ''.name'') violationDuplicateID
           (''duplicate filter name '' @ quote (fs_name f) @ '' (also filters['' @ nat_str prev @ ''])'')]
       | None \<Rightarrow> [])
      @ unless (\<not> fs_enabled f \<or> elems (fs_cidrs f) \<noteq> [])
          (violation (p @ ''.match.cidrs'') violationRequired ''enabled filter requires at least one CIDR'')
      @ concat (map (\<lambda>(j, c). unless (parse_prefix c \<noteq> None) (bad_cidr (indexPath (p @ ''.match.cidrs'') j) c))
          (indexed (elems (fs_cidrs f))))
      @ validateView (p @ ''.view'') (fs_view f)
      @ validate_filter_list (i + 1)
          (if blank (fs_name f) \<or> \<not> filterName_ok (fs_name f) \<or> map_of names (fs_name f) \<noteq> None then names
           else (fs_name f, i) # names) fs)"

definition has_default :: "prefix \<Rightarrow> FilterSpec list \<Rightarrow> bool" where
  "has_default p fs = list_ex (\<lambda>f. fs_enabled f \<and> list_ex (\<lambda>c. parse_prefix c = Some p) (elems (fs_cidrs f))) fs"

definition validateFilters :: "FilterSpec list \<Rightarrow> FieldViolation list" where
  "validateFilters fs =
     validate_filter_list 0 [] fs
     @ unless (has_default v4Default fs \<and> has_default v6Default fs)
         (violation ''spec.filters'' violationRequired ''enabled filters must include catch-all 0.0.0.0/0 and ::/0'')"

definition validateObservability :: "ObservabilitySpec \<Rightarrow> FieldViolation list" where
  "validateObservability b =
     unless (ob_logLevel b \<in> {[], ''debug'', LogLevelInfo, ''warn'', ''error''})
       (invalid ''spec.observability.logLevel'' ''logLevel must be debug, info, warn, or error'')"

definition violations :: "libs \<Rightarrow> State \<Rightarrow> FieldViolation list" where
  "violations L st =
     (let sp = st_spec st in
      validateDocument st @ validateListeners L (sp_listeners sp) @ validateAuth (sp_auth sp)
      @ validateManagement (sp_management sp) @ validateNTP (sp_ntp sp) @ validateFilters (elems (sp_filters sp))
      @ validateObservability (sp_observability sp))"

definition Validate :: "libs \<Rightarrow> State option \<Rightarrow> Error option" where
  "Validate L st =
     (case st of
        None \<Rightarrow> Some nil_state
      | Some s \<Rightarrow> (let vs = violations L s in
          if vs \<noteq> [] then Some (ValidationFailed ''Candidate state is invalid.'' vs) else None))"

section \<open>export.go\<close>

text \<open>The tree a normalized state is written from, with units spelled out.\<close>

definition canonical_tree :: "State \<Rightarrow> json" where
  "canonical_tree n = FormatWireTree (state_json n)"

definition CanonicalJSON :: "libs \<Rightarrow> State option \<Rightarrow> Error + string" where
  "CanonicalJSON L st =
     bindR (Normalize L st) (\<lambda>(n, _).
       let t = state_json n in
       if \<not> marshals t then Inl (Internal (''canonical json: '' @ lib_marshal_text L t))
       else Inr (json_text (canonical_tree n)))"

definition Revision :: "libs \<Rightarrow> State option \<Rightarrow> Error + revision" where
  "Revision L st =
     bindR (CanonicalJSON L st) (\<lambda>b. Inr (RevisionPrefix @ hex_encode (sha256 (bytes_of_string b))))"

text \<open>
  The tree of \<^verbatim>\<open>CanonicalYAML\<close> was decoded with UseNumber, so every number in it is a
  json.Number; \<open>decoded\<close> is that tree.
\<close>

fun decoded :: "json \<Rightarrow> json" where
  "decoded (JInt n) = JNum (int_str n)"
| "decoded (JFloat f) = JNum (json_text (JFloat f))"
| "decoded (JStr s) = JStr (utf8_fix s)"
| "decoded (JText s) = JStr (utf8_fix s)"
| "decoded (JArr xs) = JArr (map decoded xs)"
| "decoded (JObj m) = JObj (map (\<lambda>(k, v). (utf8_fix k, decoded v)) m)"
| "decoded v = v"

fun toYAMLNode :: "json \<Rightarrow> ynode" where
  "toYAMLNode JNull = YNode YScalar [] ''!!null'' ''null'' []"
| "toYAMLNode (JBool b) = YNode YScalar [] ''!!bool'' (if b then ''true'' else ''false'') []"
| "toYAMLNode (JStr s) = YNode YScalar [] ''!!str'' s []"
| "toYAMLNode (JNum t) = YNode YScalar [] ''!!int'' t []"
| "toYAMLNode (JFloat f) = YNode YScalar [] ''!!float'' (json_text (JFloat f)) []"
| "toYAMLNode (JInt n) = YNode YScalar [] ''!!int'' (int_str n) []"
| "toYAMLNode (JText s) = YNode YScalar [] ''!!str'' (trim_space s) []"
| "toYAMLNode (JArr xs) = YNode YSequence [] ''!!seq'' [] (map toYAMLNode xs)"
| "toYAMLNode (JObj m) = YNode YMapping [] ''!!map'' []
     (concat (map (\<lambda>(k, n). [YNode YScalar [] ''!!str'' k [], n])
        (sort_key fst (map (\<lambda>(k, v). (k, toYAMLNode v)) m))))"
| "toYAMLNode (JAny m) = YNode YScalar [] ''!!str'' [] []"

definition CanonicalYAML :: "libs \<Rightarrow> State option \<Rightarrow> Error + string" where
  "CanonicalYAML L st =
     bindR (Normalize L st) (\<lambda>(n, _).
       let t = state_json n in
       if \<not> marshals t then Inl (Internal (''canonical yaml: '' @ lib_marshal_text L t))
       else case lib_yaml_encode L (toYAMLNode (FormatWireTree (decoded t))) of
         Inl e \<Rightarrow> Inl (Internal (''canonical yaml encode: '' @ e))
       | Inr s \<Rightarrow> Inr s)"

section \<open>load.go\<close>

text \<open>The state, the warnings and the error of Go's three results; None is a panic.\<close>

definition LoadWithWarnings :: "libs \<Rightarrow> string \<Rightarrow> (State option \<times> Warning list \<times> Error option) option" where
  "LoadWithWarnings L data =
     opt_bind (Decode L data) (\<lambda>d. Some (case d of
        Inl e \<Rightarrow> (None, [], Some e)
      | Inr st \<Rightarrow>
          (case Normalize L (Some st) of
             Inl e \<Rightarrow> (None, [], Some e)
           | Inr (n, warns) \<Rightarrow>
               (case Validate L (Some n) of
                  Some e \<Rightarrow> (None, warns, Some e)
                | None \<Rightarrow> (Some n, warns, None)))))"

definition Load_state :: "libs \<Rightarrow> string \<Rightarrow> (State option \<times> Error option) option" where
  "Load_state L data = map_option (\<lambda>(st, _, e). (st, e)) (LoadWithWarnings L data)"

text \<open>From a file: the error of reading it, or what loading its bytes gives.\<close>

definition LoadFileWithWarnings ::
  "libs \<Rightarrow> string \<Rightarrow> string + (State option \<times> Warning list \<times> Error option) option" where
  "LoadFileWithWarnings L path =
     (case lib_read_file L path of Inl e \<Rightarrow> Inl e | Inr b \<Rightarrow> Inr (LoadWithWarnings L b))"

definition LoadFile :: "libs \<Rightarrow> string \<Rightarrow> string + (State option \<times> Error option) option" where
  "LoadFile L path = (case lib_read_file L path of Inl e \<Rightarrow> Inl e | Inr b \<Rightarrow> Inr (Load_state L b))"

end
