(* ===== verification/Config_Props.thy ===== *)
theory Config_Props
  imports Config
begin

text \<open>
  What \<^verbatim>\<open>internal/config\<close> promises: decoding yields a state that JSON keeps, the
  defaults are filled in once and for all, the checks accept exactly the valid states, and the
  revision depends on the normalized state alone.
\<close>

section \<open>Decoding\<close>

lemma decode_filled_state_ok: "decode_filled L t = Inr st \<Longrightarrow> state_ok st"
  by (auto simp: decode_filled_def Let_def split: if_splits option.splits dest: as_state_ok)

lemma decodeRaw_state_ok: "decodeRaw L raw = Some (Inr st) \<Longrightarrow> state_ok st"
  by (auto simp: decodeRaw_def Let_def split: if_splits dest: decode_filled_state_ok)

lemma decodeJSON_state_ok: "decodeJSON L data = Some (Inr st) \<Longrightarrow> state_ok st"
  by (auto simp: decodeJSON_def split: option.splits if_splits dest: decodeRaw_state_ok)

lemma decodeYAML_state_ok: "decodeYAML L data = Some (Inr st) \<Longrightarrow> state_ok st"
  by (auto simp: decodeYAML_def Let_def split: option.splits if_splits sum.splits yfail.splits dest: decodeRaw_state_ok)

lemma Decode_state_ok: "Decode L data = Some (Inr st) \<Longrightarrow> state_ok st"
  by (auto simp: Decode_def Let_def split: if_splits dest: decodeJSON_state_ok decodeYAML_state_ok)

text \<open>A document whose \<^verbatim>\<open>spec.ntp\<close> is a number makes the decoder panic: the default
  versions are written into a nil map.\<close>

theorem decode_ntp_panic:
  "decodeRaw L (JObj [(''apiVersion'', JStr APIVersionV1Alpha1), (''spec'', JObj [(''ntp'', JNum ''5'')])]) = None"
proof -
  have "reservedFields (JObj [(''apiVersion'', JStr APIVersionV1Alpha1), (''spec'', JObj [(''ntp'', JNum ''5'')])]) [] = []"
    by code_simp
  then show ?thesis by (simp add: decodeRaw_def applyDecodeDefaults_def ntp_is_nil_def)
qed

text \<open>The decoder panics on nothing else.\<close>

lemma decodeRaw_panic:
  "decodeRaw L raw = None \<longleftrightarrow> reservedFields raw [] = [] \<and> applyDecodeDefaults raw = None"
  by (simp add: decodeRaw_def Let_def)

text \<open>The defaults leave a document alone that spells everything out, and only add keys.\<close>

lemma setDefault_keeps: "map_of m k' = Some v \<Longrightarrow> map_of (setDefault k x m) k' = Some v"
  by (auto simp: setDefault_def)

section \<open>Normalizing\<close>

definition finite_rates :: "State \<Rightarrow> bool" where
  "finite_rates st = list_all (\<lambda>f. case vs_rate (fs_view f) of Some (Fin _) \<Rightarrow> True | None \<Rightarrow> True | _ \<Rightarrow> False)
     (elems (sp_filters (st_spec st)))"

lemma marshals_jslice: "(\<And>x. marshals (w x) = P x) \<Longrightarrow> marshals (jslice w s) = list_all P (elems s)"
  by (cases s) (auto simp: jslice_def list_all_iff)

lemma marshals_simple [simp]:
  "marshals (jslice JStr s)" "marshals (jslice JInt t)" "marshals (jstrs xs)"
  "marshals (token_json k)" "marshals (jslice token_json u)"
  "marshals (listeners_json l)" "marshals (restrict_json r)" "marshals (admission_json d)"
  "marshals (management_json g)" "marshals (observability_json b)"
proof -
  have p: "marshals (jslice JStr s)" for s by (simp add: marshals_jslice [where P = "\<lambda>_. True"] list_all_iff)
  then show "marshals (jslice JStr s)" .
  show "marshals (jslice JInt t)" by (simp add: marshals_jslice [where P = "\<lambda>_. True"] list_all_iff)
  show j: "marshals (jstrs xs)" for xs by (simp add: jstrs_def list_all_iff)
  have k: "marshals (token_json k)" for k by (simp add: token_json_def omit_def j)
  then show "marshals (token_json k)" .
  show "marshals (jslice token_json u)" by (simp add: marshals_jslice [where P = "\<lambda>_. True"] k list_all_iff)
  show "marshals (listeners_json l)" "marshals (restrict_json r)" "marshals (admission_json d)"
    "marshals (management_json g)" "marshals (observability_json b)"
    by (simp_all add: listeners_json_def restrict_json_def admission_json_def management_json_def
        observability_json_def p)
qed

lemma marshals_view: "marshals (view_json v) \<longleftrightarrow> (case vs_rate v of Some (Fin _) \<Rightarrow> True | None \<Rightarrow> True | _ \<Rightarrow> False)"
  by (simp add: view_json_def omit_def omit_nil_def split: option.splits float64.splits)

lemma marshals_state: "marshals (state_json st) \<longleftrightarrow> finite_rates st"
proof -
  have "marshals (filter_json f) \<longleftrightarrow> (case vs_rate (fs_view f) of Some (Fin _) \<Rightarrow> True | None \<Rightarrow> True | _ \<Rightarrow> False)" for f
    by (simp add: filter_json_def marshals_view)
  note f = marshals_jslice [of filter_json, OF this]
  have l: "marshals (JObj (omit e k (JObj (map (\<lambda>(k, v). (k, JStr v)) xs))))" for e k xs
    by (auto simp: omit_def list_all_iff)
  have n: "marshals (ntp_json n)" "marshals (auth_json a)" for n a by (simp_all add: ntp_json_def auth_json_def)
  show ?thesis
    using l [of "st_labels st = []" "''labels''" "st_labels st"]
    by (simp add: state_json_def spec_json_def n f finite_rates_def)
qed

lemma cloneState_ok: "state_ok st \<Longrightarrow> finite_rates st \<Longrightarrow> cloneState L st = Inr st"
  by (simp add: cloneState_def marshals_state as_state_json Let_def)

lemma cloneState_finite: "cloneState L st = Inr st' \<Longrightarrow> finite_rates st"
  by (auto simp: cloneState_def Let_def marshals_state split: if_splits)

definition normal :: "State \<Rightarrow> State" where
  "normal st = st\<lparr>st_spec := fst (materializeDefaults (st_spec st))\<rparr>"

lemma Normalize_eq:
  assumes "state_ok st"
  shows "Normalize L (Some st) =
    (if finite_rates st then Inr (normal st, snd (materializeDefaults (st_spec st)))
     else Inl (Internal (''clone marshal: '' @ lib_marshal_text L (state_json st))))"
proof (cases "finite_rates st")
  case True
  then show ?thesis using assms by (simp add: Normalize_def cloneState_ok normal_def case_prod_beta)
next
  case False
  then show ?thesis by (simp add: Normalize_def cloneState_def marshals_state Let_def bindR_def)
qed

lemma blank_cases: "blank (if_blank s d) \<longleftrightarrow> blank s \<and> blank d"
  by (simp add: if_blank_def)

lemma if_blank_twice [simp]: "if_blank (if_blank s d) d = if_blank s d"
  by (simp add: if_blank_def)

lemma materializeView_twice [simp]: "materializeView (materializeView v) = materializeView v"
  by (simp add: materializeView_def if_blank_def Let_def)

lemma materialize_twice:
  "materializeDefaults (fst (materializeDefaults sp)) = (fst (materializeDefaults sp), [])"
  by (auto simp: materializeDefaults_def materialize_listeners_def materialize_ntp_def or_empty_def DefaultAuditRing_def
      comp_def)

lemma names_valid [simp]:
  "utf8_valid DefaultNTPAddress" "utf8_valid DefaultMgmtAddress" "utf8_valid DefaultRESTPath" "utf8_valid DefaultMCPPath"
  "utf8_valid MgmtAuthBearer" "utf8_valid ServeModeUnicast" "utf8_valid RestrictServe" "utf8_valid LogLevelInfo"
  "utf8_valid DefaultMetricsListen" "utf8_valid LeapNone" "utf8_valid ''GPS''" "utf8_valid ''INIT''" "utf8_valid ''LOCL''"
  "utf8_valid ''0.0.0.0/0''" "utf8_valid ''::/0''"
  by code_simp+

lemma if_blank_valid [simp]: "utf8_valid s \<Longrightarrow> utf8_valid d \<Longrightarrow> utf8_valid (if_blank s d)"
  by (simp add: if_blank_def)

lemma materializeView_ok: "viewspec_ok v \<Longrightarrow> viewspec_ok (materializeView v)"
  by (auto simp: viewspec_ok_def materializeView_def Let_def)

lemma materialize_ok: "spec_ok sp \<Longrightarrow> spec_ok (fst (materializeDefaults sp))"
proof -
  assume s: "spec_ok sp"
  have l: "listeners_ok l \<Longrightarrow> listeners_ok (materialize_listeners l)" for l
    by (simp add: listeners_ok_def materialize_listeners_def)
  have n: "ntp_ok n \<Longrightarrow> ntp_ok (materialize_ntp n)" for n
    by (auto simp: ntp_ok_def materialize_ntp_def strs_ok_def i64_def' [of 3] i64_def' [of 4])
  have f: "list_all filter_ok fs \<Longrightarrow> list_all filter_ok (map (\<lambda>f. f\<lparr>fs_view := materializeView (fs_view f)\<rparr>) fs)" for fs
    by (auto simp: list_all_iff filter_ok_def materializeView_ok)
  show ?thesis
    using s l n f unfolding spec_ok_parts materializeDefaults_def fst_conv
    by (auto simp: auth_ok_def or_empty_def management_ok_def observability_ok_def strs_ok_def
        i64_def' [of 128] DefaultAuditRing_def)
qed

lemma normal_state_ok: "state_ok st \<Longrightarrow> state_ok (normal st)"
  by (simp add: state_ok_def normal_def materialize_ok)

lemma finite_rates_normal [simp]: "finite_rates (normal st) = finite_rates st"
  by (simp add: finite_rates_def normal_def materializeDefaults_def materializeView_def Let_def list_all_iff)

lemma normal_normal [simp]: "normal (normal st) = normal st"
  by (simp add: normal_def materialize_twice)

lemma Normalize_again:
  assumes "state_ok st" "Normalize L (Some st) = Inr (n, w)"
  shows "Normalize L (Some n) = Inr (n, [])" "state_ok n" "n = normal st" "finite_rates n"
proof -
  have n: "n = normal st" "finite_rates st" using assms by (auto simp: Normalize_eq split: if_splits)
  then show "state_ok n" "n = normal st" "finite_rates n" using assms by (simp_all add: normal_state_ok)
  show "Normalize L (Some n) = Inr (n, [])"
    using n assms by (simp add: Normalize_eq normal_state_ok) (simp add: normal_def materialize_twice)
qed

text \<open>A normalized state is normal: normalizing it again changes nothing and warns of nothing,
  and it has the revision of the state it came from.\<close>

theorem Normalize_idempotent:
  assumes "state_ok st" "Normalize L (Some st) = Inr (n, w)"
  shows "Normalize L (Some n) = Inr (n, []) \<and> Revision L (Some n) = Revision L (Some st)"
  using Normalize_again [OF assms] assms by (simp add: Revision_def CanonicalJSON_def)

definition no_libs :: libs where
  "no_libs = \<lparr>lib_yaml = (\<lambda>_. \<lparr>yd_first = Inl YEOF, yd_ends = True, yd_top = None, yd_raw = Inl []\<rparr>),
     lib_yaml_encode = (\<lambda>_. Inl []), lib_syntax_text = (\<lambda>_. []), lib_marshal_text = (\<lambda>_. []), lib_type_text = (\<lambda>_. []),
     lib_resolves_udp = (\<lambda>_. True), lib_resolves_tcp = (\<lambda>_. True), lib_stat = (\<lambda>_. StatMissing),
     lib_read_file = (\<lambda>_. Inl []), lib_prefix_text = (\<lambda>_. []), lib_time_text = (\<lambda>_. [])\<rparr>"

lemma zero_state_ok [simp]: "state_ok zero_state" "finite_rates zero_state"
proof -
  show "state_ok zero_state" by (simp add: state_ok_def zero_state_def labels_ok_def)
  show "finite_rates zero_state" by (simp add: finite_rates_def zero_state_def zero_spec_def)
qed

theorem Normalize_idempotent_witness:
  "Normalize no_libs (Some (normal zero_state)) = Inr (normal zero_state, [])
   \<and> Revision no_libs (Some (normal zero_state)) = Revision no_libs (Some zero_state)"
  by (rule Normalize_idempotent [of zero_state no_libs _ "[universal_warning]"])
    (simp_all add: Normalize_eq materializeDefaults_def, simp add: zero_state_def zero_spec_def zero_ntp_def)

section \<open>Validity\<close>

definition view_valid :: "ViewSpec \<Rightarrow> bool" where
  "view_valid v =
     (vs_offset v \<noteq> min_i64
      \<and> KnownMode (vs_mode v)
      \<and> (vs_offset v \<noteq> 0 \<longrightarrow> vs_mode v = ModeOffset)
      \<and> (blank (vs_absolute v) \<longleftrightarrow> vs_mode v \<noteq> ModeAbsolute)
      \<and> (blank (vs_freezeAt v) \<longleftrightarrow> vs_mode v \<noteq> ModeFreeze)
      \<and> (vs_rate v = None \<longleftrightarrow> vs_mode v \<noteq> ModeRate)
      \<and> (\<not> blank (vs_epoch v) \<longrightarrow> vs_mode v = ModeRate)
      \<and> (vs_mode v = ModeAbsolute \<longrightarrow> validRFC3339 (vs_absolute v))
      \<and> (vs_mode v = ModeFreeze \<longrightarrow> validRFC3339 (vs_freezeAt v))
      \<and> (vs_mode v = ModeRate \<longrightarrow> (\<exists>r. vs_rate v = Some (Fin r) \<and> \<bar>r\<bar> \<le> 100) \<and> (blank (vs_epoch v) \<or> validRFC3339 (vs_epoch v)))
      \<and> vs_leap v \<in> {[], LeapNone, LeapInsert, LeapDelete, LeapUnsync}
      \<and> 1 \<le> vs_stratum v \<and> vs_stratum v \<le> 16
      \<and> 0 \<le> vs_rootDelay v \<and> 0 \<le> vs_rootDispersion v \<and> 0 \<le> vs_jitter v
      \<and> poll_ok (vs_minpoll v) \<and> poll_ok (vs_maxpoll v)
      \<and> (\<forall>lo hi. vs_minpoll v = Some lo \<longrightarrow> vs_maxpoll v = Some hi \<longrightarrow> lo \<le> hi)
      \<and> (length (vs_refid v) \<le> 4 \<or> parse_ip (vs_refid v) \<noteq> None))"

definition filter_valid :: "FilterSpec \<Rightarrow> bool" where
  "filter_valid f = (filterName_ok (fs_name f) \<and> (fs_enabled f \<longrightarrow> elems (fs_cidrs f) \<noteq> [])
     \<and> list_all (\<lambda>c. parse_prefix c \<noteq> None) (elems (fs_cidrs f)) \<and> view_valid (fs_view f))"

definition filters_valid :: "FilterSpec list \<Rightarrow> bool" where
  "filters_valid fs = (list_all filter_valid fs \<and> distinct (map fs_name fs)
     \<and> has_default v4Default fs \<and> has_default v6Default fs)"

definition token_valid :: "TokenSpec \<Rightarrow> bool" where
  "token_valid t = (\<not> blank (tok_id t) \<and> (tok_role t = [] \<or> KnownRole (tok_role t)) \<and> \<not> blank (tok_secretFile t))"

definition ntp_valid :: "NTPSpec \<Rightarrow> bool" where
  "ntp_valid n = (n_serveMode n \<in> {[], ServeModeUnicast} \<and> \<not> n_ntsEnabled n
     \<and> rs_default (n_restrict n) \<in> {[], RestrictServe, RestrictLimited, RestrictIgnore}
     \<and> set (elems (n_versions n)) \<subseteq> {3, 4} \<and> distinct (elems (n_versions n))
     \<and> 1 \<le> ad_maxPacketsPerSec (n_admission n) \<and> 1 \<le> ad_maxPacketsPerIP (n_admission n)
     \<and> 1 \<le> n_queryLogSize n \<and> n_queryLogSize n \<le> MaxQueryLogSize
     \<and> list_all (\<lambda>c. parse_prefix c \<noteq> None) (elems (n_allowClientCidrs n)))"

definition listeners_valid :: "libs \<Rightarrow> ListenersSpec \<Rightarrow> bool" where
  "listeners_valid L l = (\<not> blank (l_ntpAddress l) \<and> lib_resolves_udp L (l_ntpAddress l)
     \<and> \<not> blank (ml_address (l_management l)) \<and> lib_resolves_tcp L (ml_address (l_management l))
     \<and> (ml_restPath (l_management l) = [] \<or> has_prefix (ml_restPath (l_management l)) ''/'')
     \<and> (ml_mcpPath (l_management l) = [] \<or> has_prefix (ml_mcpPath (l_management l)) ''/''))"

definition auth_valid :: "AuthSpec \<Rightarrow> bool" where
  "auth_valid a = (au_mode a \<in> {[], MgmtAuthBearer, MgmtAuthDevLoopbackUnauth}
     \<and> list_all token_valid (elems (au_tokens a)) \<and> distinct (map tok_id (elems (au_tokens a))))"

definition management_valid :: "ManagementSpec \<Rightarrow> bool" where
  "management_valid m = (0 \<le> mg_bodyLimit m \<and> 0 \<le> mg_requestsPerSecond m \<and> 0 \<le> mg_burst m
     \<and> 0 \<le> mg_maxConcurrent m \<and> ''*'' \<notin> set (elems (mg_allowedOrigins m)))"

definition state_valid :: "libs \<Rightarrow> State \<Rightarrow> bool" where
  "state_valid L st =
     (st_apiVersion st = APIVersionV1Alpha1 \<and> st_kind st = KindLabNTP \<and> \<not> blank (st_name st)
      \<and> listeners_valid L (sp_listeners (st_spec st)) \<and> auth_valid (sp_auth (st_spec st))
      \<and> management_valid (sp_management (st_spec st)) \<and> ntp_valid (sp_ntp (st_spec st))
      \<and> filters_valid (elems (sp_filters (st_spec st)))
      \<and> ob_logLevel (sp_observability (st_spec st)) \<in> {[], ''debug'', LogLevelInfo, ''warn'', ''error''})"

lemma unless_Nil [simp]: "(unless ok v = []) = ok"
  by simp

lemma concat_indexed:
  "concat (map (\<lambda>(i, c). unless (P c) (g i c)) (indexed xs)) = [] \<longleftrightarrow> list_all P xs"
proof -
  have "(\<forall>p \<in> set (zip [0..<length xs] xs). P (snd p)) \<longleftrightarrow> list_all P xs"
    by (auto simp: list_all_length set_zip)
  then show ?thesis by (auto simp: indexed_def case_prod_beta split: if_splits)
qed

lemma validateView_iff: "validateView p v = [] \<longleftrightarrow> view_valid v"
proof -
  have r: "validate_rest p v = [] \<longleftrightarrow> vs_leap v \<in> {[], LeapNone, LeapInsert, LeapDelete, LeapUnsync}
      \<and> 1 \<le> vs_stratum v \<and> vs_stratum v \<le> 16 \<and> 0 \<le> vs_rootDelay v \<and> 0 \<le> vs_rootDispersion v \<and> 0 \<le> vs_jitter v
      \<and> poll_ok (vs_minpoll v) \<and> poll_ok (vs_maxpoll v)
      \<and> (\<forall>lo hi. vs_minpoll v = Some lo \<longrightarrow> vs_maxpoll v = Some hi \<longrightarrow> lo \<le> hi)
      \<and> (length (vs_refid v) \<le> 4 \<or> parse_ip (vs_refid v) \<noteq> None)"
    unfolding validate_rest_def append_is_Nil_conv unless_Nil by (auto split: option.splits)
  have m: "validate_mode p v = [] \<longleftrightarrow>
      (vs_offset v \<noteq> 0 \<longrightarrow> vs_mode v = ModeOffset)
      \<and> (blank (vs_absolute v) \<longleftrightarrow> vs_mode v \<noteq> ModeAbsolute)
      \<and> (blank (vs_freezeAt v) \<longleftrightarrow> vs_mode v \<noteq> ModeFreeze)
      \<and> (vs_rate v = None \<longleftrightarrow> vs_mode v \<noteq> ModeRate)
      \<and> (\<not> blank (vs_epoch v) \<longrightarrow> vs_mode v = ModeRate)
      \<and> (vs_mode v = ModeAbsolute \<longrightarrow> validRFC3339 (vs_absolute v))
      \<and> (vs_mode v = ModeFreeze \<longrightarrow> validRFC3339 (vs_freezeAt v))
      \<and> (vs_mode v = ModeRate \<longrightarrow> (\<exists>r. vs_rate v = Some (Fin r) \<and> \<bar>r\<bar> \<le> 100) \<and> (blank (vs_epoch v) \<or> validRFC3339 (vs_epoch v)))"
    if "KnownMode (vs_mode v)"
  proof -
    have d: "distinct [ModeFollowReal, ModeOffset, ModeAbsolute, ModeFreeze, ModeRate]" by (simp add: mode_names)
    have q: "(case vs_rate v of None \<Rightarrow> [x] | Some (Fin r) \<Rightarrow> unless (\<not> flt MaxAbsRate (Fin \<bar>r\<bar>)) y | Some _ \<Rightarrow> [z]) = []
      \<longleftrightarrow> (\<exists>r. vs_rate v = Some (Fin r) \<and> \<bar>r\<bar> \<le> 100)" for x y z
      by (auto simp: MaxAbsRate_def not_less split: option.splits float64.splits)
    from that consider "vs_mode v = ModeFollowReal" | "vs_mode v = ModeOffset" | "vs_mode v = ModeAbsolute"
      | "vs_mode v = ModeFreeze" | "vs_mode v = ModeRate" by (auto simp: KnownMode_def)
    then show ?thesis
      using d unfolding validate_mode_def Let_def
      by cases (auto simp: q split: if_splits)
  qed
  show ?thesis
    by (cases "KnownMode (vs_mode v)") (auto simp: validateView_def view_valid_def r m)
qed

text \<open>A filter name has no white space.\<close>

definition visible :: "char \<Rightarrow> bool" where
  "visible c = (\<not> ascii_space c \<and> of_char c < (0x80 :: nat))"

lemma visible_lspace: "visible c \<Longrightarrow> lspace (c # r) = 0"
proof -
  assume "visible c"
  then have "\<not> ascii_space c \<and> c \<notin> {CHR 0xC2, CHR 0xE1, CHR 0xE2, CHR 0xE3}" by (auto simp: visible_def)
  then have n: "\<not> ascii_space c" "\<not> space2 c b" "\<not> space3 c b e" for b e
    unfolding space2_def space3_def by auto
  then show ?thesis by (cases "c # r" rule: lspace.cases) simp_all
qed

lemma visible_rspace: "visible c \<Longrightarrow> rspace (c # r) = 0"
proof -
  assume v: "visible c"
  then have "\<not> ascii_space c" and h: "of_char c < (128 :: nat)" by (simp_all add: visible_def)
  moreover have "\<not> space2 b c" "\<not> space3 a b c" for a b
    using h unfolding space2_def space3_def by auto
  ultimately show ?thesis by (cases "c # r" rule: rspace.cases) simp_all
qed

lemma visible_trim: "s \<noteq> [] \<Longrightarrow> visible (hd s) \<Longrightarrow> visible (last s) \<Longrightarrow> trim_space s = s"
proof -
  assume a: "s \<noteq> []" "visible (hd s)" "visible (last s)"
  obtain c r where c: "s = c # r" using a by (cases s) auto
  obtain d q where d: "rev s = d # q" "d = last s" using a by (metis hd_rev neq_Nil_conv list.sel(1) rev_is_Nil_conv)
  have "lspace s = 0" "rspace (rev s) = 0"
    using a c d visible_lspace [of c r] visible_rspace [of d q] by simp_all
  then show ?thesis
    unfolding trim_space_def by (subst trim_left.simps, simp, subst trim_right_rev.simps, simp)
qed

lemma filterName_not_blank: "filterName_ok s \<Longrightarrow> \<not> blank s"
proof -
  assume a: "filterName_ok s"
  have v: "visible c" if "is_digit c \<or> (CHR ''a'' \<le> c \<and> c \<le> CHR ''z'') \<or> c = CHR ''.'' \<or> c = CHR ''_'' \<or> c = CHR ''-''" for c
    using that by (auto simp: visible_def ascii_space_def is_digit_def less_eq_char_def)
  have "list_all visible s"
    using a v by (cases s) (auto simp: filterName_ok_def Let_def list_all_iff)
  then have "trim_space s = s" "s \<noteq> []"
    using a by (auto intro!: visible_trim simp: list_all_iff filterName_ok_def)
  then show ?thesis by (simp add: blank_def)
qed

lemma validate_filter_list_iff:
  "validate_filter_list i names fs = [] \<longleftrightarrow>
     list_all filter_valid fs \<and> distinct (map fs_name fs) \<and> set (map fs_name fs) \<inter> fst ` set names = {}"
proof (induction fs arbitrary: i names)
  case (Cons f fs)
  let ?step = "validate_filter_list (i + 1) (if blank (fs_name f) \<or> \<not> filterName_ok (fs_name f)
    \<or> map_of names (fs_name f) \<noteq> None then names else (fs_name f, i) # names) fs"
  have "validate_filter_list i names (f # fs) = [] \<longleftrightarrow>
    filterName_ok (fs_name f) \<and> map_of names (fs_name f) = None \<and> (fs_enabled f \<longrightarrow> elems (fs_cidrs f) \<noteq> [])
    \<and> list_all (\<lambda>c. parse_prefix c \<noteq> None) (elems (fs_cidrs f)) \<and> view_valid (fs_view f) \<and> ?step = []"
    unfolding validate_filter_list.simps Let_def append_is_Nil_conv concat_indexed validateView_iff unless_Nil
    using filterName_not_blank [of "fs_name f"] by (auto split: if_splits option.splits)
  also have "\<dots> \<longleftrightarrow> list_all filter_valid (f # fs) \<and> distinct (map fs_name (f # fs))
      \<and> set (map fs_name (f # fs)) \<inter> fst ` set names = {}"
    using filterName_not_blank [of "fs_name f"]
    by (auto simp: Cons.IH filter_valid_def [of f] map_of_eq_None_iff)
  finally show ?case .
qed simp

lemma validate_tokens_iff:
  "validate_tokens i ids ts = [] \<longleftrightarrow>
     list_all token_valid ts \<and> distinct (map tok_id ts) \<and> set (map tok_id ts) \<inter> fst ` set ids = {}"
proof (induction ts arbitrary: i ids)
  case (Cons t ts)
  have "validate_tokens i ids (t # ts) = [] \<longleftrightarrow> token_valid t \<and> map_of ids (tok_id t) = None
    \<and> validate_tokens (i + 1) ((tok_id t, i) # ids) ts = []"
    unfolding validate_tokens.simps Let_def append_is_Nil_conv unless_Nil
    by (auto simp: token_valid_def split: if_splits option.splits)
  then show ?case by (auto simp: Cons.IH map_of_eq_None_iff)
qed simp

lemma validate_versions_iff:
  "validate_versions i seen vs = [] \<longleftrightarrow> set vs \<subseteq> {3, 4} \<and> distinct vs \<and> set vs \<inter> set seen = {}"
  by (induction vs arbitrary: i seen) (simp_all only: validate_versions.simps append_is_Nil_conv unless_Nil, auto)

lemma violations_iff: "violations L st = [] \<longleftrightarrow> state_valid L st"
proof -
  have d: "validateDocument st = [] \<longleftrightarrow> st_apiVersion st = APIVersionV1Alpha1 \<and> st_kind st = KindLabNTP \<and> \<not> blank (st_name st)"
    by (auto simp: validateDocument_def)
  have l: "validateListeners L l = [] \<longleftrightarrow> listeners_valid L l" for l
    unfolding validateListeners_def Let_def append_is_Nil_conv unless_Nil validateUDPAddr_def validateTCPAddr_def
      listeners_valid_def by auto
  have a: "validateAuth u = [] \<longleftrightarrow> auth_valid u" for u
    unfolding validateAuth_def append_is_Nil_conv unless_Nil validate_tokens_iff auth_valid_def by auto
  have m: "validateManagement g = [] \<longleftrightarrow> management_valid g" for g
    unfolding validateManagement_def append_is_Nil_conv unless_Nil concat_indexed management_valid_def
    by (auto simp: list_all_iff)
  have n: "validateNTP n = [] \<longleftrightarrow> ntp_valid n" for n
    unfolding validateNTP_def append_is_Nil_conv unless_Nil concat_indexed validate_versions_iff ntp_valid_def by auto
  have f: "validateFilters fs = [] \<longleftrightarrow> filters_valid fs" for fs
    unfolding validateFilters_def append_is_Nil_conv unless_Nil validate_filter_list_iff filters_valid_def by auto
  show ?thesis
    unfolding violations_def Let_def append_is_Nil_conv d l a m n f validateObservability_def unless_Nil state_valid_def
    by auto
qed

lemma Validate_None: "Validate L (Some st) = None \<longleftrightarrow> state_valid L st"
  by (simp add: Validate_def Let_def violations_iff)

text \<open>C8: the checks accept exactly the valid states: the version and kind, addresses that resolve,
  distinct tokens and filter names, CIDRs that parse, views with what their mode needs and nothing it
  forbids, and enabled filters that hold both catch-all prefixes.\<close>

theorem Validate_iff:
  "Validate L (Some st) = (if state_valid L st then None
     else Some (ValidationFailed ''Candidate state is invalid.'' (violations L st)))
   \<and> (violations L st = [] \<longleftrightarrow> state_valid L st)"
  by (simp add: Validate_def Let_def violations_iff)

section \<open>Loading\<close>

text \<open>C9: a document that loads gives a state that is normal, valid, kept by JSON, and reported with
  no error; an error comes without a state.\<close>

theorem Load_sound:
  "case LoadWithWarnings L data of
     None \<Rightarrow> True
   | Some (Some n, warns, err) \<Rightarrow> err = None \<and> state_ok n \<and> normal n = n \<and> state_valid L n
   | Some (None, warns, err) \<Rightarrow> err \<noteq> None"
proof -
  have "state_ok n \<and> normal n = n" if "Decode L data = Some (Inr st)" "Normalize L (Some st) = Inr (n, w)" for st n w
    using Normalize_again(2,3) [OF Decode_state_ok [OF that(1)] that(2)] by simp
  then show ?thesis
    by (auto simp: LoadWithWarnings_def opt_bind_def Validate_None split: option.splits sum.splits prod.splits)
qed

end
