(* ===== verification/Compiler.thy ===== *)
theory Compiler
  imports Config_Props
begin

text \<open>
  The package \<^verbatim>\<open>internal/compiler\<close>: a state becomes an immutable snapshot. The clock
  reading, the file system and the texts of library errors are parameters.
\<close>

text \<open>An error as a Go value: one of \<^verbatim>\<open>domainerr\<close>, or any other by its text.\<close>

datatype go_error = Dom Error | Plain string

definition asDomain :: "go_error \<Rightarrow> Error" where
  "asDomain e = (case e of Dom d \<Rightarrow> d | Plain t \<Rightarrow> Internal t)"

record CompileOpts =
  co_now :: gotime
  co_bootstrapRevision :: revision
  co_generation :: generation
  co_previous :: "Snapshot option"

section \<open>Prefixes\<close>

definition prefix_error :: "libs \<Rightarrow> string \<Rightarrow> string \<Rightarrow> string \<Rightarrow> go_error" where
  "prefix_error L title path c = Dom (ValidationFailed title [violation path ''invalid_value'' (lib_prefix_text L c)])"

text \<open>The prefixes of a list of CIDRs, with the position of the first bad one.\<close>

fun parse_prefixes :: "nat \<Rightarrow> string list \<Rightarrow> nat \<times> string + prefix list" where
  "parse_prefixes i [] = Inr []"
| "parse_prefixes i (c # cs) =
     (case parse_prefix c of
        None \<Rightarrow> Inl (i, c)
      | Some p \<Rightarrow> bindR (parse_prefixes (i + 1) cs) (\<lambda>ps. Inr (p # ps)))"

definition compileAllow :: "libs \<Rightarrow> string slice \<Rightarrow> go_error + prefix list \<times> bool" where
  "compileAllow L cidrs =
     (if cidrs = Some [] then Inr ([], True)
      else case parse_prefixes 0 (elems cidrs) of
        Inl (i, c) \<Rightarrow> Inl (prefix_error L ''invalid allowClientCidrs'' (indexPath ''spec.ntp.allowClientCidrs'' i) c)
      | Inr ps \<Rightarrow> Inr (ps, False))"

section \<open>Views\<close>

definition previousView :: "Snapshot option \<Rightarrow> string \<Rightarrow> View option" where
  "previousView prev name =
     (case prev of None \<Rightarrow> None
      | Some s \<Rightarrow> map_option sf_view (find (\<lambda>f. sf_name f = name) (sn_filters s)))"

definition prevEpochYAML :: "Snapshot option \<Rightarrow> string \<Rightarrow> string" where
  "prevEpochYAML prev name =
     (case prev of None \<Rightarrow> []
      | Some s \<Rightarrow> (case sn_canonical s of None \<Rightarrow> []
          | Some st \<Rightarrow> (case find (\<lambda>f. fs_name f = name) (elems (sp_filters (st_spec st))) of
                None \<Rightarrow> [] | Some f \<Rightarrow> vs_epoch (fs_view f))))"

definition rateEqual :: "View option \<Rightarrow> float64 option \<Rightarrow> bool" where
  "rateEqual prev rate =
     (case (prev, rate) of (Some v, Some r) \<Rightarrow> v_hasRate v \<and> feq (v_rate v) r | _ \<Rightarrow> False)"

definition rateVal :: "float64 option \<Rightarrow> float64" where
  "rateVal r = (case r of None \<Rightarrow> Fin 0 | Some x \<Rightarrow> x)"

definition parse_instant :: "libs \<Rightarrow> string \<Rightarrow> go_error + gotime" where
  "parse_instant L s = (case ParseRFC3339 s of None \<Rightarrow> Inl (Plain (lib_time_text L s)) | Some t \<Rightarrow> Inr t)"

text \<open>
  The epoch of a view: its virtual time, the monotonic instant it is tied to, and the wall
  time of that instant. A rate view that keeps its rate and its epoch keeps its old epoch; one
  whose rate changes starts from the time its predecessor serves now.
\<close>

definition rate_epoch :: "libs \<Rightarrow> FilterSpec \<Rightarrow> CompileOpts \<Rightarrow> go_error + gotime \<times> gotime \<times> gotime" where
  "rate_epoch L f opts =
     (let v = fs_view f; now = co_now opts; prev = previousView (co_previous opts) (fs_name f);
          sameRate = rateEqual prev (vs_rate v);
          sameEpochYAML = (prev \<noteq> None \<and> prevEpochYAML (co_previous opts) (fs_name f) = vs_epoch v)
      in if sameRate \<and> sameEpochYAML
         then (case prev of
             Some p \<Rightarrow> Inr (v_epochVirtual p, v_epochMono p, v_epochWall p)
           | None \<Rightarrow> Inr (t_utc now, now, t_utc now))
         else if vs_epoch v \<noteq> []
         then bindR (parse_instant L (vs_epoch v)) (\<lambda>t. Inr (t, now, t_utc now))
         else (case prev of
             Some p \<Rightarrow> if v_hasRate p \<and> \<not> sameRate then Inr (Served p now, now, t_utc now)
                       else Inr (t_utc now, now, t_utc now)
           | None \<Rightarrow> Inr (t_utc now, now, t_utc now)))"

definition view_epoch :: "libs \<Rightarrow> FilterSpec \<Rightarrow> CompileOpts \<Rightarrow> go_error + gotime \<times> gotime \<times> gotime" where
  "view_epoch L f opts =
     (let v = fs_view f; now = co_now opts; w = t_utc now in
      if vs_mode v = ModeFollowReal then Inr (w, now, w)
      else if vs_mode v = ModeOffset then Inr (t_add w (vs_offset v), now, w)
      else if vs_mode v = ModeAbsolute then bindR (parse_instant L (vs_absolute v)) (\<lambda>t. Inr (t, now, w))
      else if vs_mode v = ModeFreeze then bindR (parse_instant L (vs_freezeAt v)) (\<lambda>t. Inr (t, now, w))
      else if vs_mode v = ModeRate then rate_epoch L f opts
      else Inr (zero_time, now, w))"

definition instant_or_zero :: "string \<Rightarrow> gotime" where
  "instant_or_zero s = (case ParseRFC3339 s of None \<Rightarrow> zero_time | Some t \<Rightarrow> t)"

definition build_view :: "FilterSpec \<Rightarrow> CompileOpts \<Rightarrow> gotime \<times> gotime \<times> gotime \<Rightarrow> View" where
  "build_view f opts e =
     (let v = fs_view f; (ev, em, ew) = e in
      \<lparr>v_name = fs_name f, v_generation = co_generation opts, v_mode = vs_mode v, v_offset = vs_offset v,
       v_absolute = (if vs_mode v = ModeAbsolute then instant_or_zero (vs_absolute v) else zero_time),
       v_freezeAt = (if vs_mode v = ModeFreeze then instant_or_zero (vs_freezeAt v) else zero_time),
       v_rate = rateVal (vs_rate v), v_hasRate = (vs_rate v \<noteq> None),
       v_epochVirtual = ev, v_epochMono = em, v_epochWall = ew,
       v_leap = vs_leap v, v_stratum = vs_stratum v, v_refid = vs_refid v, v_precision = vs_precision v,
       v_rootDelay = vs_rootDelay v, v_rootDispersion = vs_rootDispersion v, v_jitter = vs_jitter v,
       v_minpoll = vs_minpoll v, v_maxpoll = vs_maxpoll v\<rparr>)"

definition view_path :: "FilterSpec \<Rightarrow> string" where
  "view_path f = ''spec.filters[name='' @ fs_name f @ ''].view''"

definition compileView :: "libs \<Rightarrow> FilterSpec \<Rightarrow> CompileOpts \<Rightarrow> go_error + View \<times> Warning list" where
  "compileView L f opts =
     bindR (view_epoch L f opts) (\<lambda>e.
       let out = build_view f opts e;
           w1 = (if ServedClamped out (co_now opts)
                 then [\<lparr>w_path = view_path f, w_code = warningServedTimeClamped,
                        w_message = ''served time clamps to [1900-01-01, 2172-03-15T12:56:32Z)''\<rparr>] else []);
           w2 = (if vs_leap (fs_view f) = LeapUnsync \<and> vs_stratum (fs_view f) \<noteq> 16
                 then [\<lparr>w_path = view_path f, w_code = warningUnsyncStratum,
                        w_message = ''leap unsync with stratum != 16''\<rparr>] else [])
       in Inr (out, w1 @ w2))"

section \<open>Filters\<close>

fun compile_filters :: "libs \<Rightarrow> CompileOpts \<Rightarrow> nat \<Rightarrow> FilterSpec list \<Rightarrow> go_error + SnapFilter list \<times> Warning list" where
  "compile_filters L opts i [] = Inr ([], [])"
| "compile_filters L opts i (f # fs) =
     (case parse_prefixes 0 (elems (fs_cidrs f)) of
        Inl (j, c) \<Rightarrow> Inl (prefix_error L ''invalid CIDR'' (indexPath (indexPath ''spec.filters'' i @ ''.match.cidrs'') j) c)
      | Inr ps \<Rightarrow>
          bindR (compileView L f opts) (\<lambda>(v, w).
          bindR (compile_filters L opts (i + 1) fs) (\<lambda>(rest, ws).
            Inr (\<lparr>sf_name = fs_name f, sf_enabled = fs_enabled f, sf_prefixes = ps, sf_view = v\<rparr> # rest, w @ ws))))"

definition compileFilters :: "libs \<Rightarrow> FilterSpec list \<Rightarrow> CompileOpts \<Rightarrow> go_error + SnapFilter list \<times> Warning list" where
  "compileFilters L fs opts = compile_filters L opts 0 fs"

definition prefixesOverlap :: "prefix list \<Rightarrow> prefix list \<Rightarrow> bool" where
  "prefixesOverlap a b = list_ex (\<lambda>x. list_ex (overlaps x) b) a"

definition overlap_warning :: "nat \<Rightarrow> SnapFilter \<Rightarrow> SnapFilter \<Rightarrow> Warning" where
  "overlap_warning i f g =
     \<lparr>w_path = indexPath ''spec.filters'' i @ ''.match.cidrs'', w_code = warningOverlap,
      w_message = ''enabled filters '' @ quote (sf_name f) @ '' and '' @ quote (sf_name g)
        @ '' have overlapping CIDRs; first-match order wins''\<rparr>"

fun overlap_from :: "nat \<Rightarrow> SnapFilter list \<Rightarrow> Warning list" where
  "overlap_from i [] = []"
| "overlap_from i (f # fs) =
     (if sf_enabled f
      then map (overlap_warning i f) (filter (\<lambda>g. sf_enabled g \<and> prefixesOverlap (sf_prefixes f) (sf_prefixes g)) fs)
      else []) @ overlap_from (i + 1) fs"

definition overlapWarnings :: "SnapFilter list \<Rightarrow> Warning list" where
  "overlapWarnings fs = overlap_from 0 fs"

section \<open>Keys\<close>

definition keys_violation :: "string \<Rightarrow> string \<Rightarrow> string \<Rightarrow> go_error" where
  "keys_violation title c msg = Dom (ValidationFailed title [violation ''spec.ntp.symmetricKeys.file'' c msg])"

definition loadKeys :: "libs \<Rightarrow> string \<Rightarrow> go_error + Table option" where
  "loadKeys L path =
     (if path = [] then Inr None
      else case lib_stat L path of
        StatMissing \<Rightarrow> Inl (keys_violation ''symmetric keys file missing'' ''required''
          (''keys file '' @ path @ '' does not exist''))
      | StatError t \<Rightarrow> Inl (Plain t)
      | StatOk \<Rightarrow>
          (case lib_read_file L path of
             Inl t \<Rightarrow> Inl (keys_violation ''symmetric keys parse failed'' ''invalid_value'' t)
           | Inr data \<Rightarrow>
               (case keys_Parse data of
                  Inl e \<Rightarrow> Inl (keys_violation ''symmetric keys parse failed'' ''invalid_value'' (keys_error_string e))
                | Inr tab \<Rightarrow> Inr (Some tab))))"

section \<open>Compile\<close>

definition lift_dom :: "Error + 'a \<Rightarrow> go_error + 'a" where
  "lift_dom r = (case r of Inl e \<Rightarrow> Inl (Dom e) | Inr a \<Rightarrow> Inr a)"

text \<open>The snapshot of a normal state and of what was compiled from it.\<close>

definition build_snapshot ::
  "CompileOpts \<Rightarrow> State \<Rightarrow> revision \<Rightarrow> Warning list \<Rightarrow> SnapFilter list \<Rightarrow> prefix list \<times> bool \<Rightarrow> Table option \<Rightarrow> Snapshot" where
  "build_snapshot opts n rv warns filters allow keys =
     (let sp = st_spec n; ntp = sp_ntp sp in
      \<lparr>sn_canonical = Some n, sn_revision = rv,
       sn_bootstrapRevision = (if co_bootstrapRevision opts = [] then rv else co_bootstrapRevision opts),
       sn_generation = co_generation opts, sn_compiledAt = co_now opts,
       sn_warnings = warns,
       sn_ntpAddress = l_ntpAddress (sp_listeners sp),
       sn_managementAddress = ml_address (l_management (sp_listeners sp)),
       sn_restPath = ml_restPath (l_management (sp_listeners sp)),
       sn_mcpPath = ml_mcpPath (l_management (sp_listeners sp)),
       sn_versions = remdups (map word_of_int (elems (n_versions ntp))),
       sn_serveMode = n_serveMode ntp, sn_allow = fst allow, sn_allowDenyAll = snd allow,
       sn_restrictDefault = rs_default (n_restrict ntp), sn_kod = rs_kod (n_restrict ntp),
       sn_maxPacketsPerSec = ad_maxPacketsPerSec (n_admission ntp),
       sn_maxPacketsPerIP = ad_maxPacketsPerIP (n_admission ntp),
       sn_queryLogSize = n_queryLogSize ntp, sn_filters = filters, sn_keys = keys\<rparr>)"

definition Compile :: "libs \<Rightarrow> State option \<Rightarrow> CompileOpts \<Rightarrow> go_error + Snapshot" where
  "Compile L st opts =
     bindR (lift_dom (Normalize L st)) (\<lambda>(n, warns).
       case Validate L (Some n) of
         Some e \<Rightarrow> Inl (Dom e)
       | None \<Rightarrow>
           bindR (compileFilters L (elems (sp_filters (st_spec n))) opts) (\<lambda>(filters, more).
           bindR (compileAllow L (n_allowClientCidrs (sp_ntp (st_spec n)))) (\<lambda>allow.
           bindR (loadKeys L (n_keysFile (sp_ntp (st_spec n)))) (\<lambda>keys.
           bindR (lift_dom (Revision L (Some n))) (\<lambda>rv.
             Inr (build_snapshot opts n rv (warns @ more @ overlapWarnings filters) filters allow keys))))))"

section \<open>What a snapshot is\<close>

lemma parse_prefixes_Inr: "parse_prefixes i cs = Inr ps \<longleftrightarrow> list_all2 (\<lambda>c p. parse_prefix c = Some p) cs ps"
  by (induction cs arbitrary: i ps) (auto simp: list_all2_Cons1 split: option.splits)

definition filter_from :: "CompileOpts \<Rightarrow> FilterSpec \<Rightarrow> SnapFilter \<Rightarrow> bool" where
  "filter_from opts f g =
     (sf_name g = fs_name f \<and> sf_enabled g = fs_enabled f
      \<and> list_all2 (\<lambda>c p. parse_prefix c = Some p) (elems (fs_cidrs f)) (sf_prefixes g)
      \<and> (\<exists>e. sf_view g = build_view f opts e))"

lemma compileView_view: "compileView L f opts = Inr (v, w) \<Longrightarrow> \<exists>e. view_epoch L f opts = Inr e \<and> v = build_view f opts e"
  by (auto simp: compileView_def Let_def)

lemma compile_filters_Inr:
  "compile_filters L opts i fs = Inr (gs, ws) \<Longrightarrow> list_all2 (filter_from opts) fs gs"
proof (induction fs arbitrary: i gs ws)
  case (Cons f fs)
  then obtain ps v w rest ws' where s: "parse_prefixes 0 (elems (fs_cidrs f)) = Inr ps"
    "compileView L f opts = Inr (v, w)" "compile_filters L opts (i + 1) fs = Inr (rest, ws')"
    "gs = \<lparr>sf_name = fs_name f, sf_enabled = fs_enabled f, sf_prefixes = ps, sf_view = v\<rparr> # rest"
    by (auto split: sum.splits prod.splits)
  obtain e where "v = build_view f opts e" using compileView_view [OF s(2)] by blast
  then have "\<exists>e. v = build_view f opts e" by blast
  then show ?case using s Cons.IH [OF s(3)] by (simp add: filter_from_def parse_prefixes_Inr)
qed simp

text \<open>What compiling leaves in a snapshot, whatever was there before.\<close>

definition snapshot_ok :: "libs \<Rightarrow> Snapshot \<Rightarrow> bool" where
  "snapshot_ok L s =
     (\<exists>n. sn_canonical s = Some n \<and> state_ok n \<and> finite_rates n \<and> normal n = n \<and> state_valid L n
        \<and> Revision L (Some n) = Inr (sn_revision s) \<and> sn_bootstrapRevision s \<noteq> []
        \<and> map sf_name (sn_filters s) = map fs_name (elems (sp_filters (st_spec n)))
        \<and> distinct (map sf_name (sn_filters s))
        \<and> list_all (\<lambda>f. list_all prefix_valid (sf_prefixes f)) (sn_filters s)
        \<and> set (sn_versions s) \<subseteq> {3, 4} \<and> sn_versions s \<noteq> []
        \<and> list_all prefix_valid (sn_allow s)
        \<and> (\<exists>f \<in> set (sn_filters s). sf_enabled f \<and> v4Default \<in> set (sf_prefixes f))
        \<and> (\<exists>f \<in> set (sn_filters s). sf_enabled f \<and> v6Default \<in> set (sf_prefixes f)))"

lemma Revision_prefix: "Revision L st = Inr r \<Longrightarrow> \<exists>h. r = RevisionPrefix @ h"
  by (auto simp: Revision_def)

lemma lift_dom_Inr [simp]: "lift_dom r = Inr a \<longleftrightarrow> r = Inr a"
  by (cases r) (auto simp: lift_dom_def)

lemma Compile_parts:
  assumes "Compile L st opts = Inr s"
  obtains n w gs more allow keys rv where
    "Normalize L st = Inr (n, w)" "state_valid L n"
    "compileFilters L (elems (sp_filters (st_spec n))) opts = Inr (gs, more)"
    "compileAllow L (n_allowClientCidrs (sp_ntp (st_spec n))) = Inr allow"
    "loadKeys L (n_keysFile (sp_ntp (st_spec n))) = Inr keys"
    "Revision L (Some n) = Inr rv"
    "s = build_snapshot opts n rv (w @ more @ overlapWarnings gs) gs allow keys"
proof -
  from assms obtain n w where n: "Normalize L st = Inr (n, w)"
    and r: "(case Validate L (Some n) of
         Some e \<Rightarrow> Inl (Dom e)
       | None \<Rightarrow>
           bindR (compileFilters L (elems (sp_filters (st_spec n))) opts) (\<lambda>(filters, more).
           bindR (compileAllow L (n_allowClientCidrs (sp_ntp (st_spec n)))) (\<lambda>allow.
           bindR (loadKeys L (n_keysFile (sp_ntp (st_spec n)))) (\<lambda>keys.
           bindR (lift_dom (Revision L (Some n))) (\<lambda>rv.
             Inr (build_snapshot opts n rv (w @ more @ overlapWarnings filters) filters allow keys)))))) = Inr s"
    unfolding Compile_def bindR_eq_Inr lift_dom_Inr by auto
  have v: "Validate L (Some n) = None" using r by (cases "Validate L (Some n)") simp_all
  then have "state_valid L n" by (simp only: Validate_None)
  from r v obtain gs more where f: "compileFilters L (elems (sp_filters (st_spec n))) opts = Inr (gs, more)"
    and r: "bindR (compileAllow L (n_allowClientCidrs (sp_ntp (st_spec n)))) (\<lambda>allow.
           bindR (loadKeys L (n_keysFile (sp_ntp (st_spec n)))) (\<lambda>keys.
           bindR (lift_dom (Revision L (Some n))) (\<lambda>rv.
             Inr (build_snapshot opts n rv (w @ more @ overlapWarnings gs) gs allow keys)))) = Inr s"
    by (cases "compileFilters L (elems (sp_filters (st_spec n))) opts") (simp, simp only: option.case bindR_simps split: prod.splits)
  from r obtain allow keys rv where "compileAllow L (n_allowClientCidrs (sp_ntp (st_spec n))) = Inr allow"
    "loadKeys L (n_keysFile (sp_ntp (st_spec n))) = Inr keys" "Revision L (Some n) = Inr rv"
    "Inr (build_snapshot opts n rv (w @ more @ overlapWarnings gs) gs allow keys) = (Inr s :: go_error + Snapshot)"
    unfolding bindR_eq_Inr lift_dom_Inr by blast
  with n \<open>state_valid L n\<close> f show thesis by (intro that) (assumption | rule sym, simp only: sum.inject)+
qed

lemma build_snapshot_sel [simp]:
  "sn_canonical (build_snapshot opts n rv ws gs allow keys) = Some n"
  "sn_revision (build_snapshot opts n rv ws gs allow keys) = rv"
  "sn_generation (build_snapshot opts n rv ws gs allow keys) = co_generation opts"
  "sn_bootstrapRevision (build_snapshot opts n rv ws gs allow keys) =
     (if co_bootstrapRevision opts = [] then rv else co_bootstrapRevision opts)"
  "sn_filters (build_snapshot opts n rv ws gs allow keys) = gs"
  "sn_warnings (build_snapshot opts n rv ws gs allow keys) = ws"
  "sn_compiledAt (build_snapshot opts n rv ws gs allow keys) = co_now opts"
  by (simp_all add: build_snapshot_def Let_def)

lemmas build_snapshot_simps = build_snapshot_def Let_def

lemma list_all2_in: "list_all2 R xs ys \<Longrightarrow> x \<in> set xs \<Longrightarrow> \<exists>y \<in> set ys. R x y"
  by (induction rule: list_all2_induct) auto

lemma has_default_compiled:
  assumes "list_all2 (filter_from opts) fs gs" "has_default p fs"
  shows "\<exists>g \<in> set gs. sf_enabled g \<and> p \<in> set (sf_prefixes g)"
proof -
  obtain f c where f: "f \<in> set fs" "fs_enabled f" "c \<in> set (elems (fs_cidrs f))" "parse_prefix c = Some p"
    using assms(2) by (auto simp: has_default_def list_ex_iff)
  from list_all2_in [OF assms(1) f(1)] obtain g where g: "g \<in> set gs" "filter_from opts f g" by blast
  then have "list_all2 (\<lambda>c p. parse_prefix c = Some p) (elems (fs_cidrs f)) (sf_prefixes g)" "sf_enabled g"
    using f(2) by (simp_all add: filter_from_def)
  with list_all2_in [OF this(1) f(3)] f(4) g(1) show ?thesis by auto
qed

lemma list_all2_map_eq: "list_all2 R xs ys \<Longrightarrow> (\<And>x y. R x y \<Longrightarrow> f x = g y) \<Longrightarrow> map g ys = map f xs"
  by (induction rule: list_all2_induct) auto

lemma parsed_valid: "list_all2 (\<lambda>c p. parse_prefix c = Some p) cs ps \<Longrightarrow> list_all prefix_valid ps"
  by (induction rule: list_all2_induct) (auto dest: parse_prefix_valid)

lemma compileAllow_Inr:
  "compileAllow L cs = Inr (ps, d) \<Longrightarrow> list_all prefix_valid ps \<and> (d \<longleftrightarrow> cs = Some [])
     \<and> list_all2 (\<lambda>c p. parse_prefix c = Some p) (elems cs) ps"
  by (auto simp: compileAllow_def parse_prefixes_Inr dest: parsed_valid split: if_splits sum.splits)

lemma versions_normal: "elems (n_versions (materialize_ntp n)) \<noteq> []"
  by (simp add: materialize_ntp_def)

lemma Normalize_parts:
  assumes "Normalize L st = Inr (n, w)"
  obtains st' where "n = normal st'" "state_ok n" "normal n = n"
proof (cases st)
  case None
  then show thesis using assms by (simp add: Normalize_def)
next
  case (Some s0)
  then obtain out where "cloneState L s0 = Inr out" "n = normal out"
    using assms by (auto simp: Normalize_def normal_def case_prod_beta)
  moreover from this have "state_ok out" by (auto simp: cloneState_def Let_def dest: as_state_ok split: if_splits option.splits)
  ultimately show thesis by (intro that) (simp_all add: normal_state_ok)
qed

lemma Revision_finite: "Revision L (Some n) = Inr rv \<Longrightarrow> finite_rates n"
  by (auto simp: Revision_def CanonicalJSON_def Normalize_def dest: cloneState_finite)

lemma Compile_snapshot_ok:
  assumes "Compile L st opts = Inr s"
  shows "snapshot_ok L s"
proof -
  obtain n w gs more allow keys rv where c:
    "Normalize L st = Inr (n, w)" "state_valid L n"
    "compileFilters L (elems (sp_filters (st_spec n))) opts = Inr (gs, more)"
    "compileAllow L (n_allowClientCidrs (sp_ntp (st_spec n))) = Inr allow"
    "Revision L (Some n) = Inr rv"
    and s: "s = build_snapshot opts n rv (w @ more @ overlapWarnings gs) gs allow keys"
    using assms(1) by (rule Compile_parts)
  obtain st' where n': "n = normal st'" and nn: "state_ok n" "normal n = n"
    using c(1) by (rule Normalize_parts)
  have fin: "finite_rates n" using c(5) by (rule Revision_finite)
  let ?fs = "elems (sp_filters (st_spec n))"
  have l: "list_all2 (filter_from opts) ?fs gs"
    using c(3) unfolding compileFilters_def by (rule compile_filters_Inr)
  have names: "map sf_name gs = map fs_name ?fs"
    by (rule list_all2_map_eq [OF l]) (simp add: filter_from_def)
  have fv: "filters_valid ?fs" and nv: "ntp_valid (sp_ntp (st_spec n))" using c(2) by (simp_all add: state_valid_def)
  have pv: "list_all (\<lambda>f. list_all prefix_valid (sf_prefixes f)) gs"
    using l by (induction rule: list_all2_induct) (auto simp: filter_from_def dest: parsed_valid)
  have v: "set (elems (n_versions (sp_ntp (st_spec n)))) \<subseteq> {3, 4}" "elems (n_versions (sp_ntp (st_spec n))) \<noteq> []"
    using nv versions_normal [of "sp_ntp (st_spec st')"]
    by (auto simp: ntp_valid_def list_all_iff n' normal_def materializeDefaults_def)
  then have vs: "word_of_int ` set (elems (n_versions (sp_ntp (st_spec n)))) \<subseteq> {3, 4 :: 8 word}" by auto
  have av: "list_all prefix_valid (fst allow)" using compileAllow_Inr [of L _ "fst allow" "snd allow"] c(4) by simp
  have rv: "rv \<noteq> []" using Revision_prefix [OF c(5)] by (auto simp: RevisionPrefix_def)
  have d: "distinct (map sf_name gs)" using fv names by (simp add: filters_valid_def)
  have "\<exists>f \<in> set gs. sf_enabled f \<and> v4Default \<in> set (sf_prefixes f)"
    "\<exists>f \<in> set gs. sf_enabled f \<and> v6Default \<in> set (sf_prefixes f)"
    using fv has_default_compiled [OF l] by (auto simp: filters_valid_def)
  then show ?thesis
    using c nn fin names pv v vs av rv d by (simp add: snapshot_ok_def s build_snapshot_simps)
qed

lemma snapshot_ok_matches:
  assumes "snapshot_ok L s" "addr_valid ip" "zone ip = []"
  shows "Match s ip \<noteq> None"
  using assms catch_all_match [of _ s _ ip] by (auto simp: snapshot_ok_def v4Default_def v6Default_def)


section \<open>Overlaps\<close>

lemma prefixesOverlap_iff:
  assumes "list_all prefix_valid a" "list_all prefix_valid b"
  shows "prefixesOverlap a b \<longleftrightarrow> (\<exists>ip. list_ex (\<lambda>p. contains p ip) a \<and> list_ex (\<lambda>p. contains p ip) b)"
  using assms unfolding prefixesOverlap_def list_ex_iff list_all_iff by (metis overlaps_iff)

lemma ex_less_Suc:
  "(\<exists>i j. i < j \<and> R i j) \<longleftrightarrow> (\<exists>j. R 0 (Suc j)) \<or> (\<exists>i j. i < j \<and> R (Suc i) (Suc j))" for R :: "nat \<Rightarrow> nat \<Rightarrow> bool"
proof
  assume "\<exists>i j. i < j \<and> R i j"
  then obtain i j where "i < j" "R i j" by blast
  then show "(\<exists>j. R 0 (Suc j)) \<or> (\<exists>i j. i < j \<and> R (Suc i) (Suc j))"
    by (cases i; cases j) auto
qed (auto intro: Suc_less_eq [THEN iffD2])

definition overlapping :: "SnapFilter list \<Rightarrow> nat \<Rightarrow> nat \<Rightarrow> bool" where
  "overlapping fs i j = (j < length fs \<and> sf_enabled (fs ! i) \<and> sf_enabled (fs ! j)
     \<and> prefixesOverlap (sf_prefixes (fs ! i)) (sf_prefixes (fs ! j)))"

lemma overlapping_Cons [simp]:
  "overlapping (f # fs) (Suc i) (Suc j) = overlapping fs i j"
  "overlapping (f # fs) 0 (Suc j) = (j < length fs \<and> sf_enabled f \<and> sf_enabled (fs ! j)
     \<and> prefixesOverlap (sf_prefixes f) (sf_prefixes (fs ! j)))"
  by (simp_all add: overlapping_def)

lemma overlap_from_iff:
  "w \<in> set (overlap_from k fs) \<longleftrightarrow> (\<exists>i j. i < j \<and> overlapping fs i j \<and> w = overlap_warning (k + i) (fs ! i) (fs ! j))"
proof (induction fs arbitrary: k)
  case (Cons f fs)
  have "(\<exists>j. overlapping (f # fs) 0 (Suc j) \<and> w = overlap_warning (k + 0) ((f # fs) ! 0) ((f # fs) ! Suc j)) \<longleftrightarrow>
      w \<in> set (if sf_enabled f
      then map (overlap_warning k f) (filter (\<lambda>g. sf_enabled g \<and> prefixesOverlap (sf_prefixes f) (sf_prefixes g)) fs)
      else [])"
    by (auto simp: in_set_conv_nth image_iff Bex_def)
  then show ?case
    by (subst ex_less_Suc) (simp add: Cons.IH)
qed (simp add: overlapping_def)

text \<open>Two enabled filters are reported as overlapping exactly when some client address lies in
  both; the warning names the earlier one, which answers such a client.\<close>

theorem overlapWarnings_iff:
  assumes "list_all (\<lambda>f. list_all prefix_valid (sf_prefixes f)) fs"
  shows "w \<in> set (overlapWarnings fs) \<longleftrightarrow>
     (\<exists>i j ip. i < j \<and> j < length fs \<and> sf_enabled (fs ! i) \<and> sf_enabled (fs ! j)
        \<and> list_ex (\<lambda>p. contains p ip) (sf_prefixes (fs ! i)) \<and> list_ex (\<lambda>p. contains p ip) (sf_prefixes (fs ! j))
        \<and> w = overlap_warning i (fs ! i) (fs ! j))"
proof -
  have "prefixesOverlap (sf_prefixes (fs ! i)) (sf_prefixes (fs ! j)) \<longleftrightarrow>
    (\<exists>ip. list_ex (\<lambda>p. contains p ip) (sf_prefixes (fs ! i)) \<and> list_ex (\<lambda>p. contains p ip) (sf_prefixes (fs ! j)))"
    if "i < j" "j < length fs" for i j
    using that assms by (intro prefixesOverlap_iff) (auto simp: list_all_length)
  then have "overlapping fs i j \<longleftrightarrow> j < length fs \<and> sf_enabled (fs ! i) \<and> sf_enabled (fs ! j) \<and> (\<exists>ip.
     list_ex (\<lambda>p. contains p ip) (sf_prefixes (fs ! i)) \<and> list_ex (\<lambda>p. contains p ip) (sf_prefixes (fs ! j)))"
    if "i < j" for i j using that unfolding overlapping_def by blast
  then show ?thesis
    unfolding overlapWarnings_def overlap_from_iff add_0 by blast
qed

theorem overlapWarnings_iff_witness:
  "overlap_warning 0 \<lparr>sf_name = ''a'', sf_enabled = True, sf_prefixes = [Prefix (V4 0x0A000000) 8], sf_view = zero_view\<rparr>
       \<lparr>sf_name = ''b'', sf_enabled = True, sf_prefixes = [Prefix (V4 0) 0], sf_view = zero_view\<rparr>
     \<in> set (overlapWarnings
       [\<lparr>sf_name = ''a'', sf_enabled = True, sf_prefixes = [Prefix (V4 0x0A000000) 8], sf_view = zero_view\<rparr>,
        \<lparr>sf_name = ''b'', sf_enabled = True, sf_prefixes = [Prefix (V4 0) 0], sf_view = zero_view\<rparr>])"
  (is "?w \<in> set (overlapWarnings ?fs)")
proof -
  have "top_bits 8 ((0x0A000001 :: 32 word) XOR 0x0A000000) = 0" by code_simp
  then have "contains (Prefix (V4 0x0A000000) 8) (V4 0x0A000001)" by simp
  moreover have "contains (Prefix (V4 0) 0) (V4 0x0A000001)" by (rule contains_zero4)
  moreover have v: "list_all (\<lambda>f. list_all prefix_valid (sf_prefixes f)) ?fs" by simp
  ultimately show ?thesis
    unfolding overlapWarnings_iff [OF v]
    by (intro exI [of _ "0::nat"] exI [of _ "1::nat"] exI [of _ "V4 0x0A000001"]) simp
qed

section \<open>Rate views across compilations\<close>

lemma view_epoch_rate: "vs_mode (fs_view f) = ModeRate \<Longrightarrow> view_epoch L f opts = rate_epoch L f opts"
  by (simp add: view_epoch_def mode_names Let_def)

lemma compileView_rate:
  assumes "compileView L f opts = Inr (v, w)" "vs_mode (fs_view f) = ModeRate"
  obtains e where "rate_epoch L f opts = Inr e" "v = build_view f opts e"
  using compileView_view [OF assms(1)] view_epoch_rate [OF assms(2)] by auto

text \<open>A rate view whose rate and epoch stay the same serves the same times after a configuration
  is applied as it did before, at every instant.\<close>

theorem rate_view_kept:
  assumes "compileView L f opts = Inr (v, w)" "vs_mode (fs_view f) = ModeRate"
    and "previousView (co_previous opts) (fs_name f) = Some p" "v_mode p = ModeRate" "v_hasRate p"
    and "vs_rate (fs_view f) = Some (v_rate p)" "v_rate p = Fin r"
    and "prevEpochYAML (co_previous opts) (fs_name f) = vs_epoch (fs_view f)"
  shows "Served v t = Served p t"
proof -
  obtain e where e: "rate_epoch L f opts = Inr e" "v = build_view f opts e"
    using assms(1,2) by (rule compileView_rate)
  have "e = (v_epochVirtual p, v_epochMono p, v_epochWall p)"
    using e(1) assms by (simp add: rate_epoch_def rateEqual_def Let_def)
  then show ?thesis
    using e(2) assms by (simp add: Served_def servedUnclamped_def build_view_def Let_def rateVal_def mode_names)
qed


end
