(* ===== verification/Operations.thy ===== *)
theory Operations
  imports Compiler
begin

text \<open>
  operations.go of \<^verbatim>\<open>internal/app\<close>: the closed list of changes Plan and Apply make to a
  copy of the active document.
\<close>

definition op_path :: "nat \<Rightarrow> string" where
  "op_path i = indexPath ''operations'' i"

definition missing :: "string \<Rightarrow> nat \<Rightarrow> string \<Rightarrow> string \<Rightarrow> Error" where
  "missing title i field msg = ValidationFailed title [violation (op_path i @ field) ''required'' msg]"

definition reset_only :: string where
  "reset_only = ''reset-only; rewrite bootstrap and POST /v1/state:reset''"

fun replace_first :: "FilterSpec \<Rightarrow> FilterSpec list \<Rightarrow> FilterSpec list" where
  "replace_first f [] = []"
| "replace_first f (g # gs) = (if fs_name g = fs_name f then f # gs else g # replace_first f gs)"

definition upsertFilter :: "FilterSpec slice \<Rightarrow> FilterSpec \<Rightarrow> FilterSpec slice" where
  "upsertFilter fs f =
     (if list_ex (\<lambda>g. fs_name g = fs_name f) (elems fs) then Some (replace_first f (elems fs))
      else Some (elems fs @ [f]))"

definition removeFilter :: "FilterSpec slice \<Rightarrow> string \<Rightarrow> FilterSpec slice \<times> bool" where
  "removeFilter fs name =
     (map_option (filter (\<lambda>f. fs_name f \<noteq> name)) fs, list_ex (\<lambda>f. fs_name f = name) (elems fs))"

definition set_filters :: "State \<Rightarrow> FilterSpec slice \<Rightarrow> State" where
  "set_filters st fs = st\<lparr>st_spec := (st_spec st)\<lparr>sp_filters := fs\<rparr>\<rparr>"

definition set_ntp :: "State \<Rightarrow> NTPSpec \<Rightarrow> State" where
  "set_ntp st n = st\<lparr>st_spec := (st_spec st)\<lparr>sp_ntp := n\<rparr>\<rparr>"

definition set_mgmt :: "State \<Rightarrow> ManagementHTTP \<Rightarrow> State" where
  "set_mgmt st m = st\<lparr>st_spec := (st_spec st)\<lparr>sp_management := (sp_management (st_spec st))\<lparr>
     mg_bodyLimit := mh_bodyLimit m, mg_requestsPerSecond := mh_requestsPerSecond m,
     mg_burst := mh_burst m, mg_maxConcurrent := mh_maxConcurrent m\<rparr>\<rparr>\<rparr>"

definition applyOne :: "State \<Rightarrow> Operation \<Rightarrow> nat \<Rightarrow> Error + State" where
  "applyOne st op i =
     (let ntp = sp_ntp (st_spec st); fs = sp_filters (st_spec st) in
      if \<not> KnownOp (op_op op) then
        Inl (WithRemediation (ValidationFailed ''unknown operation''
          [violation (op_path i @ ''.op'') ''invalid_value'' ''unknown op; listen/NTS/keys/auth are reset-only'']) reset_only)
      else if op_op op = OpReplaceFilters then
        Inr (set_filters st (if elems (op_filters op) = [] then None else op_filters op))
      else if op_op op = OpUpsertFilter then
        (case op_filter op of
           None \<Rightarrow> Inl (missing ''missing filter'' i ''.filter'' ''upsertFilter requires filter'')
         | Some f \<Rightarrow> Inr (set_filters st (upsertFilter fs f)))
      else if op_op op = OpRemoveFilter then
        (if op_name op = [] then Inl (missing ''missing name'' i ''.name'' ''removeFilter requires name'')
         else let (fs', found) = removeFilter fs (op_name op) in
           if \<not> found then Inl (NotFound (''filter '' @ op_name op @ '' not found''))
           else Inr (set_filters st fs'))
      else if op_op op = OpReplaceRestrict then
        (case op_restrict op of
           None \<Rightarrow> Inl (missing ''missing restrict'' i ''.restrict'' ''replaceRestrict requires restrict'')
         | Some r \<Rightarrow> Inr (set_ntp st (ntp\<lparr>n_restrict := r\<rparr>)))
      else if op_op op = OpReplaceAdmission then
        (case op_admission op of
           None \<Rightarrow> Inl (missing ''missing admission'' i ''.admission'' ''replaceAdmission requires admission'')
         | Some a \<Rightarrow> Inr (set_ntp st (ntp\<lparr>n_admission := a\<rparr>)))
      else if op_op op = OpReplaceAllowClientCidrs then
        Inr (set_ntp st (ntp\<lparr>n_allowClientCidrs := op_allowClientCidrs op\<rparr>))
      else if op_op op = OpReplaceQueryLog then
        (case op_queryLogSize op of
           None \<Rightarrow> Inl (missing ''missing queryLog'' i ''.queryLog'' ''replaceQueryLog requires queryLog'')
         | Some n \<Rightarrow> Inr (set_ntp st (ntp\<lparr>n_queryLogSize := n\<rparr>)))
      else
        (case op_managementHTTP op of
           None \<Rightarrow> Inl (missing ''missing managementHTTP'' i ''.managementHTTP'' ''replaceManagementHTTP requires managementHTTP'')
         | Some m \<Rightarrow> Inr (set_mgmt st m)))"

fun apply_from :: "nat \<Rightarrow> State \<Rightarrow> Operation list \<Rightarrow> Error + State" where
  "apply_from i st [] = Inr st"
| "apply_from i st (op # ops) = bindR (applyOne st op i) (\<lambda>st'. apply_from (i + 1) st' ops)"

definition applyOperations :: "State option \<Rightarrow> Operation list \<Rightarrow> Error + State" where
  "applyOperations st ops =
     (case st of
        None \<Rightarrow> Inl (ValidationFailed ''nil state'' [violation [] ''required'' ''state is nil''])
      | Some s \<Rightarrow> apply_from 0 s ops)"

section \<open>The parts only a reset changes\<close>

definition token_same :: "TokenSpec \<Rightarrow> TokenSpec \<Rightarrow> bool" where
  "token_same a b = (tok_id a = tok_id b \<and> tok_role a = tok_role b \<and> tok_secretFile a = tok_secretFile b)"

definition authEqual :: "AuthSpec \<Rightarrow> AuthSpec \<Rightarrow> bool" where
  "authEqual a b = (au_mode a = au_mode b \<and> list_all2 token_same (elems (au_tokens a)) (elems (au_tokens b)))"

definition reset_only_error :: "string \<Rightarrow> string \<Rightarrow> string \<Rightarrow> Error" where
  "reset_only_error title path msg =
     WithRemediation (ValidationFailed title [violation path ''invalid_value'' msg]) reset_only"

definition rejectResetOnly :: "State option \<Rightarrow> State option \<Rightarrow> Error option" where
  "rejectResetOnly before after =
     (case (before, after) of
        (Some b, Some a) \<Rightarrow>
          (let x = st_spec b; y = st_spec a in
           if sp_listeners x \<noteq> sp_listeners y
           then Some (reset_only_error ''listeners are reset-only'' ''spec.listeners'' ''listen addresses cannot change via Apply'')
           else if n_ntsEnabled (sp_ntp x) \<noteq> n_ntsEnabled (sp_ntp y)
           then Some (reset_only_error ''ntp.nts is reset-only'' ''spec.ntp.nts'' ''NTS cannot change via Apply'')
           else if n_keysFile (sp_ntp x) \<noteq> n_keysFile (sp_ntp y)
           then Some (reset_only_error ''ntp.symmetricKeys is reset-only'' ''spec.ntp.symmetricKeys'' ''keys file cannot change via Apply'')
           else if \<not> authEqual (sp_auth x) (sp_auth y)
           then Some (reset_only_error ''spec.auth is reset-only'' ''spec.auth'' ''auth cannot change via Apply'')
           else None)
      | _ \<Rightarrow> None)"

text \<open>What two documents share when one comes from the other by operations.\<close>

definition same_fixed :: "State \<Rightarrow> State \<Rightarrow> bool" where
  "same_fixed a b =
     (st_apiVersion a = st_apiVersion b \<and> st_kind a = st_kind b \<and> st_name a = st_name b \<and> st_labels a = st_labels b
      \<and> sp_listeners (st_spec a) = sp_listeners (st_spec b) \<and> sp_auth (st_spec a) = sp_auth (st_spec b)
      \<and> n_ntsEnabled (sp_ntp (st_spec a)) = n_ntsEnabled (sp_ntp (st_spec b))
      \<and> n_keysFile (sp_ntp (st_spec a)) = n_keysFile (sp_ntp (st_spec b))
      \<and> n_versions (sp_ntp (st_spec a)) = n_versions (sp_ntp (st_spec b))
      \<and> n_serveMode (sp_ntp (st_spec a)) = n_serveMode (sp_ntp (st_spec b))
      \<and> mg_allowedOrigins (sp_management (st_spec a)) = mg_allowedOrigins (sp_management (st_spec b))
      \<and> mg_allowLegacyClients (sp_management (st_spec a)) = mg_allowLegacyClients (sp_management (st_spec b))
      \<and> sp_uiEnabled (st_spec a) = sp_uiEnabled (st_spec b)
      \<and> sp_observability (st_spec a) = sp_observability (st_spec b))"

lemma same_fixed_refl [simp]: "same_fixed a a"
  by (simp add: same_fixed_def)

lemma same_fixed_trans: "same_fixed a b \<Longrightarrow> same_fixed b c \<Longrightarrow> same_fixed a c"
  unfolding same_fixed_def by metis

lemma same_fixed_setters [simp]:
  "same_fixed st (set_filters st fs)" "same_fixed st (set_mgmt st m)"
  "same_fixed st (set_ntp st ((sp_ntp (st_spec st))\<lparr>n_restrict := r\<rparr>))"
  "same_fixed st (set_ntp st ((sp_ntp (st_spec st))\<lparr>n_admission := a\<rparr>))"
  "same_fixed st (set_ntp st ((sp_ntp (st_spec st))\<lparr>n_allowClientCidrs := c\<rparr>))"
  "same_fixed st (set_ntp st ((sp_ntp (st_spec st))\<lparr>n_queryLogSize := q\<rparr>))"
  by (simp_all add: same_fixed_def set_filters_def set_ntp_def set_mgmt_def)

lemma applyOne_fixed: "applyOne st op i = Inr st' \<Longrightarrow> same_fixed st st'"
  by (auto simp: applyOne_def Let_def removeFilter_def split: if_splits option.splits)

lemma apply_from_fixed: "apply_from i st ops = Inr st' \<Longrightarrow> same_fixed st st'"
  by (induction ops arbitrary: i st) (auto dest: applyOne_fixed intro: same_fixed_trans)

lemma authEqual_refl [simp]: "authEqual a a"
  by (simp add: authEqual_def token_same_def list_all2_same)

lemma rejectResetOnly_fixed: "same_fixed a b \<Longrightarrow> rejectResetOnly (Some a) (Some b) = None"
  by (simp add: rejectResetOnly_def same_fixed_def Let_def)

text \<open>Operations leave everything else alone: the document's name and labels, the listeners, the
  authentication, NTS, the key file, versions, origins and observability stay as they were, so the
  check for reset-only parts never fires after them.\<close>

theorem applyOperations_fixed:
  "case applyOperations (Some st) ops of
     Inl _ \<Rightarrow> True
   | Inr st' \<Rightarrow> same_fixed st st' \<and> rejectResetOnly (Some st) (Some st') = None"
  by (auto simp: applyOperations_def rejectResetOnly_fixed split: sum.splits dest: apply_from_fixed)

section \<open>Filters\<close>

text \<open>The name of a filter is a key: what is looked up after an upsert or a removal.\<close>

definition find_filter :: "string \<Rightarrow> FilterSpec slice \<Rightarrow> FilterSpec option" where
  "find_filter name fs = find (\<lambda>f. fs_name f = name) (elems fs)"

lemma find_replace_first:
  "find (\<lambda>f. fs_name f = n) (replace_first f fs) =
     (if n = fs_name f \<and> list_ex (\<lambda>g. fs_name g = fs_name f) fs then Some f else find (\<lambda>f. fs_name f = n) fs)"
  by (induction fs) auto

lemma find_snoc: "find P (xs @ [x]) = (case find P xs of Some y \<Rightarrow> Some y | None \<Rightarrow> if P x then Some x else None)"
  by (induction xs) auto

lemma names_replace_first: "map fs_name (replace_first f fs) = map fs_name fs"
  by (induction fs) auto

lemma find_None_ex: "find P xs = None \<longleftrightarrow> \<not> list_ex P xs"
  by (induction xs) auto

lemma find_filter_other: "find (\<lambda>f. fs_name f = n) (filter (\<lambda>f. fs_name f \<noteq> m) fs) =
    (if n = m then None else find (\<lambda>f. fs_name f = n) fs)"
  by (induction fs) auto

text \<open>Upserting and removing act as on a map from names: the filter upserted is found under its name,
  the removed one is gone, every other name keeps its filter, the order of the other names stays, and
  names stay distinct.\<close>

theorem filters_as_map:
  "find_filter n (upsertFilter fs f) = (if n = fs_name f then Some f else find_filter n fs)
   \<and> find_filter n (fst (removeFilter fs m)) = (if n = m then None else find_filter n fs)
   \<and> snd (removeFilter fs m) = (find_filter m fs \<noteq> None)
   \<and> map fs_name (elems (upsertFilter fs f)) =
       map fs_name (elems fs) @ (if find_filter (fs_name f) fs = None then [fs_name f] else [])
   \<and> map fs_name (elems (fst (removeFilter fs m))) = filter (\<lambda>x. x \<noteq> m) (map fs_name (elems fs))"
proof (intro conjI)
  show "find_filter n (upsertFilter fs f) = (if n = fs_name f then Some f else find_filter n fs)"
  proof (cases "list_ex (\<lambda>g. fs_name g = fs_name f) (elems fs)")
    case True
    then show ?thesis by (simp add: find_filter_def upsertFilter_def find_replace_first)
  next
    case False
    then have "find (\<lambda>g. fs_name g = fs_name f) (elems fs) = None" by (simp add: find_None_ex)
    with False show ?thesis
      by (auto simp: find_filter_def upsertFilter_def find_snoc split: option.splits)
  qed
  show "find_filter n (fst (removeFilter fs m)) = (if n = m then None else find_filter n fs)"
    by (cases fs) (simp_all add: find_filter_def removeFilter_def find_filter_other)
  show "snd (removeFilter fs m) = (find_filter m fs \<noteq> None)"
    by (simp add: find_filter_def removeFilter_def find_None_ex)
  show "map fs_name (elems (upsertFilter fs f)) =
       map fs_name (elems fs) @ (if find_filter (fs_name f) fs = None then [fs_name f] else [])"
    by (simp add: find_filter_def upsertFilter_def names_replace_first find_None_ex)
  show "map fs_name (elems (fst (removeFilter fs m))) = filter (\<lambda>x. x \<noteq> m) (map fs_name (elems fs))"
    by (cases fs) (simp_all add: removeFilter_def filter_map comp_def)
qed

end
