(* ===== verification/Diff.thy ===== *)
theory Diff
  imports Compiler
begin

text \<open>
  diff.go of \<^verbatim>\<open>internal/app\<close>: the entries by which the canonical JSON of two documents differs,
  sorted by path.
\<close>

record DiffEntry =
  de_path :: string
  de_op :: string
  de_before :: string
  de_after :: string

text \<open>The JSON text of a tree; the absent raw message is the empty string.\<close>

definition mustJSON :: "json \<Rightarrow> string" where
  "mustJSON v = (if marshals v then json_text v else ''null'')"

definition deepEqualJSON :: "json \<Rightarrow> json \<Rightarrow> bool" where
  "deepEqualJSON a b = (mustJSON a = mustJSON b)"

definition joinJSONPath :: "string \<Rightarrow> string \<Rightarrow> string" where
  "joinJSONPath parent key = (if parent = [] then key else parent @ ''.'' @ key)"

definition added :: "string \<Rightarrow> json \<Rightarrow> DiffEntry" where
  "added p v = \<lparr>de_path = p, de_op = ''add'', de_before = [], de_after = mustJSON v\<rparr>"

definition removed :: "string \<Rightarrow> json \<Rightarrow> DiffEntry" where
  "removed p v = \<lparr>de_path = p, de_op = ''remove'', de_before = mustJSON v, de_after = []\<rparr>"

definition replaced :: "string \<Rightarrow> json \<Rightarrow> json \<Rightarrow> DiffEntry" where
  "replaced p b a = \<lparr>de_path = p, de_op = ''replace'', de_before = mustJSON b, de_after = mustJSON a\<rparr>"

text \<open>The keys of two objects, each once, in order.\<close>

definition key_union :: "(string \<times> json) list \<Rightarrow> (string \<times> json) list \<Rightarrow> string list" where
  "key_union bm am = sort (remdups (map fst bm @ map fst am))"

lemma size_map_of: "map_of m k = Some (v :: json) \<Longrightarrow> size v < Suc (size_list (size_prod (\<lambda>x. 0) size) m)"
  by (induction m) (auto split: if_splits)

lemma size_nth_json: "i < length xs \<Longrightarrow> size (xs ! i) < Suc (size_list size xs)"
  by (meson le_imp_less_Suc nth_mem order_refl size_list_estimation')

function walkDiff :: "json \<Rightarrow> json \<Rightarrow> string \<Rightarrow> DiffEntry list" where
  "walkDiff before after path =
     (if deepEqualJSON before after then []
      else case (before, after) of
        (JObj bm, JObj am) \<Rightarrow>
          concat (map (\<lambda>k. let p = joinJSONPath path k in
            (case (map_of bm k, map_of am k) of
               (None, None) \<Rightarrow> []
             | (None, Some av) \<Rightarrow> [added p av]
             | (Some bv, None) \<Rightarrow> [removed p bv]
             | (Some bv, Some av) \<Rightarrow> walkDiff bv av p)) (key_union bm am))
      | (JArr bl, JArr al) \<Rightarrow>
          concat (map (\<lambda>i. let p = indexPath path i in
            if length bl \<le> i then [added p (al ! i)]
            else if length al \<le> i then [removed p (bl ! i)]
            else walkDiff (bl ! i) (al ! i) p) [0..<max (length bl) (length al)])
      | _ \<Rightarrow> [replaced path before after])"
  by pat_completeness auto
termination
  by (relation "measure (\<lambda>(b, a, p). size b)") (auto simp: size_nth_json dest: size_map_of [OF sym])

definition formatHumanDiff :: "DiffEntry list \<Rightarrow> string" where
  "formatHumanDiff diff = concat (map (\<lambda>d. de_op d @ '' '' @ de_path d @ [CHR 0x0A]) diff)"

definition jsonTree :: "libs \<Rightarrow> State option \<Rightarrow> go_error + json" where
  "jsonTree L st =
     (if st = None then Inr (JObj [])
      else bindR (lift_dom (CanonicalJSON L st)) (\<lambda>raw.
        case json_decode raw of None \<Rightarrow> Inl (Plain (lib_syntax_text L raw)) | Some (tree, _) \<Rightarrow> Inr tree))"

definition diffStates :: "libs \<Rightarrow> State option \<Rightarrow> State option \<Rightarrow> go_error + DiffEntry list \<times> string" where
  "diffStates L before after =
     bindR (jsonTree L before) (\<lambda>tb.
     bindR (jsonTree L after) (\<lambda>ta.
       let out = sort_key de_path (walkDiff tb ta []) in Inr (out, formatHumanDiff out)))"

declare walkDiff.simps [simp del]

section \<open>Decoded trees\<close>

text \<open>What the decoder returns: number literals, strings, and objects with distinct keys.\<close>

fun jtree :: "json \<Rightarrow> bool" where
  "jtree JNull = True"
| "jtree (JBool b) = True"
| "jtree (JNum t) = (t \<noteq> [])"
| "jtree (JStr s) = True"
| "jtree (JArr xs) = list_all jtree xs"
| "jtree (JObj m) = (distinct (map fst m) \<and> list_all (\<lambda>(k, v). jtree v) m)"
| "jtree v = False"

lemma jtree_put_key:
  assumes "distinct (map fst m)" "list_all (\<lambda>(k, v). jtree v) m" "jtree v"
  shows "distinct (map fst (put_key k v m)) \<and> list_all (\<lambda>(k, v). jtree v) (put_key k v m)"
  using assms set_put_key_subset [of k v m] put_key_distinct [of m k v] by (auto simp: list_all_iff)

lemma parse_number_not_Nil: "parse_number s = Some (t, z) \<Longrightarrow> t \<noteq> []"
  by (auto simp: parse_number_def Let_def split: if_splits prod.splits list.splits)

lemma parsed_jtree:
  "parse_value n d s = Some (v, z) \<Longrightarrow> jtree v"
  "parse_items n d s = Some (vs, z) \<Longrightarrow> list_all jtree vs"
  "\<lbrakk>parse_members n d acc s = Some (m, z); distinct (map fst acc); list_all (\<lambda>(k, v). jtree v) acc\<rbrakk>
    \<Longrightarrow> distinct (map fst m) \<and> list_all (\<lambda>(k, v). jtree v) m"
proof (induction n d s and n d s and n d acc s arbitrary: v z and vs z and m z
    rule: parse_value_parse_items_parse_members.induct)
  case (2 k d s)
  then show ?case
    by (auto simp: opt_bind_eq_Some dest: parse_number_not_Nil split: list.splits if_splits)
next
  case (4 k d s)
  obtain v z1 where a: "parse_value k d s = Some (v, z1)"
    using 4(3) by (auto simp: opt_bind_def split: option.splits)
  have v: "jtree v" by (rule 4(1) [OF a])
  obtain c r where c: "skip_ws z1 = c # r"
    using 4(3) a by (cases "skip_ws z1") (auto simp: opt_bind_def)
  show ?case
  proof (cases "c = CHR '',''")
    case True
    then obtain ws where "parse_items k d r = Some (ws, z)" "vs = v # ws"
      using 4(3) a c by (auto simp: opt_bind_eq_Some)
    then show ?thesis using 4(2) [OF c True] v by simp
  next
    case False
    then show ?thesis using 4(3) a c v by (auto simp: opt_bind_def split: if_splits)
  qed
next
  case (6 k d acc s)
  note p = 6(3)
  obtain r where s1: "skip_ws s = CHR 0x22 # r"
    using p by (auto split: list.splits if_splits)
  obtain key z1 where ps: "parse_string r = Some (key, z1)"
    using p s1 by (auto simp: opt_bind_def split: option.splits)
  obtain r1 where s2: "skip_ws z1 = CHR '':'' # r1"
    using p s1 ps by (auto simp: opt_bind_def split: list.splits if_splits)
  obtain v y where v: "parse_value k d r1 = Some (v, y)"
    using p s1 ps s2 by (auto simp: opt_bind_def split: option.splits)
  obtain e r2 where s3: "skip_ws y = e # r2"
    using p s1 ps s2 v by (cases "skip_ws y") (auto simp: opt_bind_def)
  have jv: "jtree v" by (rule 6(1) [OF s1 _ s2 _ v]) simp_all
  note put = jtree_put_key [OF 6(4,5) jv, of key]
  show ?case
  proof (cases "e = CHR '',''")
    case True
    then have m: "parse_members k d (put_key key v acc) r2 = Some (m, z)"
      using p s1 ps s2 v s3 by (simp add: opt_bind_def)
    show ?thesis by (rule 6(2) [OF s1 _ s2 _ s3 True m]) (simp_all add: put)
  next
    case False
    then show ?thesis using p s1 ps s2 v s3 put by (auto simp: opt_bind_def split: if_splits)
  qed
qed simp_all

lemma json_decode_jtree: "json_decode s = Some (v, z) \<Longrightarrow> jtree v"
  unfolding json_decode_def by (rule parsed_jtree(1))

lemma jtree_text: "jtree v \<Longrightarrow> marshals v \<and> json_text v \<noteq> []"
  by (induction v rule: jtree.induct) (auto simp: list_all_iff json_str_def)

lemma mustJSON_jtree: "jtree v \<Longrightarrow> mustJSON v = json_text v"
  by (simp add: mustJSON_def jtree_text)

lemma jtree_map_of: "jtree (JObj m) \<Longrightarrow> map_of m k = Some v \<Longrightarrow> jtree v"
  by (auto simp: list_all_iff dest: map_of_SomeD)

lemma jtree_nth: "jtree (JArr xs) \<Longrightarrow> i < length xs \<Longrightarrow> jtree (xs ! i)"
  by (simp add: list_all_length)

section \<open>What a difference says\<close>

lemma sort_key_map_of:
  assumes "distinct (map fst xs)" "distinct (map fst ys)" "map_of xs = map_of ys"
  shows "sort_key fst xs = sort_key fst (ys :: (string \<times> string) list)"
proof (rule map_sorted_distinct_set_unique [where f = fst])
  have s: "set xs = set ys" using assms by (metis map_of_eqI map_of_inject_set)
  then show "set (sort_key fst xs) = set (sort_key fst ys)" by simp
  have "distinct (map fst (sort_key fst zs))" if "distinct (map fst zs)" for zs :: "(string \<times> string) list"
    using that by (metis distinct_map distinct_sort set_sort)
  then show "distinct (map fst (sort_key fst xs))" "distinct (map fst (sort_key fst ys))" using assms by simp_all
  show "inj_on fst (set (sort_key fst xs) \<union> set (sort_key fst ys))"
    using assms(1) s by (simp add: distinct_map)
qed simp_all

lemma map_of_texts: "map_of (map (\<lambda>(k, v). (k, f v)) m) k = map_option f (map_of m k)"
  by (induction m) auto

lemma json_text_objects:
  assumes "distinct (map fst bm)" "distinct (map fst am)"
    and "\<And>k. map_option json_text (map_of bm k) = map_option json_text (map_of am k)"
  shows "json_text (JObj bm) = json_text (JObj am)"
proof -
  have "sort_key fst (map (\<lambda>(k, v). (k, json_text v)) bm) = sort_key fst (map (\<lambda>(k, v). (k, json_text v)) am)"
    using assms by (intro sort_key_map_of) (auto simp: map_of_texts comp_def case_prod_beta)
  then show ?thesis by simp
qed

lemma key_union_iff: "k \<in> set (key_union bm am) \<longleftrightarrow> map_of bm k \<noteq> None \<or> map_of am k \<noteq> None"
  by (auto simp: key_union_def map_of_eq_None_iff)

lemma walkDiff_objects:
  "\<not> deepEqualJSON (JObj bm) (JObj am) \<Longrightarrow> walkDiff (JObj bm) (JObj am) path =
     concat (map (\<lambda>k. let p = joinJSONPath path k in
            (case (map_of bm k, map_of am k) of
               (None, None) \<Rightarrow> []
             | (None, Some av) \<Rightarrow> [added p av]
             | (Some bv, None) \<Rightarrow> [removed p bv]
             | (Some bv, Some av) \<Rightarrow> walkDiff bv av p)) (key_union bm am))"
  by (subst walkDiff.simps) simp

lemma walkDiff_arrays:
  "\<not> deepEqualJSON (JArr bl) (JArr al) \<Longrightarrow> walkDiff (JArr bl) (JArr al) path =
     concat (map (\<lambda>i. let p = indexPath path i in
            if length bl \<le> i then [added p (al ! i)]
            else if length al \<le> i then [removed p (bl ! i)]
            else walkDiff (bl ! i) (al ! i) p) [0..<max (length bl) (length al)])"
  by (subst walkDiff.simps) simp

lemma walkDiff_equal: "deepEqualJSON b a \<Longrightarrow> walkDiff b a path = []"
  by (subst walkDiff.simps) simp

lemma walkDiff_Nil: "jtree b \<Longrightarrow> jtree a \<Longrightarrow> walkDiff b a path = [] \<Longrightarrow> json_text b = json_text a"
proof (induction b a path rule: walkDiff.induct)
  case (1 b a path)
  show ?case
  proof (cases "deepEqualJSON b a")
    case True
    then show ?thesis using 1(3,4) by (simp add: deepEqualJSON_def mustJSON_jtree)
  next
    case False
    consider (obj) bm am where "b = JObj bm" "a = JObj am" | (arr) bl al where "b = JArr bl" "a = JArr al"
      | (other) "walkDiff b a path = [replaced path b a]"
      using False walkDiff.simps [of b a path] by (cases b; cases a) simp_all
    then show ?thesis
    proof cases
      case obj
      have F: "\<not> deepEqualJSON (JObj bm) (JObj am)" using False obj by simp
      note w = 1(5) [unfolded obj walkDiff_objects [OF F] concat_eq_Nil_conv set_map]
      have e: "map_option json_text (map_of bm k) = map_option json_text (map_of am k)" for k
      proof (cases "k \<in> set (key_union bm am)")
        case True
        note piece = bspec [OF w imageI [OF True]]
        obtain bv av where v: "map_of bm k = Some bv" "map_of am k = Some av" "walkDiff bv av (joinJSONPath path k) = []"
          using piece True by (cases "map_of bm k"; cases "map_of am k") (auto simp: Let_def key_union_iff)
        have "jtree bv" "jtree av" using jtree_map_of v 1(3,4) obj by blast+
        from 1(2) [OF False refl obj True refl refl v(1,2) this v(3)] show ?thesis by (simp add: v)
      qed (simp add: key_union_iff)
      then show ?thesis using 1(3,4) by (simp only: obj) (rule json_text_objects, auto)
    next
      case arr
      have F: "\<not> deepEqualJSON (JArr bl) (JArr al)" using False arr by simp
      note w = 1(5) [unfolded arr walkDiff_arrays [OF F] concat_eq_Nil_conv set_map]
      have both: "\<not> length bl \<le> i \<and> \<not> length al \<le> i \<and> walkDiff (bl ! i) (al ! i) (indexPath path i) = []"
        if "i < max (length bl) (length al)" for i
      proof -
        have "i \<in> set [0..<max (length bl) (length al)]" using that by simp
        from bspec [OF w imageI [OF this]] show ?thesis by (simp add: Let_def split: if_splits)
      qed
      have l: "length bl = length al"
      proof (rule ccontr)
        assume "length bl \<noteq> length al"
        then have "length bl < max (length bl) (length al) \<or> length al < max (length bl) (length al)" by linarith
        then show False using both order_refl by blast
      qed
      have n: "walkDiff (bl ! i) (al ! i) (indexPath path i) = []" if "i < length bl" for i
        using both [of i] that less_max_iff_disj by blast
      have "map json_text bl = map json_text al"
      proof (rule nth_equalityI)
        fix i assume "i < length (map json_text bl)"
        then have i: "i < length bl" "i < length al" "i \<in> set [0..<max (length bl) (length al)]"
          "\<not> length bl \<le> i" "\<not> length al \<le> i" using l by simp_all
        then have "jtree (bl ! i)" "jtree (al ! i)" using jtree_nth 1(3,4) arr by blast+
        from 1(1) [OF False refl arr i(3) refl i(4,5) this n [OF i(1)]] i
        show "map json_text bl ! i = map json_text al ! i" by simp
      qed (simp add: l)
      then show ?thesis by (simp add: arr)
    next
      case other
      then show ?thesis using 1(5) by simp
    qed
  qed
qed

lemma walkDiff_differs:
  "jtree b \<Longrightarrow> jtree a \<Longrightarrow> list_all (\<lambda>e. de_before e \<noteq> de_after e) (walkDiff b a path)"
proof (induction b a path rule: walkDiff.induct)
  case (1 b a path)
  show ?case
  proof (cases "deepEqualJSON b a")
    case True
    then show ?thesis by (simp add: walkDiff_equal)
  next
    case False
    have one: "de_before (added p v) \<noteq> de_after (added p v)" "de_before (removed p v) \<noteq> de_after (removed p v)"
      if "jtree v" for p v using jtree_text [OF that] by (auto simp: added_def removed_def mustJSON_def)
    consider (obj) bm am where "b = JObj bm" "a = JObj am" | (arr) bl al where "b = JArr bl" "a = JArr al"
      | (other) "walkDiff b a path = [replaced path b a]"
      using False walkDiff.simps [of b a path] by (cases b; cases a) simp_all
    then show ?thesis
    proof cases
      case obj
      have F: "\<not> deepEqualJSON (JObj bm) (JObj am)" using False obj by simp
      have j: "map_of bm k = Some v \<Longrightarrow> jtree v" "map_of am k = Some v \<Longrightarrow> jtree v" for k v
        using jtree_map_of 1(3,4) obj by blast+
      have "list_all (\<lambda>e. de_before e \<noteq> de_after e) (walkDiff bv av (joinJSONPath path k))"
        if "k \<in> set (key_union bm am)" "map_of bm k = Some bv" "map_of am k = Some av" for k bv av
        using 1(2) [OF False refl obj that(1) refl refl that(2,3) j(1) [OF that(2)] j(2) [OF that(3)]] .
      then show ?thesis
        unfolding obj walkDiff_objects [OF F] list_all_iff
        by (auto simp: Let_def one j split: option.splits)
    next
      case arr
      have F: "\<not> deepEqualJSON (JArr bl) (JArr al)" using False arr by simp
      have j: "i < length bl \<Longrightarrow> jtree (bl ! i)" "i < length al \<Longrightarrow> jtree (al ! i)" for i
        using jtree_nth 1(3,4) arr by blast+
      have "list_all (\<lambda>e. de_before e \<noteq> de_after e) (walkDiff (bl ! i) (al ! i) (indexPath path i))"
        if "\<not> length bl \<le> i" "\<not> length al \<le> i" for i
      proof -
        have "i \<in> set [0..<max (length bl) (length al)]" using that by simp
        from 1(1) [OF False refl arr this refl that] show ?thesis using j that by simp
      qed
      then show ?thesis
        unfolding arr walkDiff_arrays [OF F] list_all_iff
        by (auto simp: Let_def one j split: if_splits)
    next
      case other
      then show ?thesis using False by (simp add: replaced_def deepEqualJSON_def)
    qed
  qed
qed

lemma jsonTree_jtree: "jsonTree L (Some st) = Inr t \<Longrightarrow> jtree t"
  by (auto simp: jsonTree_def lift_dom_def split: option.splits sum.splits dest: json_decode_jtree)


end
