(* ===== verification/Health.thy ===== *)
theory Health
  imports Prelude
begin

text \<open>health.go of \<^verbatim>\<open>internal/observability\<close>: readiness from the observed facts.\<close>

definition WarnNTPUnbound :: string where "WarnNTPUnbound = ''ntp_unbound''"
definition WarnSnapshotMissing :: string where "WarnSnapshotMissing = ''snapshot_missing''"
definition WarnMgmtUnbound :: string where "WarnMgmtUnbound = ''management_unbound''"
definition WarnListenerUnbound :: string where "WarnListenerUnbound = ''listener_unbound''"

lemmas warn_names = WarnNTPUnbound_def WarnSnapshotMissing_def WarnMgmtUnbound_def WarnListenerUnbound_def

definition MaxWarnings :: nat where "MaxWarnings = 16"

record Note =
  no_code :: string
  no_message :: string

record Facts =
  fa_processDown :: bool
  fa_ntpBound :: bool
  fa_snapshotUp :: bool
  fa_mgmtBound :: bool
  fa_mgmtOff :: bool

record Probe =
  pr_live :: bool
  pr_ready :: bool
  pr_warnings :: "Note list"

definition add_warning :: "bool \<Rightarrow> string \<Rightarrow> string \<Rightarrow> Note list \<Rightarrow> Note list" where
  "add_warning c code msg ws =
     (if \<not> c \<or> MaxWarnings \<le> length ws then ws else ws @ [\<lparr>no_code = code, no_message = msg\<rparr>])"

definition Evaluate :: "Facts \<Rightarrow> Probe" where
  "Evaluate f =
     (let live = (\<not> fa_processDown f);
          mgmtOK = (fa_mgmtBound f \<or> fa_mgmtOff f);
          w1 = add_warning (\<not> fa_ntpBound f) WarnNTPUnbound ''NTP UDP listener is not bound'' [];
          w2 = add_warning (\<not> fa_ntpBound f) WarnListenerUnbound ''a required listener is not bound'' w1;
          w3 = add_warning (\<not> fa_snapshotUp f) WarnSnapshotMissing ''compiled snapshot is not installed'' w2;
          w4 = add_warning (\<not> mgmtOK) WarnMgmtUnbound ''management listener is not bound'' w3;
          w5 = add_warning (\<not> mgmtOK \<and> fa_ntpBound f) WarnListenerUnbound ''a required listener is not bound'' w4
      in \<lparr>pr_live = live, pr_ready = (live \<and> fa_ntpBound f \<and> fa_snapshotUp f \<and> mgmtOK), pr_warnings = w5\<rparr>)"

text \<open>A live process is ready exactly when it has nothing to warn about, and the warning that a listener is
  missing is given at most once.\<close>

theorem ready_iff_no_warning:
  "(pr_ready (Evaluate f) \<longleftrightarrow> pr_live (Evaluate f) \<and> pr_warnings (Evaluate f) = [])
   \<and> distinct (map no_code (pr_warnings (Evaluate f)))"
  by (cases "fa_ntpBound f"; cases "fa_snapshotUp f"; cases "fa_mgmtBound f \<or> fa_mgmtOff f")
    (simp_all add: Evaluate_def Let_def add_warning_def MaxWarnings_def warn_names)

end
