(* ===== verification/Idempotency.thy ===== *)
theory Idempotency
  imports Operations Diff Go_Hash Health
begin

text \<open>
  idempotency.go of \<^verbatim>\<open>internal/app\<close>, with the plans and results of types.go: a cache of the
  answers to changes by idempotency key, least recently used last. The map and the linked list of
  the code are one list here, the head first; a result is stored and returned as a copy, which in a
  model without aliases is the value itself.
\<close>

section \<open>types.go\<close>

record ChangeIn =
  ci_expectedRevision :: revision
  ci_idempotencyKey :: string
  ci_reason :: string
  ci_force :: bool
  ci_operations :: "Operation slice"

record Plan =
  pl_previousRevision :: revision
  pl_candidateRevision :: revision
  pl_drifted :: bool
  pl_diff :: "DiffEntry list"
  pl_warnings :: "Note list"
  pl_operations :: "Operation list"

record ApplyResult =
  ap_plan :: Plan
  ap_applied :: bool
  ap_generation :: generation
  ap_runtimeRevision :: revision
  ap_auditEventID :: string

section \<open>The fingerprint of a change\<close>

text \<open>json.Marshal of a struct writes its fields in their order.\<close>

fun struct_text :: "json \<Rightarrow> string" where
  "struct_text (JArr xs) = ''['' @ sep_by '','' (map struct_text xs) @ '']''"
| "struct_text (JObj kvs) = ''{'' @ sep_by '','' (map (\<lambda>(k, v). json_str k @ '':'' @ struct_text v) kvs) @ ''}''"
| "struct_text v = json_text v"

definition managementHTTP_json :: "ManagementHTTP \<Rightarrow> json" where
  "managementHTTP_json m = JObj [(''bodyLimit'', JInt (mh_bodyLimit m)), (''requestsPerSecond'', JInt (mh_requestsPerSecond m)),
     (''burst'', JInt (mh_burst m)), (''maxConcurrent'', JInt (mh_maxConcurrent m))]"

definition queryLog_json :: "int \<Rightarrow> json" where
  "queryLog_json n = JObj [(''size'', JInt n)]"

definition operation_json :: "Operation \<Rightarrow> json" where
  "operation_json op = JObj
     ([(''op'', JStr (op_op op))]
      @ omit (elems (op_filters op) = []) ''filters'' (jslice filter_json (op_filters op))
      @ omit_nil ''filter'' filter_json (op_filter op)
      @ omit (op_name op = []) ''name'' (JStr (op_name op))
      @ omit_nil ''restrict'' restrict_json (op_restrict op)
      @ omit_nil ''admission'' admission_json (op_admission op)
      @ omit (elems (op_allowClientCidrs op) = []) ''allowClientCidrs'' (jslice JStr (op_allowClientCidrs op))
      @ omit_nil ''queryLog'' queryLog_json (op_queryLogSize op)
      @ omit_nil ''managementHTTP'' managementHTTP_json (op_managementHTTP op))"

definition change_json :: "ChangeIn \<Rightarrow> json" where
  "change_json ci = JObj [(''reason'', JStr (ci_reason ci)), (''operations'', jslice operation_json (ci_operations ci))]"

definition fingerprintChange :: "libs \<Rightarrow> ChangeIn \<Rightarrow> Error + string" where
  "fingerprintChange L ci =
     (let t = change_json ci in
      if \<not> marshals t then Inl (Internal (''idempotency fingerprint: '' @ lib_marshal_text L t))
      else Inr (hex_encode (sha256 (bytes_of_string (struct_text t)))))"

section \<open>The cache\<close>

definition defaultIdempotencyMax :: int where "defaultIdempotencyMax = 256"

record idempEntry =
  ie_key :: string
  ie_fp :: string
  ie_plan :: "Plan option"
  ie_apply :: "ApplyResult option"

record idempCache =
  ic_max :: int
  ic_entries :: "idempEntry list"

definition newIdempCache :: "int \<Rightarrow> idempCache" where
  "newIdempCache m = \<lparr>ic_max = (if m \<le> 0 then defaultIdempotencyMax else m), ic_entries = []\<rparr>"

definition entry_of :: "idempCache \<Rightarrow> string \<Rightarrow> idempEntry option" where
  "entry_of c key = find (\<lambda>e. ie_key e = key) (ic_entries c)"

definition removeLocked :: "idempCache \<Rightarrow> string \<Rightarrow> idempCache" where
  "removeLocked c key = c\<lparr>ic_entries := filter (\<lambda>e. ie_key e \<noteq> key) (ic_entries c)\<rparr>"

definition moveFrontLocked :: "idempCache \<Rightarrow> idempEntry \<Rightarrow> idempCache" where
  "moveFrontLocked c e = c\<lparr>ic_entries := e # filter (\<lambda>x. ie_key x \<noteq> ie_key e) (ic_entries c)\<rparr>"

text \<open>The tail is removed until the entries fit.\<close>

definition insertFrontLocked :: "idempCache \<Rightarrow> idempEntry \<Rightarrow> idempCache" where
  "insertFrontLocked c e =
     (let d = removeLocked c (ie_key e) in d\<lparr>ic_entries := take (nat (ic_max c)) (e # ic_entries d)\<rparr>)"

definition lookup :: "idempCache \<Rightarrow> string \<Rightarrow> string \<Rightarrow> idempCache \<times> (Error + idempEntry option)" where
  "lookup c key fp =
     (if key = [] then (c, Inr None)
      else case entry_of c key of
        None \<Rightarrow> (c, Inr None)
      | Some e \<Rightarrow>
          if ie_fp e \<noteq> fp then (c, Inl (IdempotencyConflict ''idempotency key reused with a different request''))
          else (moveFrontLocked c e, Inr (Some e)))"

definition storePlan :: "idempCache \<Rightarrow> string \<Rightarrow> string \<Rightarrow> Plan \<Rightarrow> idempCache" where
  "storePlan c key fp p =
     (if key = [] then c
      else case entry_of c key of
        Some e \<Rightarrow>
          if ie_fp e = fp then moveFrontLocked c (e\<lparr>ie_plan := Some p\<rparr>)
          else insertFrontLocked c \<lparr>ie_key = key, ie_fp = fp, ie_plan = Some p, ie_apply = None\<rparr>
      | None \<Rightarrow> insertFrontLocked c \<lparr>ie_key = key, ie_fp = fp, ie_plan = Some p, ie_apply = None\<rparr>)"

definition storeApply :: "idempCache \<Rightarrow> string \<Rightarrow> string \<Rightarrow> ApplyResult \<Rightarrow> idempCache" where
  "storeApply c key fp r =
     (if key = [] then c
      else case entry_of c key of
        Some e \<Rightarrow>
          if ie_fp e = fp then moveFrontLocked c (e\<lparr>ie_apply := Some r\<rparr>)
          else insertFrontLocked c \<lparr>ie_key = key, ie_fp = fp, ie_plan = None, ie_apply = Some r\<rparr>
      | None \<Rightarrow> insertFrontLocked c \<lparr>ie_key = key, ie_fp = fp, ie_plan = None, ie_apply = Some r\<rparr>)"

definition evict :: "idempCache \<Rightarrow> string \<Rightarrow> idempCache" where
  "evict c key = (if key = [] then c else removeLocked c key)"

definition idemp_clear :: "idempCache \<Rightarrow> idempCache" where
  "idemp_clear c = c\<lparr>ic_entries := []\<rparr>"

section \<open>The invariant\<close>

definition cache_ok :: "idempCache \<Rightarrow> bool" where
  "cache_ok c = (0 < ic_max c \<and> int (length (ic_entries c)) \<le> ic_max c
     \<and> distinct (map ie_key (ic_entries c)) \<and> [] \<notin> set (map ie_key (ic_entries c)))"

lemma cache_ok_new [simp]: "cache_ok (newIdempCache m)"
  by (simp add: cache_ok_def newIdempCache_def defaultIdempotencyMax_def)

lemma distinct_filter_keys: "distinct (map ie_key es) \<Longrightarrow> distinct (map ie_key (filter P es))"
  by (induction es) auto

lemma length_other: "e \<in> set es \<Longrightarrow> length (filter (\<lambda>x. ie_key x \<noteq> ie_key e) es) < length es"
  by (rule length_filter_less) auto

lemma entry_of_Some: "entry_of c key = Some e \<Longrightarrow> e \<in> set (ic_entries c) \<and> ie_key e = key"
  by (auto simp: entry_of_def find_Some_iff)

lemma cache_ok_remove [simp]: "cache_ok c \<Longrightarrow> cache_ok (removeLocked c key)"
  using length_filter_le [of "\<lambda>e. ie_key e \<noteq> key" "ic_entries c"]
  by (auto simp: cache_ok_def removeLocked_def distinct_filter_keys simp del: length_filter_le)

lemma cache_ok_move:
  assumes "cache_ok c" "e \<in> set (ic_entries c)" "ie_key e' = ie_key e"
  shows "cache_ok (moveFrontLocked c e')"
proof -
  have "ie_key e \<in> set (map ie_key (ic_entries c))" using assms(2) by simp
  then have "ie_key e' \<noteq> []" using assms(1,3) by (metis cache_ok_def)
  then show ?thesis
    using assms length_other [OF assms(2)] by (auto simp: cache_ok_def moveFrontLocked_def distinct_filter_keys)
qed

lemma cache_ok_insert: "cache_ok c \<Longrightarrow> ie_key e \<noteq> [] \<Longrightarrow> cache_ok (insertFrontLocked c e)"
proof -
  assume a: "cache_ok c" "ie_key e \<noteq> []"
  let ?es = "e # filter (\<lambda>x. ie_key x \<noteq> ie_key e) (ic_entries c)"
  have "distinct (map ie_key ?es)" "[] \<notin> set (map ie_key ?es)"
    using a by (auto simp: cache_ok_def distinct_filter_keys)
  then have "distinct (map ie_key (take n ?es))" "[] \<notin> set (map ie_key (take n ?es))" for n
    by (metis distinct_take take_map, metis in_set_takeD take_map)
  then show ?thesis
    using a unfolding cache_ok_def insertFrontLocked_def removeLocked_def Let_def by simp linarith
qed

lemma cache_ok_ops:
  assumes "cache_ok c"
  shows "cache_ok (fst (lookup c key fp))" "cache_ok (storePlan c key fp p)" "cache_ok (storeApply c key fp r)"
    "cache_ok (evict c key)" "cache_ok (idemp_clear c)"
  using assms
  by (auto simp: lookup_def storePlan_def storeApply_def evict_def intro!: cache_ok_insert cache_ok_move
      dest: entry_of_Some split: option.splits)
    (auto simp: cache_ok_def idemp_clear_def)

section \<open>The contract of the cache\<close>

text \<open>
  What a service that remembers its answers relies on: an answer is found again under its key and
  fingerprint, another fingerprint under the key is refused, other keys are not answered with it.
\<close>

datatype 'r answer = Fresh | Stored 'r | Refused

locale answer_cache =
  fixes good :: "'c \<Rightarrow> bool"
    and answer :: "'c \<Rightarrow> string \<Rightarrow> string \<Rightarrow> 'r answer"
    and store :: "'c \<Rightarrow> string \<Rightarrow> string \<Rightarrow> 'r \<Rightarrow> 'c"
    and forget :: "'c \<Rightarrow> string \<Rightarrow> 'c"
  assumes good_store: "good c \<Longrightarrow> good (store c k fp r)"
    and good_forget: "good c \<Longrightarrow> good (forget c k)"
    and answer_store: "good c \<Longrightarrow> k \<noteq> [] \<Longrightarrow> answer (store c k fp r) k fp = Stored r"
    and answer_other: "good c \<Longrightarrow> k \<noteq> [] \<Longrightarrow> fp' \<noteq> fp \<Longrightarrow> answer (store c k fp r) k fp' = Refused"
    and answer_forget: "good c \<Longrightarrow> answer (forget c k) k fp = Fresh"
    and answer_no_key: "answer c [] fp = Fresh"
begin

text \<open>A call computes once and answers from the cache afterwards.\<close>

definition call :: "'c \<Rightarrow> string \<Rightarrow> string \<Rightarrow> 'r \<Rightarrow> 'c \<times> 'r option" where
  "call c k fp r = (case answer c k fp of
     Fresh \<Rightarrow> (store c k fp r, Some r) | Stored r' \<Rightarrow> (c, Some r') | Refused \<Rightarrow> (c, None))"

lemma call_again:
  assumes "good c" "k \<noteq> []" "call c k fp r = (c', Some a)"
  shows "snd (call c' k fp r') = Some a"
  using assms answer_store [of c k fp r] by (auto simp: call_def split: answer.splits)

lemma call_keyless: "snd (call c [] fp r) = Some r"
  by (simp add: call_def answer_no_key)

lemma call_forgotten: "good c \<Longrightarrow> snd (call (forget c k) k fp r) = Some r"
  by (simp add: call_def answer_forget)

end

definition hit :: "(idempEntry \<Rightarrow> 'r option) \<Rightarrow> idempCache \<Rightarrow> string \<Rightarrow> string \<Rightarrow> 'r answer" where
  "hit get c key fp =
     (case snd (lookup c key fp) of
        Inl _ \<Rightarrow> Refused
      | Inr None \<Rightarrow> Fresh
      | Inr (Some e) \<Rightarrow> (case get e of None \<Rightarrow> Fresh | Some r \<Rightarrow> Stored r))"

lemma entry_of_front: "ic_entries c' = e # es \<Longrightarrow> entry_of c' (ie_key e) = Some e"
  by (simp add: entry_of_def)

lemma front_insert: "0 < ic_max c \<Longrightarrow> \<exists>es. ic_entries (insertFrontLocked c e) = e # es"
  by (cases "nat (ic_max c)") (auto simp: insertFrontLocked_def Let_def)

lemma front_store:
  assumes "cache_ok c" "key \<noteq> []"
  shows "\<exists>e. entry_of (storePlan c key fp p) key = Some e \<and> ie_key e = key \<and> ie_fp e = fp \<and> ie_plan e = Some p"
    "\<exists>e. entry_of (storeApply c key fp r) key = Some e \<and> ie_key e = key \<and> ie_fp e = fp \<and> ie_apply e = Some r"
proof -
  have m: "0 < ic_max c" using assms by (simp add: cache_ok_def)
  have i: "entry_of (insertFrontLocked c e) key = Some e" if "ie_key e = key" for e
    using front_insert [OF m, of e] that by (auto dest: entry_of_front)
  have f: "entry_of (moveFrontLocked c e) key = Some e" if "ie_key e = key" for e
    using that by (simp add: entry_of_def moveFrontLocked_def)
  show "\<exists>e. entry_of (storePlan c key fp p) key = Some e \<and> ie_key e = key \<and> ie_fp e = fp \<and> ie_plan e = Some p"
    using assms entry_of_Some [of c key] by (auto simp: storePlan_def i f split: option.splits)
  show "\<exists>e. entry_of (storeApply c key fp r) key = Some e \<and> ie_key e = key \<and> ie_fp e = fp \<and> ie_apply e = Some r"
    using assms entry_of_Some [of c key] by (auto simp: storeApply_def i f split: option.splits)
qed

lemma entry_of_removed: "entry_of (removeLocked c key) key = None"
  by (auto simp: entry_of_def removeLocked_def find_None_iff)

interpretation plans: answer_cache cache_ok "hit ie_plan" storePlan evict
proof (unfold_locales, goal_cases)
  case (3 c k fp r)
  then show ?case using front_store(1) [of c k fp r] by (auto simp: hit_def lookup_def)
next
  case (4 c k fp' fp r)
  then show ?case using front_store(1) [of c k fp r] by (auto simp: hit_def lookup_def)
qed (auto simp: cache_ok_ops hit_def lookup_def evict_def entry_of_removed)

interpretation applies: answer_cache cache_ok "hit ie_apply" storeApply evict
proof (unfold_locales, goal_cases)
  case (3 c k fp r)
  then show ?case using front_store(2) [of c k fp r] by (auto simp: hit_def lookup_def)
next
  case (4 c k fp' fp r)
  then show ?case using front_store(2) [of c k fp r] by (auto simp: hit_def lookup_def)
qed (auto simp: cache_ok_ops hit_def lookup_def evict_def entry_of_removed)

section \<open>Properties\<close>

text \<open>The cache stays within its size with one entry per key, whatever is looked up, stored or
  forgotten; an answer just stored is found under its key and fingerprint, and the key with another
  fingerprint is refused.\<close>

theorem cache_remembers:
  assumes "cache_ok c" "key \<noteq> []" "fp' \<noteq> fp"
  shows "cache_ok (storeApply c key fp r) \<and> cache_ok (storePlan c key fp p) \<and> cache_ok (evict c key)
    \<and> hit ie_apply (storeApply c key fp r) key fp = Stored r \<and> hit ie_apply (storeApply c key fp r) key fp' = Refused
    \<and> hit ie_plan (storePlan c key fp p) key fp = Stored p \<and> hit ie_plan (storePlan c key fp p) key fp' = Refused"
  using assms by (simp add: cache_ok_ops applies.answer_store applies.answer_other plans.answer_store plans.answer_other)

definition empty_plan :: Plan where
  "empty_plan = \<lparr>pl_previousRevision = [], pl_candidateRevision = [], pl_drifted = False, pl_diff = [],
     pl_warnings = [], pl_operations = []\<rparr>"

definition empty_result :: ApplyResult where
  "empty_result = \<lparr>ap_plan = empty_plan, ap_applied = True, ap_generation = 2, ap_runtimeRevision = [], ap_auditEventID = []\<rparr>"

theorem cache_remembers_witness:
  "hit ie_apply (storeApply (newIdempCache 1) ''k'' ''f'' empty_result) ''k'' ''f'' = Stored empty_result"
  using cache_remembers [of "newIdempCache 1" "''k''" "''g''" "''f''" empty_result empty_plan] by simp

text \<open>A change of the allow list, to nobody or back to everybody.\<close>

definition allow_change :: "string slice \<Rightarrow> ChangeIn" where
  "allow_change cidrs = \<lparr>ci_expectedRevision = [], ci_idempotencyKey = ''k'', ci_reason = [], ci_force = False,
     ci_operations = Some [\<lparr>op_op = OpReplaceAllowClientCidrs, op_filters = None, op_filter = None, op_name = [],
       op_restrict = None, op_admission = None, op_allowClientCidrs = cidrs, op_queryLogSize = None,
       op_managementHTTP = None\<rparr>]\<rparr>"

text \<open>Two changes that mean the opposite have the same fingerprint: allowing nobody (an empty list) and
  allowing everybody (no list), because the list is left out of the text when it is empty. Under one
  key the second is answered with the result of the first.\<close>

theorem fingerprint_allow_nobody:
  "fingerprintChange L (allow_change (Some [])) = fingerprintChange L (allow_change None)
   \<and> applyOperations (Some st) (elems (ci_operations (allow_change (Some [])))) =
       Inr (set_ntp st ((sp_ntp (st_spec st))\<lparr>n_allowClientCidrs := Some []\<rparr>))
   \<and> applyOperations (Some st) (elems (ci_operations (allow_change None))) =
       Inr (set_ntp st ((sp_ntp (st_spec st))\<lparr>n_allowClientCidrs := None\<rparr>))"
  by (simp add: fingerprintChange_def change_json_def operation_json_def allow_change_def jslice_def omit_def omit_nil_def
      applyOperations_def applyOne_def KnownOp_def op_names Let_def)

end
