(* ===== verification/Audit_Log.thy ===== *)
theory Audit_Log
  imports Bounded_Log Json Go_Time
begin

text \<open>
  The package \<^verbatim>\<open>internal/audit\<close>: events, the redaction of secrets, the bounded ring and
  the fanout to an optional hook. The hook is a parameter: what its delivery returns.
\<close>

section \<open>event.go\<close>

definition ResultOK :: string where "ResultOK = ''ok''"
definition ResultDenied :: string where "ResultDenied = ''denied''"
definition ResultError :: string where "ResultError = ''error''"

record RedactedEntry =
  re_path :: string
  re_op :: string
  re_before :: string
  re_after :: string

record Event =
  ev_id :: string
  ev_time :: gotime
  ev_actorID :: string
  ev_actorClass :: string
  ev_transport :: string
  ev_capability :: string
  ev_reason :: string
  ev_previous :: revision
  ev_revision :: revision
  ev_result :: string
  ev_errorCode :: string
  ev_diff :: "RedactedEntry list"

section \<open>redact.go\<close>

definition redacted :: string where "redacted = ''[redacted]''"

definition secretKeys :: "string list" where
  "secretKeys = [''secret'', ''secretref'', ''secretfile'', ''token'', ''password'', ''authorization'', ''bearer'',
     ''credential'', ''credentials'', ''apikey'', ''api_key'', ''privatekey'', ''private_key'', ''cookie'']"

definition secretPath :: "string \<Rightarrow> bool" where
  "secretPath path =
     (let p = to_lower path in
      list_ex (\<lambda>key. p = key \<or> has_suffix p (''.'' @ key) \<or> has_suffix p (''/'' @ key)) secretKeys)"

definition containsPrivateKey :: "string \<Rightarrow> bool" where
  "containsPrivateKey s = (str_contains s ''BEGIN '' \<and> str_contains s ''PRIVATE'')"

definition secretKey :: "string \<Rightarrow> bool" where
  "secretKey k = (to_lower k \<in> set secretKeys)"

fun redactTree :: "json \<Rightarrow> json" where
  "redactTree (JObj kvs) = JObj (map (\<lambda>(k, child). (k, if secretKey k then JStr redacted else redactTree child)) kvs)"
| "redactTree (JArr xs) = JArr (map redactTree xs)"
| "redactTree (JStr s) = JStr (if containsPrivateKey s then redacted else s)"
| "redactTree v = v"

definition redactText :: "string \<Rightarrow> string" where
  "redactText s = (if containsPrivateKey s then redacted else s)"

definition redacted_json :: string where
  "redacted_json = [CHR 0x22] @ redacted @ [CHR 0x22]"

definition redactJSON :: "string \<Rightarrow> string" where
  "redactJSON raw0 =
     (let raw = trim_space raw0 in
      if raw = [] \<or> raw = ''null'' then raw
      else case json_decode raw of
        None \<Rightarrow> if containsPrivateKey raw then redacted_json else raw
      | Some (tree, _) \<Rightarrow> if marshals (redactTree tree) then json_text (redactTree tree) else raw)"

definition RedactEvent :: "Event \<Rightarrow> Event" where
  "RedactEvent ev = ev\<lparr>ev_reason := redactText (ev_reason ev),
     ev_diff := map (\<lambda>d. d\<lparr>
       re_before := if secretPath (re_path d) then redacted_json else redactJSON (re_before d),
       re_after := if secretPath (re_path d) then redacted_json else redactJSON (re_after d)\<rparr>) (ev_diff ev)\<rparr>"

section \<open>ring.go\<close>

definition DefaultMax :: int where "DefaultMax = 128"

text \<open>The events are oldest first.\<close>

record Ring =
  ar_max :: int
  ar_nextID :: nat
  ar_events :: "Event list"

definition NewRing :: "int \<Rightarrow> Ring" where
  "NewRing m = \<lparr>ar_max = (if m \<le> 0 then DefaultMax else m), ar_nextID = 0, ar_events = []\<rparr>"

definition aud_id :: "nat \<Rightarrow> string" where
  "aud_id n = ''aud-'' @ nat_str n"

definition Append :: "Ring \<Rightarrow> Event \<Rightarrow> Ring \<times> Event" where
  "Append r ev0 =
     (let n = (ar_nextID r + 1) mod 2 ^ 64;
          ev = ev0\<lparr>ev_id := aud_id n\<rparr>;
          evs = ar_events r @ [ev];
          kept = (if int (length evs) > ar_max r then drop (length evs - nat (ar_max r)) evs else evs)
      in (r\<lparr>ar_nextID := n, ar_events := kept\<rparr>, ev))"

definition List :: "Ring \<Rightarrow> int \<Rightarrow> Event list" where
  "List r limit0 =
     (let limit = (if limit0 \<le> 0 \<or> limit0 > 100 then 100 else nat limit0);
          n = length (ar_events r)
      in map (\<lambda>i. ar_events r ! (n - 1 - i)) [0..<min limit n])"

definition Get :: "Ring \<Rightarrow> string \<Rightarrow> Event option" where
  "Get r i = (if i = [] then None else find (\<lambda>e. ev_id e = i) (rev (ar_events r)))"

definition Len :: "Ring \<Rightarrow> nat" where
  "Len r = length (ar_events r)"

section \<open>sink.go\<close>

record Fanout =
  fo_ring :: Ring
  fo_hook :: "(Event \<Rightarrow> bool) option"
  fo_hookErrs :: nat

definition NewFanout :: "int \<Rightarrow> (Event \<Rightarrow> bool) option \<Rightarrow> Fanout" where
  "NewFanout m hook = \<lparr>fo_ring = NewRing m, fo_hook = hook, fo_hookErrs = 0\<rparr>"

text \<open>\<open>fo_hook\<close> tells of an event whether its delivery fails; the events delivered are returned.\<close>

definition Record :: "Fanout \<Rightarrow> Event \<Rightarrow> Fanout \<times> Event \<times> Event list" where
  "Record f ev0 =
     (let (ring, ev) = Append (fo_ring f) (RedactEvent ev0);
          g = f\<lparr>fo_ring := ring\<rparr>
      in case fo_hook f of
           None \<Rightarrow> (g, ev, [])
         | Some h \<Rightarrow> (g\<lparr>fo_hookErrs := (if h ev then (fo_hookErrs f + 1) mod 2 ^ 64 else fo_hookErrs f)\<rparr>, ev, [ev]))"

section \<open>Redaction\<close>

text \<open>A tree shows no secret: no value under a secret key, and no private key as a value.\<close>

fun clean :: "json \<Rightarrow> bool" where
  "clean (JObj kvs) = list_all (\<lambda>(k, child). if secretKey k then child = JStr redacted else clean child) kvs"
| "clean (JArr xs) = list_all clean xs"
| "clean (JStr s) = (\<not> containsPrivateKey s)"
| "clean v = True"

lemma redacted_no_key [simp]: "\<not> containsPrivateKey redacted"
  by code_simp

lemma redactTree_is_clean: "clean (redactTree v)"
  by (induction v rule: redactTree.induct) (auto simp: list_all_iff)

lemma redactTree_fixes: "redactTree v = v \<longleftrightarrow> clean v"
proof (induction v rule: redactTree.induct)
  case (1 kvs)
  have "(map (\<lambda>(k, c). (k, if secretKey k then JStr redacted else redactTree c)) kvs = kvs)
    \<longleftrightarrow> (\<forall>p \<in> set kvs. (\<lambda>(k, c). (k, if secretKey k then JStr redacted else redactTree c)) p = p)"
    by (induction kvs) auto
  then show ?case using 1 by (auto simp: list_all_iff)
next
  case (2 xs)
  have "(map redactTree xs = xs) \<longleftrightarrow> (\<forall>x \<in> set xs. redactTree x = x)" by (induction xs) auto
  then show ?case using 2 by (auto simp: list_all_iff)
qed auto

lemma marshals_redactTree [simp]: "marshals v \<Longrightarrow> marshals (redactTree v)"
  by (induction v rule: redactTree.induct) (auto simp: list_all_iff)


section \<open>The ring\<close>

definition ring_good :: "Ring \<Rightarrow> bool" where
  "ring_good r = (0 < ar_max r \<and> int (length (ar_events r)) \<le> ar_max r)"

definition next_id :: "Ring \<Rightarrow> nat" where
  "next_id r = (ar_nextID r + 1) mod 2 ^ 64"

lemma Append_simps [simp]:
  "ar_max (fst (Append r e)) = ar_max r" "ar_nextID (fst (Append r e)) = next_id r"
  "snd (Append r e) = e\<lparr>ev_id := aud_id (next_id r)\<rparr>"
  by (simp_all add: Append_def Let_def next_id_def)

lemma rev_events_Append:
  assumes "ring_good r"
  shows "rev (ar_events (fst (Append r e))) = take (nat (ar_max r)) (snd (Append r e) # rev (ar_events r))"
proof -
  let ?evs = "ar_events r @ [snd (Append r e)]"
  have e: "ar_events (fst (Append r e)) =
      (if int (length ?evs) > ar_max r then drop (length ?evs - nat (ar_max r)) ?evs else ?evs)"
    by (simp add: Append_def Let_def)
  show ?thesis
  proof (cases "int (length ?evs) > ar_max r")
    case True
    then show ?thesis unfolding e by (simp only: if_True rev_drop) simp
  next
    case False
    then show ?thesis unfolding e by simp
  qed
qed

interpretation au: bounded_log ring_good "\<lambda>r e. fst (Append r e)" "\<lambda>r e. snd (Append r e)"
  "\<lambda>r. rev (ar_events r)" "\<lambda>r. nat (ar_max r)"
proof (unfold_locales, goal_cases)
  case (1 s e)
  have "length (rev (ar_events (fst (Append s e)))) \<le> nat (ar_max s)"
    unfolding rev_events_Append [OF 1] by simp
  then show ?case using 1 by (simp add: ring_good_def) linarith
next
  case (5 s e)
  then show ?case by (rule rev_events_Append)
next
  case (4 s)
  then show ?case by (simp add: ring_good_def) linarith
qed (simp_all add: ring_good_def)

lemma ring_good_New [simp]: "ring_good (NewRing m)"
  by (simp add: ring_good_def NewRing_def DefaultMax_def)

lemma List_take: "List r limit = take (if limit \<le> 0 \<or> limit > 100 then 100 else nat limit) (rev (ar_events r))"
  by (intro nth_equalityI) (auto simp: List_def Let_def rev_nth)

lemma nextID_puts: "ar_nextID r + length es < 2 ^ 64 \<Longrightarrow> ar_nextID (au.puts r es) = ar_nextID r + length es"
  by (induction es arbitrary: r) (simp_all add: next_id_def)

lemma ids_puts:
  assumes "ring_good r" "ar_nextID r + length es < 2 ^ 64"
    and "map ev_id (rev (ar_events r)) = map aud_id (rev [Suc (ar_nextID r - Len r)..<Suc (ar_nextID r)])" "Len r \<le> ar_nextID r"
  shows "map ev_id (rev (ar_events (au.puts r es))) =
    map aud_id (rev [Suc (ar_nextID r + length es - Len (au.puts r es))..<Suc (ar_nextID r + length es)])"
  using assms
proof (induction es arbitrary: r)
  case (Cons e es)
  let ?r = "fst (Append r e)" and ?c = "nat (ar_max r)"
  have n: "next_id r = Suc (ar_nextID r)" using Cons.prems(2) by (simp add: next_id_def)
  have c: "0 < ?c" using Cons.prems(1) by (simp add: ring_good_def)
  have l: "Len ?r = min ?c (Suc (Len r))"
    using arg_cong [OF rev_events_Append [OF Cons.prems(1), of e], of length] by (simp add: Len_def)
  have le: "Len ?r \<le> Suc (ar_nextID r)" using l Cons.prems(4) by simp
  have "map ev_id (rev (ar_events ?r)) = take ?c (map aud_id (rev [Suc (ar_nextID r - Len r)..<Suc (Suc (ar_nextID r))]))"
    using Cons.prems(3,4) n by (simp add: rev_events_Append [OF Cons.prems(1)] take_map [symmetric])
  also have "\<dots> = map aud_id (rev [Suc (Suc (ar_nextID r) - Len ?r)..<Suc (Suc (ar_nextID r))])"
    using c Cons.prems(4) by (simp only: take_map take_rev l) (auto simp: min_def)
  finally show ?case
    using Cons.IH [of ?r] Cons.prems le n au.good_put [OF Cons.prems(1)] by simp
qed simp

text \<open>The audit log pages newest first with consecutive identifiers: after any \<open>n\<close> events a page
  lists the last of them, at most \<open>100\<close>, at most what was asked for, and at most the ring's size.\<close>

theorem audit_page:
  assumes "length es < 2 ^ 64"
  shows "map ev_id (List (foldl (\<lambda>r e. fst (Append r e)) (NewRing m) es) limit) =
    take (if limit \<le> 0 \<or> limit > 100 then 100 else nat limit)
      (map aud_id (rev [Suc (length es - min (nat (if m \<le> 0 then 128 else m)) (length es))..<Suc (length es)]))"
proof -
  let ?r = "NewRing m"
  have z: "ar_nextID ?r = 0" "Len ?r = 0" "ar_events ?r = []" "nat (ar_max ?r) = nat (if m \<le> 0 then 128 else m)"
    by (simp_all add: NewRing_def Len_def DefaultMax_def)
  have l: "Len (au.puts ?r es) = min (nat (if m \<le> 0 then 128 else m)) (length es)"
    using au.length_recent_puts [OF ring_good_New, of m es] by (simp only: Len_def z length_rev list.size add_0)
  have "map ev_id (rev (ar_events (au.puts ?r es))) =
    map aud_id (rev [Suc (length es - Len (au.puts ?r es))..<Suc (length es)])"
    using ids_puts [OF ring_good_New, of m es] assms by (simp only: z) simp
  then show ?thesis
    unfolding List_take take_map [symmetric] au.puts_def [symmetric] l by (simp only:)
qed

definition zero_event :: Event where
  "zero_event = \<lparr>ev_id = [], ev_time = zero_time, ev_actorID = [], ev_actorClass = [], ev_transport = [],
     ev_capability = [], ev_reason = [], ev_previous = [], ev_revision = [], ev_result = [], ev_errorCode = [], ev_diff = []\<rparr>"

theorem audit_page_witness:
  "map ev_id (List (foldl (\<lambda>r e. fst (Append r e)) (NewRing 2) [zero_event, zero_event, zero_event]) 10) = [''aud-3'', ''aud-2'']"
  by (subst audit_page) (simp_all, code_simp)

lemma Get_List: "Get r i = Some e \<Longrightarrow> ev_id e = i \<and> e \<in> set (ar_events r)"
  by (auto simp: Get_def find_Some_iff split: if_splits) (metis length_rev nth_mem set_rev)

lemma Get_Append: "ring_good r \<Longrightarrow> Get (fst (Append r e)) (ev_id (snd (Append r e))) = Some (snd (Append r e))"
  using au.cap_pos [of r] by (cases "nat (ar_max r)") (simp_all add: Get_def rev_events_Append aud_id_def)

text \<open>Recording an event stores and delivers the same redacted event, which is then found by its
  identifier; a failing hook changes nothing but its counter.\<close>

theorem Record_stored:
  assumes "ring_good (fo_ring f)"
  shows "case Record f ev of (g, stored, sent) \<Rightarrow>
     stored = (RedactEvent ev)\<lparr>ev_id := ev_id stored\<rparr>
     \<and> Get (fo_ring g) (ev_id stored) = Some stored
     \<and> sent = (if fo_hook f = None then [] else [stored])
     \<and> fo_ring g = fst (Append (fo_ring f) (RedactEvent ev)) \<and> ring_good (fo_ring g)"
proof -
  note a = Get_Append [OF assms, of "RedactEvent ev"]
  show ?thesis
    using a au.good_put [OF assms, of "RedactEvent ev"]
    by (auto simp: Record_def Let_def case_prod_beta split: option.splits)
qed

theorem Record_stored_witness:
  "case Record (NewFanout 1 None) zero_event of (g, stored, sent) \<Rightarrow>
     Get (fo_ring g) (ev_id stored) = Some stored \<and> ring_good (fo_ring g)"
proof -
  have "ring_good (fo_ring (NewFanout 1 None))" by (simp add: NewFanout_def)
  from Record_stored [OF this, of zero_event] show ?thesis unfolding case_prod_beta by (elim conjE) (intro conjI)
qed

end
