(* ===== verification/App.thy ===== *)
theory App
  imports Idempotency Audit_Log NtpServer
begin

text \<open>
  The package \<^verbatim>\<open>internal/app\<close>: plan, apply and reset over the snapshot store (svc.go, mutate.go,
  reset.go), the reads (filters.go, preview.go, export.go) and the audit log (audit.go). An
  operation runs under the mutex, so it is one step; the mutex is a field of the state because a
  panic leaves it taken. The clocks, the state of the context, the file system, the listeners and
  the text of library errors are parameters. Log lines are not modelled.
\<close>

section \<open>State\<close>

definition defaultAuditMax :: int where "defaultAuditMax = 128"

record Actor =
  ac_id :: string
  ac_class :: string
  ac_role :: string
  ac_scopes :: "string list"
  ac_transport :: string

text \<open>What a call reads: the libraries, the clocks, and the error of its context.\<close>

record Env =
  en_libs :: libs
  en_clock :: gotime
  en_now :: gotime
  en_ctx :: "string option"

record App =
  a_mu :: bool
  a_snaps :: Store
  a_bootstrapPath :: string
  a_idemp :: idempCache
  a_audit :: Fanout
  a_queryLog :: "QueryLog.Ring option"
  a_ntpOverride :: string
  a_mgmtOverride :: string
  a_mgmtEffective :: string
  a_mgmtEffectiveSet :: bool

text \<open>A call returns, panics, or waits for ever for a mutex that a panic left taken.\<close>

datatype 'r outcome = Returns "go_error + 'r" | Panics | Blocks

section \<open>svc.go\<close>

definition managementOff :: "string \<Rightarrow> bool" where
  "managementOff s = (to_lower (trim_space s) \<in> {[], ''off'', ''none'', ''-''})"

definition effectiveNTP :: "string \<Rightarrow> string \<Rightarrow> string" where
  "effectiveNTP override yamlAddr = (if override \<noteq> [] then override else yamlAddr)"

definition effectiveMgmt :: "string \<Rightarrow> string \<Rightarrow> string" where
  "effectiveMgmt override yamlAddr =
     (if override \<noteq> [] then (if managementOff override then [] else override) else yamlAddr)"

record Options =
  o_snapshots :: Store
  o_bootstrapPath :: string
  o_idempotencyMax :: int
  o_auditMax :: int
  o_auditor :: "(Event \<Rightarrow> bool) option"
  o_queryLog :: "QueryLog.Ring option"
  o_ntpListenOverride :: string
  o_mgmtListenOverride :: string

definition app_New :: "Options \<Rightarrow> App" where
  "app_New opts =
     (let snap = Load (o_snapshots opts);
          auditMax =
            (if o_auditMax opts \<le> 0 then
               (case snap of None \<Rightarrow> defaultAuditMax
                | Some s \<Rightarrow> (case sn_canonical s of None \<Rightarrow> defaultAuditMax
                    | Some st \<Rightarrow> if ob_auditRing (sp_observability (st_spec st)) > 0
                        then ob_auditRing (sp_observability (st_spec st)) else defaultAuditMax))
             else o_auditMax opts)
      in \<lparr>a_mu = False, a_snaps = o_snapshots opts, a_bootstrapPath = o_bootstrapPath opts,
          a_idemp = newIdempCache (o_idempotencyMax opts), a_audit = NewFanout auditMax (o_auditor opts),
          a_queryLog = o_queryLog opts, a_ntpOverride = o_ntpListenOverride opts,
          a_mgmtOverride = o_mgmtListenOverride opts,
          a_mgmtEffective = (case snap of None \<Rightarrow> [] | Some s \<Rightarrow> effectiveMgmt (o_mgmtListenOverride opts) (sn_managementAddress s)),
          a_mgmtEffectiveSet = (snap \<noteq> None)\<rparr>)"

text \<open>Reading a file and loading it: an error, a panic of the decoder, or the state.\<close>

definition load_document :: "libs \<Rightarrow> string \<Rightarrow> (go_error + State) option" where
  "load_document L path =
     (case LoadFile L path of
        Inl e \<Rightarrow> Some (Inl (Plain e))
      | Inr None \<Rightarrow> None
      | Inr (Some (st, Some e)) \<Rightarrow> Some (Inl (Dom e))
      | Inr (Some (None, None)) \<Rightarrow> Some (Inl (Dom nil_state))
      | Inr (Some (Some st, None)) \<Rightarrow> Some (Inr st))"

definition Boot :: "Env \<Rightarrow> Options \<Rightarrow> App outcome" where
  "Boot env opts =
     (if o_bootstrapPath opts = [] then
        Returns (Inl (Dom (ValidationFailed ''bootstrap path is required''
          [violation ''bootstrapPath'' ''required'' ''bootstrap path is required''])))
      else case load_document (en_libs env) (o_bootstrapPath opts) of
        None \<Rightarrow> Panics
      | Some (Inl e) \<Rightarrow> Returns (Inl (Dom (asDomain e)))
      | Some (Inr st) \<Rightarrow>
          (case Compile (en_libs env) (Some st)
                  \<lparr>co_now = en_clock env, co_bootstrapRevision = [], co_generation = 0, co_previous = None\<rparr> of
             Inl e \<Rightarrow> Returns (Inl (Dom (asDomain e)))
           | Inr snap \<Rightarrow> Returns (Inr (app_New (opts\<lparr>
               o_snapshots := fst (InstallBootstrap (o_snapshots opts) (Some snap)),
               o_queryLog := (case o_queryLog opts of None \<Rightarrow> Some (QueryLog.New (sn_queryLogSize snap)) | q \<Rightarrow> q)\<rparr>)))))"

definition requireCtx :: "Env \<Rightarrow> go_error option" where
  "requireCtx env = map_option Plain (en_ctx env)"

definition active :: "App \<Rightarrow> go_error + Snapshot" where
  "active s = (case Load (a_snaps s) of None \<Rightarrow> Inl (Dom (Internal ''no active snapshot'')) | Some n \<Rightarrow> Inr n)"

definition HealthFacts :: "App \<Rightarrow> Facts option \<Rightarrow> Facts" where
  "HealthFacts s h =
     (let up = (Load (a_snaps s) \<noteq> None) in
      case h of
        Some f \<Rightarrow> f\<lparr>fa_snapshotUp := up\<rparr>
      | None \<Rightarrow> \<lparr>fa_processDown = False, fa_ntpBound = up, fa_snapshotUp = up, fa_mgmtBound = False, fa_mgmtOff = True\<rparr>)"

section \<open>mutate.go\<close>

record candidate =
  cd_prev :: "Snapshot option"
  cd_next :: Snapshot
  cd_ops :: "Operation list"
  cd_diff :: "DiffEntry list"
  cd_warn :: "Note list"

definition app_cloneState :: "libs \<Rightarrow> State option \<Rightarrow> go_error + State" where
  "app_cloneState L st =
     (case st of
        None \<Rightarrow> Inl (Dom (Internal ''nil state''))
      | Some s \<Rightarrow>
          (let t = state_json s in
           if \<not> marshals t then Inl (Dom (Internal (''clone: '' @ lib_marshal_text L t)))
           else case as_state t of
             None \<Rightarrow> Inl (Dom (Internal (''clone: '' @ lib_type_text L t)))
           | Some out \<Rightarrow> Inr out))"

definition compileCandidate :: "Env \<Rightarrow> State \<Rightarrow> Snapshot option \<Rightarrow> go_error + Snapshot" where
  "compileCandidate env st prev =
     Compile (en_libs env) (Some st)
       \<lparr>co_now = en_clock env,
        co_bootstrapRevision = (case prev of None \<Rightarrow> [] | Some p \<Rightarrow> sn_bootstrapRevision p),
        co_generation = (case prev of None \<Rightarrow> 1 | Some p \<Rightarrow> (sn_generation p + 1) mod 2 ^ 64),
        co_previous = prev\<rparr>"

definition domain_error :: "go_error + 'a \<Rightarrow> go_error + 'a" where
  "domain_error r = (case r of Inl e \<Rightarrow> Inl (Dom (asDomain e)) | Inr a \<Rightarrow> Inr a)"

definition warningsOf :: "Snapshot \<Rightarrow> Note list" where
  "warningsOf snap = map (\<lambda>w. \<lparr>no_code = w_code w, no_message = w_message w\<rparr>) (sn_warnings snap)"

definition planFrom :: "candidate \<Rightarrow> Plan" where
  "planFrom c =
     \<lparr>pl_previousRevision = (case cd_prev c of None \<Rightarrow> [] | Some p \<Rightarrow> sn_revision p),
      pl_candidateRevision = sn_revision (cd_next c), pl_drifted = Drifted (cd_next c), pl_diff = cd_diff c,
      pl_warnings = cd_warn c, pl_operations = cd_ops c\<rparr>"

definition rejected :: "Error option \<Rightarrow> go_error + unit" where
  "rejected e = (case e of None \<Rightarrow> Inr () | Some d \<Rightarrow> Inl (Dom d))"

definition check_revision :: "ChangeIn \<Rightarrow> Snapshot \<Rightarrow> go_error + unit" where
  "check_revision ci prev =
     (if ci_expectedRevision ci = [] then
        Inl (Dom (ValidationFailed ''expectedRevision is required''
          [violation ''expectedRevision'' ''required'' ''expectedRevision is required for plan and apply'']))
      else if ci_expectedRevision ci \<noteq> sn_revision prev then
        Inl (Dom (WithRemediation (RevisionConflict ''active revision does not match expectedRevision'' (sn_revision prev))
          ''Re-read GET state and re-plan against the current revision.''))
      else Inr ())"

definition buildCandidate :: "Env \<Rightarrow> App \<Rightarrow> ChangeIn \<Rightarrow> go_error + candidate" where
  "buildCandidate env s ci =
     (let L = en_libs env; ops = elems (ci_operations ci) in
      bindR (active s) (\<lambda>prev.
      bindR (check_revision ci prev) (\<lambda>_.
      bindR (app_cloneState L (sn_canonical prev)) (\<lambda>copied0.
      bindR (lift_dom (applyOperations (Some copied0) ops)) (\<lambda>copied.
      bindR (rejected (rejectResetOnly (sn_canonical prev) (Some copied))) (\<lambda>_.
      bindR (domain_error (compileCandidate env copied (Some prev))) (\<lambda>next.
      bindR (diffStates L (sn_canonical prev) (sn_canonical next)) (\<lambda>(diff, _).
        Inr \<lparr>cd_prev = Some prev, cd_next = next, cd_ops = ops, cd_diff = diff, cd_warn = warningsOf next\<rparr>))))))))"

definition forgetIdempOnConflict :: "App \<Rightarrow> string \<Rightarrow> go_error \<Rightarrow> App" where
  "forgetIdempOnConflict s key e =
     (case e of
        Dom d \<Rightarrow> if err_code d = CodeRevisionConflict then s\<lparr>a_idemp := evict (a_idemp s) key\<rparr> else s
      | Plain _ \<Rightarrow> s)"

definition planLocked :: "Env \<Rightarrow> App \<Rightarrow> ChangeIn \<Rightarrow> App \<times> (go_error + Plan)" where
  "planLocked env s ci =
     (case fingerprintChange (en_libs env) ci of
        Inl e \<Rightarrow> (s, Inl (Dom e))
      | Inr fp \<Rightarrow>
          (let (c, found) = lookup (a_idemp s) (ci_idempotencyKey ci) fp; s1 = s\<lparr>a_idemp := c\<rparr> in
           case found of
             Inl e \<Rightarrow> (s1, Inl (Dom e))
           | Inr h \<Rightarrow>
               (case opt_bind h ie_plan of
                  Some p \<Rightarrow> (s1, Inr p)
                | None \<Rightarrow>
                    (case buildCandidate env s1 ci of
                       Inl e \<Rightarrow> (forgetIdempOnConflict s1 (ci_idempotencyKey ci) e, Inl e)
                     | Inr cand \<Rightarrow>
                         (s1\<lparr>a_idemp := storePlan (a_idemp s1) (ci_idempotencyKey ci) fp (planFrom cand)\<rparr>,
                          Inr (planFrom cand))))))"

definition app_Plan :: "Env \<Rightarrow> App \<Rightarrow> ChangeIn \<Rightarrow> App \<times> Plan outcome" where
  "app_Plan env s ci =
     (case requireCtx env of
        Some e \<Rightarrow> (s, Returns (Inl e))
      | None \<Rightarrow> if a_mu s then (s, Blocks) else let (s', r) = planLocked env s ci in (s', Returns r))"

text \<open>The metric of a mutation, with its label in the bounded set.\<close>

definition ApplyLabel :: "string \<Rightarrow> string" where
  "ApplyLabel result =
     (if to_lower (trim_space result) \<in> {''ok'', ''error'', ''conflict''} then to_lower (trim_space result)
      else if result = [] then ''ok'' else ''error'')"

definition observeApply :: "string \<Rightarrow> effect" where
  "observeApply result = Count ''labntp_apply_total'' [(''result'', ApplyLabel result)]"

definition toAuditDiff :: "DiffEntry list \<Rightarrow> RedactedEntry list" where
  "toAuditDiff ds =
     map (\<lambda>d. \<lparr>re_path = de_path d, re_op = de_op d, re_before = de_before d, re_after = de_after d\<rparr>) ds"

definition recordAudit :: "App \<Rightarrow> Event \<Rightarrow> App \<times> string" where
  "recordAudit s ev =
     (let (f, stored, sent) = Record (a_audit s) (if ev_result ev = [] then ev\<lparr>ev_result := ResultOK\<rparr> else ev)
      in (s\<lparr>a_audit := f\<rparr>, ev_id stored))"

definition mutation_event :: "Env \<Rightarrow> Actor \<Rightarrow> string \<Rightarrow> string \<Rightarrow> Snapshot \<Rightarrow> Snapshot option \<Rightarrow> DiffEntry list \<Rightarrow> Event" where
  "mutation_event env actor capability reason next prev diff =
     \<lparr>ev_id = [], ev_time = en_now env, ev_actorID = ac_id actor, ev_actorClass = ac_class actor,
      ev_transport = ac_transport actor, ev_capability = capability, ev_reason = reason,
      ev_previous = (case prev of None \<Rightarrow> [] | Some p \<Rightarrow> sn_revision p), ev_revision = sn_revision next,
      ev_result = ResultOK, ev_errorCode = [], ev_diff = toAuditDiff diff\<rparr>"

definition resize_log :: "Snapshot \<Rightarrow> QueryLog.Ring option \<Rightarrow> QueryLog.Ring option" where
  "resize_log next q = (if sn_queryLogSize next > 0 then map_option (\<lambda>r. QueryLog.Resize r (sn_queryLogSize next)) q else q)"

text \<open>The swap and its record; the result, and whether the hooks of a change run.\<close>

definition commit :: "Env \<Rightarrow> App \<Rightarrow> Actor \<Rightarrow> ChangeIn \<Rightarrow> candidate \<Rightarrow> App \<times> ApplyResult" where
  "commit env s actor ci cand =
     (let next = cd_next cand;
          (snaps, prev) = Swap (a_snaps s) next;
          s1 = s\<lparr>a_queryLog := resize_log next (a_queryLog s), a_snaps := snaps\<rparr>;
          (s2, audit_id) = recordAudit s1 (mutation_event env actor ''changes.apply'' (ci_reason ci) next prev (cd_diff cand))
      in (s2, \<lparr>ap_plan = planFrom cand, ap_applied = True, ap_generation = sn_generation next,
               ap_runtimeRevision = sn_revision next, ap_auditEventID = audit_id\<rparr>))"

definition applyLocked :: "Env \<Rightarrow> App \<Rightarrow> Actor \<Rightarrow> ChangeIn \<Rightarrow> App \<times> effect list \<times> (go_error + ApplyResult \<times> bool)" where
  "applyLocked env s actor ci =
     (case fingerprintChange (en_libs env) ci of
        Inl e \<Rightarrow> (s, [], Inl (Dom e))
      | Inr fp \<Rightarrow>
          (let (c, found) = lookup (a_idemp s) (ci_idempotencyKey ci) fp; s1 = s\<lparr>a_idemp := c\<rparr> in
           case found of
             Inl e \<Rightarrow> (s1, [], Inl (Dom e))
           | Inr h \<Rightarrow>
               (case opt_bind h ie_apply of
                  Some r \<Rightarrow> (s1, [], Inr (r, False))
                | None \<Rightarrow>
                    (case buildCandidate env s1 ci of
                       Inl e \<Rightarrow> (forgetIdempOnConflict s1 (ci_idempotencyKey ci) e, [observeApply ''error''], Inl e)
                     | Inr cand \<Rightarrow>
                         (let (s2, res) = commit env s1 actor ci cand in
                          (s2\<lparr>a_idemp := storeApply (a_idemp s2) (ci_idempotencyKey ci) fp res\<rparr>,
                           [observeApply ''ok''], Inr (res, True)))))))"

definition app_Apply :: "Env \<Rightarrow> App \<Rightarrow> Actor \<Rightarrow> ChangeIn \<Rightarrow> App \<times> effect list \<times> (ApplyResult \<times> bool) outcome" where
  "app_Apply env s actor ci =
     (case requireCtx env of
        Some e \<Rightarrow> (s, [], Returns (Inl e))
      | None \<Rightarrow> if a_mu s then (s, [], Blocks)
                else let (s', es, r) = applyLocked env s actor ci in (s', es, Returns r))"

definition validateLocked :: "Env \<Rightarrow> App \<Rightarrow> State option \<Rightarrow> Operation list \<Rightarrow> go_error + Plan" where
  "validateLocked env s doc ops =
     (let L = en_libs env in
      bindR (if doc \<noteq> None then bindR (app_cloneState L doc) (\<lambda>b. Inr (Load (a_snaps s), b))
             else bindR (active s) (\<lambda>snap. bindR (app_cloneState L (sn_canonical snap)) (\<lambda>b. Inr (Some snap, b))))
        (\<lambda>(prev, base0).
      bindR (lift_dom (applyOperations (Some base0) ops)) (\<lambda>base.
      bindR (domain_error (compileCandidate env base prev)) (\<lambda>next.
      bindR (diffStates L (case prev of Some p \<Rightarrow> sn_canonical p | None \<Rightarrow> doc) (sn_canonical next)) (\<lambda>(diff, _).
        Inr (planFrom \<lparr>cd_prev = prev, cd_next = next, cd_ops = ops, cd_diff = diff, cd_warn = warningsOf next\<rparr>))))))"

definition app_Validate :: "Env \<Rightarrow> App \<Rightarrow> State option \<Rightarrow> Operation list \<Rightarrow> Plan outcome" where
  "app_Validate env s doc ops =
     (case requireCtx env of
        Some e \<Rightarrow> Returns (Inl e)
      | None \<Rightarrow> if a_mu s then Blocks else Returns (validateLocked env s doc ops))"

end
