(* ===== verification/Go_Format.thy ===== *)
theory Go_Format
  imports Go_Time
begin

text \<open>
  \<^verbatim>\<open>time.Format\<close> of a UTC time with the RFC 3339 layouts of the standard library: the date of
  the proleptic Gregorian calendar, the time of day, and the nanoseconds without trailing zeros.
\<close>

text \<open>Year, month and day of a number of days since 1970-01-01.\<close>

definition civil_from_days :: "int \<Rightarrow> int \<times> int \<times> int" where
  "civil_from_days n =
     (let z = n + 719468; era = z div 146097; doe = z mod 146097;
          yoe = (doe - doe div 1460 + doe div 36524 - doe div 146096) div 365;
          doy = doe - (365 * yoe + yoe div 4 - yoe div 100);
          mp = (5 * doy + 2) div 153;
          d = doy - (153 * mp + 2) div 5 + 1;
          m = (if mp < 10 then mp + 3 else mp - 9)
      in (yoe + era * 400 + (if m \<le> 2 then 1 else 0), m, d))"

definition pad :: "nat \<Rightarrow> int \<Rightarrow> string" where
  "pad w n = (let s = dec_str \<bar>n\<bar> in (if n < 0 then ''-'' else []) @ replicate (w - length s) CHR ''0'' @ s)"

definition drop_zeros :: "string \<Rightarrow> string" where
  "drop_zeros s = rev (dropWhile (\<lambda>c. c = CHR ''0'') (rev s))"

definition fraction :: "int \<Rightarrow> string" where
  "fraction ns = (if ns = 0 then [] else ''.'' @ drop_zeros (pad 9 ns))"

definition date_text :: "gotime \<Rightarrow> string" where
  "date_text t =
     (let s = unix_sec t; (y, m, d) = civil_from_days (s div 86400); r = s mod 86400
      in pad 4 y @ ''-'' @ pad 2 m @ ''-'' @ pad 2 d @ ''T''
         @ pad 2 (r div 3600) @ '':'' @ pad 2 (r div 60 mod 60) @ '':'' @ pad 2 (r mod 60))"

definition rfc3339 :: "gotime \<Rightarrow> string" where
  "rfc3339 t = date_text t @ ''Z''"

definition rfc3339nano :: "gotime \<Rightarrow> string" where
  "rfc3339nano t = date_text t @ fraction (t_nsec t) @ ''Z''"

lemma rfc3339_vectors:
  "rfc3339nano (of_unix 0 0) = ''1970-01-01T00:00:00Z''"
  "rfc3339nano (of_unix 951827696 120000000) = ''2000-02-29T12:34:56.12Z''"
  "rfc3339nano (of_unix 1735689599 1) = ''2024-12-31T23:59:59.000000001Z''"
  "rfc3339 (of_unix (-2208988800) 0) = ''1900-01-01T00:00:00Z''"
  by code_simp+

lemma rfc3339nano_not_Nil [simp]: "rfc3339nano t \<noteq> []"
  by (simp add: rfc3339nano_def)

lemma rfc3339nano_utc: "wall t = wall u \<Longrightarrow> rfc3339nano t = rfc3339nano u"
  by (simp add: rfc3339nano_def date_text_def unix_sec_def t_nsec_def)

end
