(* ===== verification/Reads.thy ===== *)
theory Reads
  imports App Go_Format
begin

text \<open>
  The reads of \<^verbatim>\<open>internal/app\<close> (filters.go, preview.go, export.go, audit.go) and the two
  filter mutations built on Apply. They take no mutex.
\<close>

definition with_ctx :: "Env \<Rightarrow> (go_error + 'r) \<Rightarrow> go_error + 'r" where
  "with_ctx env r = (case requireCtx env of Some e \<Rightarrow> Inl e | None \<Rightarrow> r)"

section \<open>filters.go\<close>

definition ListFilters :: "Env \<Rightarrow> App \<Rightarrow> go_error + FilterSpec list" where
  "ListFilters env s =
     with_ctx env (bindR (active s) (\<lambda>snap.
       bindR (app_cloneState (en_libs env) (sn_canonical snap)) (\<lambda>st. Inr (elems (sp_filters (st_spec st))))))"

definition filter_named :: "string \<Rightarrow> State \<Rightarrow> FilterSpec option" where
  "filter_named name st = find (\<lambda>f. fs_name f = name) (elems (sp_filters (st_spec st)))"

definition GetFilter :: "Env \<Rightarrow> App \<Rightarrow> string \<Rightarrow> FilterSpec outcome" where
  "GetFilter env s name =
     (let missing = Returns (Inl (Dom (NotFound (''filter '' @ name @ '' not found'')))) in
      case requireCtx env of
        Some e \<Rightarrow> Returns (Inl e)
      | None \<Rightarrow>
          if name = [] then Returns (Inl (Dom (ValidationFailed ''name is required''
            [violation ''name'' ''required'' ''name is required''])))
          else case active s of
            Inl e \<Rightarrow> Returns (Inl e)
          | Inr snap \<Rightarrow>
              (case sn_canonical snap of
                 None \<Rightarrow> Panics
               | Some st \<Rightarrow>
                   (case filter_named name st of
                      None \<Rightarrow> missing
                    | Some _ \<Rightarrow>
                        (case app_cloneState (en_libs env) (Some st) of
                           Inl e \<Rightarrow> Returns (Inl e)
                         | Inr copied \<Rightarrow> (case filter_named name copied of None \<Rightarrow> missing | Some f \<Rightarrow> Returns (Inr f))))))"

definition no_operation :: Operation where
  "no_operation = \<lparr>op_op = [], op_filters = None, op_filter = None, op_name = [], op_restrict = None,
     op_admission = None, op_allowClientCidrs = None, op_queryLogSize = None, op_managementHTTP = None\<rparr>"

definition put_change :: "revision \<Rightarrow> string \<Rightarrow> string \<Rightarrow> FilterSpec \<Rightarrow> ChangeIn" where
  "put_change rv key reason f = \<lparr>ci_expectedRevision = rv, ci_idempotencyKey = key, ci_reason = reason, ci_force = False,
     ci_operations = Some [no_operation\<lparr>op_op := OpUpsertFilter, op_filter := Some f\<rparr>]\<rparr>"

definition PutFilter ::
  "Env \<Rightarrow> App \<Rightarrow> Actor \<Rightarrow> revision \<Rightarrow> string \<Rightarrow> string \<Rightarrow> FilterSpec \<Rightarrow> App \<times> effect list \<times> (ApplyResult \<times> bool) outcome" where
  "PutFilter env s actor rv key reason f =
     (if fs_name f = [] then (s, [], Returns (Inl (Dom (ValidationFailed ''name is required''
        [violation ''name'' ''required'' ''name is required'']))))
      else app_Apply env s actor (put_change rv key reason f))"

definition delete_change :: "revision \<Rightarrow> string \<Rightarrow> string \<Rightarrow> string \<Rightarrow> ChangeIn" where
  "delete_change rv key reason name = \<lparr>ci_expectedRevision = rv, ci_idempotencyKey = key, ci_reason = reason, ci_force = False,
     ci_operations = Some [no_operation\<lparr>op_op := OpRemoveFilter, op_name := name\<rparr>]\<rparr>"

definition DeleteFilter ::
  "Env \<Rightarrow> App \<Rightarrow> Actor \<Rightarrow> string \<Rightarrow> revision \<Rightarrow> string \<Rightarrow> string \<Rightarrow> App \<times> effect list \<times> (ApplyResult \<times> bool) outcome" where
  "DeleteFilter env s actor name rv key reason =
     (if name = [] then (s, [], Returns (Inl (Dom (ValidationFailed ''name is required''
        [violation ''name'' ''required'' ''name is required'']))))
      else app_Apply env s actor (delete_change rv key reason name))"

section \<open>preview.go\<close>

record Preview =
  pv_ip :: string
  pv_filter :: string
  pv_servedTime :: "gotime option"
  pv_hostTime :: gotime
  pv_mode :: string
  pv_leap :: string
  pv_stratum :: int
  pv_refid :: string
  pv_offsetFromHost :: string
  pv_reason :: string

definition no_preview :: "string \<Rightarrow> gotime \<Rightarrow> Preview" where
  "no_preview ip host = \<lparr>pv_ip = ip, pv_filter = [], pv_servedTime = None, pv_hostTime = host, pv_mode = [], pv_leap = [],
     pv_stratum = 0, pv_refid = [], pv_offsetFromHost = [], pv_reason = []\<rparr>"

definition app_Preview :: "Env \<Rightarrow> App \<Rightarrow> string \<Rightarrow> go_error + Preview" where
  "app_Preview env s ip =
     with_ctx env
       (if ip = [] then Inl (Dom (ValidationFailed ''ip is required'' [violation ''ip'' ''required'' ''ip is required'']))
        else case parse_addr ip of
          None \<Rightarrow> Inl (Dom (ValidationFailed ''unparseable ip'' [violation ''ip'' ''invalid_value'' ''ip is not a valid address'']))
        | Some addr0 \<Rightarrow>
            (let addr = unmap addr0 in
             bindR (active s) (\<lambda>snap.
               let host = en_clock env; out = no_preview (addr_string addr) (t_utc host) in
               if \<not> Allowed snap addr then Inr (out\<lparr>pv_reason := ''allowlist''\<rparr>)
               else case Match snap addr of
                 None \<Rightarrow> Inr (out\<lparr>pv_reason := ''unmatched''\<rparr>)
               | Some f \<Rightarrow>
                   (let v = sf_view f; st = t_utc (Served v host) in
                    Inr (out\<lparr>pv_filter := sf_name f, pv_servedTime := Some st, pv_mode := v_mode v, pv_leap := v_leap v,
                      pv_stratum := v_stratum v, pv_refid := v_refid v,
                      pv_offsetFromHost := FormatDuration (t_sub st (t_utc host))\<rparr>)))))"

text \<open>A page of the query log. A cursor is the text of the time of the last entry shown.\<close>

definition stamp :: "QueryLog.Entry \<Rightarrow> string" where
  "stamp e = rfc3339nano (e_whenHost e)"

definition page_limit :: "int \<Rightarrow> nat" where
  "page_limit n = (if n \<le> 0 \<or> n > 256 then 64 else nat n)"

fun after_cursor :: "string \<Rightarrow> QueryLog.Entry list \<Rightarrow> QueryLog.Entry list option" where
  "after_cursor c [] = None"
| "after_cursor c (e # es) = (if stamp e = c then Some es else after_cursor c es)"

definition from_cursor :: "string \<Rightarrow> QueryLog.Entry list \<Rightarrow> QueryLog.Entry list" where
  "from_cursor c es = (if c = [] then es else case after_cursor c es of None \<Rightarrow> es | Some r \<Rightarrow> r)"

definition page :: "int \<Rightarrow> string \<Rightarrow> QueryLog.Entry list \<Rightarrow> QueryLog.Entry list \<times> string" where
  "page limit c all =
     (let rest = from_cursor c all; shown = take (page_limit limit) rest
      in (shown, if length shown < length rest \<and> shown \<noteq> [] then stamp (List.last shown) else []))"

definition ListQueries ::
  "Env \<Rightarrow> App \<Rightarrow> int \<Rightarrow> string \<Rightarrow> go_error + QueryLog.Entry list \<times> string" where
  "ListQueries env s limit cursor =
     with_ctx env (Inr (case a_queryLog s of None \<Rightarrow> ([], []) | Some q \<Rightarrow> page limit cursor (QueryLog.List q)))"

section \<open>export.go\<close>

definition ExportYAML :: string where "ExportYAML = ''yaml''"
definition ExportJSON :: string where "ExportJSON = ''json''"

record Export =
  ex_format :: string
  ex_body :: string
  ex_revision :: revision
  ex_bootstrapRevision :: revision
  ex_drifted :: bool
  ex_humanDiff :: string

definition app_Export :: "Env \<Rightarrow> App \<Rightarrow> string \<Rightarrow> go_error + Export" where
  "app_Export env s format0 =
     with_ctx env (bindR (active s) (\<lambda>snap.
       let L = en_libs env; format = (if format0 = [] then ExportYAML else format0) in
       if format \<noteq> ExportYAML \<and> format \<noteq> ExportJSON
       then Inl (Dom (ValidationFailed ''unknown export format'' [violation ''format'' ''invalid_value'' ''format must be yaml or json'']))
       else bindR (lift_dom (if format = ExportJSON then CanonicalJSON L (sn_canonical snap) else CanonicalYAML L (sn_canonical snap))) (\<lambda>body.
         bindR (diffStates L (case store_bootstrap (a_snaps s) of Some b \<Rightarrow> sn_canonical b | None \<Rightarrow> sn_canonical snap)
                  (sn_canonical snap)) (\<lambda>(_, human).
           Inr \<lparr>ex_format = format, ex_body = body, ex_revision = sn_revision snap,
             ex_bootstrapRevision = sn_bootstrapRevision snap, ex_drifted = Drifted snap, ex_humanDiff = human\<rparr>))))"

record RevisionView =
  rv_bootstrapRevision :: revision
  rv_runtimeRevision :: revision
  rv_generation :: generation
  rv_drifted :: bool
  rv_loadedAt :: gotime

definition revision_view :: "Snapshot \<Rightarrow> RevisionView" where
  "revision_view snap = \<lparr>rv_bootstrapRevision = sn_bootstrapRevision snap, rv_runtimeRevision = sn_revision snap,
     rv_generation = sn_generation snap, rv_drifted = Drifted snap, rv_loadedAt = sn_compiledAt snap\<rparr>"

definition GetState :: "Env \<Rightarrow> App \<Rightarrow> go_error + RevisionView \<times> State" where
  "GetState env s =
     with_ctx env (bindR (active s) (\<lambda>snap.
       bindR (app_cloneState (en_libs env) (sn_canonical snap)) (\<lambda>st. Inr (revision_view snap, st))))"

record Status =
  sv_ready :: bool
  sv_revisions :: RevisionView
  sv_listeners :: "(string \<times> string) list"
  sv_hostTime :: gotime
  sv_warnings :: "Note list"

definition app_Status :: "Env \<Rightarrow> App \<Rightarrow> Facts option \<Rightarrow> go_error + Status" where
  "app_Status env s h =
     with_ctx env (bindR (active s) (\<lambda>snap.
       let probe = Evaluate (HealthFacts s h);
           mgmt = effectiveMgmt (a_mgmtOverride s) (sn_managementAddress snap)
       in Inr \<lparr>sv_ready = pr_ready probe, sv_revisions = revision_view snap,
            sv_listeners = [(''ntp'', effectiveNTP (a_ntpOverride s) (sn_ntpAddress snap)),
                            (''management'', if mgmt = [] then ''off'' else mgmt)],
            sv_hostTime = t_utc (en_clock env), sv_warnings = pr_warnings probe\<rparr>))"

section \<open>audit.go\<close>

definition QueryAudit :: "Env \<Rightarrow> App \<Rightarrow> int \<Rightarrow> go_error + Event list" where
  "QueryAudit env s limit = with_ctx env (Inr (Audit_Log.List (fo_ring (a_audit s)) limit))"

definition GetAudit :: "Env \<Rightarrow> App \<Rightarrow> string \<Rightarrow> go_error + Event" where
  "GetAudit env s i =
     with_ctx env (case Get (fo_ring (a_audit s)) i of
       None \<Rightarrow> Inl (Dom (NotFound (''audit event '' @ i @ '' not found''))) | Some ev \<Rightarrow> Inr ev)"

end
