(* ===== verification/Reset.thy ===== *)
theory Reset
  imports App
begin

text \<open>
  reset.go of \<^verbatim>\<open>internal/app\<close>: the bootstrap document is read again, compiled, the listeners
  are moved, and only then the snapshot is swapped. What the rebind hooks return is a parameter;
  the addresses the process listens on are the state the hooks change.
\<close>

record Listening =
  li_ntp :: string
  li_mgmt :: string

text \<open>
  The hooks installed on the app: the checks of the authentication, the rebinds if there are any,
  and what the second NTP rebind of a reset, the rollback, returns.
\<close>

record Hooks =
  hk_preflight :: "(AuthSpec \<Rightarrow> go_error option) list"
  hk_ntp :: "(string \<Rightarrow> go_error option) option"
  hk_ntp_back :: "string \<Rightarrow> go_error option"
  hk_http :: "(string \<Rightarrow> go_error option) option"

definition error_text :: "go_error \<Rightarrow> string" where
  "error_text e = (case e of Dom d \<Rightarrow> err_string d | Plain t \<Rightarrow> t)"

definition compile_fresh :: "Env \<Rightarrow> generation \<Rightarrow> State \<Rightarrow> go_error + Snapshot" where
  "compile_fresh env gen st =
     domain_error (Compile (en_libs env) (Some st)
       \<lparr>co_now = en_clock env, co_bootstrapRevision = [], co_generation = gen, co_previous = None\<rparr>)"

text \<open>The candidate, or a panic of the decoder.\<close>

definition loadBootstrapCandidate :: "Env \<Rightarrow> App \<Rightarrow> generation \<Rightarrow> (go_error + Snapshot) option" where
  "loadBootstrapCandidate env s gen =
     (if a_bootstrapPath s \<noteq> [] then
        (case lib_stat (en_libs env) (a_bootstrapPath s) of
           StatMissing \<Rightarrow> Some (Inl (Dom (ValidationFailed ''bootstrap file unavailable''
             [violation ''bootstrapPath'' ''required'' ''bootstrap file is missing; active snapshot unchanged''])))
         | StatError t \<Rightarrow> Some (Inl (Dom (Internal (''stat bootstrap: '' @ t))))
         | StatOk \<Rightarrow>
             (case load_document (en_libs env) (a_bootstrapPath s) of
                None \<Rightarrow> None
              | Some r \<Rightarrow> Some (bindR (domain_error r) (compile_fresh env gen))))
      else Some (case store_bootstrap (a_snaps s) of
        None \<Rightarrow> Inl (Dom (ValidationFailed ''no bootstrap snapshot''
          [violation ''bootstrap'' ''required'' ''no bootstrap path or snapshot to reset to'']))
      | Some boot \<Rightarrow>
          if sn_canonical boot = None then Inl (Dom (ValidationFailed ''no bootstrap snapshot''
            [violation ''bootstrap'' ''required'' ''no bootstrap path or snapshot to reset to'']))
          else bindR (app_cloneState (en_libs env) (sn_canonical boot)) (compile_fresh env gen)))"

definition old_addresses :: "App \<Rightarrow> Snapshot option \<Rightarrow> string \<times> string" where
  "old_addresses s prev =
     (case prev of
        None \<Rightarrow> ([], [])
      | Some p \<Rightarrow> (effectiveNTP (a_ntpOverride s) (sn_ntpAddress p),
          if a_mgmtEffectiveSet s then a_mgmtEffective s else effectiveMgmt (a_mgmtOverride s) (sn_managementAddress p)))"

fun preflight :: "(AuthSpec \<Rightarrow> go_error option) list \<Rightarrow> AuthSpec \<Rightarrow> go_error option" where
  "preflight [] a = None"
| "preflight (f # fs) a = (case f a of Some e \<Rightarrow> Some e | None \<Rightarrow> preflight fs a)"

text \<open>The NTP listener first, then the management listener; when that fails the first goes back.\<close>

definition move_listeners :: "Hooks \<Rightarrow> Listening \<Rightarrow> string \<times> string \<Rightarrow> string \<times> string \<Rightarrow> Listening \<times> go_error option" where
  "move_listeners hk l old new =
     (let (oldNTP, oldMgmt) = old; (newNTP, newMgmt) = new;
          (l1, moved, e1) =
            (case hk_ntp hk of
               Some f \<Rightarrow> if newNTP \<noteq> [] \<and> newNTP \<noteq> oldNTP
                 then (case f newNTP of None \<Rightarrow> (l\<lparr>li_ntp := newNTP\<rparr>, True, None) | Some e \<Rightarrow> (l, False, Some (Dom (asDomain e))))
                 else (l, False, None)
             | None \<Rightarrow> (l, False, None))
      in case e1 of
        Some e \<Rightarrow> (l1, Some e)
      | None \<Rightarrow>
          (case hk_http hk of
             Some g \<Rightarrow>
               if newMgmt \<noteq> oldMgmt then
                 (case g newMgmt of
                    None \<Rightarrow> (l1\<lparr>li_mgmt := newMgmt\<rparr>, None)
                  | Some e \<Rightarrow>
                      if moved then
                        (case hk_ntp_back hk oldNTP of
                           None \<Rightarrow> (l1\<lparr>li_ntp := oldNTP\<rparr>, Some (Dom (asDomain e)))
                         | Some rb \<Rightarrow> (l1, Some (Dom (Internal (error_text e @ ''; ntp rollback: '' @ error_text rb)))))
                      else (l1, Some (Dom (asDomain e))))
               else (l1, None)
           | None \<Rightarrow> (l1, None)))"

text \<open>After the listeners moved, nothing fails.\<close>

definition commit_reset :: "Env \<Rightarrow> App \<Rightarrow> Actor \<Rightarrow> string \<Rightarrow> Snapshot \<Rightarrow> DiffEntry list \<Rightarrow> string \<Rightarrow> App \<times> ApplyResult" where
  "commit_reset env s actor reason next diff newMgmt =
     (let (snaps, displaced) = Swap (a_snaps s) next;
          s1 = s\<lparr>a_mgmtEffective := newMgmt, a_mgmtEffectiveSet := True,
                 a_queryLog := resize_log next (map_option QueryLog.Reset (a_queryLog s)),
                 a_snaps := SetBootstrap snaps next, a_idemp := idemp_clear (a_idemp s)\<rparr>;
          (s2, audit_id) = recordAudit s1 (mutation_event env actor ''state.reset'' reason next displaced diff)
      in (s2, \<lparr>ap_plan = planFrom \<lparr>cd_prev = displaced, cd_next = next, cd_ops = [], cd_diff = diff, cd_warn = warningsOf next\<rparr>,
               ap_applied = True, ap_generation = sn_generation next, ap_runtimeRevision = sn_revision next,
               ap_auditEventID = audit_id\<rparr>))"

definition resetLocked ::
  "Env \<Rightarrow> Hooks \<Rightarrow> App \<Rightarrow> Listening \<Rightarrow> Actor \<Rightarrow> string \<Rightarrow> (App \<times> Listening \<times> effect list \<times> (go_error + ApplyResult)) option" where
  "resetLocked env hk s l actor reason =
     (let prev = Load (a_snaps s);
          gen = (case prev of None \<Rightarrow> 0 | Some p \<Rightarrow> (sn_generation p + 1) mod 2 ^ 64)
      in opt_bind (loadBootstrapCandidate env s gen) (\<lambda>r. Some (case r of
        Inl e \<Rightarrow> (s, l, [], Inl e)
      | Inr next \<Rightarrow>
          (case diffStates (en_libs env) (opt_bind prev sn_canonical) (sn_canonical next) of
             Inl e \<Rightarrow> (s, l, [], Inl e)
           | Inr (diff, _) \<Rightarrow>
               (case opt_bind (sn_canonical next) (\<lambda>st. preflight (hk_preflight hk) (sp_auth (st_spec st))) of
                  Some e \<Rightarrow> (s, l, [], Inl e)
                | None \<Rightarrow>
                    (let new = (effectiveNTP (a_ntpOverride s) (sn_ntpAddress next),
                                effectiveMgmt (a_mgmtOverride s) (sn_managementAddress next));
                         (l', failed) = move_listeners hk l (old_addresses s prev) new
                     in case failed of
                       Some e \<Rightarrow> (s, l', [], Inl e)
                     | None \<Rightarrow>
                         (let (s', res) = commit_reset env s actor reason next diff (snd new)
                          in (s', l', [observeApply ''ok''], Inr res))))))))"

text \<open>A panic leaves the mutex taken: it is not released by a deferred call.\<close>

definition app_Reset ::
  "Env \<Rightarrow> Hooks \<Rightarrow> App \<Rightarrow> Listening \<Rightarrow> Actor \<Rightarrow> string \<Rightarrow> App \<times> Listening \<times> effect list \<times> ApplyResult outcome" where
  "app_Reset env hk s l actor reason =
     (case requireCtx env of
        Some e \<Rightarrow> (s, l, [], Returns (Inl e))
      | None \<Rightarrow>
          if a_mu s then (s, l, [], Blocks)
          else case resetLocked env hk s l actor reason of
            None \<Rightarrow> (s\<lparr>a_mu := True\<rparr>, l, [], Panics)
          | Some (s', l', es, r) \<Rightarrow> (s', l', es, Returns r))"

end
