(* ===== verification/Lab_Example.thy ===== *)
theory Lab_Example
  imports Compiler
begin

text \<open>
  A lab as it would be configured: one filter for every client, following the real clock. The
  properties of the other theories are applied to it.
\<close>

definition lab_view :: ViewSpec where
  "lab_view = \<lparr>vs_mode = ModeFollowReal, vs_offset = 0, vs_absolute = [], vs_freezeAt = [], vs_rate = None,
     vs_epoch = [], vs_leap = LeapNone, vs_stratum = 2, vs_refid = ''LOCL'', vs_precision = -20, vs_rootDelay = 0,
     vs_rootDispersion = 0, vs_jitter = 0, vs_minpoll = None, vs_maxpoll = None\<rparr>"

definition lab_filter :: FilterSpec where
  "lab_filter = \<lparr>fs_name = ''world'', fs_enabled = True, fs_cidrs = Some [''0.0.0.0/0'', ''::/0''], fs_view = lab_view\<rparr>"

definition lab_spec :: Spec where
  "lab_spec = \<lparr>
     sp_listeners = \<lparr>l_ntpAddress = DefaultNTPAddress, l_management =
       \<lparr>ml_address = DefaultMgmtAddress, ml_restPath = DefaultRESTPath, ml_mcpPath = DefaultMCPPath\<rparr>\<rparr>,
     sp_auth = \<lparr>au_mode = MgmtAuthBearer, au_tokens = Some []\<rparr>,
     sp_ntp = \<lparr>n_versions = Some [3, 4], n_serveMode = ServeModeUnicast, n_ntsEnabled = False, n_keysFile = [],
       n_restrict = \<lparr>rs_default = RestrictServe, rs_kod = False\<rparr>,
       n_allowClientCidrs = Some [''0.0.0.0/0'', ''::/0''],
       n_admission = \<lparr>ad_maxPacketsPerSec = 5000, ad_maxPacketsPerIP = 50\<rparr>, n_queryLogSize = 100\<rparr>,
     sp_filters = Some [lab_filter],
     sp_management = \<lparr>mg_allowedOrigins = Some [], mg_allowLegacyClients = False, mg_bodyLimit = 0,
       mg_requestsPerSecond = 0, mg_burst = 0, mg_maxConcurrent = 0\<rparr>,
     sp_uiEnabled = True,
     sp_observability = \<lparr>ob_logLevel = LogLevelInfo, ob_metricsListen = DefaultMetricsListen, ob_publicPath = False,
       ob_auditRing = 128\<rparr>\<rparr>"

definition lab_state :: State where
  "lab_state = \<lparr>st_apiVersion = APIVersionV1Alpha1, st_kind = KindLabNTP, st_name = ''lab'', st_labels = [],
     st_spec = lab_spec\<rparr>"

lemmas lab_defs = lab_state_def lab_spec_def lab_filter_def lab_view_def

lemma not_blank_defaults [simp]:
  "\<not> blank DefaultNTPAddress" "\<not> blank DefaultMgmtAddress" "\<not> blank DefaultRESTPath" "\<not> blank DefaultMCPPath"
  "\<not> blank MgmtAuthBearer" "\<not> blank ServeModeUnicast" "\<not> blank RestrictServe" "\<not> blank LogLevelInfo"
  "\<not> blank DefaultMetricsListen" "\<not> blank LeapNone" "\<not> blank ''LOCL''" "\<not> blank ''lab''"
  by code_simp+

lemma lab_prefixes [simp]:
  "parse_prefix ''0.0.0.0/0'' = Some v4Default" "parse_prefix ''::/0'' = Some v6Default"
  by code_simp+

lemma lab_normal: "normal lab_state = lab_state"
  by (simp add: normal_def lab_defs materializeDefaults_def materialize_listeners_def materialize_ntp_def if_blank_def
      or_empty_def materializeView_def Let_def DefaultAuditRing_def)

lemma lab_finite: "finite_rates lab_state"
  by (simp add: finite_rates_def lab_defs)

lemma lab_names [simp]:
  "utf8_valid APIVersionV1Alpha1" "utf8_valid KindLabNTP" "utf8_valid ''lab''" "utf8_valid ''world''"
  "utf8_valid ModeFollowReal" "filterName_ok ''world''"
  by code_simp+

lemma lab_ok: "state_ok lab_state"
  by (simp add: state_ok_def lab_defs labels_ok_def spec_ok_def ntp_ok_def filter_ok_def strs_ok_def viewspec_ok_def
      i64_def')

lemma lab_view_valid: "view_valid lab_view"
  by (simp add: view_valid_def lab_view_def KnownMode_def poll_ok_def min_i64_def) (simp add: mode_names)

lemma lab_valid: "state_valid no_libs lab_state"
proof -
  have f: "filters_valid [lab_filter]"
    using lab_view_valid by (simp add: filters_valid_def filter_valid_def has_default_def lab_filter_def)
  have n: "ntp_valid (sp_ntp lab_spec)" by (simp add: ntp_valid_def lab_spec_def MaxQueryLogSize_def)
  have l: "listeners_valid no_libs (sp_listeners lab_spec)"
    by (simp add: listeners_valid_def lab_spec_def no_libs_def has_prefix_def DefaultRESTPath_def DefaultMCPPath_def)
  show ?thesis
    using f n l by (simp add: state_valid_def lab_state_def, simp add: lab_spec_def auth_valid_def management_valid_def)
qed

lemma lab_normalizes: "Normalize L (Some lab_state) = Inr (lab_state, [])"
  by (simp add: Normalize_eq lab_ok lab_finite lab_normal) (simp add: lab_defs materializeDefaults_def)

lemma lab_revision: "\<exists>rv. Revision L (Some lab_state) = Inr rv"
  by (simp add: Revision_def CanonicalJSON_def lab_normalizes Let_def marshals_state lab_finite)

lemma lab_filters: "\<exists>fw. compileFilters L [lab_filter] opts = Inr fw"
  by (simp add: compileFilters_def lab_filter_def compileView_def view_epoch_def Let_def) (simp add: lab_view_def)

lemma lab_compiles_ex: "\<exists>s. Compile no_libs (Some lab_state) opts = Inr s"
proof -
  obtain rv where rv: "Revision no_libs (Some lab_state) = Inr rv" using lab_revision by blast
  obtain gs w where fw: "compileFilters no_libs [lab_filter] opts = Inr (gs, w)" using lab_filters by fastforce
  have v: "Validate no_libs (Some lab_state) = None" by (simp only: Validate_None lab_valid)
  have fs: "elems (sp_filters (st_spec lab_state)) = [lab_filter]"
    "n_allowClientCidrs (sp_ntp (st_spec lab_state)) = Some [''0.0.0.0/0'', ''::/0'']"
    "n_keysFile (sp_ntp (st_spec lab_state)) = []"
    by (simp_all add: lab_state_def lab_spec_def)
  show ?thesis
    unfolding Compile_def lab_normalizes
    by (simp add: lift_dom_def v fs fw rv compileAllow_def loadKeys_def)
qed

text \<open>The snapshot of the lab.\<close>

definition lab_snapshot :: "CompileOpts \<Rightarrow> Snapshot" where
  "lab_snapshot opts = (case Compile no_libs (Some lab_state) opts of Inr s \<Rightarrow> s | Inl _ \<Rightarrow> undefined)"

lemma lab_compiles: "Compile no_libs (Some lab_state) opts = Inr (lab_snapshot opts)"
  using lab_compiles_ex [of opts] by (auto simp: lab_snapshot_def)

lemma lab_snapshot_parts:
  "sn_canonical (lab_snapshot opts) = Some lab_state \<and> sn_generation (lab_snapshot opts) = co_generation opts
   \<and> Revision no_libs (Some lab_state) = Inr (sn_revision (lab_snapshot opts))"
proof -
  obtain n w gs more allow keys rv where n: "Normalize no_libs (Some lab_state) = Inr (n, w)"
    and r: "Revision no_libs (Some n) = Inr rv"
    and s: "lab_snapshot opts = build_snapshot opts n rv (w @ more @ overlapWarnings gs) gs allow keys"
    using lab_compiles by (rule Compile_parts)
  have "n = lab_state" using n by (simp add: lab_normalizes)
  then show ?thesis using r by (simp add: s)
qed

section \<open>The compiler on the lab\<close>

text \<open>Compiling the lab at the epoch of the clock, as the first configuration.\<close>

definition lab_opts :: CompileOpts where
  "lab_opts = \<lparr>co_now = zero_time, co_bootstrapRevision = [], co_generation = 1, co_previous = None\<rparr>"


text \<open>A filter whose clock runs at the rate \<open>r\<close>, and the view it was compiled to.\<close>

definition rate_filter :: "rat \<Rightarrow> FilterSpec" where
  "rate_filter r = lab_filter\<lparr>fs_view := lab_view\<lparr>vs_mode := ModeRate, vs_rate := Some (Fin r)\<rparr>\<rparr>"

definition rate_view :: "rat \<Rightarrow> View" where
  "rate_view r = build_view (rate_filter r) lab_opts (t_utc zero_time, zero_time, t_utc zero_time)"

definition rate_snapshot :: Snapshot where
  "rate_snapshot = (lab_snapshot lab_opts)\<lparr>sn_filters :=
     [\<lparr>sf_name = ''world'', sf_enabled = True, sf_prefixes = [], sf_view = rate_view 1\<rparr>]\<rparr>"

definition rate_opts :: CompileOpts where
  "rate_opts = \<lparr>co_now = t_add zero_time 1000, co_bootstrapRevision = [], co_generation = 2, co_previous = Some rate_snapshot\<rparr>"

lemma rate_previous: "previousView (Some rate_snapshot) ''world'' = Some (rate_view 1)"
  by (simp add: previousView_def rate_snapshot_def)

lemma rate_prev_epoch: "prevEpochYAML (Some rate_snapshot) ''world'' = []"
  using lab_snapshot_parts [of lab_opts]
  by (simp add: prevEpochYAML_def rate_snapshot_def lab_state_def lab_spec_def lab_filter_def lab_view_def)

lemma rate_filter_sel [simp]:
  "fs_name (rate_filter r) = ''world''" "vs_mode (fs_view (rate_filter r)) = ModeRate"
  "vs_rate (fs_view (rate_filter r)) = Some (Fin r)" "vs_epoch (fs_view (rate_filter r)) = []"
  by (simp_all add: rate_filter_def lab_filter_def lab_view_def)

lemma rate_view_sel [simp]:
  "v_mode (rate_view r) = ModeRate" "v_hasRate (rate_view r)" "v_rate (rate_view r) = Fin r"
  by (simp_all add: rate_view_def build_view_def Let_def rateVal_def)

lemma rate_compiles: "\<exists>v w. compileView no_libs (rate_filter r) rate_opts = Inr (v, w)"
  by (simp add: compileView_def view_epoch_rate rate_epoch_def Let_def rate_opts_def rate_previous)

theorem rate_view_kept_witness:
  "\<exists>v w. compileView no_libs (rate_filter 1) rate_opts = Inr (v, w)
     \<and> Served v (t_add zero_time 5000) = Served (rate_view 1) (t_add zero_time 5000)"
proof -
  obtain v w where c: "compileView no_libs (rate_filter 1) rate_opts = Inr (v, w)" using rate_compiles by blast
  have "Served v t = Served (rate_view 1) t" for t
    by (rule rate_view_kept [OF c, of "rate_view 1" 1]) (simp_all add: rate_opts_def rate_previous rate_prev_epoch)
  then show ?thesis using c by blast
qed


end
