(* ===== verification/Json_Roundtrip.thy ===== *)
theory Json_Roundtrip
  imports Json
begin

text \<open>
  The decoder reads back what the encoder writes: strings with every escape, integers, and nested
  arrays and objects. Doubles are left out; of them only the shortest digits would be in question.
\<close>

section \<open>Strings\<close>

lemma hex4_digits: "n < 65536 \<Longrightarrow> hex4 (map (\<lambda>i. hex_char (n div 16 ^ i mod 16)) [3, 2, 1, 0] @ t) = Some n"
proof -
  assume n: "n < 65536"
  have h: "hex_val (hex_char (x mod 16)) = Some (x mod 16)" for x by (rule hex_char_inv) simp
  have "n div 4096 mod 16 * 4096 + n div 256 mod 16 * 256 + n div 16 mod 16 * 16 + n mod 16 = n"
  proof -
    have d: "n div 256 = n div 16 div 16" "n div 4096 = n div 16 div 16 div 16"
      by (simp_all add: div_mult2_eq [symmetric])
    have "n div 4096 < 16" using n by (simp add: less_mult_imp_div_less)
    then have "n div 16 div 16 div 16 mod 16 = n div 16 div 16 div 16" using d by simp
    then show ?thesis
      unfolding d using div_mult_mod_eq [of n 16] div_mult_mod_eq [of "n div 16" 16] div_mult_mod_eq [of "n div 16 div 16" 16]
      by linarith
  qed
  moreover have q: "n div 4096 < 16" using n by (simp add: less_mult_imp_div_less)
  ultimately show ?thesis using hex_char_inv [OF q] by (simp add: hex4_def h)
qed

lemma unescape_digits:
  assumes "n < 0xD800 \<or> 0xE000 \<le> n \<and> n < 65536"
  shows "unescape_u (map (\<lambda>i. hex_char (n div 16 ^ i mod 16)) [3, 2, 1, 0] @ t) = Some (code_point n, t)"
proof -
  have "hex4 (map (\<lambda>i. hex_char (n div 16 ^ i mod 16)) [3, 2, 1, 0] @ t) = Some n"
    using assms by (intro hex4_digits) auto
  then show ?thesis using assms unfolding unescape_u_def by (elim disjE) (simp_all add: Let_def)
qed

text \<open>The bytes a rune stands for.\<close>

definition rune_bytes :: "string option \<Rightarrow> string" where
  "rune_bytes r = (case r of None \<Rightarrow> rune_error | Some b \<Rightarrow> b)"

lemma utf8_fix_bytes: "utf8_fix s = concat (map rune_bytes (runes s))"
  by (simp add: utf8_fix_def rune_bytes_def [abs_def])

text \<open>The runes of a string: one ASCII byte, or bytes that are all above ASCII.\<close>

definition rune_shape :: "string option \<Rightarrow> bool" where
  "rune_shape r = (case r of None \<Rightarrow> True
     | Some b \<Rightarrow> (\<exists>c. b = [c] \<and> in_byte 0 0x7F c) \<or> (2 \<le> length b \<and> list_all (in_byte 0x80 0xFF) b))"

lemma utf8_len_shape: "utf8_len s \<noteq> 0 \<Longrightarrow> rune_shape (Some (take (utf8_len s) s))"
  by (induction s rule: utf8_len.induct)
    (auto simp: rune_shape_def seq3_def seq4_def in_byte_def split: if_splits)

lemma runes_shape: "list_all rune_shape (runes s)"
proof (induction s rule: runes.induct)
  case (2 c s)
  show ?case
  proof (cases "utf8_len (c # s) = 0")
    case True
    then show ?thesis using 2 by (simp add: runes.simps(2) rune_shape_def)
  next
    case False
    then show ?thesis using 2 utf8_len_shape [OF False] by (simp add: runes.simps(2) Let_def)
  qed
qed simp

text \<open>One escaped rune is read back.\<close>

lemma parse_raw:
  assumes "list_all (\<lambda>c. c \<noteq> CHR 0x22 \<and> c \<noteq> CHR 0x5C \<and> \<not> of_char c < (0x20 :: nat)) b" "length b \<le> k"
  shows "parse_chars k (b @ t) = opt_bind (parse_chars (k - length b) t) (\<lambda>(u, z). Some (b @ u, z))"
  using assms
proof (induction b arbitrary: k)
  case Nil
  then show ?case by (simp add: opt_bind_def split: option.splits)
next
  case (Cons c b)
  then obtain k' where k: "k = Suc k'" by (cases k) auto
  show ?case using Cons by (simp add: k opt_bind_def split: option.splits)
qed

definition plain_char :: "char \<Rightarrow> bool" where
  "plain_char c = (c \<noteq> CHR 0x22 \<and> c \<noteq> CHR 0x5C \<and> \<not> of_char c < (0x20 :: nat))"

lemma parse_u:
  assumes "n < 0xD800 \<or> 0xE000 \<le> n \<and> n < 65536" "6 \<le> k"
  shows "\<exists>k'. k \<le> k' + 6 \<and> parse_chars k (u_escape n @ t) = opt_bind (parse_chars k' t) (\<lambda>(u, z). Some (code_point n @ u, z))"
proof -
  obtain k' where k: "k = Suc k'" using assms by (cases k) auto
  have "parse_chars k (u_escape n @ t) = opt_bind (parse_chars k' t) (\<lambda>(u, z). Some (code_point n @ u, z))"
    using unescape_digits [OF assms(1), of t] by (simp add: k u_escape_def opt_bind_def)
  then show ?thesis using k assms(2) by (intro exI [of _ k']) simp
qed

lemma code_point_ascii: "of_char c < (0x80 :: nat) \<Longrightarrow> code_point (of_char c) = [c]"
  by (simp add: code_point_def)

lemma code_points: "code_point 0xFFFD = rune_error" "code_point 0x2028 = [CHR 0xE2, CHR 0x80, CHR 0xA8]"
  "code_point 0x2029 = [CHR 0xE2, CHR 0x80, CHR 0xA9]"
  by (simp_all add: code_point_def rune_error_def char_of_def bit_simps)

lemma ufffd: "CHR 0x5C # ''ufffd'' = u_escape 0xFFFD"
  by (simp add: u_escape_def hex_char_def char_of_def bit_0)

lemma high_plain: "in_byte 0x80 0xFF c \<Longrightarrow> plain_char c"
  by (auto simp: in_byte_def plain_char_def)

lemma esc_rune_read:
  assumes "rune_shape r" "length (esc_rune r) \<le> k"
  shows "\<exists>k'. k \<le> k' + length (esc_rune r)
    \<and> parse_chars k (esc_rune r @ t) = opt_bind (parse_chars k' t) (\<lambda>(u, z). Some (rune_bytes r @ u, z))"
proof -
  have l6: "length (u_escape n) = 6" for n by (simp add: u_escape_def)
  have via: ?thesis if "esc_rune r = u_escape n" "n < 0xD800 \<or> 0xE000 \<le> n \<and> n < 65536" "code_point n = rune_bytes r" for n
    using parse_u [OF that(2), of k t] assms(2) that l6 by auto
  note uu = via [of "of_char (hd (rune_bytes r))"]
  have raw: ?thesis if "esc_rune r = b" "rune_bytes r = b" "list_all plain_char b" for b
  proof -
    have "parse_chars k (b @ t) = opt_bind (parse_chars (k - length b) t) (\<lambda>(u, z). Some (b @ u, z))"
      using that(3) assms(2) that(1) by (intro parse_raw) (simp_all add: plain_char_def [abs_def])
    then show ?thesis using that assms(2) by (intro exI [of _ "k - length b"]) simp
  qed
  have simple: ?thesis if "esc_rune r = [CHR 0x5C, e]" "simple_escape e = Some (rune_bytes r)" "e \<noteq> CHR ''u''" for e
  proof -
    have "2 \<le> k" using assms(2) unfolding that(1) by simp
    then obtain k' where k: "k = Suc k'" by (cases k) auto
    have "parse_chars k (esc_rune r @ t) = opt_bind (parse_chars k' t) (\<lambda>(u, z). Some (rune_bytes r @ u, z))"
      using that by (simp add: k opt_bind_def)
    then show ?thesis using k that(1) by (intro exI [of _ k']) simp
  qed
  show ?thesis
  proof (cases r)
    case None
    then show ?thesis using ufffd by (intro via [where n = "0xFFFD"]) (simp_all add: esc_rune_def rune_bytes_def code_points)
  next
    case (Some b)
    consider (one) c where "b = [c]" "in_byte 0 0x7F c" | (more) "2 \<le> length b" "list_all (in_byte 0x80 0xFF) b"
      using assms(1) Some by (auto simp: rune_shape_def)
    then show ?thesis
    proof cases
      case one
      have h: "of_char c < (0x80 :: nat)" using one by (auto simp: in_byte_def)
      note cp = code_point_ascii [OF h]
      let ?odd = "[CHR 0x22, CHR 0x5C, CHR 0x08, CHR 0x0C, CHR 0x0A, CHR 0x0D, CHR 0x09]"
      have other: "esc_rune r = (if c = CHR ''<'' \<or> c = CHR ''>'' \<or> c = CHR ''&'' \<or> of_char c < (0x20 :: nat)
          then u_escape (of_char c) else [c])" if "c \<notin> set ?odd"
        using that by (simp add: Some one(1) esc_rune_def)
      consider (s) e where "esc_rune r = [CHR 0x5C, e]" "simple_escape e = Some [c]" "e \<noteq> CHR ''u''"
        | (u) "esc_rune r = u_escape (of_char c)" | (p) "esc_rune r = [c]" "plain_char c"
      proof (cases "c \<in> set ?odd")
        case True
        then show thesis
          using that(1) [of "CHR 0x22"] that(1) [of "CHR 0x5C"] that(1) [of "CHR ''b''"] that(1) [of "CHR ''f''"]
            that(1) [of "CHR ''n''"] that(1) [of "CHR ''r''"] that(1) [of "CHR ''t''"]
          by (auto simp: Some one(1) esc_rune_def simple_escape_def)
      next
        case False
        then have "plain_char c" if "\<not> of_char c < (0x20 :: nat)" using that by (simp add: plain_char_def)
        then show thesis using other [OF False] that(2,3) by (auto split: if_splits)
      qed
      then show ?thesis
      proof cases
        case s
        then show ?thesis using Some one by (intro simple) (simp_all add: rune_bytes_def)
      next
        case u
        then show ?thesis using Some one cp h by (intro uu) (simp_all add: rune_bytes_def)
      next
        case p
        then show ?thesis using Some one by (intro raw [of "[c]"]) (simp_all add: rune_bytes_def)
      qed
    next
      case more
      then have n: "b \<noteq> [c]" for c by auto
      consider "b = [CHR 0xE2, CHR 0x80, CHR 0xA8]" | "b = [CHR 0xE2, CHR 0x80, CHR 0xA9]" | "esc_rune r = b"
        using n more by (cases "b = [CHR 0xE2, CHR 0x80, CHR 0xA8]"; cases "b = [CHR 0xE2, CHR 0x80, CHR 0xA9]")
          (simp_all add: Some esc_rune_def)
      then show ?thesis
      proof cases
        case 1
        then show ?thesis by (intro via [where n = "0x2028"]) (simp_all add: Some esc_rune_def rune_bytes_def code_points)
      next
        case 2
        then show ?thesis by (intro via [where n = "0x2029"]) (simp_all add: Some esc_rune_def rune_bytes_def code_points)
      next
        case 3
        then show ?thesis using more high_plain by (intro raw [of b]) (auto simp: Some rune_bytes_def list_all_iff)
      qed
    qed
  qed
qed

lemma esc_runes_read:
  "\<lbrakk>list_all rune_shape rs; length (concat (map esc_rune rs)) < k\<rbrakk>
   \<Longrightarrow> parse_chars k (concat (map esc_rune rs) @ CHR 0x22 # z) = Some (concat (map rune_bytes rs), z)"
proof (induction rs arbitrary: k)
  case Nil
  then show ?case by (cases k) simp_all
next
  case (Cons r rs)
  obtain k' where k': "k \<le> k' + length (esc_rune r)"
    "parse_chars k (esc_rune r @ concat (map esc_rune rs) @ CHR 0x22 # z) =
      opt_bind (parse_chars k' (concat (map esc_rune rs) @ CHR 0x22 # z)) (\<lambda>(u, z). Some (rune_bytes r @ u, z))"
    using esc_rune_read [of r k "concat (map esc_rune rs) @ CHR 0x22 # z"] Cons.prems by auto
  then show ?case using Cons.IH [of k'] Cons.prems by (simp add: opt_bind_def)
qed

lemma parse_json_str: "json_str s @ z = CHR 0x22 # r \<Longrightarrow> parse_string r = Some (utf8_fix s, z)"
proof -
  assume "json_str s @ z = CHR 0x22 # r"
  then have r: "r = concat (map esc_rune (runes s)) @ CHR 0x22 # z" by (simp add: json_str_def)
  have "parse_chars (Suc (length r)) r = Some (utf8_fix s, z)"
    unfolding r utf8_fix_bytes by (rule esc_runes_read [OF runes_shape]) simp
  then show ?thesis by (simp add: parse_string_def)
qed

section \<open>Numbers\<close>

text \<open>What may follow a value.\<close>

definition stops :: "string \<Rightarrow> bool" where
  "stops z = (case z of [] \<Rightarrow> True | c # _ \<Rightarrow> c = CHR '','' \<or> c = CHR '']'' \<or> c = CHR ''}'')"

lemma stops_simps [simp]: "stops []" "stops (CHR '','' # z)" "stops (CHR '']'' # z)" "stops (CHR ''}'' # z)"
  by (simp_all add: stops_def)

lemma stops_digit: "stops (c # z) \<Longrightarrow> \<not> is_digit c \<and> c \<noteq> CHR ''.'' \<and> c \<noteq> CHR ''e'' \<and> c \<noteq> CHR ''E''"
  by (auto simp: stops_def is_digit_def)

lemma takeWhile_stops: "stops z \<Longrightarrow> takeWhile is_digit z = []"
  by (cases z) (auto dest: stops_digit)

lemma takeWhile_digits: "list_all is_digit ds \<Longrightarrow> stops z \<Longrightarrow> takeWhile is_digit (ds @ z) = ds"
  by (induction ds) (simp_all add: takeWhile_stops)

lemma dec_str_head: "0 < n \<Longrightarrow> hd (dec_str n) \<noteq> CHR ''0''"
proof (induction n rule: dec_str.induct)
  case (1 n)
  show ?case
  proof (cases "n < 10")
    case True
    then have "dec_str n = [digit_char n]" by (subst dec_str.simps) simp
    moreover have "digit_val (digit_char n) = n" using True 1 by (intro digit_char_inv(2)) auto
    moreover have "digit_val CHR ''0'' = 0" by (simp add: digit_val_def)
    ultimately show ?thesis using 1(2) by auto
  next
    case False
    then have "dec_str n = dec_str (n div 10) @ [digit_char (n mod 10)]" by (subst dec_str.simps) simp
    then show ?thesis using 1(1) [OF False] False by simp
  qed
qed

text \<open>A number literal without fraction: its digits are zero, or do not start with zero.\<close>

lemma parse_integer:
  assumes "ds = ''0'' \<or> (ds \<noteq> [] \<and> list_all is_digit ds \<and> hd ds \<noteq> CHR ''0'')" "stops z" "sg = [] \<or> sg = ''-''"
  shows "parse_number (sg @ ds @ z) = Some (sg @ ds, z)"
proof -
  obtain c r where ds: "ds = c # r" using assms(1) by (cases ds) auto
  have m: "c \<noteq> CHR ''-''" using assms(1) ds by (auto simp: is_digit_def)
  have h: "(case sg @ ds @ z of c # r \<Rightarrow> if c = CHR ''-'' then (''-'', r) else ([], sg @ ds @ z) | [] \<Rightarrow> ([], [])) = (sg, ds @ z)"
    using assms(3) m ds by auto
  have t: "(case ds @ z of c # r \<Rightarrow> if c = CHR ''0'' then ''0'' else takeWhile is_digit (ds @ z) | [] \<Rightarrow> []) = ds"
    using assms(1,2) ds takeWhile_digits [of ds z] by auto
  show ?thesis
  proof (cases z)
    case Nil
    then show ?thesis using ds t unfolding parse_number_def h Let_def prod.case t by simp
  next
    case (Cons c' z')
    then show ?thesis using ds t assms(2) stops_digit [of c' z'] unfolding parse_number_def h Let_def prod.case t by simp
  qed
qed

lemma int_str_shape:
  obtains sg ds where "int_str n = sg @ ds" "sg = [] \<or> sg = ''-''"
    "ds = ''0'' \<or> (ds \<noteq> [] \<and> list_all is_digit ds \<and> hd ds \<noteq> CHR ''0'')"
proof -
  have d: "dec_str m = ''0'' \<or> (dec_str m \<noteq> [] \<and> list_all is_digit (dec_str m) \<and> hd (dec_str m) \<noteq> CHR ''0'')" if "0 \<le> m" for m
  proof (cases "m = 0")
    case True
    then show ?thesis by (subst dec_str.simps) (simp add: digit_char_def char_of_def bit_0)
  next
    case False
    then show ?thesis using that dec_str_head [of m] dec_str_digits [of m] by simp
  qed
  show thesis
    using d [of n] d [of "- n"] that [of "[]" "dec_str n"] that [of "''-''" "dec_str (- n)"]
    by (cases "n < 0") (simp_all add: int_str_def)
qed

lemma parse_int_str: "stops z \<Longrightarrow> parse_number (int_str n @ z) = Some (int_str n, z)"
proof -
  assume z: "stops z"
  obtain sg ds where s: "int_str n = sg @ ds" "sg = [] \<or> sg = ''-''"
    "ds = ''0'' \<or> (ds \<noteq> [] \<and> list_all is_digit ds \<and> hd ds \<noteq> CHR ''0'')" by (rule int_str_shape)
  show ?thesis using parse_integer [OF s(3) z s(2)] by (simp add: s(1))
qed

section \<open>Trees\<close>

text \<open>The trees in question, their depth, and what the decoder makes of them.\<close>

fun writable :: "json \<Rightarrow> bool" where
  "writable (JNum t) = False"
| "writable (JFloat f) = False"
| "writable (JAny m) = False"
| "writable (JArr xs) = list_all writable xs"
| "writable (JObj m) = (distinct (map fst m) \<and> list_all (\<lambda>(k, v). utf8_valid k \<and> writable v) m)"
| "writable v = True"

fun depth :: "json \<Rightarrow> nat" where
  "depth (JArr xs) = Suc (Max (insert 0 (set (map depth xs))))"
| "depth (JObj m) = Suc (Max (insert 0 (set (map (\<lambda>(k, v). depth v) m))))"
| "depth v = 0"

fun read_back :: "json \<Rightarrow> json" where
  "read_back (JInt n) = JNum (int_str n)"
| "read_back (JStr s) = JStr (utf8_fix s)"
| "read_back (JText s) = JStr (utf8_fix s)"
| "read_back (JArr xs) = JArr (map read_back xs)"
| "read_back (JObj m) = JObj (map (\<lambda>(k, v). (k, read_back v)) (sort_key fst m))"
| "read_back v = v"

lemma skip_ws_Cons: "\<not> json_ws c \<Longrightarrow> skip_ws (c # r) = c # r"
  by (simp add: skip_ws_def)

lemma json_str_head: "json_str s @ z = CHR 0x22 # (concat (map esc_rune (runes s)) @ CHR 0x22 # z)"
  by (simp add: json_str_def)

lemma int_str_head: "\<exists>c r. int_str n = c # r \<and> (c = CHR ''-'' \<or> is_digit c)"
proof -
  obtain sg ds where "int_str n = sg @ ds" "sg = [] \<or> sg = ''-''"
    "ds = ''0'' \<or> (ds \<noteq> [] \<and> list_all is_digit ds \<and> hd ds \<noteq> CHR ''0'')" by (rule int_str_shape)
  moreover have "is_digit CHR ''0''" by (simp add: is_digit_def)
  ultimately show ?thesis by (cases ds) auto
qed

text \<open>The first character of a value.\<close>

lemma text_head:
  assumes "writable t"
  shows "\<exists>c r. json_text t = c # r \<and> \<not> json_ws c \<and> c \<noteq> CHR '']'' \<and> c \<noteq> CHR ''}''"
proof (cases t)
  case (JInt n)
  have "is_digit c \<Longrightarrow> \<not> json_ws c \<and> c \<noteq> CHR '']'' \<and> c \<noteq> CHR ''}''" for c
    by (auto simp: is_digit_def json_ws_def)
  then show ?thesis using int_str_head [of n] JInt by (auto simp: json_ws_def)
qed (use assms in \<open>auto simp: json_ws_def json_str_def\<close>)

lemma skip_text: "writable t \<Longrightarrow> skip_ws (json_text t @ z) = json_text t @ z"
  using text_head [of t] skip_ws_Cons by auto

lemma stops_no_ws: "stops z \<Longrightarrow> skip_ws z = z"
  by (cases z) (auto simp: stops_def skip_ws_def json_ws_def)

lemma sep_by_Cons: "xs \<noteq> [] \<Longrightarrow> sep_by d (x # xs) = x @ d @ sep_by d xs"
  by (cases xs) simp_all

lemma parse_items_text:
  assumes "\<And>x k z. \<lbrakk>x \<in> set xs; 2 * length (json_text x) < k; stops z\<rbrakk> \<Longrightarrow> parse_value k d (json_text x @ z) = Some (read_back x, z)"
    and "xs \<noteq> []" "2 * Suc (length (sep_by '','' (map json_text xs))) < k"
  shows "parse_items k d (sep_by '','' (map json_text xs) @ CHR '']'' # z) = Some (map read_back xs, z)"
  using assms
proof (induction xs arbitrary: k)
  case (Cons x xs)
  obtain k' where k: "k = Suc k'" using Cons.prems(3) by (cases k) auto
  show ?case
  proof (cases "xs = []")
    case True
    then show ?thesis
      using Cons.prems(1) [of x k' "CHR '']'' # z"] Cons.prems(3)
      by (simp add: k skip_ws_def json_ws_def)
  next
    case False
    let ?r = "sep_by '','' (map json_text xs) @ CHR '']'' # z"
    have "parse_value k' d (json_text x @ CHR '','' # ?r) = Some (read_back x, CHR '','' # ?r)"
      using Cons.prems(3) False by (intro Cons.prems(1)) (simp_all add: k sep_by_Cons)
    moreover have "parse_items k' d ?r = Some (map read_back xs, z)"
      using Cons.prems False by (intro Cons.IH) (simp_all add: k sep_by_Cons)
    ultimately show ?thesis using False by (simp add: k sep_by_Cons skip_ws_def json_ws_def)
  qed
qed simp

definition member_text :: "string \<times> json \<Rightarrow> string" where
  "member_text p = json_str (fst p) @ '':'' @ json_text (snd p)"

lemma put_key_new: "k \<notin> fst ` set m \<Longrightarrow> put_key k v m = m @ [(k, v)]"
  by (induction m) auto

lemma parse_members_text:
  assumes "\<And>p k z. \<lbrakk>p \<in> set ps; 2 * length (json_text (snd p)) < k; stops z\<rbrakk>
      \<Longrightarrow> parse_value k d (json_text (snd p) @ z) = Some (read_back (snd p), z)"
    and "list_all (\<lambda>p. utf8_valid (fst p) \<and> writable (snd p)) ps" "distinct (map fst ps)"
    and "fst ` set ps \<inter> fst ` set acc = {}"
    and "ps \<noteq> []" "2 * Suc (length (sep_by '','' (map member_text ps))) < k"
  shows "parse_members k d acc (sep_by '','' (map member_text ps) @ CHR ''}'' # z)
    = Some (acc @ map (\<lambda>(k, v). (k, read_back v)) ps, z)"
  using assms
proof (induction ps arbitrary: k acc)
  case (Cons p ps)
  obtain k' where k: "k = Suc k'" using Cons.prems(6) by (cases k) auto
  obtain key v where p: "p = (key, v)" by (cases p)
  have key: "utf8_fix key = key" "writable v" "key \<notin> fst ` set acc" using Cons.prems(2,4) by (auto simp: p)
  have step: "parse_members k d acc (member_text p @ e # r) =
      (if e = CHR '','' then parse_members k' d (acc @ [(key, read_back v)]) r
       else if e = CHR ''}'' then Some (acc @ [(key, read_back v)], r) else None)"
    if "stops (e # r)" "2 * length (json_text v) < k'" for e r
  proof -
    have v: "parse_value k' d (json_text v @ e # r) = Some (read_back v, e # r)"
      using Cons.prems(1) [of p k' "e # r"] that by (simp add: p)
    have "skip_ws (member_text p @ e # r) = CHR 0x22 # (concat (map esc_rune (runes key)) @ CHR 0x22 # CHR '':'' # json_text v @ e # r)"
      by (simp add: member_text_def p json_str_def skip_ws_def json_ws_def)
    moreover have "parse_string (concat (map esc_rune (runes key)) @ CHR 0x22 # CHR '':'' # json_text v @ e # r)
        = Some (key, CHR '':'' # json_text v @ e # r)"
      using parse_json_str [OF json_str_head, of key "CHR '':'' # json_text v @ e # r"] key by simp
    moreover have "skip_ws (CHR '':'' # json_text v @ e # r) = CHR '':'' # json_text v @ e # r"
      by (rule skip_ws_Cons) (simp add: json_ws_def)
    ultimately show ?thesis
      using v stops_no_ws [OF that(1)] put_key_new [OF key(3)] by (simp add: k)
  qed
  have l: "2 * length (json_text v) < k'"
    using Cons.prems(6) by (cases "ps = []") (simp_all add: k p sep_by_Cons member_text_def)
  show ?case
  proof (cases "ps = []")
    case True
    then show ?thesis using step [OF _ l, of "CHR ''}''" z] by (simp add: p)
  next
    case False
    let ?r = "sep_by '','' (map member_text ps) @ CHR ''}'' # z"
    have "parse_members k' d (acc @ [(key, read_back v)]) ?r = Some ((acc @ [(key, read_back v)]) @ map (\<lambda>(k, v). (k, read_back v)) ps, z)"
      using Cons.prems False by (intro Cons.IH) (auto simp: k p sep_by_Cons member_text_def)
    then show ?thesis using step [OF _ l, of "CHR '',''" ?r] False by (simp add: p sep_by_Cons)
  qed
qed simp

lemma insort_texts:
  "insort_key fst (k, f v) (map (\<lambda>(k, v). (k, f v)) xs) = map (\<lambda>(k, v). (k, f v)) (insort_key fst (k, v) xs)"
  by (induction xs) auto

lemma sort_texts: "sort_key fst (map (\<lambda>(k, v). (k, f v)) m) = map (\<lambda>(k, v). (k, f v)) (sort_key fst m)"
proof (induction m)
  case (Cons p m)
  then show ?case using insort_texts [of "fst p" f "snd p" "sort_key fst m"] by (cases p) simp
qed simp

lemma object_text: "json_text (JObj m) = CHR ''{'' # sep_by '','' (map member_text (sort_key fst m)) @ ''}''"
  unfolding json_text.simps sort_texts by (simp add: member_text_def [abs_def] comp_def case_prod_beta)

lemma Max_depth: "finite S \<Longrightarrow> x \<in> S \<Longrightarrow> x \<le> Max (insert 0 S)"
  by (rule Max_ge) auto

lemma member_head: "ps \<noteq> [] \<Longrightarrow> \<exists>r. sep_by '','' (map member_text ps) @ z = CHR 0x22 # r"
  by (cases ps; cases "tl ps") (simp_all add: member_text_def json_str_def)

lemma items_head:
  assumes "xs \<noteq> []" "list_all writable xs"
  shows "\<exists>c r. sep_by '','' (map json_text xs) @ z = c # r \<and> \<not> json_ws c \<and> c \<noteq> CHR '']''"
proof -
  obtain x ys where x: "xs = x # ys" using assms by (cases xs) auto
  obtain c r where "json_text x = c # r" "\<not> json_ws c" "c \<noteq> CHR '']''" using text_head [of x] assms x by auto
  then show ?thesis by (cases ys) (auto simp: x)
qed

lemma parse_text:
  "\<lbrakk>writable t; 2 * length (json_text t) < k; d + depth t \<le> max_depth; stops z\<rbrakk>
   \<Longrightarrow> parse_value k d (json_text t @ z) = Some (read_back t, z)"
proof (induction t arbitrary: k d z)
  case (JArr xs)
  obtain k' where k: "k = Suc k'" using JArr.prems(2) by (cases k) auto
  have d: "\<not> max_depth \<le> d" using JArr.prems(3) by simp
  show ?case
  proof (cases "xs = []")
    case True
    then show ?thesis using d by (simp add: k skip_ws_def json_ws_def)
  next
    case False
    let ?t = "sep_by '','' (map json_text xs) @ CHR '']'' # z"
    have dx: "Suc d + depth x \<le> max_depth" if "x \<in> set xs" for x
    proof -
      have "depth x \<le> Max (insert 0 (depth ` set xs))" using that by (intro Max_depth) auto
      then show ?thesis using JArr.prems(3) by simp
    qed
    have "parse_items k' (Suc d) ?t = Some (map read_back xs, z)"
      using JArr.prems False dx by (intro parse_items_text JArr.IH) (auto simp: k list_all_iff)
    moreover obtain c r where "?t = c # r" "\<not> json_ws c" "c \<noteq> CHR '']''"
      using items_head [OF False, of "CHR '']'' # z"] JArr.prems(1) by auto
    moreover have "skip_ws (json_text (JArr xs) @ z) = CHR ''['' # ?t" by (simp add: skip_ws_def json_ws_def)
    ultimately show ?thesis using d by (simp add: k skip_ws_Cons)
  qed
next
  case (JObj m)
  obtain k' where k: "k = Suc k'" using JObj.prems(2) by (cases k) (auto simp: object_text)
  have d: "\<not> max_depth \<le> d" using JObj.prems(3) by simp
  show ?case
  proof (cases "m = []")
    case True
    then show ?thesis using d by (simp add: k skip_ws_def json_ws_def)
  next
    case False
    let ?ps = "sort_key fst m"
    let ?t = "sep_by '','' (map member_text ?ps) @ CHR ''}'' # z"
    have ne: "?ps \<noteq> []" using False by (metis length_0_conv length_sort)
    have dx: "Suc d + depth (snd p) \<le> max_depth" if "p \<in> set m" for p
    proof -
      have "depth (snd p) \<le> Max (insert 0 ((\<lambda>(k, v). depth v) ` set m))"
        using that by (intro Max_depth) (auto simp: case_prod_beta)
      then show ?thesis using JObj.prems(3) by simp
    qed
    have dist: "distinct (map fst ?ps)" using JObj.prems(1) by (simp add: distinct_map)
    have ih: "parse_value j (Suc d) (json_text (snd p) @ y) = Some (read_back (snd p), y)"
      if "p \<in> set ?ps" "2 * length (json_text (snd p)) < j" "stops y" for p j y
      using that JObj.prems(1) dx by (intro JObj.IH [of p]) (auto simp: list_all_iff snds.simps)
    have len: "2 * Suc (length (sep_by '','' (map member_text ?ps))) < k'"
      using JObj.prems(2) unfolding object_text k by simp
    have "parse_members k' (Suc d) [] ?t = Some ([] @ map (\<lambda>(k, v). (k, read_back v)) ?ps, z)"
      using JObj.prems(1) dist ne by (intro parse_members_text ih len) (auto simp: list_all_iff)
    moreover obtain r where "?t = CHR 0x22 # r" using member_head [OF ne] by blast
    moreover have "skip_ws (json_text (JObj m) @ z) = CHR ''{'' # ?t"
      unfolding object_text by (simp add: skip_ws_def json_ws_def)
    ultimately show ?thesis using d by (simp add: k skip_ws_Cons json_ws_def del: json_text.simps)
  qed
next
  case (JInt n)
  obtain k' where k: "k = Suc k'" using JInt.prems(2) by (cases k) auto
  obtain c r where c: "int_str n = c # r" "c = CHR ''-'' \<or> is_digit c" using int_str_head by blast
  then have "\<not> json_ws c \<and> c \<notin> {CHR ''{'', CHR ''['', CHR 0x22, CHR ''n'', CHR ''t'', CHR ''f''}"
    by (auto simp: is_digit_def json_ws_def)
  then show ?case
    using parse_int_str [OF JInt.prems(4), of n] c by (simp add: k skip_ws_Cons has_prefix_def)
next
  case (JStr s)
  obtain k' where k: "k = Suc k'" using JStr.prems(2) by (cases k) auto
  show ?case
    using parse_json_str [OF json_str_head, of s z] by (simp add: k json_str_head skip_ws_def json_ws_def)
next
  case (JText s)
  obtain k' where k: "k = Suc k'" using JText.prems(2) by (cases k) auto
  show ?case
    using parse_json_str [OF json_str_head, of s z] by (simp add: k json_str_head skip_ws_def json_ws_def)
next
  case (JBool b)
  obtain k' where k: "k = Suc k'" using JBool.prems(2) by (cases k) auto
  show ?case by (simp add: k skip_ws_def json_ws_def has_prefix_def)
next
  case JNull
  obtain k' where k: "k = Suc k'" using JNull.prems(2) by (cases k) auto
  show ?case by (simp add: k skip_ws_def json_ws_def has_prefix_def)
qed simp_all

text \<open>The decoder reads back what the encoder writes: every tree of strings, booleans, integers, arrays
  and objects with distinct keys comes back as itself, with the keys in order, integers as their
  literals and invalid bytes of strings replaced, and nothing is left over.\<close>

theorem json_roundtrip:
  assumes "writable t" "depth t \<le> max_depth"
  shows "json_decode (json_text t) = Some (read_back t, [])"
  using parse_text [of t "2 * length (json_text t) + 2" 0 "[]"] assms by (simp add: json_decode_def)

theorem json_roundtrip_witness:
  "json_decode (json_text (JObj [(''b'', JArr [JInt (-20), JNull]), (''a'', JStr [CHR 0x0A, CHR 0xFF])]))
   = Some (JObj [(''a'', JStr (CHR 0x0A # rune_error)), (''b'', JArr [JNum ''-20'', JNull])], [])"
proof -
  have v: "utf8_valid ''a''" "utf8_valid ''b''" "utf8_fix [CHR 0x0A, CHR 0xFF] = CHR 0x0A # rune_error" "int_str (-20) = ''-20''"
    by code_simp+
  let ?t = "JObj [(''b'', JArr [JInt (-20), JNull]), (''a'', JStr [CHR 0x0A, CHR 0xFF])]"
  have "read_back ?t = JObj [(''a'', JStr (CHR 0x0A # rune_error)), (''b'', JArr [JNum ''-20'', JNull])]"
    by (simp add: v)
  then show ?thesis using json_roundtrip [of ?t] by (simp add: v max_depth_def del: json_text.simps read_back.simps)
qed

end
