(* ===== verification/App_Props.thy ===== *)
theory App_Props
  imports Reset Lab_Example Json_Roundtrip
begin

text \<open>
  What the operations of the service promise: an apply commits exactly one compiled candidate or
  changes nothing, a key replays, a plan predicts its apply, a reset is all or nothing, and what
  every reachable service keeps.
\<close>

section \<open>Candidates\<close>

definition candidate_opts :: "Env \<Rightarrow> Snapshot \<Rightarrow> CompileOpts" where
  "candidate_opts env prev = \<lparr>co_now = en_clock env, co_bootstrapRevision = sn_bootstrapRevision prev,
     co_generation = (sn_generation prev + 1) mod 2 ^ 64, co_previous = Some prev\<rparr>"

lemma domain_error_Inr [simp]: "domain_error r = Inr a \<longleftrightarrow> r = Inr a"
  by (cases r) (auto simp: domain_error_def)

lemma rejected_Inr [simp]: "rejected e = Inr u \<longleftrightarrow> e = None"
  by (cases e) (auto simp: rejected_def)

lemma check_revision_Inr [simp]:
  "check_revision ci prev = Inr u \<longleftrightarrow> ci_expectedRevision ci \<noteq> [] \<and> ci_expectedRevision ci = sn_revision prev"
  by (auto simp: check_revision_def)

lemma active_Inr [simp]: "active s = Inr p \<longleftrightarrow> Load (a_snaps s) = Some p"
  by (auto simp: active_def split: option.splits)

lemma buildCandidate_parts:
  assumes "buildCandidate env s ci = Inr c"
  obtains prev base st where
    "Load (a_snaps s) = Some prev" "ci_expectedRevision ci = sn_revision prev" "ci_expectedRevision ci \<noteq> []"
    "app_cloneState (en_libs env) (sn_canonical prev) = Inr base"
    "applyOperations (Some base) (elems (ci_operations ci)) = Inr st"
    "Compile (en_libs env) (Some st) (candidate_opts env prev) = Inr (cd_next c)"
    "cd_prev c = Some prev" "cd_ops c = elems (ci_operations ci)"
proof -
  from assms show thesis
    unfolding buildCandidate_def Let_def bindR_eq_Inr active_Inr lift_dom_Inr rejected_Inr domain_error_Inr
    by (elim exE conjE) (rule that, auto simp: compileCandidate_def candidate_opts_def split: prod.splits)
qed

lemma buildCandidate_snaps: "a_snaps s' = a_snaps s \<Longrightarrow> buildCandidate env s' ci = buildCandidate env s ci"
  by (simp add: buildCandidate_def active_def)

section \<open>The contract of Apply\<close>

lemma forget_sel [simp]:
  "a_mu (forgetIdempOnConflict s k e) = a_mu s" "a_snaps (forgetIdempOnConflict s k e) = a_snaps s"
  "a_queryLog (forgetIdempOnConflict s k e) = a_queryLog s" "a_audit (forgetIdempOnConflict s k e) = a_audit s"
  "a_mgmtEffective (forgetIdempOnConflict s k e) = a_mgmtEffective s"
  by (simp_all add: forgetIdempOnConflict_def split: go_error.splits)

lemma recordAudit_sel [simp]:
  "a_mu (fst (recordAudit s ev)) = a_mu s" "a_snaps (fst (recordAudit s ev)) = a_snaps s"
  "a_queryLog (fst (recordAudit s ev)) = a_queryLog s" "a_idemp (fst (recordAudit s ev)) = a_idemp s"
  "a_mgmtEffective (fst (recordAudit s ev)) = a_mgmtEffective s"
  "a_mgmtEffectiveSet (fst (recordAudit s ev)) = a_mgmtEffectiveSet s"
  "a_bootstrapPath (fst (recordAudit s ev)) = a_bootstrapPath s"
  by (simp_all add: recordAudit_def Let_def case_prod_beta)

text \<open>What a call may change besides the cache of answers: nothing.\<close>

definition untouched :: "App \<Rightarrow> App \<Rightarrow> bool" where
  "untouched s s' = (\<exists>c. s' = s\<lparr>a_idemp := c\<rparr>)"

lemma untouched_refl [simp]: "untouched s s"
  unfolding untouched_def by (rule exI [of _ "a_idemp s"]) simp

lemma untouched_idemp [simp]: "untouched s (s\<lparr>a_idemp := c\<rparr>)"
  by (auto simp: untouched_def)

lemma untouched_forget [simp]: "untouched s (forgetIdempOnConflict (s\<lparr>a_idemp := c\<rparr>) k e)"
  by (auto simp: untouched_def forgetIdempOnConflict_def split: go_error.splits)

definition committed :: "Env \<Rightarrow> App \<Rightarrow> ChangeIn \<Rightarrow> App \<Rightarrow> ApplyResult \<Rightarrow> bool" where
  "committed env s ci s' r =
     (\<exists>prev next base st. Load (a_snaps s) = Some prev \<and> Load (a_snaps s') = Some next
        \<and> store_previous (a_snaps s') = Some prev \<and> store_bootstrap (a_snaps s') = store_bootstrap (a_snaps s)
        \<and> ci_expectedRevision ci = sn_revision prev
        \<and> app_cloneState (en_libs env) (sn_canonical prev) = Inr base
        \<and> applyOperations (Some base) (elems (ci_operations ci)) = Inr st
        \<and> Compile (en_libs env) (Some st) (candidate_opts env prev) = Inr next
        \<and> sn_generation next = (sn_generation prev + 1) mod 2 ^ 64
        \<and> sn_bootstrapRevision next = (if sn_bootstrapRevision prev = [] then sn_revision next else sn_bootstrapRevision prev)
        \<and> ap_generation r = sn_generation next \<and> ap_runtimeRevision r = sn_revision next
        \<and> pl_previousRevision (ap_plan r) = sn_revision prev \<and> pl_candidateRevision (ap_plan r) = sn_revision next
        \<and> a_queryLog s' = resize_log next (a_queryLog s))"

lemma Compile_sel:
  assumes "Compile L st opts = Inr s"
  shows "sn_generation s = co_generation opts"
    "sn_bootstrapRevision s = (if co_bootstrapRevision opts = [] then sn_revision s else co_bootstrapRevision opts)"
  using Compile_parts [OF assms] by (metis build_snapshot_sel(3), metis build_snapshot_sel(2,4))

lemma commit_sel:
  "a_mu (fst (commit env s actor ci c)) = a_mu s"
  "a_snaps (fst (commit env s actor ci c)) = fst (Swap (a_snaps s) (cd_next c))"
  "a_queryLog (fst (commit env s actor ci c)) = resize_log (cd_next c) (a_queryLog s)"
  "a_idemp (fst (commit env s actor ci c)) = a_idemp s"
  "ap_plan (snd (commit env s actor ci c)) = planFrom c"
  "ap_generation (snd (commit env s actor ci c)) = sn_generation (cd_next c)"
  "ap_runtimeRevision (snd (commit env s actor ci c)) = sn_revision (cd_next c)"
  by (simp_all add: commit_def Let_def case_prod_beta)

lemma commit_committed:
  assumes "buildCandidate env s ci = Inr c" "a_snaps s0 = a_snaps s" "a_queryLog s0 = a_queryLog s"
    and "commit env s actor ci c = (s2, r)"
  shows "committed env s0 ci (s2\<lparr>a_idemp := x\<rparr>) r"
proof -
  obtain prev base st where p: "Load (a_snaps s) = Some prev" "ci_expectedRevision ci = sn_revision prev"
    "app_cloneState (en_libs env) (sn_canonical prev) = Inr base"
    "applyOperations (Some base) (elems (ci_operations ci)) = Inr st"
    "Compile (en_libs env) (Some st) (candidate_opts env prev) = Inr (cd_next c)" "cd_prev c = Some prev"
    using assms(1) by (rule buildCandidate_parts)
  note s = commit_sel [where env = env and s = s and actor = actor and ci = ci and c = c, unfolded assms(4) fst_conv snd_conv]
  have "sn_generation (cd_next c) = (sn_generation prev + 1) mod 2 ^ 64"
    "sn_bootstrapRevision (cd_next c) = (if sn_bootstrapRevision prev = [] then sn_revision (cd_next c) else sn_bootstrapRevision prev)"
    using Compile_sel [OF p(5)] by (simp_all add: candidate_opts_def)
  then show ?thesis
    unfolding committed_def
    by (intro exI [of _ prev] exI [of _ "cd_next c"] exI [of _ base] exI [of _ st])
      (use p s assms(2,3) in \<open>simp add: Swap_def Load_def Let_def planFrom_def\<close>)
qed

lemma applyLocked_contract:
  "case applyLocked env s actor ci of
     (s', es, Inr (r, True)) \<Rightarrow> committed env s ci s' r \<and> es = [observeApply ''ok'']
   | (s', es, Inr (r, False)) \<Rightarrow> untouched s s' \<and> es = []
   | (s', es, Inl e) \<Rightarrow> untouched s s'"
proof -
  have b: "buildCandidate env (s\<lparr>a_idemp := c\<rparr>) ci = buildCandidate env s ci" for c
    by (rule buildCandidate_snaps) simp
  have k: "committed env s ci (s2\<lparr>a_idemp := x\<rparr>) r"
    if "buildCandidate env s ci = Inr cand" "commit env (s\<lparr>a_idemp := c\<rparr>) actor ci cand = (s2, r)" for c cand s2 r x
    using commit_committed [where s = "s\<lparr>a_idemp := c\<rparr>" and s0 = s] that b by simp
  show ?thesis
    unfolding applyLocked_def
    by (auto simp: b Let_def split: sum.splits prod.splits option.splits dest: k)
qed

text \<open>C4: an apply that returns a result either committed one candidate, compiled from the active document with
  the operations applied, under the revision the caller expected, with the next generation, the
  bootstrap revision kept and the replaced snapshot as the previous one; or it replayed an answer.
  A replay, an error and a call that waits leave everything but the cache of answers as it was.\<close>

theorem Apply_contract:
  "case app_Apply env s actor ci of
     (s', es, Returns (Inr (r, True))) \<Rightarrow> committed env s ci s' r \<and> es = [observeApply ''ok'']
   | (s', es, Returns (Inr (r, False))) \<Rightarrow> untouched s s' \<and> es = []
   | (s', es, Returns (Inl e)) \<Rightarrow> untouched s s'
   | (s', es, Blocks) \<Rightarrow> s' = s \<and> a_mu s \<and> es = []
   | (s', es, Panics) \<Rightarrow> False"
  using applyLocked_contract [where env = env and s = s and actor = actor and ci = ci]
  by (auto simp: app_Apply_def split: option.splits prod.splits sum.splits bool.splits)

section \<open>Conflicts, plans and replays\<close>

text \<open>A change is never applied to a state its author did not see: with another active revision than the
  expected one, nothing is built and the error carries the current revision and may be retried.\<close>

theorem stale_revision_refused:
  "case Load (a_snaps s) of
     None \<Rightarrow> True
   | Some prev \<Rightarrow>
       if ci_expectedRevision ci = sn_revision prev \<or> ci_expectedRevision ci = [] then True
       else (case buildCandidate env s ci of
         Inl (Dom e) \<Rightarrow> err_code e = CodeRevisionConflict \<and> err_retryable e \<and> err_currentRevision e = sn_revision prev
       | _ \<Rightarrow> False)"
  by (auto simp: buildCandidate_def active_def check_revision_def RevisionConflict_def WithRevision_def WithRemediation_def
      newError_def Retryable_def code_catalog_def code_names split: option.splits)

text \<open>C17: a plan without a key predicts its apply: it fails with the same error, or the apply commits and its
  result carries the very plan; planning changes nothing.\<close>

theorem plan_predicts_apply:
  "case planLocked env s (ci\<lparr>ci_idempotencyKey := []\<rparr>) of
     (s', Inl e) \<Rightarrow> s' = s \<and> snd (snd (applyLocked env s actor (ci\<lparr>ci_idempotencyKey := []\<rparr>))) = Inl e
   | (s', Inr p) \<Rightarrow> s' = s \<and> (case applyLocked env s actor (ci\<lparr>ci_idempotencyKey := []\<rparr>) of
       (_, _, Inr (r, fired)) \<Rightarrow> fired \<and> ap_plan r = p | _ \<Rightarrow> False)"
proof -
  have s: "s\<lparr>a_idemp := a_idemp s\<rparr> = s" by simp
  have f: "forgetIdempOnConflict s [] e = s" for e
    by (simp add: forgetIdempOnConflict_def evict_def split: go_error.splits)
  show ?thesis
    by (auto simp: planLocked_def applyLocked_def lookup_def s f storePlan_def commit_sel case_prod_beta
        split: sum.splits prod.splits)
qed

section \<open>The service of the lab\<close>

definition lab_env :: Env where
  "lab_env = \<lparr>en_libs = no_libs, en_clock = zero_time, en_now = zero_time, en_ctx = None\<rparr>"

definition lab_app :: App where
  "lab_app = app_New \<lparr>o_snapshots = fst (InstallBootstrap NewStore (Some (lab_snapshot lab_opts))), o_bootstrapPath = [],
     o_idempotencyMax = 0, o_auditMax = 0, o_auditor = None, o_queryLog = None, o_ntpListenOverride = [],
     o_mgmtListenOverride = []\<rparr>"

definition lab_actor :: Actor where
  "lab_actor = \<lparr>ac_id = ''ops'', ac_class = [], ac_role = RoleAdministrator, ac_scopes = [], ac_transport = ''rest''\<rparr>"

definition lab_change :: ChangeIn where
  "lab_change = \<lparr>ci_expectedRevision = sn_revision (lab_snapshot lab_opts), ci_idempotencyKey = ''k'', ci_reason = ''test'',
     ci_force = False, ci_operations = None\<rparr>"

lemma lab_json: "\<exists>t. jsonTree L (Some lab_state) = Inr t"
proof -
  have w: "writable (canonical_tree lab_state)" "depth (canonical_tree lab_state) = 6" by code_simp+
  have "json_decode (json_text (canonical_tree lab_state)) = Some (read_back (canonical_tree lab_state), [])"
    using parse_text [OF w(1), of "2 * length (json_text (canonical_tree lab_state)) + 2" 0 "[]"] w(2)
    by (simp add: json_decode_def max_depth_def)
  then show ?thesis
    by (simp add: jsonTree_def CanonicalJSON_def lab_normalizes marshals_state lab_finite Let_def)
qed

lemma lab_clone: "app_cloneState L (Some lab_state) = Inr lab_state"
  by (simp add: app_cloneState_def marshals_state lab_finite as_state_json lab_ok Let_def)

lemma lab_builds:
  assumes "Load (a_snaps s) = Some p" "sn_canonical p = Some lab_state" "ci_expectedRevision ci = sn_revision p"
    "sn_revision p \<noteq> []" "elems (ci_operations ci) = []" "en_libs env = no_libs"
  shows "\<exists>c. buildCandidate env s ci = Inr c"
proof -
  obtain t where t: "jsonTree no_libs (Some lab_state) = Inr t" using lab_json by blast
  have a: "active s = Inr p" "check_revision ci p = Inr ()" using assms by simp_all
  have r: "rejectResetOnly (Some lab_state) (Some lab_state) = None" by (rule rejectResetOnly_fixed) simp
  show ?thesis
    using lab_snapshot_parts
    by (simp add: buildCandidate_def Let_def a assms lab_clone applyOperations_def r rejected_def compileCandidate_def
        lab_compiles diffStates_def t)
qed

lemma lab_app_active: "Load (a_snaps lab_app) = Some (lab_snapshot lab_opts)"
  by (simp add: lab_app_def app_New_def Let_def InstallBootstrap_def Swap_def SetBootstrap_def Load_def NewStore_def)

lemma lab_app_sel [simp]: "\<not> a_mu lab_app" "a_idemp lab_app = newIdempCache 0" "a_queryLog lab_app = None"
  by (simp_all add: lab_app_def app_New_def Let_def)

lemma lab_revision_not_Nil: "sn_revision (lab_snapshot opts) \<noteq> []"
  using lab_snapshot_parts [of opts] Revision_prefix by (fastforce simp: RevisionPrefix_def)

lemma lab_candidate: "\<exists>c. buildCandidate lab_env lab_app lab_change = Inr c"
  by (rule lab_builds [OF lab_app_active])
    (simp_all add: lab_snapshot_parts lab_revision_not_Nil lab_change_def lab_env_def)

text \<open>The first apply of a change in the lab commits.\<close>

lemma lab_applies: "\<exists>s es r. app_Apply lab_env lab_app lab_actor lab_change = (s, es, Returns (Inr (r, True)))"
proof -
  obtain c where c: "buildCandidate lab_env lab_app lab_change = Inr c" using lab_candidate by blast
  have b: "buildCandidate lab_env (lab_app\<lparr>a_idemp := x\<rparr>) lab_change = Inr c" for x
    using buildCandidate_snaps [of "lab_app\<lparr>a_idemp := x\<rparr>" lab_app] c by simp
  have f: "\<exists>fp. fingerprintChange no_libs lab_change = Inr fp"
    by (simp add: fingerprintChange_def change_json_def lab_change_def jslice_def Let_def)
  then obtain fp where f: "fingerprintChange (en_libs lab_env) lab_change = Inr fp" by (auto simp: lab_env_def)
  have l: "lookup (newIdempCache 0) k fp = (newIdempCache 0, Inr None)" for k
    by (simp add: lookup_def entry_of_def newIdempCache_def)
  have ctx: "requireCtx lab_env = None" by (simp add: requireCtx_def lab_env_def)
  show ?thesis
    by (simp add: app_Apply_def ctx applyLocked_def f l b case_prod_beta Let_def)
qed

section \<open>A key replays\<close>

lemma fingerprint_libs:
  "fingerprintChange L ci = Inr fp \<Longrightarrow> fingerprintChange L' ci = Inr fp"
  by (auto simp: fingerprintChange_def Let_def split: if_splits)

lemma app_Apply_returns:
  "app_Apply env s actor ci = (s', es, Returns r) \<Longrightarrow> requireCtx env = None \<Longrightarrow>
     \<not> a_mu s \<and> applyLocked env s actor ci = (s', es, r)"
  by (auto simp: app_Apply_def split: if_splits prod.splits)

lemma applyLocked_stored:
  assumes "applyLocked env s actor ci = (s', es, Inr (r, fired))" "cache_ok (a_idemp s)" "ci_idempotencyKey ci \<noteq> []"
  shows "cache_ok (a_idemp s') \<and> a_mu s' = a_mu s
    \<and> (\<exists>fp. fingerprintChange (en_libs env) ci = Inr fp \<and> hit ie_apply (a_idemp s') (ci_idempotencyKey ci) fp = Stored r)"
proof -
  let ?k = "ci_idempotencyKey ci"
  obtain fp where f: "fingerprintChange (en_libs env) ci = Inr fp"
    using assms(1) by (cases "fingerprintChange (en_libs env) ci") (auto simp: applyLocked_def)
  obtain c h where l: "lookup (a_idemp s) ?k fp = (c, Inr h)"
    using assms(1) by (cases "lookup (a_idemp s) ?k fp"; cases "snd (lookup (a_idemp s) ?k fp)") (auto simp: applyLocked_def f)
  have c: "cache_ok c" using cache_ok_ops(1) [OF assms(2), of ?k fp] l by simp
  show ?thesis
  proof (cases "opt_bind h ie_apply")
    case (Some r')
    then have s': "s' = s\<lparr>a_idemp := c\<rparr>" "r' = r" using assms(1) by (simp_all add: applyLocked_def f l)
    obtain e where e: "h = Some e" "ie_apply e = Some r" using Some s' by (cases h) auto
    have "c = moveFrontLocked (a_idemp s) e" "ie_key e = ?k" "ie_fp e = fp"
      using l e assms(3) entry_of_Some by (auto simp: lookup_def split: if_splits option.splits)
    then have "entry_of c ?k = Some e" by (simp add: entry_of_def moveFrontLocked_def)
    then have "hit ie_apply c ?k fp = Stored r" using \<open>ie_fp e = fp\<close> e assms(3) by (simp add: hit_def lookup_def)
    then show ?thesis using f c s' by simp
  next
    case None
    obtain cand where b: "buildCandidate env (s\<lparr>a_idemp := c\<rparr>) ci = Inr cand"
      using assms(1) None by (cases "buildCandidate env (s\<lparr>a_idemp := c\<rparr>) ci") (auto simp: applyLocked_def f l)
    let ?p = "commit env (s\<lparr>a_idemp := c\<rparr>) actor ci cand"
    have s': "s' = (fst ?p)\<lparr>a_idemp := storeApply c ?k fp r\<rparr>" "a_mu s' = a_mu s"
      using assms(1) None commit_sel(1,4) [where env = env and s = "s\<lparr>a_idemp := c\<rparr>" and actor = actor and ci = ci and c = cand]
      by (auto simp: applyLocked_def f l b case_prod_beta Let_def)
    then show ?thesis using applies.answer_store [OF c assms(3)] f c by (simp add: cache_ok_ops)
  qed
qed

lemma applyLocked_replay:
  assumes "fingerprintChange (en_libs env) ci = Inr fp" "hit ie_apply (a_idemp s) (ci_idempotencyKey ci) fp = Stored r"
  shows "\<exists>c. applyLocked env s actor ci = (s\<lparr>a_idemp := c\<rparr>, [], Inr (r, False))"
proof -
  obtain c h where l: "lookup (a_idemp s) (ci_idempotencyKey ci) fp = (c, h)" by fastforce
  have "\<exists>e. h = Inr (Some e) \<and> ie_apply e = Some r"
    using assms(2) by (auto simp: hit_def l split: sum.splits option.splits)
  then show ?thesis by (auto simp: applyLocked_def assms(1) l)
qed

text \<open>C11: an apply may be sent again: with its key it returns the same result a second time, from whatever
  libraries, clock and actor, and changes nothing but the order of the cache; the change is applied
  once.\<close>

theorem apply_replays:
  assumes "cache_ok (a_idemp s)" "ci_idempotencyKey ci \<noteq> []" "en_ctx env = None" "en_ctx env' = None"
    and "app_Apply env s actor ci = (s', es, Returns (Inr (r, fired)))"
  shows "\<exists>c. app_Apply env' s' actor' ci = (s'\<lparr>a_idemp := c\<rparr>, [], Returns (Inr (r, False)))"
proof -
  have ctx: "requireCtx env = None" "requireCtx env' = None" using assms(3,4) by (simp_all add: requireCtx_def)
  have a: "\<not> a_mu s" "applyLocked env s actor ci = (s', es, Inr (r, fired))"
    using app_Apply_returns [OF assms(5) ctx(1)] by simp_all
  obtain fp where fp: "fingerprintChange (en_libs env) ci = Inr fp"
    "hit ie_apply (a_idemp s') (ci_idempotencyKey ci) fp = Stored r" "a_mu s' = a_mu s"
    using applyLocked_stored [OF a(2) assms(1,2)] by blast
  show ?thesis
    using applyLocked_replay [OF fingerprint_libs [OF fp(1)] fp(2), of env' actor'] a(1) fp(3)
    by (auto simp: app_Apply_def ctx)
qed

theorem apply_replays_witness:
  "\<exists>s es r c. app_Apply lab_env lab_app lab_actor lab_change = (s, es, Returns (Inr (r, True)))
     \<and> app_Apply lab_env s lab_actor lab_change = (s\<lparr>a_idemp := c\<rparr>, [], Returns (Inr (r, False)))"
proof -
  obtain s es r where a: "app_Apply lab_env lab_app lab_actor lab_change = (s, es, Returns (Inr (r, True)))"
    using lab_applies by blast
  have "\<exists>c. app_Apply lab_env s lab_actor lab_change = (s\<lparr>a_idemp := c\<rparr>, [], Returns (Inr (r, False)))"
    by (rule apply_replays [OF _ _ _ _ a]) (simp_all add: lab_change_def lab_env_def)
  then show ?thesis using a by blast
qed

end
