(* ===== verification/App_Invariants.thy ===== *)
theory App_Invariants
  imports App_Props
begin

text \<open>
  Reset, and what every reachable service keeps: the snapshots are compiled ones, the bootstrap
  snapshot is the one drift is measured against, the cache and the logs are in order, and the
  generation moves by one with every change.
\<close>

section \<open>Reset\<close>

text \<open>The listeners stay where they are when a move fails, unless going back fails as well.\<close>

lemma move_listeners_failed:
  assumes "move_listeners hk l (oldNTP, oldMgmt) new = (l', Some e)" "li_ntp l = oldNTP" "hk_ntp_back hk oldNTP = None"
  shows "l' = l"
  using assms by (auto simp: move_listeners_def Let_def case_prod_beta split: option.splits if_splits)

text \<open>The snapshot of a reset is its own bootstrap.\<close>

lemma fresh_not_drifted:
  assumes "compile_fresh env gen st = Inr s"
  shows "sn_bootstrapRevision s = sn_revision s" "\<not> Drifted s" "sn_generation s = gen" "snapshot_ok (en_libs env) s"
proof -
  have c: "Compile (en_libs env) (Some st)
     \<lparr>co_now = en_clock env, co_bootstrapRevision = [], co_generation = gen, co_previous = None\<rparr> = Inr s"
    using assms by (simp add: compile_fresh_def)
  show "sn_bootstrapRevision s = sn_revision s" "sn_generation s = gen" using Compile_sel [OF c] by simp_all
  then show "\<not> Drifted s" by (simp add: Drifted_def)
  show "snapshot_ok (en_libs env) s" by (rule Compile_snapshot_ok [OF c])
qed

lemma loadBootstrapCandidate_fresh:
  "loadBootstrapCandidate env s gen = Some (Inr next) \<Longrightarrow> \<exists>st. compile_fresh env gen st = Inr next"
  by (auto simp: loadBootstrapCandidate_def split: if_splits stat.splits option.splits)

definition next_generation :: "Snapshot option \<Rightarrow> generation" where
  "next_generation prev = (case prev of None \<Rightarrow> 0 | Some p \<Rightarrow> (sn_generation p + 1) mod 2 ^ 64)"

text \<open>What a successful reset leaves.\<close>

definition was_reset :: "Env \<Rightarrow> App \<Rightarrow> App \<Rightarrow> ApplyResult \<Rightarrow> bool" where
  "was_reset env s s' r =
     (\<exists>next st. compile_fresh env (next_generation (Load (a_snaps s))) st = Inr next
        \<and> Load (a_snaps s') = Some next \<and> store_bootstrap (a_snaps s') = Some next
        \<and> store_previous (a_snaps s') = (case Load (a_snaps s) of None \<Rightarrow> store_previous (a_snaps s) | p \<Rightarrow> p)
        \<and> sn_bootstrapRevision next = sn_revision next \<and> \<not> Drifted next
        \<and> a_idemp s' = idemp_clear (a_idemp s)
        \<and> a_queryLog s' = resize_log next (map_option QueryLog.Reset (a_queryLog s))
        \<and> a_mgmtEffective s' = effectiveMgmt (a_mgmtOverride s) (sn_managementAddress next) \<and> a_mgmtEffectiveSet s'
        \<and> ap_runtimeRevision r = sn_revision next \<and> ap_generation r = sn_generation next)"

lemma commit_reset_sel:
  "a_snaps (fst (commit_reset env s actor reason next diff m)) = SetBootstrap (fst (Swap (a_snaps s) next)) next"
  "a_idemp (fst (commit_reset env s actor reason next diff m)) = idemp_clear (a_idemp s)"
  "a_queryLog (fst (commit_reset env s actor reason next diff m)) = resize_log next (map_option QueryLog.Reset (a_queryLog s))"
  "a_mu (fst (commit_reset env s actor reason next diff m)) = a_mu s"
  "a_mgmtEffective (fst (commit_reset env s actor reason next diff m)) = m"
  "a_mgmtEffectiveSet (fst (commit_reset env s actor reason next diff m))"
  "ap_runtimeRevision (snd (commit_reset env s actor reason next diff m)) = sn_revision next"
  "ap_generation (snd (commit_reset env s actor reason next diff m)) = sn_generation next"
  by (simp_all add: commit_reset_def Let_def case_prod_beta)

lemma commit_reset_was:
  assumes "compile_fresh env (next_generation (Load (a_snaps s))) st = Inr next"
  shows "was_reset env s (fst (commit_reset env s actor reason next diff (effectiveMgmt (a_mgmtOverride s) (sn_managementAddress next))))
    (snd (commit_reset env s actor reason next diff (effectiveMgmt (a_mgmtOverride s) (sn_managementAddress next))))"
  unfolding was_reset_def
  using assms fresh_not_drifted [OF assms]
  by (intro exI [of _ "next"] exI [of _ st])
    (simp add: commit_reset_sel Swap_def SetBootstrap_def Load_def Let_def split: option.splits)

text \<open>Nothing of a failed reset is left, unless the listener could not be put back.\<close>

definition reset_refused :: "Hooks \<Rightarrow> App \<Rightarrow> Listening \<Rightarrow> App \<Rightarrow> Listening \<Rightarrow> bool" where
  "reset_refused hk s l s' l' =
     (s' = s \<and> (l' = l \<or> li_ntp l \<noteq> fst (old_addresses s (Load (a_snaps s)))
        \<or> hk_ntp_back hk (fst (old_addresses s (Load (a_snaps s)))) \<noteq> None))"

lemma resetLocked_contract:
  assumes "resetLocked env hk s l actor reason = Some (s', l', es, r)"
  shows "case r of Inl e \<Rightarrow> reset_refused hk s l s' l' \<and> es = [] | Inr res \<Rightarrow> was_reset env s s' res"
proof -
  let ?prev = "Load (a_snaps s)"
  obtain r0 where r0: "loadBootstrapCandidate env s (next_generation ?prev) = Some r0"
    using assms by (auto simp: resetLocked_def Let_def opt_bind_eq_Some next_generation_def)
  show ?thesis
  proof (cases r0)
    case (Inl e)
    then show ?thesis
      using assms r0 by (auto simp: resetLocked_def Let_def next_generation_def reset_refused_def)
  next
    case (Inr nx)
    then obtain st where st: "compile_fresh env (next_generation ?prev) st = Inr nx"
      using r0 loadBootstrapCandidate_fresh by blast
    let ?new = "(effectiveNTP (a_ntpOverride s) (sn_ntpAddress nx), effectiveMgmt (a_mgmtOverride s) (sn_managementAddress nx))"
    obtain l1 failed where m: "move_listeners hk l (old_addresses s ?prev) ?new = (l1, failed)" by fastforce
    have stay: "l1 = l \<or> li_ntp l \<noteq> fst (old_addresses s ?prev) \<or> hk_ntp_back hk (fst (old_addresses s ?prev)) \<noteq> None"
      if "failed = Some e" for e
      using move_listeners_failed [of hk l "fst (old_addresses s ?prev)" "snd (old_addresses s ?prev)" ?new l1 e] m that by auto
    show ?thesis
      using assms r0 Inr m stay commit_reset_was [OF st, of actor reason]
      by (auto simp: resetLocked_def Let_def next_generation_def reset_refused_def case_prod_beta
          split: sum.splits option.splits prod.splits)
  qed
qed


section \<open>A panic keeps the mutex\<close>

text \<open>A file system whose only file is a document with a string for \<^verbatim>\<open>spec.ntp\<close>.\<close>

definition panic_tree :: json where
  "panic_tree = JObj [(''spec'', JObj [(''ntp'', JStr ''x'')])]"

definition panic_document :: string where
  "panic_document = json_text panic_tree"

definition panic_libs :: libs where
  "panic_libs = no_libs\<lparr>lib_stat := (\<lambda>_. StatOk), lib_read_file := (\<lambda>_. Inr panic_document)\<rparr>"

definition panic_env :: Env where
  "panic_env = lab_env\<lparr>en_libs := panic_libs\<rparr>"

lemma panic_text: "panic_document = CHR ''{'' # CHR 0x22 # ''spec'' @ CHR 0x22 # '':{'' @ CHR 0x22 # ''ntp'' @ CHR 0x22 # CHR '':''
    # CHR 0x22 # ''x'' @ CHR 0x22 # ''}}''"
  by code_simp

lemma panic_parses: "json_decode panic_document = Some (panic_tree, [])"
proof -
  have "writable panic_tree" "depth panic_tree = 2" "read_back panic_tree = panic_tree" by code_simp+
  then show ?thesis
    using parse_text [of panic_tree "2 * length panic_document + 2" 0 "[]"]
    by (simp add: panic_document_def json_decode_def max_depth_def)
qed

lemma panic_decodes: "Decode L panic_document = None"
proof -
  have t: "trim_space panic_document = panic_document" "stripBOM panic_document = panic_document"
    "utf8_valid panic_document" "looksLikeJSON panic_document"
    unfolding panic_text by code_simp+
  have n: "\<not> MaxDocumentBytes < length panic_document" by (simp add: panic_text MaxDocumentBytes_def)
  have r: "reservedFields panic_tree [] = []" by code_simp
  have "applyDecodeDefaults panic_tree = None" by (simp add: panic_tree_def applyDecodeDefaults_def ntp_is_nil_def)
  then have "decodeRaw L panic_tree = None" by (simp add: decodeRaw_def r)
  then have "decodeJSON L panic_document = None" by (simp add: decodeJSON_def panic_parses dec_more_def skip_ws_def)
  moreover have "panic_document \<noteq> []" by (simp add: panic_text)
  ultimately show ?thesis by (simp add: Decode_def Let_def t n)
qed

lemma panic_loads: "load_document panic_libs path = None"
  by (simp add: load_document_def LoadFile_def Load_state_def LoadWithWarnings_def panic_libs_def panic_decodes)

text \<open>A bootstrap file with a string for \<^verbatim>\<open>spec.ntp\<close> makes a reset panic with the mutex taken: whatever
  is planned, applied, validated or reset afterwards waits for ever.\<close>

theorem reset_panic_blocks:
  "case app_Reset panic_env hk (s\<lparr>a_bootstrapPath := ''b'', a_mu := False\<rparr>) l actor reason of
     (s', l', es, r) \<Rightarrow> r = Panics
       \<and> snd (app_Plan panic_env s' ci) = Blocks \<and> snd (snd (app_Apply panic_env s' actor ci)) = Blocks
       \<and> app_Validate panic_env s' doc ops = Blocks
       \<and> snd (snd (snd (app_Reset panic_env hk s' l' actor reason))) = Blocks"
proof -
  have "lib_stat panic_libs ''b'' = StatOk" by (simp add: panic_libs_def)
  then have "resetLocked panic_env hk (s\<lparr>a_bootstrapPath := ''b'', a_mu := False\<rparr>) l actor reason = None"
    by (simp add: resetLocked_def loadBootstrapCandidate_def panic_env_def panic_loads opt_bind_def Let_def)
  moreover have "requireCtx panic_env = None" by (simp add: requireCtx_def panic_env_def lab_env_def)
  ultimately show ?thesis
    by (simp add: app_Reset_def app_Plan_def app_Apply_def app_Validate_def)
qed

section \<open>A plan can forget an apply\<close>

text \<open>Planning a change again after it was applied loses the stored answer: the plan is refused because the
  revision moved, the refusal drops the key, and an apply that is then sent again is not answered from
  the cache.\<close>

theorem plan_forgets_apply:
  assumes "fingerprintChange (en_libs env) ci = Inr fp" "ci_idempotencyKey ci \<noteq> []"
    and "entry_of (a_idemp s) (ci_idempotencyKey ci) = Some e" "ie_fp e = fp" "ie_plan e = None" "ie_apply e = Some r"
    and "Load (a_snaps s) = Some prev" "ci_expectedRevision ci \<noteq> []" "ci_expectedRevision ci \<noteq> sn_revision prev"
  shows "hit ie_apply (a_idemp s) (ci_idempotencyKey ci) fp = Stored r
    \<and> (case planLocked env s ci of
         (s', Inl (Dom err)) \<Rightarrow> err_code err = CodeRevisionConflict \<and> hit ie_apply (a_idemp s') (ci_idempotencyKey ci) fp = Fresh
       | _ \<Rightarrow> False)"
proof -
  let ?k = "ci_idempotencyKey ci"
  have l: "lookup (a_idemp s) ?k fp = (moveFrontLocked (a_idemp s) e, Inr (Some e))"
    using assms by (simp add: lookup_def)
  have b: "\<exists>err. buildCandidate env (s\<lparr>a_idemp := c\<rparr>) ci = Inl (Dom err) \<and> err_code err = CodeRevisionConflict" for c
    using assms(7-9) by (simp add: buildCandidate_def active_def check_revision_def)
  then obtain err where b: "buildCandidate env (s\<lparr>a_idemp := moveFrontLocked (a_idemp s) e\<rparr>) ci = Inl (Dom err)"
    "err_code err = CodeRevisionConflict" by blast
  have h: "hit ie_apply (a_idemp s) ?k fp = Stored r" by (simp add: hit_def l assms(6))
  have f: "hit ie_apply (evict c ?k) ?k fp = Fresh" for c
    using assms(2) by (simp add: hit_def lookup_def evict_def entry_of_removed)
  show ?thesis
    using b f by (simp add: h planLocked_def assms(1,5) l forgetIdempOnConflict_def)
qed

definition stale_change :: ChangeIn where
  "stale_change = lab_change\<lparr>ci_expectedRevision := ''old''\<rparr>"

theorem plan_forgets_apply_witness:
  "\<exists>fp s. hit ie_apply (a_idemp s) ''k'' fp = Stored empty_result
     \<and> (case planLocked lab_env s stale_change of (s', _) \<Rightarrow> hit ie_apply (a_idemp s') ''k'' fp = Fresh)"
proof -
  have "\<exists>fp. fingerprintChange no_libs stale_change = Inr fp"
    by (simp add: fingerprintChange_def change_json_def stale_change_def lab_change_def jslice_def Let_def)
  then obtain fp where f: "fingerprintChange (en_libs lab_env) stale_change = Inr fp" by (auto simp: lab_env_def)
  let ?e = "\<lparr>ie_key = ''k'', ie_fp = fp, ie_plan = None, ie_apply = Some empty_result\<rparr>"
  let ?s = "lab_app\<lparr>a_idemp := \<lparr>ic_max = 1, ic_entries = [?e]\<rparr>\<rparr>"
  have k: "ci_idempotencyKey stale_change = ''k''" by (simp add: stale_change_def lab_change_def)
  obtain h where r: "sn_revision (lab_snapshot lab_opts) = RevisionPrefix @ h"
    using lab_snapshot_parts [of lab_opts] Revision_prefix by blast
  have "hit ie_apply (a_idemp ?s) (ci_idempotencyKey stale_change) fp = Stored empty_result
    \<and> (case planLocked lab_env ?s stale_change of
         (s', Inl (Dom err)) \<Rightarrow> err_code err = CodeRevisionConflict \<and> hit ie_apply (a_idemp s') (ci_idempotencyKey stale_change) fp = Fresh
       | _ \<Rightarrow> False)"
    by (rule plan_forgets_apply [OF f, of ?s ?e empty_result "lab_snapshot lab_opts"])
      (simp_all add: k entry_of_def lab_app_active stale_change_def lab_change_def r RevisionPrefix_def)
  then show ?thesis
    by (intro exI [of _ fp] exI [of _ ?s]) (auto simp: k split: prod.splits sum.splits go_error.splits)
qed

end
