(* ===== verification/App_Reach.thy ===== *)
theory App_Reach
  imports App_Invariants
begin

text \<open>
  The services that can be reached: from a boot, or a service built on an installed bootstrap
  snapshot, by plans, applies, resets and entries of the query log. What each of them keeps.
\<close>

definition good_snapshot :: "Snapshot \<Rightarrow> bool" where
  "good_snapshot n = (\<exists>L. snapshot_ok L n)"

text \<open>The invariant: the active and the bootstrap snapshot are compiled ones, drift is measured against the
  bootstrap snapshot, and the cache and the logs are well formed.\<close>

definition logs_ok :: "App \<Rightarrow> bool" where
  "logs_ok s = (cache_ok (a_idemp s) \<and> ring_good (fo_ring (a_audit s)) \<and> pred_option ring_ok (a_queryLog s))"

definition store_ok :: "Store \<Rightarrow> bool" where
  "store_ok st = (\<exists>a b. Load st = Some a \<and> store_bootstrap st = Some b \<and> good_snapshot a \<and> good_snapshot b
     \<and> sn_bootstrapRevision a = sn_revision b)"

definition app_ok :: "App \<Rightarrow> bool" where
  "app_ok s = (store_ok (a_snaps s) \<and> logs_ok s)"

section \<open>Steps\<close>

text \<open>What can happen to a service; an answer of the outside is any of the parameters.\<close>

inductive app_step :: "App \<Rightarrow> App \<Rightarrow> bool" where
  plan: "app_Plan env s ci = (s', r) \<Longrightarrow> app_step s s'"
| change: "app_Apply env s actor ci = (s', es, r) \<Longrightarrow> app_step s s'"
| reset: "app_Reset env hk s l actor reason = (s', l', es, r) \<Longrightarrow> app_step s s'"
| log: "a_queryLog s = Some q \<Longrightarrow> app_step s (s\<lparr>a_queryLog := Some (fst (TryInsert lk q e))\<rparr>)"

inductive app_reach :: "App \<Rightarrow> bool" where
  boot: "Boot env opts = Returns (Inr s) \<Longrightarrow> pred_option ring_ok (o_queryLog opts) \<Longrightarrow> app_reach s"
| new: "Compile L (Some st) c = Inr n \<Longrightarrow> co_bootstrapRevision c = [] \<Longrightarrow>
    o_snapshots opts = fst (InstallBootstrap snaps (Some n)) \<Longrightarrow> pred_option ring_ok (o_queryLog opts) \<Longrightarrow>
    app_reach (app_New opts)"
| step: "app_reach s \<Longrightarrow> app_step s s' \<Longrightarrow> app_reach s'"

section \<open>The logs\<close>

lemma pred_option_map_ring [simp]:
  "pred_option ring_ok (resize_log n q) \<longleftrightarrow> (if sn_queryLogSize n > 0 then True else pred_option ring_ok q)"
  by (cases q) (simp_all add: resize_log_def ring_ok_Resize)

lemma ring_good_Record: "ring_good (fo_ring f) \<Longrightarrow> ring_good (fo_ring (fst (Record f ev)))"
  by (auto simp: Record_def Let_def case_prod_beta au.good_put split: option.splits)

lemma logs_ok_recordAudit: "logs_ok s \<Longrightarrow> logs_ok (fst (recordAudit s ev))"
  by (auto simp: logs_ok_def recordAudit_def Let_def case_prod_beta ring_good_Record)

lemma logs_ok_idemp: "logs_ok s \<Longrightarrow> cache_ok c \<Longrightarrow> logs_ok (s\<lparr>a_idemp := c\<rparr>)"
  by (simp add: logs_ok_def)

lemma logs_ok_forget: "logs_ok s \<Longrightarrow> logs_ok (forgetIdempOnConflict s k e)"
  by (auto simp: forgetIdempOnConflict_def logs_ok_def cache_ok_ops split: go_error.splits)

lemma logs_ok_commit:
  assumes "logs_ok s"
  shows "logs_ok (fst (commit env s actor ci c))"
proof -
  have "logs_ok (s\<lparr>a_queryLog := resize_log (cd_next c) (a_queryLog s), a_snaps := x\<rparr>)" for x
    using assms by (simp add: logs_ok_def)
  from logs_ok_recordAudit [OF this] show ?thesis
    by (simp add: commit_def Let_def case_prod_beta)
qed

lemma logs_ok_commit_reset:
  assumes "logs_ok s"
  shows "logs_ok (fst (commit_reset env s actor reason n d m))"
proof -
  have "pred_option ring_ok (map_option QueryLog.Reset (a_queryLog s))"
    using assms by (cases "a_queryLog s") (simp_all add: logs_ok_def ring_ok_Reset)
  then have "logs_ok (s\<lparr>a_mgmtEffective := m, a_mgmtEffectiveSet := True,
      a_queryLog := resize_log n (map_option QueryLog.Reset (a_queryLog s)), a_snaps := x, a_idemp := idemp_clear (a_idemp s)\<rparr>)" for x
    using assms by (simp add: logs_ok_def cache_ok_ops)
  from logs_ok_recordAudit [OF this] show ?thesis
    by (simp add: commit_reset_def Let_def case_prod_beta)
qed

lemma lookup_cache_ok: "lookup c k fp = (c', r) \<Longrightarrow> cache_ok c \<Longrightarrow> cache_ok c'"
  by (metis cache_ok_ops(1) fst_conv)

lemma logs_ok_planLocked:
  assumes "logs_ok s"
  shows "logs_ok (fst (planLocked env s ci))"
proof (cases "fingerprintChange (en_libs env) ci")
  case (Inl e)
  then show ?thesis using assms by (simp add: planLocked_def)
next
  case (Inr fp)
  obtain c r where l: "lookup (a_idemp s) (ci_idempotencyKey ci) fp = (c, r)" by fastforce
  have "cache_ok c" using lookup_cache_ok [OF l] assms by (simp add: logs_ok_def)
  then have "logs_ok (s\<lparr>a_idemp := c\<rparr>)" "cache_ok (storePlan c k fp p)" for k p
    using assms by (simp_all add: logs_ok_idemp cache_ok_ops)
  then show ?thesis
    using assms by (auto simp: planLocked_def Inr l Let_def logs_ok_forget logs_ok_idemp split: sum.splits option.splits)
qed

lemma logs_ok_applyLocked:
  assumes "logs_ok s"
  shows "logs_ok (fst (applyLocked env s actor ci))"
proof (cases "fingerprintChange (en_libs env) ci")
  case (Inl e)
  then show ?thesis using assms by (simp add: applyLocked_def)
next
  case (Inr fp)
  obtain c r where l: "lookup (a_idemp s) (ci_idempotencyKey ci) fp = (c, r)" by fastforce
  have "cache_ok c" using lookup_cache_ok [OF l] assms by (simp add: logs_ok_def)
  then have 1: "logs_ok (s\<lparr>a_idemp := c\<rparr>)" using assms by (simp add: logs_ok_idemp)
  have 2: "logs_ok ((fst (commit env (s\<lparr>a_idemp := c\<rparr>) actor ci x))\<lparr>a_idemp :=
      storeApply (a_idemp (fst (commit env (s\<lparr>a_idemp := c\<rparr>) actor ci x))) k fp y\<rparr>)" for x k y
    using logs_ok_commit [OF 1, of env actor ci x] by (intro logs_ok_idemp) (simp_all add: logs_ok_def cache_ok_ops)
  show ?thesis
    using 1 2 by (auto simp: applyLocked_def Inr l Let_def case_prod_beta logs_ok_forget split: sum.splits option.splits)
qed

section \<open>The snapshots\<close>

lemma good_Compile: "Compile L st c = Inr n \<Longrightarrow> good_snapshot n"
  unfolding good_snapshot_def by (rule exI) (rule Compile_snapshot_ok)

lemma good_revision: "good_snapshot n \<Longrightarrow> sn_revision n \<noteq> []"
  unfolding good_snapshot_def snapshot_ok_def using Revision_prefix by (fastforce simp: RevisionPrefix_def)

lemma planLocked_snaps: "a_snaps (fst (planLocked env s ci)) = a_snaps s"
  by (auto simp: planLocked_def Let_def case_prod_beta split: sum.splits option.splits)

lemma committed_store:
  assumes "committed env s ci s' r" "store_ok (a_snaps s)"
  shows "store_ok (a_snaps s')"
proof -
  obtain a b where a: "Load (a_snaps s) = Some a" "store_bootstrap (a_snaps s) = Some b" "good_snapshot b"
    "sn_bootstrapRevision a = sn_revision b"
    using assms(2) by (auto simp: store_ok_def)
  obtain n st where n: "Load (a_snaps s') = Some n" "store_bootstrap (a_snaps s') = Some b"
    "Compile (en_libs env) (Some st) (candidate_opts env a) = Inr n"
    "sn_bootstrapRevision n = (if sn_bootstrapRevision a = [] then sn_revision n else sn_bootstrapRevision a)"
    using assms(1) a(1,2) by (auto simp: committed_def)
  then show ?thesis
    using a(3,4) good_revision [OF a(3)] good_Compile [OF n(3)] by (simp add: store_ok_def)
qed

lemma was_reset_store: "was_reset env s s' r \<Longrightarrow> store_ok (a_snaps s')"
  using fresh_not_drifted(1,4) by (fastforce simp: was_reset_def store_ok_def good_snapshot_def)

lemma installed_store:
  assumes "Compile L (Some st) c = Inr n" "co_bootstrapRevision c = []"
  shows "store_ok (fst (InstallBootstrap snaps (Some n)))"
  using assms Compile_sel(2) [OF assms(1)] good_Compile [OF assms(1)]
  by (auto simp: store_ok_def InstallBootstrap_def Swap_def SetBootstrap_def Load_def Let_def split: option.splits)

section \<open>Every step keeps the invariant\<close>

lemma app_ok_Apply:
  assumes "app_ok s" "app_Apply env s actor ci = (s', es, r)"
  shows "app_ok s'"
proof -
  obtain t es1 q where a: "applyLocked env s actor ci = (t, es1, q)" by (cases "applyLocked env s actor ci")
  have s': "s' = s \<or> s' = t"
    using assms(2) by (auto simp: app_Apply_def a split: option.splits if_splits)
  have "untouched s t \<or> (\<exists>r. committed env s ci t r)"
    using applyLocked_contract [where env = env and s = s and actor = actor and ci = ci]
    by (cases q) (auto simp: a split: bool.splits)
  then have "store_ok (a_snaps t)"
  proof
    assume "untouched s t"
    then show ?thesis using assms(1) by (auto simp: untouched_def app_ok_def)
  next
    assume "\<exists>r. committed env s ci t r"
    then show ?thesis using assms(1) committed_store by (auto simp: app_ok_def)
  qed
  moreover have "logs_ok t" using logs_ok_applyLocked [of s env actor ci] assms(1) by (simp add: app_ok_def a)
  ultimately show ?thesis using s' assms(1) by (auto simp: app_ok_def)
qed

lemma resetLocked_shape:
  assumes "resetLocked env hk s l actor reason = Some (t, l', es, q)"
  shows "t = s \<or> (\<exists>n d m. t = fst (commit_reset env s actor reason n d m))"
proof -
  let ?g = "case Load (a_snaps s) of None \<Rightarrow> 0 | Some p \<Rightarrow> (sn_generation p + 1) mod 2 ^ 64"
  obtain r0 where r0: "loadBootstrapCandidate env s ?g = Some r0"
    using assms by (auto simp: resetLocked_def Let_def opt_bind_eq_Some)
  show ?thesis
  proof (cases r0)
    case (Inl e)
    then show ?thesis using assms r0 by (auto simp: resetLocked_def Let_def)
  next
    case (Inr n)
    let ?new = "(effectiveNTP (a_ntpOverride s) (sn_ntpAddress n), effectiveMgmt (a_mgmtOverride s) (sn_managementAddress n))"
    obtain l1 failed where m: "move_listeners hk l (old_addresses s (Load (a_snaps s))) ?new = (l1, failed)" by fastforce
    show ?thesis
      using assms r0 Inr m
      by (auto simp: resetLocked_def Let_def case_prod_beta split: sum.splits option.splits prod.splits)
  qed
qed

lemma app_ok_Reset:
  assumes "app_ok s" "app_Reset env hk s l actor reason = (s', l', es, r)"
  shows "app_ok s'"
proof (cases "resetLocked env hk s l actor reason")
  case None
  then show ?thesis
    using assms by (auto simp: app_Reset_def app_ok_def logs_ok_def split: option.splits if_splits)
next
  case (Some x)
  obtain t l1 es1 q where x: "x = (t, l1, es1, q)" by (cases x)
  have "t = s \<or> (\<exists>n d m. t = fst (commit_reset env s actor reason n d m))"
    using resetLocked_shape Some x by blast
  then have 1: "logs_ok t" using assms(1) logs_ok_commit_reset by (auto simp: app_ok_def)
  have 2: "store_ok (a_snaps t)"
    using resetLocked_contract [OF Some [unfolded x]] assms(1)
    by (auto simp: app_ok_def reset_refused_def dest: was_reset_store split: sum.splits)
  have "s' = s \<or> s' = t" using assms(2) Some x by (auto simp: app_Reset_def split: option.splits if_splits)
  then show ?thesis using assms(1) 1 2 by (auto simp: app_ok_def)
qed

lemma app_ok_step:
  assumes "app_ok s" "app_step s s'"
  shows "app_ok s'"
  using assms(2,1)
proof cases
  case (plan env ci r)
  then show ?thesis
    using assms(1) logs_ok_planLocked [of s env ci]
    by (auto simp: app_Plan_def app_ok_def case_prod_beta planLocked_snaps split: option.splits if_splits)
next
  case (log q lk e)
  then show ?thesis
    using assms(1) by (auto simp: app_ok_def logs_ok_def TryInsert_def ring_ok_put split: lock.splits) (auto simp: ring_ok_def)
qed (use app_ok_Apply app_ok_Reset assms(1) in blast)+

lemma app_ok_New:
  assumes "store_ok (o_snapshots opts)" "pred_option ring_ok (o_queryLog opts)"
  shows "app_ok (app_New opts)"
  using assms by (simp add: app_ok_def logs_ok_def app_New_def Let_def NewFanout_def)

lemma app_ok_Boot:
  assumes "Boot env opts = Returns (Inr s)" "pred_option ring_ok (o_queryLog opts)"
  shows "app_ok s"
proof -
  let ?c = "\<lparr>co_now = en_clock env, co_bootstrapRevision = [], co_generation = 0, co_previous = None\<rparr>"
  obtain st where st: "load_document (en_libs env) (o_bootstrapPath opts) = Some (Inr st)"
    using assms(1) by (auto simp: Boot_def split: if_splits option.splits sum.splits)
  then obtain n where n: "Compile (en_libs env) (Some st) ?c = Inr n"
    using assms(1) by (auto simp: Boot_def split: if_splits sum.splits)
  let ?q = "case o_queryLog opts of None \<Rightarrow> Some (QueryLog.New (sn_queryLogSize n)) | q \<Rightarrow> q"
  have s: "s = app_New (opts\<lparr>o_snapshots := fst (InstallBootstrap (o_snapshots opts) (Some n)), o_queryLog := ?q\<rparr>)"
    using assms(1) st n by (auto simp: Boot_def split: if_splits)
  have "pred_option ring_ok ?q" using assms(2) by (cases "o_queryLog opts") (simp_all add: ring_ok_New)
  then show ?thesis unfolding s by (intro app_ok_New) (use installed_store [OF n] in simp_all)
qed

lemma app_reach_ok: "app_reach s \<Longrightarrow> app_ok s"
proof (induction rule: app_reach.induct)
  case (new L st c n opts snaps)
  then show ?case by (metis app_ok_New installed_store)
qed (auto intro: app_ok_Boot app_ok_step)

section \<open>Properties\<close>

lemma Revision_libs: "Revision L st = Inr r \<Longrightarrow> Revision L' st = Inr r' \<Longrightarrow> r = r'"
proof -
  assume a: "Revision L st = Inr r" "Revision L' st = Inr r'"
  have "CanonicalJSON L st = Inr b \<Longrightarrow> CanonicalJSON L' st = Inr b' \<Longrightarrow> b = b'" for b b'
    by (auto simp: CanonicalJSON_def Normalize_def cloneState_def Let_def case_prod_beta split: option.splits if_splits sum.splits)
  then show "r = r'" using a by (auto simp: Revision_def)
qed

lemma app_ok_snapshots:
  assumes "app_ok s"
  obtains a b where "Load (a_snaps s) = Some a" "store_bootstrap (a_snaps s) = Some b" "good_snapshot a" "good_snapshot b"
    "sn_bootstrapRevision a = sn_revision b" "Drifted a \<longleftrightarrow> sn_revision a \<noteq> sn_revision b"
    "sn_canonical a = sn_canonical b \<longrightarrow> \<not> Drifted a"
proof -
  obtain a b where ab: "Load (a_snaps s) = Some a" "store_bootstrap (a_snaps s) = Some b" "good_snapshot a" "good_snapshot b"
    "sn_bootstrapRevision a = sn_revision b"
    using assms by (auto simp: app_ok_def store_ok_def)
  have d: "Drifted a \<longleftrightarrow> sn_revision a \<noteq> sn_revision b"
    using good_revision [OF ab(3)] good_revision [OF ab(4)] ab(5) by (simp add: Drifted_def)
  have "sn_canonical a = sn_canonical b \<Longrightarrow> sn_revision a = sn_revision b"
    using ab(3,4) Revision_libs by (fastforce simp: good_snapshot_def snapshot_ok_def)
  with ab d show thesis by (intro that) auto
qed

text \<open>C5: every reachable service serves a compiled configuration: its active and its bootstrap snapshot
  came from the compiler, so their documents are valid and normal and each client address is matched
  by a filter; drift is reported exactly when the active revision is not that of the bootstrap
  snapshot, and never for equal documents; the cache of answers and the logs are within their bounds.\<close>

theorem reachable_service:
  assumes "app_reach s"
  shows "\<exists>a b. Load (a_snaps s) = Some a \<and> store_bootstrap (a_snaps s) = Some b
    \<and> (\<exists>L. snapshot_ok L a) \<and> (\<exists>L. snapshot_ok L b)
    \<and> (addr_valid ip \<longrightarrow> zone ip = [] \<longrightarrow> Match a ip \<noteq> None)
    \<and> Drifted a = (sn_revision a \<noteq> sn_revision b) \<and> (sn_canonical a = sn_canonical b \<longrightarrow> \<not> Drifted a)
    \<and> cache_ok (a_idemp s) \<and> ring_good (fo_ring (a_audit s)) \<and> pred_option ring_ok (a_queryLog s)"
proof -
  have ok: "app_ok s" using assms by (rule app_reach_ok)
  then obtain a b where ab: "Load (a_snaps s) = Some a" "store_bootstrap (a_snaps s) = Some b" "good_snapshot a" "good_snapshot b"
    "sn_bootstrapRevision a = sn_revision b" "Drifted a \<longleftrightarrow> sn_revision a \<noteq> sn_revision b"
    "sn_canonical a = sn_canonical b \<longrightarrow> \<not> Drifted a"
    by (rule app_ok_snapshots)
  have m: "addr_valid ip \<longrightarrow> zone ip = [] \<longrightarrow> Match a ip \<noteq> None"
    using ab(3) snapshot_ok_matches by (auto simp: good_snapshot_def)
  show ?thesis
    by (intro exI [of _ a] exI [of _ b] conjI)
      (use ab m ok in \<open>auto simp: good_snapshot_def app_ok_def logs_ok_def\<close>)
qed

lemma lab_reach: "app_reach lab_app"
  unfolding lab_app_def
  by (rule app_reach.new [OF lab_compiles, of lab_opts]) (simp_all add: lab_opts_def)

theorem reachable_service_witness:
  "\<exists>a b. Load (a_snaps lab_app) = Some a \<and> store_bootstrap (a_snaps lab_app) = Some b \<and> \<not> Drifted a"
  using reachable_service [OF lab_reach, of "V4 0"] lab_app_active by (auto simp: lab_app_def app_New_def Let_def InstallBootstrap_def Swap_def SetBootstrap_def Load_def NewStore_def)

text \<open>The snapshot changes only by going forward: a step leaves the active snapshot as it is, or installs
  one of the next generation and remembers the one it replaced.\<close>

theorem step_generation:
  assumes "app_step s s'"
  shows "Load (a_snaps s') = Load (a_snaps s)
    \<or> (\<exists>n. Load (a_snaps s') = Some n \<and> sn_generation n = next_generation (Load (a_snaps s))
        \<and> (Load (a_snaps s) \<noteq> None \<longrightarrow> store_previous (a_snaps s') = Load (a_snaps s)))"
  using assms
proof cases
  case (change env actor ci es r)
  obtain t es1 q where a: "applyLocked env s actor ci = (t, es1, q)" by (cases "applyLocked env s actor ci")
  have "s' = s \<or> s' = t" using change by (auto simp: app_Apply_def a split: option.splits if_splits)
  moreover have "untouched s t \<or> (\<exists>r. committed env s ci t r)"
    using applyLocked_contract [where env = env and s = s and actor = actor and ci = ci]
    by (cases q) (auto simp: a split: bool.splits)
  ultimately show ?thesis
    by (auto simp: untouched_def committed_def next_generation_def split: option.splits)
next
  case (reset env hk l actor reason l' es r)
  show ?thesis
  proof (cases "resetLocked env hk s l actor reason")
    case None
    then show ?thesis using reset by (auto simp: app_Reset_def split: option.splits if_splits)
  next
    case (Some x)
    obtain t l1 es1 q where x: "x = (t, l1, es1, q)" by (cases x)
    have "t = s \<or> (\<exists>r. was_reset env s t r)"
      using resetLocked_contract [OF Some [unfolded x]] by (auto simp: reset_refused_def split: sum.splits)
    moreover have "s' = s \<or> s' = t" using reset Some x by (auto simp: app_Reset_def split: option.splits if_splits)
    ultimately show ?thesis using fresh_not_drifted(3)
      by (auto simp: was_reset_def next_generation_def split: option.splits)
  qed
next
  case (plan env ci r)
  then show ?thesis
    by (auto simp: app_Plan_def case_prod_beta planLocked_snaps split: option.splits if_splits)
qed auto

section \<open>What only a reset changes\<close>

definition reset_only_parts :: "State \<Rightarrow> ListenersSpec \<times> AuthSpec \<times> bool \<times> string" where
  "reset_only_parts st = (sp_listeners (st_spec st), sp_auth (st_spec st), n_ntsEnabled (sp_ntp (st_spec st)), n_keysFile (sp_ntp (st_spec st)))"

lemma as_ntp_fixed:
  assumes "as_ntp (ntp_json n) = Some n'" "utf8_valid (n_keysFile n)"
  shows "n_ntsEnabled n' = n_ntsEnabled n \<and> n_keysFile n' = n_keysFile n"
  using assms by (clarsimp simp: as_ntp_def ntp_json_def opt_bind_eq_Some)

lemma as_auth_json: "auth_ok a \<Longrightarrow> as_auth (auth_json a) = Some a"
proof -
  assume a: "auth_ok a"
  have "dfield m ''tokens'' None (as_slice zero_token as_token) = Some (au_tokens a)"
    if "map_of m ''tokens'' = Some (jslice token_json (au_tokens a))" for m
    using that a by (intro dfield_slice) (auto simp: auth_ok_def list_all_iff)
  then show ?thesis using a by (simp add: as_auth_def auth_json_def auth_ok_def)
qed

lemma as_state_fixed:
  assumes "as_state (state_json st) = Some st'"
    and "listeners_ok (sp_listeners (st_spec st))" "auth_ok (sp_auth (st_spec st))" "utf8_valid (n_keysFile (sp_ntp (st_spec st)))"
  shows "reset_only_parts st' = reset_only_parts st"
proof -
  let ?s = "st_spec st"
  have n: "listeners_json l \<noteq> JNull" "auth_json c \<noteq> JNull" "ntp_json d \<noteq> JNull" "spec_json e \<noteq> JNull" for l c d e
    by (simp_all add: listeners_json_def auth_json_def ntp_json_def spec_json_def)
  have s: "as_spec (spec_json ?s) = Some (st_spec st')"
    using assms(1) n by (auto simp: as_state_def state_json_def as_obj_def opt_bind_eq_Some dfield_present)
  have l: "as_listeners (listeners_json (sp_listeners ?s)) = Some (sp_listeners ?s)"
    using assms(2) by (simp add: listeners_ok_def)
  have "sp_listeners (st_spec st') = sp_listeners ?s" "sp_auth (st_spec st') = sp_auth ?s"
    "as_ntp (ntp_json (sp_ntp ?s)) = Some (sp_ntp (st_spec st'))"
    using s n l as_auth_json [OF assms(3)]
    by (auto simp: as_spec_def spec_json_def as_obj_def opt_bind_eq_Some dfield_present dest!: sym [of _ "st_spec st'"])
  then show ?thesis using as_ntp_fixed assms(4) by (simp add: reset_only_parts_def)
qed

lemma reset_only_normal: "reset_only_parts a = reset_only_parts b \<Longrightarrow> reset_only_parts (normal a) = reset_only_parts (normal b)"
  by (simp add: reset_only_parts_def normal_def materializeDefaults_def materialize_ntp_def)

lemma Normalize_fixed:
  assumes "Normalize L (Some st) = Inr (n, w)"
    and "listeners_ok (sp_listeners (st_spec st))" "auth_ok (sp_auth (st_spec st))" "utf8_valid (n_keysFile (sp_ntp (st_spec st)))"
  shows "reset_only_parts n = reset_only_parts (normal st)"
proof -
  obtain st' where c: "as_state (state_json st) = Some st'" "n = normal st'"
    using assms(1) by (auto simp: Normalize_def cloneState_def Let_def normal_def case_prod_beta bindR_eq_Inr split: if_splits option.splits)
  show ?thesis using reset_only_normal [OF as_state_fixed [OF c(1) assms(2-4)]] c(2) by simp
qed

lemma committed_fixed:
  assumes "committed env s ci s' r" "store_ok (a_snaps s)"
  shows "\<exists>a b da db. Load (a_snaps s) = Some a \<and> Load (a_snaps s') = Some b \<and> sn_canonical a = Some da \<and> sn_canonical b = Some db
    \<and> reset_only_parts db = reset_only_parts da"
proof -
  obtain a b base st where c: "Load (a_snaps s) = Some a" "Load (a_snaps s') = Some b"
    "app_cloneState (en_libs env) (sn_canonical a) = Inr base"
    "applyOperations (Some base) (elems (ci_operations ci)) = Inr st"
    "Compile (en_libs env) (Some st) (candidate_opts env a) = Inr b"
    using assms(1) by (auto simp: committed_def)
  obtain da where da: "sn_canonical a = Some da" "state_ok da" "normal da = da"
    using assms(2) c(1) by (auto simp: store_ok_def good_snapshot_def snapshot_ok_def)
  have "base = da" using c(3) da as_state_json [OF da(2)] by (auto simp: app_cloneState_def Let_def split: if_splits)
  then have f: "same_fixed da st" using c(4) by (auto simp: applyOperations_def dest: apply_from_fixed)
  obtain n w where n: "Normalize (en_libs env) (Some st) = Inr (n, w)" "sn_canonical b = Some n"
    using Compile_parts [OF c(5)] by (metis build_snapshot_sel(1))
  have k: "spec_ok (st_spec da)" using da(2) by (simp add: state_ok_def)
  have "listeners_ok (sp_listeners (st_spec st))" "auth_ok (sp_auth (st_spec st))" "utf8_valid (n_keysFile (sp_ntp (st_spec st)))"
    using f k by (auto simp: same_fixed_def spec_ok_parts ntp_ok_def)
  then have "reset_only_parts n = reset_only_parts (normal st)" using Normalize_fixed n(1) by blast
  also have "\<dots> = reset_only_parts (normal da)"
    using f by (intro reset_only_normal) (simp add: same_fixed_def reset_only_parts_def)
  finally show ?thesis using c(1,2) da(1,3) n(2) by auto
qed

text \<open>C16: an apply never moves a listener and never touches the credentials: whatever its operations, the
  document of the active snapshot keeps the listen addresses, the authentication with its tokens, NTS
  and the key file.\<close>

theorem apply_keeps_reset_only:
  assumes "app_reach s" "app_Apply env s actor ci = (s', es, r)"
  shows "\<exists>a b da db. Load (a_snaps s) = Some a \<and> Load (a_snaps s') = Some b \<and> sn_canonical a = Some da \<and> sn_canonical b = Some db
    \<and> sp_listeners (st_spec db) = sp_listeners (st_spec da) \<and> sp_auth (st_spec db) = sp_auth (st_spec da)
    \<and> n_ntsEnabled (sp_ntp (st_spec db)) = n_ntsEnabled (sp_ntp (st_spec da))
    \<and> n_keysFile (sp_ntp (st_spec db)) = n_keysFile (sp_ntp (st_spec da))"
proof -
  have ok: "store_ok (a_snaps s)" using app_reach_ok [OF assms(1)] by (simp add: app_ok_def)
  then obtain a da where a: "Load (a_snaps s) = Some a" "sn_canonical a = Some da"
    by (auto simp: store_ok_def good_snapshot_def snapshot_ok_def)
  obtain t es1 q where l: "applyLocked env s actor ci = (t, es1, q)" by (cases "applyLocked env s actor ci")
  have s': "s' = s \<or> s' = t" using assms(2) by (auto simp: app_Apply_def l split: option.splits if_splits)
  have "untouched s t \<or> (\<exists>r. committed env s ci t r)"
    using applyLocked_contract [where env = env and s = s and actor = actor and ci = ci]
    by (cases q) (auto simp: l split: bool.splits)
  then consider "Load (a_snaps s') = Load (a_snaps s)" | r where "committed env s ci s' r"
    using s' by (auto simp: untouched_def)
  then show ?thesis
  proof cases
    case 1
    then show ?thesis using a by simp
  next
    case 2
    show ?thesis using committed_fixed [OF 2 ok] by (simp add: reset_only_parts_def)
  qed
qed

theorem apply_keeps_reset_only_witness:
  "\<exists>s es r a da. app_Apply lab_env lab_app lab_actor lab_change = (s, es, Returns (Inr (r, True)))
     \<and> Load (a_snaps s) = Some a \<and> sn_canonical a = Some da \<and> sp_auth (st_spec da) = sp_auth (st_spec lab_state)"
proof -
  obtain s es r where a: "app_Apply lab_env lab_app lab_actor lab_change = (s, es, Returns (Inr (r, True)))"
    using lab_applies by blast
  show ?thesis
    using apply_keeps_reset_only [OF lab_reach a] a lab_snapshot_parts [of lab_opts] by (auto simp: lab_app_active)
qed

theorem step_generation_witness:
  "\<exists>s n. app_step lab_app s \<and> Load (a_snaps s) = Some n \<and> sn_generation n \<in> {sn_generation (lab_snapshot lab_opts), (sn_generation (lab_snapshot lab_opts) + 1) mod 2 ^ 64}"
proof -
  obtain s es r where a: "app_Apply lab_env lab_app lab_actor lab_change = (s, es, Returns (Inr (r, True)))"
    using lab_applies by blast
  then have s: "app_step lab_app s" by (rule app_step.change)
  show ?thesis using step_generation [OF s] s by (auto simp: lab_app_active next_generation_def)
qed

end
