(* ===== verification/Reads_Props.thy ===== *)
theory Reads_Props
  imports Reads App_Reach
begin

text \<open>
  What the reads promise: a preview foretells the reply of the packet handler, and following the
  cursors of the query log shows every entry once and comes to an end, unless two entries carry the
  same time.
\<close>

section \<open>Preview and the data plane\<close>

text \<open>Only the wall clock of an instant is encoded.\<close>

lemma FromTime_utc: "FromTime (t_add (t_utc t) d) = FromTime (t_add t d)"
  by (simp add: FromTime_def ClampServed_def t_before_def t_add_def t_utc_def unix_sec_def t_nsec_def Let_def ntpEra0Start_def ntpEra1End_def)

lemma with_ctx_Inr [simp]: "with_ctx env r = Inr x \<longleftrightarrow> requireCtx env = None \<and> r = Inr x"
  by (auto simp: with_ctx_def split: option.splits)

lemma app_Preview_Inr:
  assumes "app_Preview env s ip = Inr pv" "parse_addr ip = Some ip0"
  obtains snap where "Load (a_snaps s) = Some snap"
    "\<not> Allowed snap (unmap ip0) \<Longrightarrow> pv_reason pv = ''allowlist''"
    "Match snap (unmap ip0) = None \<Longrightarrow> Allowed snap (unmap ip0) \<Longrightarrow> pv_reason pv = ''unmatched''"
    "\<And>f. Allowed snap (unmap ip0) \<Longrightarrow> Match snap (unmap ip0) = Some f \<Longrightarrow>
       pv_reason pv = [] \<and> pv_filter pv = sf_name f \<and> pv_servedTime pv = Some (t_utc (Served (sf_view f) (en_clock env)))
       \<and> pv_stratum pv = v_stratum (sf_view f) \<and> pv_leap pv = v_leap (sf_view f) \<and> pv_refid pv = v_refid (sf_view f)"
proof -
  from assms obtain snap where snap: "Load (a_snaps s) = Some snap"
    by (auto simp: app_Preview_def Let_def bindR_eq_Inr split: if_splits)
  show thesis
    by (rule that [OF snap]) (use assms snap in \<open>auto simp: app_Preview_def Let_def no_preview_def active_def bindR_def split: if_splits\<close>)
qed

text \<open>The part of a reply that a preview foretells.\<close>

definition foretold :: "Preview \<Rightarrow> inputs \<Rightarrow> View \<Rightarrow> Packet \<Rightarrow> bool" where
  "foretold pv i v q =
     (pv_reason pv = [] \<and> LI q = LeapLI (pv_leap pv) \<and> Stratum q = word_of_int (pv_stratum pv)
      \<and> RefID q = EncodeRefID (pv_refid pv)
      \<and> (\<exists>t. pv_servedTime pv = Some t \<and> XmtTime q = FromTime (t_add t (JitterDelta v (unix_sec (i_recv i))))))"

text \<open>C18: a preview is what the client would get: a client it reports outside the allowlist is sent nothing,
  and any reply to a client, sent at the time of the preview, is a kiss of death or has the leap
  indicator, stratum, reference and time of the preview, the time moved by the jitter of the matching
  filter.\<close>

theorem preview_foretells_reply:
  "case (parse_addr ip, app_Preview env s ip) of
     (Some ip0, Inr pv) \<Rightarrow>
       (let out = sends (snd (handle (i\<lparr>i_nowXmit := en_clock env\<rparr>) (Load (a_snaps s)) srv pkt (AddrPortAddr ip0)))
        in if pv_reason pv = ''allowlist'' then out = []
           else list_all (\<lambda>x. \<exists>p q. Parse pkt = Inr p \<and> Parse (snd x) = Inr q \<and>
             (q = KoD p KissRATE \<or> (\<exists>snap f. Load (a_snaps s) = Some snap \<and> Match snap (unmap ip0) = Some f
                \<and> pv_filter pv = sf_name f \<and> foretold pv i (sf_view f) q))) out)
   | _ \<Rightarrow> True"
proof (cases "parse_addr ip")
  case (Some ip0)
  show ?thesis
  proof (cases "app_Preview env s ip")
    case (Inr pv)
    let ?i = "i\<lparr>i_nowXmit := en_clock env\<rparr>"
    let ?out = "sends (snd (handle ?i (Load (a_snaps s)) srv pkt (AddrPortAddr ip0)))"
    obtain snap where snap: "Load (a_snaps s) = Some snap"
      "\<not> Allowed snap (unmap ip0) \<Longrightarrow> pv_reason pv = ''allowlist''"
      "Match snap (unmap ip0) = None \<Longrightarrow> Allowed snap (unmap ip0) \<Longrightarrow> pv_reason pv = ''unmatched''"
      "\<And>f. Allowed snap (unmap ip0) \<Longrightarrow> Match snap (unmap ip0) = Some f \<Longrightarrow>
         pv_reason pv = [] \<and> pv_filter pv = sf_name f \<and> pv_servedTime pv = Some (t_utc (Served (sf_view f) (en_clock env)))
         \<and> pv_stratum pv = v_stratum (sf_view f) \<and> pv_leap pv = v_leap (sf_view f) \<and> pv_refid pv = v_refid (sf_view f)"
      using app_Preview_Inr [OF Inr Some] by metis
    show ?thesis
    proof (cases ?out)
      case Nil
      then show ?thesis by (simp add: Some Inr Let_def)
    next
      case (Cons x xs)
      then obtain p q where h: "xs = []" "Parse pkt = Inr p" "Parse (snd x) = Inr q" "answerable snap (unmap ip0) p"
        "is_reply ?i snap (unmap ip0) p q"
        by (rule handle_reply) (use snap(1) in \<open>auto simp: peerFromAddr_def\<close>)
      have al: "Allowed snap (unmap ip0)" using h(4) by (simp add: answerable_def)
      then have na: "pv_reason pv \<noteq> ''allowlist''" using snap(3,4) by (cases "Match snap (unmap ip0)") auto
      have "q = KoD p KissRATE \<or> (\<exists>f. Match snap (unmap ip0) = Some f \<and> pv_filter pv = sf_name f \<and> foretold pv i (sf_view f) q)"
        using h(5) snap(4) [OF al] by (auto simp: is_reply_def foretold_def reply_packet_def Let_def FromTime_utc)
      then show ?thesis using Cons h na snap(1) by (simp add: Some Inr Let_def)
    qed
  qed (simp add: Some)
qed simp

section \<open>Following the cursors\<close>

text \<open>A client that asks for page after page until a page has no cursor, for at most \<open>n\<close> pages.\<close>

fun pages :: "nat \<Rightarrow> int \<Rightarrow> string \<Rightarrow> QueryLog.Entry list \<Rightarrow> QueryLog.Entry list list option" where
  "pages 0 limit c es = None"
| "pages (Suc n) limit c es =
     (case page limit c es of (shown, nx) \<Rightarrow> if nx = [] then Some [shown] else map_option ((#) shown) (pages n limit nx es))"

lemma stamp_not_Nil [simp]: "stamp e \<noteq> []"
  by (simp add: stamp_def rfc3339nano_def date_text_def)

lemma page_limit_pos [simp]: "0 < page_limit n"
  by (simp add: page_limit_def)

lemma after_cursor_split:
  "stamp e \<notin> stamp ` set xs \<Longrightarrow> after_cursor (stamp e) (xs @ e # ys) = Some ys"
  by (induction xs) auto

text \<open>With distinct times a cursor is the position after its entry.\<close>

lemma page_from:
  assumes "distinct (map stamp (xs @ ys))" "from_cursor c (xs @ ys) = ys" "length ys \<le> page_limit limit"
  shows "page limit c (xs @ ys) = (ys, [])"
  using assms by (simp add: page_def)

lemma page_next:
  assumes "distinct (map stamp (xs @ ys))" "from_cursor c (xs @ ys) = ys" "page_limit limit < length ys"
  defines "k \<equiv> page_limit limit"
  shows "\<exists>c'. page limit c (xs @ ys) = (take k ys, c') \<and> c' \<noteq> [] \<and> from_cursor c' (xs @ ys) = drop k ys"
proof -
  let ?e = "List.last (take k ys)"
  have k: "0 < k" "k < length ys" using assms(3) by (simp_all add: k_def)
  have t: "take k ys = butlast (take k ys) @ [?e]" using k by (subst append_butlast_last_id) auto
  then have "xs @ ys = (xs @ butlast (take k ys)) @ ?e # drop k ys"
    by (metis append.assoc append_Cons append_Nil append_take_drop_id)
  moreover have "stamp ?e \<notin> stamp ` set (xs @ butlast (take k ys))"
    using assms(1) calculation by (metis (no_types, lifting) distinct_append map_append list.simps(9) disjoint_iff set_map list.set_intros(1))
  ultimately have "after_cursor (stamp ?e) (xs @ ys) = Some (drop k ys)"
    by (metis after_cursor_split)
  then show ?thesis
    using assms(2) k by (intro exI [of _ "stamp ?e"]) (auto simp: page_def Let_def from_cursor_def k_def [symmetric])
qed

lemma pages_complete:
  assumes "distinct (map stamp (xs @ ys))" "from_cursor c (xs @ ys) = ys" "length ys < n"
  shows "\<exists>ps. pages n limit c (xs @ ys) = Some ps \<and> concat ps = ys \<and> list_all (\<lambda>p. length p \<le> page_limit limit) ps"
  using assms
proof (induction n arbitrary: xs ys c)
  case (Suc n)
  show ?case
  proof (cases "length ys \<le> page_limit limit")
    case True
    then show ?thesis using page_from [OF Suc.prems(1,2)] by simp
  next
    case False
    let ?k = "page_limit limit"
    obtain c' where c': "page limit c (xs @ ys) = (take ?k ys, c')" "c' \<noteq> []" "from_cursor c' (xs @ ys) = drop ?k ys"
      using page_next [OF Suc.prems(1,2)] False by (meson not_le)
    have e: "(xs @ take ?k ys) @ drop ?k ys = xs @ ys" by simp
    have "length (drop ?k ys) < n" using False Suc.prems(3) page_limit_pos [of limit] unfolding length_drop by linarith
    then obtain ps where "pages n limit c' (xs @ ys) = Some ps" "concat ps = drop ?k ys" "list_all (\<lambda>p. length p \<le> ?k) ps"
      using Suc.IH [of "xs @ take ?k ys" "drop ?k ys" c'] Suc.prems(1) c'(3) unfolding e by blast
    then show ?thesis using c'(1,2) by simp
  qed
qed simp


definition lab_log :: QueryLog.Ring where
  "lab_log = foldl (\<lambda>r e. fst (TryInsert Acquired r e)) (QueryLog.New 4)
     (map (\<lambda>t. zero_entry\<lparr>e_whenHost := t_add zero_time t\<rparr>) [0, 1, 2])"

lemma lab_log_stamps: "map stamp (QueryLog.List lab_log) = [''0001-01-01T00:00:00.000000002Z'', ''0001-01-01T00:00:00.000000001Z'', ''0001-01-01T00:00:00Z'']"
  by code_simp


text \<open>Two entries with the same time catch a client that reads one entry at a time: after the second of
  them every page is that entry again and carries the same cursor, whatever follows, so following the
  cursors never ends.\<close>

theorem queries_stuck:
  "pages n 1 [] (a # b\<lparr>e_whenHost := e_whenHost a\<rparr> # c # es) = None"
proof -
  let ?b = "b\<lparr>e_whenHost := e_whenHost a\<rparr>"
  have s: "stamp ?b = stamp a" by (simp add: stamp_def)
  have 2: "pages n 1 (stamp a) (a # ?b # c # es) = None" for n
    by (induction n) (simp_all add: page_def from_cursor_def page_limit_def Let_def s)
  show ?thesis
    by (cases n) (simp_all add: page_def from_cursor_def page_limit_def Let_def s 2)
qed

end
