(* ===== verification/Metrics.thy ===== *)
theory Metrics
  imports Json
begin

text \<open>
  The package \<^verbatim>\<open>internal/observability\<close>: the metric catalog (catalog.go), the policy on labels
  (labels.go), the registry with its text format (registry.go), the queue (queue.go) and what the
  logger lets through (logger.go). A label set is an association list; its order stands for the
  order in which Go's range visits the map.
\<close>

type_synonym labels = "(string \<times> string) list"

section \<open>catalog.go\<close>

datatype Kind = KindCounter | KindGauge | KindHistogram

definition kind_text :: "Kind \<Rightarrow> string" where
  "kind_text k = (case k of KindCounter \<Rightarrow> ''counter'' | KindGauge \<Rightarrow> ''gauge'' | KindHistogram \<Rightarrow> ''histogram'')"

definition MetricPacketsTotal :: string where "MetricPacketsTotal = ''labntp_packets_total''"
definition MetricFilterHitsTotal :: string where "MetricFilterHitsTotal = ''labntp_filter_hits_total''"
definition MetricQuerylogDroppedTotal :: string where "MetricQuerylogDroppedTotal = ''labntp_querylog_dropped_total''"
definition MetricApplyTotal :: string where "MetricApplyTotal = ''labntp_apply_total''"
definition MetricHTTPRequestsTotal :: string where "MetricHTTPRequestsTotal = ''labntp_http_requests_total''"
definition MetricMCPCallsTotal :: string where "MetricMCPCallsTotal = ''labntp_mcp_calls_total''"
definition MetricAuthFailuresTotal :: string where "MetricAuthFailuresTotal = ''labntp_auth_failures_total''"
definition MetricUDPInflight :: string where "MetricUDPInflight = ''labntp_udp_inflight''"
definition MetricTelemetryDropped :: string where "MetricTelemetryDropped = ''labntp_telemetry_dropped_total''"

definition AllowedLabels :: "string list" where
  "AllowedLabels = [''capability'', ''code_class'', ''component'', ''decision'', ''event'', ''filter'', ''reason'',
     ''result'', ''tool'', ''version'']"

definition ForbiddenLabels :: "string list" where
  "ForbiddenLabels = [''actor'', ''actor_id'', ''address'', ''authorization'', ''body'', ''client'', ''client_ip'',
     ''cookie'', ''data'', ''detail'', ''err'', ''error'', ''error_text'', ''from'', ''host'', ''idempotency'',
     ''idempotency_key'', ''message'', ''password'', ''peer'', ''raw'', ''remote_addr'', ''set_cookie'',
     ''source_ip'', ''src'', ''src_ip'', ''subject'', ''to'']"

record MetricDef =
  md_name :: string
  md_kind :: Kind
  md_help :: string
  md_labels :: "string list"

definition metric :: "string \<Rightarrow> Kind \<Rightarrow> string \<Rightarrow> string list \<Rightarrow> MetricDef" where
  "metric name kind help ls = \<lparr>md_name = name, md_kind = kind, md_help = help, md_labels = ls\<rparr>"

definition Metrics :: "MetricDef list" where
  "Metrics = map (\<lambda>d. d\<lparr>md_labels := sort (md_labels d)\<rparr>) (sort_key md_name
     [metric MetricPacketsTotal KindCounter ''NTP packets by version and decision.'' [''version'', ''decision''],
      metric MetricFilterHitsTotal KindCounter ''Packets answered by first-match filter name (cardinality capped).'' [''filter''],
      metric MetricQuerylogDroppedTotal KindCounter ''Query-log samples dropped because the ring lock was busy.'' [],
      metric MetricApplyTotal KindCounter ''Plan/apply/reset commits.'' [''result''],
      metric MetricHTTPRequestsTotal KindCounter ''Management HTTP requests.'' [''code_class'', ''capability''],
      metric MetricMCPCallsTotal KindCounter ''MCP tool invocations.'' [''capability''],
      metric MetricAuthFailuresTotal KindCounter ''Management authentication failures.'' [],
      metric MetricUDPInflight KindGauge ''In-flight NTP packet handlers.'' [],
      metric MetricTelemetryDropped KindCounter ''Telemetry samples dropped under policy or cardinality.'' [''reason'']])"

text \<open>The frozen event catalog and the document of both.\<close>

definition EventFields :: "string list" where
  "EventFields = [''timestamp'', ''level'', ''event'', ''component'', ''request_id'', ''capability'', ''result'', ''error_code'',
     ''duration_ms'']"

record EventDef =
  ed_name :: string
  ed_fields :: "string list"

definition event_names :: "string list" where
  "event_names = [''ntp.query'', ''state.apply'', ''state.reset'', ''auth.failure'', ''http.request'', ''mcp.call'']"

definition Events :: "EventDef list" where
  "Events = sort_key ed_name (map (\<lambda>n. \<lparr>ed_name = n, ed_fields = EventFields\<rparr>) event_names)"

record Document =
  dc_ID :: string
  dc_version :: string
  dc_allowed :: "string list"
  dc_forbidden :: "string list"
  dc_metrics :: "MetricDef list"
  dc_events :: "EventDef list"

definition CatalogID :: string where "CatalogID = ''labntp.dev/metrics/v1alpha1''"

definition Catalog :: Document where
  "Catalog = \<lparr>dc_ID = CatalogID, dc_version = ''v1alpha1'', dc_allowed = AllowedLabels,
     dc_forbidden = ForbiddenLabels, dc_metrics = Metrics, dc_events = Events\<rparr>"

definition LookupMetric :: "string \<Rightarrow> MetricDef option" where
  "LookupMetric name = find (\<lambda>d. md_name d = name) Metrics"

section \<open>labels.go\<close>

definition indexStrings :: "string list \<Rightarrow> string set" where
  "indexStrings xs = set (map to_lower xs)"

definition ForbiddenLabel :: "string \<Rightarrow> bool" where
  "ForbiddenLabel key =
     (let k = to_lower (trim_space key) in
      if k = [] then False
      else k \<in> indexStrings ForbiddenLabels
        \<or> str_contains k ''client_ip'' \<or> str_contains k ''remote_addr''
        \<or> str_contains k ''password'' \<or> str_contains k ''cookie'')"

definition AllowedLabel :: "string \<Rightarrow> bool" where
  "AllowedLabel key = (to_lower (trim_space key) \<in> indexStrings AllowedLabels)"

text \<open>The reason a sample is rejected for, or None.\<close>

fun checkLabelsDef :: "MetricDef \<Rightarrow> labels \<Rightarrow> string option" where
  "checkLabelsDef def [] = None"
| "checkLabelsDef def ((k, v) # ls) =
     (if ForbiddenLabel k then Some ''forbidden_label''
      else if k \<notin> set (md_labels def) then Some ''unknown_label''
      else checkLabelsDef def ls)"

definition PacketDecision :: "string \<Rightarrow> string" where
  "PacketDecision d =
     (let x = to_lower (trim_space d) in
      if x \<in> {''serve'', ''drop'', ''kod'', ''ignore'', ''allowlist'', ''admission'', ''unmatched'', ''short'', ''oversize'',
              ''version'', ''mode'', ''zero_xmit''} then x else ''drop'')"

definition AuthFailureReason :: "string \<Rightarrow> string" where
  "AuthFailureReason reason =
     (let x = to_lower (trim_space reason) in if x \<in> {''missing'', ''invalid'', ''denied''} then x else ''invalid'')"

definition CodeClass :: "int \<Rightarrow> string" where
  "CodeClass status =
     (if status \<ge> 500 then ''5xx'' else if status \<ge> 400 then ''4xx'' else if status \<ge> 300 then ''3xx''
      else if status \<ge> 200 then ''2xx'' else ''1xx'')"

section \<open>registry.go: series\<close>

definition MaxSeriesPerMetric :: nat where "MaxSeriesPerMetric = 256"

definition defaultBuckets :: "float64 list" where
  "defaultBuckets = map (\<lambda>q. Fin (rnd q))
     [1 / 1000, 5 / 1000, 1 / 100, 25 / 1000, 5 / 100, 1 / 10, 25 / 100, 5 / 10, 1, 25 / 10, 5, 10]"

type_synonym seriesKey = "string \<times> string"

record hist =
  hi_bounds :: "float64 list"
  hi_counts :: "nat list"
  hi_inf :: nat
  hi_sum :: float64
  hi_n :: nat

record Registry =
  rg_defs :: "MetricDef list"
  rg_counters :: "(seriesKey \<times> float64) list"
  rg_gauges :: "(seriesKey \<times> float64) list"
  rg_hists :: "(seriesKey \<times> hist) list"
  rg_seriesN :: "(string \<times> nat) list"
  rg_dropped :: nat

definition NewRegistry :: Registry where
  "NewRegistry = \<lparr>rg_defs = Metrics, rg_counters = [], rg_gauges = [], rg_hists = [], rg_seriesN = [], rg_dropped = 0\<rparr>"

definition find_def :: "Registry \<Rightarrow> string \<Rightarrow> MetricDef option" where
  "find_def r name = find (\<lambda>d. md_name d = name) (rg_defs r)"

definition filterLabels :: "MetricDef \<Rightarrow> labels \<Rightarrow> labels" where
  "filterLabels def ls = map (\<lambda>k. (k, case map_of ls k of Some v \<Rightarrow> v | None \<Rightarrow> [])) (md_labels def)"

definition label_value :: "labels \<Rightarrow> string \<Rightarrow> string" where
  "label_value ls k = (case map_of ls k of Some v \<Rightarrow> v | None \<Rightarrow> [])"

fun encodeLabels :: "string list \<Rightarrow> labels \<Rightarrow> string" where
  "encodeLabels [] ls = []"
| "encodeLabels [k] ls = k @ [CHR 0x00] @ label_value ls k"
| "encodeLabels (k # k' # ks) ls = k @ [CHR 0x00] @ label_value ls k @ [CHR 0x01] @ encodeLabels (k' # ks) ls"

definition series_count :: "Registry \<Rightarrow> string \<Rightarrow> nat" where
  "series_count r name = (case map_of (rg_seriesN r) name of Some n \<Rightarrow> n | None \<Rightarrow> 0)"

definition count_series :: "Registry \<Rightarrow> string \<Rightarrow> Registry" where
  "count_series r name = r\<lparr>rg_seriesN := put_key name (series_count r name + 1) (rg_seriesN r)\<rparr>"

definition has_series :: "Registry \<Rightarrow> Kind \<Rightarrow> seriesKey \<Rightarrow> bool" where
  "has_series r kind key =
     (case kind of
        KindCounter \<Rightarrow> map_of (rg_counters r) key \<noteq> None
      | KindGauge \<Rightarrow> map_of (rg_gauges r) key \<noteq> None
      | KindHistogram \<Rightarrow> map_of (rg_hists r) key \<noteq> None)"

definition ensureSeries :: "Registry \<Rightarrow> string \<Rightarrow> seriesKey \<Rightarrow> Kind \<Rightarrow> Registry option" where
  "ensureSeries r name key kind =
     (if has_series r kind key then Some r
      else if MaxSeriesPerMetric \<le> series_count r name then None
      else Some (count_series r name))"

definition value_or_zero :: "(seriesKey \<times> float64) list \<Rightarrow> seriesKey \<Rightarrow> float64" where
  "value_or_zero m key = (case map_of m key of Some v \<Rightarrow> v | None \<Rightarrow> Fin 0)"

definition dropLocked :: "Registry \<Rightarrow> string \<Rightarrow> Registry" where
  "dropLocked r0 reason =
     (let r = r0\<lparr>rg_dropped := rg_dropped r0 + 1\<rparr> in
      case find_def r MetricTelemetryDropped of
        None \<Rightarrow> r
      | Some def \<Rightarrow>
          (let key = (MetricTelemetryDropped, encodeLabels (md_labels def) [(''reason'', reason)]);
               bump = (\<lambda>s. s\<lparr>rg_counters := put_key key (fadd (value_or_zero (rg_counters s) key) (Fin 1)) (rg_counters s)\<rparr>)
           in if map_of (rg_counters r) key = None then
                (if MaxSeriesPerMetric \<le> series_count r MetricTelemetryDropped then r
                 else bump (count_series r MetricTelemetryDropped))
              else bump r))"

definition reg_drop :: "Registry \<Rightarrow> string \<Rightarrow> Registry" where
  "reg_drop r reason = dropLocked r (if reason = [] then ''invalid'' else reason)"

section \<open>registry.go: histograms\<close>

definition newHist :: hist where
  "newHist = \<lparr>hi_bounds = defaultBuckets, hi_counts = replicate (length defaultBuckets) 0, hi_inf = 0, hi_sum = Fin 0, hi_n = 0\<rparr>"

fun bucket_of :: "float64 \<Rightarrow> float64 list \<Rightarrow> nat option" where
  "bucket_of v [] = None"
| "bucket_of v (b # bs) = (if fle v b then Some 0 else map_option Suc (bucket_of v bs))"

definition hist_add :: "hist \<Rightarrow> float64 \<Rightarrow> hist" where
  "hist_add h v =
     (let h1 = h\<lparr>hi_n := (hi_n h + 1) mod 2 ^ 64, hi_sum := fadd (hi_sum h) v\<rparr> in
      case bucket_of v (hi_bounds h) of
        Some i \<Rightarrow> h1\<lparr>hi_counts := (hi_counts h)[i := (hi_counts h ! i + 1) mod 2 ^ 64]\<rparr>
      | None \<Rightarrow> h1\<lparr>hi_inf := (hi_inf h + 1) mod 2 ^ 64\<rparr>)"

record HistBucket =
  hb_le :: float64
  hb_count :: nat
  hb_inf :: bool

fun cumulate :: "nat \<Rightarrow> (float64 \<times> nat) list \<Rightarrow> nat \<Rightarrow> HistBucket list" where
  "cumulate cum [] over = [\<lparr>hb_le = Fin 0, hb_count = (cum + over) mod 2 ^ 64, hb_inf = True\<rparr>]"
| "cumulate cum ((b, c) # bs) over =
     \<lparr>hb_le = b, hb_count = (cum + c) mod 2 ^ 64, hb_inf = False\<rparr> # cumulate ((cum + c) mod 2 ^ 64) bs over"

definition hist_snapshot :: "hist \<Rightarrow> HistBucket list" where
  "hist_snapshot h = cumulate 0 (zip (hi_bounds h) (hi_counts h)) (hi_inf h)"

section \<open>registry.go: recording\<close>

definition record_value :: "Registry \<Rightarrow> Kind \<Rightarrow> seriesKey \<Rightarrow> float64 \<Rightarrow> bool \<Rightarrow> Registry" where
  "record_value r kind key v set_it =
     (case kind of
        KindCounter \<Rightarrow> r\<lparr>rg_counters := put_key key (fadd (value_or_zero (rg_counters r) key) v) (rg_counters r)\<rparr>
      | KindGauge \<Rightarrow> r\<lparr>rg_gauges := put_key key (if set_it then v else fadd (value_or_zero (rg_gauges r) key) v) (rg_gauges r)\<rparr>
      | KindHistogram \<Rightarrow>
          (let h = (case map_of (rg_hists r) key of Some h \<Rightarrow> h | None \<Rightarrow> newHist)
           in r\<lparr>rg_hists := put_key key (hist_add h v) (rg_hists r)\<rparr>))"

definition reg_observe :: "Registry \<Rightarrow> string \<Rightarrow> Kind \<Rightarrow> labels \<Rightarrow> float64 \<Rightarrow> bool \<Rightarrow> Registry" where
  "reg_observe r name want ls v set_it =
     (case find_def r name of
        None \<Rightarrow> reg_drop r ''unknown_metric''
      | Some def \<Rightarrow>
          if md_kind def \<noteq> want then reg_drop r ''unknown_metric''
          else case checkLabelsDef def ls of
            Some reason \<Rightarrow> reg_drop r reason
          | None \<Rightarrow>
              (let key = (name, encodeLabels (md_labels def) (filterLabels def ls)) in
               case ensureSeries r name key (md_kind def) of
                 None \<Rightarrow> dropLocked r ''cardinality''
               | Some r1 \<Rightarrow> record_value r1 (md_kind def) key v set_it))"

definition reg_Inc :: "Registry \<Rightarrow> string \<Rightarrow> labels \<Rightarrow> float64 \<Rightarrow> Registry" where
  "reg_Inc r name ls n = (if feq n (Fin 0) then r else reg_observe r name KindCounter ls n False)"

definition reg_Set :: "Registry \<Rightarrow> string \<Rightarrow> labels \<Rightarrow> float64 \<Rightarrow> Registry" where
  "reg_Set r name ls v = reg_observe r name KindGauge ls v True"

definition reg_Observe :: "Registry \<Rightarrow> string \<Rightarrow> labels \<Rightarrow> float64 \<Rightarrow> Registry" where
  "reg_Observe r name ls v = reg_observe r name KindHistogram ls v False"

definition reg_Get :: "Registry \<Rightarrow> string \<Rightarrow> labels \<Rightarrow> float64 option" where
  "reg_Get r name ls =
     (case find_def r name of
        None \<Rightarrow> None
      | Some def \<Rightarrow>
          (let key = (name, encodeLabels (md_labels def) (filterLabels def ls)) in
           case md_kind def of
             KindCounter \<Rightarrow> map_of (rg_counters r) key
           | KindGauge \<Rightarrow> map_of (rg_gauges r) key
           | KindHistogram \<Rightarrow> map_option (\<lambda>h. f_of_int (int (hi_n h))) (map_of (rg_hists r) key)))"

section \<open>registry.go: the scrape\<close>

record Sample =
  sm_name :: string
  sm_kind :: Kind
  sm_labels :: labels
  sm_value :: float64
  sm_buckets :: "HistBucket list"
  sm_sum :: float64
  sm_count :: nat

definition decodeLabels :: "string \<Rightarrow> labels" where
  "decodeLabels enc =
     (if enc = [] then []
      else fold (\<lambda>part out. case cut_at CHR 0x00 part of Some (k, v) \<Rightarrow> put_key k v out | None \<Rightarrow> out) (split_on CHR 0x01 enc) [])"

definition scrapeLabels :: "string \<Rightarrow> string \<Rightarrow> labels" where
  "scrapeLabels name enc =
     (let raw = decodeLabels enc in
      if raw = [] then raw
      else case LookupMetric name of
        None \<Rightarrow> []
      | Some def \<Rightarrow>
          if checkLabelsDef def raw = None then raw
          else fold (\<lambda>k out. case map_of raw k of Some v \<Rightarrow> put_key k v out | None \<Rightarrow> out)
                 (filter (\<lambda>k. \<not> ForbiddenLabel k) (md_labels def)) [])"

definition sortedKeys :: "labels \<Rightarrow> string list" where
  "sortedKeys ls = sort (map fst ls)"

definition sample :: "seriesKey \<Rightarrow> Kind \<Rightarrow> Sample" where
  "sample key kind = \<lparr>sm_name = fst key, sm_kind = kind, sm_labels = scrapeLabels (fst key) (snd key), sm_value = Fin 0,
     sm_buckets = [], sm_sum = Fin 0, sm_count = 0\<rparr>"

definition sample_key :: "Sample \<Rightarrow> string \<times> string" where
  "sample_key s = (sm_name s, encodeLabels (sortedKeys (sm_labels s)) (sm_labels s))"

definition reg_Snapshot :: "Registry \<Rightarrow> Sample list" where
  "reg_Snapshot r =
     sort_key sm_name (sort_key (\<lambda>s. snd (sample_key s))
       (map (\<lambda>(key, v). (sample key KindCounter)\<lparr>sm_value := v\<rparr>) (rg_counters r)
        @ map (\<lambda>(key, v). (sample key KindGauge)\<lparr>sm_value := v\<rparr>) (rg_gauges r)
        @ map (\<lambda>(key, h). (sample key KindHistogram)\<lparr>sm_buckets := hist_snapshot h, sm_sum := hi_sum h, sm_count := hi_n h\<rparr>)
            (rg_hists r)))"

definition trimFloat :: "float64 \<Rightarrow> string" where
  "trimFloat v =
     (case v of
        NaN \<Rightarrow> ''NaN'' | PInf \<Rightarrow> ''+Inf'' | NInf \<Rightarrow> ''-Inf''
      | Fin q \<Rightarrow>
          if q = 0 then ''0''
          else let (m, e) = shortest \<bar>q\<bar>; t = dec_str m
               in (if q < 0 then ''-'' else []) @ plain_text (strip_zeros t) (int (length t) + e))"

definition escape_char :: "char \<Rightarrow> string" where
  "escape_char c =
     (if c = CHR 0x5C then [CHR 0x5C, CHR 0x5C]
      else if c = CHR 0x22 then [CHR 0x5C, CHR 0x22]
      else if c = CHR 0x0A then [CHR 0x5C, CHR ''n''] else [c])"

definition escapeLabel :: "string \<Rightarrow> string" where
  "escapeLabel s = concat (map escape_char s)"

fun join_with :: "string \<Rightarrow> string list \<Rightarrow> string" where
  "join_with sep [] = []"
| "join_with sep [x] = x"
| "join_with sep (x # y # ys) = x @ sep @ join_with sep (y # ys)"

definition promLabels :: "labels \<Rightarrow> string" where
  "promLabels ls =
     (if ls = [] then []
      else ''{'' @ join_with '','' (map (\<lambda>k. k @ ''='' @ [CHR 0x22] @ escapeLabel (label_value ls k) @ [CHR 0x22]) (sortedKeys ls)) @ ''}'')"

definition mergeLe :: "labels \<Rightarrow> string \<Rightarrow> labels" where
  "mergeLe ls le = put_key ''le'' le ls"

definition sample_text :: "Sample \<Rightarrow> string" where
  "sample_text s =
     (case sm_kind s of
        KindHistogram \<Rightarrow>
          concat (map (\<lambda>b. sm_name s @ ''_bucket'' @ promLabels (mergeLe (sm_labels s) (if hb_inf b then ''+Inf'' else trimFloat (hb_le b)))
              @ '' '' @ nat_str (hb_count b) @ [CHR 0x0A]) (sm_buckets s))
          @ sm_name s @ ''_sum'' @ promLabels (sm_labels s) @ '' '' @ trimFloat (sm_sum s) @ [CHR 0x0A]
          @ sm_name s @ ''_count'' @ promLabels (sm_labels s) @ '' '' @ nat_str (sm_count s) @ [CHR 0x0A]
      | _ \<Rightarrow> sm_name s @ promLabels (sm_labels s) @ '' '' @ trimFloat (sm_value s) @ [CHR 0x0A])"

definition header_text :: "string \<Rightarrow> string" where
  "header_text name =
     (case LookupMetric name of
        Some d \<Rightarrow> ''# HELP '' @ name @ '' '' @ md_help d @ [CHR 0x0A] @ ''# TYPE '' @ name @ '' '' @ kind_text (md_kind d) @ [CHR 0x0A]
      | None \<Rightarrow> ''# HELP '' @ name @ '' '' @ [CHR 0x0A] @ ''# TYPE '' @ name @ '' '' @ [CHR 0x0A])"

text \<open>What is written when no write fails.\<close>

fun scrape :: "string \<Rightarrow> Sample list \<Rightarrow> string" where
  "scrape prev [] = []"
| "scrape prev (s # ss) = (if sm_name s \<noteq> prev then header_text (sm_name s) else []) @ sample_text s @ scrape (sm_name s) ss"

definition WritePrometheus :: "Registry \<Rightarrow> string" where
  "WritePrometheus r = scrape [] (reg_Snapshot r)"

definition WriteOpenMetrics :: "Registry option \<Rightarrow> string" where
  "WriteOpenMetrics r = (case r of Some g \<Rightarrow> WritePrometheus g | None \<Rightarrow> []) @ ''# EOF'' @ [CHR 0x0A]"

section \<open>queue.go\<close>

definition DefaultQueueSize :: int where "DefaultQueueSize = 1024"

record 'a Queue =
  qu_size :: nat
  qu_items :: "'a list"
  qu_dropped :: nat

definition NewQueue :: "int \<Rightarrow> 'a Queue" where
  "NewQueue n = \<lparr>qu_size = nat (if n \<le> 0 then DefaultQueueSize else n), qu_items = [], qu_dropped = 0\<rparr>"

definition TrySend :: "'a Queue \<Rightarrow> 'a \<Rightarrow> 'a Queue \<times> bool" where
  "TrySend q v =
     (if length (qu_items q) < qu_size q then (q\<lparr>qu_items := qu_items q @ [v]\<rparr>, True)
      else (q\<lparr>qu_dropped := qu_dropped q + 1\<rparr>, False))"

text \<open>A receive from the channel; None when it would wait.\<close>

definition queue_recv :: "'a Queue \<Rightarrow> ('a \<times> 'a Queue) option" where
  "queue_recv q = (case qu_items q of [] \<Rightarrow> None | x # xs \<Rightarrow> Some (x, q\<lparr>qu_items := xs\<rparr>))"

section \<open>logger.go\<close>

definition ParseLevel :: "string \<Rightarrow> string" where
  "ParseLevel s =
     (let x = to_lower (trim_space s) in
      if x = ''debug'' then ''debug'' else if x = ''warn'' \<or> x = ''warning'' then ''warn'' else if x = ''error'' then ''error'' else ''info'')"

definition slogLevel :: "string \<Rightarrow> int" where
  "slogLevel l = (if l = ''debug'' then -4 else if l = ''warn'' then 4 else if l = ''error'' then 8 else 0)"

record LogRecord =
  lr_timestamp :: "int option"
  lr_level :: string
  lr_event :: string
  lr_component :: string
  lr_requestID :: string
  lr_capability :: string
  lr_result :: string
  lr_errorCode :: string
  lr_durationMS :: float64

text \<open>What is handed to the JSON handler: the time (a record without one is given the clock's), the level, the
  string attributes and the duration; None when the level is below the minimum.\<close>

definition log_attrs :: "LogRecord \<Rightarrow> (string \<times> string) list" where
  "log_attrs rec =
     [(''event'', lr_event rec), (''component'', lr_component rec)]
     @ (if lr_requestID rec \<noteq> [] then [(''request_id'', lr_requestID rec)] else [])
     @ (if lr_capability rec \<noteq> [] then [(''capability'', lr_capability rec)] else [])
     @ (if lr_result rec \<noteq> [] then [(''result'', lr_result rec)] else [])
     @ (if lr_errorCode rec \<noteq> [] then [(''error_code'', lr_errorCode rec)] else [])"

definition Log :: "string \<Rightarrow> int \<Rightarrow> LogRecord \<Rightarrow> (int \<times> int \<times> (string \<times> string) list \<times> float64 option) option" where
  "Log min_level now rec =
     (let lvl = slogLevel (if lr_level rec = [] then ''info'' else lr_level rec) in
      if lvl < slogLevel (if min_level = [] then ''info'' else min_level) then None
      else Some (case lr_timestamp rec of None \<Rightarrow> now | Some t \<Rightarrow> t, lvl, log_attrs rec,
             if feq (lr_durationMS rec) (Fin 0) then None else Some (lr_durationMS rec)))"

section \<open>exporter.go\<close>

text \<open>The answer of the scrape endpoint to a request method: status, headers and body.\<close>

definition OpenMetricsContentType :: string where
  "OpenMetricsContentType = ''application/openmetrics-text; version=1.0.0; charset=utf-8''"

definition Handler :: "Registry option \<Rightarrow> string \<Rightarrow> int \<times> (string \<times> string) list \<times> string" where
  "Handler reg meth =
     (if meth \<noteq> ''GET'' \<and> meth \<noteq> ''HEAD'' then
        (405, [(''Allow'', ''GET, HEAD''), (''Content-Type'', ''text/plain; charset=utf-8''),
               (''X-Content-Type-Options'', ''nosniff'')], ''method not allowed'' @ [CHR 0x0A])
      else (200, [(''Content-Type'', OpenMetricsContentType)],
            if meth = ''HEAD'' then [] else WriteOpenMetrics reg))"

end
