(* ===== verification/Metrics_Props.thy ===== *)
theory Metrics_Props
  imports Metrics NtpServer
begin

text \<open>
  What the metrics promise: only labels of the allowlist are ever scraped, no metric has more than
  256 series, and no sample of the packet path is dropped.
\<close>

section \<open>Labels\<close>

lemma checkLabelsDef_None:
  "checkLabelsDef def ls = None \<longleftrightarrow> list_all (\<lambda>(k, v). \<not> ForbiddenLabel k \<and> k \<in> set (md_labels def)) ls"
  by (induction def ls rule: checkLabelsDef.induct) auto

definition good_label :: "string \<Rightarrow> bool" where
  "good_label k = (AllowedLabel k \<and> \<not> ForbiddenLabel k)"

lemma catalog_labels: "list_all (\<lambda>d. list_all good_label (md_labels d)) Metrics"
  by code_simp

lemma LookupMetric_labels: "LookupMetric name = Some d \<Longrightarrow> k \<in> set (md_labels d) \<Longrightarrow> good_label k"
  using catalog_labels by (auto simp: LookupMetric_def find_Some_iff list_all_iff)

lemma fold_put_keys:
  assumes "\<And>k. k \<in> set ks \<Longrightarrow> P k" "list_all (\<lambda>(k, v). P k) out"
  shows "list_all (\<lambda>(k, v). P k) (fold (\<lambda>k out. case g k of Some v \<Rightarrow> put_key k v out | None \<Rightarrow> out) ks out)"
proof -
  have put: "list_all (\<lambda>(k, v). P k) (put_key k v out)" if "P k" "list_all (\<lambda>(k, v). P k) out" for k v and out :: "(_ \<times> _) list"
    using that by (induction out) auto
  show ?thesis
    using assms by (induction ks arbitrary: out) (auto intro: put split: option.splits)
qed

lemma scrapeLabels_good: "list_all (\<lambda>(k, v). good_label k) (scrapeLabels name enc)"
proof -
  let ?raw = "decodeLabels enc"
  show ?thesis
  proof (cases "LookupMetric name")
    case None
    then show ?thesis by (simp add: scrapeLabels_def Let_def)
  next
    case (Some d)
    show ?thesis
    proof (cases "checkLabelsDef d ?raw = None")
      case True
      then show ?thesis using LookupMetric_labels [OF Some]
        by (auto simp: scrapeLabels_def Some Let_def checkLabelsDef_None list_all_iff)
    next
      case False
      have "list_all (\<lambda>(k, v). good_label k)
          (fold (\<lambda>k out. case map_of ?raw k of Some v \<Rightarrow> put_key k v out | None \<Rightarrow> out)
            (filter (\<lambda>k. \<not> ForbiddenLabel k) (md_labels d)) [])"
        by (rule fold_put_keys) (use LookupMetric_labels [OF Some] in auto)
      then show ?thesis using False by (auto simp: scrapeLabels_def Some Let_def)
    qed
  qed
qed

lemma scrapeLabels_in: "(k, v) \<in> set (scrapeLabels name enc) \<Longrightarrow> good_label k"
  using scrapeLabels_good [of name enc] by (auto simp: list_all_iff)

text \<open>A scrape never shows who a client is: whatever was recorded, every label of every scraped series is
  in the allowlist and none is forbidden.\<close>

theorem scrape_shows_allowed_labels:
  "list_all (\<lambda>s. list_all (\<lambda>(k, v). AllowedLabel k \<and> \<not> ForbiddenLabel k) (sm_labels s)) (reg_Snapshot r)"
  using scrapeLabels_in by (fastforce simp: reg_Snapshot_def sample_def list_all_iff good_label_def)

section \<open>Cardinality\<close>

definition series :: "Registry \<Rightarrow> string \<Rightarrow> seriesKey list" where
  "series r name = filter (\<lambda>k. fst k = name) (map fst (rg_counters r) @ map fst (rg_gauges r) @ map fst (rg_hists r))"

definition reg_ok :: "Registry \<Rightarrow> bool" where
  "reg_ok r = (rg_defs r = Metrics \<and> (\<forall>name. series_count r name = length (series r name) \<and> length (series r name) \<le> MaxSeriesPerMetric))"

lemma reg_ok_New: "reg_ok NewRegistry"
  by (simp add: reg_ok_def NewRegistry_def series_count_def series_def MaxSeriesPerMetric_def)

lemma series_count_count [simp]:
  "series_count (count_series r name) n = (if n = name then series_count r name + 1 else series_count r n)"
  "series (count_series r name) n = series r n" "rg_defs (count_series r name) = rg_defs r"
  "rg_counters (count_series r name) = rg_counters r" "rg_gauges (count_series r name) = rg_gauges r"
  "rg_hists (count_series r name) = rg_hists r" "rg_dropped (count_series r name) = rg_dropped r"
  by (auto simp: count_series_def series_count_def series_def)

lemma filter_put_key:
  "length (filter ((\<lambda>k. fst k = n) \<circ> fst) (put_key key v m)) =
     length (filter ((\<lambda>k. fst k = n) \<circ> fst) m) + (if map_of m key = None \<and> n = fst key then 1 else 0)"
  by (induction m) auto

lemma record_value_series:
  "length (series (record_value r kind key v s) n) = length (series r n) + (if has_series r kind key \<or> n \<noteq> fst key then 0 else 1)"
  "series_count (record_value r kind key v s) n = series_count r n" "rg_defs (record_value r kind key v s) = rg_defs r"
  "rg_dropped (record_value r kind key v s) = rg_dropped r"
  by (auto simp: record_value_def series_def has_series_def filter_put_key filter_map series_count_def Let_def split: Kind.split)

lemma has_series_count [simp]: "has_series (count_series r name) kind key = has_series r kind key"
  by (simp add: has_series_def split: Kind.split)

lemma record_ensured:
  assumes "reg_ok r" "ensureSeries r (fst key) key kind = Some r1"
  shows "reg_ok (record_value r1 kind key v s)"
proof -
  consider "has_series r kind key" "r1 = r"
    | "\<not> has_series r kind key" "series_count r (fst key) < MaxSeriesPerMetric" "r1 = count_series r (fst key)"
    using assms(2) by (auto simp: ensureSeries_def split: if_splits)
  then show ?thesis
    using assms(1) by cases (auto simp: reg_ok_def record_value_series)
qed

lemma reg_ok_dropped: "reg_ok (r\<lparr>rg_dropped := d\<rparr>) = reg_ok r"
  by (simp add: reg_ok_def series_count_def series_def)

lemma dropLocked_eq:
  assumes "rg_defs r = Metrics"
  obtains e where "dropLocked r reason =
      (case ensureSeries (r\<lparr>rg_dropped := rg_dropped r + 1\<rparr>) MetricTelemetryDropped (MetricTelemetryDropped, e) KindCounter of
         None \<Rightarrow> r\<lparr>rg_dropped := rg_dropped r + 1\<rparr>
       | Some q \<Rightarrow> record_value q KindCounter (MetricTelemetryDropped, e) (Fin 1) False)"
proof -
  have "find (\<lambda>d. md_name d = MetricTelemetryDropped) Metrics \<noteq> None" by code_simp
  then obtain d where d: "find (\<lambda>d. md_name d = MetricTelemetryDropped) Metrics = Some d" by blast
  show thesis
    by (rule that [of "encodeLabels (md_labels d) [(''reason'', reason)]"])
      (simp add: dropLocked_def find_def_def assms d Let_def ensureSeries_def has_series_def record_value_def)
qed

lemma reg_ok_dropLocked:
  assumes "reg_ok r"
  shows "reg_ok (dropLocked r reason)"
proof -
  let ?q = "r\<lparr>rg_dropped := rg_dropped r + 1\<rparr>"
  let ?n = MetricTelemetryDropped
  obtain e where k: "dropLocked r reason =
      (case ensureSeries ?q ?n (?n, e) KindCounter of None \<Rightarrow> ?q | Some q1 \<Rightarrow> record_value q1 KindCounter (?n, e) (Fin 1) False)"
    using assms dropLocked_eq [of r reason] by (auto simp: reg_ok_def)
  have q: "reg_ok ?q" using assms by (simp add: reg_ok_dropped)
  show ?thesis
  proof (cases "ensureSeries ?q ?n (?n, e) KindCounter")
    case None
    then show ?thesis using q unfolding k by simp
  next
    case (Some q1)
    then show ?thesis using record_ensured [OF q, of "(?n, e)"] unfolding k by simp
  qed
qed

lemma reg_ok_observe:
  assumes "reg_ok r"
  shows "reg_ok (reg_observe r name want ls v s)"
  using assms record_ensured [where key = "(name, x)" for x, OF assms]
  by (auto simp: reg_observe_def reg_drop_def reg_ok_dropLocked Let_def split: option.splits)

text \<open>What the program does to a registry.\<close>

datatype reg_op = OpInc string labels float64 | OpSet string labels float64 | OpObserve string labels float64

fun reg_apply :: "reg_op \<Rightarrow> Registry \<Rightarrow> Registry" where
  "reg_apply (OpInc n ls v) r = reg_Inc r n ls v"
| "reg_apply (OpSet n ls v) r = reg_Set r n ls v"
| "reg_apply (OpObserve n ls v) r = reg_Observe r n ls v"

lemma reg_ok_apply: "reg_ok r \<Longrightarrow> reg_ok (reg_apply op r)"
  by (cases op) (auto simp: reg_Inc_def reg_Set_def reg_Observe_def reg_ok_observe)

text \<open>The registry is bounded: after any samples, whatever their names and labels, no metric has more than
  256 series, and the scrape shows no more of it.\<close>

theorem registry_bounded:
  "length (filter (\<lambda>s. sm_name s = name) (reg_Snapshot (fold reg_apply ops NewRegistry))) \<le> MaxSeriesPerMetric"
proof -
  let ?r = "fold reg_apply ops NewRegistry"
  have "reg_ok r \<Longrightarrow> reg_ok (fold reg_apply ops r)" for r
    by (induction ops arbitrary: r) (auto intro: reg_ok_apply)
  then have "length (series ?r name) \<le> MaxSeriesPerMetric" using reg_ok_New by (simp add: reg_ok_def)
  moreover have "filter P (sort_key f (sort_key g xs)) = sort_key f (sort_key g (filter P xs))"
    for P :: "Sample \<Rightarrow> bool" and f g :: "Sample \<Rightarrow> string" and xs by (simp add: filter_sort)
  ultimately show ?thesis
    by (simp add: reg_Snapshot_def series_def filter_map comp_def sample_def case_prod_beta)
qed

section \<open>The packet path\<close>

text \<open>The samples the handler of packets takes, with the filter names it has shown so far.\<close>

definition packet_decisions :: "string list" where
  "packet_decisions = [''oversize'', ''short'', ''version'', ''mode'', ''zero_xmit'', ''allowlist'', ''admission'', ''ignore'',
     ''kod'', ''drop'', ''unmatched'', ''serve'']"

definition packet_samples :: "string list \<Rightarrow> (string \<times> labels) list" where
  "packet_samples names =
     [(MetricPacketsTotal, [(''decision'', d), (''version'', v)]). d \<leftarrow> packet_decisions, v \<leftarrow> [''3'', ''4'', ''other'']]
     @ map (\<lambda>f. (MetricFilterHitsTotal, [(''filter'', f)])) (''other'' # names)
     @ [(MetricQuerylogDroppedTotal, [])]"

fun sampled :: "string list \<Rightarrow> effect \<Rightarrow> bool" where
  "sampled names (SendTo a b) = True"
| "sampled names (Count n ls) = ((n, ls) \<in> set (packet_samples names))"

lemma sampled_mono: "sampled names e \<Longrightarrow> set names \<subseteq> set names' \<Longrightarrow> sampled names' e"
  by (cases e) (auto simp: packet_samples_def)

lemma vnLabel_cases: "vnLabel vn \<in> {''3'', ''4'', ''other''}"
  by (simp add: vnLabel_def)

lemma sampled_observe: "d \<in> set packet_decisions \<Longrightarrow> v \<in> {''3'', ''4'', ''other''} \<Longrightarrow> sampled names (observe d v)"
  by (auto simp: observe_def packet_samples_def MetricPacketsTotal_def)

text \<open>A step of the server: its effects are samples, and the names shown stay at most 128.\<close>

definition sampled_step :: "Server \<Rightarrow> Server \<times> effect list \<Rightarrow> bool" where
  "sampled_step s r = (list_all (sampled (s_filterNames (fst r))) (snd r)
     \<and> set (s_filterNames s) \<subseteq> set (s_filterNames (fst r))
     \<and> (length (s_filterNames s) \<le> 128 \<longrightarrow> length (s_filterNames (fst r)) \<le> 128))"

lemma sampled_step_from: "sampled_step s' r \<Longrightarrow> s_filterNames s' = s_filterNames s \<Longrightarrow> sampled_step s r"
  by (simp add: sampled_step_def)

lemma drop_sampled: "d \<in> set packet_decisions \<Longrightarrow> v \<in> {''3'', ''4'', ''other''} \<Longrightarrow> sampled_step s (drop_with b d v s)"
  by (simp add: sampled_step_def drop_with_def sampled_observe)

lemma send_sampled [simp]: "list_all (sampled names) (send s a out)"
  by (simp add: send_def split: option.split)

lemma log_entry_names: "log_entry lk s e = (s', ok) \<Longrightarrow> s_filterNames s' = s_filterNames s"
  by (auto simp: log_entry_def Let_def split: option.splits prod.splits)

lemma observeFilter_sampled:
  "observeFilter s n = (s', h) \<Longrightarrow> sampled (s_filterNames s') h \<and> set (s_filterNames s) \<subseteq> set (s_filterNames s')
    \<and> (length (s_filterNames s) \<le> 128 \<longrightarrow> length (s_filterNames s') \<le> 128)"
  by (auto simp: observeFilter_def Let_def packet_samples_def MetricFilterHitsTotal_def split: if_splits)

lemma serve_sampled: "sampled_step s (serve i s p a key f)"
proof -
  let ?s1 = "s\<lparr>s_counts := (s_counts s)\<lparr>c_serve := c_serve (s_counts s) + 1\<rparr>\<rparr>"
  obtain s2 hit where h: "observeFilter ?s1 (sf_name f) = (s2, hit)" by fastforce
  obtain reply t where r: "reply_packet i (sf_view f) p = (reply, t)" by fastforce
  obtain s3 logged where l: "log_entry (i_lock i) s2
       \<lparr>e_clientIP = addr_string (peerFromAddr a), e_filter = sf_name f, e_servedTime = t,
        e_leap = v_leap (sf_view f), e_mode = v_mode (sf_view f), e_vn = VN p, e_whenHost = i_nowXmit i\<rparr> = (s3, logged)" by fastforce
  have o: "sampled names (observe ''serve'' (vnLabel (VN p)))" for names
    using vnLabel_cases by (intro sampled_observe) (simp_all add: packet_decisions_def)
  show ?thesis
    using observeFilter_sampled [OF h] o
    by (simp add: serve_def Let_def r h [simplified] l sampled_step_def log_entry_names [OF l] packet_samples_def MetricQuerylogDroppedTotal_def)
qed

lemma replyKoD_sampled: "sampled_step s (replyKoD i s p a key)"
proof -
  have o: "sampled names (observe ''kod'' (vnLabel (VN p)))" for names
    using vnLabel_cases by (intro sampled_observe) (simp_all add: packet_decisions_def)
  show ?thesis
    using o by (simp add: replyKoD_def Let_def sampled_step_def case_prod_beta log_entry_names [OF prod.collapse [symmetric]])
qed

lemma restrict_sampled: "sampled_step s (restrict_and_serve i snap s p a key)"
proof -
  have d: "sampled_step s (drop_with b d (vnLabel v) s)" if "d \<in> set packet_decisions" for b d v s
    using that vnLabel_cases by (rule drop_sampled)
  have o: "sampled names (observe ''drop'' (vnLabel (VN p)))" for names
    using vnLabel_cases by (intro sampled_observe) (simp_all add: packet_decisions_def)
  obtain lim ok where l: "ql_allow (s_limited s) (i_nowLimited i) (addr_string (peerFromAddr a)) = (lim, ok)" by fastforce
  let ?s = "s\<lparr>s_limited := lim\<rparr>"
  have m: "sampled_step s (case Match snap (peerFromAddr a) of
      None \<Rightarrow> drop_with (\<lambda>c. c\<lparr>c_unmatched := c_unmatched c + 1\<rparr>) ''unmatched'' (vnLabel (VN p)) s | Some f \<Rightarrow> serve i s p a key f)" for s
    using d serve_sampled by (auto simp: packet_decisions_def split: option.split)
  have "sampled_step s (replyKoD i ?s p a key)" using replyKoD_sampled by (rule sampled_step_from) simp
  then show ?thesis
    using d m m [THEN sampled_step_from, of ?s s] o
    by (auto simp: restrict_and_serve_def Let_def l packet_decisions_def sampled_step_def)
qed

lemma handle_packet_sampled: "sampled_step s (handle_packet i snap s p a key)"
proof -
  have d: "sampled_step s (drop_with b d (vnLabel v) s)" if "d \<in> set packet_decisions" for b d v s
    using that vnLabel_cases by (rule drop_sampled)
  obtain s1 ok where ad: "admit i s (peerFromAddr a) = (s1, ok)" by fastforce
  then have n: "s_filterNames s1 = s_filterNames s"
    by (auto simp: admit_def Let_def split: prod.splits if_splits)
  show ?thesis
    using d [THEN sampled_step_from, OF _ n] d restrict_sampled [THEN sampled_step_from, OF n] n
    by (auto simp: handle_packet_def Let_def ad packet_decisions_def)
qed

lemma handle_sampled: "sampled_step s (handle i active s pkt a)"
proof -
  have d: "sampled_step s (drop_with b d ''other'' s)" if "d \<in> set packet_decisions" for b d s
    using that by (rule drop_sampled) simp
  have n: "s_filterNames (syncAdmission s snap) = s_filterNames s" for snap by (simp add: syncAdmission_def)
  have e: "sampled_step s (s', [])" if "s_filterNames s' = s_filterNames s" for s' using that by (simp add: sampled_step_def)
  show ?thesis
    using d d [THEN sampled_step_from, OF _ n] handle_packet_sampled [THEN sampled_step_from, OF n] e n
    by (auto simp: handle_def Let_def packet_decisions_def split: option.split sum.split)
qed

text \<open>The registry accepts them all.\<close>

lemma accepted_names:
  "list_all (\<lambda>(n, ks). case LookupMetric n of None \<Rightarrow> False
     | Some d \<Rightarrow> md_kind d = KindCounter \<and> list_all (\<lambda>k. \<not> ForbiddenLabel k \<and> k \<in> set (md_labels d)) ks)
    [(MetricPacketsTotal, [''decision'', ''version'']), (MetricFilterHitsTotal, [''filter'']), (MetricQuerylogDroppedTotal, [])]"
  by code_simp

lemma packet_sample_accepted:
  assumes "(n, ls) \<in> set (packet_samples names)"
  obtains d where "LookupMetric n = Some d" "md_kind d = KindCounter" "checkLabelsDef d ls = None"
proof -
  have "(n, map fst ls) \<in> set [(MetricPacketsTotal, [''decision'', ''version'']), (MetricFilterHitsTotal, [''filter'']), (MetricQuerylogDroppedTotal, [])]"
    using assms by (auto simp: packet_samples_def)
  then have "case LookupMetric n of None \<Rightarrow> False
     | Some d \<Rightarrow> md_kind d = KindCounter \<and> list_all (\<lambda>k. \<not> ForbiddenLabel k \<and> k \<in> set (md_labels d)) (map fst ls)"
    using accepted_names unfolding list_all_iff by fastforce
  then show thesis
    by (cases "LookupMetric n") (simp, rule that, auto simp: checkLabelsDef_None list_all_iff)
qed

definition series_of :: "string \<times> labels \<Rightarrow> seriesKey" where
  "series_of x = (fst x, case LookupMetric (fst x) of None \<Rightarrow> [] | Some d \<Rightarrow> encodeLabels (md_labels d) (filterLabels d (snd x)))"

definition packet_reg :: "string list \<Rightarrow> Registry \<Rightarrow> bool" where
  "packet_reg names r = (reg_ok r \<and> rg_dropped r = 0 \<and> rg_gauges r = [] \<and> rg_hists r = [] \<and> keys_distinct (rg_counters r)
     \<and> fst ` set (rg_counters r) \<subseteq> series_of ` set (packet_samples names))"

lemma length_packet_samples: "length (packet_samples names) = 38 + length names"
  by (simp add: packet_samples_def packet_decisions_def)

lemma packet_series_few:
  assumes "packet_reg names r" "length names \<le> 128"
  shows "series_count r n < MaxSeriesPerMetric"
proof -
  let ?ks = "filter (\<lambda>k. fst k = n) (map fst (rg_counters r))"
  have "series_count r n = length ?ks" using assms(1) by (simp add: packet_reg_def reg_ok_def series_def)
  also have "\<dots> = card (set ?ks)" using assms(1) by (intro distinct_card [symmetric] distinct_filter) (simp add: packet_reg_def)
  also have "\<dots> \<le> card (series_of ` set (packet_samples names))"
    using assms(1) by (intro card_mono) (auto simp: packet_reg_def)
  also have "\<dots> \<le> length (packet_samples names)" using card_image_le [of "set (packet_samples names)" series_of] card_length [of "packet_samples names"] by simp
  finally show ?thesis using assms(2) by (simp add: length_packet_samples MaxSeriesPerMetric_def)
qed

lemma packet_reg_Inc:
  assumes "packet_reg names r" "length names \<le> 128" "(n, ls) \<in> set (packet_samples names)"
  shows "packet_reg names (reg_Inc r n ls (Fin 1))"
proof -
  obtain d where d: "LookupMetric n = Some d" "md_kind d = KindCounter" "checkLabelsDef d ls = None"
    using assms(3) by (rule packet_sample_accepted)
  let ?k = "(n, encodeLabels (md_labels d) (filterLabels d ls))"
  have k: "?k = series_of (n, ls)" by (simp add: series_of_def d)
  have ok: "reg_ok r" using assms(1) by (simp add: packet_reg_def)
  have f: "find_def r n = Some d" using ok d(1) by (simp add: find_def_def reg_ok_def LookupMetric_def)
  obtain r1 where r1: "ensureSeries r n ?k KindCounter = Some r1" "r1 = r \<or> r1 = count_series r n"
    using packet_series_few [OF assms(1,2), of n]
    by (cases "has_series r KindCounter ?k") (simp_all add: ensureSeries_def)
  have r': "reg_Inc r n ls (Fin 1) = record_value r1 KindCounter ?k (Fin 1) False"
    by (simp add: reg_Inc_def reg_observe_def f d r1(1) Let_def)
  have "reg_ok (record_value r1 KindCounter ?k (Fin 1) False)" using record_ensured [OF ok, of ?k] r1(1) by simp
  moreover have "rg_counters r1 = rg_counters r" "rg_gauges r1 = rg_gauges r" "rg_hists r1 = rg_hists r" "rg_dropped r1 = rg_dropped r"
    using r1(2) by auto
  ultimately show ?thesis
    using assms(1,3) k unfolding r' by (auto simp: packet_reg_def record_value_def dom_put_key)
qed

definition record_effect :: "effect \<Rightarrow> Registry \<Rightarrow> Registry" where
  "record_effect e r = (case e of SendTo _ _ \<Rightarrow> r | Count n ls \<Rightarrow> reg_Inc r n ls (Fin 1))"

lemma packet_reg_effects:
  "packet_reg names r \<Longrightarrow> length names \<le> 128 \<Longrightarrow> list_all (sampled names) es \<Longrightarrow> packet_reg names (fold record_effect es r)"
proof (induction es arbitrary: r)
  case (Cons e es)
  then show ?case by (cases e) (simp_all add: record_effect_def packet_reg_Inc)
qed simp

lemma packet_reg_mono: "packet_reg names r \<Longrightarrow> set names \<subseteq> set names' \<Longrightarrow> packet_reg names' r"
proof -
  assume a: "packet_reg names r" "set names \<subseteq> set names'"
  have "set (packet_samples names) \<subseteq> set (packet_samples names')"
    using a(2) unfolding packet_samples_def set_append set_map list.set by blast
  then have "series_of ` set (packet_samples names) \<subseteq> series_of ` set (packet_samples names')" by (rule image_mono)
  then show "packet_reg names' r" using a(1) unfolding packet_reg_def by (blast intro: order_trans)
qed

text \<open>A server that handles one packet after another, with its registry.\<close>

definition packet_step :: "inputs \<times> Snapshot option \<times> bytes \<times> net_addr \<Rightarrow> Server \<times> Registry \<Rightarrow> Server \<times> Registry" where
  "packet_step x sr =
     (case x of (i, active, pkt, a) \<Rightarrow>
        let (s', es) = handle i active (fst sr) pkt a in (s', fold record_effect es (snd sr)))"

lemma packet_step_keeps:
  assumes "packet_reg (s_filterNames s) r" "length (s_filterNames s) \<le> 128" "packet_step x (s, r) = (s', r')"
  shows "packet_reg (s_filterNames s') r' \<and> length (s_filterNames s') \<le> 128"
proof -
  obtain i active pkt a where x: "x = (i, active, pkt, a)" by (cases x)
  obtain t es where h: "handle i active s pkt a = (t, es)" by fastforce
  have "sampled_step s (t, es)" using handle_sampled [of s i active pkt a] unfolding h .
  then have "list_all (sampled (s_filterNames t)) es" "set (s_filterNames s) \<subseteq> set (s_filterNames t)" "length (s_filterNames t) \<le> 128"
    using assms(2) by (auto simp: sampled_step_def)
  then show ?thesis
    using assms(1,3) packet_reg_effects [of "s_filterNames t" r es] packet_reg_mono by (auto simp: packet_step_def x h)
qed

text \<open>The metrics of the packet path are complete: a server that starts with an empty registry and handles any
  packets, under any configurations, never has a sample rejected for its labels or for the number of
  series.\<close>

theorem packet_metrics_complete:
  "case server_New addr maxInflight maxUDP qlog of
     Inl _ \<Rightarrow> True
   | Inr s \<Rightarrow> rg_dropped (snd (fold packet_step xs (s, NewRegistry))) = 0"
proof (cases "server_New addr maxInflight maxUDP qlog")
  case (Inr s)
  have n: "s_filterNames s = []" using Inr by (auto simp: server_New_def split: if_splits)
  have "packet_reg (s_filterNames s) r \<Longrightarrow> length (s_filterNames s) \<le> 128 \<Longrightarrow>
    rg_dropped (snd (fold packet_step xs (s, r))) = 0" for s r
  proof (induction xs arbitrary: s r)
    case Nil
    then show ?case by (simp add: packet_reg_def)
  next
    case (Cons x xs)
    obtain s' r' where x: "packet_step x (s, r) = (s', r')" by fastforce
    show ?case using packet_step_keeps [OF Cons.prems x] Cons.IH [of s' r'] by (simp add: x)
  qed
  moreover have "packet_reg [] NewRegistry" using reg_ok_New by (simp add: packet_reg_def NewRegistry_def)
  ultimately show ?thesis using n by (simp add: Inr)
qed simp

end
