(* ===== verification/Go_Url.thy ===== *)
theory Go_Url
  imports Go_Net
begin

text \<open>
  The package \<^verbatim>\<open>net/url\<close> as far as an origin check uses it: which texts parse as a URL, and
  its scheme, host and host name. What a URL holds beside (path, query, fragment, user) only
  matters for whether it parses.
\<close>

section \<open>strings.EqualFold\<close>

text \<open>
  Simple case folding, exact when one of the two texts is ASCII: beside the ASCII letters, the
  Kelvin sign and the long s are the only runes that fold to an ASCII one. Other runes are kept,
  so two texts that differ in the case of a non-ASCII letter are not equal here.
\<close>

fun fold_case :: "string \<Rightarrow> string" where
  "fold_case [] = []"
| "fold_case [c] = [lower1 c]"
| "fold_case [c, d] = (if c = CHR 0xC5 \<and> d = CHR 0xBF then ''s'' else lower1 c # fold_case [d])"
| "fold_case (c # d # e # s) =
     (if c = CHR 0xC5 \<and> d = CHR 0xBF then CHR ''s'' # fold_case (e # s)
      else if c = CHR 0xE2 \<and> d = CHR 0x84 \<and> e = CHR 0xAA then CHR ''k'' # fold_case s
      else lower1 c # fold_case (d # e # s))"

definition equal_fold :: "string \<Rightarrow> string \<Rightarrow> bool" where
  "equal_fold a b = (fold_case a = fold_case b)"

section \<open>Escapes\<close>

datatype url_mode = EncodePath | EncodeUser | EncodeFragment | EncodeHost | EncodeZone

definition is_alnum :: "char \<Rightarrow> bool" where
  "is_alnum c = ((CHR ''a'' \<le> c \<and> c \<le> CHR ''z'') \<or> (CHR ''A'' \<le> c \<and> c \<le> CHR ''Z'') \<or> is_digit c)"

text \<open>The bytes a host may hold unescaped.\<close>

definition host_byte :: "char \<Rightarrow> bool" where
  "host_byte c = (is_alnum c \<or> c \<in> set ''!$&()*+,;=:[]<>-_.~'' \<or> c = CHR 0x27 \<or> c = CHR 0x22)"

definition two_hex :: "char \<Rightarrow> char \<Rightarrow> nat option" where
  "two_hex a b = (case (hex_val a, hex_val b) of (Some x, Some y) \<Rightarrow> Some (16 * x + y) | _ \<Rightarrow> None)"

text \<open>\<^verbatim>\<open>unescape\<close>: None for a bad escape or a byte that a host may not hold.\<close>

definition bad_escape :: "url_mode \<Rightarrow> char \<Rightarrow> char \<Rightarrow> nat \<Rightarrow> bool" where
  "bad_escape m a b v =
     (let percent = (a = CHR ''2'' \<and> b = CHR ''5'') in
      (m = EncodeHost \<and> v < 128 \<and> \<not> percent)
      \<or> (m = EncodeZone \<and> \<not> percent \<and> v \<noteq> 32 \<and> \<not> host_byte (char_of v)))"

fun url_unescape :: "url_mode \<Rightarrow> string \<Rightarrow> string option" where
  "url_unescape m [] = Some []"
| "url_unescape m (c # s) =
     (if c = CHR ''%'' then
        (case s of
           a # b # t \<Rightarrow>
             (case two_hex a b of
                None \<Rightarrow> None
              | Some v \<Rightarrow>
                  if bad_escape m a b v then None
                  else map_option (\<lambda>u. char_of v # u) (url_unescape m t))
         | _ \<Rightarrow> None)
      else if (m = EncodeHost \<or> m = EncodeZone) \<and> of_char c < (128::nat) \<and> \<not> host_byte c then None
      else map_option (\<lambda>u. c # u) (url_unescape m s))"

section \<open>Authority\<close>

definition validOptionalPort :: "string \<Rightarrow> bool" where
  "validOptionalPort p = (case p of [] \<Rightarrow> True | c # ds \<Rightarrow> c = CHR '':'' \<and> list_all is_digit ds)"

text \<open>The text split around \<^verbatim>\<open>%25\<close>, which starts the zone of an address.\<close>

fun split_zone :: "string \<Rightarrow> string \<times> string" where
  "split_zone [] = ([], [])"
| "split_zone (c # s) =
     (if has_prefix (c # s) ''%25'' then ([], c # s) else (case split_zone s of (h, z) \<Rightarrow> (c # h, z)))"

definition unescape_host :: "string \<Rightarrow> string option" where
  "unescape_host h =
     (case split_zone h of
        (a, z) \<Rightarrow> (case (url_unescape EncodeHost a, url_unescape EncodeZone z) of
                    (Some x, Some y) \<Rightarrow> Some (x @ y) | _ \<Rightarrow> None))"

definition parse_host :: "string \<Rightarrow> string option" where
  "parse_host host =
     (case last_index CHR ''['' host of
        Some i \<Rightarrow>
          if i \<noteq> 0 then None
          else (case last_index CHR '']'' host of
            None \<Rightarrow> None
          | Some j \<Rightarrow>
              let port = drop (j + 1) host in
              if \<not> validOptionalPort port then None
              else (case unescape_host (take (j - 1) (drop 1 host)) of
                None \<Rightarrow> None
              | Some h \<Rightarrow>
                  (case parse_addr h of
                     None \<Rightarrow> None
                   | Some a \<Rightarrow> if is4 a then None else Some (''['' @ h @ '']'' @ port))))
      | None \<Rightarrow>
          if (case first_index CHR '':'' host of None \<Rightarrow> False | Some i \<Rightarrow> \<not> validOptionalPort (drop i host)) then None
          else url_unescape EncodeHost host)"

definition user_byte :: "char \<Rightarrow> bool" where
  "user_byte c = (is_alnum c \<or> c \<in> set ''-._:~!$&()*+,;=%@'' \<or> c = CHR 0x27)"

definition parse_authority :: "string \<Rightarrow> string option" where
  "parse_authority a =
     (case last_index CHR ''@'' a of
        None \<Rightarrow> parse_host a
      | Some i \<Rightarrow>
          (case parse_host (drop (i + 1) a) of
             None \<Rightarrow> None
           | Some h \<Rightarrow>
               if list_all user_byte (take i a) \<and> url_unescape EncodeUser (take i a) \<noteq> None then Some h else None))"

section \<open>url.Parse\<close>

record go_url =
  u_scheme :: string
  u_host :: string

definition scheme_char :: "char \<Rightarrow> bool" where
  "scheme_char c = (is_alnum c \<or> c \<in> set ''+-.'')"

text \<open>The scheme and the rest; no scheme where the text before the colon is not one.\<close>

definition get_scheme :: "string \<Rightarrow> (string \<times> string) option" where
  "get_scheme raw =
     (let s = takeWhile scheme_char raw in
      case dropWhile scheme_char raw of
        c # rest \<Rightarrow>
          if c \<noteq> CHR '':'' then Some ([], raw)
          else if s = [] then None
          else if \<not> is_alnum (hd s) \<or> is_digit (hd s) then Some ([], raw)
          else Some (s, rest)
      | [] \<Rightarrow> Some ([], raw))"

definition ctl_byte :: "char \<Rightarrow> bool" where
  "ctl_byte c = (of_char c < (32::nat) \<or> c = CHR 0x7F)"

definition drop_query :: "string \<Rightarrow> string" where
  "drop_query s = takeWhile (\<lambda>c. c \<noteq> CHR ''?'') s"

definition path_ok :: "string \<Rightarrow> bool" where
  "path_ok p = (url_unescape EncodePath p \<noteq> None)"

text \<open>A text without its fragment.\<close>

definition parse_url0 :: "string \<Rightarrow> go_url option" where
  "parse_url0 raw =
     (if list_ex ctl_byte raw then None
      else if raw = ''*'' then Some \<lparr>u_scheme = [], u_host = []\<rparr>
      else case get_scheme raw of
        None \<Rightarrow> None
      | Some (scheme0, rest0) \<Rightarrow>
          let scheme = to_lower scheme0; rest = drop_query rest0 in
          if \<not> has_prefix rest ''/'' \<and> scheme \<noteq> [] then Some \<lparr>u_scheme = scheme, u_host = []\<rparr>
          else if \<not> has_prefix rest ''/'' \<and> CHR '':'' \<in> set (takeWhile (\<lambda>c. c \<noteq> CHR ''/'') rest) then None
          else if (scheme \<noteq> [] \<or> \<not> has_prefix rest ''///'') \<and> has_prefix rest ''//'' then
            (let auth = takeWhile (\<lambda>c. c \<noteq> CHR ''/'') (drop 2 rest);
                 path = dropWhile (\<lambda>c. c \<noteq> CHR ''/'') (drop 2 rest) in
             case parse_authority auth of
               None \<Rightarrow> None
             | Some h \<Rightarrow> if path_ok path then Some \<lparr>u_scheme = scheme, u_host = h\<rparr> else None)
          else if path_ok rest then Some \<lparr>u_scheme = scheme, u_host = []\<rparr> else None)"

definition parse_url :: "string \<Rightarrow> go_url option" where
  "parse_url s =
     (case cut_at CHR ''#'' s of
        None \<Rightarrow> parse_url0 s
      | Some (u, frag) \<Rightarrow>
          (case parse_url0 u of
             None \<Rightarrow> None
           | Some r \<Rightarrow> if url_unescape EncodeFragment frag = None then None else Some r))"

text \<open>\<^verbatim>\<open>URL.Hostname\<close>: the host without port and brackets.\<close>

definition hostname :: "go_url \<Rightarrow> string" where
  "hostname u =
     (let h = u_host u;
          h1 = (case last_index CHR '':'' h of
                  None \<Rightarrow> h
                | Some i \<Rightarrow> if validOptionalPort (drop i h) then take i h else h) in
      if has_prefix h1 ''['' \<and> has_suffix h1 '']'' then butlast (tl h1) else h1)"

lemma parse_url_vectors:
  "map_option hostname (parse_url ''http://localhost:8080'') = Some ''localhost''"
  "map_option hostname (parse_url ''HTTPS://[::1]:8443/x?y#z'') = Some ''::1''"
  "map_option hostname (parse_url ''http://user@evil.example'') = Some ''evil.example''"
  "parse_url ''http://127.0.0.1:1:2'' = None"
  "parse_url ''http://a[::1]'' = None"
  "map_option u_host (parse_url ''null'') = Some []"
  "map_option u_scheme (parse_url ''file:///x'') = Some ''file''"
  by code_simp+

end
