(* ===== verification/Auth.thy ===== *)
theory Auth
  imports Compiler Go_Hash Go_Url
begin

text \<open>
  The package \<^verbatim>\<open>internal/auth\<close> without its session table: digests, scopes and roles
  (digest.go, principal.go, roles.go), the verifier of bearer tokens (verifier.go) and the origin
  check (origin.go). A verifier keeps only SHA-256 digests of its tokens. Reading a secret file is
  \<open>lib_read_file\<close>.
\<close>

section \<open>digest.go\<close>

definition MinTokenBytes :: nat where "MinTokenBytes = 32"

definition DigestSecret :: "bytes \<Rightarrow> bytes" where
  "DigestSecret secret = sha256 secret"

text \<open>\<^verbatim>\<open>subtle.ConstantTimeCompare\<close>: the differing bits of all positions are collected.\<close>

definition EqualDigest :: "bytes \<Rightarrow> bytes \<Rightarrow> bool" where
  "EqualDigest a b = (length a = length b \<and> ct_diff a b = 0)"

section \<open>principal.go and roles.go\<close>

definition ClassToken :: string where "ClassToken = ''token''"
definition ClassLoopback :: string where "ClassLoopback = ''loopback''"

record Principal =
  pn_ID :: string
  pn_Class :: string
  pn_Role :: string
  pn_Scopes :: "string list"

fun any_scope :: "string list \<Rightarrow> string \<Rightarrow> bool" where
  "any_scope [] want = False"
| "any_scope (s # ss) want = (if s = ScopeNTPAdmin \<or> s = want then True else any_scope ss want)"

definition HasScope :: "string list \<Rightarrow> string \<Rightarrow> bool" where
  "HasScope scopes want = (if want = [] then True else any_scope scopes want)"

text \<open>The error of the first missing scope, or None.\<close>

fun AuthorizeScopes :: "string list \<Rightarrow> string list \<Rightarrow> Error option" where
  "AuthorizeScopes scopes [] = None"
| "AuthorizeScopes scopes (want # required) =
     (if \<not> HasScope scopes want then Some (Forbidden (''missing scope '' @ want))
      else AuthorizeScopes scopes required)"

definition Authorize :: "Principal \<Rightarrow> string list \<Rightarrow> Error option" where
  "Authorize p required = AuthorizeScopes (pn_Scopes p) required"

definition allScopes :: "string list" where
  "allScopes = [ScopeNTPRead, ScopeNTPWrite, ScopeNTPAdmin, ScopeNTPAuditRead]"

definition DefaultScopes :: "string \<Rightarrow> string list" where
  "DefaultScopes role =
     (if role = RoleViewer then [ScopeNTPRead]
      else if role = RoleOperator then [ScopeNTPRead, ScopeNTPWrite]
      else if role = RoleAdministrator then allScopes
      else [])"

definition expandScopes :: "string \<Rightarrow> string list \<Rightarrow> string \<times> string list" where
  "expandScopes role scopes =
     (let r = (if role = [] then RoleAdministrator else role) in
      if scopes \<noteq> [] then (r, scopes) else (r, DefaultScopes r))"

section \<open>verifier.go: the index\<close>

record storedToken =
  sk_id :: string
  sk_role :: string
  sk_scopes :: "string list"
  sk_digest :: bytes

text \<open>\<open>'h\<close> is what is told of a change of identity, in the order of registration.\<close>

record 'h Verifier =
  vf_mode :: string
  vf_tokens :: "storedToken list"
  vf_onChange :: "'h list"

text \<open>The first line of a secret file that is neither blank nor a comment.\<close>

fun secret_line :: "string list \<Rightarrow> string option" where
  "secret_line [] = None"
| "secret_line (l # ls) =
     (let line = trim_space l in
      if line = [] \<or> has_prefix line ''#'' then secret_line ls else Some line)"

definition readSecretFile :: "libs \<Rightarrow> string \<Rightarrow> bytes option" where
  "readSecretFile L path =
     (case lib_read_file L path of
        Inl e \<Rightarrow> None
      | Inr b \<Rightarrow> map_option bytes_of_string (secret_line (split_on (CHR 0x0A) b)))"

text \<open>One token of the document, after those compiled so far.\<close>

definition token_error :: "nat \<Rightarrow> string \<Rightarrow> string \<Rightarrow> string \<Rightarrow> string \<Rightarrow> Error" where
  "token_error i title field code msg =
     ValidationFailed title [violation (indexPath ''spec.auth.tokens'' i @ field) code msg]"

definition compile_token :: "libs \<Rightarrow> nat \<Rightarrow> storedToken list \<Rightarrow> TokenSpec \<Rightarrow> Error + storedToken" where
  "compile_token L i seen tok =
     (let id = trim_space (tok_id tok) in
      if id = [] then Inl (token_error i ''token id is required'' ''.id'' ''empty_id'' ''token id is required'')
      else if id \<in> set (map sk_id seen) then
        Inl (token_error i ''duplicate token id'' ''.id'' ''duplicate_id'' ''duplicate token id'')
      else case readSecretFile L (tok_secretFile tok) of
        None \<Rightarrow> Inl (token_error i ''token secret is unavailable'' ''.secretFile'' ''unresolved_reference''
                       ''token secret file does not resolve'')
      | Some raw \<Rightarrow>
          if length raw < MinTokenBytes then
            Inl (token_error i ''token entropy is below 256 bits'' ''.secretFile'' ''invalid_value''
                   ''token secret must be at least 32 bytes'')
          else let d = DigestSecret raw in
            case find (\<lambda>t. sk_digest t = d) seen of
              Some other \<Rightarrow> Inl (token_error i ''duplicate token value'' ''.secretFile'' ''duplicate_id''
                                (''token value matches '' @ sk_id other))
            | None \<Rightarrow>
                if tok_role tok \<noteq> [] \<and> \<not> KnownRole (tok_role tok) then
                  Inl (token_error i ''unknown role'' ''.role'' ''invalid_value''
                         ''role must be viewer, operator, or administrator'')
                else (case expandScopes (tok_role tok) (tok_scopes tok) of
                        (role, scopes) \<Rightarrow>
                          Inr \<lparr>sk_id = id, sk_role = role, sk_scopes = scopes, sk_digest = d\<rparr>))"

fun compile_tokens :: "libs \<Rightarrow> nat \<Rightarrow> storedToken list \<Rightarrow> TokenSpec list \<Rightarrow> Error + storedToken list" where
  "compile_tokens L i seen [] = Inr seen"
| "compile_tokens L i seen (tok # toks) =
     bindR (compile_token L i seen tok) (\<lambda>t. compile_tokens L (i + 1) (seen @ [t]) toks)"

definition FromSpec :: "libs \<Rightarrow> AuthSpec \<Rightarrow> Error + 'h Verifier" where
  "FromSpec L spec =
     (let mode = (if trim_space (au_mode spec) = [] then MgmtAuthBearer else trim_space (au_mode spec)) in
      if mode \<noteq> MgmtAuthBearer \<and> mode \<noteq> MgmtAuthDevLoopbackUnauth then
        Inl (ValidationFailed ''unknown auth mode'' [violation ''spec.auth.mode'' ''invalid_value'' ''unknown auth mode''])
      else bindR (compile_tokens L 0 [] (elems (au_tokens spec))) (\<lambda>toks.
        Inr \<lparr>vf_mode = mode, vf_tokens = toks, vf_onChange = []\<rparr>))"

definition Static :: "string \<Rightarrow> string \<Rightarrow> string \<Rightarrow> 'h Verifier" where
  "Static secret tid role =
     (case expandScopes role [] of (r, scopes) \<Rightarrow>
        \<lparr>vf_mode = MgmtAuthBearer,
         vf_tokens = [\<lparr>sk_id = (if tid = [] then ''admin'' else tid), sk_role = r, sk_scopes = scopes,
                       sk_digest = DigestSecret (bytes_of_string secret)\<rparr>],
         vf_onChange = []\<rparr>)"

definition OnIdentityChange :: "'h Verifier \<Rightarrow> 'h \<Rightarrow> 'h Verifier" where
  "OnIdentityChange v h = v\<lparr>vf_onChange := vf_onChange v @ [h]\<rparr>"

section \<open>verifier.go: replacing the index\<close>

definition sameScopes :: "string list \<Rightarrow> string list \<Rightarrow> bool" where
  "sameScopes a b = (sort a = sort b)"

text \<open>The token of an id, the last one where ids repeat.\<close>

definition byID :: "storedToken list \<Rightarrow> string \<Rightarrow> storedToken option" where
  "byID toks i = map_of (rev (map (\<lambda>t. (sk_id t, t)) toks)) i"

definition token_matches :: "storedToken list \<Rightarrow> storedToken \<Rightarrow> bool" where
  "token_matches toks t =
     (case byID toks (sk_id t) of
        None \<Rightarrow> False
      | Some got \<Rightarrow> EqualDigest (sk_digest got) (sk_digest t) \<and> sk_role got = sk_role t
          \<and> sameScopes (sk_scopes got) (sk_scopes t))"

definition Equivalent :: "'h Verifier \<Rightarrow> 'h Verifier \<Rightarrow> bool" where
  "Equivalent v other =
     (vf_mode v = vf_mode other \<and> length (vf_tokens v) = length (vf_tokens other)
      \<and> list_all (token_matches (vf_tokens v)) (vf_tokens other))"

text \<open>The verifier with the new index, and the hooks that fire.\<close>

definition Replace :: "'h Verifier \<Rightarrow> 'h Verifier \<Rightarrow> 'h Verifier \<times> 'h list" where
  "Replace v next =
     (v\<lparr>vf_mode := vf_mode next, vf_tokens := vf_tokens next\<rparr>,
      if Equivalent v next then [] else vf_onChange v)"

text \<open>The text of the refusal to bind a listener that would accept everyone, or None.\<close>

definition RequireListen :: "'h Verifier option \<Rightarrow> string option" where
  "RequireListen ov =
     (case ov of
        None \<Rightarrow> Some ''management bind requires a verifier''
      | Some v \<Rightarrow>
          if vf_mode v = MgmtAuthDevLoopbackUnauth then None
          else if vf_mode v = MgmtAuthBearer then
            (if vf_tokens v = [] then Some ''spec.auth.mode bearer requires at least one usable token'' else None)
          else Some (''management bind refused: unknown auth mode '' @ quote (vf_mode v)))"

section \<open>verifier.go: authentication\<close>

record Request =
  rq_Authorization :: string
  rq_RemoteAddr :: string

definition WWWAuthenticate :: "string list" where
  "WWWAuthenticate = [''Bearer realm='' @ [CHR 0x22] @ ''labntp'' @ [CHR 0x22]]"

definition principalOf :: "storedToken \<Rightarrow> Principal" where
  "principalOf t = \<lparr>pn_ID = sk_id t, pn_Class = ClassToken, pn_Role = sk_role t, pn_Scopes = sk_scopes t\<rparr>"

definition loopbackPrincipal :: Principal where
  "loopbackPrincipal = \<lparr>pn_ID = ''loopback'', pn_Class = ClassLoopback, pn_Role = RoleAdministrator, pn_Scopes = allScopes\<rparr>"

definition auth_required :: Error where
  "auth_required = Unauthenticated ''authentication required''"

text \<open>How many digests match and the position of the last that does, without a branch on a match.\<close>

definition lookup_step :: "bytes \<Rightarrow> nat \<times> nat \<Rightarrow> nat \<times> storedToken \<Rightarrow> nat \<times> nat" where
  "lookup_step digest fi it =
     (let eq = (if EqualDigest (sk_digest (snd it)) digest then 1 else 0) in
      (fst fi + eq, snd fi * (1 - eq) + fst it * eq))"

definition lookupBearerLocked :: "'h Verifier \<Rightarrow> string \<Rightarrow> Error + Principal" where
  "lookupBearerLocked v secret =
     (if secret = [] \<or> CHR '' '' \<in> set secret \<or> CHR 0x09 \<in> set secret then Inl auth_required
      else case foldl (lookup_step (DigestSecret (bytes_of_string secret))) (0, 0) (indexed (vf_tokens v)) of
        (found, idx) \<Rightarrow>
          if found \<noteq> 1 then Inl auth_required else Inr (principalOf (vf_tokens v ! idx)))"

definition IsLoopback :: "string \<Rightarrow> bool" where
  "IsLoopback remoteAddr =
     (let host0 = trim_space remoteAddr;
          host = (case split_host_port host0 of Some (h, _) \<Rightarrow> h | None \<Rightarrow> host0) in
      if host = ''localhost'' then True
      else case parse_addr host of None \<Rightarrow> False | Some a \<Rightarrow> is_loopback a)"

definition Authenticate :: "'h Verifier option \<Rightarrow> Request \<Rightarrow> Error + Principal" where
  "Authenticate ov rq =
     (case ov of
        None \<Rightarrow> Inl auth_required
      | Some v \<Rightarrow>
          let h = trim_space (rq_Authorization rq) in
          if h = [] then
            (if vf_mode v = MgmtAuthDevLoopbackUnauth \<and> IsLoopback (rq_RemoteAddr rq) then Inr loopbackPrincipal
             else Inl auth_required)
          else case cut_at CHR '' '' h of
            None \<Rightarrow> Inl auth_required
          | Some (scheme, rest) \<Rightarrow>
              if \<not> equal_fold scheme ''Bearer'' then Inl auth_required
              else lookupBearerLocked v (trim_space rest))"

definition AuthenticateBearer :: "'h Verifier option \<Rightarrow> string \<Rightarrow> Error + Principal" where
  "AuthenticateBearer ov secret =
     (case ov of None \<Rightarrow> Inl auth_required | Some v \<Rightarrow> lookupBearerLocked v (trim_space secret))"

section \<open>origin.go\<close>

definition origin_denied :: Error where
  "origin_denied = Forbidden ''origin is not allowed''"

definition trim_slashes :: "string \<Rightarrow> string" where
  "trim_slashes s = rev (dropWhile (\<lambda>c. c = CHR ''/'') (rev s))"

definition originMatches :: "string \<Rightarrow> string \<Rightarrow> bool" where
  "originMatches got want = equal_fold (trim_slashes (trim_space got)) (trim_slashes (trim_space want))"

definition isLoopbackHost :: "string \<Rightarrow> bool" where
  "isLoopbackHost host =
     (let h = trim_space host in
      if h = ''localhost'' then True
      else case parse_ip h of None \<Rightarrow> False | Some ip \<Rightarrow> is_loopback ip)"

text \<open>The refusal of an origin, or None.\<close>

definition CheckOrigin :: "string \<Rightarrow> string list \<Rightarrow> Error option" where
  "CheckOrigin origin0 allowlist =
     (let origin = trim_space origin0 in
      if origin = [] then None
      else case parse_url origin of
        None \<Rightarrow> Some origin_denied
      | Some u \<Rightarrow>
          if u_host u = [] then Some origin_denied
          else let scheme = to_lower (u_scheme u) in
            if scheme \<noteq> ''http'' \<and> scheme \<noteq> ''https'' then Some origin_denied
            else if isLoopbackHost (hostname u) then None
            else if list_ex (originMatches origin) allowlist then None
            else Some origin_denied)"

end
