(* ===== verification/Session.thy ===== *)
theory Session
  imports Auth
begin

text \<open>
  session.go of \<^verbatim>\<open>internal/auth\<close>: the table of browser sessions. A Go map is an association
  list whose order stands for the iteration order. Random bytes and clock readings are arguments
  (a failed draw is None); each operation holds the mutex from its first access to its last.
\<close>

definition CookieName :: string where "CookieName = ''labntp_session''"
definition CSRFHeader :: string where "CSRFHeader = ''X-LabNTP-CSRF''"
definition cookiePath :: string where "cookiePath = ''/''"

record SessionConfig =
  sc_Idle :: duration
  sc_Absolute :: duration
  sc_Max :: int

definition DefaultSessionConfig :: SessionConfig where
  "DefaultSessionConfig = \<lparr>sc_Idle = 4 * hour, sc_Absolute = 12 * hour, sc_Max = 64\<rparr>"

record Session =
  se_ID :: string
  se_TokenID :: string
  se_Role :: string
  se_Scopes :: "string list"
  se_CreatedAt :: gotime
  se_LastSeen :: gotime

record sess_record =
  sr_public :: Session
  sr_csrf :: string
  sr_createdAt :: gotime
  sr_lastSeen :: gotime

record SessionStore =
  ss_sessions :: "(string \<times> sess_record) list"
  ss_cfg :: SessionConfig

definition NewStore :: "SessionConfig \<Rightarrow> SessionStore" where
  "NewStore cfg =
     \<lparr>ss_sessions = [],
      ss_cfg = \<lparr>sc_Idle = (if sc_Idle cfg \<le> 0 then sc_Idle DefaultSessionConfig else sc_Idle cfg),
                sc_Absolute = (if sc_Absolute cfg \<le> 0 then sc_Absolute DefaultSessionConfig else sc_Absolute cfg),
                sc_Max = (if sc_Max cfg \<le> 0 then sc_Max DefaultSessionConfig else sc_Max cfg)\<rparr>\<rparr>"

section \<open>Expiry and eviction\<close>

definition expiredLocked :: "SessionStore \<Rightarrow> sess_record \<Rightarrow> gotime \<Rightarrow> bool" where
  "expiredLocked s rec now =
     (if t_sub now (sr_lastSeen rec) > sc_Idle (ss_cfg s) then True
      else t_sub now (sr_createdAt rec) > sc_Absolute (ss_cfg s))"

definition expireLocked :: "SessionStore \<Rightarrow> gotime \<Rightarrow> SessionStore" where
  "expireLocked s now = s\<lparr>ss_sessions := filter (\<lambda>(k, rec). \<not> expiredLocked s rec now) (ss_sessions s)\<rparr>"

text \<open>The key and the last sighting of the session seen least recently, the first of them in iteration order.\<close>

definition older :: "string \<times> sess_record \<Rightarrow> (string \<times> gotime) option \<Rightarrow> (string \<times> gotime) option" where
  "older kr acc =
     (case acc of
        None \<Rightarrow> Some (fst kr, sr_lastSeen (snd kr))
      | Some (k0, oldest) \<Rightarrow>
          if t_before (sr_lastSeen (snd kr)) oldest then Some (fst kr, sr_lastSeen (snd kr)) else acc)"

definition evictOldestLocked :: "SessionStore \<Rightarrow> SessionStore" where
  "evictOldestLocked s =
     (case fold older (ss_sessions s) None of
        None \<Rightarrow> s
      | Some (k, _) \<Rightarrow> if k \<noteq> [] then s\<lparr>ss_sessions := del_key k (ss_sessions s)\<rparr> else s)"

section \<open>Operations\<close>

definition randomHex :: "bytes option \<Rightarrow> Error + string" where
  "randomHex draw =
     (case draw of None \<Rightarrow> Inl (Internal ''session material unavailable'') | Some b \<Rightarrow> Inr (hex_encode b))"

definition new_record :: "Principal \<Rightarrow> string \<Rightarrow> string \<Rightarrow> gotime \<Rightarrow> sess_record" where
  "new_record p csrf publicID now =
     \<lparr>sr_public = \<lparr>se_ID = publicID, se_TokenID = pn_ID p, se_Role = pn_Role p, se_Scopes = pn_Scopes p,
                   se_CreatedAt = now, se_LastSeen = now\<rparr>,
      sr_csrf = csrf, sr_createdAt = now, sr_lastSeen = now\<rparr>"

text \<open>The three draws are the cookie and the CSRF secret, of 32 bytes, and the public id, of 16.\<close>

record draws =
  dr_cookie :: "bytes option"
  dr_csrf :: "bytes option"
  dr_public :: "bytes option"

definition Create :: "gotime \<Rightarrow> draws \<Rightarrow> SessionStore \<Rightarrow> Principal \<Rightarrow> SessionStore \<times> (Error + string \<times> string \<times> Session)" where
  "Create now d s p =
     (case bindR (randomHex (dr_cookie d)) (\<lambda>cookie.
             bindR (randomHex (dr_csrf d)) (\<lambda>csrf.
               bindR (randomHex (dr_public d)) (\<lambda>publicID. Inr (cookie, csrf, publicID)))) of
        Inl e \<Rightarrow> (s, Inl e)
      | Inr (cookie, csrf, publicID) \<Rightarrow>
          let rec = new_record p csrf publicID now;
              s1 = expireLocked s now;
              s2 = (if int (length (ss_sessions s1)) \<ge> sc_Max (ss_cfg s1) then evictOldestLocked s1 else s1)
          in (s2\<lparr>ss_sessions := put_key cookie rec (ss_sessions s2)\<rparr>, Inr (cookie, csrf, sr_public rec)))"

definition touch :: "gotime \<Rightarrow> sess_record \<Rightarrow> sess_record" where
  "touch now rec = rec\<lparr>sr_lastSeen := now, sr_public := (sr_public rec)\<lparr>se_LastSeen := now\<rparr>\<rparr>"

definition LookupSession :: "gotime \<Rightarrow> SessionStore \<Rightarrow> string \<Rightarrow> SessionStore \<times> (Session \<times> string) option" where
  "LookupSession now s cookie =
     (if cookie = [] then (s, None)
      else case map_of (ss_sessions s) cookie of
        None \<Rightarrow> (s, None)
      | Some rec \<Rightarrow>
          if expiredLocked s rec now then (s\<lparr>ss_sessions := del_key cookie (ss_sessions s)\<rparr>, None)
          else let rec' = touch now rec in
            (s\<lparr>ss_sessions := put_key cookie rec' (ss_sessions s)\<rparr>, Some (sr_public rec', sr_csrf rec')))"

definition DeleteSession :: "SessionStore \<Rightarrow> string \<Rightarrow> SessionStore" where
  "DeleteSession s cookie = (if cookie = [] then s else s\<lparr>ss_sessions := del_key cookie (ss_sessions s)\<rparr>)"

definition Clear :: "SessionStore \<Rightarrow> SessionStore" where
  "Clear s = s\<lparr>ss_sessions := []\<rparr>"

definition ValidCSRF :: "gotime \<Rightarrow> SessionStore \<Rightarrow> string \<Rightarrow> string \<Rightarrow> SessionStore \<times> bool" where
  "ValidCSRF now s cookie presented =
     (if cookie = [] \<or> presented = [] then (s, False)
      else case map_of (ss_sessions s) cookie of
        None \<Rightarrow> (s, False)
      | Some rec \<Rightarrow>
          if expiredLocked s rec now then (s\<lparr>ss_sessions := del_key cookie (ss_sessions s)\<rparr>, False)
          else (s, EqualDigest (DigestSecret (bytes_of_string (sr_csrf rec))) (DigestSecret (bytes_of_string presented))))"

definition ExpiresAt :: "SessionStore \<Rightarrow> Session \<Rightarrow> gotime" where
  "ExpiresAt s sess =
     (let idle = t_add (se_LastSeen sess) (sc_Idle (ss_cfg s));
          ab = t_add (se_CreatedAt sess) (sc_Absolute (ss_cfg s))
      in if t_before idle ab then idle else ab)"

definition MaxAge :: "SessionStore option \<Rightarrow> int" where
  "MaxAge os =
     (case os of
        None \<Rightarrow> f_to_i64 (dur_seconds (sc_Absolute DefaultSessionConfig))
      | Some s \<Rightarrow> f_to_i64 (dur_seconds (sc_Absolute (ss_cfg s))))"

section \<open>Cookies\<close>

record Cookie =
  ck_Name :: string
  ck_Value :: string
  ck_Path :: string
  ck_Expires :: "gotime option"
  ck_MaxAge :: int
  ck_Secure :: bool
  ck_HttpOnly :: bool
  ck_SameSite :: string

definition NewSessionCookie :: "string \<Rightarrow> bool \<Rightarrow> int \<Rightarrow> Cookie" where
  "NewSessionCookie value secure maxAge =
     \<lparr>ck_Name = CookieName, ck_Value = value, ck_Path = cookiePath, ck_Expires = None, ck_MaxAge = maxAge,
      ck_Secure = secure, ck_HttpOnly = True, ck_SameSite = ''Lax''\<rparr>"

definition ClearSessionCookie :: "bool \<Rightarrow> Cookie" where
  "ClearSessionCookie secure = (NewSessionCookie [] secure (-1))\<lparr>ck_Expires := Some (wall_time 0)\<rparr>"

definition CookieSecure :: "bool \<Rightarrow> bool \<Rightarrow> bool" where
  "CookieSecure tls force = (if force then True else tls)"

definition UnsafeMethod :: "string \<Rightarrow> bool" where
  "UnsafeMethod meth = (meth = ''POST'' \<or> meth = ''PUT'' \<or> meth = ''PATCH'' \<or> meth = ''DELETE'')"

definition PrincipalFromSession :: "Session \<Rightarrow> Principal" where
  "PrincipalFromSession sess =
     \<lparr>pn_ID = se_TokenID sess, pn_Class = ClassToken, pn_Role = se_Role sess, pn_Scopes = se_Scopes sess\<rparr>"

end
