(* ===== verification/Auth_Props.thy ===== *)
theory Auth_Props
  imports Auth
begin

text \<open>
  What the verifier promises: who is authenticated and as whom, which secrets of a document work,
  when a reload counts as a change of identity, and what a scope list grants.
\<close>

lemma EqualDigest_iff [simp]: "EqualDigest a b \<longleftrightarrow> a = b"
  by (auto simp: EqualDigest_def ct_diff_zero)

section \<open>Scopes\<close>

lemma any_scope_iff: "any_scope ss want \<longleftrightarrow> ScopeNTPAdmin \<in> set ss \<or> want \<in> set ss"
  by (induction ss) auto

lemma AuthorizeScopes_None:
  "AuthorizeScopes ss required = None \<longleftrightarrow>
     (\<forall>want \<in> set required. want = [] \<or> ScopeNTPAdmin \<in> set ss \<or> want \<in> set ss)"
  by (induction required) (auto simp: HasScope_def any_scope_iff)

section \<open>The index of tokens\<close>

abbreviation holders :: "storedToken list \<Rightarrow> bytes \<Rightarrow> storedToken list" where
  "holders toks d \<equiv> filter (\<lambda>t. sk_digest t = d) toks"

lemma lookup_found:
  "fst (foldl (lookup_step d) fi (enumerate n toks)) = fst fi + length (holders toks d)"
  by (induction toks arbitrary: fi n) (simp_all add: lookup_step_def Let_def)

lemma lookup_none:
  "holders toks d = [] \<Longrightarrow> foldl (lookup_step d) fi (enumerate n toks) = fi"
  by (induction toks arbitrary: fi n) (auto simp: lookup_step_def Let_def split: if_splits)

lemma lookup_one:
  assumes "holders toks d = [t]"
  shows "foldl (lookup_step d) (0, 0) (indexed toks) = (1, i) \<Longrightarrow> toks ! i = t"
proof -
  obtain xs ys where toks: "toks = xs @ t # ys" "holders xs d = []" "holders ys d = []" "sk_digest t = d"
    using assms by (auto simp: filter_eq_Cons_iff filter_empty_conv empty_filter_conv)
  assume "foldl (lookup_step d) (0, 0) (indexed toks) = (1, i)"
  moreover have "indexed toks = enumerate 0 toks" by (simp add: indexed_def enumerate_eq_zip)
  ultimately show ?thesis using toks
    by (auto simp: enumerate_append_eq lookup_none lookup_step_def nth_append)
qed

definition is_secret :: "string \<Rightarrow> bool" where
  "is_secret s = (s \<noteq> [] \<and> CHR '' '' \<notin> set s \<and> CHR 0x09 \<notin> set s)"

lemma lookupBearerLocked_Inr:
  "lookupBearerLocked v s = Inr p \<longleftrightarrow>
     is_secret s \<and> (\<exists>t. holders (vf_tokens v) (DigestSecret (bytes_of_string s)) = [t] \<and> p = principalOf t)"
proof -
  let ?d = "DigestSecret (bytes_of_string s)"
  obtain f i where fi: "foldl (lookup_step ?d) (0, 0) (indexed (vf_tokens v)) = (f, i)" by fastforce
  then have f: "f = length (holders (vf_tokens v) ?d)"
    using lookup_found [of ?d "(0, 0)" 0 "vf_tokens v"] by (simp add: indexed_def enumerate_eq_zip)
  show ?thesis
  proof (cases "f = 1")
    case True
    then obtain t where t: "holders (vf_tokens v) ?d = [t]" using f by (auto simp: length_Suc_conv)
    with fi True have "vf_tokens v ! i = t" by (simp add: lookup_one)
    then show ?thesis using fi True t by (auto simp: lookupBearerLocked_def is_secret_def)
  qed (use fi f in \<open>auto simp: lookupBearerLocked_def is_secret_def\<close>)
qed

text \<open>C20: authentication is exact. A request is authenticated only in two ways: with no Authorization at
  all, from a loopback address and only in the development mode, as the loopback administrator; or
  with a bearer secret whose SHA-256 digest is that of exactly one token, as that token.\<close>

theorem Authenticate_iff:
  "Authenticate (Some v) rq = Inr p \<longleftrightarrow>
     (trim_space (rq_Authorization rq) = [] \<and> vf_mode v = MgmtAuthDevLoopbackUnauth
        \<and> IsLoopback (rq_RemoteAddr rq) \<and> p = loopbackPrincipal)
     \<or> (\<exists>scheme rest t. cut_at CHR '' '' (trim_space (rq_Authorization rq)) = Some (scheme, rest)
          \<and> equal_fold scheme ''Bearer'' \<and> is_secret (trim_space rest)
          \<and> holders (vf_tokens v) (DigestSecret (bytes_of_string (trim_space rest))) = [t]
          \<and> p = principalOf t)"
  by (auto simp: Authenticate_def Let_def lookupBearerLocked_Inr auth_required_def split: option.splits)


section \<open>Trimmed text\<close>

lemma lspace_take: "lspace s = 0 \<Longrightarrow> lspace (take n s) = 0"
  by (cases s rule: lspace.cases; cases n; cases "n - 1"; cases "n - 2") (auto split: if_splits)

lemma trim_left_start: "lspace (trim_left s) = 0"
  by (induction s rule: trim_left.induct) (subst trim_left.simps, simp)

lemma trim_right_drop: "\<exists>k. trim_right_rev s = drop k s"
proof (induction s rule: trim_right_rev.induct)
  case (1 s)
  show ?case
  proof (cases "0 < rspace s")
    case True
    with 1 obtain k where "trim_right_rev (drop (rspace s) s) = drop k (drop (rspace s) s)" by blast
    then show ?thesis using True by (subst trim_right_rev.simps) auto
  qed (subst trim_right_rev.simps, auto intro: exI [of _ 0])
qed

lemma trim_right_end: "rspace (trim_right_rev s) = 0"
  by (induction s rule: trim_right_rev.induct) (subst trim_right_rev.simps, simp)

lemma trim_space_idem [simp]: "trim_space (trim_space s) = trim_space s"
proof -
  let ?u = "trim_left s"
  obtain k where "trim_right_rev (rev ?u) = drop k (rev ?u)" using trim_right_drop by blast
  then have r: "trim_space s = take (length ?u - k) ?u" by (simp add: trim_space_def drop_rev)
  then have "trim_left (trim_space s) = trim_space s"
    using lspace_take [OF trim_left_start] by (subst trim_left.simps) simp
  moreover have "trim_right_rev (rev (trim_space s)) = rev (trim_space s)"
    using trim_right_end by (subst trim_right_rev.simps) (simp add: trim_space_def)
  ultimately show ?thesis by (simp add: trim_space_def [of "trim_space s"])
qed

section \<open>Documents\<close>

text \<open>What a token of the document becomes.\<close>

definition token_of :: "libs \<Rightarrow> TokenSpec \<Rightarrow> storedToken \<Rightarrow> bool" where
  "token_of L tok t =
     (\<exists>raw. readSecretFile L (tok_secretFile tok) = Some raw \<and> MinTokenBytes \<le> length raw
        \<and> sk_digest t = DigestSecret raw \<and> sk_id t = trim_space (tok_id tok) \<and> sk_id t \<noteq> []
        \<and> (tok_role tok = [] \<or> KnownRole (tok_role tok))
        \<and> (sk_role t, sk_scopes t) = expandScopes (tok_role tok) (tok_scopes tok))"

definition index_ok :: "storedToken list \<Rightarrow> bool" where
  "index_ok toks = (distinct (map sk_id toks) \<and> distinct (map sk_digest toks))"

lemma compile_token_Inr:
  assumes "compile_token L i seen tok = Inr t"
  shows "token_of L tok t" "sk_id t \<notin> set (map sk_id seen)" "sk_digest t \<notin> set (map sk_digest seen)"
  using assms
  by (auto simp: compile_token_def token_of_def Let_def find_None_iff split: if_splits option.splits prod.splits)

lemma compile_tokens_Inr:
  "compile_tokens L i seen toks = Inr out \<Longrightarrow> index_ok seen \<Longrightarrow>
     index_ok out \<and> (\<exists>new. out = seen @ new \<and> list_all2 (token_of L) toks new)"
proof (induction toks arbitrary: i seen)
  case (Cons tok toks)
  then obtain t where t: "compile_token L i seen tok = Inr t" "compile_tokens L (i + 1) (seen @ [t]) toks = Inr out"
    by (auto simp: bindR_eq_Inr)
  have "index_ok (seen @ [t])" using Cons.prems(2) compile_token_Inr [OF t(1)] by (auto simp: index_ok_def)
  with Cons.IH [OF t(2)] compile_token_Inr(1) [OF t(1)] show ?case by auto
qed simp

lemma FromSpec_Inr:
  assumes "FromSpec L spec = Inr v"
  shows "index_ok (vf_tokens v)" "list_all2 (token_of L) (elems (au_tokens spec)) (vf_tokens v)"
    "vf_mode v \<in> {MgmtAuthBearer, MgmtAuthDevLoopbackUnauth}"
  using assms compile_tokens_Inr [of L 0 "[]" "elems (au_tokens spec)"]
  by (auto simp: FromSpec_def Let_def bindR_eq_Inr index_ok_def split: if_splits)

lemma holders_index:
  assumes "index_ok toks" "t \<in> set toks"
  shows "holders toks (sk_digest t) = [t]"
  using assms
proof (induction toks)
  case (Cons a toks)
  show ?case
  proof (cases "a = t")
    case True
    then have "sk_digest t \<notin> set (map sk_digest toks)" using Cons.prems by (simp add: index_ok_def)
    with True show ?thesis by (auto simp: filter_empty_conv image_iff)
  next
    case False
    then have "t \<in> set toks" "sk_digest a \<noteq> sk_digest t" using Cons.prems by (auto simp: index_ok_def image_iff)
    then show ?thesis using Cons by (simp add: index_ok_def)
  qed
qed simp

lemma holders_single: "index_ok toks \<Longrightarrow> (\<exists>t. holders toks d = [t] \<and> P t) \<longleftrightarrow> (\<exists>t \<in> set toks. sk_digest t = d \<and> P t)"
proof
  assume "\<exists>t. holders toks d = [t] \<and> P t"
  then obtain t where t: "holders toks d = [t]" "P t" by blast
  then have "t \<in> set (holders toks d)" by simp
  with t(2) show "\<exists>t \<in> set toks. sk_digest t = d \<and> P t" by auto
qed (use holders_index in blast)

lemma secret_line_trimmed: "secret_line ls = Some l \<Longrightarrow> trim_space l = l \<and> l \<noteq> []"
  by (induction ls) (auto simp: Let_def split: if_splits)

lemma readSecretFile_line:
  "readSecretFile L path = Some raw \<Longrightarrow> \<exists>line. raw = bytes_of_string line \<and> trim_space line = line"
  by (auto simp: readSecretFile_def dest: secret_line_trimmed split: sum.splits)

lemma AuthenticateBearer_index:
  assumes "index_ok (vf_tokens v)"
  shows "AuthenticateBearer (Some v) s = Inr p \<longleftrightarrow> is_secret (trim_space s) \<and>
      (\<exists>t \<in> set (vf_tokens v). sk_digest t = DigestSecret (bytes_of_string (trim_space s)) \<and> p = principalOf t)"
  using holders_single [OF assms] by (simp add: AuthenticateBearer_def lookupBearerLocked_Inr)

lemma token_works:
  assumes "index_ok (vf_tokens v)" "t \<in> set (vf_tokens v)" "token_of L tok t"
  shows "\<exists>line. readSecretFile L (tok_secretFile tok) = Some (bytes_of_string line)
      \<and> AuthenticateBearer (Some v) line = (if is_secret (trim_space line) then Inr (principalOf t) else Inl auth_required)"
proof -
  obtain raw where raw: "readSecretFile L (tok_secretFile tok) = Some raw" "sk_digest t = DigestSecret raw"
    using assms(3) by (auto simp: token_of_def)
  obtain line where l: "raw = bytes_of_string line" "trim_space line = line" using readSecretFile_line [OF raw(1)] by blast
  show ?thesis
  proof (cases "is_secret line")
    case True
    then have "AuthenticateBearer (Some v) line = Inr (principalOf t)"
      using assms(2) l raw(2) by (auto simp: AuthenticateBearer_index [OF assms(1)])
    then show ?thesis using l raw True by auto
  next
    case False
    then have "AuthenticateBearer (Some v) line = Inl auth_required"
      using l by (simp add: AuthenticateBearer_def lookupBearerLocked_def is_secret_def)
    then show ?thesis using l raw False by auto
  qed
qed

lemma token_principal:
  "token_of L tok t \<Longrightarrow> principalOf t = \<lparr>pn_ID = trim_space (tok_id tok), pn_Class = ClassToken,
     pn_Role = fst (expandScopes (tok_role tok) (tok_scopes tok)),
     pn_Scopes = snd (expandScopes (tok_role tok) (tok_scopes tok))\<rparr>"
  by (auto simp: token_of_def principalOf_def) (metis fst_conv snd_conv)+


text \<open>A document with one token, whose secret file has a comment before the secret.\<close>

definition lab_secret :: string where "lab_secret = ''0123456789abcdef0123456789abcdef''"

definition auth_libs :: libs where
  "auth_libs = no_libs\<lparr>lib_read_file := (\<lambda>_. Inr (''# operator'' @ [CHR 0x0A] @ lab_secret))\<rparr>"

definition lab_auth :: AuthSpec where
  "lab_auth = \<lparr>au_mode = [], au_tokens = Some [\<lparr>tok_id = ''op'', tok_role = RoleOperator,
     tok_secretFile = ''/run/secrets/op'', tok_scopes = []\<rparr>]\<rparr>"

definition lab_verifier :: "unit Verifier" where
  "lab_verifier = \<lparr>vf_mode = MgmtAuthBearer, vf_tokens = [\<lparr>sk_id = ''op'', sk_role = RoleOperator,
     sk_scopes = [ScopeNTPRead, ScopeNTPWrite], sk_digest = DigestSecret (bytes_of_string lab_secret)\<rparr>], vf_onChange = []\<rparr>"

lemma bytes_of_string_inject [simp]: "bytes_of_string a = bytes_of_string b \<longleftrightarrow> a = b"
proof -
  have "inj (of_char :: char \<Rightarrow> byte)"
  proof (rule injI)
    fix c d :: char
    assume "(of_char c :: byte) = of_char d"
    then have "unat (word_of_nat (of_char c) :: byte) = unat (word_of_nat (of_char d) :: byte)"
      by (simp add: of_nat_of_char)
    then show "c = d" by (simp add: unat_of_nat)
  qed
  then show ?thesis by (simp add: bytes_of_string_def inj_map_eq_map)
qed

lemma lab_secret_file: "readSecretFile auth_libs path = Some (bytes_of_string lab_secret)"
proof -
  have "secret_line (split_on (CHR 0x0A) (''# operator'' @ [CHR 0x0A] @ lab_secret)) = Some lab_secret" by code_simp
  then show ?thesis by (simp add: readSecretFile_def auth_libs_def)
qed

lemma lab_auth_compiles: "FromSpec auth_libs lab_auth = Inr lab_verifier"
proof -
  have m: "trim_space [] = []" "trim_space ''op'' = ''op''" "length lab_secret = 32"
    "KnownRole RoleOperator" "expandScopes RoleOperator [] = (RoleOperator, [ScopeNTPRead, ScopeNTPWrite])" by code_simp+
  show ?thesis
    by (simp add: FromSpec_def lab_auth_def lab_verifier_def compile_token_def m lab_secret_file MinTokenBytes_def Let_def)
qed


section \<open>Change of identity\<close>

definition identity :: "storedToken \<Rightarrow> string \<times> string \<times> string list \<times> bytes" where
  "identity t = (sk_id t, sk_role t, sort (sk_scopes t), sk_digest t)"

lemma byID_distinct:
  assumes "distinct (map sk_id toks)"
  shows "byID toks i = Some t \<longleftrightarrow> t \<in> set toks \<and> sk_id t = i"
proof -
  have "distinct (map fst (rev (map (\<lambda>t. (sk_id t, t)) toks)))" using assms by (simp add: rev_map [symmetric] o_def)
  then show ?thesis by (simp add: byID_def map_of_eq_Some_iff) (auto simp: image_iff)
qed

lemma token_matches_iff:
  assumes "distinct (map sk_id toks)"
  shows "token_matches toks t \<longleftrightarrow> identity t \<in> identity ` set toks"
proof -
  have "token_matches toks t \<longleftrightarrow> (\<exists>u. byID toks (sk_id t) = Some u \<and> identity u = identity t)"
    by (auto simp: token_matches_def identity_def sameScopes_def byID_def split: option.splits dest!: map_of_SomeD)
  also have "\<dots> \<longleftrightarrow> (\<exists>u \<in> set toks. identity u = identity t)"
    using byID_distinct [OF assms] by (auto simp: identity_def)
  finally show ?thesis by (metis image_iff)
qed

lemma card_identity: "index_ok toks \<Longrightarrow> card (identity ` set toks) = length toks"
proof -
  assume "index_ok toks"
  then have "distinct (map sk_id toks)" by (simp add: index_ok_def)
  then have "distinct (map identity toks)"
    by (auto simp: distinct_map identity_def inj_on_def)
  then show ?thesis by (metis distinct_card length_map set_map)
qed

text \<open>A reload of compiled documents counts as a change of identity, and drops the browser sessions,
  exactly when the mode or the set of tokens (id, role, scopes in any order, digest) differs; the
  order of the tokens in the document does not matter. After it the new document decides.\<close>

theorem Replace_contract:
  assumes "FromSpec L spec = Inr (next :: 'h Verifier)" "FromSpec L' spec' = Inr v0" "v = v0\<lparr>vf_onChange := hooks\<rparr>"
  shows "Replace v next =
    (next\<lparr>vf_onChange := hooks\<rparr>,
     if vf_mode v = vf_mode next \<and> identity ` set (vf_tokens v) = identity ` set (vf_tokens next) then [] else hooks)"
proof -
  have ix: "index_ok (vf_tokens v)" "index_ok (vf_tokens next)"
    using FromSpec_Inr(1) [OF assms(1)] FromSpec_Inr(1) [OF assms(2)] assms(3) by simp_all
  let ?A = "identity ` set (vf_tokens v)" and ?B = "identity ` set (vf_tokens next)"
  have d: "distinct (map sk_id (vf_tokens v))" using ix by (simp add: index_ok_def)
  have "list_all (token_matches (vf_tokens v)) (vf_tokens next)
      \<longleftrightarrow> identity ` set (vf_tokens next) \<subseteq> identity ` set (vf_tokens v)"
    by (auto simp: list_all_iff token_matches_iff [OF d])
  moreover have "?B \<subseteq> ?A \<and> card ?A = card ?B \<longleftrightarrow> ?A = ?B"
    by (metis List.finite_set card_subset_eq finite_imageI subset_refl)
  ultimately have "Equivalent v next \<longleftrightarrow> vf_mode v = vf_mode next \<and> identity ` set (vf_tokens v) = identity ` set (vf_tokens next)"
    unfolding Equivalent_def using card_identity [OF ix(1)] card_identity [OF ix(2)] by metis
  then show ?thesis by (simp add: Replace_def assms(3))
qed

theorem Replace_contract_witness:
  "Replace (lab_verifier\<lparr>vf_onChange := [()]\<rparr>) lab_verifier = (lab_verifier\<lparr>vf_onChange := [()]\<rparr>, [])"
  using Replace_contract [OF lab_auth_compiles lab_auth_compiles refl] by simp

end
