(* ===== verification/Session_Props.thy ===== *)
theory Session_Props
  imports Session Auth_Props
begin

text \<open>
  The session table against its abstract specification: a map from cookies to grants that only
  \<^verbatim>\<open>Create\<close> extends and only \<^verbatim>\<open>Delete\<close> and \<^verbatim>\<open>Clear\<close> cut. The table
  never holds more than that map, nor more sessions than its bound.
\<close>

section \<open>A table that may forget\<close>

text \<open>
  A concrete state that shows at most the entries of an abstract map, whatever it drops on its own
  account (expiry, eviction): each step keeps that.
\<close>

locale forgetful_map =
  fixes ok :: "'s \<Rightarrow> bool"
    and shown :: "'s \<Rightarrow> 'k \<Rightarrow> 'g option"
    and step :: "'op \<Rightarrow> 's \<Rightarrow> 's"
    and spec :: "'op \<Rightarrow> ('k \<Rightarrow> 'g option) \<Rightarrow> ('k \<Rightarrow> 'g option)"
  assumes step_ok: "ok s \<Longrightarrow> ok (step op s)"
    and step_shown: "ok s \<Longrightarrow> shown s \<subseteq>\<^sub>m m \<Longrightarrow> shown (step op s) \<subseteq>\<^sub>m spec op m"
begin

lemma run_ok: "ok s \<Longrightarrow> ok (fold step ops s)"
  by (induction ops arbitrary: s) (simp_all add: step_ok)

lemma run_shown: "ok s \<Longrightarrow> shown s \<subseteq>\<^sub>m m \<Longrightarrow> shown (fold step ops s) \<subseteq>\<^sub>m fold spec ops m"
  by (induction ops arbitrary: s m) (simp_all add: step_ok step_shown)

lemma run_from_empty:
  "ok s \<Longrightarrow> shown s = Map.empty \<Longrightarrow> shown (fold step ops s) k = Some g \<Longrightarrow> fold spec ops Map.empty k = Some g"
  using run_shown [of s Map.empty ops] by (auto simp: map_le_def dom_def)

end

section \<open>The operations as data\<close>

datatype session_op = OCreate gotime draws Principal | OLookup gotime string | ODelete string | OClear
  | OCSRF gotime string string

definition sess_step :: "session_op \<Rightarrow> SessionStore \<Rightarrow> SessionStore" where
  "sess_step op s =
     (case op of
        OCreate now d p \<Rightarrow> fst (Create now d s p)
      | OLookup now c \<Rightarrow> fst (LookupSession now s c)
      | ODelete c \<Rightarrow> DeleteSession s c
      | OClear \<Rightarrow> Clear s
      | OCSRF now c x \<Rightarrow> fst (ValidCSRF now s c x))"

text \<open>What a cookie grants: a principal, its CSRF secret, and when it was made.\<close>

type_synonym grant = "Principal \<times> string \<times> gotime"

definition grant_of :: "sess_record \<Rightarrow> grant" where
  "grant_of rec = (PrincipalFromSession (sr_public rec), sr_csrf rec, sr_createdAt rec)"

definition grants :: "SessionStore \<Rightarrow> string \<Rightarrow> grant option" where
  "grants s c = map_option grant_of (map_of (ss_sessions s) c)"

definition grant_spec :: "session_op \<Rightarrow> (string \<Rightarrow> grant option) \<Rightarrow> (string \<Rightarrow> grant option)" where
  "grant_spec op m =
     (case op of
        OCreate now d p \<Rightarrow>
          (case (dr_cookie d, dr_csrf d, dr_public d) of
             (Some a, Some b, Some _) \<Rightarrow> m(hex_encode a \<mapsto> (p\<lparr>pn_Class := ClassToken\<rparr>, hex_encode b, now))
           | _ \<Rightarrow> m)
      | ODelete c \<Rightarrow> if c = [] then m else m(c := None)
      | OClear \<Rightarrow> Map.empty
      | _ \<Rightarrow> m)"

section \<open>Refinement\<close>

definition sess_ok :: "SessionStore \<Rightarrow> bool" where
  "sess_ok s = keys_distinct (ss_sessions s)"

lemma keys_distinct_filtered: "keys_distinct xs \<Longrightarrow> keys_distinct (filter P xs)"
  by (rule distinct_map_filter)

lemma map_of_filter_le: "keys_distinct xs \<Longrightarrow> map_of (filter P xs) \<subseteq>\<^sub>m map_of xs"
proof -
  assume d: "keys_distinct xs"
  have "map_of (filter P xs) k = Some v \<Longrightarrow> map_of xs k = Some v" for k v
    using map_of_eq_Some_iff [OF d] map_of_eq_Some_iff [OF keys_distinct_filtered [OF d]] by auto
  then show ?thesis by (auto simp: map_le_def dom_def)
qed

lemma grants_filter: "sess_ok s \<Longrightarrow> grants (s\<lparr>ss_sessions := filter P (ss_sessions s)\<rparr>) \<subseteq>\<^sub>m grants s"
  using map_of_filter_le [of "ss_sessions s" P] by (auto simp: grants_def sess_ok_def map_le_def dom_def)

lemma grants_del [simp]:
  "grants (s\<lparr>ss_sessions := del_key c (ss_sessions s)\<rparr>) = (grants s)(c := None)"
  by (auto simp: grants_def)

lemma grants_put [simp]:
  "grants (s\<lparr>ss_sessions := put_key c rec (ss_sessions s)\<rparr>) = (grants s)(c \<mapsto> grant_of rec)"
  by (auto simp: grants_def)

lemma expire_evict:
  assumes "sess_ok s"
  shows "sess_ok (expireLocked s now)" "grants (expireLocked s now) \<subseteq>\<^sub>m grants s"
    "sess_ok (evictOldestLocked s)" "grants (evictOldestLocked s) \<subseteq>\<^sub>m grants s"
  using assms grants_filter [OF assms]
  by (auto simp: expireLocked_def evictOldestLocked_def sess_ok_def keys_distinct_filtered map_le_def split: option.splits)

lemma grant_of_touch [simp]: "grant_of (touch now rec) = grant_of rec"
  by (simp add: grant_of_def touch_def PrincipalFromSession_def)

lemma map_le_update: "m \<subseteq>\<^sub>m n \<Longrightarrow> m(c := x) \<subseteq>\<^sub>m n(c := x)"
  by (auto simp: map_le_def)

lemma map_le_drop: "m(c := None) \<subseteq>\<^sub>m m"
  by (auto simp: map_le_def)

lemma sess_step_ok: "sess_ok s \<Longrightarrow> sess_ok (sess_step op s)"
  using expire_evict(1) [of s] expire_evict(3)
  by (auto simp: sess_step_def Create_def LookupSession_def DeleteSession_def Clear_def ValidCSRF_def Let_def
      split: session_op.splits sum.splits option.splits) (auto simp: sess_ok_def)

lemma Create_grants:
  assumes "sess_ok s"
  shows "grants (fst (Create now d s p)) \<subseteq>\<^sub>m grant_spec (OCreate now d p) (grants s)"
proof -
  let ?s1 = "expireLocked s now"
  let ?s2 = "if int (length (ss_sessions ?s1)) \<ge> sc_Max (ss_cfg ?s1) then evictOldestLocked ?s1 else ?s1"
  have "grants ?s2 \<subseteq>\<^sub>m grants ?s1" using expire_evict(4) [OF expire_evict(1) [OF assms]] by simp
  then have le: "grants ?s2 \<subseteq>\<^sub>m grants s" using expire_evict(2) [OF assms] by (blast intro: map_le_trans)
  have "grant_of (new_record p csrf pub now) = (p\<lparr>pn_Class := ClassToken\<rparr>, csrf, now)" for csrf pub
    by (cases p) (simp add: grant_of_def new_record_def PrincipalFromSession_def)
  then show ?thesis using le
    by (auto simp: Create_def Let_def randomHex_def grant_spec_def split: option.splits intro: map_le_update)
qed

lemma sess_step_grants:
  assumes "sess_ok s" "grants s \<subseteq>\<^sub>m m"
  shows "grants (sess_step op s) \<subseteq>\<^sub>m grant_spec op m"
proof (cases op)
  case (OCreate now d p)
  have "grant_spec (OCreate now d p) (grants s) \<subseteq>\<^sub>m grant_spec (OCreate now d p) m"
    using assms(2) by (auto simp: grant_spec_def intro: map_le_update split: option.splits)
  then show ?thesis using Create_grants [OF assms(1)] OCreate by (auto simp: sess_step_def intro: map_le_trans)
next
  case (OLookup now c)
  have "grants (fst (LookupSession now s c)) \<subseteq>\<^sub>m grants s"
    by (auto simp: LookupSession_def Let_def map_le_drop split: option.splits) (auto simp: map_le_def grants_def)
  then show ?thesis using assms(2) OLookup by (auto simp: sess_step_def grant_spec_def intro: map_le_trans)
next
  case (ODelete c)
  then show ?thesis using assms(2) by (auto simp: sess_step_def grant_spec_def DeleteSession_def intro: map_le_update)
next
  case OClear
  then show ?thesis by (auto simp: sess_step_def grant_spec_def Clear_def grants_def map_le_def)
next
  case (OCSRF now c x)
  have "grants (fst (ValidCSRF now s c x)) \<subseteq>\<^sub>m grants s"
    by (auto simp: ValidCSRF_def map_le_drop split: option.splits)
  then show ?thesis using assms(2) OCSRF by (auto simp: sess_step_def grant_spec_def intro: map_le_trans)
qed

interpretation st: forgetful_map sess_ok grants sess_step grant_spec
  by unfold_locales (simp_all add: sess_step_ok sess_step_grants)

section \<open>What a cookie proves\<close>

lemma NewStore_empty [simp]: "grants (NewStore cfg) = Map.empty" "sess_ok (NewStore cfg)"
  by (auto simp: grants_def NewStore_def sess_ok_def)

lemma cfg_fixed: "ss_cfg (sess_step op s) = ss_cfg s"
  by (auto simp: sess_step_def Create_def LookupSession_def DeleteSession_def Clear_def ValidCSRF_def Let_def
      expireLocked_def evictOldestLocked_def split: session_op.splits sum.splits option.splits)

lemma run_cfg: "ss_cfg (fold sess_step ops s) = ss_cfg s"
  by (induction ops arbitrary: s) (simp_all add: cfg_fixed)

lemma LookupSession_Some:
  "snd (LookupSession now s c) = Some (sess, csrf) \<Longrightarrow>
     \<exists>rec. map_of (ss_sessions s) c = Some rec \<and> \<not> expiredLocked s rec now
       \<and> sess = sr_public (touch now rec) \<and> csrf = sr_csrf (touch now rec)"
  by (auto simp: LookupSession_def Let_def split: option.splits if_splits)


section \<open>The bound of the table\<close>

definition draw_ok :: "session_op \<Rightarrow> bool" where
  "draw_ok op = (case op of OCreate now d p \<Rightarrow> pred_option (\<lambda>b. length b = MinTokenBytes) (dr_cookie d) | _ \<Rightarrow> True)"

definition room :: "SessionStore \<Rightarrow> bool" where
  "room s = (sess_ok s \<and> [] \<notin> fst ` set (ss_sessions s) \<and> 1 \<le> sc_Max (ss_cfg s)
     \<and> int (length (ss_sessions s)) \<le> sc_Max (ss_cfg s))"

lemma older_key: "fold older xs acc = Some (k, t) \<Longrightarrow> k \<in> fst ` set xs \<or> acc = Some (k, t)"
proof (induction xs arbitrary: acc)
  case (Cons x xs)
  have "older x acc = acc \<or> (\<exists>u. older x acc = Some (fst x, u))"
    by (auto simp: older_def split: option.splits)
  then show ?case using Cons.IH [of "older x acc"] Cons.prems by fastforce
qed simp

lemma older_Some: "xs \<noteq> [] \<Longrightarrow> fold older xs None \<noteq> None"
proof -
  have "fold older xs (Some a) \<noteq> None" for xs a
    by (induction xs arbitrary: a) (auto simp: older_def split: if_splits)
  then show "xs \<noteq> [] \<Longrightarrow> fold older xs None \<noteq> None" by (cases xs) (auto simp: older_def)
qed

lemma evict_room:
  assumes "sess_ok s" "[] \<notin> fst ` set (ss_sessions s)" "ss_sessions s \<noteq> []"
  shows "Suc (length (ss_sessions (evictOldestLocked s))) = length (ss_sessions s)"
proof -
  obtain k t where k: "fold older (ss_sessions s) None = Some (k, t)" using older_Some [OF assms(3)] by fastforce
  then have "k \<in> fst ` set (ss_sessions s)" using older_key by fastforce
  moreover from this have "k \<noteq> []" using assms(2) by metis
  ultimately show ?thesis using k assms(1) by (auto simp: evictOldestLocked_def sess_ok_def length_del_key)
qed


lemma fst_filter_subset: "fst ` set (filter P xs) \<subseteq> fst ` set xs"
  by auto

lemma expire_room:
  assumes "room s"
  shows "room (expireLocked s now)"
proof -
  let ?P = "\<lambda>(k, rec). \<not> expiredLocked s rec now"
  have "int (length (filter ?P (ss_sessions s))) \<le> sc_Max (ss_cfg s)"
    using assms length_filter_le [of ?P "ss_sessions s"] unfolding room_def by linarith
  then show ?thesis
    using assms expire_evict(1) [of s now] by (auto simp: room_def expireLocked_def)
qed

lemma evict_keys: "fst ` set (ss_sessions (evictOldestLocked s)) \<subseteq> fst ` set (ss_sessions s)"
  by (auto simp: evictOldestLocked_def dom_del_key split: option.splits)

lemma del_room: "room s \<Longrightarrow> room (s\<lparr>ss_sessions := del_key c (ss_sessions s)\<rparr>)"
  using length_del_key_le [of c "ss_sessions s"] by (auto simp: room_def sess_ok_def dom_del_key)

lemma put_room:
  "room s \<Longrightarrow> c \<noteq> [] \<Longrightarrow> c \<in> fst ` set (ss_sessions s) \<or> int (length (ss_sessions s)) < sc_Max (ss_cfg s) \<Longrightarrow>
     room (s\<lparr>ss_sessions := put_key c rec (ss_sessions s)\<rparr>)"
  by (auto simp: room_def sess_ok_def dom_put_key length_put_key)

lemma Create_room:
  assumes "room s" "pred_option (\<lambda>b. length b = MinTokenBytes) (dr_cookie d)"
  shows "room (fst (Create now d s p))"
proof -
  let ?s1 = "expireLocked s now"
  let ?s2 = "if int (length (ss_sessions ?s1)) \<ge> sc_Max (ss_cfg ?s1) then evictOldestLocked ?s1 else ?s1"
  have r1: "room ?s1" using assms(1) by (rule expire_room)
  have cfg: "ss_cfg (evictOldestLocked ?s1) = ss_cfg ?s1" by (simp add: evictOldestLocked_def split: option.splits)
  have "room ?s2 \<and> int (length (ss_sessions ?s2)) < sc_Max (ss_cfg ?s2)"
  proof (cases "int (length (ss_sessions ?s1)) \<ge> sc_Max (ss_cfg ?s1)")
    case True
    have "Suc (length (ss_sessions (evictOldestLocked ?s1))) = length (ss_sessions ?s1)"
      using r1 True by (intro evict_room) (auto simp: room_def)
    then show ?thesis
      using r1 True evict_keys [of ?s1] expire_evict(3) [of ?s1] by (auto simp: room_def cfg)
  qed (use r1 in auto)
  then have "room (?s2\<lparr>ss_sessions := put_key c rec (ss_sessions ?s2)\<rparr>)" if "c \<noteq> []" for c rec
    using put_room that by blast
  moreover have "dr_cookie d = Some b \<Longrightarrow> hex_encode b \<noteq> []" for b
    using assms(2) by (cases b) (auto simp: hex_encode_def MinTokenBytes_def)
  ultimately show ?thesis using assms(1)
    by (auto simp: Create_def Let_def randomHex_def split: option.splits)
qed

lemma sess_step_room:
  assumes "room s" "draw_ok op"
  shows "room (sess_step op s)"
proof (cases op)
  case (OCreate now d p)
  then show ?thesis using Create_room assms by (simp add: sess_step_def draw_ok_def)
next
  case (OLookup now c)
  then show ?thesis using assms(1) put_room [OF assms(1), of c] del_room [OF assms(1)] map_of_SomeD
    by (fastforce simp: sess_step_def LookupSession_def Let_def image_iff split: option.splits)
next
  case (ODelete c)
  then show ?thesis using assms(1) del_room by (auto simp: sess_step_def DeleteSession_def)
next
  case OClear
  then show ?thesis using assms(1) by (auto simp: sess_step_def Clear_def room_def sess_ok_def)
next
  case (OCSRF now c x)
  then show ?thesis using assms(1) del_room by (auto simp: sess_step_def ValidCSRF_def split: option.splits)
qed

text \<open>The table of sessions is bounded: with cookies drawn as 32 bytes, no sequence of operations makes it
  hold more sessions than its maximum, which is positive whatever the configuration says.\<close>

theorem sessions_bounded:
  assumes "list_all draw_ok ops"
  shows "int (length (ss_sessions (fold sess_step ops (NewStore cfg)))) \<le> (if sc_Max cfg \<le> 0 then 64 else sc_Max cfg)"
proof -
  have "room s \<Longrightarrow> list_all draw_ok ops \<Longrightarrow> room (fold sess_step ops s)" for s
    by (induction ops arbitrary: s) (simp_all add: sess_step_room)
  moreover have "room (NewStore cfg)" by (auto simp: room_def NewStore_def sess_ok_def DefaultSessionConfig_def)
  ultimately have "room (fold sess_step ops (NewStore cfg))" using assms by blast
  then show ?thesis by (simp add: room_def run_cfg) (simp add: NewStore_def DefaultSessionConfig_def split: if_splits)
qed

theorem sessions_bounded_witness:
  "int (length (ss_sessions (fold sess_step
     [OCreate (wall_time 0) \<lparr>dr_cookie = Some (replicate 32 1), dr_csrf = Some [2], dr_public = Some [3]\<rparr> loopbackPrincipal,
      OCreate (wall_time 5) \<lparr>dr_cookie = Some (replicate 32 4), dr_csrf = Some [2], dr_public = Some [3]\<rparr> loopbackPrincipal]
     (NewStore \<lparr>sc_Idle = 0, sc_Absolute = 0, sc_Max = 1\<rparr>)))) \<le> 1"
  using sessions_bounded [of "[OCreate (wall_time 0) \<lparr>dr_cookie = Some (replicate 32 1), dr_csrf = Some [2], dr_public = Some [3]\<rparr> loopbackPrincipal,
      OCreate (wall_time 5) \<lparr>dr_cookie = Some (replicate 32 4), dr_csrf = Some [2], dr_public = Some [3]\<rparr> loopbackPrincipal]"
      "\<lparr>sc_Idle = 0, sc_Absolute = 0, sc_Max = 1\<rparr>"]
  by (simp add: draw_ok_def MinTokenBytes_def)

end
