(* ===== verification/Capabilities.thy ===== *)
theory Capabilities
  imports DomainErr Model
begin

text \<open>
  The package \<^verbatim>\<open>internal/capabilities\<close>: the frozen table that binds each operation to its REST
  route, its MCP tools and its scopes (id.go, capability.go, catalog.go, registry.go), the catalog of
  live and reset-only features (features.go) and the mapping of domain errors to HTTP and JSON-RPC
  (errors.go). Copies made to protect the shared table are the values themselves.
\<close>

section \<open>id.go and capability.go\<close>

definition VersionTag :: string where "VersionTag = ''v1''"

definition HealthLive :: string where "HealthLive = ''health.live''"
definition HealthReady :: string where "HealthReady = ''health.ready''"
definition VersionGet :: string where "VersionGet = ''version.get''"
definition CapabilitiesGet :: string where "CapabilitiesGet = ''capabilities.get''"
definition StatusGet :: string where "StatusGet = ''status.get''"
definition SchemaGet :: string where "SchemaGet = ''schema.get''"
definition FeaturesList :: string where "FeaturesList = ''features.list''"
definition StateGet :: string where "StateGet = ''state.get''"
definition StateValidate :: string where "StateValidate = ''state.validate''"
definition StateExport :: string where "StateExport = ''state.export''"
definition StateReset :: string where "StateReset = ''state.reset''"
definition ChangesPlan :: string where "ChangesPlan = ''changes.plan''"
definition ChangesApply :: string where "ChangesApply = ''changes.apply''"
definition SessionCreate :: string where "SessionCreate = ''session.create''"
definition SessionGet :: string where "SessionGet = ''session.get''"
definition SessionDelete :: string where "SessionDelete = ''session.delete''"
definition FiltersList :: string where "FiltersList = ''filters.list''"
definition FiltersGet :: string where "FiltersGet = ''filters.get''"
definition FiltersPut :: string where "FiltersPut = ''filters.put''"
definition FiltersDelete :: string where "FiltersDelete = ''filters.delete''"
definition ViewsPreview :: string where "ViewsPreview = ''views.preview''"
definition QueriesList :: string where "QueriesList = ''queries.list''"
definition AuditList :: string where "AuditList = ''audit.list''"
definition AuditGet :: string where "AuditGet = ''audit.get''"
definition MetricsGet :: string where "MetricsGet = ''metrics.get''"

lemmas capability_ids = HealthLive_def HealthReady_def VersionGet_def CapabilitiesGet_def StatusGet_def SchemaGet_def FeaturesList_def StateGet_def StateValidate_def StateExport_def StateReset_def ChangesPlan_def ChangesApply_def SessionCreate_def SessionGet_def SessionDelete_def FiltersList_def FiltersGet_def FiltersPut_def FiltersDelete_def ViewsPreview_def QueriesList_def AuditList_def AuditGet_def MetricsGet_def

record RESTBinding =
  rb_Method :: string
  rb_Path :: string

record MCPBinding =
  mb_Tools :: "string list"
  mb_Resources :: "string list"

record Capability =
  cp_ID :: string
  cp_Title :: string
  cp_Version :: string
  cp_Description :: string
  cp_InputSchema :: "string option"
  cp_OutputSchema :: "string option"
  cp_RequiredScopes :: "string list"
  cp_Mutating :: bool
  cp_Idempotent :: bool
  cp_RESTOnly :: bool
  cp_DifferentBinding :: bool
  cp_REST :: "RESTBinding list"
  cp_MCP :: "MCPBinding option"
  cp_ServiceMethods :: "string list"

definition RESTRef :: "RESTBinding \<Rightarrow> string" where
  "RESTRef b = (if rb_Method b = [] then rb_Path b else rb_Method b @ '' '' @ rb_Path b)"

section \<open>catalog.go\<close>

definition TableRowCount :: nat where "TableRowCount = 25"

definition catalog :: "Capability list" where
  "catalog = [
    \<lparr>cp_ID = HealthLive, cp_Title = ''Health live'', cp_Version = VersionTag,
     cp_Description = ''Process liveness. Not an MCP tool.'',
     cp_InputSchema = None, cp_OutputSchema = None, cp_RequiredScopes = [],
     cp_Mutating = False, cp_Idempotent = True, cp_RESTOnly = True, cp_DifferentBinding = False,
     cp_REST = [\<lparr>rb_Method = ''GET'', rb_Path = ''/v1/health/live''\<rparr>],
     cp_MCP = None, cp_ServiceMethods = []\<rparr>,
    \<lparr>cp_ID = HealthReady, cp_Title = ''Health ready'', cp_Version = VersionTag,
     cp_Description = ''NTP bound, snapshot installed, and management bound or explicitly off. Not an MCP tool.'',
     cp_InputSchema = None, cp_OutputSchema = None, cp_RequiredScopes = [],
     cp_Mutating = False, cp_Idempotent = True, cp_RESTOnly = True, cp_DifferentBinding = False,
     cp_REST = [\<lparr>rb_Method = ''GET'', rb_Path = ''/v1/health/ready''\<rparr>],
     cp_MCP = None, cp_ServiceMethods = []\<rparr>,
    \<lparr>cp_ID = VersionGet, cp_Title = ''Version'', cp_Version = VersionTag,
     cp_Description = ''Build and protocol versions.'',
     cp_InputSchema = None, cp_OutputSchema = Some ''Version'', cp_RequiredScopes = [ScopeNTPRead],
     cp_Mutating = False, cp_Idempotent = True, cp_RESTOnly = False, cp_DifferentBinding = False,
     cp_REST = [\<lparr>rb_Method = ''GET'', rb_Path = ''/v1/version''\<rparr>],
     cp_MCP = Some \<lparr>mb_Tools = [''ntp_version_get''], mb_Resources = []\<rparr>, cp_ServiceMethods = [''Version'']\<rparr>,
    \<lparr>cp_ID = CapabilitiesGet, cp_Title = ''Capabilities'', cp_Version = VersionTag,
     cp_Description = ''Capability list and protocol metadata.'',
     cp_InputSchema = None, cp_OutputSchema = Some ''CapabilityView'', cp_RequiredScopes = [ScopeNTPRead],
     cp_Mutating = False, cp_Idempotent = True, cp_RESTOnly = False, cp_DifferentBinding = False,
     cp_REST = [\<lparr>rb_Method = ''GET'', rb_Path = ''/v1/capabilities''\<rparr>],
     cp_MCP = Some \<lparr>mb_Tools = [''ntp_capabilities_get''], mb_Resources = [''labntp://capabilities'']\<rparr>, cp_ServiceMethods = [''Capabilities'']\<rparr>,
    \<lparr>cp_ID = StatusGet, cp_Title = ''Agent status'', cp_Version = VersionTag,
     cp_Description = ''Listeners, revisions, hostTime, and ready.'',
     cp_InputSchema = None, cp_OutputSchema = Some ''Status'', cp_RequiredScopes = [ScopeNTPRead],
     cp_Mutating = False, cp_Idempotent = True, cp_RESTOnly = False, cp_DifferentBinding = False,
     cp_REST = [\<lparr>rb_Method = ''GET'', rb_Path = ''/v1/status''\<rparr>],
     cp_MCP = Some \<lparr>mb_Tools = [''ntp_status_get''], mb_Resources = [''labntp://status'']\<rparr>, cp_ServiceMethods = [''Status'']\<rparr>,
    \<lparr>cp_ID = SchemaGet, cp_Title = ''Config schema'', cp_Version = VersionTag,
     cp_Description = ''Published v1alpha1 config JSON Schema.'',
     cp_InputSchema = None, cp_OutputSchema = None, cp_RequiredScopes = [ScopeNTPRead],
     cp_Mutating = False, cp_Idempotent = True, cp_RESTOnly = False, cp_DifferentBinding = False,
     cp_REST = [\<lparr>rb_Method = ''GET'', rb_Path = ''/v1/schema/config''\<rparr>],
     cp_MCP = Some \<lparr>mb_Tools = [''ntp_schema_get''], mb_Resources = [''labntp://schema/config'']\<rparr>, cp_ServiceMethods = [''ConfigSchema'']\<rparr>,
    \<lparr>cp_ID = FeaturesList, cp_Title = ''Features'', cp_Version = VersionTag,
     cp_Description = ''Frozen live vs reset-only catalog.'',
     cp_InputSchema = None, cp_OutputSchema = Some ''FeatureList'', cp_RequiredScopes = [ScopeNTPRead],
     cp_Mutating = False, cp_Idempotent = True, cp_RESTOnly = False, cp_DifferentBinding = False,
     cp_REST = [\<lparr>rb_Method = ''GET'', rb_Path = ''/v1/features''\<rparr>],
     cp_MCP = Some \<lparr>mb_Tools = [''ntp_features_list''], mb_Resources = [''labntp://features'']\<rparr>, cp_ServiceMethods = [''Features'']\<rparr>,
    \<lparr>cp_ID = StateGet, cp_Title = ''Get state'', cp_Version = VersionTag,
     cp_Description = ''Redacted spec plus revision metadata.'',
     cp_InputSchema = None, cp_OutputSchema = Some ''StateView'', cp_RequiredScopes = [ScopeNTPRead],
     cp_Mutating = False, cp_Idempotent = True, cp_RESTOnly = False, cp_DifferentBinding = False,
     cp_REST = [\<lparr>rb_Method = ''GET'', rb_Path = ''/v1/state''\<rparr>],
     cp_MCP = Some \<lparr>mb_Tools = [''ntp_state_get''], mb_Resources = [''labntp://state'']\<rparr>, cp_ServiceMethods = [''GetState'']\<rparr>,
    \<lparr>cp_ID = StateValidate, cp_Title = ''Validate'', cp_Version = VersionTag,
     cp_Description = ''Validate a candidate document and/or operations without writing.'',
     cp_InputSchema = Some ''ValidateIn'', cp_OutputSchema = Some ''Plan'', cp_RequiredScopes = [ScopeNTPAdmin],
     cp_Mutating = False, cp_Idempotent = True, cp_RESTOnly = False, cp_DifferentBinding = False,
     cp_REST = [\<lparr>rb_Method = ''POST'', rb_Path = ''/v1/state:validate''\<rparr>],
     cp_MCP = Some \<lparr>mb_Tools = [''ntp_state_validate''], mb_Resources = []\<rparr>, cp_ServiceMethods = [''Validate'']\<rparr>,
    \<lparr>cp_ID = StateExport, cp_Title = ''Export'', cp_Version = VersionTag,
     cp_Description = ''Canonical desired-state export plus drift material.'',
     cp_InputSchema = None, cp_OutputSchema = Some ''Export'', cp_RequiredScopes = [ScopeNTPAdmin],
     cp_Mutating = False, cp_Idempotent = True, cp_RESTOnly = False, cp_DifferentBinding = False,
     cp_REST = [\<lparr>rb_Method = ''GET'', rb_Path = ''/v1/state:export''\<rparr>],
     cp_MCP = Some \<lparr>mb_Tools = [''ntp_state_export''], mb_Resources = []\<rparr>, cp_ServiceMethods = [''Export'']\<rparr>,
    \<lparr>cp_ID = StateReset, cp_Title = ''Reset'', cp_Version = VersionTag,
     cp_Description = ''Reread the bootstrap mount, wipe the query log, and swap. Never writes the file.'',
     cp_InputSchema = Some ''ResetIn'', cp_OutputSchema = Some ''ApplyResult'', cp_RequiredScopes = [ScopeNTPAdmin],
     cp_Mutating = True, cp_Idempotent = False, cp_RESTOnly = False, cp_DifferentBinding = False,
     cp_REST = [\<lparr>rb_Method = ''POST'', rb_Path = ''/v1/state:reset''\<rparr>],
     cp_MCP = Some \<lparr>mb_Tools = [''ntp_state_reset''], mb_Resources = []\<rparr>, cp_ServiceMethods = [''Reset'']\<rparr>,
    \<lparr>cp_ID = ChangesPlan, cp_Title = ''Plan'', cp_Version = VersionTag,
     cp_Description = ''Dry-run operations against the active snapshot.'',
     cp_InputSchema = Some ''ChangeIn'', cp_OutputSchema = Some ''Plan'', cp_RequiredScopes = [ScopeNTPAdmin],
     cp_Mutating = False, cp_Idempotent = True, cp_RESTOnly = False, cp_DifferentBinding = False,
     cp_REST = [\<lparr>rb_Method = ''POST'', rb_Path = ''/v1/changes:plan''\<rparr>],
     cp_MCP = Some \<lparr>mb_Tools = [''ntp_change_plan''], mb_Resources = []\<rparr>, cp_ServiceMethods = [''Plan'']\<rparr>,
    \<lparr>cp_ID = ChangesApply, cp_Title = ''Apply'', cp_Version = VersionTag,
     cp_Description = ''Apply operations. expectedRevision is required.'',
     cp_InputSchema = Some ''ChangeIn'', cp_OutputSchema = Some ''ApplyResult'', cp_RequiredScopes = [ScopeNTPAdmin],
     cp_Mutating = True, cp_Idempotent = True, cp_RESTOnly = False, cp_DifferentBinding = False,
     cp_REST = [\<lparr>rb_Method = ''POST'', rb_Path = ''/v1/changes:apply''\<rparr>],
     cp_MCP = Some \<lparr>mb_Tools = [''ntp_change_apply''], mb_Resources = []\<rparr>, cp_ServiceMethods = [''Apply'']\<rparr>,
    \<lparr>cp_ID = SessionCreate, cp_Title = ''Create session'', cp_Version = VersionTag,
     cp_Description = ''Cookie + CSRF session for the operator UI. Accepts bearer.'',
     cp_InputSchema = None, cp_OutputSchema = None, cp_RequiredScopes = [],
     cp_Mutating = True, cp_Idempotent = False, cp_RESTOnly = True, cp_DifferentBinding = False,
     cp_REST = [\<lparr>rb_Method = ''POST'', rb_Path = ''/v1/session''\<rparr>],
     cp_MCP = None, cp_ServiceMethods = []\<rparr>,
    \<lparr>cp_ID = SessionGet, cp_Title = ''Get session'', cp_Version = VersionTag,
     cp_Description = ''Current session principal (cookie or bearer). Cookie path returns CSRF for reload recovery.'',
     cp_InputSchema = None, cp_OutputSchema = None, cp_RequiredScopes = [],
     cp_Mutating = False, cp_Idempotent = True, cp_RESTOnly = True, cp_DifferentBinding = False,
     cp_REST = [\<lparr>rb_Method = ''GET'', rb_Path = ''/v1/session''\<rparr>],
     cp_MCP = None, cp_ServiceMethods = []\<rparr>,
    \<lparr>cp_ID = SessionDelete, cp_Title = ''Delete session'', cp_Version = VersionTag,
     cp_Description = ''Clear the operator UI session cookie.'',
     cp_InputSchema = None, cp_OutputSchema = None, cp_RequiredScopes = [],
     cp_Mutating = True, cp_Idempotent = True, cp_RESTOnly = True, cp_DifferentBinding = False,
     cp_REST = [\<lparr>rb_Method = ''DELETE'', rb_Path = ''/v1/session''\<rparr>],
     cp_MCP = None, cp_ServiceMethods = []\<rparr>,
    \<lparr>cp_ID = FiltersList, cp_Title = ''List filters'', cp_Version = VersionTag,
     cp_Description = ''List first-match filters in document order.'',
     cp_InputSchema = None, cp_OutputSchema = Some ''FilterList'', cp_RequiredScopes = [ScopeNTPRead],
     cp_Mutating = False, cp_Idempotent = True, cp_RESTOnly = False, cp_DifferentBinding = False,
     cp_REST = [\<lparr>rb_Method = ''GET'', rb_Path = ''/v1/filters''\<rparr>],
     cp_MCP = Some \<lparr>mb_Tools = [''ntp_filters_list''], mb_Resources = [''labntp://filters'']\<rparr>, cp_ServiceMethods = [''ListFilters'']\<rparr>,
    \<lparr>cp_ID = FiltersGet, cp_Title = ''Get filter'', cp_Version = VersionTag,
     cp_Description = ''Get one filter by name.'',
     cp_InputSchema = None, cp_OutputSchema = Some ''Filter'', cp_RequiredScopes = [ScopeNTPRead],
     cp_Mutating = False, cp_Idempotent = True, cp_RESTOnly = False, cp_DifferentBinding = False,
     cp_REST = [\<lparr>rb_Method = ''GET'', rb_Path = ''/v1/filters/{name}''\<rparr>],
     cp_MCP = Some \<lparr>mb_Tools = [''ntp_filters_get''], mb_Resources = []\<rparr>, cp_ServiceMethods = [''GetFilter'']\<rparr>,
    \<lparr>cp_ID = FiltersPut, cp_Title = ''Put filter'', cp_Version = VersionTag,
     cp_Description = ''Upsert a filter by name. Goes through the same compile+swap as Apply.'',
     cp_InputSchema = Some ''PutFilterIn'', cp_OutputSchema = Some ''ApplyResult'', cp_RequiredScopes = [ScopeNTPWrite],
     cp_Mutating = True, cp_Idempotent = True, cp_RESTOnly = False, cp_DifferentBinding = False,
     cp_REST = [\<lparr>rb_Method = ''PUT'', rb_Path = ''/v1/filters/{name}''\<rparr>],
     cp_MCP = Some \<lparr>mb_Tools = [''ntp_filters_put''], mb_Resources = []\<rparr>, cp_ServiceMethods = [''PutFilter'']\<rparr>,
    \<lparr>cp_ID = FiltersDelete, cp_Title = ''Delete filter'', cp_Version = VersionTag,
     cp_Description = ''Remove a filter by name. Catch-all remains required.'',
     cp_InputSchema = None, cp_OutputSchema = None, cp_RequiredScopes = [ScopeNTPWrite],
     cp_Mutating = True, cp_Idempotent = True, cp_RESTOnly = False, cp_DifferentBinding = False,
     cp_REST = [\<lparr>rb_Method = ''DELETE'', rb_Path = ''/v1/filters/{name}''\<rparr>],
     cp_MCP = Some \<lparr>mb_Tools = [''ntp_filters_delete''], mb_Resources = []\<rparr>, cp_ServiceMethods = [''DeleteFilter'']\<rparr>,
    \<lparr>cp_ID = ViewsPreview, cp_Title = ''Preview view'', cp_Version = VersionTag,
     cp_Description = ''Compute served virtual time for an IP without sending NTP.'',
     cp_InputSchema = None, cp_OutputSchema = Some ''Preview'', cp_RequiredScopes = [ScopeNTPRead],
     cp_Mutating = False, cp_Idempotent = True, cp_RESTOnly = False, cp_DifferentBinding = False,
     cp_REST = [\<lparr>rb_Method = ''GET'', rb_Path = ''/v1/views/preview''\<rparr>],
     cp_MCP = Some \<lparr>mb_Tools = [''ntp_views_preview''], mb_Resources = []\<rparr>, cp_ServiceMethods = [''Preview'']\<rparr>,
    \<lparr>cp_ID = QueriesList, cp_Title = ''Query log'', cp_Version = VersionTag,
     cp_Description = ''Last-N NTP query ring (authenticated). Reset wipes it.'',
     cp_InputSchema = None, cp_OutputSchema = Some ''QueryList'', cp_RequiredScopes = [ScopeNTPRead],
     cp_Mutating = False, cp_Idempotent = True, cp_RESTOnly = False, cp_DifferentBinding = False,
     cp_REST = [\<lparr>rb_Method = ''GET'', rb_Path = ''/v1/queries''\<rparr>],
     cp_MCP = Some \<lparr>mb_Tools = [''ntp_queries_list''], mb_Resources = []\<rparr>, cp_ServiceMethods = [''ListQueries'']\<rparr>,
    \<lparr>cp_ID = AuditList, cp_Title = ''Audit list'', cp_Version = VersionTag,
     cp_Description = ''Query recent in-memory audit events.'',
     cp_InputSchema = Some ''AuditQuery'', cp_OutputSchema = Some ''AuditList'', cp_RequiredScopes = [ScopeNTPAuditRead],
     cp_Mutating = False, cp_Idempotent = True, cp_RESTOnly = False, cp_DifferentBinding = False,
     cp_REST = [\<lparr>rb_Method = ''GET'', rb_Path = ''/v1/audit''\<rparr>],
     cp_MCP = Some \<lparr>mb_Tools = [''ntp_audit_list''], mb_Resources = [''labntp://audit/recent'']\<rparr>, cp_ServiceMethods = [''QueryAudit'']\<rparr>,
    \<lparr>cp_ID = AuditGet, cp_Title = ''Audit get'', cp_Version = VersionTag,
     cp_Description = ''Get one audit event by ID.'',
     cp_InputSchema = None, cp_OutputSchema = Some ''AuditEvent'', cp_RequiredScopes = [ScopeNTPAuditRead],
     cp_Mutating = False, cp_Idempotent = True, cp_RESTOnly = False, cp_DifferentBinding = False,
     cp_REST = [\<lparr>rb_Method = ''GET'', rb_Path = ''/v1/audit/{eventId}''\<rparr>],
     cp_MCP = Some \<lparr>mb_Tools = [''ntp_audit_get''], mb_Resources = []\<rparr>, cp_ServiceMethods = [''GetAudit'']\<rparr>,
    \<lparr>cp_ID = MetricsGet, cp_Title = ''Metrics'', cp_Version = VersionTag,
     cp_Description = ''OpenMetrics text. Served only when observability.metrics.publicPath is true.'',
     cp_InputSchema = None, cp_OutputSchema = None, cp_RequiredScopes = [ScopeNTPRead],
     cp_Mutating = False, cp_Idempotent = True, cp_RESTOnly = True, cp_DifferentBinding = False,
     cp_REST = [\<lparr>rb_Method = ''GET'', rb_Path = ''/v1/metrics''\<rparr>],
     cp_MCP = None, cp_ServiceMethods = []\<rparr>]"

section \<open>registry.go\<close>

record indexes =
  ix_all :: "Capability list"
  ix_byID :: "(string \<times> Capability) list"
  ix_byREST :: "(string \<times> Capability) list"
  ix_byTool :: "(string \<times> Capability list) list"
  ix_byRes :: "(string \<times> Capability) list"

text \<open>A duplicate REST binding panics at start, which is None.\<close>

fun index_rest :: "Capability \<Rightarrow> RESTBinding list \<Rightarrow> (string \<times> Capability) list \<Rightarrow> (string \<times> Capability) list option" where
  "index_rest c [] m = Some m"
| "index_rest c (b # bs) m =
     (case map_of m (RESTRef b) of Some _ \<Rightarrow> None | None \<Rightarrow> index_rest c bs (m @ [(RESTRef b, c)]))"

definition index_tool :: "Capability \<Rightarrow> string \<Rightarrow> (string \<times> Capability list) list \<Rightarrow> (string \<times> Capability list) list" where
  "index_tool c t m = put_key t ((case map_of m t of None \<Rightarrow> [] | Some cs \<Rightarrow> cs) @ [c]) m"

definition index_res :: "Capability \<Rightarrow> string \<Rightarrow> (string \<times> Capability) list \<Rightarrow> (string \<times> Capability) list" where
  "index_res c r m = (case map_of m r of Some _ \<Rightarrow> m | None \<Rightarrow> m @ [(r, c)])"

fun index_all :: "Capability list \<Rightarrow> indexes \<Rightarrow> indexes option" where
  "index_all [] idx = Some idx"
| "index_all (c # cs) idx =
     (case map_of (ix_byID idx) (cp_ID c) of
        Some _ \<Rightarrow> None
      | None \<Rightarrow>
          (case index_rest c (cp_REST c) (ix_byREST idx) of
             None \<Rightarrow> None
           | Some rest \<Rightarrow>
               let idx1 = idx\<lparr>ix_byID := ix_byID idx @ [(cp_ID c, c)], ix_byREST := rest\<rparr> in
               (case cp_MCP c of
                  None \<Rightarrow> index_all cs idx1
                | Some m \<Rightarrow> index_all cs (idx1\<lparr>ix_byTool := fold (index_tool c) (mb_Tools m) (ix_byTool idx1),
                                            ix_byRes := fold (index_res c) (mb_Resources m) (ix_byRes idx1)\<rparr>))))"

definition newIndexes :: "indexes option" where
  "newIndexes = index_all catalog \<lparr>ix_all = catalog, ix_byID = [], ix_byREST = [], ix_byTool = [], ix_byRes = []\<rparr>"

definition AllCaps :: "indexes \<Rightarrow> Capability list" where
  "AllCaps idx = ix_all idx"

definition LookupCap :: "indexes \<Rightarrow> string \<Rightarrow> Capability option" where
  "LookupCap idx i = map_of (ix_byID idx) i"

definition LookupREST :: "indexes \<Rightarrow> string \<Rightarrow> string \<Rightarrow> Capability option" where
  "LookupREST idx meth path = map_of (ix_byREST idx) (RESTRef \<lparr>rb_Method = meth, rb_Path = path\<rparr>)"

definition LookupTool :: "indexes \<Rightarrow> string \<Rightarrow> Capability list" where
  "LookupTool idx name = (case map_of (ix_byTool idx) name of None \<Rightarrow> [] | Some cs \<Rightarrow> cs)"

definition LookupResource :: "indexes \<Rightarrow> string \<Rightarrow> Capability option" where
  "LookupResource idx uri = map_of (ix_byRes idx) uri"

text \<open>Names in the order they are first seen.\<close>

definition first_seen :: "string list \<Rightarrow> string list" where
  "first_seen xs = fold (\<lambda>x out. if x \<in> set out then out else out @ [x]) xs []"

definition mcp_tools :: "Capability \<Rightarrow> string list" where
  "mcp_tools c = (case cp_MCP c of None \<Rightarrow> [] | Some m \<Rightarrow> mb_Tools m)"

definition mcp_resources :: "Capability \<Rightarrow> string list" where
  "mcp_resources c = (case cp_MCP c of None \<Rightarrow> [] | Some m \<Rightarrow> mb_Resources m)"

definition Tools :: "indexes \<Rightarrow> string list" where
  "Tools idx = first_seen (concat (map mcp_tools (ix_all idx)))"

definition Resources :: "indexes \<Rightarrow> string list" where
  "Resources idx = first_seen (concat (map mcp_resources (ix_all idx)))"

record Discovery =
  dv_Name :: string
  dv_Version :: string
  dv_Description :: string
  dv_Mutating :: bool
  dv_Idempotent :: bool

definition discovery_of :: "Capability \<Rightarrow> string \<Rightarrow> Discovery" where
  "discovery_of c name = \<lparr>dv_Name = name, dv_Version = cp_Version c, dv_Description = cp_Description c,
     dv_Mutating = cp_Mutating c, dv_Idempotent = cp_Idempotent c\<rparr>"

definition discovery_names :: "Capability \<Rightarrow> string list" where
  "discovery_names c = (if cp_RESTOnly c \<or> mcp_tools c = [] then [cp_ID c] else mcp_tools c)"

definition DiscoveryList :: "indexes \<Rightarrow> Discovery list" where
  "DiscoveryList idx =
     fold (\<lambda>d out. if dv_Name d \<in> set (map dv_Name out) then out else out @ [d])
       (concat (map (\<lambda>c. map (discovery_of c) (discovery_names c)) (ix_all idx))) []"

definition SessionCapability :: "string \<Rightarrow> bool" where
  "SessionCapability i = (i = SessionCreate \<or> i = SessionDelete \<or> i = SessionGet)"

text \<open>The first defect of a row, or None.\<close>

definition row_defect :: "Capability \<Rightarrow> string option" where
  "row_defect c =
     (if cp_ID c = [] \<or> cp_Title c = [] \<or> cp_Version c = [] then
        Some (''capability '' @ quote (cp_ID c) @ '' missing id/title/version'')
      else if cp_REST c = [] then Some (cp_ID c @ '': no REST binding'')
      else if cp_RESTOnly c then
        (if mcp_tools c \<noteq> [] \<or> mcp_resources c \<noteq> [] then
           Some (cp_ID c @ '': REST-only row must not declare MCP tools/resources'')
         else None)
      else if cp_DifferentBinding c then
        (if mcp_tools c = [] \<and> mcp_resources c = [] then
           Some (cp_ID c @ '': different-binding row needs MCP tools or resources'')
         else None)
      else if mcp_tools c = [] then Some (cp_ID c @ '': missing MCP tool'')
      else (case find (\<lambda>t. 7 \<le> length t \<and> take 7 t = ''labntp_'') (mcp_tools c) of
              None \<Rightarrow> None
            | Some t \<Rightarrow> Some (cp_ID c @ '': tool '' @ t @ '' must use ntp_ prefix, not labntp_'')))"

fun first_defect :: "Capability list \<Rightarrow> string option" where
  "first_defect [] = None"
| "first_defect (c # cs) = (case row_defect c of Some e \<Rightarrow> Some e | None \<Rightarrow> first_defect cs)"

definition ValidateCatalog :: "indexes \<Rightarrow> string option" where
  "ValidateCatalog idx =
     (if length (AllCaps idx) \<noteq> TableRowCount then
        Some (''catalog has '' @ nat_str (length (AllCaps idx)) @ '' rows, want '' @ nat_str TableRowCount)
      else first_defect (AllCaps idx))"

section \<open>features.go\<close>

definition FeatureApplyLive :: string where "FeatureApplyLive = ''live''"
definition FeatureApplyResetOnly :: string where "FeatureApplyResetOnly = ''reset-only''"

record Feature =
  ft_ID :: string
  ft_Apply :: string
  ft_Path :: string

definition Features :: "Feature list" where
  "Features =
    [\<lparr>ft_ID = ''filters'', ft_Apply = FeatureApplyLive, ft_Path = ''spec.filters''\<rparr>,
     \<lparr>ft_ID = ''views'', ft_Apply = FeatureApplyLive, ft_Path = ''spec.filters[].view''\<rparr>,
     \<lparr>ft_ID = ''restrict'', ft_Apply = FeatureApplyLive, ft_Path = ''spec.ntp.restrict''\<rparr>,
     \<lparr>ft_ID = ''admission'', ft_Apply = FeatureApplyLive, ft_Path = ''spec.ntp.admission''\<rparr>,
     \<lparr>ft_ID = ''allowClientCidrs'', ft_Apply = FeatureApplyLive, ft_Path = ''spec.ntp.allowClientCidrs''\<rparr>,
     \<lparr>ft_ID = ''queryLog'', ft_Apply = FeatureApplyLive, ft_Path = ''spec.ntp.queryLog''\<rparr>,
     \<lparr>ft_ID = ''management.http'', ft_Apply = FeatureApplyLive, ft_Path = ''spec.management.bodyLimit|requestsPerSecond|burst|maxConcurrent''\<rparr>,
     \<lparr>ft_ID = ''listeners.ntp.address'', ft_Apply = FeatureApplyResetOnly, ft_Path = ''spec.listeners.ntp.address''\<rparr>,
     \<lparr>ft_ID = ''listeners.management.address'', ft_Apply = FeatureApplyResetOnly, ft_Path = ''spec.listeners.management.address''\<rparr>,
     \<lparr>ft_ID = ''ntp.nts'', ft_Apply = FeatureApplyResetOnly, ft_Path = ''spec.ntp.nts''\<rparr>,
     \<lparr>ft_ID = ''ntp.symmetricKeys'', ft_Apply = FeatureApplyResetOnly, ft_Path = ''spec.ntp.symmetricKeys''\<rparr>,
     \<lparr>ft_ID = ''auth'', ft_Apply = FeatureApplyResetOnly, ft_Path = ''spec.auth''\<rparr>]"

definition FeatureIDs :: "string list" where
  "FeatureIDs = map ft_ID Features"

section \<open>errors.go\<close>

definition ProblemContentType :: string where "ProblemContentType = ''application/problem+json''"
definition ProblemTypePrefix :: string where "ProblemTypePrefix = ''urn:labntp:error:''"

definition JSONRPCMethodNotFound :: int where "JSONRPCMethodNotFound = -32601"
definition JSONRPCInvalidParams :: int where "JSONRPCInvalidParams = -32602"
definition JSONRPCInternalError :: int where "JSONRPCInternalError = -32603"
definition JSONRPCUnauthenticated :: int where "JSONRPCUnauthenticated = -32001"
definition JSONRPCForbidden :: int where "JSONRPCForbidden = -32003"
definition JSONRPCNotFound :: int where "JSONRPCNotFound = -32004"
definition JSONRPCRateLimited :: int where "JSONRPCRateLimited = -32005"
definition JSONRPCConflict :: int where "JSONRPCConflict = -32009"
definition JSONRPCTimeout :: int where "JSONRPCTimeout = -32010"

lemmas jsonrpc_codes = JSONRPCMethodNotFound_def JSONRPCInvalidParams_def JSONRPCInternalError_def
  JSONRPCUnauthenticated_def JSONRPCForbidden_def JSONRPCNotFound_def JSONRPCRateLimited_def JSONRPCConflict_def
  JSONRPCTimeout_def

record Problem =
  pb_Type :: string
  pb_Title :: string
  pb_Status :: int
  pb_Detail :: string
  pb_Instance :: string
  pb_Code :: code
  pb_Retryable :: bool
  pb_FieldViolations :: "FieldViolation list"
  pb_CurrentRevision :: string
  pb_Remediation :: string

record JSONRPCError =
  je_Code :: int
  je_Message :: string
  je_Data :: Error

record err_mapping =
  mp_Status :: int
  mp_RPC :: int
  mp_Title :: string

definition errorMap :: "(code \<times> err_mapping) list" where
  "errorMap =
    [(CodeValidationFailed, \<lparr>mp_Status = 400, mp_RPC = JSONRPCInvalidParams, mp_Title = ''Validation failed''\<rparr>),
     (CodeUnauthenticated, \<lparr>mp_Status = 401, mp_RPC = JSONRPCUnauthenticated, mp_Title = ''Unauthenticated''\<rparr>),
     (CodeForbidden, \<lparr>mp_Status = 403, mp_RPC = JSONRPCForbidden, mp_Title = ''Forbidden''\<rparr>),
     (CodeNotFound, \<lparr>mp_Status = 404, mp_RPC = JSONRPCNotFound, mp_Title = ''Not Found''\<rparr>),
     (CodeMethodNotAllowed, \<lparr>mp_Status = 405, mp_RPC = JSONRPCMethodNotFound, mp_Title = ''Method not allowed''\<rparr>),
     (CodeRevisionConflict, \<lparr>mp_Status = 409, mp_RPC = JSONRPCConflict, mp_Title = ''State revision conflict''\<rparr>),
     (CodeIdempotencyConflict, \<lparr>mp_Status = 409, mp_RPC = JSONRPCConflict, mp_Title = ''Idempotency key conflict''\<rparr>),
     (CodeRateLimited, \<lparr>mp_Status = 429, mp_RPC = JSONRPCRateLimited, mp_Title = ''Rate limited''\<rparr>),
     (CodeTimeout, \<lparr>mp_Status = 504, mp_RPC = JSONRPCTimeout, mp_Title = ''Timeout''\<rparr>),
     (CodeInternalError, \<lparr>mp_Status = 500, mp_RPC = JSONRPCInternalError, mp_Title = ''Internal error''\<rparr>)]"

definition lookupMapping :: "code \<Rightarrow> err_mapping" where
  "lookupMapping c =
     (case map_of errorMap c of
        Some m \<Rightarrow> m
      | None \<Rightarrow> \<lparr>mp_Status = 500, mp_RPC = JSONRPCInternalError, mp_Title = ''Internal error''\<rparr>)"

definition ProblemTypeURN :: "code \<Rightarrow> string" where
  "ProblemTypeURN c = ProblemTypePrefix @ map (\<lambda>x. if x = CHR ''_'' then CHR ''-'' else x) c"

definition HTTPStatus :: "code \<Rightarrow> int" where
  "HTTPStatus c = mp_Status (lookupMapping c)"

text \<open>An error that is not of \<^verbatim>\<open>domainerr\<close> is None.\<close>

definition domainOf :: "Error option \<Rightarrow> Error" where
  "domainOf err = (case err of Some e \<Rightarrow> e | None \<Rightarrow> Internal ''internal error'')"

definition ProblemFrom :: "Error option \<Rightarrow> string \<Rightarrow> Problem" where
  "ProblemFrom err instance_urn =
     (let de = domainOf err; m = lookupMapping (err_code de) in
      \<lparr>pb_Type = ProblemTypeURN (err_code de), pb_Title = mp_Title m, pb_Status = mp_Status m,
       pb_Detail = err_message de, pb_Instance = instance_urn, pb_Code = err_code de, pb_Retryable = err_retryable de,
       pb_FieldViolations = err_violations de, pb_CurrentRevision = err_currentRevision de, pb_Remediation = err_remediation de\<rparr>)"

definition JSONRPCFrom :: "Error option \<Rightarrow> JSONRPCError" where
  "JSONRPCFrom err =
     (let de = domainOf err;
          msg = (if err_message de = [] then mp_Title (lookupMapping (err_code de)) else err_message de)
      in \<lparr>je_Code = mp_RPC (lookupMapping (err_code de)), je_Message = msg, je_Data = de\<rparr>)"

end
