(* ===== verification/Rest_Http.thy ===== *)
theory Rest_Http
  imports Session Capabilities Reads
begin

text \<open>
  The pure parts of \<^verbatim>\<open>internal/control/rest\<close>: routing (mux.go), the decoding of request
  bodies (request.go), the encoding of answers (encode.go, errors.go, dto.go) and the paths kept from
  the browser interface (spa.go). A request is what \<^verbatim>\<open>net/http\<close> hands to the handler, with
  its query and its session cookie parsed.
\<close>

section \<open>Requests and answers\<close>

record HttpRequest =
  hr_method :: string
  hr_path :: string
  hr_query :: "(string \<times> string) list"
  hr_header :: "(string \<times> string) list"
  hr_remote :: string
  hr_cookie :: "string option"
  hr_tls :: bool
  hr_body :: string

record Response =
  rp_status :: int
  rp_headers :: "(string \<times> string) list"
  rp_cookies :: "Cookie list"
  rp_body :: string

definition first_value :: "(string \<times> string) list \<Rightarrow> string \<Rightarrow> string" where
  "first_value m k = (case map_of m k of None \<Rightarrow> [] | Some v \<Rightarrow> v)"

definition header :: "HttpRequest \<Rightarrow> string \<Rightarrow> string" where
  "header r k = first_value (hr_header r) k"

definition query :: "HttpRequest \<Rightarrow> string \<Rightarrow> string" where
  "query r k = first_value (hr_query r) k"

definition headerRequestID :: string where "headerRequestID = ''X-Request-ID''"
definition headerIdempotency :: string where "headerIdempotency = ''Idempotency-Key''"
definition headerIfMatch :: string where "headerIfMatch = ''If-Match''"
definition headerExpected :: string where "headerExpected = ''X-LabNTP-Expected-Revision''"
definition headerRevision :: string where "headerRevision = ''X-LabNTP-Revision''"
definition headerAllow :: string where "headerAllow = ''Allow''"
definition requestURNPrefix :: string where "requestURNPrefix = ''urn:labntp:request:''"

section \<open>mux.go\<close>

record pathSeg =
  sg_wild :: string
  sg_lit :: string
  sg_suffix :: string

record compiledRoute =
  rt_method :: string
  rt_path :: string
  rt_segs :: "pathSeg list"
  rt_cap :: Capability

definition trim_prefix_slash :: "string \<Rightarrow> string" where
  "trim_prefix_slash p = (case p of c # s \<Rightarrow> if c = CHR ''/'' then s else p | [] \<Rightarrow> [])"

definition compile_seg :: "string \<Rightarrow> pathSeg" where
  "compile_seg p =
     (case (first_index CHR 0x7B p, first_index CHR 0x7D p) of
        (Some i, Some j) \<Rightarrow>
          if i < j then \<lparr>sg_wild = take (j - (i + 1)) (drop (i + 1) p), sg_lit = take i p, sg_suffix = drop (j + 1) p\<rparr>
          else \<lparr>sg_wild = [], sg_lit = p, sg_suffix = []\<rparr>
      | _ \<Rightarrow> \<lparr>sg_wild = [], sg_lit = p, sg_suffix = []\<rparr>)"

definition path_parts :: "string \<Rightarrow> string list" where
  "path_parts p = (let q = trim_prefix_slash p in if q = [] then [] else split_on CHR ''/'' q)"

definition compilePath :: "string \<Rightarrow> pathSeg list" where
  "compilePath path = map compile_seg (path_parts path)"

definition compileRoutes :: "Capability list \<Rightarrow> compiledRoute list" where
  "compileRoutes caps =
     concat (map (\<lambda>c. map (\<lambda>b. \<lparr>rt_method = to_upper (rb_Method b), rt_path = rb_Path b,
                                rt_segs = compilePath (rb_Path b), rt_cap = c\<rparr>) (cp_REST c)) caps)"

text \<open>
  Matching fails (\<open>Some None\<close>), gives the parameters, or panics (None): the slice between the literal
  and the suffix is out of range when they overlap in the text.
\<close>

fun match_parts :: "pathSeg list \<Rightarrow> string list \<Rightarrow> (string \<times> string) list \<Rightarrow> (string \<times> string) list option option" where
  "match_parts [] [] params = Some (Some params)"
| "match_parts (seg # segs) (p # ps) params =
     (if sg_wild seg = [] then (if p \<noteq> sg_lit seg then Some None else match_parts segs ps params)
      else if \<not> has_prefix p (sg_lit seg) \<or> \<not> has_suffix p (sg_suffix seg) then Some None
      else if length p < length (sg_lit seg) + length (sg_suffix seg) then None
      else let val = take (length p - length (sg_suffix seg) - length (sg_lit seg)) (drop (length (sg_lit seg)) p) in
        if val = [] then Some None else match_parts segs ps (put_key (sg_wild seg) val params))"
| "match_parts _ _ params = Some None"

definition matchSegs :: "pathSeg list \<Rightarrow> string \<Rightarrow> (string \<times> string) list option option" where
  "matchSegs segs path =
     (let parts = path_parts path in
      if length parts \<noteq> length segs then Some None else match_parts segs parts [])"

text \<open>The route of a request with its parameters; or, where only the path fits, the last such route.\<close>

fun match_from :: "compiledRoute list \<Rightarrow> string \<Rightarrow> string \<Rightarrow> compiledRoute option \<Rightarrow>
    (compiledRoute option \<times> (string \<times> string) list option) option" where
  "match_from [] meth path near = Some (near, None)"
| "match_from (rt # rts) meth path near =
     (case matchSegs (rt_segs rt) path of
        None \<Rightarrow> None
      | Some None \<Rightarrow> match_from rts meth path near
      | Some (Some params) \<Rightarrow>
          if rt_method rt = meth then Some (Some rt, Some params) else match_from rts meth path (Some rt))"

definition matchRoute :: "compiledRoute list \<Rightarrow> string \<Rightarrow> string \<Rightarrow> (compiledRoute option \<times> (string \<times> string) list option) option" where
  "matchRoute routes meth path = match_from routes (to_upper meth) path None"

definition allowedMethods :: "compiledRoute list \<Rightarrow> string \<Rightarrow> string" where
  "allowedMethods routes path =
     sep_by '', '' (first_seen (map rt_method
       (filter (\<lambda>rt. case matchSegs (rt_segs rt) path of Some (Some _) \<Rightarrow> True | _ \<Rightarrow> False) routes)))"

section \<open>spa.go\<close>

text \<open>\<^verbatim>\<open>path.Clean\<close> of a rooted path: empty and dot elements go, a double dot takes its parent.\<close>

definition clean_elems :: "string \<Rightarrow> string list" where
  "clean_elems p =
     rev (fold (\<lambda>e acc. if e = [] \<or> e = ''.'' then acc else if e = ''..'' then drop 1 acc else e # acc)
            (split_on CHR ''/'' p) [])"

definition clean_rooted :: "string \<Rightarrow> string" where
  "clean_rooted p = ''/'' @ sep_by ''/'' (clean_elems p)"

definition under :: "string \<Rightarrow> string \<Rightarrow> bool" where
  "under p base = (p = base \<or> has_prefix p (base @ ''/''))"

definition reservedManagementPath :: "string \<Rightarrow> bool" where
  "reservedManagementPath p =
     (let q = clean_rooted (''/'' @ p) in
      list_ex (under q) [''/v1'', ''/mcp'', ''/healthz'', ''/config'', ''/.well-known''])"

section \<open>encode.go and errors.go\<close>

text \<open>The text of a tree after the wire spelling of durations and sizes, or None when it cannot be marshalled.\<close>

definition marshalAPI :: "json \<Rightarrow> string option" where
  "marshalAPI v = (if \<not> marshals v then None else Some (json_text (FormatWireTree (decoded v))))"

text \<open>\<^verbatim>\<open>time.RFC3339Nano\<close>, empty for the zero time.\<close>

definition rest_rfc3339 :: "gotime \<Rightarrow> string" where
  "rest_rfc3339 t = (if t_is_zero t then [] else rfc3339nano (t_utc t))"

definition internal_body :: string where
  "internal_body = struct_text (JObj [(''type'', JStr ''urn:labntp:error:internal-error''), (''title'', JStr ''Internal error''),
     (''status'', JInt 500), (''code'', JStr ''internal_error'')]) @ [CHR 0x0A]"

definition internal_response :: Response where
  "internal_response = \<lparr>rp_status = 500, rp_headers = [(''Content-Type'', ''text/plain; charset=utf-8''),
     (''X-Content-Type-Options'', ''nosniff'')], rp_cookies = [], rp_body = internal_body\<rparr>"

definition writeJSON :: "int \<Rightarrow> json \<Rightarrow> Response" where
  "writeJSON status v =
     (case marshalAPI v of
        None \<Rightarrow> internal_response
      | Some body \<Rightarrow> \<lparr>rp_status = status, rp_headers = [(''Content-Type'', ''application/json; charset=utf-8''),
          (''Cache-Control'', ''no-store'')], rp_cookies = [], rp_body = body\<rparr>)"

definition writeBytes :: "int \<Rightarrow> string \<Rightarrow> string \<Rightarrow> Response" where
  "writeBytes status contentType body = \<lparr>rp_status = status,
     rp_headers = (if contentType \<noteq> [] then [(''Content-Type'', contentType)] else []), rp_cookies = [], rp_body = body\<rparr>"

definition violation_json :: "FieldViolation \<Rightarrow> json" where
  "violation_json v = JObj [(''path'', JStr (fv_path v)), (''code'', JStr (fv_code v)), (''message'', JStr (fv_message v))]"

definition problem_json :: "Problem \<Rightarrow> json" where
  "problem_json p = JObj
     ([(''type'', JStr (pb_Type p)), (''title'', JStr (pb_Title p)), (''status'', JInt (pb_Status p))]
      @ omit (pb_Detail p = []) ''detail'' (JStr (pb_Detail p))
      @ omit (pb_Instance p = []) ''instance'' (JStr (pb_Instance p))
      @ [(''code'', JStr (pb_Code p)), (''retryable'', JBool (pb_Retryable p))]
      @ omit (pb_FieldViolations p = []) ''fieldViolations'' (JArr (map violation_json (pb_FieldViolations p)))
      @ omit (pb_CurrentRevision p = []) ''currentRevision'' (JStr (pb_CurrentRevision p))
      @ omit (pb_Remediation p = []) ''remediation'' (JStr (pb_Remediation p)))"

definition writeProblem :: "string \<Rightarrow> Error \<Rightarrow> Response" where
  "writeProblem urn e =
     (let p = ProblemFrom (Some e) urn in
      \<lparr>rp_status = pb_Status p,
       rp_headers = (if pb_Status p = 401 then map (Pair ''WWW-Authenticate'') WWWAuthenticate else [])
         @ [(''Content-Type'', ProblemContentType)],
       rp_cookies = [], rp_body = struct_text (problem_json p)\<rparr>)"

definition rest_asDomain :: "go_error \<Rightarrow> Error" where
  "rest_asDomain e = (case e of Dom d \<Rightarrow> d | Plain _ \<Rightarrow> Internal ''internal error'')"

section \<open>request.go: decoding a body\<close>

text \<open>
  The json names of a request are matched without case where no name matches exactly; a later
  spelling of the same name replaces an earlier one (nested objects under two spellings of one name,
  which Go merges, are not modelled).
\<close>

definition field_name :: "(string \<times> gotype) list \<Rightarrow> string \<Rightarrow> string" where
  "field_name fs k =
     (if map_of fs k \<noteq> None then k
      else case find (\<lambda>f. equal_fold (fst f) k) fs of Some f \<Rightarrow> fst f | None \<Rightarrow> k)"

fun canon :: "json \<Rightarrow> gotype \<Rightarrow> json"
and canon_members :: "(string \<times> json) list \<Rightarrow> (string \<times> gotype) list \<Rightarrow> (string \<times> json) list"
and canon_items :: "json list \<Rightarrow> gotype \<Rightarrow> json list"
where
  "canon (JObj m) t = (case t of TStruct fs \<Rightarrow> JObj (canon_members m fs) | _ \<Rightarrow> JObj m)"
| "canon (JArr xs) t = (case t of TSlice e \<Rightarrow> JArr (canon_items xs e) | _ \<Rightarrow> JArr xs)"
| "canon v t = v"
| "canon_members [] fs = []"
| "canon_members ((k, v) # m) fs =
     (let k' = field_name fs k; later = canon_members m fs in
      if k' \<in> set (map fst later) then later
      else (k', (case map_of fs k' of None \<Rightarrow> v | Some ft \<Rightarrow> canon v ft)) # later)"
| "canon_items [] e = []"
| "canon_items (x # xs) e = canon x e # canon_items xs e"

definition operation_type :: gotype where
  "operation_type = TStruct
     [(''op'', TLeaf), (''filters'', TSlice filter_type), (''filter'', filter_type), (''name'', TLeaf),
      (''restrict'', TStruct [(''default'', TLeaf), (''kod'', TLeaf)]),
      (''admission'', TStruct [(''maxPacketsPerSec'', TLeaf), (''maxPacketsPerIP'', TLeaf)]),
      (''allowClientCidrs'', TSlice TLeaf), (''queryLog'', TStruct [(''size'', TLeaf)]),
      (''managementHTTP'', TStruct [(''bodyLimit'', TLeaf), (''requestsPerSecond'', TLeaf), (''burst'', TLeaf), (''maxConcurrent'', TLeaf)])]"

definition as_managementHTTP :: "json \<Rightarrow> ManagementHTTP option" where
  "as_managementHTTP = as_obj (\<lambda>m.
     opt_bind (dfield m ''bodyLimit'' 0 as_int) (\<lambda>a. opt_bind (dfield m ''requestsPerSecond'' 0 as_int) (\<lambda>b.
     opt_bind (dfield m ''burst'' 0 as_int) (\<lambda>c. opt_bind (dfield m ''maxConcurrent'' 0 as_int) (\<lambda>d.
       Some \<lparr>mh_bodyLimit = a, mh_requestsPerSecond = b, mh_burst = c, mh_maxConcurrent = d\<rparr>)))))"

definition as_operation :: "json \<Rightarrow> Operation option" where
  "as_operation = as_obj (\<lambda>m.
     opt_bind (dfield m ''op'' [] as_str) (\<lambda>a.
     opt_bind (dfield m ''filters'' None (as_slice zero_filter as_filter)) (\<lambda>b.
     opt_bind (dfield m ''filter'' None (as_ptr as_filter)) (\<lambda>c.
     opt_bind (dfield m ''name'' [] as_str) (\<lambda>d.
     opt_bind (dfield m ''restrict'' None (as_ptr as_restrict)) (\<lambda>e.
     opt_bind (dfield m ''admission'' None (as_ptr as_admission)) (\<lambda>f.
     opt_bind (dfield m ''allowClientCidrs'' None (as_slice [] as_str)) (\<lambda>g.
     opt_bind (dfield m ''queryLog'' None (as_ptr (as_obj (\<lambda>q. dfield q ''size'' 0 as_int)))) (\<lambda>h.
     opt_bind (dfield m ''managementHTTP'' None (as_ptr as_managementHTTP)) (\<lambda>i.
       Some \<lparr>op_op = a, op_filters = b, op_filter = c, op_name = d, op_restrict = e, op_admission = f,
         op_allowClientCidrs = g, op_queryLogSize = h, op_managementHTTP = i\<rparr>))))))))))"

text \<open>A body of null leaves the zero value.\<close>

definition as_body :: "'a \<Rightarrow> (json \<Rightarrow> 'a option) \<Rightarrow> json \<Rightarrow> 'a option" where
  "as_body z d v = (if v = JNull then Some z else d v)"

record changeRequest =
  cr_expectedRevision :: string
  cr_idempotencyKey :: string
  cr_reason :: string
  cr_force :: bool
  cr_operations :: "Operation slice"
  cr_state :: "json option"

definition change_type :: gotype where
  "change_type = TStruct [(''expectedRevision'', TLeaf), (''idempotencyKey'', TLeaf), (''reason'', TLeaf), (''force'', TLeaf),
     (''operations'', TSlice operation_type), (''state'', TLeaf)]"

definition zero_change :: changeRequest where
  "zero_change = \<lparr>cr_expectedRevision = [], cr_idempotencyKey = [], cr_reason = [], cr_force = False, cr_operations = None, cr_state = None\<rparr>"

text \<open>The member \<^verbatim>\<open>state\<close> is kept raw.\<close>

definition as_change :: "json \<Rightarrow> changeRequest option" where
  "as_change = as_obj (\<lambda>m.
     opt_bind (dfield m ''expectedRevision'' [] as_str) (\<lambda>a. opt_bind (dfield m ''idempotencyKey'' [] as_str) (\<lambda>b.
     opt_bind (dfield m ''reason'' [] as_str) (\<lambda>c. opt_bind (dfield m ''force'' False as_bool) (\<lambda>d.
     opt_bind (dfield m ''operations'' None (as_slice no_operation as_operation)) (\<lambda>e.
       Some \<lparr>cr_expectedRevision = a, cr_idempotencyKey = b, cr_reason = c, cr_force = d, cr_operations = e,
         cr_state = map_of m ''state''\<rparr>))))))"

definition reset_type :: gotype where
  "reset_type = TStruct [(''reason'', TLeaf)]"

definition as_reset :: "json \<Rightarrow> string option" where
  "as_reset = as_obj (\<lambda>m. dfield m ''reason'' [] as_str)"

record putFilterRequest =
  pf_expectedRevision :: string
  pf_idempotencyKey :: string
  pf_reason :: string
  pf_filter :: "FilterSpec option"

definition put_type :: gotype where
  "put_type = TStruct [(''expectedRevision'', TLeaf), (''idempotencyKey'', TLeaf), (''reason'', TLeaf), (''filter'', filter_type)]"

definition as_put :: "json \<Rightarrow> putFilterRequest option" where
  "as_put = as_obj (\<lambda>m.
     opt_bind (dfield m ''expectedRevision'' [] as_str) (\<lambda>a. opt_bind (dfield m ''idempotencyKey'' [] as_str) (\<lambda>b.
     opt_bind (dfield m ''reason'' [] as_str) (\<lambda>c. opt_bind (dfield m ''filter'' None (as_ptr as_filter)) (\<lambda>d.
       Some \<lparr>pf_expectedRevision = a, pf_idempotencyKey = b, pf_reason = c, pf_filter = d\<rparr>)))))"

definition zero_put :: putFilterRequest where
  "zero_put = \<lparr>pf_expectedRevision = [], pf_idempotencyKey = [], pf_reason = [], pf_filter = None\<rparr>"

record deleteFilterRequest =
  df_expectedRevision :: string
  df_idempotencyKey :: string
  df_reason :: string

definition delete_type :: gotype where
  "delete_type = TStruct [(''expectedRevision'', TLeaf), (''idempotencyKey'', TLeaf), (''reason'', TLeaf)]"

definition as_delete :: "json \<Rightarrow> deleteFilterRequest option" where
  "as_delete = as_obj (\<lambda>m.
     opt_bind (dfield m ''expectedRevision'' [] as_str) (\<lambda>a. opt_bind (dfield m ''idempotencyKey'' [] as_str) (\<lambda>b.
     opt_bind (dfield m ''reason'' [] as_str) (\<lambda>c.
       Some \<lparr>df_expectedRevision = a, df_idempotencyKey = b, df_reason = c\<rparr>))))"

definition zero_delete :: deleteFilterRequest where
  "zero_delete = \<lparr>df_expectedRevision = [], df_idempotencyKey = [], df_reason = []\<rparr>"

text \<open>Whether a text that is no JSON value stops short of one is a parameter, as are the texts of decoder errors.\<close>

definition decodeError :: "bool \<Rightarrow> Error" where
  "decodeError short = ValidationFailed (if short then ''request body is required'' else ''invalid JSON'')
     [violation [] ''invalid_value'' ''request body is not valid JSON'']"

definition body_too_large :: Error where
  "body_too_large = ValidationFailed ''request body too large''
     [violation [] ''document_too_large'' ''request body exceeds the management limit'']"

definition mapMutationDecodeError :: "string \<Rightarrow> Error" where
  "mapMutationDecodeError msg =
     (if str_contains msg ''unknown field'' then
        (let field = (case (first_index CHR 0x22 msg, last_index CHR 0x22 msg) of
                        (Some i, Some j) \<Rightarrow> if i < j then take (j - (i + 1)) (drop (i + 1) msg) else msg
                      | _ \<Rightarrow> msg)
         in ValidationFailed ''unknown fields'' [violation field ''unknown_field'' ''unknown field''])
      else decodeError False)"

definition trailing_json :: Error where
  "trailing_json = ValidationFailed ''request body must contain a single JSON value''
     [violation [] ''invalid_value'' ''trailing JSON is not allowed'']"

definition decodeBytes :: "libs \<Rightarrow> (string \<Rightarrow> bool) \<Rightarrow> gotype \<Rightarrow> 'a \<Rightarrow> (json \<Rightarrow> 'a option) \<Rightarrow> string \<Rightarrow> Error + 'a" where
  "decodeBytes L short t z d body =
     (case json_decode body of
        None \<Rightarrow> Inl (decodeError (short body))
      | Some (tree0, rest) \<Rightarrow>
          if skip_ws rest \<noteq> [] then Inl trailing_json
          else let tree = fst (CoerceWireTree tree0); vs = snd (CoerceWireTree tree0) in
            if vs \<noteq> [] then Inl (ValidationFailed ''invalid request body'' vs)
            else if \<not> marshals tree then Inl (Internal ''internal error'')
            else (case json_decode (json_text tree) of
              None \<Rightarrow> Inl (decodeError False)
            | Some (again, _) \<Rightarrow>
                let c = canon again t in
                (case (if unknownFields c t [] = [] then as_body z d c else None) of
                   None \<Rightarrow> Inl (mapMutationDecodeError (lib_type_text L again))
                 | Some x \<Rightarrow> Inr x)))"

definition checkJSONContentType :: "HttpRequest \<Rightarrow> Error option" where
  "checkJSONContentType r =
     (let ct = header r ''Content-Type'' in
      if ct = [] then Some (ValidationFailed ''content type is required''
        [violation ''content-type'' ''required'' ''POST bodies must be application/json''])
      else if \<not> equal_fold (trim_space (hd (split_on CHR '';'' ct))) ''application/json'' then
        Some (ValidationFailed ''unsupported content type''
          [violation ''content-type'' ''invalid_value'' ''expected application/json''])
      else None)"

definition body_required :: Error where
  "body_required = ValidationFailed ''request body is required'' [violation [] ''invalid_value'' ''request body is required'']"

definition decodeJSON_body :: "libs \<Rightarrow> (string \<Rightarrow> bool) \<Rightarrow> int \<Rightarrow> HttpRequest \<Rightarrow> gotype \<Rightarrow> 'a \<Rightarrow> (json \<Rightarrow> 'a option) \<Rightarrow> Error + 'a" where
  "decodeJSON_body L short maxBody r t z d =
     (case checkJSONContentType r of
        Some e \<Rightarrow> Inl e
      | None \<Rightarrow>
          if int (length (hr_body r)) > maxBody then Inl body_too_large
          else if blank (hr_body r) then Inl body_required
          else decodeBytes L short t z d (hr_body r))"

definition decodeJSONOptional :: "libs \<Rightarrow> (string \<Rightarrow> bool) \<Rightarrow> int \<Rightarrow> HttpRequest \<Rightarrow> gotype \<Rightarrow> 'a \<Rightarrow> (json \<Rightarrow> 'a option) \<Rightarrow> Error + 'a" where
  "decodeJSONOptional L short maxBody r t z d =
     (if int (length (hr_body r)) > maxBody then Inl body_too_large
      else if blank (hr_body r) then Inr z
      else case checkJSONContentType r of
        Some e \<Rightarrow> Inl e
      | None \<Rightarrow> decodeBytes L short t z d (hr_body r))"

definition trim_quotes :: "string \<Rightarrow> string" where
  "trim_quotes s = rev (dropWhile (\<lambda>c. c = CHR 0x22) (rev (dropWhile (\<lambda>c. c = CHR 0x22) s)))"

definition expectedRevision :: "HttpRequest \<Rightarrow> string \<Rightarrow> string" where
  "expectedRevision r body =
     (if body \<noteq> [] then body
      else let v = trim_quotes (header r headerIfMatch) in
        if v \<noteq> [] \<and> \<not> equal_fold v ''*'' then v else trim_space (header r headerExpected))"

definition idempotencyKey :: "HttpRequest \<Rightarrow> string \<Rightarrow> string" where
  "idempotencyKey r body = (if body \<noteq> [] then body else trim_space (header r headerIdempotency))"

text \<open>The candidate document of a validation: none, an error, or a panic of the decoder.\<close>

definition decodeCandidateState :: "libs \<Rightarrow> json option \<Rightarrow> (Error + State option) option" where
  "decodeCandidateState L raw =
     (case raw of
        None \<Rightarrow> Some (Inr None)
      | Some v \<Rightarrow>
          if v = JNull then Some (Inr None)
          else map_option (\<lambda>r. case r of Inl e \<Rightarrow> Inl e | Inr st \<Rightarrow> Inr (Some st)) (decodeJSON L (json_text v)))"

definition readChange :: "libs \<Rightarrow> (string \<Rightarrow> bool) \<Rightarrow> int \<Rightarrow> HttpRequest \<Rightarrow> Error + ChangeIn" where
  "readChange L short maxBody r =
     bindR (decodeJSON_body L short maxBody r change_type zero_change as_change) (\<lambda>q.
       Inr \<lparr>ci_expectedRevision = expectedRevision r (cr_expectedRevision q),
            ci_idempotencyKey = idempotencyKey r (cr_idempotencyKey q), ci_reason = cr_reason q, ci_force = cr_force q,
            ci_operations = cr_operations q\<rparr>)"

end
