(* ===== verification/Rest_Dto.thy ===== *)
theory Rest_Dto
  imports Rest_Http
begin

text \<open>
  The bodies of the management answers as JSON trees (dto.go of \<^verbatim>\<open>internal/control/rest\<close>, with
  the json tags of the types it sends), and \<^verbatim>\<open>internal/buildinfo\<close>.
\<close>

section \<open>buildinfo.go\<close>

definition ConfigAPIVersion :: string where "ConfigAPIVersion = ''labntp.dev/v1alpha1''"
definition RESTPrefix :: string where "RESTPrefix = ''/v1''"
definition MCPProtocol :: string where "MCPProtocol = ''2026-07-28''"

record Info =
  in_version :: string
  in_commit :: string
  in_buildTime :: string
  in_configAPI :: string
  in_rest :: string
  in_mcp :: string

text \<open>The variables set at link time and the version control settings the toolchain recorded, if any.\<close>

record build_vars =
  bv_version :: string
  bv_commit :: string
  bv_buildTime :: string
  bv_settings :: "(string \<times> string) list option"

definition read_setting :: "string \<times> string \<Rightarrow> string \<times> string \<Rightarrow> string \<times> string" where
  "read_setting kv rw =
     (if fst kv = ''vcs.revision'' then (if fst rw = [] then take 12 (snd kv) else fst rw, snd rw)
      else if fst kv = ''vcs.time'' then (fst rw, if snd rw = [] then snd kv else snd rw)
      else rw)"

definition Current :: "build_vars \<Rightarrow> Info" where
  "Current b =
     (let start = (bv_commit b, bv_buildTime b);
          (rv, wh) = (if fst start = [] \<or> snd start = [] then
              (case bv_settings b of None \<Rightarrow> start | Some kvs \<Rightarrow> fold read_setting kvs start) else start)
      in \<lparr>in_version = bv_version b, in_commit = (if rv = [] then ''unknown'' else rv),
          in_buildTime = (if wh = [] then ''unknown'' else wh),
          in_configAPI = ConfigAPIVersion, in_rest = RESTPrefix, in_mcp = MCPProtocol\<rparr>)"

section \<open>dto.go\<close>

definition health_json :: "string \<Rightarrow> json" where
  "health_json status = JObj [(''status'', JStr status)]"

definition fromVersion :: "Info \<Rightarrow> json" where
  "fromVersion i = JObj [(''version'', JStr (in_version i)), (''commit'', JStr (in_commit i)), (''buildTime'', JStr (in_buildTime i)),
     (''protocols'', JObj [(''configAPI'', JStr (in_configAPI i)), (''rest'', JStr (in_rest i)), (''mcp'', JStr (in_mcp i))])]"

definition discovery_json :: "Discovery \<Rightarrow> json" where
  "discovery_json d = JObj [(''name'', JStr (dv_Name d)), (''version'', JStr (dv_Version d)),
     (''description'', JStr (dv_Description d)), (''mutating'', JBool (dv_Mutating d)), (''idempotent'', JBool (dv_Idempotent d))]"

definition fromCapabilities :: "indexes \<Rightarrow> json" where
  "fromCapabilities idx = JObj [(''capabilities'', JArr (map discovery_json (DiscoveryList idx)))]"

definition feature_json :: "Feature \<Rightarrow> json" where
  "feature_json f = JObj [(''id'', JStr (ft_ID f)), (''apply'', JStr (ft_Apply f)), (''path'', JStr (ft_Path f))]"

definition features_json :: json where
  "features_json = JObj [(''items'', JArr (map feature_json Features))]"

text \<open>
  An instant read from the system clock is written in the time zone of the process: its text is a
  parameter. There is none for a year that \<^verbatim>\<open>time.MarshalJSON\<close> refuses.
\<close>

type_synonym time_zone = "gotime \<Rightarrow> string option"

definition time_json :: "time_zone \<Rightarrow> gotime \<Rightarrow> json" where
  "time_json z t = (case z t of None \<Rightarrow> JAny [] | Some s \<Rightarrow> JStr s)"

definition utc_zone :: time_zone where
  "utc_zone t = (let (y, m, d) = civil_from_days (unix_sec t div 86400) in
     if 0 \<le> y \<and> y \<le> 9999 then Some (rfc3339nano t) else None)"

text \<open>Types without json tags are written under their Go names.\<close>

definition revisions_json :: "time_zone \<Rightarrow> RevisionView \<Rightarrow> json" where
  "revisions_json z v = JObj [(''BootstrapRevision'', JStr (rv_bootstrapRevision v)), (''RuntimeRevision'', JStr (rv_runtimeRevision v)),
     (''Generation'', JInt (rv_generation v)), (''Drifted'', JBool (rv_drifted v)), (''LoadedAt'', time_json z (rv_loadedAt v))]"

definition warning_json :: "Note \<Rightarrow> json" where
  "warning_json n = JObj [(''Code'', JStr (no_code n)), (''Message'', JStr (no_message n))]"

definition listener_json :: "string \<times> string \<Rightarrow> json" where
  "listener_json l = JObj [(''name'', JStr (fst l)), (''address'', JStr (snd l))]"

definition status_json :: "time_zone \<Rightarrow> bool \<Rightarrow> Status \<Rightarrow> json" where
  "status_json z ready st = JObj
     ([(''ready'', JBool ready), (''revisions'', FormatWireTree (decoded (revisions_json z (sv_revisions st)))),
       (''listeners'', JArr (map listener_json (sv_listeners st))), (''hostTime'', JStr (rest_rfc3339 (sv_hostTime st)))]
      @ omit (sv_warnings st = []) ''warnings'' (JArr (map warning_json (sv_warnings st))))"

definition state_view_json :: "RevisionView \<Rightarrow> State \<Rightarrow> json" where
  "state_view_json v st = JObj
     ([(''bootstrapRevision'', JStr (rv_bootstrapRevision v)), (''runtimeRevision'', JStr (rv_runtimeRevision v)),
       (''generation'', JInt (rv_generation v)), (''drifted'', JBool (rv_drifted v))]
      @ omit (rest_rfc3339 (rv_loadedAt v) = []) ''loadedAt'' (JStr (rest_rfc3339 (rv_loadedAt v)))
      @ [(''canonical'', FormatWireTree (decoded (state_json st)))])"

text \<open>A raw JSON message inside a value; a text that is no JSON cannot be marshalled.\<close>

definition raw_json :: "string \<Rightarrow> json" where
  "raw_json s = (case json_decode s of Some (v, _) \<Rightarrow> v | None \<Rightarrow> JAny [])"

definition diff_entry_json :: "DiffEntry \<Rightarrow> json" where
  "diff_entry_json d = JObj
     ([(''path'', JStr (de_path d)), (''op'', JStr (de_op d))]
      @ omit (de_before d = []) ''before'' (raw_json (de_before d)) @ omit (de_after d = []) ''after'' (raw_json (de_after d)))"

definition diff_json :: "DiffEntry list \<Rightarrow> json" where
  "diff_json ds = (if ds = [] then JNull else JArr (map diff_entry_json ds))"

definition plan_fields :: "Plan \<Rightarrow> (string \<times> json) list" where
  "plan_fields p =
     [(''previousRevision'', JStr (pl_previousRevision p)), (''candidateRevision'', JStr (pl_candidateRevision p)),
      (''drifted'', JBool (pl_drifted p)), (''diff'', diff_json (pl_diff p))]
     @ omit (pl_warnings p = []) ''warnings'' (JArr (map warning_json (pl_warnings p)))
     @ omit (pl_operations p = []) ''operations'' (JArr (map operation_json (pl_operations p)))"

definition fromPlan :: "Plan \<Rightarrow> json" where
  "fromPlan p = JObj (plan_fields p)"

definition fromApply :: "ApplyResult \<Rightarrow> json" where
  "fromApply r = JObj
     (plan_fields (ap_plan r) @ omit (\<not> ap_applied r) ''applied'' (JBool True)
      @ omit (ap_generation r = 0) ''generation'' (JInt (ap_generation r))
      @ omit (ap_runtimeRevision r = []) ''runtimeRevision'' (JStr (ap_runtimeRevision r))
      @ omit (ap_auditEventID r = []) ''auditEventId'' (JStr (ap_auditEventID r)))"

definition export_json :: "Export \<Rightarrow> json" where
  "export_json e = JObj
     ([(''format'', JStr (ex_format e)), (''revision'', JStr (ex_revision e)), (''bootstrapRevision'', JStr (ex_bootstrapRevision e)),
       (''drifted'', JBool (ex_drifted e)), (''body'', raw_json (ex_body e))]
      @ omit (ex_humanDiff e = []) ''humanDiff'' (JStr (ex_humanDiff e)))"

definition filters_json :: "FilterSpec list \<Rightarrow> json" where
  "filters_json fs = JObj [(''items'', if fs = [] then JNull else JArr (map filter_json fs))]"

definition fromPreview :: "Preview \<Rightarrow> json" where
  "fromPreview p = JObj
     ([(''ip'', JStr (pv_ip p)), (''filter'', JStr (pv_filter p)),
       (''servedTime'', case pv_servedTime p of None \<Rightarrow> JNull | Some t \<Rightarrow> JStr (rest_rfc3339 t)),
       (''hostTime'', JStr (rest_rfc3339 (pv_hostTime p)))]
      @ omit (pv_mode p = []) ''mode'' (JStr (pv_mode p)) @ omit (pv_leap p = []) ''leap'' (JStr (pv_leap p))
      @ omit (pv_stratum p = 0) ''stratum'' (JInt (pv_stratum p)) @ omit (pv_refid p = []) ''refid'' (JStr (pv_refid p))
      @ omit (pv_offsetFromHost p = []) ''offsetFromHost'' (JStr (pv_offsetFromHost p))
      @ omit (pv_reason p = []) ''reason'' (JStr (pv_reason p)))"

definition fromQuery :: "QueryLog.Entry \<Rightarrow> json" where
  "fromQuery e = JObj
     ([(''clientIP'', JStr (e_clientIP e)), (''filter'', JStr (e_filter e))]
      @ omit (rest_rfc3339 (e_servedTime e) = []) ''servedTime'' (JStr (rest_rfc3339 (e_servedTime e)))
      @ omit (e_leap e = []) ''leap'' (JStr (e_leap e)) @ omit (e_mode e = []) ''mode'' (JStr (e_mode e))
      @ [(''vn'', JInt (uint (e_vn e)))]
      @ omit (rest_rfc3339 (e_whenHost e) = []) ''whenHost'' (JStr (rest_rfc3339 (e_whenHost e))))"

definition queries_json :: "QueryLog.Entry list \<times> string \<Rightarrow> json" where
  "queries_json q = JObj [(''items'', JArr (map fromQuery (fst q))), (''nextCursor'', JStr (snd q))]"

definition redacted_entry_json :: "RedactedEntry \<Rightarrow> json" where
  "redacted_entry_json d = JObj
     ([(''path'', JStr (re_path d)), (''op'', JStr (re_op d))]
      @ omit (re_before d = []) ''before'' (raw_json (re_before d)) @ omit (re_after d = []) ''after'' (raw_json (re_after d)))"

definition event_json :: "time_zone \<Rightarrow> Event \<Rightarrow> json" where
  "event_json z ev = JObj
     ([(''id'', JStr (ev_id ev)), (''time'', time_json z (ev_time ev))]
      @ omit (ev_actorID ev = []) ''actorId'' (JStr (ev_actorID ev)) @ omit (ev_actorClass ev = []) ''actorClass'' (JStr (ev_actorClass ev))
      @ omit (ev_transport ev = []) ''transport'' (JStr (ev_transport ev)) @ omit (ev_capability ev = []) ''capability'' (JStr (ev_capability ev))
      @ omit (ev_reason ev = []) ''reason'' (JStr (ev_reason ev)) @ omit (ev_previous ev = []) ''previous'' (JStr (ev_previous ev))
      @ omit (ev_revision ev = []) ''revision'' (JStr (ev_revision ev)) @ omit (ev_result ev = []) ''result'' (JStr (ev_result ev))
      @ omit (ev_errorCode ev = []) ''errorCode'' (JStr (ev_errorCode ev))
      @ omit (ev_diff ev = []) ''diff'' (JArr (map redacted_entry_json (ev_diff ev))))"

definition events_json :: "time_zone \<Rightarrow> Event list \<Rightarrow> json" where
  "events_json z evs = JObj [(''events'', JArr (map (event_json z) evs))]"

definition session_create_json :: "string \<Rightarrow> gotime \<Rightarrow> json" where
  "session_create_json csrf expires = JObj [(''csrf'', JStr csrf), (''expiresAt'', JStr (rest_rfc3339 expires))]"

definition session_view_json :: "Actor \<Rightarrow> (string \<times> gotime) option \<Rightarrow> json" where
  "session_view_json a s = JObj
     ([(''id'', JStr (ac_id a)), (''role'', JStr (ac_role a)), (''scopes'', JArr (map JStr (ac_scopes a)))]
      @ (case s of None \<Rightarrow> []
         | Some (csrf, expires) \<Rightarrow> omit (csrf = []) ''csrf'' (JStr csrf)
             @ omit (rest_rfc3339 expires = []) ''expiresAt'' (JStr (rest_rfc3339 expires))))"

end
