(* ===== verification/Rest.thy ===== *)
theory Rest
  imports Rest_Dto Reset Metrics_Props
begin

text \<open>
  The management server of \<^verbatim>\<open>internal/control/rest\<close>: its admission, authentication and
  authorisation (server.go, auth.go), one definition per handler (handlers.go, session.go), the
  fallback to the browser interface (spa.go) and what a change of the configuration does to it. A
  request is one step over the state of the server and of the application behind it; the app counts
  into the registry of the server, as \<^verbatim>\<open>cmd/labntp\<close> wires them. Clock readings, random
  draws, the mounted handlers and the interface handler are arguments.
\<close>

section \<open>State\<close>

definition DefaultMaxBodyBytes :: int where "DefaultMaxBodyBytes = 1048576"
definition DefaultMaxConcurrent :: int where "DefaultMaxConcurrent = 256"

record inflightGate =
  ig_cur :: int
  ig_max :: int

text \<open>The verifier has one hook per registration of the server: it clears the sessions.\<close>

record RestServer =
  rs_allowedOrigins :: "string list"
  rs_publicMetrics :: bool
  rs_cookieSecure :: bool
  rs_auth :: "unit Verifier option"
  rs_sessions :: SessionStore
  rs_metrics :: "Registry option"
  rs_routes :: "compiledRoute list"
  rs_maxBody :: int
  rs_gate :: inflightGate
  rs_rate :: mgmtLimiter
  rs_app :: App
  rs_listen :: Listening

text \<open>
  What becomes of a request: an answer, a panic (the server recovers it), or a wait for ever on the
  mutex of the app.
\<close>

datatype handled = Done Response | Crash | Hang

text \<open>
  What a request meets: the libraries and the state of its context, the hooks of the app, the
  callbacks for health, the clock at each reading, the random draws, the interface and the mounts.
\<close>

record 'w RestEnv =
  re_env :: Env
  re_canceled :: bool
  re_hooks :: Hooks
  re_facts :: "Facts option"
  re_live :: "bool option"
  re_ready :: "bool option"
  re_now_rate :: gotime
  re_now_auth :: gotime
  re_now_csrf :: gotime
  re_now_op :: gotime
  re_reqid :: "bytes option"
  re_draws :: draws
  re_short :: "string \<Rightarrow> bool"
  re_schema :: "string option"
  re_build :: build_vars
  re_zone :: time_zone
  re_indexes :: indexes
  re_redirect :: "HttpRequest \<Rightarrow> string \<Rightarrow> Response"
  re_mounts :: "(string \<times> (int \<Rightarrow> 'w RestServer_scheme \<Rightarrow> HttpRequest \<Rightarrow> 'w RestServer_scheme \<times> handled)) list"
  re_ui :: "(HttpRequest \<Rightarrow> Response) option"
  re_uiEnabled :: "bool option"

section \<open>server.go: construction and limits\<close>

definition acquire :: "inflightGate \<Rightarrow> inflightGate \<times> bool" where
  "acquire g = (if ig_max g > 0 \<and> ig_cur g \<ge> ig_max g then (g, False) else (g\<lparr>ig_cur := ig_cur g + 1\<rparr>, True))"

definition release :: "inflightGate \<Rightarrow> inflightGate" where
  "release g = (if ig_cur g > 0 then g\<lparr>ig_cur := ig_cur g - 1\<rparr> else g)"

definition setMax :: "inflightGate \<Rightarrow> int \<Rightarrow> inflightGate" where
  "setMax g n = g\<lparr>ig_max := n\<rparr>"

record RestConfig =
  rc_Service :: "App option"
  rc_AllowedOrigins :: "string list"
  rc_MaxBodyBytes :: int
  rc_MaxConcurrent :: int
  rc_RatePerSec :: float64
  rc_RateBurst :: float64
  rc_PublicMetrics :: bool
  rc_Metrics :: "Registry option"
  rc_Auth :: "unit Verifier option"
  rc_Sessions :: "SessionStore option"
  rc_CookieSecure :: bool

definition New :: "RestConfig \<Rightarrow> Listening \<Rightarrow> string + RestServer" where
  "New cfg l =
     (case rc_Service cfg of
        None \<Rightarrow> Inl ''rest: Service is required''
      | Some svc \<Rightarrow> Inr
          \<lparr>rs_allowedOrigins = rc_AllowedOrigins cfg, rs_publicMetrics = rc_PublicMetrics cfg,
           rs_cookieSecure = rc_CookieSecure cfg,
           rs_auth = map_option (\<lambda>v. OnIdentityChange v ()) (rc_Auth cfg),
           rs_sessions = (case rc_Sessions cfg of None \<Rightarrow> Session.NewStore DefaultSessionConfig | Some s \<Rightarrow> s),
           rs_metrics = rc_Metrics cfg, rs_routes = compileRoutes catalog,
           rs_maxBody = (if rc_MaxBodyBytes cfg \<le> 0 then DefaultMaxBodyBytes else rc_MaxBodyBytes cfg),
           rs_gate = setMax \<lparr>ig_cur = 0, ig_max = 0\<rparr>
             (if rc_MaxConcurrent cfg \<le> 0 then DefaultMaxConcurrent else rc_MaxConcurrent cfg),
           rs_rate = newLimiter (rc_RatePerSec cfg) (rc_RateBurst cfg), rs_app = svc, rs_listen = l\<rparr>)"

definition ApplyLimits :: "'w RestServer_scheme \<Rightarrow> int \<Rightarrow> int \<Rightarrow> int \<Rightarrow> int \<Rightarrow> 'w RestServer_scheme" where
  "ApplyLimits s bodyLimit rps burst maxConcurrent =
     s\<lparr>rs_maxBody := (if bodyLimit \<le> 0 then DefaultMaxBodyBytes else bodyLimit),
       rs_rate := ml_setRate (rs_rate s) (f_of_int rps) (f_of_int burst),
       rs_gate := setMax (rs_gate s) (if maxConcurrent \<le> 0 then DefaultMaxConcurrent else maxConcurrent)\<rparr>"

definition active_canonical :: "'w RestServer_scheme \<Rightarrow> State option" where
  "active_canonical s = opt_bind (Load (a_snaps (rs_app s))) sn_canonical"

definition syncManagementLimits :: "'w RestServer_scheme \<Rightarrow> 'w RestServer_scheme" where
  "syncManagementLimits s =
     (case active_canonical s of
        None \<Rightarrow> s
      | Some st \<Rightarrow> (let m = sp_management (st_spec st) in
          ApplyLimits s (mg_bodyLimit m) (mg_requestsPerSecond m) (mg_burst m) (mg_maxConcurrent m)))"

definition preflightAuth :: "libs \<Rightarrow> AuthSpec \<Rightarrow> go_error option" where
  "preflightAuth L spec =
     (case (FromSpec L spec :: Error + unit Verifier) of
        Inl e \<Rightarrow> Some (Dom e)
      | Inr v \<Rightarrow> map_option (\<lambda>msg. Dom (ValidationFailed ''management auth cannot be loaded''
          [violation ''spec.auth.tokens'' ''invalid_value'' msg])) (RequireListen (Some v)))"

definition reloadAuth :: "libs \<Rightarrow> 'w RestServer_scheme \<Rightarrow> 'w RestServer_scheme" where
  "reloadAuth L s =
     (case (rs_auth s, active_canonical s) of
        (Some v, Some st) \<Rightarrow>
          (case FromSpec L (sp_auth (st_spec st)) of
             Inl e \<Rightarrow> s
           | Inr next \<Rightarrow>
               if RequireListen (Some next) \<noteq> None then s
               else let changed = (\<not> Equivalent v next);
                        (v', fired) = Replace v next;
                        s1 = s\<lparr>rs_auth := Some v', rs_sessions := fold (\<lambda>_. Clear) fired (rs_sessions s)\<rparr>
                    in if changed then s1\<lparr>rs_sessions := Clear (rs_sessions s1)\<rparr> else s1)
      | _ \<Rightarrow> s)"

text \<open>The hooks of a successful apply or reset, in the order of their registration.\<close>

definition after_change :: "libs \<Rightarrow> 'w RestServer_scheme \<Rightarrow> 'w RestServer_scheme" where
  "after_change L s = syncManagementLimits (reloadAuth L s)"

section \<open>Counting\<close>

definition count :: "effect list \<Rightarrow> 'w RestServer_scheme \<Rightarrow> 'w RestServer_scheme" where
  "count es s = s\<lparr>rs_metrics := map_option (fold record_effect es) (rs_metrics s)\<rparr>"

definition observeHTTP :: "string \<Rightarrow> int \<Rightarrow> 'w RestServer_scheme \<Rightarrow> 'w RestServer_scheme" where
  "observeHTTP capID status = count [Count MetricHTTPRequestsTotal [(''capability'', capID), (''code_class'', CodeClass status)]]"

definition observeAuthFailure :: "'w RestServer_scheme \<Rightarrow> 'w RestServer_scheme" where
  "observeAuthFailure = count [Count MetricAuthFailuresTotal []]"

definition requestID :: "'w RestEnv \<Rightarrow> HttpRequest \<Rightarrow> string" where
  "requestID E r =
     (let given = header r headerRequestID in
      if given \<noteq> [] then given
      else case re_reqid E of None \<Rightarrow> ''req-fallback'' | Some b \<Rightarrow> hex_encode b)"

section \<open>auth.go: who asks and whether it may\<close>

definition actorOf :: "Principal \<Rightarrow> string \<Rightarrow> Actor" where
  "actorOf p transport =
     \<lparr>ac_id = pn_ID p, ac_class = pn_Class p, ac_role = pn_Role p, ac_scopes = pn_Scopes p, ac_transport = transport\<rparr>"

definition probe_actor :: Actor where
  "probe_actor = \<lparr>ac_id = ''probe'', ac_class = ''startup'', ac_role = [], ac_scopes = [], ac_transport = ''rest''\<rparr>"

definition isHealthCap :: "Capability \<Rightarrow> bool" where
  "isHealthCap c = (cp_ID c = HealthLive \<or> cp_ID c = HealthReady)"

definition by_verifier :: "string \<Rightarrow> 'w RestServer_scheme \<Rightarrow> HttpRequest \<Rightarrow> 'w RestServer_scheme \<times> (Error + Actor)" where
  "by_verifier hdr s r =
     (case Authenticate (rs_auth s) \<lparr>rq_Authorization = hdr, rq_RemoteAddr = hr_remote r\<rparr> of
        Inl e \<Rightarrow> (observeAuthFailure s, Inl e)
      | Inr p \<Rightarrow> (s, Inr (actorOf p ''rest'')))"

definition authenticate :: "'w RestEnv \<Rightarrow> 'w RestServer_scheme \<Rightarrow> HttpRequest \<Rightarrow> bool \<Rightarrow> 'w RestServer_scheme \<times> (Error + Actor)" where
  "authenticate E s r skip =
     (if skip then (s, Inr probe_actor)
      else if rs_auth s = None then (observeAuthFailure s, Inl auth_required)
      else let hdr = trim_space (header r ''Authorization'') in
        if hdr \<noteq> [] then by_verifier hdr s r
        else case hr_cookie r of
          None \<Rightarrow> by_verifier [] s r
        | Some c \<Rightarrow>
            if c = [] then by_verifier [] s r
            else let (ss, found) = LookupSession (re_now_auth E) (rs_sessions s) c; s1 = s\<lparr>rs_sessions := ss\<rparr> in
              case found of
                Some (sess, csrf) \<Rightarrow> (s1, Inr (actorOf (PrincipalFromSession sess) ''rest''))
              | None \<Rightarrow> by_verifier [] s1 r)"

definition csrf_denied :: Error where
  "csrf_denied = Forbidden ''CSRF token is missing or invalid''"

definition authorize :: "'w RestEnv \<Rightarrow> 'w RestServer_scheme \<Rightarrow> HttpRequest \<Rightarrow> Actor \<Rightarrow> Capability \<Rightarrow> 'w RestServer_scheme \<times> Error option" where
  "authorize E s r actor c =
     (if rs_auth s = None then (s, Some auth_required)
      else case AuthorizeScopes (ac_scopes actor) (cp_RequiredScopes c) of
        Some e \<Rightarrow> (s, Some e)
      | None \<Rightarrow>
          if \<not> UnsafeMethod (hr_method r) \<or> trim_space (header r ''Authorization'') \<noteq> [] then (s, None)
          else case hr_cookie r of
            None \<Rightarrow> (s, None)
          | Some ck \<Rightarrow>
              if ck = [] then (s, None)
              else let (ss, ok) = ValidCSRF (re_now_csrf E) (rs_sessions s) ck (header r CSRFHeader) in
                (s\<lparr>rs_sessions := ss\<rparr>, if ok then None else Some csrf_denied))"

definition cookieSecure :: "'w RestServer_scheme \<Rightarrow> HttpRequest \<Rightarrow> bool" where
  "cookieSecure s r = CookieSecure (hr_tls r) (rs_cookieSecure s)"

end
