(* ===== verification/Rest_Serve.thy ===== *)
theory Rest_Serve
  imports Rest
begin

text \<open>
  The handlers of \<^verbatim>\<open>internal/control/rest\<close> (handlers.go, session.go), their dispatch by
  capability, and \<^verbatim>\<open>serveHTTP\<close>, which takes a request through every check in the order
  of the code.
\<close>

section \<open>handlers.go: reads\<close>

definition add_header :: "string \<Rightarrow> string \<Rightarrow> Response \<Rightarrow> Response" where
  "add_header k v rp = rp\<lparr>rp_headers := (k, v) # rp_headers rp\<rparr>"

definition revision_header :: "revision \<Rightarrow> Response \<Rightarrow> Response" where
  "revision_header rv rp = (if rv \<noteq> [] then add_header headerRevision rv rp else rp)"

definition problem :: "string \<Rightarrow> Error \<Rightarrow> handled" where
  "problem urn e = Done (writeProblem urn e)"

text \<open>The error of a service call is a problem; its result is answered by \<open>f\<close>.\<close>

definition answer :: "string \<Rightarrow> (go_error + 'r) \<Rightarrow> ('r \<Rightarrow> handled) \<Rightarrow> handled" where
  "answer urn r f = (case r of Inl e \<Rightarrow> problem urn (rest_asDomain e) | Inr x \<Rightarrow> f x)"

definition settle :: "string \<Rightarrow> 'r outcome \<Rightarrow> ('r \<Rightarrow> handled) \<Rightarrow> handled" where
  "settle urn out f = (case out of Blocks \<Rightarrow> Hang | Panics \<Rightarrow> Crash | Returns r \<Rightarrow> answer urn r f)"

definition ok_json :: "json \<Rightarrow> handled" where
  "ok_json v = Done (writeJSON 200 v)"

definition isLive :: "'w RestEnv \<Rightarrow> bool" where
  "isLive E = (case re_live E of None \<Rightarrow> True | Some b \<Rightarrow> b)"

definition isReady :: "'w RestEnv \<Rightarrow> 'w RestServer_scheme \<Rightarrow> bool" where
  "isReady E s =
     (case re_ready E of
        Some b \<Rightarrow> b
      | None \<Rightarrow> (case app_Status (re_env E) (rs_app s) (re_facts E) of Inl e \<Rightarrow> False | Inr st \<Rightarrow> sv_ready st))"

definition handleHealthLive :: "'w RestEnv \<Rightarrow> handled" where
  "handleHealthLive E =
     (if \<not> isLive E then Done (writeJSON 503 (health_json ''down'')) else ok_json (health_json ''ok''))"

definition handleHealthReady :: "'w RestEnv \<Rightarrow> 'w RestServer_scheme \<Rightarrow> handled" where
  "handleHealthReady E s =
     (if \<not> isReady E s then Done (writeJSON 503 (health_json ''not ready'')) else ok_json (health_json ''ok''))"

definition handleStatus :: "'w RestEnv \<Rightarrow> 'w RestServer_scheme \<Rightarrow> string \<Rightarrow> handled" where
  "handleStatus E s urn =
     answer urn (app_Status (re_env E) (rs_app s) (re_facts E)) (\<lambda>st.
       case marshalAPI (revisions_json (re_zone E) (sv_revisions st)) of
         None \<Rightarrow> problem urn (Internal ''internal error'')
       | Some _ \<Rightarrow> ok_json (status_json (re_zone E) (isReady E s) st))"

definition handleSchema :: "'w RestEnv \<Rightarrow> string \<Rightarrow> handled" where
  "handleSchema E urn =
     (case re_schema E of
        None \<Rightarrow> problem urn (Internal ''schema unavailable'')
      | Some b \<Rightarrow> Done (writeBytes 200 ''application/schema+json'' b))"

definition handleFeatures :: "'w RestEnv \<Rightarrow> string \<Rightarrow> handled" where
  "handleFeatures E urn = answer urn (with_ctx (re_env E) (Inr ())) (\<lambda>_. ok_json features_json)"

definition handleGetState :: "'w RestEnv \<Rightarrow> 'w RestServer_scheme \<Rightarrow> string \<Rightarrow> handled" where
  "handleGetState E s urn =
     answer urn (GetState (re_env E) (rs_app s)) (\<lambda>(v, st).
       case marshalAPI (state_json st) of
         None \<Rightarrow> problem urn (Internal ''internal error'')
       | Some _ \<Rightarrow> Done (revision_header (rv_runtimeRevision v) (writeJSON 200 (state_view_json v st))))"

definition handleExport :: "'w RestEnv \<Rightarrow> 'w RestServer_scheme \<Rightarrow> string \<Rightarrow> HttpRequest \<Rightarrow> handled" where
  "handleExport E s urn r =
     (let given = to_lower (query r ''format'') in
      if given \<notin> {[], ''yaml'', ''yml'', ''json''} then
        problem urn (ValidationFailed ''unknown export format'' [violation ''format'' ''invalid_value'' ''format must be yaml or json''])
      else let format = (if given = ''json'' then ExportJSON else ExportYAML) in
        answer urn (app_Export (re_env E) (rs_app s) format) (\<lambda>e.
          Done (revision_header (ex_revision e)
            (if format = ExportYAML then writeBytes 200 ''application/yaml'' (ex_body e) else writeJSON 200 (export_json e)))))"

definition handleFiltersList :: "'w RestEnv \<Rightarrow> 'w RestServer_scheme \<Rightarrow> string \<Rightarrow> handled" where
  "handleFiltersList E s urn = answer urn (ListFilters (re_env E) (rs_app s)) (\<lambda>fs. ok_json (filters_json fs))"

definition handleFiltersGet :: "'w RestEnv \<Rightarrow> 'w RestServer_scheme \<Rightarrow> string \<Rightarrow> string \<Rightarrow> handled" where
  "handleFiltersGet E s urn name = settle urn (GetFilter (re_env E) (rs_app s) name) (\<lambda>f. ok_json (filter_json f))"

definition handlePreview :: "'w RestEnv \<Rightarrow> 'w RestServer_scheme \<Rightarrow> string \<Rightarrow> HttpRequest \<Rightarrow> handled" where
  "handlePreview E s urn r =
     answer urn (app_Preview (re_env E) (rs_app s) (trim_space (query r ''ip''))) (\<lambda>p. ok_json (fromPreview p))"

definition query_limit :: "HttpRequest \<Rightarrow> Error + int" where
  "query_limit r =
     (let raw = query r ''limit'';
          bad = ValidationFailed ''invalid limit'' [violation ''limit'' ''invalid_value'' ''limit must be a non-negative integer''] in
      if raw = [] then Inr 0
      else case atoi raw of None \<Rightarrow> Inl bad | Some n \<Rightarrow> if n < 0 then Inl bad else Inr n)"

definition handleQueries :: "'w RestEnv \<Rightarrow> 'w RestServer_scheme \<Rightarrow> string \<Rightarrow> HttpRequest \<Rightarrow> handled" where
  "handleQueries E s urn r =
     (case query_limit r of
        Inl e \<Rightarrow> problem urn e
      | Inr n \<Rightarrow> answer urn (ListQueries (re_env E) (rs_app s) n (query r ''cursor'')) (\<lambda>q. ok_json (queries_json q)))"

definition handleAuditList :: "'w RestEnv \<Rightarrow> 'w RestServer_scheme \<Rightarrow> string \<Rightarrow> HttpRequest \<Rightarrow> handled" where
  "handleAuditList E s urn r =
     (case query_limit r of
        Inl e \<Rightarrow> problem urn e
      | Inr n \<Rightarrow> answer urn (QueryAudit (re_env E) (rs_app s) n) (\<lambda>evs. ok_json (events_json (re_zone E) evs)))"

definition handleAuditGet :: "'w RestEnv \<Rightarrow> 'w RestServer_scheme \<Rightarrow> string \<Rightarrow> string \<Rightarrow> handled" where
  "handleAuditGet E s urn i = answer urn (GetAudit (re_env E) (rs_app s) i) (\<lambda>ev. ok_json (event_json (re_zone E) ev))"

definition handleMetrics :: "'w RestServer_scheme \<Rightarrow> string \<Rightarrow> handled" where
  "handleMetrics s urn =
     (if \<not> rs_publicMetrics s then problem urn (NotFound ''not found'')
      else Done \<lparr>rp_status = 200, rp_headers = [(''Content-Type'', OpenMetricsContentType)], rp_cookies = [],
        rp_body = (if rs_metrics s = None then ''# EOF'' @ [CHR 0x0A] else WriteOpenMetrics (rs_metrics s))\<rparr>)"

section \<open>handlers.go: plans and changes\<close>

definition handleValidate :: "'w RestEnv \<Rightarrow> 'w RestServer_scheme \<Rightarrow> string \<Rightarrow> HttpRequest \<Rightarrow> handled" where
  "handleValidate E s urn r =
     (let L = en_libs (re_env E) in
      case decodeJSON_body L (re_short E) (rs_maxBody s) r change_type zero_change as_change of
        Inl e \<Rightarrow> problem urn e
      | Inr q \<Rightarrow>
          (case decodeCandidateState L (cr_state q) of
             None \<Rightarrow> Crash
           | Some (Inl e) \<Rightarrow> problem urn e
           | Some (Inr st) \<Rightarrow>
               settle urn (app_Validate (re_env E) (rs_app s) st (elems (cr_operations q))) (\<lambda>p. ok_json (fromPlan p))))"

definition handlePlan :: "'w RestEnv \<Rightarrow> 'w RestServer_scheme \<Rightarrow> string \<Rightarrow> HttpRequest \<Rightarrow> 'w RestServer_scheme \<times> handled" where
  "handlePlan E s urn r =
     (case readChange (en_libs (re_env E)) (re_short E) (rs_maxBody s) r of
        Inl e \<Rightarrow> (s, problem urn e)
      | Inr ci \<Rightarrow> (let (a, out) = app_Plan (re_env E) (rs_app s) ci in
          (s\<lparr>rs_app := a\<rparr>, settle urn out (\<lambda>p. ok_json (fromPlan p)))))"

text \<open>The state a mutation of the app leaves, and the hooks that run when it changed the snapshot.\<close>

definition changed :: "'w RestEnv \<Rightarrow> 'w RestServer_scheme \<Rightarrow> App \<Rightarrow> effect list \<Rightarrow> bool \<Rightarrow> 'w RestServer_scheme" where
  "changed E s a es hooks =
     (let s1 = count es (s\<lparr>rs_app := a\<rparr>) in if hooks then after_change (en_libs (re_env E)) s1 else s1)"

definition ran :: "('r \<times> bool) outcome \<Rightarrow> bool" where
  "ran out = (case out of Returns (Inr (res, True)) \<Rightarrow> True | _ \<Rightarrow> False)"

definition with_apply ::
  "'w RestEnv \<Rightarrow> 'w RestServer_scheme \<Rightarrow> string \<Rightarrow> App \<times> effect list \<times> (ApplyResult \<times> bool) outcome \<Rightarrow> (ApplyResult \<Rightarrow> Response) \<Rightarrow> 'w RestServer_scheme \<times> handled" where
  "with_apply E s urn out f =
     (case out of (a, es, o1) \<Rightarrow> (changed E s a es (ran o1), settle urn o1 (\<lambda>(res, _). Done (f res))))"

definition handleApply :: "'w RestEnv \<Rightarrow> 'w RestServer_scheme \<Rightarrow> string \<Rightarrow> Actor \<Rightarrow> HttpRequest \<Rightarrow> 'w RestServer_scheme \<times> handled" where
  "handleApply E s urn actor r =
     (case readChange (en_libs (re_env E)) (re_short E) (rs_maxBody s) r of
        Inl e \<Rightarrow> (s, problem urn e)
      | Inr ci \<Rightarrow> with_apply E s urn (app_Apply (re_env E) (rs_app s) actor ci)
          (\<lambda>res. revision_header (ap_runtimeRevision res) (writeJSON 200 (fromApply res))))"

text \<open>The check of the authentication that \<^verbatim>\<open>New\<close> registers on the app comes last.\<close>

definition app_hooks :: "'w RestEnv \<Rightarrow> Hooks" where
  "app_hooks E = (re_hooks E)\<lparr>hk_preflight := hk_preflight (re_hooks E) @ [preflightAuth (en_libs (re_env E))]\<rparr>"

definition handleReset :: "'w RestEnv \<Rightarrow> 'w RestServer_scheme \<Rightarrow> string \<Rightarrow> Actor \<Rightarrow> HttpRequest \<Rightarrow> 'w RestServer_scheme \<times> handled" where
  "handleReset E s urn actor r =
     (case decodeJSONOptional (en_libs (re_env E)) (re_short E) (rs_maxBody s) r reset_type [] as_reset of
        Inl e \<Rightarrow> (s, problem urn e)
      | Inr reason \<Rightarrow>
          (case app_Reset (re_env E) (app_hooks E) (rs_app s) (rs_listen s) actor reason of
             (a, l, es, out) \<Rightarrow>
               (changed E (s\<lparr>rs_listen := l\<rparr>) a es (case out of Returns (Inr _) \<Rightarrow> True | _ \<Rightarrow> False),
                settle urn out (\<lambda>res. ok_json (fromApply res)))))"

definition zero_filter_named :: "string \<Rightarrow> FilterSpec option \<Rightarrow> FilterSpec" where
  "zero_filter_named name f0 =
     (let f = (case f0 of None \<Rightarrow> zero_filter | Some f \<Rightarrow> f) in if fs_name f = [] then f\<lparr>fs_name := name\<rparr> else f)"

definition handleFiltersPut :: "'w RestEnv \<Rightarrow> 'w RestServer_scheme \<Rightarrow> string \<Rightarrow> Actor \<Rightarrow> HttpRequest \<Rightarrow> string \<Rightarrow> 'w RestServer_scheme \<times> handled" where
  "handleFiltersPut E s urn actor r name =
     (case decodeJSON_body (en_libs (re_env E)) (re_short E) (rs_maxBody s) r put_type zero_put as_put of
        Inl e \<Rightarrow> (s, problem urn e)
      | Inr q \<Rightarrow>
          (let f = zero_filter_named name (pf_filter q) in
           if name \<noteq> [] \<and> fs_name f \<noteq> name then
             (s, problem urn (ValidationFailed ''name mismatch''
                [violation ''name'' ''invalid_value'' ''path name must match filter.name'']))
           else with_apply E s urn
             (PutFilter (re_env E) (rs_app s) actor (expectedRevision r (pf_expectedRevision q))
                (idempotencyKey r (pf_idempotencyKey q)) (pf_reason q) f)
             (\<lambda>res. writeJSON 200 (fromApply res))))"

definition handleFiltersDelete :: "'w RestEnv \<Rightarrow> 'w RestServer_scheme \<Rightarrow> string \<Rightarrow> Actor \<Rightarrow> HttpRequest \<Rightarrow> string \<Rightarrow> 'w RestServer_scheme \<times> handled" where
  "handleFiltersDelete E s urn actor r name =
     (case decodeJSONOptional (en_libs (re_env E)) (re_short E) (rs_maxBody s) r delete_type zero_delete as_delete of
        Inl e \<Rightarrow> (s, problem urn e)
      | Inr q \<Rightarrow> with_apply E s urn
          (DeleteFilter (re_env E) (rs_app s) actor name (expectedRevision r (df_expectedRevision q))
             (idempotencyKey r (df_idempotencyKey q)) (df_reason q))
          (\<lambda>res. writeJSON 200 (fromApply res)))"

section \<open>session.go\<close>

definition principal_of_actor :: "Actor \<Rightarrow> Principal" where
  "principal_of_actor a = \<lparr>pn_ID = ac_id a, pn_Class = ac_class a, pn_Role = ac_role a, pn_Scopes = ac_scopes a\<rparr>"

definition handleSessionCreate :: "'w RestEnv \<Rightarrow> 'w RestServer_scheme \<Rightarrow> string \<Rightarrow> Actor \<Rightarrow> HttpRequest \<Rightarrow> 'w RestServer_scheme \<times> handled" where
  "handleSessionCreate E s urn actor r =
     (let (ss, made) = Create (re_now_op E) (re_draws E) (rs_sessions s) (principal_of_actor actor) in
      (s\<lparr>rs_sessions := ss\<rparr>,
       case made of
         Inl e \<Rightarrow> problem urn e
       | Inr (cookie, csrf, sess) \<Rightarrow>
           Done ((writeJSON 200 (session_create_json csrf (ExpiresAt ss sess)))
             \<lparr>rp_cookies := [NewSessionCookie cookie (cookieSecure s r) (MaxAge (Some ss))]\<rparr>)))"

definition handleSessionGet :: "'w RestEnv \<Rightarrow> 'w RestServer_scheme \<Rightarrow> Actor \<Rightarrow> HttpRequest \<Rightarrow> 'w RestServer_scheme \<times> handled" where
  "handleSessionGet E s actor r =
     (case hr_cookie r of
        None \<Rightarrow> (s, ok_json (session_view_json actor None))
      | Some c \<Rightarrow>
          (let (ss, found) = LookupSession (re_now_op E) (rs_sessions s) c in
           (s\<lparr>rs_sessions := ss\<rparr>,
            ok_json (session_view_json actor (map_option (\<lambda>(sess, csrf). (csrf, ExpiresAt ss sess)) found)))))"

definition handleSessionDelete :: "'w RestServer_scheme \<Rightarrow> HttpRequest \<Rightarrow> 'w RestServer_scheme \<times> handled" where
  "handleSessionDelete s r =
     (case hr_cookie r of None \<Rightarrow> s | Some c \<Rightarrow> s\<lparr>rs_sessions := DeleteSession (rs_sessions s) c\<rparr>,
      Done \<lparr>rp_status = 204, rp_headers = [(''Cache-Control'', ''no-store'')],
            rp_cookies = [ClearSessionCookie (cookieSecure s r)], rp_body = []\<rparr>)"

section \<open>dispatch\<close>

definition dispatch ::
  "'w RestEnv \<Rightarrow> 'w RestServer_scheme \<Rightarrow> HttpRequest \<Rightarrow> string \<Rightarrow> Actor \<Rightarrow> string \<Rightarrow> (string \<times> string) list \<Rightarrow> 'w RestServer_scheme \<times> handled" where
  "dispatch E s r urn actor cap params =
     (if re_canceled E then (s, problem urn (Internal ''request canceled''))
      else if cap = HealthLive then (s, handleHealthLive E)
      else if cap = HealthReady then (s, handleHealthReady E s)
      else if cap = VersionGet then (s, ok_json (fromVersion (Current (re_build E))))
      else if cap = CapabilitiesGet then (s, ok_json (fromCapabilities (re_indexes E)))
      else if cap = StatusGet then (s, handleStatus E s urn)
      else if cap = SchemaGet then (s, handleSchema E urn)
      else if cap = FeaturesList then (s, handleFeatures E urn)
      else if cap = StateGet then (s, handleGetState E s urn)
      else if cap = StateValidate then (s, handleValidate E s urn r)
      else if cap = ChangesPlan then handlePlan E s urn r
      else if cap = ChangesApply then handleApply E s urn actor r
      else if cap = SessionCreate then handleSessionCreate E s urn actor r
      else if cap = SessionDelete then handleSessionDelete s r
      else if cap = SessionGet then handleSessionGet E s actor r
      else if cap = StateExport then (s, handleExport E s urn r)
      else if cap = StateReset then handleReset E s urn actor r
      else if cap = FiltersList then (s, handleFiltersList E s urn)
      else if cap = FiltersGet then (s, handleFiltersGet E s urn (first_value params ''name''))
      else if cap = FiltersPut then handleFiltersPut E s urn actor r (first_value params ''name'')
      else if cap = FiltersDelete then handleFiltersDelete E s urn actor r (first_value params ''name'')
      else if cap = ViewsPreview then (s, handlePreview E s urn r)
      else if cap = QueriesList then (s, handleQueries E s urn r)
      else if cap = AuditList then (s, handleAuditList E s urn r)
      else if cap = AuditGet then (s, handleAuditGet E s urn (first_value params ''eventId''))
      else if cap = MetricsGet then (s, handleMetrics s urn)
      else (s, problem urn (NotFound ''not found'')))"

section \<open>server.go: a request\<close>

text \<open>
  \<^verbatim>\<open>http.ServeMux\<close> over exact paths: the path is cleaned, a trailing slash kept, and a request
  for a path that is not clean is redirected; CONNECT is taken as it is. A path is taken decoded.
\<close>

definition clean_path :: "string \<Rightarrow> string" where
  "clean_path p = (let q = clean_rooted (''/'' @ p) in
     if p \<noteq> [] \<and> List.last p = CHR ''/'' \<and> q \<noteq> ''/'' then q @ ''/'' else q)"

definition mux_handler ::
  "'w RestEnv \<Rightarrow> HttpRequest \<Rightarrow> (int \<Rightarrow> 'w RestServer_scheme \<Rightarrow> HttpRequest \<Rightarrow> 'w RestServer_scheme \<times> handled) option" where
  "mux_handler E r =
     (let p = (if hr_method r = ''CONNECT'' then hr_path r else clean_path (hr_path r)) in
      map_option (\<lambda>h. if p \<noteq> hr_path r then (\<lambda>_ s q. (s, Done (re_redirect E q p))) else h) (map_of (re_mounts E) p))"

text \<open>An admission check, then what follows it.\<close>

definition rated :: "'w RestEnv \<Rightarrow> 'w RestServer_scheme \<Rightarrow> HttpRequest \<Rightarrow> string \<Rightarrow> ('w RestServer_scheme \<Rightarrow> 'w RestServer_scheme \<times> handled) \<Rightarrow> 'w RestServer_scheme \<times> handled" where
  "rated E s r urn f =
     (let (l, refused) = rest_allow (rs_rate s) (re_now_rate E) (hr_remote r); s1 = s\<lparr>rs_rate := l\<rparr> in
      case refused of Some e \<Rightarrow> (s1, problem urn e) | None \<Rightarrow> f s1)"

definition guarded :: "'w RestEnv \<Rightarrow> 'w RestServer_scheme \<Rightarrow> HttpRequest \<Rightarrow> string \<Rightarrow> Capability \<Rightarrow> (string \<times> string) list \<Rightarrow> 'w RestServer_scheme \<times> handled" where
  "guarded E s r urn c params =
     (case authenticate E s r (isHealthCap c) of
        (s1, Inl e) \<Rightarrow> (s1, problem urn e)
      | (s1, Inr actor) \<Rightarrow>
          (case authorize E s1 r actor c of
             (s2, Some e) \<Rightarrow> (s2, problem urn e)
           | (s2, None) \<Rightarrow> dispatch E s2 r urn actor (cp_ID c) params))"

definition tryUI :: "'w RestEnv \<Rightarrow> HttpRequest \<Rightarrow> (HttpRequest \<Rightarrow> Response) option" where
  "tryUI E r =
     (if re_ui E = None \<or> reservedManagementPath (hr_path r) then None
      else if re_uiEnabled E = Some False then None
      else re_ui E)"

text \<open>What runs under the inflight gate: the capability for the metrics, the state and the outcome.\<close>

definition admitted :: "'w RestEnv \<Rightarrow> 'w RestServer_scheme \<Rightarrow> HttpRequest \<Rightarrow> string \<Rightarrow> string \<times> 'w RestServer_scheme \<times> handled" where
  "admitted E s r urn =
     (case mux_handler E r of
        Some h \<Rightarrow> ([], rated E s r urn (\<lambda>s1. h (rs_maxBody s1) s1 r))
      | None \<Rightarrow>
          (case matchRoute (rs_routes s) (hr_method r) (hr_path r) of
             None \<Rightarrow> ([], s, Crash)
           | Some (Some rt, Some params) \<Rightarrow>
               (cp_ID (rt_cap rt),
                if isHealthCap (rt_cap rt) then guarded E s r urn (rt_cap rt) params
                else rated E s r urn (\<lambda>s1. guarded E s1 r urn (rt_cap rt) params))
           | Some (Some rt, None) \<Rightarrow>
               (cp_ID (rt_cap rt), s,
                Done (add_header headerAllow (allowedMethods (rs_routes s) (hr_path r))
                  (writeProblem urn (MethodNotAllowed ''method not allowed''))))
           | Some (None, _) \<Rightarrow>
               ([], case tryUI E r of
                      Some ui \<Rightarrow> rated E s r urn (\<lambda>s1. (s1, Done (ui r)))
                    | None \<Rightarrow> (s, problem urn (NotFound ''not found'')))))"

definition finish :: "string \<Rightarrow> string \<Rightarrow> 'w RestServer_scheme \<Rightarrow> Response \<Rightarrow> 'w RestServer_scheme \<times> handled" where
  "finish reqID capID s rp = (observeHTTP capID (rp_status rp) s, Done (add_header headerRequestID reqID rp))"

text \<open>
  A panic becomes an internal error; in every case but a wait for ever the slot of the gate is given
  back.
\<close>

definition serveHTTP :: "'w RestEnv \<Rightarrow> 'w RestServer_scheme \<Rightarrow> HttpRequest \<Rightarrow> 'w RestServer_scheme \<times> handled" where
  "serveHTTP E s r =
     (let reqID = requestID E r; urn = requestURNPrefix @ reqID in
      case CheckOrigin (header r ''Origin'') (rs_allowedOrigins s) of
        Some e \<Rightarrow> finish reqID [] s (writeProblem urn e)
      | None \<Rightarrow>
          if hr_method r = ''OPTIONS'' then finish reqID [] s (writeProblem urn (Forbidden ''CORS is disabled''))
          else case acquire (rs_gate s) of
            (_, False) \<Rightarrow> finish reqID [] s (writeProblem urn (RateLimited ''too many concurrent management requests''))
          | (g, True) \<Rightarrow>
              (let (capID, s1, out) = admitted E (s\<lparr>rs_gate := g\<rparr>) r urn;
                   freed = s1\<lparr>rs_gate := release (rs_gate s1)\<rparr>
               in case out of
                 Done rp \<Rightarrow> finish reqID capID freed rp
               | Crash \<Rightarrow> finish reqID capID freed (writeProblem urn (Internal ''internal error''))
               | Hang \<Rightarrow> (s1, Hang)))"

end
