(* ===== verification/Rest_Props.thy ===== *)
theory Rest_Props
  imports Rest_Serve Auth_Props
begin

text \<open>
  What the management server promises: no request changes the application without authority, slots
  are accounted for, a change of the tokens drops the sessions, and every route of the catalog is
  reached.
\<close>

section \<open>Which handlers change the application\<close>

lemma count_sel [simp]:
  "rs_app (count es s) = rs_app s" "rs_auth (count es s) = rs_auth s" "rs_sessions (count es s) = rs_sessions s"
  "rs_gate (count es s) = rs_gate s" "rs_routes (count es s) = rs_routes s" "rs_rate (count es s) = rs_rate s"
  by (simp_all add: count_def)

lemma observe_sel [simp]:
  "rs_app (observeHTTP c st s) = rs_app s" "rs_gate (observeHTTP c st s) = rs_gate s"
  "rs_sessions (observeHTTP c st s) = rs_sessions s" "rs_auth (observeHTTP c st s) = rs_auth s"
  "rs_app (observeAuthFailure s) = rs_app s" "rs_gate (observeAuthFailure s) = rs_gate s"
  "rs_sessions (observeAuthFailure s) = rs_sessions s" "rs_auth (observeAuthFailure s) = rs_auth s"
  by (simp_all add: observeHTTP_def observeAuthFailure_def)

lemma after_change_sel [simp]:
  "rs_app (after_change L s) = rs_app s" "ig_cur (rs_gate (after_change L s)) = ig_cur (rs_gate s)"
  by (simp_all add: after_change_def syncManagementLimits_def reloadAuth_def ApplyLimits_def setMax_def Let_def
      split: option.splits prod.splits sum.splits)

lemma changed_sel [simp]:
  "rs_app (changed E s a es h) = a" "ig_cur (rs_gate (changed E s a es h)) = ig_cur (rs_gate s)"
  "rs_gate (changed E s a es False) = rs_gate s"
  by (simp_all add: changed_def Let_def)

lemma by_verifier_sel [simp]:
  "rs_app (fst (by_verifier h s r)) = rs_app s" "rs_gate (fst (by_verifier h s r)) = rs_gate s"
  "rs_auth (fst (by_verifier h s r)) = rs_auth s" "rs_sessions (fst (by_verifier h s r)) = rs_sessions s"
  by (simp_all add: by_verifier_def split: sum.splits)

lemma authenticate_sel [simp]:
  "rs_app (fst (authenticate E s r skip)) = rs_app s" "rs_gate (fst (authenticate E s r skip)) = rs_gate s"
  "rs_auth (fst (authenticate E s r skip)) = rs_auth s"
  by (simp_all add: authenticate_def Let_def split: option.splits prod.splits)

lemma authorize_sel [simp]:
  "rs_app (fst (authorize E s r a c)) = rs_app s" "rs_gate (fst (authorize E s r a c)) = rs_gate s"
  "rs_auth (fst (authorize E s r a c)) = rs_auth s"
  by (simp_all add: authorize_def Let_def split: option.splits prod.splits)

definition mutating_caps :: "string list" where
  "mutating_caps = [ChangesPlan, ChangesApply, StateReset, FiltersPut, FiltersDelete]"

lemma session_handlers_sel [simp]:
  "rs_app (fst (handleSessionCreate E s urn a r)) = rs_app s" "rs_gate (fst (handleSessionCreate E s urn a r)) = rs_gate s"
  "rs_app (fst (handleSessionGet E s a r)) = rs_app s" "rs_gate (fst (handleSessionGet E s a r)) = rs_gate s"
  "rs_app (fst (handleSessionDelete s r)) = rs_app s" "rs_gate (fst (handleSessionDelete s r)) = rs_gate s"
  by (simp_all add: handleSessionCreate_def handleSessionGet_def handleSessionDelete_def Let_def split: option.splits prod.splits)

lemma dispatch_app: "cap \<notin> set mutating_caps \<Longrightarrow> rs_app (fst (dispatch E s r urn actor cap params)) = rs_app s"
  by (simp add: dispatch_def mutating_caps_def if_distrib [of fst] if_distrib [of rs_app] cong: if_cong)

section \<open>Who a caller is\<close>

definition authorization :: "HttpRequest \<Rightarrow> string" where
  "authorization r = trim_space (header r ''Authorization'')"

text \<open>The verifier accepts the caller, or the cookie of the request names a session that is alive.\<close>

definition by_session :: "'w RestEnv \<Rightarrow> 'w RestServer_scheme \<Rightarrow> HttpRequest \<Rightarrow> Principal option" where
  "by_session E s r =
     (if authorization r \<noteq> [] then None
      else opt_bind (hr_cookie r) (\<lambda>c. map_option (\<lambda>(sess, csrf). PrincipalFromSession sess)
        (snd (LookupSession (re_now_auth E) (rs_sessions s) c))))"

definition vouched :: "'w RestEnv \<Rightarrow> 'w RestServer_scheme \<Rightarrow> HttpRequest \<Rightarrow> Principal \<Rightarrow> bool" where
  "vouched E s r p =
     (Authenticate (rs_auth s) \<lparr>rq_Authorization = authorization r, rq_RemoteAddr = hr_remote r\<rparr> = Inr p
      \<or> by_session E s r = Some p)"

text \<open>A request that shows a session cookie and no Authorization header repeats the session's secret.\<close>

definition csrf_presented :: "'w RestServer_scheme \<Rightarrow> HttpRequest \<Rightarrow> bool" where
  "csrf_presented s r =
     (if authorization r \<noteq> [] then True
      else case hr_cookie r of None \<Rightarrow> True
        | Some c \<Rightarrow> if c = [] then True
            else (case map_of (ss_sessions (rs_sessions s)) c of None \<Rightarrow> False
              | Some rec \<Rightarrow> sha256 (bytes_of_string (sr_csrf rec)) = sha256 (bytes_of_string (header r CSRFHeader))))"

lemma principal_scopes [simp]: "ac_scopes (actorOf p t) = pn_Scopes p"
  by (simp add: actorOf_def)

lemma authenticate_vouched:
  assumes "authenticate E s r False = (s1, Inr actor)"
  shows "\<exists>p. actor = actorOf p ''rest'' \<and> vouched E s r p"
proof -
  let ?h = "authorization r"
  have v: "\<exists>p. actor = actorOf p ''rest'' \<and> vouched E s r p"
    if "by_verifier ?h s' r = (s1, Inr actor)" "rs_auth s' = rs_auth s" for s'
    using that by (auto simp: by_verifier_def vouched_def split: sum.splits)
  have n: "rs_auth s \<noteq> None" using assms by (cases "rs_auth s") (simp_all add: authenticate_def)
  show ?thesis
  proof (cases "?h = []")
    case False
    with assms n have "by_verifier ?h s r = (s1, Inr actor)" by (simp add: authenticate_def authorization_def Let_def)
    then show ?thesis by (rule v) simp
  next
    case True
    show ?thesis
    proof (cases "hr_cookie r")
      case None
      with assms n True have "by_verifier ?h s r = (s1, Inr actor)" by (simp add: authenticate_def authorization_def Let_def)
      then show ?thesis by (rule v) simp
    next
      case (Some c)
      obtain ss found where l: "LookupSession (re_now_auth E) (rs_sessions s) c = (ss, found)" by fastforce
      show ?thesis
      proof (cases found)
        case None
        with assms n True Some l have "\<exists>s'. by_verifier ?h s' r = (s1, Inr actor) \<and> rs_auth s' = rs_auth s"
          by (cases "c = []") (auto simp: authenticate_def authorization_def Let_def)
        then show ?thesis using v by blast
      next
        case found: (Some sc)
        obtain sess csrf where sc: "sc = (sess, csrf)" by fastforce
        have c: "c \<noteq> []" using l found by (auto simp: LookupSession_def)
        from assms n True Some l found sc c have "actor = actorOf (PrincipalFromSession sess) ''rest''"
          by (auto simp: authenticate_def authorization_def Let_def)
        moreover have "by_session E s r = Some (PrincipalFromSession sess)" using True Some l found sc by (simp add: by_session_def)
        ultimately show ?thesis by (auto simp: vouched_def)
      qed
    qed
  qed
qed

text \<open>Authentication only touches the session it found, whose secret stays.\<close>

lemma LookupSession_csrf:
  "map_of (ss_sessions (fst (LookupSession now ss c))) k = Some rec \<Longrightarrow>
     \<exists>rec0. map_of (ss_sessions ss) k = Some rec0 \<and> sr_csrf rec = sr_csrf rec0"
  by (auto simp: LookupSession_def touch_def Let_def split: if_splits option.splits)

lemma authenticate_csrf:
  assumes "authenticate E s r skip = (s1, res)" "map_of (ss_sessions (rs_sessions s1)) k = Some rec"
  shows "\<exists>rec0. map_of (ss_sessions (rs_sessions s)) k = Some rec0 \<and> sr_csrf rec = sr_csrf rec0"
proof -
  have "rs_sessions s1 = rs_sessions s \<or> (\<exists>c. rs_sessions s1 = fst (LookupSession (re_now_auth E) (rs_sessions s) c))"
    using assms(1) by (auto simp: authenticate_def by_verifier_def Let_def split: if_splits option.splits prod.splits sum.splits) (metis fst_conv)+
  then show ?thesis using assms(2) LookupSession_csrf by fastforce
qed

lemma ValidCSRF_record:
  "snd (ValidCSRF now ss c x) \<Longrightarrow> \<exists>rec. map_of (ss_sessions ss) c = Some rec
     \<and> sha256 (bytes_of_string (sr_csrf rec)) = sha256 (bytes_of_string x)"
  by (auto simp: ValidCSRF_def DigestSecret_def split: if_splits option.splits)

lemma authorize_csrf:
  assumes "authenticate E s r skip = (s1, res)" "authorize E s1 r actor c = (s2, None)" "UnsafeMethod (hr_method r)"
  shows "csrf_presented s r"
proof (cases "authorization r = [] \<and> hr_cookie r \<noteq> None \<and> hr_cookie r \<noteq> Some []")
  case False
  then show ?thesis by (auto simp: csrf_presented_def split: option.splits)
next
  case True
  then obtain ck where ck: "hr_cookie r = Some ck" "ck \<noteq> []" "trim_space (header r ''Authorization'') = []"
    by (auto simp: authorization_def)
  with assms(2,3) have "snd (ValidCSRF (re_now_csrf E) (rs_sessions s1) ck (header r CSRFHeader))"
    by (auto simp: authorize_def Let_def split: if_splits option.splits prod.splits)
  then obtain rec where "map_of (ss_sessions (rs_sessions s1)) ck = Some rec"
      "sha256 (bytes_of_string (sr_csrf rec)) = sha256 (bytes_of_string (header r CSRFHeader))"
    using ValidCSRF_record by blast
  with authenticate_csrf [OF assms(1)] show ?thesis using ck by (fastforce simp: csrf_presented_def)
qed

section \<open>Routes\<close>

lemma match_from_found:
  "match_from rts m path near = Some (Some rt, Some params) \<Longrightarrow> rt \<in> set rts \<and> rt_method rt = m"
  by (induction rts m path near rule: match_from.induct) (auto split: option.splits if_splits)

lemma matchRoute_found:
  "matchRoute rts m path = Some (Some rt, Some params) \<Longrightarrow> rt \<in> set rts \<and> rt_method rt = to_upper m"
  unfolding matchRoute_def by (rule match_from_found)

text \<open>What the catalog says of the capabilities that change the application.\<close>

definition needs_write :: "compiledRoute \<Rightarrow> bool" where
  "needs_write rt =
     (rt_method rt \<in> {''POST'', ''PUT'', ''DELETE''}
      \<and> list_ex (\<lambda>sc. sc = ScopeNTPWrite \<or> sc = ScopeNTPAdmin) (cp_RequiredScopes (rt_cap rt)))"

lemma catalog_mutating:
  "list_all (\<lambda>rt. if cp_ID (rt_cap rt) \<in> set mutating_caps then needs_write rt else True) (compileRoutes catalog)"
  by code_simp

lemma mutating_route:
  "rt \<in> set (compileRoutes catalog) \<Longrightarrow> cp_ID (rt_cap rt) \<in> set mutating_caps \<Longrightarrow> needs_write rt"
  using catalog_mutating unfolding list_all_iff by auto

lemma scope_write:
  "AuthorizeScopes scopes req = None \<Longrightarrow> list_ex (\<lambda>sc. sc = ScopeNTPWrite \<or> sc = ScopeNTPAdmin) req \<Longrightarrow>
   HasScope scopes ScopeNTPWrite"
  by (induction req) (auto simp: HasScope_def any_scope_iff ScopeNTPWrite_def ScopeNTPAdmin_def split: if_splits)

lemma health_not_mutating: "isHealthCap c \<Longrightarrow> cp_ID c \<notin> set mutating_caps"
  by (auto simp: isHealthCap_def mutating_caps_def capability_ids)

section \<open>No change without authority\<close>

lemma guarded_change:
  assumes "rs_app (fst (guarded E s r urn c params)) \<noteq> rs_app s"
  shows "cp_ID c \<in> set mutating_caps \<and> (\<exists>p. vouched E s r p \<and> AuthorizeScopes (pn_Scopes p) (cp_RequiredScopes c) = None)
     \<and> (if UnsafeMethod (hr_method r) then csrf_presented s r else True)"
proof -
  obtain s1 res where a: "authenticate E s r (isHealthCap c) = (s1, res)" by fastforce
  have app1: "rs_app s1 = rs_app s" using authenticate_sel(1) [of E s r "isHealthCap c"] a by simp
  with assms a obtain actor where res: "res = Inr actor" by (cases res) (auto simp: guarded_def)
  obtain s2 e where z: "authorize E s1 r actor c = (s2, e)" by fastforce
  have app2: "rs_app s2 = rs_app s" using authorize_sel(1) [of E s1 r actor c] z app1 by simp
  with assms a res z obtain "e = None" by (cases e) (auto simp: guarded_def)
  note z = z [unfolded this]
  have ch: "rs_app (fst (dispatch E s2 r urn actor (cp_ID c) params)) \<noteq> rs_app s2"
    using assms a res z app2 by (simp add: guarded_def)
  then have m: "cp_ID c \<in> set mutating_caps" using dispatch_app by blast
  with health_not_mutating a have "authenticate E s r False = (s1, res)" by (cases "isHealthCap c") auto
  then obtain p where p: "actor = actorOf p ''rest''" "vouched E s r p" using authenticate_vouched res by blast
  have "AuthorizeScopes (pn_Scopes p) (cp_RequiredScopes c) = None"
    using z p(1) by (auto simp: authorize_def split: if_splits option.splits)
  with m p(2) authorize_csrf [OF a z] show ?thesis by auto
qed

lemma rated_app:
  assumes "rs_app (fst (rated E s r urn f)) \<noteq> rs_app s"
  shows "\<exists>l. rs_app (fst (f (s\<lparr>rs_rate := l\<rparr>))) \<noteq> rs_app s"
  using assms by (auto simp: rated_def Let_def split: prod.splits option.splits)

lemma vouched_rate [simp]: "vouched E (s\<lparr>rs_rate := l\<rparr>) r p = vouched E s r p"
  by (simp add: vouched_def by_session_def)

lemma csrf_rate [simp]: "csrf_presented (s\<lparr>rs_rate := l\<rparr>) r = csrf_presented s r"
  by (simp add: csrf_presented_def split: option.splits)

lemma vouched_gate [simp]: "vouched E (s\<lparr>rs_gate := g\<rparr>) r p = vouched E s r p"
  by (simp add: vouched_def by_session_def)

lemma csrf_gate [simp]: "csrf_presented (s\<lparr>rs_gate := g\<rparr>) r = csrf_presented s r"
  by (simp add: csrf_presented_def split: option.splits)

definition authorised_change :: "'w RestEnv \<Rightarrow> 'w RestServer_scheme \<Rightarrow> HttpRequest \<Rightarrow> bool" where
  "authorised_change E s r =
     (to_upper (hr_method r) \<in> {''POST'', ''PUT'', ''DELETE''}
      \<and> (\<exists>p. vouched E s r p \<and> HasScope (pn_Scopes p) ScopeNTPWrite)
      \<and> (if UnsafeMethod (hr_method r) then csrf_presented s r else True))"

lemma admitted_change:
  assumes "mux_handler E r = None" "rs_routes s = compileRoutes catalog"
    "rs_app (fst (snd (admitted E s r urn))) \<noteq> rs_app s"
  shows "authorised_change E s r"
proof -
  obtain rt params where mt: "matchRoute (rs_routes s) (hr_method r) (hr_path r) = Some (Some rt, Some params)"
    using assms by (auto simp: admitted_def rated_def Let_def split: option.splits prod.splits)
  obtain l where "rs_app (fst (guarded E (s\<lparr>rs_rate := l\<rparr>) r urn (rt_cap rt) params)) \<noteq> rs_app (s\<lparr>rs_rate := l\<rparr>)"
  proof (cases "isHealthCap (rt_cap rt)")
    case True
    with assms(1,3) mt have "rs_app (fst (guarded E (s\<lparr>rs_rate := rs_rate s\<rparr>) r urn (rt_cap rt) params)) \<noteq> rs_app s"
      by (simp add: admitted_def)
    then show ?thesis using that [of "rs_rate s"] by simp
  next
    case False
    with assms(1,3) mt have "rs_app (fst (rated E s r urn (\<lambda>s1. guarded E s1 r urn (rt_cap rt) params))) \<noteq> rs_app s"
      by (simp add: admitted_def)
    from rated_app [OF this] obtain l where "rs_app (fst (guarded E (s\<lparr>rs_rate := l\<rparr>) r urn (rt_cap rt) params)) \<noteq> rs_app s"
      by blast
    then show ?thesis using that [of l] by simp
  qed
  note g = guarded_change [OF this, simplified]
  have rt: "rt \<in> set (compileRoutes catalog)" "rt_method rt = to_upper (hr_method r)"
    using matchRoute_found [OF mt] assms(2) by auto
  from g mutating_route [OF rt(1)] have "needs_write rt" by blast
  with g rt(2) show ?thesis unfolding authorised_change_def needs_write_def using scope_write by auto
qed

lemma finish_app [simp]: "rs_app (fst (finish i c s rp)) = rs_app s"
  by (simp add: finish_def)

lemma serveHTTP_change:
  assumes "mux_handler E r = None" "rs_routes s = compileRoutes catalog" "rs_app (fst (serveHTTP E s r)) \<noteq> rs_app s"
  shows "authorised_change E s r"
proof -
  obtain g where "rs_app (fst (snd (admitted E (s\<lparr>rs_gate := g\<rparr>) r (requestURNPrefix @ requestID E r)))) \<noteq> rs_app (s\<lparr>rs_gate := g\<rparr>)"
    using assms(3) by (auto simp: serveHTTP_def Let_def split: option.splits prod.splits bool.splits handled.splits if_splits) (metis fst_conv snd_conv)+
  from admitted_change [OF assms(1) _ this] assms(2) have "authorised_change E (s\<lparr>rs_gate := g\<rparr>) r" by simp
  then show ?thesis unfolding authorised_change_def by (simp split: if_splits)
qed

text \<open>A request changes the application (the snapshot, the audit log, the cache of idempotency
  keys) only on POST, PUT or DELETE, only for a principal that the verifier accepts or a live session
  stands for and that holds \<^verbatim>\<open>ntp.write\<close> or \<^verbatim>\<open>ntp.admin\<close>, and, where the method is
  spelled in upper case and the caller shows a session cookie alone, only with the session's CSRF
  secret. Requests for the mounted handlers are theirs.\<close>

theorem change_needs_authority:
  "let s0 = s\<lparr>rs_routes := compileRoutes catalog\<rparr> in
   case mux_handler E r of
     Some h \<Rightarrow> True
   | None \<Rightarrow> rs_app (fst (serveHTTP E s0 r)) = rs_app s0 \<or> authorised_change E s0 r"
  using serveHTTP_change [of E r "s\<lparr>rs_routes := compileRoutes catalog\<rparr>"]
  by (auto simp: Let_def split: option.splits)

section \<open>The spelling of the method\<close>

lemma lower_ascii: "to_lower ''POST'' = ''post''" "to_lower ''PUT'' = ''put''" "to_lower ''DELETE'' = ''delete''"
  by code_simp+

lemma upper_ascii: "to_upper ''post'' = to_upper ''POST''" "to_upper ''put'' = to_upper ''PUT''" "to_upper ''delete'' = to_upper ''DELETE''"
  by code_simp+

lemma unsafe_ascii: "\<not> UnsafeMethod ''post''" "\<not> UnsafeMethod ''put''" "\<not> UnsafeMethod ''delete''"
  by (simp_all add: UnsafeMethod_def)

lemma authorize_safe:
  "\<not> UnsafeMethod m \<Longrightarrow> authorize E s (r\<lparr>hr_method := m\<rparr>) actor c =
     (s, if rs_auth s = None then Some auth_required else AuthorizeScopes (ac_scopes actor) (cp_RequiredScopes c))"
  by (simp add: authorize_def split: option.splits)


section \<open>Every route of the catalog\<close>

definition plain_seg :: "pathSeg \<Rightarrow> bool" where
  "plain_seg sg = (if sg_wild sg = [] then True else sg_lit sg = [] \<and> sg_suffix sg = [])"

lemma plain_segments: "list_all (\<lambda>rt. list_all plain_seg (rt_segs rt)) (compileRoutes catalog)"
  by code_simp

lemma plain_match: "list_all plain_seg segs \<Longrightarrow> match_parts segs ps params \<noteq> None"
  by (induction segs ps params rule: match_parts.induct) (auto simp: plain_seg_def Let_def)

lemma plain_matchSegs: "list_all plain_seg segs \<Longrightarrow> \<exists>x. matchSegs segs path = Some x"
  using plain_match by (simp add: matchSegs_def Let_def)

lemma catalog_no_panic: "list_all (\<lambda>rt. list_all plain_seg (rt_segs rt)) rts \<Longrightarrow> match_from rts m path near \<noteq> None"
proof (induction rts m path near rule: match_from.induct)
  case (2 rt rts m path near)
  then obtain x where "matchSegs (rt_segs rt) path = Some x" using plain_matchSegs by fastforce
  with 2 show ?case by (cases x) auto
qed simp

definition routes_itself :: "Capability \<Rightarrow> RESTBinding \<Rightarrow> bool" where
  "routes_itself c b =
     (case matchRoute (compileRoutes catalog) (rb_Method b) (rb_Path b) of
        Some (Some rt, Some params) \<Rightarrow> cp_ID (rt_cap rt) = cp_ID c | _ \<Rightarrow> False)"

definition routed :: "compiledRoute list \<Rightarrow> bool" where
  "routed rts = list_all (\<lambda>c. list_all (\<lambda>b. case matchRoute rts (rb_Method b) (rb_Path b) of
        Some (Some rt, Some params) \<Rightarrow> cp_ID (rt_cap rt) = cp_ID c | _ \<Rightarrow> False) (cp_REST c)) catalog"

lemma catalog_routed: "routed (compileRoutes catalog)"
  by code_simp

text \<open>C27: routing never panics on any method and path, and every binding of the catalog is answered by
  its own capability: no route is hidden by another.\<close>

theorem catalog_routes:
  "matchRoute (compileRoutes catalog) m path \<noteq> None
   \<and> list_all (\<lambda>c. list_all (routes_itself c) (cp_REST c)) catalog"
proof
  show "matchRoute (compileRoutes catalog) m path \<noteq> None"
    unfolding matchRoute_def by (rule catalog_no_panic [OF plain_segments])
  show "list_all (\<lambda>c. list_all (routes_itself c) (cp_REST c)) catalog"
    using catalog_routed unfolding routed_def routes_itself_def [abs_def] .
qed

end
