(* ===== verification/Rest_Slots.thy ===== *)
theory Rest_Slots
  imports Rest_Props App_Props
begin

text \<open>
  The slots of the management server: what bounds the requests in flight, what a request does to the
  count, and what becomes of the server when a reset panics.
\<close>

section \<open>Slots\<close>

text \<open>
  The gate seen by itself: requests enter, leave and the cap changes, in any order. A leave is the
  deferred release of a request that entered, so there is one only while a request is in flight.
\<close>

datatype gate_op = GEnter | GLeave | GMax int

fun gate_step :: "gate_op \<Rightarrow> inflightGate \<times> nat \<Rightarrow> inflightGate \<times> nat" where
  "gate_step GEnter (g, n) = (let (g', ok) = acquire g in (g', if ok then n + 1 else n))"
| "gate_step GLeave (g, n) = (if n = 0 then (g, n) else (release g, n - 1))"
| "gate_step (GMax k) (g, n) = (setMax g k, n)"

definition caps_below :: "int \<Rightarrow> gate_op \<Rightarrow> bool" where
  "caps_below b op = (case op of GMax k \<Rightarrow> 0 < k \<and> k \<le> b | _ \<Rightarrow> True)"

definition gate_inv :: "int \<Rightarrow> inflightGate \<times> nat \<Rightarrow> bool" where
  "gate_inv b gn = (ig_cur (fst gn) = int (snd gn) \<and> 0 < ig_max (fst gn) \<and> ig_max (fst gn) \<le> b \<and> int (snd gn) \<le> b)"

lemma gate_step_inv: "gate_inv b gn \<Longrightarrow> caps_below b op \<Longrightarrow> gate_inv b (gate_step op gn)"
  by (cases op; cases gn) (auto simp: gate_inv_def caps_below_def acquire_def release_def setMax_def)

lemma gate_run_inv: "gate_inv b gn \<Longrightarrow> list_all (caps_below b) ops \<Longrightarrow> gate_inv b (fold gate_step ops gn)"
  by (induction ops arbitrary: gn) (simp_all add: gate_step_inv del: split_paired_All)

text \<open>Over any interleaving of arrivals, departures and changes of the cap, the counter is the number
  of requests in flight, that number never exceeds the largest cap in force so far, and an arrival is
  refused exactly when the number has reached the current cap.\<close>

theorem slots_bounded:
  "0 < m \<Longrightarrow> m \<le> b \<Longrightarrow> list_all (caps_below b) ops \<Longrightarrow>
   (case fold gate_step ops (setMax \<lparr>ig_cur = 0, ig_max = 0\<rparr> m, 0) of (g, n) \<Rightarrow>
      ig_cur g = int n \<and> int n \<le> b \<and> (snd (acquire g) = (int n < ig_max g)))"
  using gate_run_inv [of b "(setMax \<lparr>ig_cur = 0, ig_max = 0\<rparr> m, 0)" ops]
  by (auto simp: gate_inv_def setMax_def acquire_def split: prod.splits)

theorem slots_bounded_witness:
  "case fold gate_step [GEnter, GEnter, GMax 1, GEnter, GLeave] (setMax \<lparr>ig_cur = 0, ig_max = 0\<rparr> 2, 0) of (g, n) \<Rightarrow>
      ig_cur g = int n \<and> int n \<le> 2 \<and> (snd (acquire g) = (int n < ig_max g))"
  by (rule slots_bounded) (simp_all add: caps_below_def)

lemma handlers_cur [simp]:
  "ig_cur (rs_gate (fst (handlePlan E s urn r))) = ig_cur (rs_gate s)"
  "ig_cur (rs_gate (fst (handleApply E s urn actor r))) = ig_cur (rs_gate s)"
  "ig_cur (rs_gate (fst (handleReset E s urn actor r))) = ig_cur (rs_gate s)"
  "ig_cur (rs_gate (fst (handleFiltersPut E s urn actor r name))) = ig_cur (rs_gate s)"
  "ig_cur (rs_gate (fst (handleFiltersDelete E s urn actor r name))) = ig_cur (rs_gate s)"
  by (simp_all add: handlePlan_def handleApply_def handleReset_def handleFiltersPut_def handleFiltersDelete_def with_apply_def Let_def
      split: sum.splits prod.splits)

lemma dispatch_cur: "ig_cur (rs_gate (fst (dispatch E s r urn actor cap params))) = ig_cur (rs_gate s)"
  by (simp add: dispatch_def if_distrib [of fst] if_distrib [of rs_gate] if_distrib [of ig_cur] cong: if_cong)

lemma guarded_cur: "ig_cur (rs_gate (fst (guarded E s r urn c params))) = ig_cur (rs_gate s)"
proof -
  obtain s1 res where a: "authenticate E s r (isHealthCap c) = (s1, res)" by fastforce
  have g1: "rs_gate s1 = rs_gate s" using authenticate_sel(2) [of E s r "isHealthCap c"] a by simp
  show ?thesis
  proof (cases res)
    case (Inl e)
    then show ?thesis using a g1 by (simp add: guarded_def)
  next
    case (Inr actor)
    obtain s2 e where z: "authorize E s1 r actor c = (s2, e)" by fastforce
    then have "rs_gate s2 = rs_gate s" using authorize_sel(2) [of E s1 r actor c] g1 by simp
    then show ?thesis using a Inr z dispatch_cur [of E s2] by (simp add: guarded_def split: option.splits)
  qed
qed

lemma rated_cur:
  "(\<And>s1. ig_cur (rs_gate (fst (f s1))) = ig_cur (rs_gate s1)) \<Longrightarrow> ig_cur (rs_gate (fst (rated E s r urn f))) = ig_cur (rs_gate s)"
  by (simp add: rated_def Let_def split: prod.splits option.splits)

lemma admitted_cur: "mux_handler E r = None \<Longrightarrow> ig_cur (rs_gate (fst (snd (admitted E s r urn)))) = ig_cur (rs_gate s)"
  by (simp add: admitted_def rated_cur guarded_cur split: option.splits prod.splits)

lemma serveHTTP_cur:
  assumes "mux_handler E r = None" "0 \<le> ig_cur (rs_gate s)"
  shows "ig_cur (rs_gate (fst (serveHTTP E s r))) = ig_cur (rs_gate s) + (if snd (serveHTTP E s r) = Hang then 1 else 0)"
proof -
  let ?urn = "requestURNPrefix @ requestID E r"
  let ?g = "(rs_gate s)\<lparr>ig_cur := ig_cur (rs_gate s) + 1\<rparr>"
  obtain cap s1 out where a: "admitted E (s\<lparr>rs_gate := ?g\<rparr>) r ?urn = (cap, s1, out)" by (metis prod_cases3)
  have "ig_cur (rs_gate s1) = ig_cur (rs_gate s) + 1"
    using admitted_cur [OF assms(1), of "s\<lparr>rs_gate := ?g\<rparr>" ?urn] a by simp
  then show ?thesis using assms(2) a
    by (cases out) (auto simp: serveHTTP_def acquire_def release_def finish_def Let_def split: option.splits)
qed

section \<open>When a panic left the mutex of the app taken\<close>

definition stuck :: "'w RestServer_scheme \<Rightarrow> 'w RestServer_scheme \<Rightarrow> bool" where
  "stuck s s' = (rs_app s' = rs_app s \<and> ig_max (rs_gate s') = ig_max (rs_gate s))"

lemma stuck_with_apply:
  "a_mu (rs_app s) \<Longrightarrow> stuck s (fst (with_apply E s urn (app_Apply env (rs_app s) actor ci) f))"
  by (simp add: stuck_def with_apply_def app_Apply_def ran_def split: option.splits)

lemma stuck_handlers:
  assumes "a_mu (rs_app s)"
  shows "stuck s (fst (handlePlan E s urn r))" "stuck s (fst (handleApply E s urn actor r))"
    "stuck s (fst (handleReset E s urn actor r))" "stuck s (fst (handleFiltersPut E s urn actor r name))"
    "stuck s (fst (handleFiltersDelete E s urn actor r name))"
proof -
  have refl: "stuck s s" for s :: "'w RestServer_scheme" by (simp add: stuck_def)
  show "stuck s (fst (handlePlan E s urn r))"
    using assms by (simp add: handlePlan_def app_Plan_def stuck_def split: sum.splits option.splits)
  show "stuck s (fst (handleApply E s urn actor r))"
    using stuck_with_apply [OF assms] by (simp add: handleApply_def refl split: sum.splits)
  show "stuck s (fst (handleReset E s urn actor r))"
    using assms by (simp add: handleReset_def app_Reset_def stuck_def split: sum.splits option.splits)
  have none: "stuck s (fst (with_apply E s urn (rs_app s, [], Returns (Inl e)) f))" for e f
    by (simp add: stuck_def with_apply_def ran_def)
  show "stuck s (fst (handleFiltersPut E s urn actor r name))"
    using stuck_with_apply [OF assms] none by (simp add: handleFiltersPut_def PutFilter_def refl Let_def split: sum.splits)
  show "stuck s (fst (handleFiltersDelete E s urn actor r name))"
    using stuck_with_apply [OF assms] none by (simp add: handleFiltersDelete_def DeleteFilter_def refl split: sum.splits)
qed

lemma stuck_dispatch: "a_mu (rs_app s) \<Longrightarrow> stuck s (fst (dispatch E s r urn actor cap params))"
proof -
  assume a: "a_mu (rs_app s)"
  have "stuck s s" "stuck s (fst (handleSessionCreate E s urn actor r))" "stuck s (fst (handleSessionGet E s actor r))"
      "stuck s (fst (handleSessionDelete s r))"
    by (simp_all add: stuck_def)
  with stuck_handlers [OF a] show ?thesis
    by (simp add: dispatch_def if_distrib [of fst] if_distrib [of "stuck s"])
qed

lemma stuck_guarded: "a_mu (rs_app s) \<Longrightarrow> stuck s (fst (guarded E s r urn c params))"
proof -
  assume a: "a_mu (rs_app s)"
  obtain s1 res where z1: "authenticate E s r (isHealthCap c) = (s1, res)" by fastforce
  have 1: "rs_app s1 = rs_app s" "rs_gate s1 = rs_gate s" using authenticate_sel(1,2) [of E s r "isHealthCap c"] z1 by simp_all
  show ?thesis
  proof (cases res)
    case (Inl e)
    then show ?thesis using z1 1 by (simp add: guarded_def stuck_def)
  next
    case (Inr actor)
    obtain s2 e where z2: "authorize E s1 r actor c = (s2, e)" by fastforce
    then have 2: "rs_app s2 = rs_app s" "rs_gate s2 = rs_gate s" using authorize_sel(1,2) [of E s1 r actor c] 1 by simp_all
    then have "stuck s2 (fst (dispatch E s2 r urn actor (cp_ID c) params))" using a by (intro stuck_dispatch) simp
    then show ?thesis using z1 Inr z2 2 by (simp add: guarded_def stuck_def split: option.splits)
  qed
qed

lemma stuck_rated: "(\<And>l. stuck s (fst (f (s\<lparr>rs_rate := l\<rparr>)))) \<Longrightarrow> stuck s (fst (rated E s r urn f))"
  by (simp add: rated_def stuck_def Let_def split: prod.splits option.splits)

lemma stuck_admitted:
  assumes "mux_handler E r = None" "a_mu (rs_app s)"
  shows "stuck s (fst (snd (admitted E s r urn)))"
proof -
  have g: "stuck s (fst (guarded E (s\<lparr>rs_rate := l\<rparr>) r urn c params))" for l c params
    using stuck_guarded [of "s\<lparr>rs_rate := l\<rparr>"] assms(2) by (simp add: stuck_def)
  then have "stuck s (fst (guarded E s r urn c params))" for c params using g [of "rs_rate s"] by simp
  then show ?thesis using assms(1) g
    by (auto simp: admitted_def stuck_def intro!: stuck_rated [unfolded stuck_def] split: option.splits prod.splits)
qed

lemma stuck_serveHTTP:
  assumes "mux_handler E r = None" "a_mu (rs_app s)"
  shows "stuck s (fst (serveHTTP E s r))"
proof -
  have "stuck s (fst (snd (admitted E (s\<lparr>rs_gate := fst (acquire (rs_gate s))\<rparr>) r urn)))" for urn
    using stuck_admitted [OF assms(1), of "s\<lparr>rs_gate := fst (acquire (rs_gate s))\<rparr>" urn] assms(2)
    by (simp add: stuck_def acquire_def split: if_splits)
  then show ?thesis
    by (auto simp: serveHTTP_def finish_def stuck_def release_def Let_def split: option.splits prod.splits bool.splits handled.splits)
       (metis fst_conv snd_conv)+
qed

fun rest_run :: "('w RestEnv \<times> HttpRequest) list \<Rightarrow> 'w RestServer_scheme \<Rightarrow> 'w RestServer_scheme \<times> handled list" where
  "rest_run [] s = (s, [])"
| "rest_run ((E, r) # reqs) s =
     (let (s1, out) = serveHTTP E s r; (s2, outs) = rest_run reqs s1 in (s2, out # outs))"

definition hangs :: "handled list \<Rightarrow> nat" where
  "hangs outs = length (filter (\<lambda>h. h = Hang) outs)"

definition refused :: "handled \<Rightarrow> bool" where
  "refused h = (case h of Done rp \<Rightarrow> rp_status rp = 403 \<or> rp_status rp = 429 | _ \<Rightarrow> False)"

lemma wedged_run:
  assumes "a_mu (rs_app s)" "0 \<le> ig_cur (rs_gate s)" "list_all (\<lambda>(E, r). mux_handler E r = None) reqs"
  shows "stuck s (fst (rest_run reqs s))
     \<and> ig_cur (rs_gate (fst (rest_run reqs s))) = ig_cur (rs_gate s) + int (hangs (snd (rest_run reqs s)))"
  using assms
proof (induction reqs arbitrary: s)
  case Nil
  then show ?case by (simp add: hangs_def stuck_def)
next
  case (Cons q reqs)
  obtain E r where q: "q = (E, r)" by fastforce
  obtain s1 out where s1: "serveHTTP E s r = (s1, out)" by fastforce
  have m: "mux_handler E r = None" using Cons.prems(3) q by simp
  have st: "stuck s s1" using stuck_serveHTTP [OF m Cons.prems(1)] s1 by simp
  have cur: "ig_cur (rs_gate s1) = ig_cur (rs_gate s) + (if out = Hang then 1 else 0)"
    using serveHTTP_cur [OF m Cons.prems(2)] s1 by simp
  have "stuck s1 (fst (rest_run reqs s1))
     \<and> ig_cur (rs_gate (fst (rest_run reqs s1))) = ig_cur (rs_gate s1) + int (hangs (snd (rest_run reqs s1)))"
    using Cons.IH [of s1] Cons.prems st cur q by (simp add: stuck_def)
  then show ?case using st cur q s1 by (auto simp: stuck_def hangs_def split: prod.splits)
qed

lemma refusals:
  "rp_status (writeProblem urn (RateLimited msg)) = 429" "rp_status (writeProblem urn (Forbidden msg)) = 403"
  by (simp_all add: writeProblem_def ProblemFrom_def Let_def domainOf_def RateLimited_def Forbidden_def lookupMapping_def errorMap_def newError_def code_names)

lemma CheckOrigin_forbidden: "CheckOrigin x allow = Some e \<Longrightarrow> e = origin_denied"
  by (auto simp: CheckOrigin_def Let_def split: option.splits if_splits)

lemma full_refuses:
  "0 < ig_max (rs_gate s) \<Longrightarrow> ig_max (rs_gate s) \<le> ig_cur (rs_gate s) \<Longrightarrow> refused (snd (serveHTTP E s r))"
  by (auto simp: serveHTTP_def acquire_def finish_def add_header_def refused_def refusals origin_denied_def Let_def
      split: option.splits dest: CheckOrigin_forbidden)

text \<open>C39: once a panic has left the mutex of the application taken, every request that needs it keeps its
  slot for ever, nothing changes the application or the cap any more, and when as many of them have come as
  there are slots, every further request is refused, the probes of health among them.\<close>

theorem wedged_server:
  "a_mu (rs_app s) \<Longrightarrow> 0 \<le> ig_cur (rs_gate s) \<Longrightarrow> 0 < ig_max (rs_gate s) \<Longrightarrow>
   list_all (\<lambda>(E, r). mux_handler E r = None) reqs \<Longrightarrow>
   ig_max (rs_gate s) \<le> ig_cur (rs_gate s) + int (hangs (snd (rest_run reqs s))) \<Longrightarrow>
   rs_app (fst (rest_run reqs s)) = rs_app s \<and> refused (snd (serveHTTP E (fst (rest_run reqs s)) r))"
  using wedged_run [of s reqs] full_refuses [of "fst (rest_run reqs s)" E r] by (simp add: stuck_def)

section \<open>A reset that panics\<close>

lemma count_Nil [simp]: "count [] s = s"
  by (cases "rs_metrics s") (simp_all add: count_def)

lemma handleReset_panic:
  assumes "\<not> a_mu (rs_app s)" "en_ctx (re_env E) = None" "a_bootstrapPath (rs_app s) \<noteq> []"
    "lib_stat (en_libs (re_env E)) (a_bootstrapPath (rs_app s)) = StatOk"
    "load_document (en_libs (re_env E)) (a_bootstrapPath (rs_app s)) = None" "hr_body r = []" "0 \<le> rs_maxBody s"
  shows "handleReset E s urn actor r = (s\<lparr>rs_app := (rs_app s)\<lparr>a_mu := True\<rparr>\<rparr>, Crash)"
  using assms
  by (simp add: handleReset_def decodeJSONOptional_def app_Reset_def requireCtx_def resetLocked_def loadBootstrapCandidate_def
      settle_def changed_def Let_def split: option.splits)

lemma handleReset_stuck:
  assumes "a_mu (rs_app s)" "en_ctx (re_env E) = None" "hr_body r = []" "0 \<le> rs_maxBody s"
  shows "handleReset E s urn actor r = (s, Hang)"
  using assms by (simp add: handleReset_def decodeJSONOptional_def app_Reset_def requireCtx_def settle_def changed_def Let_def)

lemma serve_admitted:
  assumes "CheckOrigin (header r ''Origin'') (rs_allowedOrigins s) = None" "hr_method r \<noteq> ''OPTIONS''" "acquire (rs_gate s) = (g, True)"
    "admitted E (s\<lparr>rs_gate := g\<rparr>) r (requestURNPrefix @ requestID E r) = (cap, s1, out)"
  shows "out = Hang \<Longrightarrow> serveHTTP E s r = (s1, Hang)"
    "out = Crash \<Longrightarrow> serveHTTP E s r = finish (requestID E r) cap (s1\<lparr>rs_gate := release (rs_gate s1)\<rparr>)
       (writeProblem (requestURNPrefix @ requestID E r) (Internal ''internal error''))"
  using assms by (simp_all add: serveHTTP_def Let_def)

definition panic_text :: string where
  "panic_text = json_text (JObj [(''apiVersion'', JStr APIVersionV1Alpha1), (''spec'', JObj [(''ntp'', JNum ''5'')])])"

definition panic_libs :: libs where
  "panic_libs = no_libs\<lparr>lib_stat := (\<lambda>_. StatOk), lib_read_file := (\<lambda>_. Inr panic_text)\<rparr>"

lemma panic_document: "load_document panic_libs path = None"
proof -
  have "Decode L panic_text = None" for L
  proof -
    have n: "length panic_text \<le> 100" by code_simp
    have t: "stripBOM (trim_space panic_text) = panic_text" "panic_text \<noteq> []"
      "utf8_valid panic_text" "looksLikeJSON panic_text"
      "json_decode panic_text = Some (JObj [(''apiVersion'', JStr APIVersionV1Alpha1), (''spec'', JObj [(''ntp'', JNum ''5'')])], [])"
      by code_simp+
    show ?thesis using n by (simp add: Decode_def t decodeJSON_def dec_more_def skip_ws_def decode_ntp_panic MaxDocumentBytes_def)
  qed
  then show ?thesis by (simp add: load_document_def panic_libs_def LoadFile_def Load_state_def LoadWithWarnings_def)
qed

definition loopback_verifier :: "unit Verifier" where
  "loopback_verifier = \<lparr>vf_mode = MgmtAuthDevLoopbackUnauth, vf_tokens = [], vf_onChange = []\<rparr>"

definition lab_config :: RestConfig where
  "lab_config = \<lparr>rc_Service = Some (lab_app\<lparr>a_bootstrapPath := ''lab.yaml''\<rparr>), rc_AllowedOrigins = [], rc_MaxBodyBytes = 0,
     rc_MaxConcurrent = 1, rc_RatePerSec = Fin (-1), rc_RateBurst = Fin 0, rc_PublicMetrics = False, rc_Metrics = None,
     rc_Auth = Some loopback_verifier, rc_Sessions = None, rc_CookieSecure = False\<rparr>"

definition lab_hooks :: Hooks where
  "lab_hooks = \<lparr>hk_preflight = [], hk_ntp = None, hk_ntp_back = (\<lambda>_. None), hk_http = None\<rparr>"

definition lab_rest_env :: "libs \<Rightarrow> unit RestEnv" where
  "lab_rest_env L = \<lparr>re_env = lab_env\<lparr>en_libs := L\<rparr>, re_canceled = False, re_hooks = lab_hooks, re_facts = None, re_live = None,
     re_ready = Some True, re_now_rate = zero_time, re_now_auth = zero_time, re_now_csrf = zero_time, re_now_op = zero_time,
     re_reqid = None, re_draws = \<lparr>dr_cookie = None, dr_csrf = None, dr_public = None\<rparr>, re_short = (\<lambda>_. False), re_schema = None,
     re_build = \<lparr>bv_version = [], bv_commit = [], bv_buildTime = [], bv_settings = None\<rparr>, re_zone = utc_zone,
     re_indexes = \<lparr>ix_all = catalog, ix_byID = [], ix_byREST = [], ix_byTool = [], ix_byRes = []\<rparr>,
     re_redirect = (\<lambda>_ _. internal_response), re_mounts = [], re_ui = None, re_uiEnabled = None\<rparr>"

definition lab_request :: "string \<Rightarrow> string \<Rightarrow> HttpRequest" where
  "lab_request m p = \<lparr>hr_method = m, hr_path = p, hr_query = [], hr_header = [], hr_remote = ''127.0.0.1:4000'', hr_cookie = None,
     hr_tls = False, hr_body = []\<rparr>"

definition lab_server :: RestServer where
  "lab_server = (case New lab_config \<lparr>li_ntp = [], li_mgmt = []\<rparr> of Inr s \<Rightarrow> s | Inl e \<Rightarrow> undefined)"

abbreviation "reset_request \<equiv> lab_request ''POST'' ''/v1/state:reset''"

lemma lab_server_sel:
  "rs_auth lab_server = Some (OnIdentityChange loopback_verifier ())" "rs_routes lab_server = compileRoutes catalog"
  "rs_gate lab_server = \<lparr>ig_cur = 0, ig_max = 1\<rparr>" "ml_disabled (rs_rate lab_server)" "rs_maxBody lab_server = 1048576"
  "rs_app lab_server = lab_app\<lparr>a_bootstrapPath := ''lab.yaml''\<rparr>" "rs_allowedOrigins lab_server = []"
  by (simp_all add: lab_server_def New_def lab_config_def setMax_def DefaultMaxBodyBytes_def newLimiter_def)

lemma reset_route:
  "case matchRoute (compileRoutes catalog) ''POST'' ''/v1/state:reset'' of
     Some (Some rt, Some ps) \<Rightarrow> ps = [] \<and> cp_ID (rt_cap rt) = StateReset \<and> cp_RequiredScopes (rt_cap rt) = [ScopeNTPAdmin]
   | _ \<Rightarrow> False"
  by code_simp

lemma reset_admitted:
  assumes "rs_auth s = Some (OnIdentityChange loopback_verifier ())" "rs_routes s = compileRoutes catalog" "ml_disabled (rs_rate s)"
  shows "\<exists>cap actor. admitted (lab_rest_env L) s reset_request urn = (cap, handleReset (lab_rest_env L) s urn actor reset_request)"
proof -
  obtain rt where rt: "matchRoute (compileRoutes catalog) ''POST'' ''/v1/state:reset'' = Some (Some rt, Some [])"
      "cp_ID (rt_cap rt) = StateReset" "cp_RequiredScopes (rt_cap rt) = [ScopeNTPAdmin]"
    using reset_route by (auto split: option.splits prod.splits)
  have c: "\<not> isHealthCap (rt_cap rt)" using rt(2) by (simp add: isHealthCap_def capability_ids)
  have l: "IsLoopback ''127.0.0.1:4000''" "trim_space [] = []" by code_simp+
  have a: "authenticate (lab_rest_env L) s reset_request False = (s, Inr (actorOf loopbackPrincipal ''rest''))"
    if "rs_auth s = Some (OnIdentityChange loopback_verifier ())" for s
    using that by (simp add: authenticate_def by_verifier_def lab_request_def header_def first_value_def l Authenticate_def
        OnIdentityChange_def loopback_verifier_def)
  have z: "authorize (lab_rest_env L) s reset_request (actorOf loopbackPrincipal ''rest'') (rt_cap rt) = (s, None)"
    if "rs_auth s = Some (OnIdentityChange loopback_verifier ())" for s
    using that by (simp add: authorize_def rt(3) loopbackPrincipal_def allScopes_def HasScope_def any_scope_iff lab_request_def)
  have d: "dispatch (lab_rest_env L) s reset_request urn actor StateReset [] = handleReset (lab_rest_env L) s urn actor reset_request"
    for s actor by (simp add: dispatch_def lab_rest_env_def capability_ids)
  have r: "hr_method reset_request = ''POST''" "hr_path reset_request = ''/v1/state:reset''" "re_mounts (lab_rest_env L) = []"
    by (simp_all add: lab_request_def lab_rest_env_def)
  have q: "rest_allow (rs_rate s) t x = (rs_rate s, None)" for t x using assms(3) by (simp add: rest_allow_def)
  show ?thesis
    using assms rt c by (auto simp: admitted_def mux_handler_def r rated_def q guarded_def a z d)
qed

definition lab_like :: "RestServer \<Rightarrow> bool" where
  "lab_like s = (rs_auth s = Some (OnIdentityChange loopback_verifier ()) \<and> rs_routes s = compileRoutes catalog
     \<and> ml_disabled (rs_rate s) \<and> rs_gate s = \<lparr>ig_cur = 0, ig_max = 1\<rparr> \<and> rs_maxBody s = 1048576)"

lemma CheckOrigin_none: "CheckOrigin (header reset_request ''Origin'') allow = None"
  by (simp add: CheckOrigin_def lab_request_def header_def first_value_def)

lemma serve_reset:
  assumes "lab_like s"
  shows "a_mu (rs_app s) \<Longrightarrow> snd (serveHTTP (lab_rest_env L) s reset_request) = Hang"
    "\<not> a_mu (rs_app s) \<Longrightarrow> a_bootstrapPath (rs_app s) \<noteq> [] \<Longrightarrow>
       serveHTTP (lab_rest_env panic_libs) s reset_request = (s', out) \<Longrightarrow> lab_like s' \<and> a_mu (rs_app s')"
proof -
  let ?s = "s\<lparr>rs_gate := \<lparr>ig_cur = 1, ig_max = 1\<rparr>\<rparr>"
  have s: "rs_auth ?s = Some (OnIdentityChange loopback_verifier ())" "rs_routes ?s = compileRoutes catalog" "ml_disabled (rs_rate ?s)"
    using assms by (simp_all add: lab_like_def)
  have m: "hr_method reset_request \<noteq> ''OPTIONS''" "hr_body reset_request = []" by (simp_all add: lab_request_def)
  have g: "acquire (rs_gate s) = (\<lparr>ig_cur = 1, ig_max = 1\<rparr>, True)" using assms by (simp add: lab_like_def acquire_def)
  have e: "en_ctx (re_env (lab_rest_env L)) = None" "en_libs (re_env (lab_rest_env L)) = L" for L
    by (simp_all add: lab_rest_env_def lab_env_def)
  note served = serve_admitted [OF CheckOrigin_none m(1) g]
  show "snd (serveHTTP (lab_rest_env L) s reset_request) = Hang" if "a_mu (rs_app s)"
  proof -
    obtain cap actor where "admitted (lab_rest_env L) ?s reset_request (requestURNPrefix @ requestID (lab_rest_env L) reset_request) =
       (cap, handleReset (lab_rest_env L) ?s (requestURNPrefix @ requestID (lab_rest_env L) reset_request) actor reset_request)"
      using reset_admitted [OF s] by blast
    moreover have "handleReset (lab_rest_env L) ?s urn actor reset_request = (?s, Hang)" for urn
      using handleReset_stuck [OF _ e(1) m(2), of ?s] that assms by (simp add: lab_like_def)
    ultimately show ?thesis using served(1) by fastforce
  qed
  show "lab_like s' \<and> a_mu (rs_app s')"
    if "\<not> a_mu (rs_app s)" "a_bootstrapPath (rs_app s) \<noteq> []" "serveHTTP (lab_rest_env panic_libs) s reset_request = (s', out)"
  proof -
    let ?E = "lab_rest_env panic_libs"
    obtain cap actor where "admitted ?E ?s reset_request (requestURNPrefix @ requestID ?E reset_request) =
       (cap, handleReset ?E ?s (requestURNPrefix @ requestID ?E reset_request) actor reset_request)"
      using reset_admitted [OF s] by blast
    moreover have "handleReset ?E ?s urn actor reset_request = (?s\<lparr>rs_app := (rs_app s)\<lparr>a_mu := True\<rparr>\<rparr>, Crash)" for urn
      using handleReset_panic [of ?s ?E reset_request urn actor] that assms m(2)
      by (simp add: lab_like_def e panic_document) (simp add: panic_libs_def)
    ultimately have "admitted ?E ?s reset_request (requestURNPrefix @ requestID ?E reset_request) =
       (cap, ?s\<lparr>rs_app := (rs_app s)\<lparr>a_mu := True\<rparr>\<rparr>, Crash)" by simp
    from served(2) [OF this refl] that(3) show ?thesis using assms by (auto simp: finish_def lab_like_def release_def observeHTTP_def count_def)
  qed
qed

theorem wedged_server_witness:
  "let E = lab_rest_env panic_libs; s = fst (serveHTTP E lab_server reset_request); reqs = [(E, reset_request)] in
   rs_app (fst (rest_run reqs s)) = rs_app s \<and> refused (snd (serveHTTP E (fst (rest_run reqs s)) (lab_request ''GET'' ''/v1/health/live'')))"
proof -
  let ?E = "lab_rest_env panic_libs"
  let ?s = "fst (serveHTTP ?E lab_server reset_request)"
  have "lab_like lab_server" "\<not> a_mu (rs_app lab_server)" "a_bootstrapPath (rs_app lab_server) \<noteq> []"
    by (simp_all add: lab_like_def lab_server_sel)
  then have s: "lab_like ?s" "a_mu (rs_app ?s)" using serve_reset(2) [of lab_server] by (metis prod.collapse)+
  have h: "hangs (snd (rest_run [(?E, reset_request)] ?s)) = 1"
    using serve_reset(1) [OF s, of panic_libs] by (cases "serveHTTP ?E ?s reset_request") (simp add: hangs_def)
  show ?thesis unfolding Let_def
    by (rule wedged_server) (use s h in \<open>simp_all add: lab_like_def mux_handler_def lab_rest_env_def\<close>)
qed

end
