(* ===== verification/Rest_Life.thy ===== *)
theory Rest_Life
  imports Config_State
begin

text \<open>
  The listener of the management server (the life cycle of server.go in
  \<^verbatim>\<open>internal/control/rest\<close>): \<^verbatim>\<open>Serve\<close>, \<^verbatim>\<open>Rebind\<close>, the background
  drains, \<^verbatim>\<open>Shutdown\<close> and \<^verbatim>\<open>Addr\<close>. HTTP servers, listeners and drains are
  numbered. A section under the mutex is one step; what the operating system answers is an argument.
\<close>

section \<open>State\<close>

definition DefaultAddr :: string where "DefaultAddr = DefaultMgmtAddress"

type_synonym listener = "nat \<times> string"

record Life =
  lf_cfgAddr :: string
  lf_http :: "nat option"
  lf_ln :: "listener option"
  lf_closed :: bool
  lf_addr :: string
  lf_drains :: "nat list"

definition new_life :: "string \<Rightarrow> Life" where
  "new_life addr = \<lparr>lf_cfgAddr = addr, lf_http = None, lf_ln = None, lf_closed = False, lf_addr = addr, lf_drains = []\<rparr>"

definition listen_addr :: "Life \<Rightarrow> string" where
  "listen_addr s = (if lf_cfgAddr s = [] then DefaultAddr else lf_cfgAddr s)"

definition Bound :: "Life \<Rightarrow> bool" where
  "Bound s = (lf_ln s \<noteq> None \<and> lf_http s \<noteq> None \<and> \<not> lf_closed s)"

definition Addr :: "Life \<Rightarrow> string" where
  "Addr s =
     (case lf_ln s of
        Some l \<Rightarrow> snd l
      | None \<Rightarrow>
          if lf_addr s \<noteq> [] then lf_addr s
          else if lf_closed s then []
          else listen_addr s)"

section \<open>Serve\<close>

text \<open>It closes the listener it was given, or installs it; then it serves, unless a shutdown came since.\<close>

datatype serve_result = CloseQuietly | AlreadyStarted | Installed

definition Serve :: "Life \<Rightarrow> nat \<Rightarrow> listener \<Rightarrow> Life \<times> serve_result" where
  "Serve s hs lsn =
     (if lf_closed s then (s, CloseQuietly)
      else if lf_http s \<noteq> None then (s, AlreadyStarted)
      else (s\<lparr>lf_http := Some hs, lf_ln := Some lsn, lf_addr := snd lsn\<rparr>, Installed))"

definition serveResult :: "string option \<Rightarrow> string option" where
  "serveResult err = (if err = Some ''http: Server closed'' then None else err)"

section \<open>Rebind\<close>

datatype rebind_plan = Keep | Unbind | Listen

definition rebind_check :: "Life \<Rightarrow> string \<Rightarrow> rebind_plan" where
  "rebind_check s addr =
     (if addr \<noteq> [] \<and> addr = lf_addr s \<and> Bound s then Keep else if addr = [] then Unbind else Listen)"

text \<open>The old server and listener are detached and their drain is registered in one section.\<close>

record drain =
  dn_done :: nat
  dn_http :: "nat option"
  dn_ln :: "listener option"

definition detach :: "Life \<Rightarrow> nat \<Rightarrow> Life \<times> drain option" where
  "detach s dn =
     (if lf_http s \<noteq> None \<or> lf_ln s \<noteq> None
      then (s\<lparr>lf_drains := lf_drains s @ [dn]\<rparr>, Some \<lparr>dn_done = dn, dn_http = lf_http s, dn_ln = lf_ln s\<rparr>)
      else (s, None))"

definition rebind_off :: "Life \<Rightarrow> nat \<Rightarrow> Life \<times> drain option" where
  "rebind_off s dn =
     (let (s1, d) = detach s dn in (s1\<lparr>lf_http := None, lf_ln := None, lf_addr := [], lf_closed := True\<rparr>, d))"

definition rebind_on :: "Life \<Rightarrow> nat \<Rightarrow> nat \<Rightarrow> listener \<Rightarrow> Life \<times> drain option" where
  "rebind_on s dn hs lsn =
     (let (s1, d) = detach s dn in (s1\<lparr>lf_http := Some hs, lf_ln := Some lsn, lf_addr := snd lsn, lf_closed := False\<rparr>, d))"

text \<open>Removes the first entry equal to the drain.\<close>

definition finishDrain :: "Life \<Rightarrow> nat \<Rightarrow> Life" where
  "finishDrain s dn = s\<lparr>lf_drains := remove1 dn (lf_drains s)\<rparr>"

text \<open>
  The part of a drain that ends before \<^verbatim>\<open>Rebind\<close> returns: the listener is closed; a drain
  without a server is finished at once, and one with a server goes on in the background.
\<close>

definition drainAsync :: "Life \<Rightarrow> drain option \<Rightarrow> Life \<times> listener list" where
  "drainAsync s od =
     (case od of
        None \<Rightarrow> (s, [])
      | Some d \<Rightarrow>
          (if dn_http d = None then finishDrain s (dn_done d) else s,
           case dn_ln d of None \<Rightarrow> [] | Some l \<Rightarrow> [l]))"

text \<open>The whole call when nothing runs in between: the state, the error, and the listeners it closes.\<close>

definition Rebind :: "Life \<Rightarrow> string \<Rightarrow> nat \<Rightarrow> nat \<Rightarrow> string + listener \<Rightarrow> Life \<times> string option \<times> listener list" where
  "Rebind s addr dn hs listened =
     (case rebind_check s addr of
        Keep \<Rightarrow> (s, None, [])
      | Unbind \<Rightarrow> (let (s1, d) = rebind_off s dn; (s2, cs) = drainAsync s1 d in (s2, None, cs))
      | Listen \<Rightarrow>
          (case listened of
             Inl e \<Rightarrow> (s, Some e, [])
           | Inr lsn \<Rightarrow> (let (s1, d) = rebind_on s dn hs lsn; (s2, cs) = drainAsync s1 d in (s2, None, cs))))"

section \<open>Shutdown\<close>

text \<open>
  The server is marked closed first, then its server and listener are read under the mutex. The result
  of stopping them comes before that of waiting for the drains registered by then.
\<close>

definition shutdown_mark :: "Life \<Rightarrow> Life" where
  "shutdown_mark s = s\<lparr>lf_closed := True\<rparr>"

text \<open>Waiting in turn for each drain: \<open>gave_up d\<close> says that the context ended while \<open>d\<close> was waited for.\<close>

fun waitDrains :: "string \<Rightarrow> (nat \<Rightarrow> bool) \<Rightarrow> nat list \<Rightarrow> string option" where
  "waitDrains ctxErr gave_up [] = None"
| "waitDrains ctxErr gave_up (d # ds) = (if gave_up d then Some ctxErr else waitDrains ctxErr gave_up ds)"

definition Shutdown :: "Life \<Rightarrow> string option \<Rightarrow> string option \<Rightarrow> string \<Rightarrow> (nat \<Rightarrow> bool) \<Rightarrow> Life \<times> string option \<times> listener list" where
  "Shutdown s0 http_err ln_err ctxErr gave_up =
     (let s = shutdown_mark s0;
          err = (if lf_http s \<noteq> None then http_err else if lf_ln s \<noteq> None then ln_err else None);
          werr = waitDrains ctxErr gave_up (lf_drains s)
      in (s, if err = None then werr else err, case lf_ln s of None \<Rightarrow> [] | Some l \<Rightarrow> [l]))"

section \<open>The listeners of the process\<close>

text \<open>
  The server beside what the operating system holds: the listeners that are open, the drains of
  \<^verbatim>\<open>Rebind\<close> calls that have not closed their listener yet, those of the background, and the
  listeners a shutdown still has to close. Calls overlap: each section is a step of its own.
\<close>

record process =
  pc_life :: Life
  pc_open :: "listener list"
  pc_closing :: "drain list"
  pc_draining :: "nat list"
  pc_stopping :: "listener list"
  pc_next :: nat

definition start_process :: "string \<Rightarrow> process" where
  "start_process addr = \<lparr>pc_life = new_life addr, pc_open = [], pc_closing = [], pc_draining = [], pc_stopping = [], pc_next = 0\<rparr>"

definition opened :: "process \<Rightarrow> string \<Rightarrow> listener" where
  "opened p addr = (pc_next p, addr)"

definition begin_drain :: "process \<Rightarrow> drain option \<Rightarrow> process" where
  "begin_drain p od =
     (case od of
        None \<Rightarrow> p
      | Some d \<Rightarrow> p\<lparr>pc_closing := d # pc_closing p, pc_draining := dn_done d # pc_draining p\<rparr>)"

inductive life_step :: "process \<Rightarrow> process \<Rightarrow> bool" where
  serve: "Serve (pc_life p) (pc_next p) (opened p addr) = (s', Installed) \<Longrightarrow>
    life_step p (p\<lparr>pc_life := s', pc_open := opened p addr # pc_open p, pc_next := pc_next p + 1\<rparr>)"
| rebind_listen: "rebind_on (pc_life p) (pc_next p) (pc_next p) (opened p addr) = (s', d) \<Longrightarrow>
    life_step p (begin_drain (p\<lparr>pc_life := s', pc_open := opened p addr # pc_open p, pc_next := pc_next p + 1\<rparr>) d)"
| rebind_unbind: "rebind_off (pc_life p) (pc_next p) = (s', d) \<Longrightarrow>
    life_step p (begin_drain (p\<lparr>pc_life := s', pc_next := pc_next p + 1\<rparr>) d)"
| drain_close: "d \<in> set (pc_closing p) \<Longrightarrow>
    life_step p (p\<lparr>pc_closing := removeAll d (pc_closing p),
                  pc_open := filter (\<lambda>l. dn_ln d \<noteq> Some l) (pc_open p)\<rparr>)"
| drain_done: "n \<in> set (pc_draining p) \<Longrightarrow>
    life_step p (p\<lparr>pc_life := finishDrain (pc_life p) n, pc_draining := removeAll n (pc_draining p)\<rparr>)"
| shutdown: "life_step p (p\<lparr>pc_life := shutdown_mark (pc_life p),
    pc_stopping := (case lf_ln (pc_life p) of None \<Rightarrow> [] | Some l \<Rightarrow> [l]) @ pc_stopping p\<rparr>)"
| stop: "l \<in> set (pc_stopping p) \<Longrightarrow>
    life_step p (p\<lparr>pc_stopping := removeAll l (pc_stopping p), pc_open := removeAll l (pc_open p)\<rparr>)"

inductive_cases life_stepE: "life_step p p'"

section \<open>No listener is lost\<close>

text \<open>
  Every open listener is the installed one or waits for its drain to close it, the drains a shutdown
  waits for are exactly those at work, and a server and a listener are always installed together.
\<close>

definition kept :: "process \<Rightarrow> listener \<Rightarrow> bool" where
  "kept p l = (lf_ln (pc_life p) = Some l \<or> Some l \<in> dn_ln ` set (pc_closing p))"

definition life_ok :: "process \<Rightarrow> bool" where
  "life_ok p =
     ((\<forall>l \<in> set (pc_open p). kept p l \<and> fst l < pc_next p) \<and> distinct (pc_open p)
      \<and> lf_drains (pc_life p) = rev (pc_draining p)
      \<and> distinct (pc_draining p) \<and> (\<forall>n \<in> set (pc_draining p). n < pc_next p)
      \<and> (lf_http (pc_life p) = None \<longleftrightarrow> lf_ln (pc_life p) = None))"

lemma remove1_rev: "distinct ns \<Longrightarrow> remove1 n (rev ns) = rev (removeAll n ns)"
  by (simp add: distinct_remove1_removeAll rev_filter removeAll_filter_not_eq)

text \<open>What both ways of a rebind do to the accounts.\<close>

lemma detach_sel: "\<exists>ds od. detach s dn = (s\<lparr>lf_drains := ds\<rparr>, od)"
  by (cases s) (auto simp: detach_def)

lemma detach_ok:
  assumes "life_ok p" "detach (pc_life p) (pc_next p) = (s1, d)" "lf_drains s = lf_drains s1"
    "lf_http s = None \<longleftrightarrow> lf_ln s = None" "os = pc_open p \<or> (\<exists>l. os = l # pc_open p \<and> lf_ln s = Some l \<and> fst l = pc_next p)"
  shows "life_ok (begin_drain (p\<lparr>pc_life := s, pc_open := os, pc_next := pc_next p + 1\<rparr>) d)"
proof (cases "lf_ln (pc_life p)")
  case None
  with assms(1,2) have "d = None" "lf_drains s1 = lf_drains (pc_life p)" by (auto simp: detach_def life_ok_def)
  with None assms(1,3,4,5) show ?thesis by (auto simp: life_ok_def kept_def begin_drain_def) fastforce+
next
  case (Some l0)
  with assms(1,2) obtain h where "d = Some \<lparr>dn_done = pc_next p, dn_http = Some h, dn_ln = Some l0\<rparr>"
      "lf_drains s1 = lf_drains (pc_life p) @ [pc_next p]" by (auto simp: detach_def life_ok_def)
  with Some assms(1,3,4,5) show ?thesis by (auto simp: life_ok_def kept_def begin_drain_def) fastforce+
qed

lemma life_step_ok: "life_step p p' \<Longrightarrow> life_ok p \<Longrightarrow> life_ok p'"
proof (induction rule: life_step.induct)
  case (serve p addr s')
  then have n: "lf_ln (pc_life p) = None" by (auto simp: Serve_def life_ok_def split: if_splits)
  with serve show ?case by (fastforce simp: Serve_def life_ok_def kept_def opened_def split: if_splits)
next
  case (rebind_listen p addr s' d)
  obtain ds where ds: "detach (pc_life p) (pc_next p) = ((pc_life p)\<lparr>lf_drains := ds\<rparr>, d)"
      "s' = (pc_life p)\<lparr>lf_drains := ds, lf_http := Some (pc_next p), lf_ln := Some (opened p addr), lf_addr := addr, lf_closed := False\<rparr>"
    using rebind_listen(1) detach_sel [of "pc_life p" "pc_next p"] by (auto simp: rebind_on_def opened_def split: prod.splits)
  show ?case
    using detach_ok [OF rebind_listen(2) ds(1), of "s'" "opened p addr # pc_open p"] by (simp add: ds(2) opened_def)
next
  case (rebind_unbind p s' d)
  obtain ds where ds: "detach (pc_life p) (pc_next p) = ((pc_life p)\<lparr>lf_drains := ds\<rparr>, d)"
      "s' = (pc_life p)\<lparr>lf_drains := ds, lf_http := None, lf_ln := None, lf_addr := [], lf_closed := True\<rparr>"
    using rebind_unbind(1) detach_sel [of "pc_life p" "pc_next p"] by (auto simp: rebind_off_def split: prod.splits)
  show ?case
    using detach_ok [OF rebind_unbind(2) ds(1), of "s'" "pc_open p"] by (simp add: ds(2))
next
  case (drain_close d p)
  let ?p' = "p\<lparr>pc_closing := removeAll d (pc_closing p), pc_open := filter (\<lambda>l. dn_ln d \<noteq> Some l) (pc_open p)\<rparr>"
  have "kept ?p' l" if "kept p l" "dn_ln d \<noteq> Some l" for l using that by (auto simp: kept_def)
  with drain_close(2) have "\<forall>l \<in> set (pc_open ?p'). kept ?p' l \<and> fst l < pc_next p" by (simp add: life_ok_def)
  with drain_close(2) show ?case by (simp add: life_ok_def)
next
  case (drain_done n p)
  then show ?case by (auto simp: life_ok_def kept_def finishDrain_def remove1_rev distinct_removeAll)
next
  case (shutdown p)
  then show ?case by (auto simp: life_ok_def kept_def shutdown_mark_def)
next
  case (stop l p)
  then show ?case by (auto simp: life_ok_def kept_def distinct_removeAll)
qed

lemma life_reach_ok: "life_step\<^sup>*\<^sup>* (start_process addr) p \<Longrightarrow> life_ok p"
proof (induction rule: rtranclp_induct)
  case base
  show ?case by (simp add: life_ok_def start_process_def new_life_def)
qed (rule life_step_ok)



section \<open>A rebind after a shutdown\<close>

text \<open>\<^verbatim>\<open>Rebind\<close> clears the mark that a shutdown set, so a reset that overlaps the shutdown of the
  process leaves the server bound on a listener the shutdown does not close.\<close>

theorem rebind_after_shutdown:
  "\<exists>p. life_step\<^sup>*\<^sup>* (start_process []) p \<and> Bound (pc_life p) \<and> pc_stopping p = [] \<and> pc_closing p = []
     \<and> pc_draining p = [] \<and> pc_open p = [(1, ''b'')] \<and> lf_ln (pc_life p) = Some (1, ''b'')"
proof -
  let ?p0 = "start_process []"
  let ?p1 = "?p0\<lparr>pc_life := (pc_life ?p0)\<lparr>lf_http := Some 0, lf_ln := Some (0, ''a''), lf_addr := ''a''\<rparr>,
    pc_open := [(0, ''a'')], pc_next := 1\<rparr>"
  let ?p2 = "?p1\<lparr>pc_life := (pc_life ?p1)\<lparr>lf_closed := True\<rparr>, pc_stopping := [(0, ''a'')]\<rparr>"
  let ?p3 = "?p2\<lparr>pc_stopping := [], pc_open := []\<rparr>"
  let ?d = "\<lparr>dn_done = 1, dn_http = Some 0, dn_ln = Some (0, ''a'')\<rparr>"
  let ?p4 = "?p3\<lparr>pc_life := (pc_life ?p3)\<lparr>lf_http := Some 1, lf_ln := Some (1, ''b''), lf_addr := ''b'', lf_closed := False,
      lf_drains := [1]\<rparr>, pc_open := [(1, ''b'')], pc_next := 2, pc_closing := [?d], pc_draining := [1]\<rparr>"
  let ?p5 = "?p4\<lparr>pc_closing := []\<rparr>"
  let ?p6 = "?p5\<lparr>pc_life := (pc_life ?p5)\<lparr>lf_drains := []\<rparr>, pc_draining := []\<rparr>"
  have 1: "life_step ?p0 ?p1"
    using life_step.serve [of ?p0 "''a''"] by (simp add: start_process_def new_life_def Serve_def opened_def)
  have 2: "life_step ?p1 ?p2"
    using life_step.shutdown [of ?p1] by (simp add: start_process_def shutdown_mark_def)
  have 3: "life_step ?p2 ?p3"
    using life_step.stop [of "(0, ''a'')" ?p2] by (simp add: start_process_def)
  have 4: "life_step ?p3 ?p4"
    using life_step.rebind_listen [of ?p3 "''b''"]
    by (simp add: start_process_def new_life_def rebind_on_def detach_def opened_def begin_drain_def numeral_2_eq_2)
  have 5: "life_step ?p4 ?p5"
    using life_step.drain_close [of ?d ?p4] by (simp add: start_process_def)
  have 6: "life_step ?p5 ?p6"
    using life_step.drain_done [of 1 ?p5] by (simp add: start_process_def finishDrain_def)
  from 1 2 3 4 5 6 have "life_step\<^sup>*\<^sup>* ?p0 ?p6" by (meson converse_rtranclp_into_rtranclp rtranclp.rtrancl_refl)
  then show ?thesis by (intro exI [of _ ?p6]) (simp add: Bound_def)
qed

end
