(* ===== verification/Web.thy ===== *)
theory Web
  imports Rest_Http Json_Roundtrip
begin

text \<open>
  The handler of the browser interface (\<^verbatim>\<open>internal/web/handler.go\<close>), which the management
  server falls back to: which paths it leaves alone, which file of its tree it opens for the others, and
  what it says about caching. The tree, the MIME types and \<^verbatim>\<open>http.ServeContent\<close> are
  parameters.
\<close>

section \<open>The tree\<close>

text \<open>A file that opened: what its Stat says (None is an error), whether it can seek, and its bytes.\<close>

record web_file =
  wf_dir :: "bool option"
  wf_seeks :: bool
  wf_modTime :: gotime
  wf_body :: string

type_synonym file_tree = "string \<Rightarrow> web_file option"

text \<open>\<^verbatim>\<open>fs.Stat\<close> of a tree without one of its own: open, then Stat. It says whether it is a directory.\<close>

definition fs_stat :: "file_tree \<Rightarrow> string \<Rightarrow> bool option" where
  "fs_stat fsys name = (case fsys name of None \<Rightarrow> None | Some f \<Rightarrow> wf_dir f)"

record WebEnv =
  we_type :: "string \<Rightarrow> string"
  we_serveContent :: "HttpRequest \<Rightarrow> (string \<times> string) list \<Rightarrow> string \<Rightarrow> web_file \<Rightarrow> Response"

definition cacheHTML :: string where "cacheHTML = ''no-cache''"
definition cacheHashed :: string where "cacheHashed = ''public, max-age=31536000, immutable''"

text \<open>\<^verbatim>\<open>http.Error\<close> and \<^verbatim>\<open>http.NotFound\<close> over the headers set so far.\<close>

definition http_error :: "(string \<times> string) list \<Rightarrow> string \<Rightarrow> int \<Rightarrow> Response" where
  "http_error hs msg code =
     \<lparr>rp_status = code,
      rp_headers = put_key ''X-Content-Type-Options'' ''nosniff''
        (put_key ''Content-Type'' ''text/plain; charset=utf-8'' (del_key ''Content-Length'' hs)),
      rp_cookies = [], rp_body = msg @ [CHR 0x0A]\<rparr>"

definition http_NotFound :: Response where
  "http_NotFound = http_error [] ''404 page not found'' 404"

section \<open>Paths\<close>

definition web_reserved :: "string list" where
  "web_reserved = [''/v1'', ''/mcp'', ''/healthz'', ''/config'', ''/.well-known'']"

definition Reserved :: "string \<Rightarrow> bool" where
  "Reserved p = (let q = clean_rooted (''/'' @ p) in list_ex (under q) web_reserved)"

definition safeRel :: "string \<Rightarrow> string option" where
  "safeRel urlPath =
     (if str_contains urlPath ''..'' \<or> str_contains urlPath [CHR 0x5C] then None
      else if urlPath = [] \<or> urlPath = ''/'' then Some ''index.html''
      else if \<not> has_prefix urlPath ''/'' then None
      else let clean = clean_rooted urlPath in
        if clean = ''/'' then Some ''index.html''
        else if str_contains clean ''..'' then None
        else Some (trim_prefix_slash clean))"

text \<open>\<^verbatim>\<open>path.Base\<close> and \<^verbatim>\<open>path.Ext\<close>.\<close>

definition path_base :: "string \<Rightarrow> string" where
  "path_base p =
     (if p = [] then ''.''
      else let q = rev (dropWhile (\<lambda>c. c = CHR ''/'') (rev p)) in
        if q = [] then ''/'' else List.last (split_on CHR ''/'' q))"

definition path_ext :: "string \<Rightarrow> string" where
  "path_ext p =
     (let e = List.last (split_on CHR ''/'' p) in
      case last_index CHR ''.'' e of None \<Rightarrow> [] | Some i \<Rightarrow> drop i e)"

definition hashedAsset :: "string \<Rightarrow> bool" where
  "hashedAsset rel =
     (let base = path_base rel in
      case last_index CHR ''-'' base of
        None \<Rightarrow> False
      | Some dash \<Rightarrow> (case last_index CHR ''.'' (drop (dash + 1) base) of None \<Rightarrow> False | Some dot \<Rightarrow> dot \<ge> 8))"

section \<open>The handler\<close>

definition serveFile :: "WebEnv \<Rightarrow> file_tree \<Rightarrow> HttpRequest \<Rightarrow> string \<Rightarrow> bool \<Rightarrow> Response" where
  "serveFile W fsys r name hashed =
     (case fsys name of
        None \<Rightarrow> http_NotFound
      | Some f \<Rightarrow>
          if wf_dir f = None then http_NotFound
          else let cache = (if hashed then [(''Cache-Control'', cacheHashed)]
                     else if name = ''index.html'' \<or> has_suffix name ''.html'' then [(''Cache-Control'', cacheHTML)] else []);
                   ct = we_type W (path_ext name);
                   hs = cache @ (if ct \<noteq> [] then [(''Content-Type'', ct)] else [])
               in if \<not> wf_seeks f then http_error hs ''asset is not seekable'' 500
                  else we_serveContent W r hs name f)"

definition web_serve :: "WebEnv \<Rightarrow> file_tree \<Rightarrow> HttpRequest \<Rightarrow> string \<Rightarrow> Response" where
  "web_serve W fsys r rel =
     (if fs_stat fsys rel \<noteq> Some False then
        (if path_ext rel \<noteq> [] \<and> path_ext rel \<noteq> ''.html'' then http_NotFound
         else serveFile W fsys r ''index.html'' False)
      else serveFile W fsys r rel (hashedAsset rel))"

definition NewHandler :: "WebEnv \<Rightarrow> file_tree \<Rightarrow> HttpRequest \<Rightarrow> Response" where
  "NewHandler W fsys r =
     (if hr_method r \<noteq> ''GET'' \<and> hr_method r \<noteq> ''HEAD'' then http_error [] ''method not allowed'' 405
      else if Reserved (hr_path r) then http_NotFound
      else case safeRel (hr_path r) of
        None \<Rightarrow> http_NotFound
      | Some rel \<Rightarrow> web_serve W fsys r rel)"

section \<open>Which files are reachable\<close>

text \<open>A plain name: no empty or dot elements, no double dot and no backslash anywhere, and not under a
  management path.\<close>

definition plain_name :: "string \<Rightarrow> bool" where
  "plain_name n =
     (list_all (\<lambda>e. e \<notin> {[], ''.'', ''..''}) (split_on CHR ''/'' n)
      \<and> \<not> str_contains n ''..'' \<and> CHR 0x5C \<notin> set n \<and> hd (split_on CHR ''/'' n) \<notin> {''v1'', ''mcp'', ''healthz'', ''config'', ''.well-known''})"

lemma split_on_no_sep: "e \<in> set (split_on sep s) \<Longrightarrow> sep \<notin> set e"
  by (induction s arbitrary: e) (auto split: list.splits if_splits)

lemma split_on_whole: "sep \<notin> set e \<Longrightarrow> split_on sep e = [e]"
  by (induction e) auto

lemma split_on_append: "sep \<notin> set e \<Longrightarrow> split_on sep (e @ sep # s) = e # split_on sep s"
  by (induction e) (auto split: list.splits)

lemma split_on_sep_by: "list_all (\<lambda>e. sep \<notin> set e) es \<Longrightarrow> es \<noteq> [] \<Longrightarrow> split_on sep (sep_by [sep] es) = es"
  by (induction "[sep]" es rule: sep_by.induct) (simp_all add: split_on_whole split_on_append)

definition plain_elem :: "string \<Rightarrow> bool" where
  "plain_elem e = (e \<notin> {[], ''.'', ''..''} \<and> CHR ''/'' \<notin> set e)"

lemma clean_elems_plain: "list_all plain_elem (clean_elems p)"
proof -
  have "list_all plain_elem acc \<Longrightarrow> \<forall>e\<in>set es. CHR ''/'' \<notin> set e \<Longrightarrow>
      list_all plain_elem (fold (\<lambda>e acc. if e = [] \<or> e = ''.'' then acc else if e = ''..'' then drop 1 acc else e # acc) es acc)" for es acc
  proof (induction es arbitrary: acc)
    case (Cons e es)
    have "list_all plain_elem (drop 1 acc)" using Cons.prems(1) by (auto simp: list_all_iff dest: in_set_dropD)
    moreover have "e \<noteq> [] \<Longrightarrow> e \<noteq> ''.'' \<Longrightarrow> e \<noteq> ''..'' \<Longrightarrow> plain_elem e" using Cons.prems(2) by (simp add: plain_elem_def)
    ultimately show ?case using Cons.prems by (auto intro!: Cons.IH)
  qed simp
  from this [of "[]" "split_on CHR ''/'' p"] show ?thesis
    unfolding clean_elems_def by (simp add: list_all_iff split_on_no_sep)
qed

lemma split_on_chars: "e \<in> set (split_on sep s) \<Longrightarrow> set e \<subseteq> set s"
  by (induction s arbitrary: e) (auto split: list.splits if_splits, blast+)

lemma clean_elems_from: "set (clean_elems p) \<subseteq> set (split_on CHR ''/'' p)"
proof -
  have "set (fold (\<lambda>e acc. if e = [] \<or> e = ''.'' then acc else if e = ''..'' then drop 1 acc else e # acc) es acc)
      \<subseteq> set acc \<union> set es" for es acc :: "string list"
  proof (induction es arbitrary: acc)
    case (Cons e es)
    show ?case using Cons.IH [of acc] Cons.IH [of "drop 1 acc"] Cons.IH [of "e # acc"] set_drop_subset [of 1 acc] by auto
  qed simp
  then show ?thesis using subsetD by (fastforce simp: clean_elems_def)
qed

lemma sep_by_chars: "set (sep_by d es) \<subseteq> set d \<union> (\<Union>e\<in>set es. set e)"
  by (induction d es rule: sep_by.induct) auto

lemma str_contains_char: "c \<in> set s \<Longrightarrow> str_contains s [c]"
proof -
  assume "c \<in> set s"
  then obtain i where i: "i < length s" "s ! i = c" by (auto simp: in_set_conv_nth)
  then have "take (length [c]) (drop i s) = [c]" by (simp add: Cons_nth_drop_Suc [symmetric])
  moreover have "i \<in> set [0..<Suc (length s)]" using i by simp
  ultimately show ?thesis unfolding str_contains_def by blast
qed

lemma clean_elems_rooted: "has_prefix p ''/'' \<Longrightarrow> clean_elems (''/'' @ p) = clean_elems p"
  by (cases p) (auto simp: clean_elems_def has_prefix_def split: list.splits)

lemma has_prefixD: "has_prefix s p \<Longrightarrow> \<exists>t. s = p @ t"
  unfolding has_prefix_def by (metis append_take_drop_id)

lemma str_contains_Cons: "str_contains s d \<Longrightarrow> str_contains (c # s) d"
proof -
  assume "str_contains s d"
  then obtain i where "i \<in> set [0..<Suc (length s)]" "take (length d) (drop i s) = d" unfolding str_contains_def by blast
  then have "Suc i \<in> set [0..<Suc (length (c # s))]" "take (length d) (drop (Suc i) (c # s)) = d" by auto
  then show ?thesis unfolding str_contains_def by blast
qed

lemma under_first:
  assumes "list_all plain_elem es" "es \<noteq> []" "plain_elem b"
  shows "under (''/'' @ sep_by ''/'' es) (CHR ''/'' # b) \<longleftrightarrow> hd es = b"
proof -
  have sp: "split_on CHR ''/'' (sep_by ''/'' es) = es"
    using assms(1,2) by (intro split_on_sep_by) (simp_all add: list_all_iff plain_elem_def)
  have nb: "CHR ''/'' \<notin> set b" using assms(3) by (simp add: plain_elem_def)
  show ?thesis
  proof
    assume "under (''/'' @ sep_by ''/'' es) (CHR ''/'' # b)"
    then consider "sep_by ''/'' es = b" | r where "sep_by ''/'' es = b @ CHR ''/'' # r"
      unfolding under_def by (auto dest!: has_prefixD)
    then show "hd es = b"
      using sp by cases (simp_all add: split_on_whole [OF nb] split_on_append [OF nb], (metis list.sel(1))+)
  next
    assume h: "hd es = b"
    then show "under (''/'' @ sep_by ''/'' es) (CHR ''/'' # b)"
      using assms(2) by (cases es; cases "tl es") (auto simp: under_def has_prefix_def sep_by_Cons)
  qed
qed

lemma safeRel_plain:
  assumes "\<not> Reserved p" "safeRel p = Some rel"
  shows "plain_name rel"
proof (cases "rel = ''index.html''")
  case True
  have "plain_name ''index.html''" by code_simp
  with True show ?thesis by simp
next
  case False
  with assms(2) have p: "has_prefix p ''/''" "clean_rooted p \<noteq> ''/''" "\<not> str_contains (clean_rooted p) ''..''"
    and rel: "rel = sep_by ''/'' (clean_elems p)"
    by (auto simp: safeRel_def Let_def clean_rooted_def trim_prefix_slash_def split: if_splits)
  let ?es = "clean_elems p"
  have es: "?es \<noteq> []" using p(2) by (auto simp: clean_rooted_def)
  have "list_all (\<lambda>e. CHR ''/'' \<notin> set e) ?es" using clean_elems_plain [of p] by (simp add: list_all_iff plain_elem_def)
  then have sp: "split_on CHR ''/'' rel = ?es" unfolding rel using es by (intro split_on_sep_by) auto
  have "\<not> str_contains rel ''..''"
    using p(3) str_contains_Cons [of rel "''..''" "CHR ''/''"] by (auto simp: rel clean_rooted_def)
  moreover have "CHR 0x5C \<notin> set rel"
  proof -
    have "CHR 0x5C \<notin> set p" using assms(2) str_contains_char [of "CHR 0x5C" p] by (auto simp: safeRel_def split: if_splits)
    moreover have "set e \<subseteq> set p" if "e \<in> set ?es" for e using that clean_elems_from split_on_chars by blast
    ultimately show ?thesis using sep_by_chars [of "''/''" ?es] by (auto simp: rel)
  qed
  moreover have "hd ?es \<noteq> b" if "b \<in> {''v1'', ''mcp'', ''healthz'', ''config'', ''.well-known''}" for b
  proof
    assume "hd ?es = b"
    then have "under (clean_rooted (''/'' @ p)) (CHR ''/'' # b)"
      using under_first [OF clean_elems_plain es, of b] that clean_elems_rooted [OF p(1)]
      by (auto simp: clean_rooted_def plain_elem_def)
    then have "Reserved p" using that by (auto simp: Reserved_def web_reserved_def Let_def)
    with assms(1) show False by simp
  qed
  moreover have "list_all (\<lambda>e. e \<notin> {[], ''.'', ''..''}) ?es"
    using clean_elems_plain [of p] by (simp add: list_all_iff plain_elem_def)
  ultimately show ?thesis by (simp add: plain_name_def sp)
qed

text \<open>C38: the browser interface can only be made to open files of plain names: hiding every file whose name
  has an empty or dot element, holds a double dot or a backslash, or lies under a management path changes no answer,
  whatever the path of the request; and the paths it leaves alone are those the management server keeps
  from it.\<close>

theorem web_confined:
  "NewHandler W (fsys |` {n. plain_name n}) r = NewHandler W fsys r
   \<and> Reserved p = reservedManagementPath p"
proof -
  have i: "plain_name ''index.html''" by code_simp
  have s: "plain_name rel \<Longrightarrow> web_serve W (fsys |` {n. plain_name n}) r rel = web_serve W fsys r rel" for rel
    using i by (simp add: web_serve_def serveFile_def fs_stat_def)
  show ?thesis
    using s safeRel_plain [of "hr_path r"]
    by (auto simp: NewHandler_def Reserved_def reservedManagementPath_def web_reserved_def split: option.splits)
qed

end
