(* ===== verification/Mcp_Dto.thy ===== *)
theory Mcp_Dto
  imports Rest
begin

text \<open>
  The pure parts of \<^verbatim>\<open>internal/control/mcp\<close>: the inputs of the tools and the trees of
  their results (dto.go), structured content (encode.go), errors as JSON-RPC (errors.go), the pin of
  the protocol (protocol.go), the tools and resources it registers (tools.go, resources.go) and the
  generated manifest (manifest.go). The SDK decodes the inputs of a tool; here they are given.
\<close>

section \<open>server.go: constants\<close>

definition ProtocolVersion :: string where "ProtocolVersion = ''2026-07-28''"
definition SDKModule :: string where "SDKModule = ''github.com/modelcontextprotocol/go-sdk''"
definition SDKVersion :: string where "SDKVersion = ''v1.7.0''"
definition headerProtocolVersion :: string where "headerProtocolVersion = ''Mcp-Protocol-Version''"

section \<open>encode.go\<close>

text \<open>What \<^verbatim>\<open>json.Unmarshal\<close> makes of a text without \<^verbatim>\<open>UseNumber\<close>: a number is a float64.\<close>

fun as_any :: "json \<Rightarrow> json option" and as_any_items :: "json list \<Rightarrow> json list option"
  and as_any_members :: "(string \<times> json) list \<Rightarrow> (string \<times> json) list option" where
  "as_any (JNum t) = map_option JFloat (num_float t)"
| "as_any (JArr xs) = map_option JArr (as_any_items xs)"
| "as_any (JObj m) = map_option JObj (as_any_members m)"
| "as_any v = Some v"
| "as_any_items [] = Some []"
| "as_any_items (x # xs) = opt_bind (as_any x) (\<lambda>y. map_option (Cons y) (as_any_items xs))"
| "as_any_members [] = Some []"
| "as_any_members ((k, x) # m) = opt_bind (as_any x) (\<lambda>y. map_option (Cons (k, y)) (as_any_members m))"

text \<open>The whole text must be one value.\<close>

definition unmarshal_any :: "string \<Rightarrow> json option" where
  "unmarshal_any s = opt_bind (json_decode s) (\<lambda>(v, rest). if skip_ws rest \<noteq> [] then None else as_any v)"

definition asStructured :: "json \<Rightarrow> json option" where
  "asStructured v = opt_bind (marshalAPI v) unmarshal_any"

section \<open>errors.go\<close>

definition error_json :: "Error \<Rightarrow> json" where
  "error_json e = JObj
     ([(''code'', JStr (err_code e)), (''message'', JStr (err_message e)), (''retryable'', JBool (err_retryable e))]
      @ omit (err_violations e = []) ''fieldViolations'' (JArr (map violation_json (err_violations e)))
      @ omit (err_currentRevision e = []) ''currentRevision'' (JStr (err_currentRevision e))
      @ omit (err_remediation e = []) ''remediation'' (JStr (err_remediation e)))"

definition rpc_json :: "JSONRPCError \<Rightarrow> json" where
  "rpc_json m = JObj [(''code'', JInt (je_Code m)), (''message'', JStr (je_Message m)), (''data'', error_json (je_Data m))]"

definition mcp_asDomain :: "go_error \<Rightarrow> Error" where
  "mcp_asDomain e = (case e of Dom d \<Rightarrow> d | Plain _ \<Rightarrow> Internal ''internal error'')"

text \<open>The outcome of a tool or a resource for the SDK; a handler may also panic or wait for ever.\<close>

datatype tool_result =
    ToolOK json
  | ToolFailed json string
  | RpcFailed JSONRPCError
  | ResourceOK string string string
  | HandlerPanics
  | HandlerBlocks

definition rpcError :: "go_error \<Rightarrow> tool_result" where
  "rpcError e = RpcFailed (JSONRPCFrom (Some (mcp_asDomain e)))"

definition structured_fallback :: json where
  "structured_fallback = JObj [(''code'', JStr ''internal_error''), (''message'', JStr ''internal error''), (''retryable'', JBool True)]"

definition toolErrorResult :: "go_error \<Rightarrow> tool_result" where
  "toolErrorResult e =
     (let m = JSONRPCFrom (Some (mcp_asDomain e)) in
      ToolFailed (case asStructured (error_json (je_Data m)) of None \<Rightarrow> structured_fallback | Some t \<Rightarrow> t) (je_Message m))"

definition writeRPC :: "int \<Rightarrow> Error \<Rightarrow> Response" where
  "writeRPC status e =
     (let m = JSONRPCFrom (Some e) in
      \<lparr>rp_status = status,
       rp_headers = (if je_Code m = JSONRPCUnauthenticated
           then [(''WWW-Authenticate'', ''Bearer realm='' @ [CHR 0x22] @ ''labntp'' @ [CHR 0x22])] else [])
         @ [(''Content-Type'', ''application/json'')],
       rp_cookies = [],
       rp_body = struct_text (JObj [(''error'', rpc_json m), (''id'', JNull), (''jsonrpc'', JStr ''2.0'')])\<rparr>)"

section \<open>protocol.go\<close>

definition only_version :: string where
  "only_version = ''only '' @ ProtocolVersion @ '' is supported''"

definition validateProtocolVersion :: "HttpRequest \<Rightarrow> Error option" where
  "validateProtocolVersion r =
     (let ver = trim_space (header r headerProtocolVersion) in
      if ver = [] then Some (ValidationFailed (''MCP-Protocol-Version is required; '' @ only_version)
        [violation ''MCP-Protocol-Version'' ''required'' only_version])
      else if ver \<noteq> ProtocolVersion then Some (ValidationFailed (''unsupported MCP protocol version '' @ ver @ ''; '' @ only_version)
        [violation ''MCP-Protocol-Version'' ''invalid_value'' only_version])
      else None)"

text \<open>
  The middleware around a method of the SDK: the version a request states, if its kind has one, and
  what the method would return, which is a discovery result with its versions or any other.
\<close>

datatype 'r sdk_result = Discover "string list" 'r | Other 'r

definition pinProtocolMiddleware :: "string option \<Rightarrow> ('e + 'r sdk_result) \<Rightarrow> (tool_result + 'e) + 'r sdk_result" where
  "pinProtocolMiddleware version next =
     (case version of
        Some v \<Rightarrow>
          if v \<noteq> [] \<and> v \<noteq> ProtocolVersion then
            Inl (Inl (rpcError (Dom (ValidationFailed (''unsupported MCP protocol version '' @ v @ ''; '' @ only_version)
              [violation ''protocolVersion'' ''invalid_value'' only_version]))))
          else (case next of Inl e \<Rightarrow> Inl (Inr e) | Inr (Discover vs r) \<Rightarrow> Inr (Discover [ProtocolVersion] r) | Inr (Other r) \<Rightarrow> Inr (Other r))
      | None \<Rightarrow> (case next of Inl e \<Rightarrow> Inl (Inr e) | Inr (Discover vs r) \<Rightarrow> Inr (Discover [ProtocolVersion] r) | Inr (Other r) \<Rightarrow> Inr (Other r)))"

section \<open>dto.go: inputs\<close>

record changeIn =
  mc_expectedRevision :: string
  mc_idempotencyKey :: string
  mc_reason :: string
  mc_force :: bool
  mc_operations :: "Operation slice"

text \<open>The candidate document stays raw text.\<close>

record validateIn =
  mv_state :: string
  mv_operations :: "Operation slice"

record putFilterIn =
  mp_name :: string
  mp_expectedRevision :: string
  mp_idempotencyKey :: string
  mp_reason :: string
  mp_filter :: "FilterSpec option"

record deleteFilterIn =
  md_name :: string
  md_expectedRevision :: string
  md_idempotencyKey :: string
  md_reason :: string

definition toChange :: "changeIn \<Rightarrow> ChangeIn" where
  "toChange i = \<lparr>ci_expectedRevision = mc_expectedRevision i, ci_idempotencyKey = mc_idempotencyKey i,
     ci_reason = mc_reason i, ci_force = mc_force i, ci_operations = mc_operations i\<rparr>"

text \<open>None, an error, or a panic of the decoder.\<close>

definition candidate_of_raw :: "libs \<Rightarrow> string \<Rightarrow> (Error + State option) option" where
  "candidate_of_raw L raw =
     (if raw = [] \<or> raw = ''null'' then Some (Inr None)
      else map_option (\<lambda>r. case r of Inl e \<Rightarrow> Inl e | Inr st \<Rightarrow> Inr (Some st)) (decodeJSON L raw))"

definition toValidate :: "libs \<Rightarrow> validateIn \<Rightarrow> (Error + State option \<times> Operation slice) option" where
  "toValidate L i = map_option (\<lambda>r. case r of Inl e \<Rightarrow> Inl e | Inr st \<Rightarrow> Inr (st, mv_operations i)) (candidate_of_raw L (mv_state i))"

definition requireName :: "string \<Rightarrow> Error option" where
  "requireName name =
     (if name = [] then Some (ValidationFailed ''name is required'' [violation ''name'' ''required'' ''name is required'']) else None)"

section \<open>dto.go: results\<close>

text \<open>The types of \<^verbatim>\<open>internal/app\<close> without json tags are written under their Go names.\<close>

definition mcp_plan_fields :: "Plan \<Rightarrow> (string \<times> json) list" where
  "mcp_plan_fields p =
     [(''PreviousRevision'', JStr (pl_previousRevision p)), (''CandidateRevision'', JStr (pl_candidateRevision p)),
      (''Drifted'', JBool (pl_drifted p)), (''Diff'', diff_json (pl_diff p)),
      (''Warnings'', if pl_warnings p = [] then JNull else JArr (map warning_json (pl_warnings p))),
      (''Operations'', if pl_operations p = [] then JNull else JArr (map operation_json (pl_operations p)))]"

definition mcp_fromPlan :: "Plan \<Rightarrow> json" where
  "mcp_fromPlan p = JObj (mcp_plan_fields p)"

definition mcp_fromApply :: "ApplyResult \<Rightarrow> json" where
  "mcp_fromApply r = JObj (mcp_plan_fields (ap_plan r) @
     [(''Applied'', JBool (ap_applied r)), (''Generation'', JInt (ap_generation r)),
      (''RuntimeRevision'', JStr (ap_runtimeRevision r)), (''AuditEventID'', JStr (ap_auditEventID r))])"

definition mcp_fromExport :: "Export \<Rightarrow> json" where
  "mcp_fromExport e = JObj
     [(''format'', JStr (ex_format e)), (''revision'', JStr (ex_revision e)), (''bootstrapRevision'', JStr (ex_bootstrapRevision e)),
      (''drifted'', JBool (ex_drifted e)), (''body'', JStr (ex_body e)), (''humanDiff'', JStr (ex_humanDiff e))]"

definition mcp_status_json :: "time_zone \<Rightarrow> Status \<Rightarrow> json" where
  "mcp_status_json z st = JObj
     [(''Ready'', JBool (sv_ready st)), (''Revisions'', revisions_json z (sv_revisions st)),
      (''Listeners'', JArr (map (\<lambda>(n, a). JObj [(''Name'', JStr n), (''Address'', JStr a)]) (sv_listeners st))),
      (''HostTime'', time_json utc_zone (sv_hostTime st)),
      (''Warnings'', JArr (map warning_json (sv_warnings st)))]"

definition fromStateView :: "time_zone \<Rightarrow> RevisionView \<Rightarrow> State \<Rightarrow> json" where
  "fromStateView z v st = JObj
     [(''BootstrapRevision'', JStr (rv_bootstrapRevision v)), (''RuntimeRevision'', JStr (rv_runtimeRevision v)),
      (''Generation'', JInt (rv_generation v)), (''Drifted'', JBool (rv_drifted v)),
      (''LoadedAt'', time_json z (rv_loadedAt v)), (''Canonical'', state_json st)]"

definition mcp_features_json :: json where
  "mcp_features_json = JObj [(''Items'', JArr (map feature_json Features))]"

definition mcp_filters_json :: "FilterSpec list \<Rightarrow> json" where
  "mcp_filters_json fs = JObj [(''Items'', if fs = [] then JNull else JArr (map filter_json fs))]"

definition mcp_fromPreview :: "Preview \<Rightarrow> json" where
  "mcp_fromPreview p = JObj
     ([(''ip'', JStr (pv_ip p)), (''filter'', JStr (pv_filter p)),
       (''servedTime'', case pv_servedTime p of None \<Rightarrow> JNull | Some t \<Rightarrow> time_json utc_zone t),
       (''hostTime'', time_json utc_zone (pv_hostTime p))]
      @ omit (pv_mode p = []) ''mode'' (JStr (pv_mode p)) @ omit (pv_leap p = []) ''leap'' (JStr (pv_leap p))
      @ omit (pv_stratum p = 0) ''stratum'' (JInt (pv_stratum p)) @ omit (pv_refid p = []) ''refid'' (JStr (pv_refid p))
      @ omit (pv_offsetFromHost p = []) ''offsetFromHost'' (JStr (pv_offsetFromHost p))
      @ omit (pv_reason p = []) ''reason'' (JStr (pv_reason p)))"

text \<open>The two times of a query are in the zones they were made in; their texts are a parameter.\<close>

definition mcp_query_json :: "(QueryLog.Entry \<Rightarrow> json \<times> json) \<Rightarrow> QueryLog.Entry \<Rightarrow> json" where
  "mcp_query_json texts e = JObj
     [(''ClientIP'', JStr (e_clientIP e)), (''Filter'', JStr (e_filter e)), (''ServedTime'', fst (texts e)),
      (''Leap'', JStr (e_leap e)), (''Mode'', JStr (e_mode e)), (''VN'', JInt (uint (e_vn e))), (''WhenHost'', snd (texts e))]"

definition mcp_queries_json :: "(QueryLog.Entry \<Rightarrow> json \<times> json) \<Rightarrow> QueryLog.Entry list \<times> string \<Rightarrow> json" where
  "mcp_queries_json texts q = JObj
     [(''Items'', if fst q = [] then JNull else JArr (map (mcp_query_json texts) (fst q))), (''NextCursor'', JStr (snd q))]"

definition fromAuditList :: "time_zone \<Rightarrow> Event list \<Rightarrow> json" where
  "fromAuditList z evs = JObj [(''Events'', JArr (map (event_json z) evs))]"

end
