(* ===== verification/Mcp.thy ===== *)
theory Mcp
  imports Mcp_Dto
begin

text \<open>
  The MCP adapter of \<^verbatim>\<open>internal/control/mcp\<close>: a request on \<^verbatim>\<open>/mcp\<close> up to the
  SDK (server.go), who the caller is (auth.go), one case per tool (tools.go) and per resource
  (resources.go), and what a change of the configuration does to its verifier. The SDK is a
  parameter: it makes of a request an answer of its own, a call of one registered tool with decoded
  inputs, or a read of one resource, and it writes the answer for what that returns.
\<close>

section \<open>server.go: state\<close>

definition mcp_DefaultMaxBodyBytes :: int where "mcp_DefaultMaxBodyBytes = 1048576"
definition mcp_DefaultMaxConcurrent :: int where "mcp_DefaultMaxConcurrent = 256"

record McpConfig =
  mo_Service :: "App option"
  mo_AllowedOrigins :: "string list"
  mo_AllowLegacyClients :: bool
  mo_RatePerSec :: float64
  mo_RateBurst :: float64
  mo_MaxBodyBytes :: int
  mo_MaxConcurrent :: int
  mo_Auth :: "unit Verifier option"
  mo_FixedActor :: "Actor option"
  mo_StdioSecret :: string
  mo_Metrics :: "Registry option"

text \<open>
  A verifier and an application are shared with the other servers of the process. What a request has
  to run there is noted: the hooks of the verifier that fired, and whether a change went through.
\<close>

record McpServer =
  ms_allowedOrigins :: "string list"
  ms_allowLegacy :: bool
  ms_auth :: "unit Verifier option"
  ms_fixedActor :: "Actor option"
  ms_stdioSecret :: string
  ms_maxBody :: int
  ms_inflight :: int
  ms_slots :: int
  ms_rate :: mgmtLimiter
  ms_closed :: bool
  ms_metrics :: "Registry option"
  ms_app :: App
  ms_listen :: Listening
  ms_fired :: "unit list"
  ms_committed :: bool

text \<open>The error of a context.\<close>

datatype ctx_error = DeadlineExceeded | Canceled

record McpEnv =
  me_env :: Env
  me_ctx :: "ctx_error option"
  me_hooks :: Hooks
  me_facts :: "Facts option"
  me_now_rate :: gotime
  me_reqid :: "bytes option"
  me_schema :: "string option"
  me_build :: build_vars
  me_indexes :: indexes
  me_zone :: time_zone
  me_query_times :: "QueryLog.Entry \<Rightarrow> json \<times> json"

definition NewMcp :: "McpConfig \<Rightarrow> Listening \<Rightarrow> string + McpServer" where
  "NewMcp cfg l =
     (case mo_Service cfg of
        None \<Rightarrow> Inl ''mcp: Service is required''
      | Some svc \<Rightarrow>
          if mo_FixedActor cfg \<noteq> None \<and> mo_StdioSecret cfg = [] \<and> mo_Auth cfg \<noteq> None
          then Inl ''mcp: stdio FixedActor requires StdioSecret''
          else Inr
            \<lparr>ms_allowedOrigins = mo_AllowedOrigins cfg, ms_allowLegacy = mo_AllowLegacyClients cfg, ms_auth = mo_Auth cfg,
             ms_fixedActor = mo_FixedActor cfg, ms_stdioSecret = mo_StdioSecret cfg,
             ms_maxBody = (if mo_MaxBodyBytes cfg \<le> 0 then mcp_DefaultMaxBodyBytes else mo_MaxBodyBytes cfg),
             ms_inflight = 0,
             ms_slots = (if mo_MaxConcurrent cfg \<le> 0 then mcp_DefaultMaxConcurrent else mo_MaxConcurrent cfg),
             ms_rate = newLimiter (mo_RatePerSec cfg) (mo_RateBurst cfg), ms_closed = False,
             ms_metrics = mo_Metrics cfg, ms_app = svc, ms_listen = l,
             ms_fired = [], ms_committed = False\<rparr>)"

definition CloseMcp :: "McpServer \<Rightarrow> McpServer" where
  "CloseMcp s = s\<lparr>ms_closed := True\<rparr>"

definition mcp_count :: "effect list \<Rightarrow> McpServer \<Rightarrow> McpServer" where
  "mcp_count es s = s\<lparr>ms_metrics := map_option (fold record_effect es) (ms_metrics s)\<rparr>"

definition mcp_requestID :: "McpEnv \<Rightarrow> HttpRequest \<Rightarrow> string" where
  "mcp_requestID E r =
     (let given = header r headerRequestID in
      if given \<noteq> [] then given
      else case me_reqid E of None \<Rightarrow> ''req-fallback'' | Some b \<Rightarrow> hex_encode b)"

definition mcp_preflightAuth :: "libs \<Rightarrow> AuthSpec \<Rightarrow> go_error option" where
  "mcp_preflightAuth L spec =
     (case (FromSpec L spec :: Error + unit Verifier) of
        Inl e \<Rightarrow> Some (Dom e)
      | Inr v \<Rightarrow> (case RequireListen (Some v) of
          None \<Rightarrow> None
        | Some msg \<Rightarrow> Some (Dom (ValidationFailed ''management auth cannot be loaded''
            [violation ''spec.auth.tokens'' ''invalid_value'' msg]))))"

definition mcp_canonical :: "McpServer \<Rightarrow> State option" where
  "mcp_canonical s = opt_bind (Load (a_snaps (ms_app s))) sn_canonical"

definition mcp_reloadAuth :: "libs \<Rightarrow> McpServer \<Rightarrow> McpServer" where
  "mcp_reloadAuth L s =
     (case (ms_auth s, mcp_canonical s) of
        (Some v, Some st) \<Rightarrow>
          (case FromSpec L (sp_auth (st_spec st)) of
             Inl e \<Rightarrow> s
           | Inr next \<Rightarrow>
               if RequireListen (Some next) \<noteq> None then s
               else let (v', fired) = Replace v next in s\<lparr>ms_auth := Some v', ms_fired := ms_fired s @ fired\<rparr>)
      | _ \<Rightarrow> s)"

section \<open>auth.go and server.go: the caller\<close>

definition mcp_actorOf :: "Principal \<Rightarrow> Actor" where
  "mcp_actorOf p =
     \<lparr>ac_id = pn_ID p, ac_class = pn_Class p, ac_role = pn_Role p, ac_scopes = pn_Scopes p, ac_transport = ''mcp''\<rparr>"

definition mcp_authenticate :: "McpServer \<Rightarrow> HttpRequest \<Rightarrow> Error + Actor" where
  "mcp_authenticate s r =
     (if ms_auth s = None then Inl auth_required
      else let h = trim_space (header r ''Authorization'') in
        if h \<noteq> [] \<and> has_prefix (to_lower h) ''basic '' then Inl (Unauthenticated ''MCP accepts bearer tokens only'')
        else case Authenticate (ms_auth s) \<lparr>rq_Authorization = h, rq_RemoteAddr = hr_remote r\<rparr> of
          Inl e \<Rightarrow> Inl e
        | Inr p \<Rightarrow> Inr (mcp_actorOf p))"

definition zero_actor :: Actor where
  "zero_actor = \<lparr>ac_id = [], ac_class = [], ac_role = [], ac_scopes = [], ac_transport = []\<rparr>"

definition over_mcp :: "Actor \<Rightarrow> Actor" where
  "over_mcp a = (if ac_transport a = [] then a\<lparr>ac_transport := ''mcp''\<rparr> else a)"

text \<open>The caller of a tool: the one of the HTTP request if there is one, else the one of the process.\<close>

definition actorFrom :: "McpServer \<Rightarrow> Actor option \<Rightarrow> Actor" where
  "actorFrom s ctx =
     (let a = (case ctx of None \<Rightarrow> zero_actor | Some a \<Rightarrow> a) in
      if ac_id a \<noteq> [] \<or> ac_class a \<noteq> [] then over_mcp a
      else if ms_stdioSecret s \<noteq> [] \<and> ms_auth s \<noteq> None then
        (case AuthenticateBearer (ms_auth s) (ms_stdioSecret s) of
           Inl e \<Rightarrow> zero_actor\<lparr>ac_transport := ''mcp''\<rparr>
         | Inr p \<Rightarrow> mcp_actorOf p)
      else case ms_fixedActor s of Some f \<Rightarrow> over_mcp f | None \<Rightarrow> over_mcp a)"

definition authorizeResource :: "McpEnv \<Rightarrow> McpServer \<Rightarrow> Actor \<Rightarrow> string \<Rightarrow> Error option" where
  "authorizeResource E s actor uri =
     (if ms_auth s = None then Some auth_required
      else case LookupResource (me_indexes E) uri of
        None \<Rightarrow> Some (NotFound ''not found'')
      | Some c \<Rightarrow> AuthorizeScopes (ac_scopes actor) (cp_RequiredScopes c))"

definition authorizeTool :: "McpEnv \<Rightarrow> McpServer \<Rightarrow> Actor \<Rightarrow> string \<Rightarrow> Error option" where
  "authorizeTool E s actor name =
     (if ms_auth s = None then Some auth_required
      else case LookupTool (me_indexes E) name of
        [] \<Rightarrow> None
      | c # cs \<Rightarrow> AuthorizeScopes (ac_scopes actor) (cp_RequiredScopes c))"

section \<open>tools.go\<close>

text \<open>A call of a registered tool with its decoded inputs.\<close>

datatype tool_call =
    CallVersionGet | CallCapabilitiesGet | CallStatusGet | CallSchemaGet | CallFeaturesList | CallStateGet
  | CallStateValidate validateIn | CallChangePlan changeIn | CallChangeApply changeIn | CallStateExport string
  | CallStateReset string | CallFiltersList | CallFiltersGet string | CallFiltersPut putFilterIn
  | CallFiltersDelete deleteFilterIn | CallViewsPreview string | CallQueriesList string int
  | CallAuditList int | CallAuditGet string

fun tool_name :: "tool_call \<Rightarrow> string" where
  "tool_name CallVersionGet = ''ntp_version_get''"
| "tool_name CallCapabilitiesGet = ''ntp_capabilities_get''"
| "tool_name CallStatusGet = ''ntp_status_get''"
| "tool_name CallSchemaGet = ''ntp_schema_get''"
| "tool_name CallFeaturesList = ''ntp_features_list''"
| "tool_name CallStateGet = ''ntp_state_get''"
| "tool_name (CallStateValidate i) = ''ntp_state_validate''"
| "tool_name (CallChangePlan i) = ''ntp_change_plan''"
| "tool_name (CallChangeApply i) = ''ntp_change_apply''"
| "tool_name (CallStateExport f) = ''ntp_state_export''"
| "tool_name (CallStateReset q) = ''ntp_state_reset''"
| "tool_name CallFiltersList = ''ntp_filters_list''"
| "tool_name (CallFiltersGet n) = ''ntp_filters_get''"
| "tool_name (CallFiltersPut i) = ''ntp_filters_put''"
| "tool_name (CallFiltersDelete i) = ''ntp_filters_delete''"
| "tool_name (CallViewsPreview ip) = ''ntp_views_preview''"
| "tool_name (CallQueriesList c n) = ''ntp_queries_list''"
| "tool_name (CallAuditList n) = ''ntp_audit_list''"
| "tool_name (CallAuditGet i) = ''ntp_audit_get''"

text \<open>What a tool is registered with: its name, its description, and whether it changes state and may be repeated.\<close>

definition registered_tools :: "(string \<times> string \<times> bool \<times> bool) list" where
  "registered_tools =
    [(''ntp_version_get'', ''Read-only. Build and protocol versions (MCP '' @ ProtocolVersion @ '').'', False, True),
     (''ntp_capabilities_get'', ''Read-only. Capability list and protocol metadata.'', False, True),
     (''ntp_status_get'', ''Read-only. Listeners, revisions, hostTime, and ready.'', False, True),
     (''ntp_schema_get'', ''Read-only. Published v1alpha1 config JSON Schema.'', False, True),
     (''ntp_features_list'', ''Read-only. Frozen live vs reset-only catalog.'', False, True),
     (''ntp_state_get'', ''Read-only. Redacted spec plus revision metadata.'', False, True),
     (''ntp_state_validate'', ''Read-only dry-run. Validate a candidate document and/or operations without writing.'', False, True),
     (''ntp_change_plan'', ''Read-only dry-run. Plan operations against the active snapshot.'', False, True),
     (''ntp_change_apply'', ''State-changing. Apply operations with expectedRevision. High-impact.'', True, True),
     (''ntp_state_export'', ''Read-only. Canonical desired-state export plus drift material.'', False, True),
     (''ntp_state_reset'', ''State-changing, high-impact. Reread the bootstrap mount, wipe the query log, and swap. Never writes the file.'', True, False),
     (''ntp_filters_list'', ''Read-only. List first-match filters in document order.'', False, True),
     (''ntp_filters_get'', ''Read-only. Get one filter by name.'', False, True),
     (''ntp_filters_put'', ''State-changing. Upsert a filter by name.'', True, True),
     (''ntp_filters_delete'', ''State-changing. Remove a filter by name.'', True, True),
     (''ntp_views_preview'', ''Read-only. Compute served virtual time for an IP without sending NTP.'', False, True),
     (''ntp_queries_list'', ''Read-only. Last-N NTP query ring.'', False, True),
     (''ntp_audit_list'', ''Read-only. Query recent in-memory audit events.'', False, True),
     (''ntp_audit_get'', ''Read-only. Get one audit event by id.'', False, True)]"

record ToolInfo =
  ti_Name :: string
  ti_Title :: string
  ti_Description :: string
  ti_ReadOnlyHint :: bool
  ti_IdempotentHint :: bool
  ti_DestructiveHint :: bool

definition addTool :: "indexes \<Rightarrow> string \<times> string \<times> bool \<times> bool \<Rightarrow> ToolInfo" where
  "addTool idx t =
     (case t of (name, desc, mutating, idempotent) \<Rightarrow>
        let caps = LookupTool idx name; titled = (caps \<noteq> [] \<and> cp_Title (hd caps) \<noteq> []) in
        \<lparr>ti_Name = name, ti_Title = (if titled then cp_Title (hd caps) else name),
         ti_Description = (if titled \<and> desc = [] then cp_Description (hd caps) else desc),
         ti_ReadOnlyHint = (\<not> mutating), ti_IdempotentHint = idempotent, ti_DestructiveHint = (mutating \<and> \<not> idempotent)\<rparr>)"

definition registerTools :: "indexes \<Rightarrow> ToolInfo list" where
  "registerTools idx = map (addTool idx) registered_tools"

text \<open>A service call that returns: its error, or its result as a tree.\<close>

fun as_tree :: "('r \<Rightarrow> json) \<Rightarrow> 'r outcome \<Rightarrow> json outcome" where
  "as_tree f (Returns (Inl e)) = Returns (Inl e)"
| "as_tree f (Returns (Inr x)) = Returns (Inr (f x))"
| "as_tree f Panics = Panics"
| "as_tree f Blocks = Blocks"

definition mcp_changed :: "McpEnv \<Rightarrow> McpServer \<Rightarrow> App \<Rightarrow> effect list \<Rightarrow> bool \<Rightarrow> McpServer" where
  "mcp_changed E s a es hooks =
     (let s1 = mcp_count es (s\<lparr>ms_app := a\<rparr>) in if hooks then mcp_reloadAuth (en_libs (me_env E)) (s1\<lparr>ms_committed := True\<rparr>) else s1)"

definition after_apply ::
  "McpEnv \<Rightarrow> McpServer \<Rightarrow> App \<times> effect list \<times> (ApplyResult \<times> bool) outcome \<Rightarrow> McpServer \<times> json outcome" where
  "after_apply E s out =
     (case out of (a, es, o1) \<Rightarrow>
       (mcp_changed E s a es (case o1 of Returns (Inr (res, True)) \<Rightarrow> True | _ \<Rightarrow> False),
        as_tree (\<lambda>(res, _). mcp_fromApply res) o1))"

definition mcp_app_hooks :: "McpEnv \<Rightarrow> Hooks" where
  "mcp_app_hooks E = (me_hooks E)\<lparr>hk_preflight := hk_preflight (me_hooks E) @ [mcp_preflightAuth (en_libs (me_env E))]\<rparr>"

definition schema_tree :: "McpEnv \<Rightarrow> go_error + json" where
  "schema_tree E =
     (case me_schema E of
        None \<Rightarrow> Inl (Dom (Internal ''schema unavailable''))
      | Some b \<Rightarrow> (case unmarshal_any b of None \<Rightarrow> Inl (Dom (Internal ''internal error'')) | Some v \<Rightarrow> Inr v))"

definition mcp_export :: "McpEnv \<Rightarrow> McpServer \<Rightarrow> string \<Rightarrow> go_error + json" where
  "mcp_export E s format0 =
     (let given = to_lower format0 in
      if given \<notin> {[], ''yaml'', ''yml'', ''json''} then
        Inl (Dom (ValidationFailed ''unknown export format'' [violation ''format'' ''invalid_value'' ''format must be yaml or json'']))
      else bindR (app_Export (me_env E) (ms_app s) (if given = ''json'' then ExportJSON else ExportYAML)) (\<lambda>e. Inr (mcp_fromExport e)))"

definition mcp_filter_of :: "putFilterIn \<Rightarrow> FilterSpec" where
  "mcp_filter_of i =
     (case mp_filter i of
        None \<Rightarrow> zero_filter\<lparr>fs_name := mp_name i\<rparr>
      | Some f \<Rightarrow> if fs_name f = [] then f\<lparr>fs_name := mp_name i\<rparr> else f)"

definition refuse :: "McpServer \<Rightarrow> Error \<Rightarrow> McpServer \<times> json outcome" where
  "refuse s e = (s, Returns (Inl (Dom e)))"

definition read_only :: "McpServer \<Rightarrow> (go_error + 'r) \<Rightarrow> ('r \<Rightarrow> json) \<Rightarrow> McpServer \<times> json outcome" where
  "read_only s r f = (s, as_tree f (Returns r))"

fun run_tool :: "McpEnv \<Rightarrow> McpServer \<Rightarrow> Actor \<Rightarrow> tool_call \<Rightarrow> McpServer \<times> json outcome" where
  "run_tool E s actor CallVersionGet = read_only s (Inr ()) (\<lambda>_. fromVersion (Current (me_build E)))"
| "run_tool E s actor CallCapabilitiesGet = read_only s (Inr ()) (\<lambda>_. fromCapabilities (me_indexes E))"
| "run_tool E s actor CallStatusGet = read_only s (app_Status (me_env E) (ms_app s) (me_facts E)) (mcp_status_json (me_zone E))"
| "run_tool E s actor CallSchemaGet = read_only s (schema_tree E) (\<lambda>v. v)"
| "run_tool E s actor CallFeaturesList = read_only s (with_ctx (me_env E) (Inr ())) (\<lambda>_. mcp_features_json)"
| "run_tool E s actor CallStateGet = read_only s (GetState (me_env E) (ms_app s)) (\<lambda>(v, st). fromStateView (me_zone E) v st)"
| "run_tool E s actor (CallStateValidate i) =
     (case toValidate (en_libs (me_env E)) i of
        None \<Rightarrow> (s, Panics)
      | Some (Inl e) \<Rightarrow> refuse s e
      | Some (Inr (st, ops)) \<Rightarrow> (s, as_tree mcp_fromPlan (app_Validate (me_env E) (ms_app s) st (elems ops))))"
| "run_tool E s actor (CallChangePlan i) =
     (let (a, out) = app_Plan (me_env E) (ms_app s) (toChange i) in (s\<lparr>ms_app := a\<rparr>, as_tree mcp_fromPlan out))"
| "run_tool E s actor (CallChangeApply i) = after_apply E s (app_Apply (me_env E) (ms_app s) actor (toChange i))"
| "run_tool E s actor (CallStateExport f) = read_only s (mcp_export E s f) (\<lambda>v. v)"
| "run_tool E s actor (CallStateReset reason) =
     (case app_Reset (me_env E) (mcp_app_hooks E) (ms_app s) (ms_listen s) actor reason of
        (a, l, es, out) \<Rightarrow>
          (mcp_changed E (s\<lparr>ms_listen := l\<rparr>) a es (case out of Returns (Inr _) \<Rightarrow> True | _ \<Rightarrow> False), as_tree mcp_fromApply out))"
| "run_tool E s actor CallFiltersList = read_only s (ListFilters (me_env E) (ms_app s)) mcp_filters_json"
| "run_tool E s actor (CallFiltersGet name) =
     (case requireName name of
        Some e \<Rightarrow> refuse s e
      | None \<Rightarrow> (s, as_tree filter_json (GetFilter (me_env E) (ms_app s) name)))"
| "run_tool E s actor (CallFiltersPut i) =
     (case requireName (mp_name i) of
        Some e \<Rightarrow> refuse s e
      | None \<Rightarrow> after_apply E s (PutFilter (me_env E) (ms_app s) actor (mp_expectedRevision i) (mp_idempotencyKey i)
          (mp_reason i) (mcp_filter_of i)))"
| "run_tool E s actor (CallFiltersDelete i) =
     (case requireName (md_name i) of
        Some e \<Rightarrow> refuse s e
      | None \<Rightarrow> after_apply E s (DeleteFilter (me_env E) (ms_app s) actor (md_name i) (md_expectedRevision i)
          (md_idempotencyKey i) (md_reason i)))"
| "run_tool E s actor (CallViewsPreview ip) = read_only s (app_Preview (me_env E) (ms_app s) ip) mcp_fromPreview"
| "run_tool E s actor (CallQueriesList cursor limit) =
     read_only s (ListQueries (me_env E) (ms_app s) limit cursor) (mcp_queries_json (me_query_times E))"
| "run_tool E s actor (CallAuditList limit) = read_only s (QueryAudit (me_env E) (ms_app s) limit) (fromAuditList (me_zone E))"
| "run_tool E s actor (CallAuditGet i) =
     (if i = [] then refuse s (ValidationFailed ''id is required'' [violation ''id'' ''required'' ''id is required''])
      else read_only s (GetAudit (me_env E) (ms_app s) i) (event_json (me_zone E)))"

definition canceledError :: "ctx_error \<Rightarrow> Error" where
  "canceledError e = (case e of DeadlineExceeded \<Rightarrow> Timeout ''request deadline exceeded'' | Canceled \<Rightarrow> Internal ''request canceled'')"

definition tool_result_of :: "json outcome \<Rightarrow> tool_result" where
  "tool_result_of out =
     (case out of
        Returns (Inl e) \<Rightarrow> toolErrorResult e
      | Returns (Inr v) \<Rightarrow> (case asStructured v of None \<Rightarrow> rpcError (Dom (Internal ''internal error'')) | Some t \<Rightarrow> ToolOK t)
      | Panics \<Rightarrow> HandlerPanics
      | Blocks \<Rightarrow> HandlerBlocks)"

text \<open>The handler \<^verbatim>\<open>addTool\<close> registers with the SDK.\<close>

definition handle_tool :: "McpEnv \<Rightarrow> McpServer \<Rightarrow> Actor option \<Rightarrow> tool_call \<Rightarrow> McpServer \<times> tool_result" where
  "handle_tool E s ctx call =
     (case me_ctx E of
        Some e \<Rightarrow> (s, toolErrorResult (Dom (canceledError e)))
      | None \<Rightarrow>
          let actor = actorFrom s ctx; name = tool_name call in
          case authorizeTool E s actor name of
            Some e \<Rightarrow> (s, toolErrorResult (Dom e))
          | None \<Rightarrow>
              let (s1, out) = run_tool E (mcp_count [Count MetricMCPCallsTotal [(''capability'', name)]] s) actor call in
              (s1, tool_result_of out))"

section \<open>resources.go\<close>

definition registered_resources :: "(string \<times> string \<times> string \<times> string) list" where
  "registered_resources =
    [(''labntp://capabilities'', ''capabilities'', ''Capability list and protocol metadata.'', ''application/json''),
     (''labntp://status'', ''status'', ''Listeners, revisions, hostTime, and ready.'', ''application/json''),
     (''labntp://schema/config'', ''schema-config'', ''Published v1alpha1 config JSON Schema.'', ''application/schema+json''),
     (''labntp://features'', ''features'', ''Frozen live vs reset-only catalog.'', ''application/json''),
     (''labntp://state'', ''state'', ''Redacted spec plus revision metadata (same as GET /v1/state).'', ''application/json''),
     (''labntp://filters'', ''filters'', ''First-match filters in document order.'', ''application/json''),
     (''labntp://audit/recent'', ''audit-recent'', ''Recent in-memory audit events.'', ''application/json'')]"

text \<open>The text of an error that is not of \<^verbatim>\<open>domainerr\<close> does not reach the answer.\<close>

definition json_body :: "('r \<Rightarrow> json) \<Rightarrow> (go_error + 'r) \<Rightarrow> go_error + string \<times> string" where
  "json_body f r = bindR r (\<lambda>v. case marshalAPI (f v) of None \<Rightarrow> Inl (Plain []) | Some b \<Rightarrow> Inr (b, ''application/json''))"

definition resourceBody :: "McpEnv \<Rightarrow> McpServer \<Rightarrow> string \<Rightarrow> go_error + string \<times> string" where
  "resourceBody E s uri =
     (let env = me_env E; a = ms_app s in
      if uri = ''labntp://capabilities'' then json_body (\<lambda>_. fromCapabilities (me_indexes E)) (Inr ())
      else if uri = ''labntp://status'' then json_body (mcp_status_json (me_zone E)) (app_Status env a (me_facts E))
      else if uri = ''labntp://schema/config'' then
        (case me_schema E of None \<Rightarrow> Inl (Plain []) | Some b \<Rightarrow> Inr (b, ''application/schema+json''))
      else if uri = ''labntp://features'' then json_body (\<lambda>_. mcp_features_json) (with_ctx env (Inr ()))
      else if uri = ''labntp://state'' then json_body (\<lambda>(v, st). fromStateView (me_zone E) v st) (GetState env a)
      else if uri = ''labntp://filters'' then json_body mcp_filters_json (ListFilters env a)
      else if uri = ''labntp://audit/recent'' then json_body (fromAuditList (me_zone E)) (QueryAudit env a 0)
      else Inl (Dom (NotFound ''not found'')))"

text \<open>The request may carry no parameters, which reads the empty URI.\<close>

definition readResource :: "McpEnv \<Rightarrow> McpServer \<Rightarrow> Actor option \<Rightarrow> string option \<Rightarrow> tool_result" where
  "readResource E s ctx requested =
     (if me_ctx E \<noteq> None then rpcError (Dom (Internal ''request canceled''))
      else let actor = actorFrom s ctx; uri = (case requested of None \<Rightarrow> [] | Some u \<Rightarrow> u) in
        case authorizeResource E s actor uri of
          Some e \<Rightarrow> rpcError (Dom e)
        | None \<Rightarrow>
            (case resourceBody E s uri of Inl e \<Rightarrow> rpcError e | Inr (body, mime) \<Rightarrow> ResourceOK uri mime body))"

section \<open>server.go: a request\<close>

text \<open>
  What the SDK makes of a request. Its answer to what a handler returned is its own, also whether
  the panic of a handler comes back to the server.
\<close>

datatype sdk_step =
    SdkAnswers Response
  | SdkCalls tool_call "tool_result \<Rightarrow> handled"
  | SdkReads "string option" "tool_result \<Rightarrow> handled"

fun sdk_serve :: "McpEnv \<Rightarrow> McpServer \<Rightarrow> Actor option \<Rightarrow> sdk_step \<Rightarrow> McpServer \<times> handled" where
  "sdk_serve E s ctx (SdkAnswers rp) = (s, Done rp)"
| "sdk_serve E s ctx (SdkCalls call k) = (let (s1, res) = handle_tool E s ctx call in (s1, k res))"
| "sdk_serve E s ctx (SdkReads uri k) = (s, k (readResource E s ctx uri))"

definition mcp_admitted :: "McpEnv \<Rightarrow> (HttpRequest \<Rightarrow> sdk_step) \<Rightarrow> McpServer \<Rightarrow> HttpRequest \<Rightarrow> McpServer \<times> handled" where
  "mcp_admitted E sdk s r =
     (let (l, refused) = mcp_allow (ms_rate s) (me_now_rate E) (hr_remote r); s1 = s\<lparr>ms_rate := l\<rparr> in
      case refused of
        Some e \<Rightarrow> (s1, Done (writeRPC 429 e))
      | None \<Rightarrow>
          (case (if ms_allowLegacy s1 then None else validateProtocolVersion r) of
             Some e \<Rightarrow> (s1, Done (writeRPC 400 e))
           | None \<Rightarrow>
               (case mcp_authenticate s1 r of
                  Inl e \<Rightarrow> (s1, Done (writeRPC (if err_code e = CodeForbidden then 403 else 401) e))
                | Inr actor \<Rightarrow> sdk_serve E s1 (Some actor) (sdk r))))"

definition mcp_slot :: "int \<Rightarrow> McpServer \<Rightarrow> McpServer" where
  "mcp_slot n s = s\<lparr>ms_inflight := ms_inflight s + n\<rparr>"

definition mcp_serveHTTP :: "McpEnv \<Rightarrow> (HttpRequest \<Rightarrow> sdk_step) \<Rightarrow> McpServer \<Rightarrow> HttpRequest \<Rightarrow> McpServer \<times> handled" where
  "mcp_serveHTTP E sdk s r =
     (let named = (\<lambda>rp. Done (rp\<lparr>rp_headers := (headerRequestID, mcp_requestID E r) # rp_headers rp\<rparr>)) in
      if ms_closed s then (s, named (writeRPC 503 (Internal ''server closed'')))
      else case CheckOrigin (header r ''Origin'') (ms_allowedOrigins s) of
        Some e \<Rightarrow> (s, named (writeRPC 403 e))
      | None \<Rightarrow>
          if hr_method r \<noteq> ''POST'' then
            (s, named (let rp = writeRPC 405 (MethodNotAllowed ''method not allowed'') in
                       rp\<lparr>rp_headers := (''Allow'', ''POST'') # rp_headers rp\<rparr>))
          else if ms_inflight s \<ge> ms_slots s then
            (s, named (writeRPC 429 (RateLimited ''too many concurrent management requests'')))
          else (case mcp_admitted E sdk (mcp_slot 1 s) r of
              (s1, Done rp) \<Rightarrow> (mcp_slot (- 1) s1, named rp)
            | (s1, Crash) \<Rightarrow> (mcp_slot (- 1) s1, named (writeRPC 500 (Internal ''internal error'')))
            | (s1, Hang) \<Rightarrow> (s1, Hang)))"

section \<open>manifest.go\<close>

definition mutating_tools :: "indexes \<Rightarrow> string list" where
  "mutating_tools idx = first_seen (concat (map mcp_tools (filter cp_Mutating (AllCaps idx))))"

text \<open>The version of the SDK is the one the toolchain recorded for it, if any.\<close>

definition resolvedSDKVersion :: "(string \<times> string) list option \<Rightarrow> string" where
  "resolvedSDKVersion deps =
     (case opt_bind deps (\<lambda>ds. map_of ds SDKModule) of Some v \<Rightarrow> v | None \<Rightarrow> SDKVersion)"

definition json_strings :: "string list \<Rightarrow> json" where
  "json_strings xs = (if xs = [] then JNull else JArr (map JStr xs))"

text \<open>The document before its text is indented.\<close>

definition RenderManifest :: "indexes \<Rightarrow> (string \<times> string) list option \<Rightarrow> json" where
  "RenderManifest idx deps = JObj
     [(''apiVersion'', JStr ''labntp.dev/mcp/v1''), (''generatedBy'', JStr ''internal/control/mcp.RenderManifest; DO NOT EDIT.''),
      (''protocol'', JStr ProtocolVersion), (''sdk'', JStr SDKModule), (''sdkVersion'', JStr (resolvedSDKVersion deps)),
      (''tools'', json_strings (Tools idx)), (''resources'', json_strings (Resources idx)),
      (''mutatingTools'', json_strings (mutating_tools idx)), (''featureIds'', json_strings FeatureIDs),
      (''healthNotTools'', json_strings [HealthLive, HealthReady])]"

end
