(* ===== verification/Mcp_Props.thy ===== *)
theory Mcp_Props
  imports Mcp Rest_Props Capabilities_Props
begin

text \<open>
  What the MCP adapter promises: its tools are those of the catalog, no tool changes the application
  without authority, a tool does what the REST route of the same capability does, and a process with
  a secret of its own loses its powers with the token.
\<close>

section \<open>The lookups by tool and by resource\<close>

lemma lookup_index_tools:
  "distinct ts \<Longrightarrow> (case map_of (fold (index_tool c) ts m) t of None \<Rightarrow> [] | Some cs \<Rightarrow> cs)
     = (case map_of m t of None \<Rightarrow> [] | Some cs \<Rightarrow> cs) @ (if t \<in> set ts then [c] else [])"
  by (induction ts arbitrary: m) (auto simp: index_tool_def map_of_put_key split: option.splits)

lemma lookup_tools:
  "\<forall>c \<in> set cs. distinct (mcp_tools c) \<Longrightarrow>
     (case map_of (fold (\<lambda>c. fold (index_tool c) (mcp_tools c)) cs m) t of None \<Rightarrow> [] | Some xs \<Rightarrow> xs)
       = (case map_of m t of None \<Rightarrow> [] | Some xs \<Rightarrow> xs) @ filter (\<lambda>c. t \<in> set (mcp_tools c)) cs"
  by (induction cs arbitrary: m) (simp_all add: lookup_index_tools)

lemma lookup_index_res:
  "map_of (fold (index_res c) rs m) u = (case map_of m u of Some d \<Rightarrow> Some d | None \<Rightarrow> if u \<in> set rs then Some c else None)"
  by (induction rs arbitrary: m) (auto simp: index_res_def map_add_def split: option.splits)

lemma lookup_resources:
  "map_of (fold (\<lambda>c. fold (index_res c) (mcp_resources c)) cs m) u
     = (case map_of m u of Some d \<Rightarrow> Some d | None \<Rightarrow> find (\<lambda>c. u \<in> set (mcp_resources c)) cs)"
  by (induction cs arbitrary: m) (auto simp: lookup_index_res split: option.splits)

lemma index_all_tools:
  "index_all cs idx = Some idx' \<Longrightarrow>
     ix_all idx' = ix_all idx
     \<and> ix_byTool idx' = fold (\<lambda>c. fold (index_tool c) (mcp_tools c)) cs (ix_byTool idx)
     \<and> ix_byRes idx' = fold (\<lambda>c. fold (index_res c) (mcp_resources c)) cs (ix_byRes idx)"
proof (induction cs arbitrary: idx)
  case (Cons c cs)
  then show ?case
    by (cases "cp_MCP c") (auto simp: Let_def mcp_tools_def mcp_resources_def split: option.splits dest!: Cons.IH)
qed simp

lemma tools_distinct: "list_all (\<lambda>c. distinct (mcp_tools c)) catalog"
  by code_simp

lemma catalog_lookups:
  assumes "newIndexes = Some idx"
  shows "ix_all idx = catalog" "LookupTool idx t = filter (\<lambda>c. t \<in> set (mcp_tools c)) catalog"
    "LookupResource idx u = find (\<lambda>c. u \<in> set (mcp_resources c)) catalog"
proof -
  note i = index_all_tools [OF assms [unfolded newIndexes_def]]
  show "ix_all idx = catalog" using i by simp
  show "LookupTool idx t = filter (\<lambda>c. t \<in> set (mcp_tools c)) catalog"
    using i lookup_tools [of catalog "[]" t] tools_distinct by (simp add: LookupTool_def list_all_iff)
  show "LookupResource idx u = find (\<lambda>c. u \<in> set (mcp_resources c)) catalog"
    using i lookup_resources [of catalog "[]" u] by (simp add: LookupResource_def)
qed

text \<open>The row of a tool.\<close>

definition row_of_tool :: "string \<Rightarrow> Capability list" where
  "row_of_tool t = filter (\<lambda>c. t \<in> set (mcp_tools c)) catalog"

definition hints_agree :: "string \<times> string \<times> bool \<times> bool \<Rightarrow> bool" where
  "hints_agree t =
     (case t of (name, desc, mutating, idempotent) \<Rightarrow>
        (case row_of_tool name of [c] \<Rightarrow> mutating = cp_Mutating c \<and> idempotent = cp_Idempotent c \<and> cp_Title c \<noteq> [] \<and> desc \<noteq> [] | _ \<Rightarrow> False))"

lemma registered_agree: "list_all hints_agree registered_tools"
  by code_simp

lemma registered_names:
  "distinct (map fst registered_tools)
   \<and> list_all (\<lambda>t. t \<in> set (map fst registered_tools)) (concat (map mcp_tools catalog))
   \<and> list_all (\<lambda>t. t \<in> set (concat (map mcp_tools catalog))) (map fst registered_tools)"
  by code_simp

lemma registered_uris:
  "map fst registered_resources = first_seen (concat (map mcp_resources catalog))"
  by code_simp

lemma tool_registered: "tool_name call \<in> set (map fst registered_tools)"
  by (cases call) (simp_all add: registered_tools_def)

lemma first_seen_set: "set (first_seen xs) = set xs"
proof -
  have "set (fold (\<lambda>x out. if x \<in> set out then out else out @ [x]) xs acc) = set acc \<union> set xs" for acc
    by (induction xs arbitrary: acc) auto
  then show ?thesis by (simp add: first_seen_def)
qed

text \<open>C24: the tools are those of the catalog: each tool registered belongs to exactly one row, whose title it
  carries and with whose marks its hints agree; every tool of the table is registered, once; every call
  the server can get is of one of them; and the resources are those of the table, in its order.\<close>

theorem tools_match_catalog:
  "case newIndexes of
     None \<Rightarrow> False
   | Some idx \<Rightarrow>
       set (map ti_Name (registerTools idx)) = set (Tools idx) \<and> distinct (map ti_Name (registerTools idx))
       \<and> tool_name call \<in> set (Tools idx)
       \<and> list_all (\<lambda>i. case LookupTool idx (ti_Name i) of
             [c] \<Rightarrow> ti_Title i = cp_Title c \<and> ti_ReadOnlyHint i = (\<not> cp_Mutating c) \<and> ti_IdempotentHint i = cp_Idempotent c
                  \<and> ti_DestructiveHint i = (cp_Mutating c \<and> \<not> cp_Idempotent c)
           | _ \<Rightarrow> False) (registerTools idx)
       \<and> map fst registered_resources = Resources idx"
proof -
  obtain idx where idx: "newIndexes = Some idx" using newIndexes_ex by blast
  note look = catalog_lookups [OF idx]
  have name: "ti_Name (addTool idx t) = fst t" for t by (cases t) (simp add: addTool_def Let_def)
  then have names: "map ti_Name (registerTools idx) = map fst registered_tools" by (simp add: registerTools_def comp_def)
  have tools: "set (Tools idx) = set (map fst registered_tools)"
    using registered_names unfolding list_all_iff by (simp only: Tools_def look(1) first_seen_set) blast
  have hint: "case LookupTool idx (ti_Name (addTool idx t)) of
      [c] \<Rightarrow> ti_Title (addTool idx t) = cp_Title c \<and> ti_ReadOnlyHint (addTool idx t) = (\<not> cp_Mutating c)
         \<and> ti_IdempotentHint (addTool idx t) = cp_Idempotent c \<and> ti_DestructiveHint (addTool idx t) = (cp_Mutating c \<and> \<not> cp_Idempotent c)
    | _ \<Rightarrow> False" if "t \<in> set registered_tools" for t
  proof -
    have "hints_agree t" using registered_agree that by (simp only: list_all_iff)
    then show ?thesis
      by (cases t) (auto simp: hints_agree_def name look(2) row_of_tool_def addTool_def Let_def split: list.splits)
  qed
  have "list_all (\<lambda>i. case LookupTool idx (ti_Name i) of
       [c] \<Rightarrow> ti_Title i = cp_Title c \<and> ti_ReadOnlyHint i = (\<not> cp_Mutating c) \<and> ti_IdempotentHint i = cp_Idempotent c
            \<and> ti_DestructiveHint i = (cp_Mutating c \<and> \<not> cp_Idempotent c)
     | _ \<Rightarrow> False) (registerTools idx)"
    unfolding registerTools_def list_all_iff set_map by (rule ballI, erule imageE, hypsubst, rule hint)
  moreover have "map fst registered_resources = Resources idx" by (simp only: Resources_def look(1) registered_uris)
  ultimately show ?thesis using registered_names tool_registered [of call] by (simp add: idx names tools)
qed

section \<open>Which tools change the application\<close>

definition changing_tools :: "string list" where
  "changing_tools = [''ntp_change_plan'', ''ntp_change_apply'', ''ntp_state_reset'', ''ntp_filters_put'', ''ntp_filters_delete'']"

lemma mcp_count_sel [simp]:
  "ms_app (mcp_count es s) = ms_app s" "ms_auth (mcp_count es s) = ms_auth s" "ms_inflight (mcp_count es s) = ms_inflight s"
  "ms_listen (mcp_count es s) = ms_listen s" "ms_stdioSecret (mcp_count es s) = ms_stdioSecret s"
  by (simp_all add: mcp_count_def)

lemma mcp_reloadAuth_sel [simp]:
  "ms_app (mcp_reloadAuth L s) = ms_app s" "ms_inflight (mcp_reloadAuth L s) = ms_inflight s"
  "ms_listen (mcp_reloadAuth L s) = ms_listen s" "ms_committed (mcp_reloadAuth L s) = ms_committed s"
  by (simp_all add: mcp_reloadAuth_def Let_def split: option.splits sum.splits prod.splits)

lemma mcp_changed_sel [simp]:
  "ms_app (mcp_changed E s a es h) = a" "ms_inflight (mcp_changed E s a es h) = ms_inflight s"
  by (simp_all add: mcp_changed_def Let_def)

lemma after_apply_sel [simp]:
  "ms_app (fst (after_apply E s out)) = fst out" "ms_inflight (fst (after_apply E s out)) = ms_inflight s"
  by (cases out; simp add: after_apply_def)+

lemma run_tool_inflight [simp]: "ms_inflight (fst (run_tool E s actor call)) = ms_inflight s"
  by (cases call) (simp_all add: read_only_def refuse_def split: option.splits sum.splits prod.splits)

lemma run_tool_app: "tool_name call \<notin> set changing_tools \<Longrightarrow> fst (run_tool E s actor call) = s"
  by (cases call) (simp_all add: changing_tools_def read_only_def refuse_def split: option.splits sum.splits prod.splits)

lemma changing_rows:
  "list_all (\<lambda>t. case row_of_tool t of [c] \<Rightarrow> list_ex (\<lambda>sc. sc = ScopeNTPWrite \<or> sc = ScopeNTPAdmin) (cp_RequiredScopes c) | _ \<Rightarrow> False)
     changing_tools"
  by code_simp

lemma changing_tool_scope:
  assumes "newIndexes = Some (me_indexes E)" "tool_name call \<in> set changing_tools"
    and "authorizeTool E s actor (tool_name call) = None"
  shows "HasScope (ac_scopes actor) ScopeNTPWrite \<and> ms_auth s \<noteq> None"
proof -
  have "case row_of_tool (tool_name call) of
      [c] \<Rightarrow> list_ex (\<lambda>sc. sc = ScopeNTPWrite \<or> sc = ScopeNTPAdmin) (cp_RequiredScopes c) | _ \<Rightarrow> False"
    using changing_rows assms(2) unfolding list_all_iff by blast
  then show ?thesis
    using assms(3) scope_write by (auto simp: authorizeTool_def catalog_lookups(2) [OF assms(1)] row_of_tool_def split: list.splits if_splits)
qed

lemma handle_tool_change:
  assumes "newIndexes = Some (me_indexes E)" "ms_app (fst (handle_tool E s ctx call)) \<noteq> ms_app s"
  shows "tool_name call \<in> set changing_tools \<and> HasScope (ac_scopes (actorFrom s ctx)) ScopeNTPWrite \<and> ms_auth s \<noteq> None"
proof -
  let ?n = "tool_name call"
  let ?s = "mcp_count [Count MetricMCPCallsTotal [(''capability'', ?n)]] s"
  from assms(2) have z: "authorizeTool E s (actorFrom s ctx) ?n = None"
    and ch: "ms_app (fst (run_tool E ?s (actorFrom s ctx) call)) \<noteq> ms_app ?s"
    by (auto simp: handle_tool_def Let_def split: option.splits prod.splits)
  from ch run_tool_app have "?n \<in> set changing_tools" by metis
  with changing_tool_scope [OF assms(1) _ z] show ?thesis by blast
qed

section \<open>A request\<close>

definition bearer :: "HttpRequest \<Rightarrow> string" where
  "bearer r = trim_space (header r ''Authorization'')"

text \<open>The principal the verifier accepts for a request of the adapter.\<close>

definition mcp_vouched :: "McpServer \<Rightarrow> HttpRequest \<Rightarrow> Principal \<Rightarrow> bool" where
  "mcp_vouched s r p =
     (\<not> has_prefix (to_lower (bearer r)) ''basic ''
      \<and> Authenticate (ms_auth s) \<lparr>rq_Authorization = bearer r, rq_RemoteAddr = hr_remote r\<rparr> = Inr p)"

definition mcp_authorised_change :: "McpServer \<Rightarrow> HttpRequest \<Rightarrow> bool" where
  "mcp_authorised_change s r =
     (hr_method r = ''POST'' \<and> \<not> ms_closed s
      \<and> CheckOrigin (header r ''Origin'') (ms_allowedOrigins s) = None
      \<and> (ms_allowLegacy s \<or> trim_space (header r headerProtocolVersion) = ProtocolVersion)
      \<and> (\<exists>p. mcp_vouched s r p \<and> HasScope (pn_Scopes p) ScopeNTPWrite))"

lemma mcp_authenticate_vouched:
  assumes "mcp_authenticate s r = Inr actor"
  shows "\<exists>p. actor = mcp_actorOf p \<and> mcp_vouched s r p"
proof -
  have "\<not> has_prefix (to_lower []) ''basic ''" by code_simp
  with assms show ?thesis
    by (auto simp: mcp_authenticate_def mcp_vouched_def bearer_def Let_def split: if_splits sum.splits)
qed

lemma Authenticate_class: "Authenticate ov rq = Inr p \<Longrightarrow> pn_Class p \<noteq> []"
  by (auto simp: Authenticate_def Let_def loopbackPrincipal_def ClassLoopback_def lookupBearerLocked_def principalOf_def ClassToken_def
      split: option.splits if_splits prod.splits)

lemma actorFrom_caller: "mcp_vouched s r p \<Longrightarrow> actorFrom s' (Some (mcp_actorOf p)) = mcp_actorOf p"
  using Authenticate_class [of "ms_auth s"] by (auto simp: mcp_vouched_def actorFrom_def mcp_actorOf_def over_mcp_def Let_def)

lemma sdk_serve_change:
  assumes "newIndexes = Some (me_indexes E)" "ms_app (fst (sdk_serve E s ctx step)) \<noteq> ms_app s"
  shows "HasScope (ac_scopes (actorFrom s ctx)) ScopeNTPWrite"
proof (cases step)
  case (SdkCalls call k)
  with assms(2) have "ms_app (fst (handle_tool E s ctx call)) \<noteq> ms_app s" by (auto split: prod.splits)
  then show ?thesis using handle_tool_change [OF assms(1)] by blast
qed (use assms(2) in auto)

lemma mcp_admitted_change:
  assumes "newIndexes = Some (me_indexes E)" "ms_app (fst (mcp_admitted E sdk s r)) \<noteq> ms_app s"
  shows "(ms_allowLegacy s \<or> trim_space (header r headerProtocolVersion) = ProtocolVersion)
     \<and> (\<exists>p. mcp_vouched s r p \<and> HasScope (pn_Scopes p) ScopeNTPWrite)"
proof -
  define s1 where "s1 = s\<lparr>ms_rate := fst (mcp_allow (ms_rate s) (me_now_rate E) (hr_remote r))\<rparr>"
  obtain actor where a: "mcp_authenticate s1 r = Inr actor"
    and v: "ms_allowLegacy s1 \<or> validateProtocolVersion r = None"
    and ch: "ms_app (fst (sdk_serve E s1 (Some actor) (sdk r))) \<noteq> ms_app s1"
    using assms(2) by (auto simp: mcp_admitted_def s1_def Let_def split: prod.splits option.splits sum.splits if_splits)
  obtain p where p: "actor = mcp_actorOf p" "mcp_vouched s1 r p" using mcp_authenticate_vouched [OF a] by blast
  then have "HasScope (pn_Scopes p) ScopeNTPWrite"
    using sdk_serve_change [OF assms(1) ch] actorFrom_caller [OF p(2), of s1] by (simp add: mcp_actorOf_def)
  moreover have "mcp_vouched s r p" using p(2) by (simp add: mcp_vouched_def s1_def)
  ultimately show ?thesis using v by (auto simp: s1_def validateProtocolVersion_def Let_def split: if_splits)
qed

lemma mcp_serveHTTP_change:
  assumes "newIndexes = Some (me_indexes E)" "ms_app (fst (mcp_serveHTTP E sdk s r)) \<noteq> ms_app s"
  shows "mcp_authorised_change s r"
proof -
  have sl: "ms_app (mcp_slot n t) = ms_app t" for n t by (simp add: mcp_slot_def)
  have "ms_app (fst (mcp_admitted E sdk (mcp_slot 1 s) r)) \<noteq> ms_app (mcp_slot 1 s)"
    using assms(2) by (auto simp: mcp_serveHTTP_def Let_def sl split: option.splits if_splits prod.splits handled.splits)
  from mcp_admitted_change [OF assms(1) this]
  have "(ms_allowLegacy s \<or> trim_space (header r headerProtocolVersion) = ProtocolVersion)
      \<and> (\<exists>p. mcp_vouched s r p \<and> HasScope (pn_Scopes p) ScopeNTPWrite)"
    by (simp add: mcp_slot_def mcp_vouched_def)
  with assms(2) show ?thesis
    by (auto simp: mcp_serveHTTP_def mcp_authorised_change_def Let_def split: option.splits if_splits)
qed

text \<open>A request to the MCP adapter changes the application only as a POST to an open server, from an
  allowed origin, under the pinned protocol unless older clients are allowed, and for a principal that
  the verifier accepts without basic authentication and that holds \<^verbatim>\<open>ntp.write\<close> or
  \<^verbatim>\<open>ntp.admin\<close>; a session cookie counts for nothing. Whatever the SDK makes of the request.\<close>

theorem mcp_change_needs_authority:
  "case newIndexes of
     None \<Rightarrow> False
   | Some idx \<Rightarrow>
       ms_app (fst (mcp_serveHTTP (E\<lparr>me_indexes := idx\<rparr>) sdk s r)) = ms_app s \<or> mcp_authorised_change s r"
proof -
  obtain idx where idx: "newIndexes = Some idx" using newIndexes_ex by blast
  show ?thesis using mcp_serveHTTP_change [of "E\<lparr>me_indexes := idx\<rparr>" sdk s r] by (auto simp: idx)
qed

section \<open>A process with a secret of its own\<close>

lemma Replace_bearer: "AuthenticateBearer (Some (fst (Replace v next))) secret = AuthenticateBearer (Some next) secret"
  by (simp add: AuthenticateBearer_def lookupBearerLocked_def Replace_def split: prod.splits)

text \<open>C25: over stdio a call has the powers that the tokens of the moment give the secret of the process. Once
  other tokens are in place (a reset does that), the caller is whom they know under that secret, and when
  they do not know it, no tool that asks for a scope runs.\<close>

theorem stdio_follows_tokens:
  "let s' = s\<lparr>ms_auth := Some (fst (Replace v next)), ms_stdioSecret := c # secret\<rparr> in
   case AuthenticateBearer (Some next) (c # secret) of
     Inr p \<Rightarrow> actorFrom s' None = mcp_actorOf p
       \<and> (case LookupTool (me_indexes E) (tool_name call) of
            [] \<Rightarrow> True
          | row # rows \<Rightarrow> authorizeTool E s' (actorFrom s' None) (tool_name call) = AuthorizeScopes (pn_Scopes p) (cp_RequiredScopes row))
   | Inl e \<Rightarrow> ac_id (actorFrom s' None) = [] \<and> ac_scopes (actorFrom s' None) = []
       \<and> (case LookupTool (me_indexes E) (tool_name call) of
            [] \<Rightarrow> True
          | row # rows \<Rightarrow> list_all (\<lambda>sc. sc = []) (cp_RequiredScopes row) \<or> fst (handle_tool E s' None call) = s')"
proof -
  have no: "AuthorizeScopes [] req = None \<Longrightarrow> list_all (\<lambda>sc. sc = []) req" for req
    by (induction req) (auto simp: HasScope_def any_scope_iff split: if_splits)
  show ?thesis
    by (auto simp: Let_def actorFrom_def zero_actor_def Replace_bearer mcp_actorOf_def authorizeTool_def handle_tool_def
        dest: no split: sum.splits list.splits option.splits)
qed

end
