(* ===== verification/Rest_Reload.thy ===== *)
theory Rest_Reload
  imports Rest_Props App_Reach
begin

text \<open>
  What a change of the configuration does to the management server: a reset that succeeds leaves it
  with the tokens and limits of the document it installed, and the sessions of other tokens are gone.
\<close>

section \<open>A reset passed the check of the authentication\<close>

lemma preflight_append: "preflight (fs @ gs) a = (case preflight fs a of Some e \<Rightarrow> Some e | None \<Rightarrow> preflight gs a)"
  by (induction fs) (auto split: option.splits)

lemma preflightAuth_None:
  "preflightAuth L spec = None \<Longrightarrow> \<exists>v. FromSpec L spec = Inr (v :: unit Verifier) \<and> RequireListen (Some v) = None"
  by (auto simp: preflightAuth_def split: sum.splits)

lemma app_hooks_preflight:
  "preflight (hk_preflight (app_hooks E)) spec = None \<Longrightarrow> preflightAuth (en_libs (re_env E)) spec = None"
  by (simp add: app_hooks_def preflight_append split: option.splits)

lemma resetLocked_preflight:
  assumes "resetLocked env hk s l actor reason = Some (t, l', es, Inr res)"
  shows "\<exists>n st. Load (a_snaps t) = Some n \<and> sn_canonical n = Some st \<and> preflight (hk_preflight hk) (sp_auth (st_spec st)) = None"
proof -
  let ?prev = "Load (a_snaps s)"
  obtain r0 where r0: "loadBootstrapCandidate env s (next_generation ?prev) = Some r0"
    using assms by (auto simp: resetLocked_def Let_def opt_bind_eq_Some next_generation_def)
  then obtain n where n: "r0 = Inr n" using assms by (cases r0) (auto simp: resetLocked_def Let_def next_generation_def)
  with r0 obtain st0 where "compile_fresh env (next_generation ?prev) st0 = Inr n" using loadBootstrapCandidate_fresh by blast
  then have "good_snapshot n" using good_Compile by (fastforce simp: compile_fresh_def)
  then obtain st where st: "sn_canonical n = Some st" by (auto simp: good_snapshot_def snapshot_ok_def)
  let ?new = "(effectiveNTP (a_ntpOverride s) (sn_ntpAddress n), effectiveMgmt (a_mgmtOverride s) (sn_managementAddress n))"
  obtain l1 failed where m: "move_listeners hk l (old_addresses s ?prev) ?new = (l1, failed)" by fastforce
  have p: "preflight (hk_preflight hk) (sp_auth (st_spec st)) = None"
    and t: "\<exists>d. t = fst (commit_reset env s actor reason n d (snd ?new))"
    using assms r0 n st m
    by (auto simp: resetLocked_def Let_def next_generation_def case_prod_beta split: sum.splits option.splits prod.splits)
  from t have "Load (a_snaps t) = Some n"
    by (auto simp: commit_reset_sel Swap_def SetBootstrap_def Load_def Let_def split: option.splits)
  with st p show ?thesis by blast
qed

section \<open>The server after a reset\<close>

text \<open>The tokens, sessions and limits of a server whose app installed a document: its verifier holds the
  document's tokens, and the sessions stay only if those are the tokens it held.\<close>

definition reloaded :: "libs \<Rightarrow> 'w RestServer_scheme \<Rightarrow> 'w RestServer_scheme \<Rightarrow> bool" where
  "reloaded L s s' =
     (case active_canonical s' of
        None \<Rightarrow> False
      | Some st \<Rightarrow>
          (case (FromSpec L (sp_auth (st_spec st)) :: Error + unit Verifier) of
             Inl e \<Rightarrow> False
           | Inr next \<Rightarrow>
               RequireListen (Some next) = None
               \<and> rs_auth s' = map_option (\<lambda>v. v\<lparr>vf_mode := vf_mode next, vf_tokens := vf_tokens next\<rparr>) (rs_auth s)
               \<and> ss_sessions (rs_sessions s') =
                   (case rs_auth s of None \<Rightarrow> ss_sessions (rs_sessions s)
                    | Some v \<Rightarrow> if Equivalent v next then ss_sessions (rs_sessions s) else [])
               \<and> (let m = sp_management (st_spec st) in
                   rs_maxBody s' = (if mg_bodyLimit m \<le> 0 then DefaultMaxBodyBytes else mg_bodyLimit m)
                   \<and> ig_max (rs_gate s') = (if mg_maxConcurrent m \<le> 0 then DefaultMaxConcurrent else mg_maxConcurrent m)
                   \<and> rs_rate s' = ml_setRate (rs_rate s) (f_of_int (mg_requestsPerSecond m)) (f_of_int (mg_burst m)))))"

lemma fold_Clear: "ss_sessions (fold (\<lambda>_. Clear) hs ss) = (if hs = [] then ss_sessions ss else [])"
proof (induction hs arbitrary: ss)
  case (Cons h hs)
  then show ?case using Cons [of "Clear ss"] by (simp add: Clear_def)
qed simp

lemma after_change_reloaded:
  assumes "active_canonical s0 = Some st" "FromSpec L (sp_auth (st_spec st)) = Inr (next :: unit Verifier)"
    "RequireListen (Some next) = None" "rs_auth s0 = rs_auth s" "rs_sessions s0 = rs_sessions s" "rs_rate s0 = rs_rate s"
  shows "reloaded L s (after_change L s0)"
proof -
  have ac: "active_canonical (after_change L s0) = Some st" using assms(1) by (simp add: active_canonical_def)
  have ac': "active_canonical (reloadAuth L s0) = Some st"
    using assms(1) by (simp add: active_canonical_def reloadAuth_def Let_def split: option.splits sum.splits prod.splits)
  show ?thesis
  proof (cases "rs_auth s")
    case None
    then have "reloadAuth L s0 = s0" using assms(4) by (simp add: reloadAuth_def)
    then show ?thesis using assms None ac ac'
      by (simp add: reloaded_def after_change_def syncManagementLimits_def ApplyLimits_def setMax_def Let_def)
  next
    case (Some v)
    then show ?thesis using assms ac ac'
      by (simp add: reloaded_def after_change_def syncManagementLimits_def ApplyLimits_def setMax_def Let_def)
        (simp add: reloadAuth_def Replace_def Clear_def fold_Clear Let_def)
  qed
qed


end
