(* ===== verification/Mcp_Parity.thy ===== *)
theory Mcp_Parity
  imports Mcp_Props Rest_Reload
begin

text \<open>
  The two bindings of one operation: a tool of the MCP adapter and the REST route of the same
  capability make the same change to the application they share, and fail with the same error.
\<close>

section \<open>One process behind both\<close>

text \<open>The adapter as it sees the application, the listeners and the verifier of the REST server.\<close>

definition on_process :: "'w RestServer_scheme \<Rightarrow> McpServer \<Rightarrow> McpServer" where
  "on_process s m = m\<lparr>ms_app := rs_app s, ms_listen := rs_listen s, ms_auth := rs_auth s, ms_metrics := rs_metrics s,
     ms_fired := [], ms_committed := False\<rparr>"

definition at_once :: "'w RestEnv \<Rightarrow> McpEnv \<Rightarrow> McpEnv" where
  "at_once E M = M\<lparr>me_env := re_env E, me_hooks := re_hooks E\<rparr>"

definition change_in :: "ChangeIn \<Rightarrow> changeIn" where
  "change_in ci = \<lparr>mc_expectedRevision = ci_expectedRevision ci, mc_idempotencyKey = ci_idempotencyKey ci,
     mc_reason = ci_reason ci, mc_force = ci_force ci, mc_operations = ci_operations ci\<rparr>"

lemma toChange_change_in [simp]: "toChange (change_in ci) = ci"
  by (simp add: toChange_def change_in_def)

text \<open>The same application, listeners and tokens, and the same fate: an answer for an answer, the problem
  of an error for the error, a panic for a panic, a wait for a wait.\<close>

definition same_fate :: "string \<Rightarrow> handled \<Rightarrow> json outcome \<Rightarrow> bool" where
  "same_fate urn out res =
     (case res of
        Returns (Inl e) \<Rightarrow> out = problem urn (mcp_asDomain e)
      | Returns (Inr v) \<Rightarrow> (case out of Done rp \<Rightarrow> True | _ \<Rightarrow> False)
      | Panics \<Rightarrow> out = Crash
      | Blocks \<Rightarrow> out = Hang)"

definition same_effect :: "string \<Rightarrow> 'w RestServer_scheme \<times> handled \<Rightarrow> McpServer \<times> json outcome \<Rightarrow> bool" where
  "same_effect urn a b =
     (rs_app (fst a) = ms_app (fst b) \<and> rs_listen (fst a) = ms_listen (fst b) \<and> rs_auth (fst a) = ms_auth (fst b)
      \<and> same_fate urn (snd a) (snd b))"

lemma on_process_sel [simp]:
  "ms_app (on_process s m) = rs_app s" "ms_listen (on_process s m) = rs_listen s" "ms_auth (on_process s m) = rs_auth s"
  "ms_metrics (on_process s m) = rs_metrics s" "ms_fired (on_process s m) = []" "ms_committed (on_process s m) = False"
  by (simp_all add: on_process_def)

lemma mcp_asDomain_eq: "mcp_asDomain e = rest_asDomain e"
  by (simp add: mcp_asDomain_def rest_asDomain_def)

lemma same_fate_settle:
  assumes "\<And>x. \<exists>rp. f x = Done rp"
  shows "same_fate urn (settle urn out f) (as_tree g out)"
  using assms
  by (cases "(g, out)" rule: as_tree.cases)
    (auto simp: same_fate_def settle_def answer_def mcp_asDomain_eq split: handled.splits, (metis handled.distinct)+)

text \<open>Both servers reload the verifier alike.\<close>

lemma reloadAuth_same:
  assumes "rs_app s = ms_app m" "rs_auth s = ms_auth m"
  shows "rs_auth (after_change L s) = ms_auth (mcp_reloadAuth L m)" "rs_listen (after_change L s) = rs_listen s"
  using assms
  by (auto simp: after_change_def syncManagementLimits_def ApplyLimits_def reloadAuth_def mcp_reloadAuth_def active_canonical_def
      mcp_canonical_def Let_def split: option.splits sum.splits prod.splits)

lemma changed_same:
  assumes "rs_auth s = ms_auth m" "rs_listen s = ms_listen m" "en_libs (re_env E) = en_libs (me_env M)"
  shows "rs_auth (changed E s a es h) = ms_auth (mcp_changed M m a es h)"
    "rs_listen (changed E s a es h) = ms_listen (mcp_changed M m a es h)"
  using assms reloadAuth_same [of "count es (s\<lparr>rs_app := a\<rparr>)" "(mcp_count es (m\<lparr>ms_app := a\<rparr>))\<lparr>ms_committed := True\<rparr>"]
  by (simp_all add: changed_def mcp_changed_def Let_def count_def)

lemma preflight_same: "preflightAuth = mcp_preflightAuth"
  by (intro ext) (simp add: preflightAuth_def mcp_preflightAuth_def split: sum.splits option.splits)

lemma hooks_same: "app_hooks E = mcp_app_hooks (at_once E M)"
  by (simp add: app_hooks_def mcp_app_hooks_def at_once_def preflight_same)

lemma apply_same:
  "same_effect urn (with_apply E s urn out f) (after_apply (at_once E M) (on_process s m) out)"
proof -
  obtain a es o1 where o: "out = (a, es, o1)" by (cases out)
  have r: "ran o1 = (case o1 of Returns (Inr (res, True)) \<Rightarrow> True | _ \<Rightarrow> False)" by (simp add: ran_def)
  show ?thesis
    using changed_same [of s "on_process s m" E "at_once E M" a es "ran o1"] same_fate_settle [of _ urn o1]
    by (simp add: o with_apply_def after_apply_def same_effect_def at_once_def r case_prod_beta)
qed

section \<open>The operations\<close>

lemma at_once_env [simp]: "me_env (at_once E M) = re_env E"
  by (simp add: at_once_def)

lemma plan_same:
  "readChange (en_libs (re_env E)) (re_short E) (rs_maxBody s) r = Inr ci \<Longrightarrow>
   same_effect urn (handlePlan E s urn r) (run_tool (at_once E M) (on_process s m) actor (CallChangePlan (change_in ci)))"
  using same_fate_settle [of "\<lambda>p. ok_json (fromPlan p)" urn]
  by (simp add: handlePlan_def same_effect_def ok_json_def case_prod_beta)

lemma reset_same:
  assumes "decodeJSONOptional (en_libs (re_env E)) (re_short E) (rs_maxBody s) r reset_type [] as_reset = Inr reason"
  shows "same_effect urn (handleReset E s urn actor r) (run_tool (at_once E M) (on_process s m) actor (CallStateReset reason))"
proof -
  obtain a l es out where o: "app_Reset (re_env E) (app_hooks E) (rs_app s) (rs_listen s) actor reason = (a, l, es, out)"
    by (metis prod_cases4)
  define h where "h = (case out of Returns (Inr _) \<Rightarrow> True | _ \<Rightarrow> False)"
  show ?thesis
    using assms changed_same [of "s\<lparr>rs_listen := l\<rparr>" "(on_process s m)\<lparr>ms_listen := l\<rparr>" E "at_once E M" a es h]
      same_fate_settle [of "\<lambda>res. ok_json (fromApply res)" urn out]
    by (simp add: handleReset_def same_effect_def o hooks_same [of E M, symmetric] ok_json_def flip: h_def)
qed


section \<open>Where they differ\<close>

text \<open>The tool does not compare its name with that of the filter: the filter decides.\<close>

lemma put_name_ignored:
  assumes "fs_name f \<noteq> []" "name \<noteq> []"
  shows "run_tool E s actor (CallFiltersPut (i\<lparr>mp_name := name, mp_filter := Some f\<rparr>))
     = run_tool E s actor (CallFiltersPut (i\<lparr>mp_name := fs_name f, mp_filter := Some f\<rparr>))"
  using assms by (simp add: requireName_def mcp_filter_of_def)

text \<open>A candidate document on which the decoder panics takes the tool with it; the adapter does not
  recover in the goroutine of the tool.\<close>

lemma validate_panics:
  "run_tool E s actor (CallStateValidate \<lparr>mv_state = App_Invariants.panic_document, mv_operations = None\<rparr>) = (s, Panics)"
proof -
  have r: "reservedFields panic_tree [] = []" by code_simp
  have "applyDecodeDefaults panic_tree = None" by (simp add: panic_tree_def applyDecodeDefaults_def ntp_is_nil_def)
  then have "decodeRaw L panic_tree = None" for L by (simp add: decodeRaw_def r)
  then have d: "decodeJSON L App_Invariants.panic_document = None" for L by (simp add: decodeJSON_def panic_parses dec_more_def skip_ws_def)
  have "App_Invariants.panic_document \<noteq> []" "App_Invariants.panic_document \<noteq> ''null''" by (simp_all add: panic_text)
  then show ?thesis by (simp add: toValidate_def candidate_of_raw_def d)
qed

end
