(* ===== verification/Management.thy ===== *)
theory Management
  imports Mcp_Parity
begin

text \<open>
  The management port as \<^verbatim>\<open>cmd/labntp\<close> puts it together (serve.go): the REST server with the
  MCP adapter mounted at \<^verbatim>\<open>/mcp\<close>, over one application, one verifier and one registry.
  What is shared is in the fields of the REST server; the adapter gets it with each request and gives
  it back, and then the hooks of the REST server run for what the adapter did.
\<close>

section \<open>The port\<close>

record Port = RestServer +
  po_mcp :: McpServer

type_synonym PortEnv = "unit Port_ext RestEnv"

definition absorb :: "libs \<Rightarrow> Port \<Rightarrow> McpServer \<Rightarrow> Port" where
  "absorb L s m =
     (let s1 = s\<lparr>rs_app := ms_app m, rs_listen := ms_listen m, rs_auth := ms_auth m, rs_metrics := ms_metrics m,
                 rs_sessions := fold (\<lambda>_. Clear) (ms_fired m) (rs_sessions s), po_mcp := m\<rparr>
      in if ms_committed m then after_change L s1 else s1)"

definition mcp_mount :: "McpEnv \<Rightarrow> (HttpRequest \<Rightarrow> sdk_step) \<Rightarrow> int \<Rightarrow> Port \<Rightarrow> HttpRequest \<Rightarrow> Port \<times> handled" where
  "mcp_mount M sdk maxBody s r =
     (let (m, out) = mcp_serveHTTP M sdk (on_process s (po_mcp s)) r in (absorb (en_libs (me_env M)) s m, out))"

definition mounted :: "PortEnv \<Rightarrow> McpEnv \<Rightarrow> (HttpRequest \<Rightarrow> sdk_step) \<Rightarrow> PortEnv" where
  "mounted E M sdk = E\<lparr>re_mounts := [(''/mcp'', mcp_mount (at_once E M) sdk)]\<rparr>"


definition port_serve :: "PortEnv \<Rightarrow> McpEnv \<Rightarrow> (HttpRequest \<Rightarrow> sdk_step) \<Rightarrow> Port \<Rightarrow> HttpRequest \<Rightarrow> Port \<times> handled" where
  "port_serve E M sdk s r = serveHTTP (mounted E M sdk) s r"

section \<open>No change without authority\<close>

lemma absorb_app [simp]: "rs_app (absorb L s m) = ms_app m"
  by (simp add: absorb_def Let_def)

lemma port_mount:
  "mux_handler (mounted E M sdk) r = Some h \<Longrightarrow>
     h = mcp_mount (at_once E M) sdk \<or> (\<exists>rp. h = (\<lambda>_ s q. (s, Done (rp q))))"
  by (auto simp: mux_handler_def mounted_def Let_def split: if_splits)

lemma mounted_change:
  assumes "mux_handler (mounted E M sdk) r = Some h" "rs_app (fst (port_serve E M sdk s r)) \<noteq> rs_app s"
  shows "h = mcp_mount (at_once E M) sdk \<and>
     (\<exists>g l. rs_app (fst (h (rs_maxBody s) (s\<lparr>rs_gate := g, rs_rate := l\<rparr>) r)) \<noteq> rs_app s)"
proof -
  let ?E = "mounted E M sdk"
  obtain g where "rs_app (fst (snd (admitted ?E (s\<lparr>rs_gate := g\<rparr>) r (requestURNPrefix @ requestID ?E r)))) \<noteq> rs_app (s\<lparr>rs_gate := g\<rparr>)"
    using assms(2) unfolding port_serve_def
    by (auto simp: serveHTTP_def Let_def split: option.splits prod.splits bool.splits handled.splits if_splits) (metis fst_conv snd_conv)+
  then have "rs_app (fst (rated ?E (s\<lparr>rs_gate := g\<rparr>) r (requestURNPrefix @ requestID ?E r) (\<lambda>s1. h (rs_maxBody s1) s1 r)))
      \<noteq> rs_app (s\<lparr>rs_gate := g\<rparr>)"
    by (simp add: admitted_def assms(1))
  from rated_app [OF this] have ch: "\<exists>g l. rs_app (fst (h (rs_maxBody s) (s\<lparr>rs_gate := g, rs_rate := l\<rparr>) r)) \<noteq> rs_app s" by auto
  then show ?thesis using port_mount [OF assms(1)] by auto
qed

lemma vouched_env: "vouched (mounted E M sdk) = vouched E"
  by (intro ext) (simp add: vouched_def by_session_def mounted_def)

lemma authorised_mounted [simp]: "authorised_change (mounted E M sdk) s r = authorised_change E s r"
  by (simp add: authorised_change_def vouched_env)

lemma on_process_limits [simp]: "on_process (s\<lparr>rs_gate := g, rs_rate := l\<rparr>) m = on_process s m"
  by (simp add: on_process_def)

lemma port_change:
  assumes "rs_routes s = compileRoutes catalog" "newIndexes = Some (me_indexes M)"
    and "rs_app (fst (port_serve E M sdk s r)) \<noteq> rs_app s"
  shows "(if mux_handler (mounted E M sdk) r = None then authorised_change E s r
     else clean_path (hr_path r) = ''/mcp'' \<and> mcp_authorised_change (on_process s (po_mcp s)) r)"
proof (cases "mux_handler (mounted E M sdk) r")
  case None
  then show ?thesis using serveHTTP_change [OF None assms(1)] assms(3) by (simp add: port_serve_def)
next
  case (Some h)
  obtain g l where h: "h = mcp_mount (at_once E M) sdk"
    and "rs_app (fst (h (rs_maxBody s) (s\<lparr>rs_gate := g, rs_rate := l\<rparr>) r)) \<noteq> rs_app s"
    using mounted_change [OF Some assms(3)] by blast
  then have "ms_app (fst (mcp_serveHTTP (at_once E M) sdk (on_process s (po_mcp s)) r)) \<noteq> ms_app (on_process s (po_mcp s))"
    by (simp add: mcp_mount_def case_prod_beta)
  then have a: "mcp_authorised_change (on_process s (po_mcp s)) r"
    using mcp_serveHTTP_change [of "at_once E M"] assms(2) by (simp add: at_once_def)
  then have "hr_method r = ''POST''" by (simp add: mcp_authorised_change_def)
  then show ?thesis using Some a by (auto simp: mux_handler_def mounted_def Let_def split: if_splits)
qed

text \<open>Over the whole management port nothing changes the application without authority. A request off
  \<^verbatim>\<open>/mcp\<close> needs what the REST server asks for (a caller with a scope to write, and the CSRF secret
  where a session cookie alone speaks for it); a request on \<^verbatim>\<open>/mcp\<close>, under whatever spelling
  of the path, needs what the adapter asks for, by the tokens of the same verifier.\<close>

theorem port_change_needs_authority:
  "let s0 = s\<lparr>rs_routes := compileRoutes catalog\<rparr> in
   case newIndexes of
     None \<Rightarrow> False
   | Some idx \<Rightarrow>
       rs_app (fst (port_serve E (M\<lparr>me_indexes := idx\<rparr>) sdk s0 r)) = rs_app s0
       \<or> authorised_change E s0 r
       \<or> (clean_path (hr_path r) = ''/mcp'' \<and> mcp_authorised_change (on_process s0 (po_mcp s0)) r)"
proof -
  obtain idx where idx: "newIndexes = Some idx" using newIndexes_ex by blast
  show ?thesis
    using port_change [of "s\<lparr>rs_routes := compileRoutes catalog\<rparr>" "M\<lparr>me_indexes := idx\<rparr>" E sdk r]
    by (auto simp: Let_def idx split: if_splits)
qed

section \<open>A reset over MCP\<close>

lemma reset_committed:
  assumes "app_Reset (me_env M) (mcp_app_hooks M) (ms_app m) (ms_listen m) actor reason = (a, l, es, Returns (Inr res))"
  shows "fst (run_tool M m actor (CallStateReset reason))
     = mcp_reloadAuth (en_libs (me_env M)) ((mcp_count es (m\<lparr>ms_listen := l, ms_app := a\<rparr>))\<lparr>ms_committed := True\<rparr>)"
  using assms by (simp add: mcp_changed_def Let_def)

text \<open>The adapter reloads the verifier first; the REST server then finds nothing more to change in it.\<close>

lemma Equivalent_again:
  assumes "Equivalent w next"
  shows "Equivalent (w\<lparr>vf_mode := vf_mode next, vf_tokens := vf_tokens next\<rparr>) next"
proof -
  have "token_matches (vf_tokens next) t" if t: "t \<in> set (vf_tokens next)" for t
  proof -
    obtain u where u: "byID (vf_tokens next) (sk_id t) = Some u" "u \<in> set (vf_tokens next)" "sk_id u = sk_id t"
    proof (cases "byID (vf_tokens next) (sk_id t)")
      case None
      with t show ?thesis by (auto simp: byID_def map_of_eq_None_iff image_iff)
    next
      case (Some u)
      then have "(sk_id t, u) \<in> set (map (\<lambda>t. (sk_id t, t)) (vf_tokens next))" using map_of_SomeD by (fastforce simp: byID_def)
      with Some show ?thesis by (intro that [of u]) auto
    qed
    have "token_matches (vf_tokens w) t" "token_matches (vf_tokens w) u"
      using assms t u(2) by (simp_all add: Equivalent_def list_all_iff)
    then show ?thesis
      using u(1,3) by (auto simp: token_matches_def EqualDigest_iff sameScopes_def split: option.splits)
  qed
  then show ?thesis by (simp add: Equivalent_def list_all_iff)
qed

lemma absorb_reloaded:
  assumes w: "rs_auth s = Some (OnIdentityChange w ())"
    and m: "m = mcp_reloadAuth L ((mcp_count es ((on_process s m0)\<lparr>ms_listen := l, ms_app := a\<rparr>))\<lparr>ms_committed := True\<rparr>)"
    and st: "Load (a_snaps a) = Some n" "sn_canonical n = Some st"
    and v: "FromSpec L (sp_auth (st_spec st)) = Inr (next :: unit Verifier)" "RequireListen (Some next) = None"
  shows "reloaded L s (absorb L s m)"
proof -
  let ?w = "OnIdentityChange w ()"
  define s1 where "s1 = s\<lparr>rs_app := ms_app m, rs_listen := ms_listen m, rs_auth := ms_auth m, rs_metrics := ms_metrics m,
                 rs_sessions := fold (\<lambda>_. Clear) (ms_fired m) (rs_sessions s), po_mcp := m\<rparr>"
  have m': "ms_app m = a" "ms_committed m" "ms_auth m = Some (fst (Replace ?w next))" "ms_fired m = snd (Replace ?w next)"
    using w st v by (simp_all add: m mcp_reloadAuth_def mcp_canonical_def mcp_count_def Let_def case_prod_beta)
  then have ab: "absorb L s m = after_change L s1" by (simp add: absorb_def s1_def Let_def)
  have c: "active_canonical s1 = Some st" by (simp add: s1_def m' active_canonical_def st)
  then have cc: "active_canonical (after_change L s1) = Some st" by (simp add: active_canonical_def)
  have r: "reloaded L s1 (after_change L s1)" by (rule after_change_reloaded [OF c v]) simp_all
  have a1: "rs_auth s1 = Some (fst (Replace ?w next))" and l1: "rs_rate s1 = rs_rate s" by (simp_all add: s1_def m')
  have "ss_sessions (rs_sessions s1) = (if snd (Replace ?w next) = [] then ss_sessions (rs_sessions s) else [])"
    by (simp add: s1_def m' fold_Clear)
  moreover have "snd (Replace ?w next) = [] \<longleftrightarrow> Equivalent ?w next" by (simp add: Replace_def OnIdentityChange_def)
  ultimately have se: "ss_sessions (rs_sessions s1) = (if Equivalent ?w next then ss_sessions (rs_sessions s) else [])" by simp
  have eq: "Equivalent (fst (Replace ?w next)) next" if "Equivalent ?w next"
    using that Equivalent_again by (simp add: Replace_def)
  have up: "(fst (Replace ?w next))\<lparr>vf_mode := vf_mode next, vf_tokens := vf_tokens next\<rparr>
      = ?w\<lparr>vf_mode := vf_mode next, vf_tokens := vf_tokens next\<rparr>" by (simp add: Replace_def)
  show ?thesis
    using r eq by (simp add: ab reloaded_def cc v w a1 l1 se up Let_def split: if_splits)
qed

lemma absorb_reloaded_open:
  assumes "rs_auth s = None"
    and m: "m = mcp_reloadAuth L ((mcp_count es ((on_process s m0)\<lparr>ms_listen := l, ms_app := a\<rparr>))\<lparr>ms_committed := True\<rparr>)"
    and st: "Load (a_snaps a) = Some n" "sn_canonical n = Some st"
    and v: "FromSpec L (sp_auth (st_spec st)) = Inr (next :: unit Verifier)" "RequireListen (Some next) = None"
  shows "reloaded L s (absorb L s m)"
proof -
  define s1 where "s1 = s\<lparr>rs_app := ms_app m, rs_listen := ms_listen m, rs_auth := ms_auth m, rs_metrics := ms_metrics m,
                 rs_sessions := fold (\<lambda>_. Clear) (ms_fired m) (rs_sessions s), po_mcp := m\<rparr>"
  have m': "ms_app m = a" "ms_committed m" "ms_auth m = None" "ms_fired m = []"
    using assms(1) by (simp_all add: m mcp_reloadAuth_def mcp_count_def)
  have c: "active_canonical s1 = Some st" by (simp add: s1_def m' active_canonical_def st)
  have "reloaded L s (after_change L s1)"
    by (rule after_change_reloaded [OF c v]) (simp_all add: s1_def m' assms(1))
  then show ?thesis using m' by (simp add: absorb_def s1_def Let_def)
qed

text \<open>C26: a reset through the tool does to the whole port what a reset over REST does: the tokens become those
  of the new document, its limits are in force, and the browser sessions end with the tokens they came
  from, for the verifier tells the REST server, which registered for that.\<close>

theorem mcp_reset_reloads:
  "let s = s0\<lparr>rs_auth := map_option (\<lambda>v. OnIdentityChange v ()) (rs_auth s0)\<rparr>; N = at_once E M; m = on_process s (po_mcp s) in
   case snd (snd (snd (app_Reset (re_env E) (mcp_app_hooks N) (rs_app s) (rs_listen s) actor reason))) of
     Returns (Inr res) \<Rightarrow> reloaded (en_libs (re_env E)) s (absorb (en_libs (re_env E)) s (fst (run_tool N m actor (CallStateReset reason))))
   | _ \<Rightarrow> rs_auth (absorb (en_libs (re_env E)) s (fst (run_tool N m actor (CallStateReset reason)))) = rs_auth s
       \<and> rs_sessions (absorb (en_libs (re_env E)) s (fst (run_tool N m actor (CallStateReset reason)))) = rs_sessions s"
proof -
  define s where "s = s0\<lparr>rs_auth := map_option (\<lambda>v. OnIdentityChange v ()) (rs_auth s0)\<rparr>"
  define N where "N = at_once E M"
  let ?L = "en_libs (re_env E)" and ?m = "on_process s (po_mcp s)"
  have env: "me_env N = re_env E" by (simp add: N_def)
  obtain a l es out where o: "app_Reset (re_env E) (mcp_app_hooks N) (rs_app s) (rs_listen s) actor reason = (a, l, es, out)"
    by (metis prod_cases4)
  show ?thesis
  proof (cases "\<exists>res. out = Returns (Inr res)")
    case False
    then have n: "(case out of Returns (Inr _) \<Rightarrow> True | _ \<Rightarrow> False) = False" by (auto split: outcome.splits sum.splits)
    have "fst (run_tool N ?m actor (CallStateReset reason)) = mcp_count es (?m\<lparr>ms_listen := l, ms_app := a\<rparr>)"
      by (simp add: env o n mcp_changed_def)
    then have "rs_auth (absorb ?L s (fst (run_tool N ?m actor (CallStateReset reason)))) = rs_auth s
       \<and> rs_sessions (absorb ?L s (fst (run_tool N ?m actor (CallStateReset reason)))) = rs_sessions s"
      by (simp add: absorb_def mcp_count_def on_process_def)
    then show ?thesis using False o by (auto simp: Let_def simp flip: s_def N_def split: outcome.splits sum.splits)
  next
    case True
    then obtain res where res: "out = Returns (Inr res)" by blast
    have "resetLocked (re_env E) (mcp_app_hooks N) (rs_app s) (rs_listen s) actor reason = Some (a, l, es, Inr res)"
      using o res by (auto simp: app_Reset_def split: option.splits if_splits)
    from resetLocked_preflight [OF this] obtain n st where st: "Load (a_snaps a) = Some n" "sn_canonical n = Some st"
      "preflight (hk_preflight (mcp_app_hooks N)) (sp_auth (st_spec st)) = None" by blast
    obtain v where v: "FromSpec ?L (sp_auth (st_spec st)) = Inr (v :: unit Verifier)" "RequireListen (Some v) = None"
      using preflightAuth_None [OF app_hooks_preflight [of E]] st(3) by (auto simp: hooks_same [of E M] N_def)
    let ?m1 = "fst (run_tool N ?m actor (CallStateReset reason))"
    have m1: "?m1 = mcp_reloadAuth ?L ((mcp_count es (?m\<lparr>ms_listen := l, ms_app := a\<rparr>))\<lparr>ms_committed := True\<rparr>)"
      using reset_committed [of N ?m actor reason a l es res] o res by (simp add: env)
    have "reloaded ?L s (absorb ?L s ?m1)"
    proof (cases "rs_auth s0")
      case None
      then show ?thesis by (intro absorb_reloaded_open [OF _ m1 st(1,2) v]) (simp add: s_def)
    next
      case (Some w)
      then show ?thesis by (intro absorb_reloaded [OF _ m1 st(1,2) v]) (simp add: s_def)
    qed
    then show ?thesis using o res by (simp add: Let_def flip: s_def N_def)
  qed
qed

end
