(* ===== verification/Cli.thy ===== *)
theory Cli
  imports Web Management NtpServerLife Rest_Life
begin

text \<open>
  The process of \<^verbatim>\<open>cmd/labntp\<close>: the parsing of flags, the commands that check and print a
  document (cli.go), the probe and the SNTP client (healthcheck.go, query.go), the start of the stdio
  adapter (mcpstdio.go) and of the server (serve.go), and the choice between them (main.go). What the
  network, the file system outside of the libraries and the clock answer are arguments; what a command
  prints is the list of its lines.
\<close>

section \<open>Runs\<close>

text \<open>A command ends with a code, having closed some sockets, or the decoder panics, or it goes on as something.\<close>

datatype 'p run = Exits int "nat list" | Panicking | Runs 'p

datatype line = Out string | Err string

type_synonym 'p cmd = "'p run \<times> line list"

definition after_run :: "'a cmd \<Rightarrow> ('a \<Rightarrow> 'b cmd) \<Rightarrow> 'b cmd" where
  "after_run c f =
     (case c of
        (Runs x, ls) \<Rightarrow> (fst (f x), ls @ snd (f x))
      | (Exits k cs, ls) \<Rightarrow> (Exits k cs, ls)
      | (Panicking, ls) \<Rightarrow> (Panicking, ls))"

definition fails :: "string \<Rightarrow> string \<Rightarrow> 'p cmd" where
  "fails name msg = (Exits 1 [], [Err (''labntp '' @ name @ '': '' @ msg)])"

record CliEnv =
  ce_env :: Env
  ce_build :: build_vars
  ce_usage :: "string list \<Rightarrow> string"
  ce_get :: "string \<Rightarrow> string + int"

section \<open>Flags\<close>

text \<open>
  \<^verbatim>\<open>flag.FlagSet.Parse\<close> for the two kinds of flags that occur, which both take a value. The
  values in the order they were given, or None for its error, which the package has printed. It stops at
  the first argument that is not a flag, and the rest is ignored.
\<close>

datatype flag_kind = TextFlag | DurationFlag

definition flag_ok :: "flag_kind \<Rightarrow> string \<Rightarrow> bool" where
  "flag_ok k v = (k = TextFlag \<or> parse_duration v \<noteq> None)"

fun parse_flags :: "(string \<times> flag_kind) list \<Rightarrow> string list \<Rightarrow> (string \<times> string) list option" where
  "parse_flags fs [] = Some []"
| "parse_flags fs (s # args) =
     (if length s < 2 \<or> hd s \<noteq> CHR ''-'' \<or> s = ''--'' then Some []
      else let name = (if s ! 1 = CHR ''-'' then drop 2 s else drop 1 s) in
        if name = [] \<or> hd name = CHR ''-'' \<or> hd name = CHR ''='' then None
        else let (key, given) = (case cut_at CHR ''='' name of None \<Rightarrow> (name, None) | Some (k, v) \<Rightarrow> (k, Some v)) in
          case map_of fs key of
            None \<Rightarrow> None
          | Some kind \<Rightarrow>
              (case given of
                 Some v \<Rightarrow> if flag_ok kind v then map_option (Cons (key, v)) (parse_flags fs args) else None
               | None \<Rightarrow>
                   (case args of
                      [] \<Rightarrow> None
                    | v # rest \<Rightarrow> if flag_ok kind v then map_option (Cons (key, v)) (parse_flags fs rest) else None)))"

text \<open>The last value given counts.\<close>

definition flag_value :: "(string \<times> string) list \<Rightarrow> string \<Rightarrow> string \<Rightarrow> string" where
  "flag_value seen key def = (case map_of (rev seen) key of None \<Rightarrow> def | Some v \<Rightarrow> v)"

definition flags_cmd :: "CliEnv \<Rightarrow> (string \<times> flag_kind) list \<Rightarrow> string list \<Rightarrow> (string \<times> string) list cmd" where
  "flags_cmd E fs args =
     (case parse_flags fs args of
        None \<Rightarrow> (Exits 2 [], [Err (ce_usage E args)])
      | Some seen \<Rightarrow> (Runs seen, []))"

definition required :: "string \<Rightarrow> string \<Rightarrow> string \<Rightarrow> unit cmd" where
  "required name flag v =
     (if v = [] then (Exits 2 [], [Err (''labntp '' @ name @ '': --'' @ flag @ '' is required'')]) else (Runs (), []))"

section \<open>cli.go\<close>

definition requireConfigFlag :: "CliEnv \<Rightarrow> string list \<Rightarrow> string \<Rightarrow> string cmd" where
  "requireConfigFlag E args name =
     after_run (flags_cmd E [(''config'', TextFlag)] args) (\<lambda>seen.
       let path = flag_value seen ''config'' [] in
       after_run (required name ''config'' path) (\<lambda>_. (Runs path, [])))"

definition warning_line :: "Warning \<Rightarrow> line" where
  "warning_line w = Err (''warning '' @ w_path w @ '': '' @ w_message w)"

text \<open>A document with its warnings, as \<^verbatim>\<open>validate\<close> and \<^verbatim>\<open>serve\<close> load it.\<close>

definition load_warned :: "CliEnv \<Rightarrow> string \<Rightarrow> string \<Rightarrow> State option cmd" where
  "load_warned E name path =
     (case LoadFileWithWarnings (en_libs (ce_env E)) path of
        Inl e \<Rightarrow> fails name e
      | Inr None \<Rightarrow> (Panicking, [])
      | Inr (Some (st, warns, Some e)) \<Rightarrow> fails name (err_string e)
      | Inr (Some (st, warns, None)) \<Rightarrow> (Runs st, map warning_line warns))"

definition validateCmd :: "CliEnv \<Rightarrow> string list \<Rightarrow> unit cmd" where
  "validateCmd E args =
     after_run (requireConfigFlag E args ''validate'') (\<lambda>path.
     after_run (load_warned E ''validate'' path) (\<lambda>st.
       case Revision (en_libs (ce_env E)) st of
         Inl e \<Rightarrow> fails ''validate'' (err_string e)
       | Inr r \<Rightarrow> (Exits 0 [], [Out (''ok revision='' @ r)])))"

text \<open>A line of output is ended once, also when the text ends in a newline.\<close>

definition canonicalizeCmd :: "CliEnv \<Rightarrow> string list \<Rightarrow> unit cmd" where
  "canonicalizeCmd E args =
     (let L = en_libs (ce_env E) in
      after_run (flags_cmd E [(''config'', TextFlag), (''format'', TextFlag)] args) (\<lambda>seen.
        let path = flag_value seen ''config'' []; format = to_lower (flag_value seen ''format'' ''yaml'') in
        after_run (required ''canonicalize'' ''config'' path) (\<lambda>_.
          case LoadFile L path of
            Inl e \<Rightarrow> fails ''canonicalize'' e
          | Inr None \<Rightarrow> (Panicking, [])
          | Inr (Some (st, Some e)) \<Rightarrow> fails ''canonicalize'' (err_string e)
          | Inr (Some (st, None)) \<Rightarrow>
              (if format \<notin> {''json'', ''yaml'', ''yml'', []}
               then (Exits 2 [], [Err ''labntp canonicalize: --format must be yaml or json''])
               else case (if format = ''json'' then CanonicalJSON L st else CanonicalYAML L st) of
                 Inl e \<Rightarrow> fails ''canonicalize'' (err_string e)
               | Inr body \<Rightarrow>
                   (Exits 0 [], [Out (if body \<noteq> [] \<and> List.last body = CHR 0x0A then butlast body else body)])))))"

section \<open>healthcheck.go\<close>

definition healthcheckCmd :: "CliEnv \<Rightarrow> string list \<Rightarrow> unit cmd" where
  "healthcheckCmd E args =
     after_run (flags_cmd E [(''url'', TextFlag)] args) (\<lambda>seen.
       case ce_get E (flag_value seen ''url'' ''http://127.0.0.1:8088/v1/health/ready'') of
         Inl e \<Rightarrow> fails ''healthcheck'' e
       | Inr status \<Rightarrow>
           if status \<noteq> 200 then fails ''healthcheck'' (''status '' @ int_str status) else (Exits 0 [], [Out ''ok'']))"

section \<open>query.go\<close>

text \<open>What the network answers: the errors of dialling and writing, and what a read returns.\<close>

record QueryNet =
  qn_dial :: "string option"
  qn_host :: gotime
  qn_write :: "string option"
  qn_read :: "string + bytes"

text \<open>The values of the line that is printed.\<close>

record QueryReport =
  qr_hostTime :: gotime
  qr_originate :: gotime
  qr_receive :: gotime
  qr_transmit :: gotime
  qr_vn :: byte
  qr_stratum :: byte
  qr_li :: byte
  qr_refid :: bytes

definition query_packet :: "gotime \<Rightarrow> Packet" where
  "query_packet host =
     \<lparr>LI = 0, VN = 4, Mode = ModeClient, Stratum = 0, Poll = 0, Precision = 0, RootDelay = 0, RootDisp = 0,
      RefID = (0, 0, 0, 0), RefTime = zero_ts, OrgTime = zero_ts, RecTime = zero_ts, XmtTime = FromTime host\<rparr>"

definition refidString :: "refid \<Rightarrow> bytes" where
  "refidString r = rev (dropWhile (\<lambda>b. b = 0) (rev (refid_bytes r)))"

definition query_report :: "gotime \<Rightarrow> Packet \<Rightarrow> QueryReport" where
  "query_report host p =
     \<lparr>qr_hostTime = t_utc host, qr_originate = ts_time (OrgTime p) (Era host), qr_receive = ts_time (RecTime p) (Era host),
      qr_transmit = ts_time (XmtTime p) (Era host), qr_vn = VN p, qr_stratum = Stratum p, qr_li = LI p,
      qr_refid = refidString (RefID p)\<rparr>"

definition wire_text :: "wire_error \<Rightarrow> string" where
  "wire_text e =
     (case e of
        ShortPacket n \<Rightarrow> ''ntpwire: short packet ('' @ nat_str n @ '')''
      | UnknownAlgorithm a \<Rightarrow> ''ntpwire: unknown MAC algorithm '' @ quote a
      | HeaderShort \<Rightarrow> ''ntpwire: MAC header short'')"

definition queryCmd :: "CliEnv \<Rightarrow> QueryNet \<Rightarrow> string list \<Rightarrow> QueryReport cmd" where
  "queryCmd E n args =
     after_run (flags_cmd E [(''server'', TextFlag), (''timeout'', DurationFlag)] args) (\<lambda>seen.
     after_run (required ''query'' ''server'' (flag_value seen ''server'' [])) (\<lambda>_.
       case qn_dial n of
         Some e \<Rightarrow> fails ''query'' e
       | None \<Rightarrow>
           (case qn_write n of
              Some e \<Rightarrow> fails ''query'' (''write: '' @ e)
            | None \<Rightarrow>
                (case qn_read n of
                   Inl e \<Rightarrow> fails ''query'' (''read: '' @ e)
                 | Inr datagram \<Rightarrow>
                     (case Parse (take MaxUDPSize datagram) of
                        Inl e \<Rightarrow> fails ''query'' (''parse: '' @ wire_text e)
                      | Inr p \<Rightarrow> (Runs (query_report (qn_host n) p), []))))))"

end
