(* ===== verification/Process.thy ===== *)
theory Process
  imports Cli
begin

text \<open>
  The two commands that stay up: \<^verbatim>\<open>serve\<close> (serve.go), with the NTP server and, unless it is
  off, the management port; and \<^verbatim>\<open>mcp-stdio\<close> (mcpstdio.go); and the choice of a command
  (main.go). Starting is a function of the flags and of what the operating system answers; a listener that
  comes up later is a step of its own.
\<close>

section \<open>serve: flags\<close>

record serveFlags =
  sf_Config :: string
  sf_NTPListen :: string
  sf_ManagementListen :: string
  sf_ShutdownTimeout :: duration
  sf_PIDFile :: string

definition DefaultShutdownWait :: duration where "DefaultShutdownWait = 5 * second"

definition parseServeFlags :: "CliEnv \<Rightarrow> string list \<Rightarrow> serveFlags cmd" where
  "parseServeFlags E args =
     after_run (flags_cmd E [(''config'', TextFlag), (''ntp-listen'', TextFlag), (''management-listen'', TextFlag),
         (''shutdown-timeout'', DurationFlag), (''pid-file'', TextFlag)] args) (\<lambda>seen.
     after_run (required ''serve'' ''config'' (flag_value seen ''config'' [])) (\<lambda>_.
       (Runs \<lparr>sf_Config = flag_value seen ''config'' [], sf_NTPListen = flag_value seen ''ntp-listen'' [],
          sf_ManagementListen = flag_value seen ''management-listen'' ''off'',
          sf_ShutdownTimeout = (case map_of (rev seen) ''shutdown-timeout'' of
             None \<Rightarrow> DefaultShutdownWait
           | Some v \<Rightarrow> (case parse_duration v of None \<Rightarrow> DefaultShutdownWait | Some d \<Rightarrow> d)),
          sf_PIDFile = flag_value seen ''pid-file'' []\<rparr>, [])))"

section \<open>serve: the start\<close>

text \<open>The management plane, or none; its application and registry are fields of the port when there is one.\<close>

datatype plane = NoManagement App Registry | Managed Port Life

record Process =
  ps_ntp :: Server
  ps_plane :: plane

fun plane_app :: "plane \<Rightarrow> App" where
  "plane_app (NoManagement a m) = a"
| "plane_app (Managed p l) = rs_app p"

text \<open>What the operating system answers to a start: a new UDP socket with its address, or none.\<close>

type_synonym udp_answer = "(nat \<times> string) option"

definition serve_snapshot :: "CliEnv \<Rightarrow> string \<Rightarrow> Snapshot cmd" where
  "serve_snapshot E path =
     after_run (load_warned E ''serve'' path) (\<lambda>st.
       case Compile (en_libs (ce_env E)) st
              \<lparr>co_now = en_clock (ce_env E), co_bootstrapRevision = [], co_generation = 0, co_previous = None\<rparr> of
         Inl e \<Rightarrow> fails ''serve'' (error_text e)
       | Inr snap \<Rightarrow> (Runs snap, []))"

definition serve_app :: "serveFlags \<Rightarrow> Snapshot \<Rightarrow> App" where
  "serve_app flags snap =
     app_New \<lparr>o_snapshots = fst (InstallBootstrap Snapshot.NewStore (Some snap)), o_bootstrapPath = sf_Config flags,
       o_idempotencyMax = 0, o_auditMax = 0, o_auditor = None, o_queryLog = Some (QueryLog.New (sn_queryLogSize snap)),
       o_ntpListenOverride = sf_NTPListen flags, o_mgmtListenOverride = sf_ManagementListen flags\<rparr>"

definition serve_address :: "serveFlags \<Rightarrow> Snapshot \<Rightarrow> string" where
  "serve_address flags snap = (if sf_NTPListen flags \<noteq> [] then sf_NTPListen flags else sn_ntpAddress snap)"

definition serve_ntp :: "serveFlags \<Rightarrow> Snapshot \<Rightarrow> udp_answer \<Rightarrow> Server cmd" where
  "serve_ntp flags snap udp =
     (case server_New (serve_address flags snap) 0 0 (Some (QueryLog.New (sn_queryLogSize snap))) of
        Inl e \<Rightarrow> fails ''serve'' e
      | Inr ntp \<Rightarrow>
          (case NtpServerLife.Start ntp (map_option fst udp) of
             (_, Some e) \<Rightarrow> fails ''serve'' e
           | (ntp', None) \<Rightarrow> (Runs ntp', [Out (''labntp ntp listen='' @ (case udp of None \<Rightarrow> [] | Some (_, a) \<Rightarrow> a))])))"

text \<open>A start that fails after the NTP server came up shuts it down.\<close>

definition gives_up :: "Server \<Rightarrow> string \<Rightarrow> 'p cmd" where
  "gives_up ntp msg = (Exits 1 (snd (NtpServerLife.Shutdown ntp)), [Err (''labntp serve: '' @ msg)])"

definition mcp_config :: "App \<Rightarrow> Registry \<Rightarrow> State \<Rightarrow> unit Verifier \<Rightarrow> McpConfig" where
  "mcp_config svc metrics st v =
     (let m = sp_management (st_spec st) in
      \<lparr>mo_Service = Some svc, mo_AllowedOrigins = elems (mg_allowedOrigins m), mo_AllowLegacyClients = mg_allowLegacyClients m,
       mo_RatePerSec = f_of_int (mg_requestsPerSecond m), mo_RateBurst = f_of_int (mg_burst m),
       mo_MaxBodyBytes = mg_bodyLimit m, mo_MaxConcurrent = mg_maxConcurrent m, mo_Auth = Some v,
       mo_FixedActor = None, mo_StdioSecret = [], mo_Metrics = Some metrics\<rparr>)"

definition rest_config :: "App \<Rightarrow> Registry \<Rightarrow> State \<Rightarrow> unit Verifier \<Rightarrow> RestConfig" where
  "rest_config svc metrics st v =
     (let m = sp_management (st_spec st) in
      \<lparr>rc_Service = Some svc, rc_AllowedOrigins = elems (mg_allowedOrigins m), rc_MaxBodyBytes = mg_bodyLimit m,
       rc_MaxConcurrent = mg_maxConcurrent m, rc_RatePerSec = f_of_int (mg_requestsPerSecond m),
       rc_RateBurst = f_of_int (mg_burst m), rc_PublicMetrics = ob_publicPath (sp_observability (st_spec st)),
       rc_Metrics = Some metrics, rc_Auth = Some v, rc_Sessions = None, rc_CookieSecure = False\<rparr>)"

definition serve_management ::
  "CliEnv \<Rightarrow> serveFlags \<Rightarrow> State \<Rightarrow> App \<Rightarrow> Registry \<Rightarrow> Listening \<Rightarrow> Server \<Rightarrow> plane cmd" where
  "serve_management E flags st svc metrics l ntp =
     (case FromSpec (en_libs (ce_env E)) (sp_auth (st_spec st)) of
        Inl e \<Rightarrow> gives_up ntp (''auth: '' @ err_string e)
      | Inr v \<Rightarrow>
          (case RequireListen (Some v) of
             Some msg \<Rightarrow> gives_up ntp msg
           | None \<Rightarrow>
               (case NewMcp (mcp_config svc metrics st v) l of
                  Inl e \<Rightarrow> gives_up ntp (''mcp: '' @ e)
                | Inr m \<Rightarrow>
                    (case Rest.New (rest_config svc metrics st v) l of
                       Inl e \<Rightarrow> gives_up ntp (''rest: '' @ e)
                     | Inr r \<Rightarrow> (Runs (Managed (RestServer.extend r (Port.fields m)) (new_life (sf_ManagementListen flags))),
                         [Out (''labntp management listen='' @ sf_ManagementListen flags)])))))"

text \<open>The metrics listener and the pid file are tried; that they fail is only printed.\<close>

definition serve_extras :: "serveFlags \<Rightarrow> State \<Rightarrow> string option \<Rightarrow> string option \<Rightarrow> line list" where
  "serve_extras flags st metrics_err pid_err =
     (case (if trim_space (ob_metricsListen (sp_observability (st_spec st))) \<noteq> [] then metrics_err else None) of
        None \<Rightarrow> [] | Some e \<Rightarrow> [Err (''labntp metrics: '' @ e)])
     @ (case (if sf_PIDFile flags \<noteq> [] then pid_err else None) of
          None \<Rightarrow> [] | Some e \<Rightarrow> [Err (''labntp serve: pid-file: '' @ e)])"

definition listening_at :: "serveFlags \<Rightarrow> Snapshot \<Rightarrow> Listening" where
  "listening_at flags snap = \<lparr>li_ntp = serve_address flags snap,
     li_mgmt = (if managementOff (sf_ManagementListen flags) then [] else sf_ManagementListen flags)\<rparr>"

definition serve_start :: "CliEnv \<Rightarrow> udp_answer \<Rightarrow> string option \<Rightarrow> string option \<Rightarrow> serveFlags \<Rightarrow> Process cmd" where
  "serve_start E udp metrics_err pid_err flags =
     after_run (serve_snapshot E (sf_Config flags)) (\<lambda>snap.
       let svc = serve_app flags snap; metrics = NewRegistry in
       after_run (serve_ntp flags snap udp) (\<lambda>ntp.
         case sn_canonical snap of
           None \<Rightarrow> (Panicking, [])
         | Some st \<Rightarrow>
             after_run
               (if managementOff (sf_ManagementListen flags)
                then (Runs (NoManagement svc metrics), [Out ''labntp management: not bound''])
                else serve_management E flags st svc metrics (listening_at flags snap) ntp)
               (\<lambda>pl. (Runs \<lparr>ps_ntp = ntp, ps_plane = pl\<rparr>, serve_extras flags st metrics_err pid_err))))"

definition serveCmd :: "CliEnv \<Rightarrow> udp_answer \<Rightarrow> string option \<Rightarrow> string option \<Rightarrow> string list \<Rightarrow> (serveFlags \<times> Process) cmd" where
  "serveCmd E udp metrics_err pid_err args =
     after_run (parseServeFlags E args) (\<lambda>flags.
     after_run (serve_start E udp metrics_err pid_err flags) (\<lambda>p. (Runs (flags, p), [])))"

section \<open>serve: up, and down again\<close>

text \<open>The management listener comes up in the background; its failure is printed and the process goes on.\<close>

definition management_up :: "Process \<Rightarrow> string + (nat \<times> listener) \<Rightarrow> Process \<times> line list" where
  "management_up p listened =
     (case ps_plane p of
        NoManagement a m \<Rightarrow> (p, [])
      | Managed port life \<Rightarrow>
          (case listened of
             Inl e \<Rightarrow> (p, [Err (''labntp management: '' @ e)])
           | Inr (hs, lsn) \<Rightarrow>
               (case Rest_Life.Serve life hs lsn of
                  (life', AlreadyStarted) \<Rightarrow> (p, [Err ''labntp management: rest: server already started''])
                | (life', _) \<Rightarrow> (p\<lparr>ps_plane := Managed port life'\<rparr>, []))))"

definition process_facts :: "Process \<Rightarrow> Facts" where
  "process_facts p =
     \<lparr>fa_processDown = False, fa_ntpBound = NtpServerLife.Bound (ps_ntp p),
      fa_snapshotUp = (Load (a_snaps (plane_app (ps_plane p))) \<noteq> None),
      fa_mgmtBound = (case ps_plane p of NoManagement a m \<Rightarrow> False | Managed port life \<Rightarrow> Rest_Life.Bound life),
      fa_mgmtOff = (case ps_plane p of NoManagement a m \<Rightarrow> True | Managed port life \<Rightarrow> False)\<rparr>"

text \<open>The callbacks a request to the management port meets.\<close>

definition process_env :: "WebEnv \<Rightarrow> file_tree \<Rightarrow> Process \<Rightarrow> PortEnv \<Rightarrow> PortEnv" where
  "process_env W fsys p E =
     (let a = plane_app (ps_plane p) in
      E\<lparr>re_facts := Some (process_facts p), re_live := None,
        re_ready := Some (NtpServerLife.Bound (ps_ntp p) \<and> Load (a_snaps a) \<noteq> None),
        re_ui := Some (NewHandler W fsys),
        re_uiEnabled := Some (case opt_bind (Load (a_snaps a)) sn_canonical of
           None \<Rightarrow> False | Some st \<Rightarrow> sp_uiEnabled (st_spec st))\<rparr>)"

text \<open>The end of the context: the management server, the adapter, and then the NTP server stop.\<close>

definition serve_stop :: "Process \<Rightarrow> Process \<times> nat list \<times> line list" where
  "serve_stop p =
     (let (ntp, closed) = NtpServerLife.Shutdown (ps_ntp p) in
      (\<lparr>ps_ntp = ntp, ps_plane = (case ps_plane p of
          NoManagement a m \<Rightarrow> NoManagement a m
        | Managed port life \<Rightarrow> Managed (port\<lparr>po_mcp := CloseMcp (po_mcp port)\<rparr>) (shutdown_mark life))\<rparr>,
       closed, [Out ''labntp: shutting down'']))"

definition shutdown_deadline :: "serveFlags \<Rightarrow> duration" where
  "shutdown_deadline flags = (if sf_ShutdownTimeout flags \<le> 0 then DefaultShutdownWait else sf_ShutdownTimeout flags)"

definition serve_gauge :: "Process \<Rightarrow> Registry \<Rightarrow> Registry" where
  "serve_gauge p m = reg_Set m MetricUDPInflight [] (f_of_int (int (s_inflight (ps_ntp p))))"

section \<open>mcpstdio.go\<close>

definition firstSecretLine :: "string \<Rightarrow> string" where
  "firstSecretLine raw = (case secret_line (split_on CHR 0x0A raw) of None \<Rightarrow> trim_space raw | Some l \<Rightarrow> l)"

text \<open>The verifier, the actor of the process and its secret, when there is a document.\<close>

definition stdio_identity :: "CliEnv \<Rightarrow> string \<Rightarrow> State \<Rightarrow> (unit Verifier \<times> Actor \<times> string) cmd" where
  "stdio_identity E tokenFile st =
     (let L = en_libs (ce_env E) in
      case FromSpec L (sp_auth (st_spec st)) of
        Inl e \<Rightarrow> fails ''mcp-stdio'' (''auth: '' @ err_string e)
      | Inr v \<Rightarrow>
          (case RequireListen (Some v) of
             Some msg \<Rightarrow> fails ''mcp-stdio'' msg
           | None \<Rightarrow>
               (case lib_read_file L tokenFile of
                  Inl e \<Rightarrow> fails ''mcp-stdio'' (''token-file: '' @ e)
                | Inr raw \<Rightarrow>
                    (let secret = firstSecretLine raw in
                     case AuthenticateBearer (Some v) secret of
                       Inl e \<Rightarrow> fails ''mcp-stdio'' (''token-file: '' @ err_string e)
                     | Inr p \<Rightarrow> (Runs (v, mcp_actorOf p, secret), [])))))"

definition stdio_config :: "App \<Rightarrow> bool \<Rightarrow> (unit Verifier \<times> Actor \<times> string) option \<Rightarrow> McpConfig" where
  "stdio_config svc legacy who =
     \<lparr>mo_Service = Some svc, mo_AllowedOrigins = [], mo_AllowLegacyClients = legacy, mo_RatePerSec = Fin (- 1),
      mo_RateBurst = Fin 0, mo_MaxBodyBytes = 0, mo_MaxConcurrent = 0, mo_Auth = map_option fst who,
      mo_FixedActor = map_option (fst \<circ> snd) who, mo_StdioSecret = (case who of None \<Rightarrow> [] | Some (_, _, s) \<Rightarrow> s),
      mo_Metrics = None\<rparr>"

definition stdio_new :: "App \<Rightarrow> Listening \<Rightarrow> bool \<Rightarrow> (unit Verifier \<times> Actor \<times> string) option \<Rightarrow> McpServer cmd" where
  "stdio_new svc l legacy who =
     (case NewMcp (stdio_config svc legacy who) l of Inl e \<Rightarrow> fails ''mcp-stdio'' e | Inr m \<Rightarrow> (Runs m, []))"

definition mcpStdioCmd :: "CliEnv \<Rightarrow> Listening \<Rightarrow> string list \<Rightarrow> McpServer cmd" where
  "mcpStdioCmd E l args =
     after_run (flags_cmd E [(''config'', TextFlag), (''token-file'', TextFlag)] args) (\<lambda>seen.
       let path = flag_value seen ''config'' []; tokenFile = flag_value seen ''token-file'' [] in
       after_run (required ''mcp-stdio'' ''config'' path) (\<lambda>_.
       after_run (required ''mcp-stdio'' ''token-file'' tokenFile) (\<lambda>_.
         case Boot (ce_env E) \<lparr>o_snapshots = Snapshot.NewStore, o_bootstrapPath = path, o_idempotencyMax = 0,
             o_auditMax = 0, o_auditor = None, o_queryLog = None, o_ntpListenOverride = [], o_mgmtListenOverride = []\<rparr> of
           Panics \<Rightarrow> (Panicking, [])
         | Blocks \<Rightarrow> (Panicking, [])
         | Returns (Inl e) \<Rightarrow> fails ''mcp-stdio'' (''load '' @ path @ '': '' @ error_text e)
         | Returns (Inr svc) \<Rightarrow>
             (case opt_bind (Load (a_snaps svc)) sn_canonical of
                None \<Rightarrow> stdio_new svc l False None
              | Some st \<Rightarrow>
                  after_run (stdio_identity E tokenFile st) (\<lambda>who.
                    stdio_new svc l (mg_allowLegacyClients (sp_management (st_spec st))) (Some who))))))"

text \<open>What the end of the stdio transport makes of the command.\<close>

definition stdio_ends :: "string option \<Rightarrow> bool \<Rightarrow> unit cmd" where
  "stdio_ends err canceled =
     (case (if canceled then None else err) of Some e \<Rightarrow> fails ''mcp-stdio'' e | None \<Rightarrow> (Exits 0 [], []))"

section \<open>main.go\<close>

definition usageText :: "string list" where
  "usageText =
    [''usage: labntp <command>'',
     '''',
     ''LabNTP is a laboratory NTPv3/v4 server with per-IP virtual clocks.'',
     ''validate and canonicalize load a fail-closed labntp.dev/v1alpha1'',
     ''document. serve binds UDP NTP. Management REST /v1, MCP /mcp, and the'',
     ''operator SPA at / bind only when --management-listen is an address'',
     ''(default off). spec.ui.enabled false keeps GET / as 404 problem+json.'',
     '''',
     ''Commands:'',
     ''  version         print build and protocol metadata'',
     ''  help            print this help'',
     ''  validate        fail-closed YAML check (--config)'',
     ''  canonicalize    emit canonical spec (--config, --format yaml|json)'',
     ''  serve           bind NTP (--config, --ntp-listen, --management-listen,'',
     ''                  --shutdown-timeout, --pid-file)'',
     ''  query           SNTP client for smoke (--server)'',
     ''  healthcheck     probe GET /v1/health/ready (--url)'',
     ''  mcp-stdio       Streamable MCP over stdio (--config, --token-file)'']"

datatype command =
    UsageError | Usage | VersionLine | CmdValidate "string list" | CmdCanonicalize "string list" | CmdServe "string list"
  | CmdQuery "string list" | CmdHealthcheck "string list" | CmdMcpStdio "string list" | UnknownCommand string

text \<open>The command of the arguments, the name of the program being the first.\<close>

definition pick_command :: "string list \<Rightarrow> command" where
  "pick_command argv =
     (case argv of
        prog # c # rest \<Rightarrow>
          (if c \<in> {''help'', ''-h'', ''--help''} then Usage
          else if c \<in> {''version'', ''-v'', ''--version''} then VersionLine
          else if c = ''validate'' then CmdValidate rest
          else if c = ''canonicalize'' then CmdCanonicalize rest
          else if c = ''serve'' then CmdServe rest
          else if c = ''query'' then CmdQuery rest
          else if c = ''healthcheck'' then CmdHealthcheck rest
          else if c = ''mcp-stdio'' then CmdMcpStdio rest
          else UnknownCommand c)
      | _ \<Rightarrow> UsageError)"

definition version_line :: "Info \<Rightarrow> string" where
  "version_line i = ''labntp '' @ in_version i @ '' commit='' @ in_commit i @ '' built='' @ in_buildTime i @ '' config='' @ in_configAPI i
     @ '' rest='' @ in_rest i @ '' mcp='' @ in_mcp i"

text \<open>What a command that does not end at once goes on as.\<close>

datatype going = Serving serveFlags Process | OverStdio McpServer | Shows QueryReport

definition goes_on :: "('a \<Rightarrow> going) \<Rightarrow> 'a cmd \<Rightarrow> going cmd" where
  "goes_on f c = after_run c (\<lambda>x. (Runs (f x), []))"

definition never :: "unit cmd \<Rightarrow> going cmd" where
  "never c = after_run c (\<lambda>_. (Exits 0 [], []))"

definition main_run :: "CliEnv \<Rightarrow> QueryNet \<Rightarrow> udp_answer \<Rightarrow> string option \<Rightarrow> string option \<Rightarrow> Listening \<Rightarrow> string list \<Rightarrow> going cmd" where
  "main_run E n udp metrics_err pid_err l argv =
     (case pick_command argv of
        UsageError \<Rightarrow> (Exits 2 [], map Err usageText)
      | Usage \<Rightarrow> (Exits 0 [], map Out usageText)
      | VersionLine \<Rightarrow> (Exits 0 [], [Out (version_line (Current (ce_build E)))])
      | CmdValidate rest \<Rightarrow> never (validateCmd E rest)
      | CmdCanonicalize rest \<Rightarrow> never (canonicalizeCmd E rest)
      | CmdServe rest \<Rightarrow> goes_on (case_prod Serving) (serveCmd E udp metrics_err pid_err rest)
      | CmdQuery rest \<Rightarrow> goes_on Shows (queryCmd E n rest)
      | CmdHealthcheck rest \<Rightarrow> never (healthcheckCmd E rest)
      | CmdMcpStdio rest \<Rightarrow> goes_on OverStdio (mcpStdioCmd E l rest)
      | UnknownCommand c \<Rightarrow> (Exits 2 [], Err (''unknown command: '' @ c) # map Err usageText))"

section \<open>exporter.go of internal/observability\<close>

text \<open>The life of the metrics listener, whose handler is \<open>Metrics.Handler\<close>.\<close>

record ScrapeListener =
  sl_addr :: string
  sl_closed :: bool

text \<open>No listener for a blank address; else the error of binding it, or the listener at the address bound.\<close>

definition scrape_Listen :: "string \<Rightarrow> string + string \<Rightarrow> string + ScrapeListener option" where
  "scrape_Listen addr bound =
     (if trim_space addr = [] then Inr None
      else case bound of Inl e \<Rightarrow> Inl e | Inr a \<Rightarrow> Inr (Some \<lparr>sl_addr = a, sl_closed = False\<rparr>))"

definition scrape_Addr :: "ScrapeListener option \<Rightarrow> string" where
  "scrape_Addr l = (case l of None \<Rightarrow> [] | Some s \<Rightarrow> sl_addr s)"

definition scrape_Shutdown :: "ScrapeListener option \<Rightarrow> string option \<Rightarrow> ScrapeListener option \<times> string option" where
  "scrape_Shutdown l err =
     (case l of
        None \<Rightarrow> (None, None)
      | Some s \<Rightarrow> if sl_closed s then (l, None) else (Some (s\<lparr>sl_closed := True\<rparr>), err))"

end
