(* ===== verification/Port_Invariant.thy ===== *)
theory Port_Invariant
  imports Process
begin

text \<open>
  What no request to the management port changes, over whole runs of requests: the port keeps a verifier
  that may listen, whatever resets do to its tokens; its routes stay; and what the two servers took
  from the document when they were made stays as it was.
\<close>

section \<open>Relations a request stays in\<close>

text \<open>A request stays in a relation that every single step of the server stays in.\<close>

locale server_relation =
  fixes R :: "'w RestServer_scheme \<Rightarrow> 'w RestServer_scheme \<Rightarrow> bool"
  assumes refl: "R s s"
    and trans: "R s t \<Longrightarrow> R t u \<Longrightarrow> R s u"
    and gate: "R s (s\<lparr>rs_gate := g\<rparr>)"
    and rate: "R s (s\<lparr>rs_rate := l\<rparr>)"
    and sessions: "R s (s\<lparr>rs_sessions := ss\<rparr>)"
    and metrics: "R s (s\<lparr>rs_metrics := m\<rparr>)"
    and app: "R s (s\<lparr>rs_app := a\<rparr>)"
    and listen: "R s (s\<lparr>rs_listen := li\<rparr>)"
    and after_change: "R s (after_change L s)"
begin

lemmas steps = refl gate rate sessions metrics app listen

lemma count: "R s (count es s)"
  by (simp add: count_def metrics)

lemma changed: "R s (changed E s a es h)"
  unfolding changed_def Let_def by (auto intro: trans [OF app] trans [OF trans [OF app count]] count after_change)

lemma listen_changed: "R s (changed E (s\<lparr>rs_listen := li\<rparr>) a es h)"
  using trans [OF listen changed] .

lemma by_verifier: "R s (fst (by_verifier h s r))"
  by (simp add: by_verifier_def observeAuthFailure_def steps count split: sum.splits)

lemma authenticate: "R s (fst (authenticate E s r skip))"
  by (auto simp: authenticate_def Let_def observeAuthFailure_def count by_verifier steps
      intro: trans [OF sessions by_verifier] split: option.splits prod.splits)

lemma authorize: "R s (fst (authorize E s r actor c))"
  by (simp add: authorize_def Let_def steps split: option.splits prod.splits)

lemma handlers:
  "R s (fst (handlePlan E s urn r))" "R s (fst (handleApply E s urn actor r))" "R s (fst (handleReset E s urn actor r))"
  "R s (fst (handleFiltersPut E s urn actor r name))" "R s (fst (handleFiltersDelete E s urn actor r name))"
  "R s (fst (handleSessionCreate E s urn actor r))" "R s (fst (handleSessionGet E s actor r))"
  "R s (fst (handleSessionDelete s r))"
  by (simp_all add: handlePlan_def handleApply_def handleReset_def handleFiltersPut_def handleFiltersDelete_def with_apply_def
      handleSessionCreate_def handleSessionGet_def handleSessionDelete_def Let_def changed listen_changed steps
      split: sum.splits prod.splits option.splits)

lemma dispatch: "R s (fst (dispatch E s r urn actor cap params))"
  by (simp add: dispatch_def if_distrib [of fst] if_distrib [of "R s"] handlers refl cong: if_cong)

lemma guarded: "R s (fst (guarded E s r urn c params))"
proof -
  obtain s1 who where a: "authenticate E s r (isHealthCap c) = (s1, who)" by fastforce
  have 1: "R s s1" using authenticate [of s E r "isHealthCap c"] by (simp add: a)
  show ?thesis
  proof (cases who)
    case (Inl e)
    then show ?thesis using 1 by (simp add: guarded_def a)
  next
    case (Inr actor)
    obtain s2 e where b: "authorize E s1 r actor c = (s2, e)" by fastforce
    have 2: "R s s2" using trans [OF 1 authorize [of s1 E r actor c]] by (simp add: b)
    then have "R s (fst (dispatch E s2 r urn actor (cp_ID c) params))" by (rule trans [OF _ dispatch])
    then show ?thesis using 1 2 by (auto simp: guarded_def a b Inr split: option.splits)
  qed
qed

lemma rated: "(\<And>l. R (s\<lparr>rs_rate := l\<rparr>) (fst (f (s\<lparr>rs_rate := l\<rparr>)))) \<Longrightarrow> R s (fst (rated E s r urn f))"
  by (auto simp: rated_def Let_def split: prod.splits option.splits intro: trans [OF rate] rate)

lemma admitted:
  assumes "\<And>h n t. mux_handler E r = Some h \<Longrightarrow> R t (fst (h n t r))"
  shows "R s (fst (snd (admitted E s r urn)))"
  using assms unfolding admitted_def
  by (auto simp: guarded steps intro!: rated split: option.splits prod.splits)

lemma serveHTTP:
  assumes "\<And>h n t. mux_handler E r = Some h \<Longrightarrow> R t (fst (h n t r))"
  shows "R s (fst (serveHTTP E s r))"
proof -
  have f: "R t (fst (finish reqID cap t rp))" for t reqID cap rp by (simp add: finish_def observeHTTP_def count)
  have a: "R s (fst (snd (admitted E (s\<lparr>rs_gate := g\<rparr>) r urn)))" for g urn
    using trans [OF gate admitted] assms by blast
  have "R s (fst (finish reqID cap ((fst (snd (admitted E (s\<lparr>rs_gate := g\<rparr>) r urn)))\<lparr>rs_gate := g'\<rparr>) rp))" for reqID cap g urn g' rp
    by (rule trans [OF trans [OF a gate] f])
  then show ?thesis using a f
    by (auto simp: serveHTTP_def Let_def split: option.splits prod.splits bool.splits handled.splits) (metis fst_conv snd_conv)+
qed

end

section \<open>The adapter\<close>

text \<open>What the adapter keeps: all it took from its configuration, and a verifier that may listen.\<close>

definition same_limiter :: "mgmtLimiter \<Rightarrow> mgmtLimiter \<Rightarrow> bool" where
  "same_limiter l l' = (ml_disabled l' = ml_disabled l \<and> ml_rate l' = ml_rate l \<and> ml_burst l' = ml_burst l)"

definition mcp_frozen :: "McpServer \<Rightarrow> McpServer \<Rightarrow> bool" where
  "mcp_frozen m m' =
     (ms_allowedOrigins m' = ms_allowedOrigins m \<and> ms_allowLegacy m' = ms_allowLegacy m \<and> ms_fixedActor m' = ms_fixedActor m
      \<and> ms_stdioSecret m' = ms_stdioSecret m \<and> ms_maxBody m' = ms_maxBody m \<and> ms_slots m' = ms_slots m
      \<and> ms_closed m' = ms_closed m \<and> same_limiter (ms_rate m) (ms_rate m'))"

definition listens :: "unit Verifier option \<Rightarrow> unit Verifier option \<Rightarrow> bool" where
  "listens v v' = (RequireListen v = None \<longrightarrow> RequireListen v' = None)"

definition mcp_keeps :: "McpServer \<Rightarrow> McpServer \<Rightarrow> bool" where
  "mcp_keeps m m' = (mcp_frozen m m' \<and> listens (ms_auth m) (ms_auth m'))"

lemma mcp_keeps_refl [simp]: "mcp_keeps m m"
  by (simp add: mcp_keeps_def mcp_frozen_def same_limiter_def listens_def)

lemma mcp_keeps_trans: "mcp_keeps m n \<Longrightarrow> mcp_keeps n k \<Longrightarrow> mcp_keeps m k"
  by (auto simp: mcp_keeps_def mcp_frozen_def same_limiter_def listens_def)

lemma Replace_listens [simp]: "RequireListen (Some (fst (Replace v next))) = RequireListen (Some next)"
  by (simp add: RequireListen_def Replace_def)

lemma mcp_reloadAuth_keeps: "mcp_keeps m (mcp_reloadAuth L m)"
  by (auto simp: mcp_reloadAuth_def mcp_keeps_def mcp_frozen_def same_limiter_def listens_def Let_def case_prod_beta
      split: option.splits sum.splits)

lemma mcp_updates_keep [simp]:
  "mcp_keeps m (m\<lparr>ms_app := a\<rparr>)" "mcp_keeps m (m\<lparr>ms_listen := l\<rparr>)" "mcp_keeps m (m\<lparr>ms_committed := b\<rparr>)"
  "mcp_keeps m (mcp_count es m)" "mcp_keeps m (mcp_slot n m)"
  by (simp_all add: mcp_keeps_def mcp_frozen_def same_limiter_def listens_def mcp_count_def mcp_slot_def)

lemma mcp_changed_keeps: "mcp_keeps m (mcp_changed E m a es h)"
proof -
  have c: "mcp_keeps m (mcp_count es (m\<lparr>ms_app := a\<rparr>))" by (rule mcp_keeps_trans [of _ "m\<lparr>ms_app := a\<rparr>"]) simp_all
  then have "mcp_keeps m ((mcp_count es (m\<lparr>ms_app := a\<rparr>))\<lparr>ms_committed := True\<rparr>)" by (rule mcp_keeps_trans) simp
  then show ?thesis using c by (simp add: mcp_changed_def Let_def mcp_keeps_trans [OF _ mcp_reloadAuth_keeps])
qed

lemma mcp_reset_keeps: "mcp_keeps m (mcp_changed E (m\<lparr>ms_listen := l\<rparr>) a es h)"
  using mcp_keeps_trans [OF _ mcp_changed_keeps] by simp

lemma run_tool_keeps: "mcp_keeps m (fst (run_tool E m actor call))"
  by (cases call) (simp_all add: read_only_def refuse_def after_apply_def Let_def mcp_changed_keeps mcp_reset_keeps
      split: option.splits sum.splits prod.splits)

lemma handle_tool_keeps: "mcp_keeps m (fst (handle_tool E m ctx call))"
  by (auto simp: handle_tool_def Let_def case_prod_beta intro: mcp_keeps_trans [OF _ run_tool_keeps] split: option.splits)

lemma sdk_serve_keeps: "mcp_keeps m (fst (sdk_serve E m ctx step))"
  by (cases step) (simp_all add: handle_tool_keeps case_prod_beta)

lemma mcp_allow_limiter: "same_limiter l (fst (mcp_allow l now remote))"
  by (auto simp: same_limiter_def mcp_allow_def mgmt_charge_def mcp_evictOldestLocked_def Let_def split: option.splits if_splits)

lemma mcp_admitted_keeps: "mcp_keeps m (fst (mcp_admitted E sdk m r))"
proof -
  let ?m = "m\<lparr>ms_rate := fst (mcp_allow (ms_rate m) (me_now_rate E) (hr_remote r))\<rparr>"
  have k: "mcp_keeps m ?m"
    using mcp_allow_limiter by (simp add: mcp_keeps_def mcp_frozen_def listens_def same_limiter_def)
  then have "mcp_keeps m (fst (sdk_serve E ?m ctx step))" for ctx step by (rule mcp_keeps_trans [OF _ sdk_serve_keeps])
  with k show ?thesis by (auto simp: mcp_admitted_def Let_def case_prod_beta split: option.splits sum.splits)
qed

lemma mcp_serveHTTP_keeps: "mcp_keeps m (fst (mcp_serveHTTP E sdk m r))"
proof -
  let ?a = "mcp_admitted E sdk (mcp_slot 1 m) r"
  have a: "mcp_keeps m (fst ?a)" by (rule mcp_keeps_trans [OF _ mcp_admitted_keeps]) simp
  then have "mcp_keeps m (mcp_slot n (fst ?a))" for n by (rule mcp_keeps_trans) simp
  with a show ?thesis
    by (cases "snd ?a") (auto simp: mcp_serveHTTP_def Let_def case_prod_beta split: option.splits)
qed

section \<open>The port\<close>

definition rest_keeps :: "'w RestServer_scheme \<Rightarrow> 'w RestServer_scheme \<Rightarrow> bool" where
  "rest_keeps s s' =
     (rs_routes s' = rs_routes s \<and> rs_allowedOrigins s' = rs_allowedOrigins s \<and> rs_publicMetrics s' = rs_publicMetrics s
      \<and> rs_cookieSecure s' = rs_cookieSecure s \<and> listens (rs_auth s) (rs_auth s'))"

definition port_keeps :: "Port \<Rightarrow> Port \<Rightarrow> bool" where
  "port_keeps p p' = (rest_keeps p p' \<and> mcp_frozen (po_mcp p) (po_mcp p'))"

lemma after_change_keeps: "rest_keeps s (after_change L s)"
  by (auto simp: rest_keeps_def listens_def after_change_def syncManagementLimits_def reloadAuth_def ApplyLimits_def Let_def
      case_prod_beta split: option.splits sum.splits)

lemma after_change_mcp [simp]: "po_mcp (after_change L s) = po_mcp s"
  by (simp add: after_change_def syncManagementLimits_def reloadAuth_def ApplyLimits_def Let_def
      split: option.splits sum.splits prod.splits)

interpretation kept_port: server_relation port_keeps
proof
  fix s t u :: Port
  show "port_keeps s s" by (simp add: port_keeps_def rest_keeps_def listens_def mcp_frozen_def same_limiter_def)
  show "port_keeps s t \<Longrightarrow> port_keeps t u \<Longrightarrow> port_keeps s u"
    by (auto simp: port_keeps_def rest_keeps_def listens_def mcp_frozen_def same_limiter_def)
  show "port_keeps s (after_change L s)" for L
    using after_change_keeps by (simp add: port_keeps_def mcp_frozen_def same_limiter_def)
qed (simp_all add: port_keeps_def rest_keeps_def listens_def mcp_frozen_def same_limiter_def)

lemma absorb_keeps: "mcp_keeps (on_process s (po_mcp s)) m \<Longrightarrow> port_keeps s (absorb L s m)"
proof -
  assume k: "mcp_keeps (on_process s (po_mcp s)) m"
  let ?s = "s\<lparr>rs_app := ms_app m, rs_listen := ms_listen m, rs_auth := ms_auth m, rs_metrics := ms_metrics m,
     rs_sessions := fold (\<lambda>_. Clear) (ms_fired m) (rs_sessions s), po_mcp := m\<rparr>"
  have "port_keeps s ?s"
    using k by (auto simp: port_keeps_def rest_keeps_def mcp_keeps_def mcp_frozen_def on_process_def)
  then show ?thesis
    using kept_port.trans [OF _ kept_port.after_change, of s ?s L] by (simp add: absorb_def Let_def)
qed

lemma mount_keeps: "port_keeps s (fst (mcp_mount M sdk n s r))"
  using mcp_serveHTTP_keeps by (simp add: mcp_mount_def case_prod_beta absorb_keeps)

lemma port_serve_keeps: "port_keeps s (fst (port_serve E M sdk s r))"
proof -
  have "port_keeps t (fst (h n t r))" if "mux_handler (mounted E M sdk) r = Some h" for h n t
    using port_mount [OF that] mount_keeps kept_port.refl by auto
  then show ?thesis unfolding port_serve_def by (rule kept_port.serveHTTP)
qed

section \<open>Runs of requests\<close>

text \<open>A run of requests, each with what it meets.\<close>

type_synonym met = "PortEnv \<times> McpEnv \<times> (HttpRequest \<Rightarrow> sdk_step) \<times> HttpRequest"

fun port_step :: "met \<Rightarrow> Port \<Rightarrow> Port" where
  "port_step (E, M, sdk, r) s = fst (port_serve E M sdk s r)"

definition port_run :: "met list \<Rightarrow> Port \<Rightarrow> Port" where
  "port_run ms s = fold port_step ms s"

lemma port_run_keeps: "port_keeps s (port_run ms s)"
proof (induction ms arbitrary: s)
  case Nil
  show ?case by (simp add: port_run_def kept_port.refl)
next
  case (Cons m ms)
  have "port_keeps s (port_step m s)" by (cases m) (simp add: port_serve_keeps)
  then show ?case using Cons.IH [of "port_step m s"] by (auto simp: port_run_def intro: kept_port.trans)
qed

text \<open>The rows of the catalog say that the limits of the management servers are live. For the adapter they are not:
  no request changes its body limit, its slots or its rate, nor, in either server, the allowed origins
  and what else was read from the document at the start, and a reset neither.\<close>

lemma limits_of_the_start:
  "ms_maxBody (po_mcp (port_run ms s)) = ms_maxBody (po_mcp s) \<and> ms_slots (po_mcp (port_run ms s)) = ms_slots (po_mcp s)
   \<and> same_limiter (ms_rate (po_mcp s)) (ms_rate (po_mcp (port_run ms s)))
   \<and> rs_allowedOrigins (port_run ms s) = rs_allowedOrigins s \<and> ms_allowedOrigins (po_mcp (port_run ms s)) = ms_allowedOrigins (po_mcp s)
   \<and> ms_allowLegacy (po_mcp (port_run ms s)) = ms_allowLegacy (po_mcp s) \<and> rs_publicMetrics (port_run ms s) = rs_publicMetrics s"
  using port_run_keeps [of s ms] by (simp add: port_keeps_def rest_keeps_def mcp_frozen_def)

end
