(* ===== verification/Process_Props.thy ===== *)
theory Process_Props
  imports Port_Invariant
begin

text \<open>
  Properties of the process: what a start of \<^verbatim>\<open>serve\<close> gives, how it agrees with
  \<^verbatim>\<open>validate\<close> and \<^verbatim>\<open>canonicalize\<close>, who may change the application over its
  life, what the SNTP client shows of a reply, and whom the stdio process acts for.
\<close>

section \<open>Runs\<close>

lemma after_run_Runs [simp]: "fst (after_run c f) = Runs y \<longleftrightarrow> (\<exists>x. fst c = Runs x \<and> fst (f x) = Runs y)"
  by (cases c; cases "fst c") (auto simp: after_run_def)

lemma after_run_simps [simp]: "after_run (Runs x, ls) f = (fst (f x), ls @ snd (f x))"
  by (simp add: after_run_def)

lemma fails_not_Runs [simp]: "fst (fails n m) \<noteq> Runs x" "fst (gives_up ntp m) \<noteq> Runs x"
  by (simp_all add: fails_def gives_up_def)

lemma tried:
  "fst (case r of Inl e \<Rightarrow> fails n (f e) | Inr x \<Rightarrow> (Runs x, [])) = Runs y \<longleftrightarrow> r = Inr y"
  "fst (case r of Inl e \<Rightarrow> fails n (f e) | Inr x \<Rightarrow> (Runs x, [])) = Exits k cs \<Longrightarrow> k = 1 \<and> cs = []"
  by (cases r; simp add: fails_def)+

lemma required_Runs [simp]: "fst (required n f v) = Runs x \<longleftrightarrow> v \<noteq> []"
  by (simp add: required_def)

lemma required_ok [simp]: "v \<noteq> [] \<Longrightarrow> required n f v = (Runs (), [])"
  by (simp add: required_def)

lemma config_flag [simp]: "flags_cmd E ((''config'', TextFlag) # fs) [''--config'', path] = (Runs [(''config'', path)], [])"
  by (simp add: flags_cmd_def flag_ok_def)

lemma flag_value_single [simp]: "flag_value [(k, v)] k d = v" "k' \<noteq> k \<Longrightarrow> flag_value [(k, v)] k' d = d"
  by (simp_all add: flag_value_def)

lemma requireConfigFlag_path [simp]: "path \<noteq> [] \<Longrightarrow> requireConfigFlag E [''--config'', path] name = (Runs path, [])"
  by (simp add: requireConfigFlag_def)

section \<open>A start\<close>

lemma load_warned_Runs:
  assumes "fst (load_warned E name path) = Runs st"
  obtains b n warns where "lib_read_file (en_libs (ce_env E)) path = Inr b" "st = Some n"
    "LoadWithWarnings (en_libs (ce_env E)) b = Some (Some n, warns, None)" "state_ok n" "normal n = n"
proof -
  let ?L = "en_libs (ce_env E)"
  obtain b warns where b: "lib_read_file ?L path = Inr b" "LoadWithWarnings ?L b = Some (st, warns, None)"
    using assms by (auto simp: load_warned_def LoadFileWithWarnings_def split: sum.splits option.splits)
  from b(2) obtain n st0 w where n: "st = Some n" "Decode ?L b = Some (Inr st0)" "Normalize ?L (Some st0) = Inr (n, w)"
    by (auto simp: LoadWithWarnings_def opt_bind_def split: option.splits sum.splits prod.splits)
  then show ?thesis using that [of b n warns] b Normalize_again(2,3) [OF Decode_state_ok [OF n(2)] n(3)] by simp
qed

lemma serve_snapshot_Runs:
  assumes "fst (serve_snapshot E path) = Runs snap"
  obtains b n warns where "lib_read_file (en_libs (ce_env E)) path = Inr b"
    "LoadWithWarnings (en_libs (ce_env E)) b = Some (Some n, warns, None)"
    "sn_canonical snap = Some n" "Revision (en_libs (ce_env E)) (Some n) = Inr (sn_revision snap)"
    "snapshot_ok (en_libs (ce_env E)) snap" "\<not> Drifted snap"
proof -
  let ?L = "en_libs (ce_env E)"
  let ?o = "\<lparr>co_now = en_clock (ce_env E), co_bootstrapRevision = [], co_generation = 0, co_previous = None\<rparr>"
  obtain st where l: "fst (load_warned E ''serve'' path) = Runs st" and c: "Compile ?L st ?o = Inr snap"
    using assms unfolding serve_snapshot_def after_run_Runs tried by blast
  obtain b n warns where n: "lib_read_file ?L path = Inr b" "st = Some n" "LoadWithWarnings ?L b = Some (Some n, warns, None)"
    "state_ok n" "normal n = n" using load_warned_Runs [OF l] by blast
  from Compile_parts [OF c] obtain n' w gs more allow keys rv where p:
    "Normalize ?L st = Inr (n', w)" "Revision ?L (Some n') = Inr rv"
    "snap = build_snapshot ?o n' rv (w @ more @ overlapWarnings gs) gs allow keys" by metis
  have "n' = n" using Normalize_again(3) [OF n(4), of ?L n' w] p(1) n(2,5) by simp
  moreover have "\<not> Drifted snap" by (simp add: p(3) Drifted_def build_snapshot_simps)
  ultimately show ?thesis
    using that [OF n(1,3)] p(2) Compile_snapshot_ok [OF c] by (simp add: p(3) build_snapshot_simps)
qed

lemma serve_app_Load [simp]: "Load (a_snaps (serve_app flags snap)) = Some snap"
  by (simp add: serve_app_def app_New_def InstallBootstrap_def Swap_def SetBootstrap_def Load_def Let_def Snapshot.NewStore_def)

lemma serve_ntp_Runs:
  assumes "fst (serve_ntp flags snap udp) = Runs ntp"
  shows "NtpServerLife.Bound ntp \<and> s_udp ntp = map_option fst udp"
  using assms by (auto simp: serve_ntp_def server_New_def NtpServerLife.Start_def NtpServerLife.Bound_def
      split: sum.splits prod.splits option.splits if_splits)

lemma serve_management_Runs:
  assumes "fst (serve_management E flags st svc metrics l ntp) = Runs pl"
  obtains port where "pl = Managed port (new_life (sf_ManagementListen flags))" "rs_routes port = compileRoutes catalog"
    "RequireListen (rs_auth port) = None" "rs_app port = svc"
proof -
  obtain v m r where v: "RequireListen (Some v) = None" "Rest.New (rest_config svc metrics st v) l = Inr r"
    "pl = Managed (RestServer.extend r (Port.fields m)) (new_life (sf_ManagementListen flags))"
    using assms by (auto simp: serve_management_def split: sum.splits option.splits)
  moreover have "RequireListen (Some (OnIdentityChange w h)) = RequireListen (Some w)" for w :: "unit Verifier" and h
    by (simp add: RequireListen_def OnIdentityChange_def)
  ultimately show ?thesis
    using that [of "RestServer.extend r (Port.fields m)"]
    by (simp add: Rest.New_def rest_config_def RestServer.defs Port.defs Let_def) (auto simp: RestServer.defs)
qed

lemma serve_start_Runs:
  assumes "fst (serve_start E udp metrics_err pid_err flags) = Runs p"
  obtains snap where "fst (serve_snapshot E (sf_Config flags)) = Runs snap" "plane_app (ps_plane p) = serve_app flags snap"
    "NtpServerLife.Bound (ps_ntp p)" "s_udp (ps_ntp p) = map_option fst udp"
    "(if managementOff (sf_ManagementListen flags) then ps_plane p = NoManagement (serve_app flags snap) NewRegistry
      else \<exists>port. ps_plane p = Managed port (new_life (sf_ManagementListen flags)) \<and> rs_routes port = compileRoutes catalog
        \<and> RequireListen (rs_auth port) = None)"
proof -
  obtain snap ntp st pl where s: "fst (serve_snapshot E (sf_Config flags)) = Runs snap"
    and n: "fst (serve_ntp flags snap udp) = Runs ntp" and st: "sn_canonical snap = Some st" and p: "p = \<lparr>ps_ntp = ntp, ps_plane = pl\<rparr>"
    and m: "if managementOff (sf_ManagementListen flags) then pl = NoManagement (serve_app flags snap) NewRegistry
      else fst (serve_management E flags st (serve_app flags snap) NewRegistry (listening_at flags snap) ntp) = Runs pl"
    using assms by (auto simp: serve_start_def Let_def split: option.splits if_splits)
  show ?thesis
  proof (cases "managementOff (sf_ManagementListen flags)")
    case True
    then show ?thesis using that [OF s] serve_ntp_Runs [OF n] m by (simp add: p)
  next
    case False
    with m obtain port where "pl = Managed port (new_life (sf_ManagementListen flags))" "rs_routes port = compileRoutes catalog"
      "RequireListen (rs_auth port) = None" "rs_app port = serve_app flags snap" by (auto elim: serve_management_Runs)
    then show ?thesis using that [OF s] serve_ntp_Runs [OF n] False by (simp add: p)
  qed
qed

text \<open>Ending with a code: it is 1, and the socket a start had opened is closed again.\<close>

lemma fails_Exits [simp]: "fst (fails n m) = Exits k cs \<longleftrightarrow> k = 1 \<and> cs = []"
  "fst (gives_up ntp m) = Exits k cs \<longleftrightarrow> k = 1 \<and> cs = snd (NtpServerLife.Shutdown ntp)"
  by (auto simp: fails_def gives_up_def)

lemma after_run_Exits: "fst (after_run c f) = Exits k cs \<longleftrightarrow> fst c = Exits k cs \<or> (\<exists>x. fst c = Runs x \<and> fst (f x) = Exits k cs)"
  by (cases c; cases "fst c") (auto simp: after_run_def)

lemma serve_start_Exits:
  assumes "fst (serve_start E udp metrics_err pid_err flags) = Exits k cs"
  shows "k = 1 \<and> (cs = [] \<or> (\<exists>c a. udp = Some (c, a) \<and> cs = [c]))"
proof -
  have l: "fst (load_warned E name path) = Exits k cs \<Longrightarrow> k = 1 \<and> cs = []" for name path k cs
    by (auto simp: load_warned_def split: sum.splits option.splits)
  have s: "fst (serve_snapshot E path) = Exits k cs \<Longrightarrow> k = 1 \<and> cs = []" for path k cs
    unfolding serve_snapshot_def after_run_Exits by (elim disjE exE conjE) (erule l, erule tried(2))
  have n: "fst (serve_ntp flags snap udp) = Exits k cs \<Longrightarrow> k = 1 \<and> cs = []" for snap k cs
    by (auto simp: serve_ntp_def split: sum.splits prod.splits option.splits)
  have m: "fst (serve_management E flags st svc mt li ntp) = Exits k cs \<Longrightarrow> k = 1 \<and> cs = snd (NtpServerLife.Shutdown ntp)" for st svc mt li ntp
    by (auto simp: serve_management_def split: sum.splits option.splits)
  have closed: "snd (NtpServerLife.Shutdown ntp) = [] \<or> (\<exists>c a. udp = Some (c, a) \<and> snd (NtpServerLife.Shutdown ntp) = [c])"
    if "fst (serve_ntp flags snap udp) = Runs ntp" for snap ntp
    using serve_ntp_Runs [OF that] by (auto simp: NtpServerLife.Shutdown_def split: option.splits)
  from assms consider "fst (serve_snapshot E (sf_Config flags)) = Exits k cs" | snap where "fst (serve_ntp flags snap udp) = Exits k cs"
    | snap ntp st where "fst (serve_ntp flags snap udp) = Runs ntp"
        "fst (serve_management E flags st (serve_app flags snap) NewRegistry (listening_at flags snap) ntp) = Exits k cs"
    unfolding serve_start_def Let_def after_run_Exits
  proof (elim disjE exE conjE)
    fix snap ntp
    assume n: "fst (serve_ntp flags snap udp) = Runs ntp" and
      e: "fst (case sn_canonical snap of None \<Rightarrow> (Panicking, [])
         | Some st \<Rightarrow> after_run (if managementOff (sf_ManagementListen flags)
             then (Runs (NoManagement (serve_app flags snap) NewRegistry), [Out ''labntp management: not bound''])
             else serve_management E flags st (serve_app flags snap) NewRegistry (listening_at flags snap) ntp)
               (\<lambda>pl. (Runs \<lparr>ps_ntp = ntp, ps_plane = pl\<rparr>, serve_extras flags st metrics_err pid_err))) = Exits k cs"
    then show thesis using that(3) [OF n] by (cases "sn_canonical snap") (auto simp: after_run_Exits split: if_splits)
  qed (use that in auto)
  then show ?thesis
  proof cases
    case (3 snap ntp st)
    then show ?thesis using closed [OF 3(1)] m [OF 3(2)] by simp
  qed (use s n in blast)+
qed

section \<open>Who may change a served process\<close>


section \<open>What is validated is what is served\<close>

lemma canonical_text_end: "CanonicalJSON L (Some n) = Inr body \<Longrightarrow> body \<noteq> [] \<and> List.last body = CHR ''}''"
proof -
  assume "CanonicalJSON L (Some n) = Inr body"
  then obtain m where "body = json_text (canonical_tree m)" by (auto simp: CanonicalJSON_def Let_def split: if_splits)
  then show ?thesis by (simp add: canonical_tree_def state_json_def FormatWireTree_def
      convertByteSizeNumbersToStrings_def convertDurationNumbersToStrings_def)
qed

lemma parseServeFlags_config: "fst (parseServeFlags E args) = Runs flags \<Longrightarrow> sf_Config flags \<noteq> []"
  by (auto simp: parseServeFlags_def)

lemma two_flags [simp]:
  "flags_cmd E [(''config'', TextFlag), (''format'', TextFlag)] [''--config'', path, ''--format'', ''json'']
     = (Runs [(''config'', path), (''format'', ''json'')], [])"
  by (simp add: flags_cmd_def flag_ok_def)

lemma two_values [simp]:
  "flag_value [(''config'', path), (''format'', ''json'')] ''config'' d = path"
  "to_lower (flag_value [(''config'', path), (''format'', ''json'')] ''format'' d) = ''json''"
  by (simp add: flag_value_def) (simp add: flag_value_def, code_simp)

text \<open>C12: a document that \<^verbatim>\<open>serve\<close> starts with is one that \<^verbatim>\<open>validate\<close> accepts: the
  revision it prints is that of the snapshot the process serves, which is consistent and not drifted, and
  it is the digest of the text that \<^verbatim>\<open>canonicalize\<close> prints. The process is ready as soon as
  its management listener came up, or at once when there is none; if that listener fails, the process stays
  and is not ready.\<close>

theorem validated_is_served:
  "case fst (serveCmd E udp metrics_err pid_err args) of
     Runs (flags, p) \<Rightarrow>
       (case Load (a_snaps (plane_app (ps_plane p))) of
          None \<Rightarrow> False
        | Some snap \<Rightarrow>
            snapshot_ok (en_libs (ce_env E)) snap \<and> \<not> Drifted snap
            \<and> (\<exists>warned. validateCmd E [''--config'', sf_Config flags]
                 = (Exits 0 [], warned @ [Out (''ok revision='' @ sn_revision snap)]))
            \<and> (\<exists>body. canonicalizeCmd E [''--config'', sf_Config flags, ''--format'', ''json''] = (Exits 0 [], [Out body])
                 \<and> sn_revision snap = RevisionPrefix @ hex_encode (sha256 (bytes_of_string body)))
            \<and> (pr_ready (Evaluate (process_facts (fst (management_up p listened))))
                 \<longleftrightarrow> managementOff (sf_ManagementListen flags) \<or> (\<exists>x. listened = Inr x)))
   | _ \<Rightarrow> True"
proof (cases "fst (serveCmd E udp metrics_err pid_err args)")
  case (Runs fp)
  obtain flags p where fp: "fp = (flags, p)" by fastforce
  let ?L = "en_libs (ce_env E)"
  from Runs have path: "sf_Config flags \<noteq> []" and st: "fst (serve_start E udp metrics_err pid_err flags) = Runs p"
    by (auto simp: serveCmd_def fp dest: parseServeFlags_config)
  from serve_start_Runs [OF st] obtain snap where s: "fst (serve_snapshot E (sf_Config flags)) = Runs snap"
    and a: "plane_app (ps_plane p) = serve_app flags snap" and b: "NtpServerLife.Bound (ps_ntp p)"
    and m: "if managementOff (sf_ManagementListen flags) then ps_plane p = NoManagement (serve_app flags snap) NewRegistry
      else \<exists>port. ps_plane p = Managed port (new_life (sf_ManagementListen flags)) \<and> rs_routes port = compileRoutes catalog
        \<and> RequireListen (rs_auth port) = None" by metis
  from serve_snapshot_Runs [OF s] obtain d n warns where d: "lib_read_file ?L (sf_Config flags) = Inr d"
    "LoadWithWarnings ?L d = Some (Some n, warns, None)" "Revision ?L (Some n) = Inr (sn_revision snap)"
    "snapshot_ok ?L snap" "\<not> Drifted snap" by metis
  have v: "validateCmd E [''--config'', sf_Config flags]
      = (Exits 0 [], map warning_line warns @ [Out (''ok revision='' @ sn_revision snap)])"
    using path d by (simp add: validateCmd_def load_warned_def LoadFileWithWarnings_def)
  from d(3) obtain body where body: "CanonicalJSON ?L (Some n) = Inr body"
    "sn_revision snap = RevisionPrefix @ hex_encode (sha256 (bytes_of_string body))" by (auto simp: Revision_def)
  have c: "canonicalizeCmd E [''--config'', sf_Config flags, ''--format'', ''json''] = (Exits 0 [], [Out body])"
    using path d body(1) canonical_text_end [OF body(1)] by (simp add: canonicalizeCmd_def LoadFile_def Load_state_def Let_def)
  have r: "pr_ready (Evaluate (process_facts (fst (management_up p listened))))
      \<longleftrightarrow> managementOff (sf_ManagementListen flags) \<or> (\<exists>x. listened = Inr x)"
    using a b m by (auto simp: Evaluate_def Let_def process_facts_def management_up_def new_life_def Rest_Life.Serve_def
        Rest_Life.Bound_def split: if_splits sum.splits)
  show ?thesis using a v c r body(2) d(4,5) by (simp add: Runs fp)
qed simp_all

section \<open>The SNTP client\<close>

lemma Era_range: "Era t \<in> {0, 1}"
  by (simp add: Era_def)

lemma ts_time_era:
  assumes "e \<in> {0, 1}" "e' \<in> {0, 1}"
  shows "wall (ts_time ts e) = wall (ts_time ts e') + (e - e') * 2 ^ 32 * second"
proof -
  have u: "0 \<le> uint (Seconds ts)" "uint (Seconds ts) < 2 ^ 32" using uint_lt2p [of "Seconds ts"] by simp_all
  have w: "wall (ts_time ts k) = (k * 2 ^ 32 + uint (Seconds ts) - ntpUnixDelta) * second + uint (Fraction ts) * 1000000000 div 2 ^ 32"
    if "k \<in> {0, 1}" for k
    using that u by (auto simp: ts_time_def Let_def of_unix_def i64_def' ntpUnixDelta_def)
  show ?thesis using w [OF assms(1)] w [OF assms(2)] by (simp add: algebra_simps)
qed

lemma read_back_time:
  assumes "\<not> Clamped t" "e \<in> {0, 1}"
  shows "wall (ts_time (FromTime t) e) - (e - Era t) * 2 ^ 32 * second \<in> {wall t - 1, wall t}"
  using FromTime_Time [OF assms(1)] ts_time_era [OF assms(2) Era_range, of "FromTime t" t] by auto

lemma LeapLI_range: "LeapLI l < 4"
  by (simp add: LeapLI_def LIUnsync_def LINone_def LIInsert_def LIDelete_def)

lemma query_reply_wf: "wf_packet (fst (reply_packet i v (query_packet host)))"
  by (simp add: reply_packet_def Let_def wf_packet_def LeapLI_range query_packet_def ModeServer_def)


section \<open>The stdio process and two corners\<close>

text \<open>A stdio process that started acts, for a tool call, as the principal of the token in its file.\<close>

lemma stdio_identity_Runs:
  assumes "fst (stdio_identity E tokenFile st) = Runs (v, a, secret)" "fst (stdio_new svc l legacy (Some (v, a, secret))) = Runs m"
  shows "\<exists>p. AuthenticateBearer (Some v) secret = Inr p \<and> RequireListen (Some v) = None \<and> actorFrom m None = mcp_actorOf p"
proof -
  have e: "trim_space [] = []" by code_simp
  obtain p where p: "AuthenticateBearer (Some v) secret = Inr p" "RequireListen (Some v) = None"
    using assms(1) by (auto simp: stdio_identity_def Let_def split: sum.splits option.splits)
  then have "secret \<noteq> []" by (auto simp: AuthenticateBearer_def lookupBearerLocked_def split: prod.splits)
  moreover have "ms_stdioSecret m = secret" "ms_auth m = Some v"
    using assms(2) by (auto simp: stdio_new_def NewMcp_def stdio_config_def split: sum.splits if_splits)
  ultimately show ?thesis using p by (auto simp: actorFrom_def Let_def zero_actor_def)
qed

text \<open>With an empty \<^verbatim>\<open>--management-listen\<close> the management is off, and yet the application goes by the
  address of the document, which its status then shows as a listener.\<close>

lemma empty_flag_shown:
  "managementOff [] \<and> a_mgmtEffective (serve_app (flags\<lparr>sf_ManagementListen := []\<rparr>) snap) = sn_managementAddress snap"
proof -
  have "managementOff []" by code_simp
  moreover have "Load (fst (InstallBootstrap Snapshot.NewStore (Some snap))) = Some snap"
    by (simp add: InstallBootstrap_def Swap_def SetBootstrap_def Load_def Let_def Snapshot.NewStore_def)
  ultimately show ?thesis by (simp add: serve_app_def app_New_def Let_def effectiveMgmt_def)
qed

text \<open>After the end nothing listens and the adapter refuses every request.\<close>

lemma stopped:
  "\<not> NtpServerLife.Bound (ps_ntp (fst (serve_stop p)))
   \<and> (case ps_plane (fst (serve_stop p)) of
        NoManagement a m \<Rightarrow> True
      | Managed port life \<Rightarrow> \<not> Rest_Life.Bound life \<and> ms_closed (po_mcp port))"
  by (simp add: serve_stop_def NtpServerLife.Shutdown_def NtpServerLife.Bound_def Rest_Life.Bound_def shutdown_mark_def
      CloseMcp_def case_prod_beta split: plane.splits)

end
